(* ===== verification/Go_Prelude.thy ===== *)
theory Go_Prelude
  imports Main "HOL-Library.Word" "HOL-Library.Monad_Syntax"
begin

text \<open>
  The fragment of Go that the library uses, shared by every component: fixed-width integers,
  slices with their run-time bounds checks, \<open>copy\<close>, buffered channels with the non-blocking
  \<open>select\<close>, contexts and durations. A run-time panic is the value None of an option type.

  Lengths and the type \<open>int\<close> of Go are HOL \<open>int\<close> (the 64-bit targets; every length the
  code computes with is far below the bound), and \<open>time.Duration\<close> is \<open>int\<close> nanoseconds.
\<close>

unbundle bit_operations_syntax

type_synonym u8 = "8 word"
type_synonym u16 = "16 word"
type_synonym u32 = "32 word"
type_synonym u64 = "64 word"
type_synonym bytes = "8 word list"
type_synonym duration = int

named_theorems chan_defs \<open>definitions of the channel operations\<close>
named_theorems slice_defs \<open>definitions of the slice operations\<close>

section \<open>Durations\<close>

definition Microsecond :: duration where "Microsecond = 1000"
definition Millisecond :: duration where "Millisecond = 1000 * Microsecond"
definition Second :: duration where "Second = 1000 * Millisecond"

section \<open>Slices\<close>

text \<open>
  \<open>xs[:n]\<close>, \<open>xs[n:]\<close> and \<open>xs[a:b]\<close>. Go admits an upper bound up to the capacity; the
  model panics as soon as it passes the length, so a proof that no operation panics is stronger
  than what Go needs.
\<close>

definition slice_to :: "'a list \<Rightarrow> int \<Rightarrow> 'a list option" where
  [slice_defs]: "slice_to xs n =
     (if 0 \<le> n \<and> n \<le> int (length xs) then Some (take (nat n) xs) else None)"

definition slice_from :: "'a list \<Rightarrow> int \<Rightarrow> 'a list option" where
  [slice_defs]: "slice_from xs n =
     (if 0 \<le> n \<and> n \<le> int (length xs) then Some (drop (nat n) xs) else None)"

definition slice :: "'a list \<Rightarrow> int \<Rightarrow> int \<Rightarrow> 'a list option" where
  [slice_defs]: "slice xs a b =
     (if 0 \<le> a \<and> a \<le> b \<and> b \<le> int (length xs)
      then Some (take (nat (b - a)) (drop (nat a) xs)) else None)"

definition index_at :: "'a list \<Rightarrow> int \<Rightarrow> 'a option" where
  [slice_defs]: "index_at xs i =
     (if 0 \<le> i \<and> i < int (length xs) then Some (xs ! nat i) else None)"

text \<open>\<open>copy(dst, src)\<close> overwrites a prefix of \<open>dst\<close> and never changes its length.\<close>

definition go_copy :: "'a list \<Rightarrow> 'a list \<Rightarrow> 'a list" where
  "go_copy dst src = take (length dst) src @ drop (length src) dst"

lemma length_go_copy [simp]: "length (go_copy dst src) = length dst"
  by (simp add: go_copy_def)

lemma go_copy_fits: "length src \<le> length dst \<Longrightarrow> go_copy dst src = src @ drop (length src) dst"
  by (simp add: go_copy_def)

lemma take_go_copy:
  "n \<le> length src \<Longrightarrow> length src \<le> length dst \<Longrightarrow> take n (go_copy dst src) = take n src"
  by (simp add: go_copy_def)

lemma slice_to_Some [simp]: "n \<le> length xs \<Longrightarrow> slice_to xs (int n) = Some (take n xs)"
  by (simp add: slice_to_def)

lemma slice_from_Some [simp]: "n \<le> length xs \<Longrightarrow> slice_from xs (int n) = Some (drop n xs)"
  by (simp add: slice_from_def)

lemma index_at_Cons [simp]:
  "index_at (x # xs) 0 = Some x"
  "index_at (x # y # xs) 1 = Some y"
  "index_at (x # y # z # xs) 2 = Some z"
  by (simp_all add: index_at_def)

lemma slice_clip:
  "0 \<le> n \<Longrightarrow> (if n < int (length xs) then slice_to xs n else Some xs) = Some (take (nat n) xs)"
  by (simp add: slice_to_def)

lemma slice_append:
  "a = int (length xs) \<Longrightarrow> b = int (length xs) + int (length ys) \<Longrightarrow> slice (xs @ ys @ zs) a b = Some ys"
  by (simp add: slice_def)

lemma nth_update_if: "xs[i := x] ! j = (if i = j \<and> i < length xs then x else xs ! j)"
  by (cases "i < length xs") (simp_all add: nth_list_update list_update_beyond)

section \<open>Contexts\<close>

datatype ctx_error = Canceled | DeadlineExceeded

text \<open>What an operation sees of its \<open>context.Context\<close>: nil, live, or done with \<open>ctx.Err()\<close>.\<close>

datatype ctx = CtxNil | CtxLive | CtxDone ctx_error

section \<open>Channels\<close>

text \<open>
  A channel: its capacity, the values handed to it and not yet received, the receivers parked
  on it (a send to a parked receiver succeeds even on a full or unbuffered channel), and
  whether it was closed.
\<close>

record 'a chan =
  ch_cap :: nat
  ch_buf :: "'a list"
  ch_parked :: nat
  ch_closed :: bool

definition make_chan :: "nat \<Rightarrow> 'a chan" where
  [chan_defs]: "make_chan n = \<lparr>ch_cap = n, ch_buf = [], ch_parked = 0, ch_closed = False\<rparr>"

definition chan_room :: "'a chan \<Rightarrow> bool" where
  [chan_defs]: "chan_room c \<longleftrightarrow> length (ch_buf c) < ch_cap c + ch_parked c"

text \<open>
  \<open>select { case ch <- x: ... default: ... }\<close>: whether the value was taken. Sending on a closed
  channel panics.
\<close>

definition try_send :: "'a \<Rightarrow> 'a chan \<Rightarrow> ('a chan \<times> bool) option" where
  [chan_defs]: "try_send x c =
     (if ch_closed c then None
      else if chan_room c then Some (c\<lparr>ch_buf := ch_buf c @ [x]\<rparr>, True)
      else Some (c, False))"

text \<open>\<open>close(ch)\<close>; closing a closed channel panics.\<close>

definition close_chan :: "'a chan \<Rightarrow> 'a chan option" where
  [chan_defs]: "close_chan c = (if ch_closed c then None else Some (c\<lparr>ch_closed := True\<rparr>))"

text \<open>
  \<open>x, ok := <-ch\<close>: \<open>Received x\<close>, \<open>Drained\<close> (closed and empty: the zero value with
  \<open>ok = false\<close>) or \<open>WouldBlock\<close>.
\<close>

datatype 'a received = Received 'a | Drained | WouldBlock

definition chan_recv :: "'a chan \<Rightarrow> 'a received \<times> 'a chan" where
  [chan_defs]: "chan_recv c =
     (case ch_buf c of
        x # xs \<Rightarrow> (Received x, c\<lparr>ch_buf := xs, ch_parked := ch_parked c - 1\<rparr>)
      | [] \<Rightarrow> if ch_closed c then (Drained, c) else (WouldBlock, c\<lparr>ch_parked := Suc (ch_parked c)\<rparr>))"

subsection \<open>The contract of a non-blocking queue\<close>

text \<open>
  What the protocol code relies on when it reports errors, hands over frames or delivers
  payloads with \<open>select\<close> and \<open>default\<close>: an open queue never panics, an accepted value is
  appended, a refused one changes nothing, and the value is refused exactly when there is no room.
\<close>

locale nonblocking_queue =
  fixes offer :: "'a \<Rightarrow> 'q \<Rightarrow> ('q \<times> bool) option"
    and items :: "'q \<Rightarrow> 'a list"
    and room :: "'q \<Rightarrow> bool"
    and shut :: "'q \<Rightarrow> bool"
  assumes offer_shut: "shut q \<Longrightarrow> offer x q = None"
    and offer_taken: "\<not> shut q \<Longrightarrow> room q \<Longrightarrow>
      \<exists>q'. offer x q = Some (q', True) \<and> items q' = items q @ [x] \<and> \<not> shut q'"
    and offer_refused: "\<not> shut q \<Longrightarrow> \<not> room q \<Longrightarrow> offer x q = Some (q, False)"
begin

lemma offer_total: "\<not> shut q \<Longrightarrow> \<exists>q' b. offer x q = Some (q', b)"
  using offer_taken offer_refused by blast

lemma offer_items:
  assumes "offer x q = Some (q', b)"
  shows "items q' = (if b then items q @ [x] else items q) \<and> b = room q \<and> \<not> shut q'"
proof -
  have ns: "\<not> shut q" using assms offer_shut by fastforce
  show ?thesis
  proof (cases "room q")
    case True
    with assms offer_taken [OF ns True, of x] show ?thesis by auto
  next
    case False
    with assms offer_refused [OF ns False, of x] ns show ?thesis by auto
  qed
qed

end

interpretation cq: nonblocking_queue try_send ch_buf chan_room ch_closed
  by unfold_locales (auto simp: chan_defs)

text \<open>The channel after a non-blocking send: the value is appended if there is room.\<close>

definition offered :: "'a \<Rightarrow> 'a chan \<Rightarrow> 'a chan" where
  "offered x c = (if chan_room c then c\<lparr>ch_buf := ch_buf c @ [x]\<rparr> else c)"

lemma try_send_offered: "\<not> ch_closed c \<Longrightarrow> try_send x c = Some (offered x c, chan_room c)"
  by (simp add: try_send_def offered_def)

lemma offered_closed [simp]: "ch_closed (offered x c) = ch_closed c"
  by (simp add: offered_def)

lemma offered_cap [simp]: "ch_cap (offered x c) = ch_cap c"
  by (simp add: offered_def)

lemma offered_full: "\<not> chan_room c \<Longrightarrow> offered x c = c"
  by (simp add: offered_def)

lemma offered_buf: "ch_buf (offered x c) = (if chan_room c then ch_buf c @ [x] else ch_buf c)"
  by (simp add: offered_def)

end
