(* ===== verification/Can_Frame.thy ===== *)
theory Can_Frame
  imports Go_Prelude
begin

text \<open>
  The package \<open>can\<close> (can/can.go): bus configuration and its normalisation, frames, the data
  length code, frame construction and validation, and the errors of the driver contract.
\<close>

section \<open>Errors\<close>

text \<open>One constructor per error the package \<open>can\<close> and its in-memory driver return.\<close>

datatype can_error =
    UnsupportedMode u8
  | BrsRequiresFdMode
  | NominalTiming can_error
  | DataTiming can_error
  | TimingFieldZero
  | TimingRequiresFdMode
  | TimingRequiresBothPhases
  | NegativeRxBufferSize int
  | NegativePollingInterval int
  | IdExceedsMaximum u32 u32
  | NegativePayloadLength
  | BrsRequiresFdFrame
  | PayloadExceedsMaximum int int
  | InvalidDlc u8
  | ErrNotOpen
  | ErrAlreadyOpen
  | ErrUnsupported
  | NilContext
  | CtxErr ctx_error
  | EndpointClosed
  | EndpointNotConnected
  | FdFrameInClassicMode

section \<open>Configuration\<close>

text \<open>\<open>Mode\<close> is a \<open>uint8\<close>, so a value that is neither \<open>Classic\<close> nor \<open>FD\<close> exists.\<close>

type_synonym Mode = u8

definition Classic :: Mode where "Classic = 0"
definition FD :: Mode where "FD = 1"

datatype Direction = Transmit | Receive

record BitTiming =
  BRP :: u8
  SEG1 :: u8
  SEG2 :: u8
  SJW :: u8

definition zero_timing :: BitTiming where
  "zero_timing = \<lparr>BRP = 0, SEG1 = 0, SEG2 = 0, SJW = 0\<rparr>"

definition timing_IsZero :: "BitTiming \<Rightarrow> bool" where
  "timing_IsZero t \<longleftrightarrow> t = zero_timing"

definition timing_validate :: "BitTiming \<Rightarrow> can_error + unit" where
  "timing_validate t =
     (if timing_IsZero t then Inr ()
      else if BRP t = 0 \<or> SEG1 t = 0 \<or> SEG2 t = 0 \<or> SJW t = 0 then Inl TimingFieldZero
      else Inr ())"

text \<open>The logger is left out: it only receives diagnostics.\<close>

record Config =
  cfg_Mode :: Mode
  cfg_Channel :: u8
  cfg_NominalBitrate :: u32
  cfg_DataBitrate :: u32
  cfg_RxBufferSize :: int
  cfg_PollingInterval :: duration
  cfg_IncludeTxEcho :: bool
  cfg_BRS :: bool
  cfg_NominalTiming :: BitTiming
  cfg_DataTiming :: BitTiming

definition DefaultConfig :: "Mode \<Rightarrow> u8 \<Rightarrow> Config" where
  "DefaultConfig mode channel =
     \<lparr>cfg_Mode = mode, cfg_Channel = channel, cfg_NominalBitrate = 500000,
      cfg_DataBitrate = 2000000, cfg_RxBufferSize = 1024, cfg_PollingInterval = Millisecond,
      cfg_IncludeTxEcho = False, cfg_BRS = False,
      cfg_NominalTiming = zero_timing, cfg_DataTiming = zero_timing\<rparr>"

text \<open>The defaults filled in by the second half of \<open>Normalized\<close>.\<close>

definition fill_defaults :: "Config \<Rightarrow> can_error + Config" where
  "fill_defaults cfg0 =
     (let cfg1 = (if cfg_NominalBitrate cfg0 = 0 then cfg0\<lparr>cfg_NominalBitrate := 500000\<rparr> else cfg0);
          cfg2 = (if cfg_DataBitrate cfg1 = 0 then cfg1\<lparr>cfg_DataBitrate := 2000000\<rparr> else cfg1);
          cfg3 = (if cfg_RxBufferSize cfg2 = 0 then cfg2\<lparr>cfg_RxBufferSize := 1024\<rparr> else cfg2)
      in if cfg_RxBufferSize cfg3 < 0 then Inl (NegativeRxBufferSize (cfg_RxBufferSize cfg3))
         else let cfg4 = (if cfg_PollingInterval cfg3 = 0
                          then cfg3\<lparr>cfg_PollingInterval := Millisecond\<rparr> else cfg3)
              in if cfg_PollingInterval cfg4 < 0
                 then Inl (NegativePollingInterval (cfg_PollingInterval cfg4))
                 else Inr cfg4)"

definition Normalized :: "Config \<Rightarrow> can_error + Config" where
  "Normalized cfg =
     (if cfg_Mode cfg \<noteq> Classic \<and> cfg_Mode cfg \<noteq> FD then Inl (UnsupportedMode (cfg_Mode cfg))
      else if cfg_Mode cfg = Classic \<and> cfg_BRS cfg then Inl BrsRequiresFdMode
      else case timing_validate (cfg_NominalTiming cfg) of
        Inl e \<Rightarrow> Inl (NominalTiming e)
      | Inr _ \<Rightarrow>
        (case timing_validate (cfg_DataTiming cfg) of
           Inl e \<Rightarrow> Inl (DataTiming e)
         | Inr _ \<Rightarrow>
           if cfg_Mode cfg = Classic \<and>
              (\<not> timing_IsZero (cfg_NominalTiming cfg) \<or> \<not> timing_IsZero (cfg_DataTiming cfg))
           then Inl TimingRequiresFdMode
           else if cfg_Mode cfg = FD \<and>
              timing_IsZero (cfg_NominalTiming cfg) \<noteq> timing_IsZero (cfg_DataTiming cfg)
           then Inl TimingRequiresBothPhases
           else fill_defaults cfg))"

definition Config_Validate :: "Config \<Rightarrow> can_error + unit" where
  "Config_Validate cfg = (case Normalized cfg of Inl e \<Rightarrow> Inl e | Inr _ \<Rightarrow> Inr ())"

section \<open>Frames and the data length code\<close>

record Frame =
  f_Direction :: Direction
  f_ID :: u32
  f_DLC :: u8
  f_Data :: bytes
  f_FD :: bool
  f_BRS :: bool
  f_Extended :: bool
  f_TimestampUS :: u64

record FrameFlags =
  fl_FD :: bool
  fl_BRS :: bool
  fl_Extended :: bool

text \<open>\<open>Data\<close> is an array of 64 bytes.\<close>

definition frame_wf :: "Frame \<Rightarrow> bool" where
  "frame_wf f \<longleftrightarrow> length (f_Data f) = 64"

definition LengthToDLC :: "int \<Rightarrow> u8" where
  "LengthToDLC n =
     (if n \<le> 8 then (if n < 0 then 0 else word_of_int n)
      else if n \<le> 12 then 9
      else if n \<le> 16 then 10
      else if n \<le> 20 then 11
      else if n \<le> 24 then 12
      else if n \<le> 32 then 13
      else if n \<le> 48 then 14
      else 15)"

definition DLCToLength :: "u8 \<Rightarrow> int \<times> bool" where
  "DLCToLength dlc =
     (if dlc \<le> 8 then (uint dlc, True)
      else if dlc > 15 then (0, False)
      else ([12, 16, 20, 24, 32, 48, 64] ! unat (dlc - 9), True))"

definition DataLength :: "Frame \<Rightarrow> int" where
  "DataLength f = fst (DLCToLength (f_DLC f))"

definition ValidDataLength :: "Frame \<Rightarrow> int \<times> bool" where
  "ValidDataLength f =
     (if (\<not> f_FD f \<and> f_DLC f > 8) \<or> (f_FD f \<and> f_DLC f > 15) then (0, False)
      else DLCToLength (f_DLC f))"

definition validateFrame :: "Frame \<Rightarrow> int \<Rightarrow> can_error + unit" where
  "validateFrame f payloadLength =
     (let maxID = (if f_Extended f then 0x1FFFFFFF else 0x7FF)
      in if f_ID f > maxID then Inl (IdExceedsMaximum (f_ID f) maxID)
         else if payloadLength < 0 then Inl NegativePayloadLength
         else if \<not> f_FD f \<and> f_BRS f then Inl BrsRequiresFdFrame
         else let maximum = (if f_FD f then 64 else 8)
              in if payloadLength > maximum then Inl (PayloadExceedsMaximum payloadLength maximum)
                 else Inr ())"

definition zero_frame :: Frame where
  "zero_frame = \<lparr>f_Direction = Transmit, f_ID = 0, f_DLC = 0, f_Data = replicate 64 0,
     f_FD = False, f_BRS = False, f_Extended = False, f_TimestampUS = 0\<rparr>"

definition NewFrame :: "u32 \<Rightarrow> bytes \<Rightarrow> FrameFlags \<Rightarrow> can_error + Frame" where
  "NewFrame ident payload flags =
     (let frame = zero_frame\<lparr>f_ID := ident, f_FD := fl_FD flags, f_BRS := fl_BRS flags,
                             f_Extended := fl_Extended flags\<rparr>
      in case validateFrame frame (int (length payload)) of
           Inl e \<Rightarrow> Inl e
         | Inr _ \<Rightarrow> Inr (frame\<lparr>f_DLC := LengthToDLC (int (length payload)),
                              f_Data := go_copy (f_Data frame) payload\<rparr>))"

definition Frame_Validate :: "Frame \<Rightarrow> can_error + unit" where
  "Frame_Validate f =
     (case ValidDataLength f of (len, ok) \<Rightarrow>
        if \<not> ok then Inl (InvalidDlc (f_DLC f)) else validateFrame f len)"

text \<open>None is Go's nil slice.\<close>

definition Payload :: "Frame \<Rightarrow> bytes option" where
  "Payload f =
     (case ValidDataLength f of (len, ok) \<Rightarrow>
        if \<not> ok then None
        else Some (go_copy (replicate (nat len) 0) (take (nat len) (f_Data f))))"

section \<open>Lemmas\<close>

subsection \<open>The data length code\<close>

text \<open>The payload lengths a CAN FD frame can have.\<close>

definition fd_lengths :: "int list" where
  "fd_lengths = [0, 1, 2, 3, 4, 5, 6, 7, 8, 12, 16, 20, 24, 32, 48, 64]"

text \<open>The length that the code chosen for \<open>n\<close> bytes represents.\<close>

definition dlc_len :: "int \<Rightarrow> int" where
  "dlc_len n = (if n \<le> 8 then n else if n \<le> 12 then 12 else if n \<le> 16 then 16
     else if n \<le> 20 then 20 else if n \<le> 24 then 24 else if n \<le> 32 then 32
     else if n \<le> 48 then 48 else 64)"

lemma small_length_word:
  assumes "0 \<le> n" "n \<le> 8"
  shows "(word_of_int n :: u8) \<le> 8" and "uint (word_of_int n :: u8) = n"
proof -
  show *: "uint (word_of_int n :: u8) = n"
    using assms by (simp add: uint_word_of_int)
  show "(word_of_int n :: u8) \<le> 8"
    using assms * by (simp add: word_le_def)
qed

lemma DLCToLength_LengthToDLC:
  "0 \<le> n \<Longrightarrow> DLCToLength (LengthToDLC n) = (dlc_len n, True)"
  by (simp add: DLCToLength_def LengthToDLC_def dlc_len_def small_length_word)

lemma dlc_len_ge: "n \<le> 64 \<Longrightarrow> n \<le> dlc_len n"
  by (simp add: dlc_len_def)

lemma dlc_len_le: "n \<le> 64 \<Longrightarrow> dlc_len n \<le> 64"
  by (simp add: dlc_len_def)

lemma dlc_len_nonneg: "0 \<le> n \<Longrightarrow> 0 \<le> dlc_len n"
  by (simp add: dlc_len_def)

lemma dlc_len_small [simp]: "n \<le> 8 \<Longrightarrow> dlc_len n = n"
  by (simp add: dlc_len_def)

lemma dlc_len_64 [simp]: "dlc_len 64 = 64"
  by (simp add: dlc_len_def)

lemma dlc_len_fd_lengths:
  assumes "0 \<le> n" "n \<le> 64"
  shows "dlc_len n \<in> set fd_lengths"
proof (cases "n \<le> 8")
  case True
  with assms have "n \<in> {0, 1, 2, 3, 4, 5, 6, 7, 8}" by auto
  with True show ?thesis by (auto simp: dlc_len_def fd_lengths_def)
next
  case False
  then show ?thesis by (simp add: dlc_len_def fd_lengths_def)
qed

lemma dlc_len_least: "k \<in> set fd_lengths \<Longrightarrow> n \<le> k \<Longrightarrow> dlc_len n \<le> k"
  by (auto simp: dlc_len_def fd_lengths_def)

lemma dlc_len_fixed: "k \<in> set fd_lengths \<Longrightarrow> dlc_len k = k"
  by (auto simp: dlc_len_def fd_lengths_def)

lemma LengthToDLC_le_15: "LengthToDLC n \<le> 15"
proof (cases "0 \<le> n \<and> n \<le> 8")
  case True
  then have "(word_of_int n :: u8) \<le> 8" by (simp add: small_length_word)
  also have "(8 :: u8) \<le> 15" by simp
  finally show ?thesis using True by (simp add: LengthToDLC_def)
next
  case False
  then show ?thesis by (auto simp: LengthToDLC_def)
qed

lemma LengthToDLC_le_8: "n \<le> 8 \<Longrightarrow> LengthToDLC n \<le> 8"
  by (cases "0 \<le> n") (simp_all add: LengthToDLC_def small_length_word)

lemma u8_le_15_cases:
  assumes "(d :: u8) \<le> 15"
  shows "d \<in> {0, 1, 2, 3, 4, 5, 6, 7, 8, 9, 10, 11, 12, 13, 14, 15}"
proof -
  have "unat d \<le> 15" using assms by (simp add: word_le_nat_alt)
  then have "unat d \<in> {0..15}" by simp
  then have "unat d \<in> set [0..<16]" by auto
  then have "word_of_nat (unat d) \<in> (word_of_nat ` set [0..<16] :: u8 set)" by blast
  then show ?thesis by (simp add: upt_rec)
qed

lemma LengthToDLC_DLCToLength:
  assumes "dlc \<le> 15"
  shows "LengthToDLC (fst (DLCToLength dlc)) = dlc \<and> snd (DLCToLength dlc)"
  using u8_le_15_cases [OF assms]
  by (elim insertE) (simp_all add: LengthToDLC_def DLCToLength_def)

lemma DLCToLength_range:
  assumes "dlc \<le> 15"
  shows "0 \<le> fst (DLCToLength dlc) \<and> fst (DLCToLength dlc) \<le> 64"
  using u8_le_15_cases [OF assms] by (elim insertE) (simp_all add: DLCToLength_def)

subsection \<open>Frame construction\<close>

lemma DataLength_range: "0 \<le> DataLength f \<and> DataLength f \<le> 64"
proof (cases "f_DLC f \<le> 15")
  case True
  then show ?thesis using DLCToLength_range [of "f_DLC f"] by (simp add: DataLength_def)
next
  case False
  then have "\<not> f_DLC f \<le> 8" by (auto simp: word_le_def)
  with False show ?thesis by (simp add: DataLength_def DLCToLength_def)
qed

definition frame_limits_ok :: "u32 \<Rightarrow> nat \<Rightarrow> FrameFlags \<Rightarrow> bool" where
  "frame_limits_ok ident n flags \<longleftrightarrow>
     ident \<le> (if fl_Extended flags then 0x1FFFFFFF else 0x7FF) \<and>
     (fl_BRS flags \<longrightarrow> fl_FD flags) \<and>
     n \<le> (if fl_FD flags then 64 else 8)"

text \<open>The frame that \<open>NewFrame\<close> builds for an admissible payload.\<close>

definition built_frame :: "u32 \<Rightarrow> bytes \<Rightarrow> FrameFlags \<Rightarrow> Frame" where
  "built_frame ident payload flags =
     \<lparr>f_Direction = Transmit, f_ID = ident, f_DLC = LengthToDLC (int (length payload)),
      f_Data = payload @ replicate (64 - length payload) 0, f_FD = fl_FD flags,
      f_BRS = fl_BRS flags, f_Extended = fl_Extended flags, f_TimestampUS = 0\<rparr>"

lemma NewFrame_ok:
  assumes "frame_limits_ok ident (length payload) flags"
  shows "NewFrame ident payload flags = Inr (built_frame ident payload flags)"
  using assms
  by (auto simp: NewFrame_def validateFrame_def frame_limits_ok_def built_frame_def zero_frame_def
      go_copy_def Let_def split: if_splits)

lemma NewFrame_Inr_iff:
  "(\<exists>f. NewFrame ident payload flags = Inr f) \<longleftrightarrow> frame_limits_ok ident (length payload) flags"
  by (auto simp: NewFrame_def validateFrame_def frame_limits_ok_def zero_frame_def Let_def
      split: if_splits sum.splits)

lemma built_frame_DataLength [simp]:
  "DataLength (built_frame ident payload flags) = dlc_len (int (length payload))"
  by (simp add: DataLength_def built_frame_def DLCToLength_LengthToDLC)

lemma built_frame_ValidDataLength:
  assumes "frame_limits_ok ident (length payload) flags"
  shows "ValidDataLength (built_frame ident payload flags) = (dlc_len (int (length payload)), True)"
  using assms LengthToDLC_le_15 [of "int (length payload)"] LengthToDLC_le_8 [of "int (length payload)"]
  by (auto simp: ValidDataLength_def built_frame_def DLCToLength_LengthToDLC frame_limits_ok_def
      split: if_splits)

lemma built_frame_Validate:
  assumes "frame_limits_ok ident (length payload) flags"
  shows "Frame_Validate (built_frame ident payload flags) = Inr ()"
  using assms built_frame_ValidDataLength [OF assms] dlc_len_le [of "int (length payload)"]
    dlc_len_nonneg [of "int (length payload)"]
  by (auto simp: Frame_Validate_def validateFrame_def built_frame_def frame_limits_ok_def
      Let_def split: if_splits)

definition zero_pad :: "nat \<Rightarrow> bytes \<Rightarrow> bytes" where
  "zero_pad n xs = xs @ replicate (n - length xs) 0"

lemma built_frame_Payload:
  assumes "frame_limits_ok ident (length payload) flags"
  shows "Payload (built_frame ident payload flags)
       = Some (zero_pad (nat (dlc_len (int (length payload)))) payload)"
proof -
  let ?n = "dlc_len (int (length payload))"
  have le: "length payload \<le> 64" using assms by (auto simp: frame_limits_ok_def split: if_splits)
  then have "int (length payload) \<le> ?n" "?n \<le> 64"
    by (simp_all add: dlc_len_ge dlc_len_le)
  then show ?thesis
    using le built_frame_ValidDataLength [OF assms]
    by (simp add: Payload_def go_copy_def built_frame_def zero_pad_def min_def)
qed

subsection \<open>Normalisation\<close>

lemma fill_defaults_Inr:
  "fill_defaults cfg = Inr cfg' \<Longrightarrow>
     cfg_NominalBitrate cfg' \<noteq> 0 \<and> cfg_DataBitrate cfg' \<noteq> 0 \<and> 0 < cfg_RxBufferSize cfg' \<and>
     0 < cfg_PollingInterval cfg' \<and> cfg_Mode cfg' = cfg_Mode cfg \<and> cfg_BRS cfg' = cfg_BRS cfg \<and>
     cfg_NominalTiming cfg' = cfg_NominalTiming cfg \<and> cfg_DataTiming cfg' = cfg_DataTiming cfg"
  by (auto simp: fill_defaults_def Let_def Millisecond_def Microsecond_def split: if_splits)

lemma fill_defaults_fixed:
  "cfg_NominalBitrate cfg \<noteq> 0 \<Longrightarrow> cfg_DataBitrate cfg \<noteq> 0 \<Longrightarrow> 0 < cfg_RxBufferSize cfg \<Longrightarrow>
   0 < cfg_PollingInterval cfg \<Longrightarrow> fill_defaults cfg = Inr cfg"
  by (simp add: fill_defaults_def Let_def)

lemma Normalized_Inr:
  "Normalized cfg = Inr cfg' \<Longrightarrow> fill_defaults cfg = Inr cfg'"
  by (auto simp: Normalized_def split: if_splits sum.splits)

lemma Normalized_same_guards:
  assumes "Normalized cfg = Inr cfg'"
    and "cfg_Mode c = cfg_Mode cfg" "cfg_BRS c = cfg_BRS cfg"
    and "cfg_NominalTiming c = cfg_NominalTiming cfg" "cfg_DataTiming c = cfg_DataTiming cfg"
  shows "Normalized c = fill_defaults c"
  using assms by (auto simp: Normalized_def split: if_splits sum.splits)

section \<open>Properties\<close>

text \<open>For every payload length up to 64 the data length code chosen by LengthToDLC stands
  for the smallest length of a CAN FD frame that holds the payload.\<close>

theorem LengthToDLC_smallest_fit:
  assumes "0 \<le> n" "n \<le> 64"
  shows "\<exists>len. DLCToLength (LengthToDLC n) = (len, True) \<and> n \<le> len \<and> len \<in> set fd_lengths \<and>
    (\<forall>k \<in> set fd_lengths. n \<le> k \<longrightarrow> len \<le> k)"
  using assms
  by (auto simp: DLCToLength_LengthToDLC dlc_len_ge dlc_len_least intro: dlc_len_fd_lengths)

theorem LengthToDLC_smallest_fit_witness:
  "\<exists>len. DLCToLength (LengthToDLC 33) = (len, True) \<and> 33 \<le> len \<and> len \<in> set fd_lengths \<and>
    (\<forall>k \<in> set fd_lengths. 33 \<le> k \<longrightarrow> len \<le> k)"
  by (rule LengthToDLC_smallest_fit) simp_all

text \<open>The sixteen data length codes and the sixteen CAN FD lengths correspond one to one, and
  DLCToLength refuses every other byte.\<close>

theorem DLC_bijection:
  "if dlc \<le> 15 then snd (DLCToLength dlc) \<and> fst (DLCToLength dlc) \<in> set fd_lengths \<and>
      LengthToDLC (fst (DLCToLength dlc)) = dlc
   else DLCToLength dlc = (0, False)"
proof (cases "dlc \<le> 15")
  case True
  then have "fst (DLCToLength dlc) \<in> set fd_lengths"
    using u8_le_15_cases [OF True] by (elim insertE) (simp_all add: DLCToLength_def fd_lengths_def)
  then show ?thesis using LengthToDLC_DLCToLength [OF True] True by simp
next
  case False
  then have "\<not> dlc \<le> 8" using order_trans [of dlc 8 15] by auto
  with False show ?thesis by (simp add: DLCToLength_def)
qed

text \<open>C28: NewFrame accepts a payload exactly when the identifier, the flags and the length are
  within the limits of the frame format; the frame it builds passes Validate, and its Payload is
  the given one, zero-filled up to the length its code stands for.\<close>

theorem NewFrame_characterised:
  "case NewFrame ident payload flags of
     Inl e \<Rightarrow> \<not> frame_limits_ok ident (length payload) flags
   | Inr f \<Rightarrow> frame_limits_ok ident (length payload) flags \<and> frame_wf f \<and>
       Frame_Validate f = Inr () \<and> f_ID f = ident \<and> f_FD f = fl_FD flags \<and>
       f_BRS f = fl_BRS flags \<and> f_Extended f = fl_Extended flags \<and>
       Payload f = Some (zero_pad (nat (DataLength f)) payload)"
proof (cases "frame_limits_ok ident (length payload) flags")
  case True
  then have "length payload \<le> 64" by (auto simp: frame_limits_ok_def split: if_splits)
  then show ?thesis
    using True
    by (simp add: NewFrame_ok built_frame_Validate built_frame_Payload)
       (simp add: built_frame_def frame_wf_def)
next
  case False
  then obtain e where "NewFrame ident payload flags = Inl e"
    using NewFrame_Inr_iff [of ident payload flags] by (cases "NewFrame ident payload flags") auto
  with False show ?thesis by simp
qed

text \<open>Normalising a bus configuration is idempotent, and a normalised configuration has a
  known mode, bit rates, a receive buffer and a polling interval that are not zero, bit-rate
  switching only in FD mode, and both or none of the FD timings.\<close>

theorem Normalized_idempotent:
  assumes "Normalized cfg = Inr c"
  shows "Normalized c = Inr c \<and> Config_Validate c = Inr () \<and> cfg_Mode c \<in> {Classic, FD} \<and>
    cfg_NominalBitrate c \<noteq> 0 \<and> cfg_DataBitrate c \<noteq> 0 \<and> 0 < cfg_RxBufferSize c \<and>
    0 < cfg_PollingInterval c \<and> (cfg_BRS c \<longrightarrow> cfg_Mode c = FD) \<and>
    (timing_IsZero (cfg_NominalTiming c) \<longleftrightarrow> timing_IsZero (cfg_DataTiming c))"
proof -
  note f = fill_defaults_Inr [OF Normalized_Inr [OF assms]]
  have "Normalized c = fill_defaults c"
    using f by (intro Normalized_same_guards [OF assms]) auto
  also have "\<dots> = Inr c" using f by (intro fill_defaults_fixed) auto
  finally have n: "Normalized c = Inr c" .
  have "cfg_Mode c \<in> {Classic, FD}" "cfg_BRS c \<longrightarrow> cfg_Mode c = FD"
    "timing_IsZero (cfg_NominalTiming c) \<longleftrightarrow> timing_IsZero (cfg_DataTiming c)"
    using n by (auto simp: Normalized_def split: if_splits sum.splits)
  with n f show ?thesis by (simp add: Config_Validate_def)
qed

theorem Normalized_idempotent_witness:
  "Normalized (DefaultConfig FD 1) = Inr (DefaultConfig FD 1) \<and>
   Config_Validate (DefaultConfig FD 1) = Inr ()"
proof -
  have "Normalized (DefaultConfig FD 1) = Inr (DefaultConfig FD 1)"
    by (simp add: Normalized_def DefaultConfig_def FD_def Classic_def timing_validate_def
        timing_IsZero_def fill_defaults_def Let_def Millisecond_def Microsecond_def)
  from Normalized_idempotent [OF this] show ?thesis by simp
qed

end
