(* ===== verification/Driver_Common.thy ===== *)
theory Driver_Common
  imports Can_Frame
begin

text \<open>
  What the Windows drivers of the backend package share: the checks \<open>bus.Send\<close> makes before a frame
  reaches a device (bus.go), \<open>dlcLen\<close> (common.go), the outcome of a device's \<open>write\<close> and the disposal
  of a received message. The DLL a driver talks to is a parameter: a function from the message the
  driver passes to the reply.
\<close>

section \<open>Sending\<close>

text \<open>The guards of \<open>bus.Send\<close> up to the lock, in their order.\<close>

definition bus_send_checks :: "ctx \<Rightarrow> Frame \<Rightarrow> can_error + unit" where
  "bus_send_checks c frame =
     (case c of
        CtxNil \<Rightarrow> Inl NilContext
      | CtxDone e \<Rightarrow> Inl (CtxErr e)
      | CtxLive \<Rightarrow> if f_Extended frame then Inl ErrUnsupported else Frame_Validate frame)"

definition dlcLen :: "u8 \<Rightarrow> int" where
  "dlcLen dlc = fst (DLCToLength dlc)"

text \<open>\<open>frame.Data[:frame.DataLength()]\<close>; the bound is at most 64, the length of the array.\<close>

definition frame_data :: "Frame \<Rightarrow> bytes" where
  "frame_data f = take (nat (DataLength f)) (f_Data f)"

datatype drv_error =
    DriverNotOpen
  | NotInFDMode
  | FDUnsupported
  | UnknownMode
  | DataTooLong int
  | ProcNotLoaded
  | ApiCallFailed

text \<open>
  What a call of \<open>write\<close> does: the error it returns, the message it passed to the DLL, and the frame
  it handed to the bus-load meter (\<open>recordBusTx\<close>, which sets the direction).
\<close>

record 'm written =
  w_error :: "drv_error option"
  w_message :: "'m option"
  w_recorded :: "Frame option"

definition refuse :: "drv_error \<Rightarrow> 'm written" where
  "refuse e = \<lparr>w_error = Some e, w_message = None, w_recorded = None\<rparr>"

definition transmit :: "('m \<Rightarrow> bool) \<Rightarrow> 'm \<Rightarrow> Frame \<Rightarrow> 'm written" where
  "transmit accepted m frame =
     (if accepted m
      then \<lparr>w_error = None, w_message = Some m, w_recorded = Some (frame\<lparr>f_Direction := Transmit\<rparr>)\<rparr>
      else \<lparr>w_error = Some ApiCallFailed, w_message = Some m, w_recorded = None\<rparr>)"

section \<open>Receiving\<close>

text \<open>
  A received message is dropped, counted by the bus-load meter only (an echo of an own transmission
  when the configuration does not ask for echoes), or counted and published to the subscribers.
\<close>

datatype disposal = Dropped | Observed Frame | Published Frame

definition dispose :: "Config \<Rightarrow> Frame \<Rightarrow> disposal" where
  "dispose cfg frame =
     (if f_Direction frame = Transmit \<and> \<not> cfg_IncludeTxEcho cfg then Observed frame
      else Published frame)"

fun disposed_frame :: "disposal \<Rightarrow> Frame option" where
  "disposed_frame Dropped = None"
| "disposed_frame (Observed f) = Some f"
| "disposed_frame (Published f) = Some f"

section \<open>Lemmas\<close>

named_theorems driver_simps \<open>definitions shared by the drivers\<close>

lemma disposed_dispose [simp]: "disposed_frame (dispose cfg f) = Some f"
  by (simp add: dispose_def)

text \<open>A frame that passes the checks of \<open>bus.Send\<close>.\<close>

definition sendable :: "Frame \<Rightarrow> bool" where
  "sendable f \<longleftrightarrow> bus_send_checks CtxLive f = Inr () \<and> length (f_Data f) = 64"

lemma sendable_dlc: "sendable f \<Longrightarrow> f_DLC f \<le> 15 \<and> (\<not> f_FD f \<longrightarrow> f_DLC f \<le> 8)"
proof -
  assume "sendable f"
  then have *: "f_FD f \<longrightarrow> \<not> f_DLC f > 15" "\<not> f_FD f \<longrightarrow> \<not> f_DLC f > 8"
    by (auto simp: sendable_def bus_send_checks_def Frame_Validate_def ValidDataLength_def
        split: if_splits)
  have "(8 :: u8) \<le> 15" by simp
  with * show ?thesis by (cases "f_FD f") (auto simp: not_less intro: order_trans)
qed

lemma sendable_id: "sendable f \<Longrightarrow> f_ID f \<le> 0x7FF"
  by (auto simp: sendable_def bus_send_checks_def Frame_Validate_def validateFrame_def Let_def
      split: if_splits prod.splits)

lemma sendable_flags: "sendable f \<Longrightarrow> \<not> f_Extended f \<and> (f_BRS f \<longrightarrow> f_FD f)"
  by (auto simp: sendable_def bus_send_checks_def Frame_Validate_def validateFrame_def Let_def
      split: if_splits prod.splits)

lemma length_frame_data: "sendable f \<Longrightarrow> int (length (frame_data f)) = DataLength f"
  using DataLength_range [of f] by (auto simp: frame_data_def sendable_def min_def nat_le_iff)

lemma frame_data_le: "sendable f \<Longrightarrow> length (frame_data f) \<le> 64"
  using length_frame_data [of f] DataLength_range [of f] by linarith

lemma sendable_roundtrip_dlc: "sendable f \<Longrightarrow> LengthToDLC (int (length (frame_data f))) = f_DLC f"
  using LengthToDLC_DLCToLength [of "f_DLC f"] sendable_dlc [of f] length_frame_data [of f]
  by (simp add: DataLength_def)

lemma classic_length: "sendable f \<Longrightarrow> \<not> f_FD f \<Longrightarrow> DataLength f = uint (f_DLC f)"
  using sendable_dlc [of f] by (simp add: DataLength_def DLCToLength_def)

lemma classic_data_le: "sendable f \<Longrightarrow> \<not> f_FD f \<Longrightarrow> length (frame_data f) \<le> 8"
proof -
  assume *: "sendable f" "\<not> f_FD f"
  then have "f_DLC f \<le> 8" using sendable_dlc [of f] by blast
  then have "uint (f_DLC f) \<le> uint (8 :: u8)" by (simp only: word_le_def)
  then show ?thesis using length_frame_data [of f] classic_length [of f] * by simp
qed

text \<open>The frame a receiver sees when a sent frame comes back as a confirmation at time \<open>ts\<close>.\<close>

definition confirmation :: "Frame \<Rightarrow> u64 \<Rightarrow> Frame" where
  "confirmation f ts = f\<lparr>f_Direction := Transmit, f_TimestampUS := ts,
     f_Data := frame_data f @ replicate (64 - length (frame_data f)) 0\<rparr>"

lemma copy_into_zeros:
  "length xs \<le> n \<Longrightarrow> go_copy (replicate n 0) xs = xs @ replicate (n - length xs) (0 :: u8)"
  by (simp add: go_copy_def)

lemma copy_padded:
  "length xs \<le> m \<Longrightarrow> m \<le> n \<Longrightarrow>
   go_copy (replicate n 0) (xs @ replicate (m - length xs) 0) = xs @ replicate (n - length xs) (0 :: u8)"
  by (simp add: go_copy_def flip: replicate_add)

section \<open>Draining a queue\<close>

text \<open>
  The drivers that empty the receive queue before their read loop starts read until the library reports
  it empty, at most \<open>n\<close> times. The result is the replies left over; None means that the given replies
  were not enough to return.
\<close>

fun drain_until :: "('r \<Rightarrow> bool) \<Rightarrow> nat \<Rightarrow> 'r list \<Rightarrow> 'r list option" where
  "drain_until stop 0 rs = Some rs"
| "drain_until stop (Suc n) [] = None"
| "drain_until stop (Suc n) (r # rs) = (if stop r then Some rs else drain_until stop n rs)"

lemma drain_until_returns: "n \<le> length rs \<Longrightarrow> \<exists>k \<le> n. drain_until stop n rs = Some (drop k rs)"
proof (induction n arbitrary: rs)
  case (Suc n)
  obtain r rest where rs: "rs = r # rest" "n \<le> length rest" using Suc.prems by (cases rs) auto
  show ?case
  proof (cases "stop r")
    case True
    then show ?thesis by (intro exI [of _ 1]) (simp add: rs)
  next
    case False
    obtain k where "k \<le> n" "drain_until stop n rest = Some (drop k rest)" using Suc.IH [OF rs(2)] by blast
    then show ?thesis using False by (intro exI [of _ "Suc k"]) (simp add: rs)
  qed
qed simp

end
