(* ===== verification/Device_Runtime.thy ===== *)
theory Device_Runtime
  imports Driver_Common
begin

text \<open>
  What every vendor driver keeps while it is open (common.go): the configuration, the flags of
  \<open>lifecycle\<close>, the context of the read loop, the receive channel and the fan-out, and the procedures
  of its DLL. None stands for a run-time panic and for a wait that never ends.

  The ledger \<open>rt_held\<close> is not in the code: it says which resources are acquired and not yet released,
  and \<open>rt_faults\<close> which were acquired twice or released without being held. It lets the lifecycle
  theorems say that nothing leaks.
\<close>

section \<open>Resources\<close>

datatype res = ResContext | ResRxChan | ResFanout | ResReadLoop | ResSession | ResLibrary | ResDriver
  | ResPort | ResChannel | ResDevice | ResStatistics

record runtime =
  rt_cfg :: Config
  rt_canType :: Mode
  rt_initialized :: bool
  rt_running :: bool
  rt_cancel :: "bool option"
  rt_rxChan :: "bool option"
  rt_fanout :: "bool option"
  rt_dll :: "(string \<Rightarrow> bool) option"
  rt_held :: "res set"
  rt_faults :: "res set"

text \<open>
  \<open>rt_cancel\<close> is None for a nil function and Some b for a context that is cancelled or not;
  \<open>rt_rxChan\<close> and \<open>rt_fanout\<close> are None for nil and otherwise say whether the channel is open and the
  goroutine of the fan-out alive; \<open>rt_dll\<close> is None while no DLL is loaded and otherwise says which
  procedures it exports.
\<close>

definition acquire :: "res \<Rightarrow> 'a runtime_scheme \<Rightarrow> 'a runtime_scheme" where
  "acquire r s = s\<lparr>rt_held := insert r (rt_held s),
     rt_faults := (if r \<in> rt_held s then insert r (rt_faults s) else rt_faults s)\<rparr>"

definition release :: "res \<Rightarrow> 'a runtime_scheme \<Rightarrow> 'a runtime_scheme" where
  "release r s = s\<lparr>rt_held := rt_held s - {r},
     rt_faults := (if r \<in> rt_held s then rt_faults s else insert r (rt_faults s))\<rparr>"

section \<open>The lifecycle of a read loop\<close>

definition markInitialized :: "'a runtime_scheme \<Rightarrow> 'a runtime_scheme" where
  "markInitialized s = s\<lparr>rt_initialized := True\<rparr>"

definition lifecycle_start :: "'a runtime_scheme \<Rightarrow> 'a runtime_scheme" where
  "lifecycle_start s =
     (if \<not> rt_initialized s \<or> rt_running s then s else acquire ResReadLoop (s\<lparr>rt_running := True\<rparr>))"

definition call_cancel :: "'a runtime_scheme \<Rightarrow> 'a runtime_scheme option" where
  "call_cancel s =
     (case rt_cancel s of
        None \<Rightarrow> None
      | Some True \<Rightarrow> Some s
      | Some False \<Rightarrow> Some (release ResContext (s\<lparr>rt_cancel := Some True\<rparr>)))"

text \<open>The read loop returns once its context is cancelled; without that the wait does not end.\<close>

definition cancelAndWait :: "'a runtime_scheme \<Rightarrow> (bool \<times> 'a runtime_scheme) option" where
  "cancelAndWait s =
     do { s' \<leftarrow> (if rt_cancel s = None then Some (s\<lparr>rt_initialized := False\<rparr>)
                 else call_cancel (s\<lparr>rt_initialized := False\<rparr>));
          if \<not> rt_running s' then Some (rt_initialized s, s')
          else if rt_cancel s' = Some True
          then Some (rt_initialized s, release ResReadLoop (s'\<lparr>rt_running := False\<rparr>))
          else None }"

section \<open>Channels and fan-out\<close>

text \<open>\<open>context.WithCancel\<close>, the receive channel and the fan-out a driver makes when it opens.\<close>

definition prepare_runtime :: "'a runtime_scheme \<Rightarrow> 'a runtime_scheme" where
  "prepare_runtime s = acquire ResFanout (acquire ResRxChan (acquire ResContext
     (s\<lparr>rt_cancel := Some False, rt_rxChan := Some True, rt_fanout := Some True\<rparr>)))"

text \<open>
  \<open>fanout.Close\<close> waits for its goroutine, which ends when the context is cancelled or the receive
  channel is closed; the method of a nil pointer panics.
\<close>

definition fanout_Close :: "'a runtime_scheme \<Rightarrow> 'a runtime_scheme option" where
  "fanout_Close s =
     (case rt_fanout s of
        None \<Rightarrow> None
      | Some False \<Rightarrow> Some s
      | Some True \<Rightarrow>
          if rt_cancel s = Some True \<or> rt_rxChan s = Some False
          then Some (release ResFanout (s\<lparr>rt_fanout := Some False\<rparr>)) else None)"

text \<open>
  \<open>close(rxChan)\<close>: closing a nil or closed channel panics, and so would the next send of a read loop
  that still runs.
\<close>

definition close_rxChan :: "'a runtime_scheme \<Rightarrow> 'a runtime_scheme option" where
  "close_rxChan s =
     (if rt_rxChan s = Some True \<and> \<not> rt_running s
      then Some (release ResRxChan (s\<lparr>rt_rxChan := Some False\<rparr>)) else None)"

definition drop_fanout :: "'a runtime_scheme \<Rightarrow> 'a runtime_scheme option" where
  "drop_fanout s =
     (if rt_fanout s = None then Some s
      else do { s \<leftarrow> fanout_Close s; Some (s\<lparr>rt_fanout := None\<rparr>) })"

definition drop_rxChan :: "'a runtime_scheme \<Rightarrow> 'a runtime_scheme option" where
  "drop_rxChan s =
     (if rt_rxChan s = None then Some s
      else do { s \<leftarrow> close_rxChan s; Some (s\<lparr>rt_rxChan := None\<rparr>) })"

section \<open>Procedures of a DLL\<close>

text \<open>
  The outside of an \<open>Open\<close>: whether the DLL of a driver loads, what it exports, which calls succeed,
  the number a call hands back, the channels
  Vector grants access to, whether the process-wide Toomoss session is free, and whether the
  DLL takes a message that is written.
\<close>

record dll_env =
  de_loads :: "string \<Rightarrow> bool"
  de_exports :: "string \<Rightarrow> bool"
  de_ok :: "string \<Rightarrow> bool"
  de_value :: "string \<Rightarrow> int"
  de_mask :: u64
  de_session_free :: bool
  de_accepts :: bool

text \<open>\<open>LazyProc.Call\<close> panics on a nil procedure and on one the DLL does not export.\<close>

definition has_proc :: "'a runtime_scheme \<Rightarrow> string \<Rightarrow> bool" where
  "has_proc s x = (case rt_dll s of None \<Rightarrow> False | Some exports \<Rightarrow> exports x)"

definition proc_call :: "dll_env \<Rightarrow> 'a runtime_scheme \<Rightarrow> string \<Rightarrow> bool option" where
  "proc_call e s x = (if has_proc s x then Some (de_ok e x) else None)"

text \<open>A call whose result the code ignores.\<close>

definition proc_run :: "'a runtime_scheme \<Rightarrow> string \<Rightarrow> unit option" where
  "proc_run s x = (if has_proc s x then Some () else None)"

section \<open>The interface \<open>device\<close>\<close>

text \<open>The methods of the interface that the bus calls, as a value; None is a panic.\<close>

record 's device =
  dv_initialize :: "dll_env \<Rightarrow> 's \<Rightarrow> (bool \<times> 's) option"
  dv_start :: "'s \<Rightarrow> (bool \<times> 's) option"
  dv_stop :: "'s \<Rightarrow> 's option"
  dv_write :: "dll_env \<Rightarrow> 's \<Rightarrow> Frame \<Rightarrow> drv_error option"
  dv_subscribable :: "'s \<Rightarrow> bool"
  dv_isFD :: "'s \<Rightarrow> bool"
  dv_config :: "'s \<Rightarrow> Config"
  dv_setBRS :: "bool \<Rightarrow> 's \<Rightarrow> 's"

section \<open>Well-formed runtimes\<close>

text \<open>
  A driver is either closed, with nothing held, or initialised, with its full set of resources; the
  read loop adds one. The DLL it has loaded, if any, exports what the driver calls. \<open>F\<close> are the
  resources it may release without holding them.
\<close>

definition dll_ok :: "string list \<Rightarrow> 'a runtime_scheme \<Rightarrow> bool" where
  "dll_ok procs s \<longleftrightarrow> (case rt_dll s of None \<Rightarrow> True | Some exports \<Rightarrow> list_all exports procs)"

definition runtime_ok :: "res set \<Rightarrow> res set \<Rightarrow> string list \<Rightarrow> 'a runtime_scheme \<Rightarrow> bool" where
  "runtime_ok R F procs s \<longleftrightarrow>
     rt_faults s \<subseteq> F \<and> dll_ok procs s \<and>
     (if rt_initialized s
      then rt_cancel s = Some False \<and> rt_rxChan s = Some True \<and> rt_fanout s = Some True \<and>
        rt_dll s \<noteq> None \<and>
        rt_held s = R \<union> {ResContext, ResRxChan, ResFanout} \<union> (if rt_running s then {ResReadLoop} else {})
      else rt_cancel s \<noteq> Some False \<and> rt_rxChan s = None \<and> rt_fanout s = None \<and> \<not> rt_running s \<and>
        rt_held s = {})"

text \<open>In between: the channels are made and the driver holds \<open>R\<close> besides.\<close>

definition runtime_prepared :: "res set \<Rightarrow> res set \<Rightarrow> string list \<Rightarrow> 'a runtime_scheme \<Rightarrow> bool" where
  "runtime_prepared R F procs s \<longleftrightarrow>
     rt_faults s \<subseteq> F \<and> dll_ok procs s \<and>
     rt_cancel s = Some False \<and> rt_rxChan s = Some True \<and> rt_fanout s = Some True \<and>
     \<not> rt_initialized s \<and> \<not> rt_running s \<and> rt_held s = R \<union> {ResContext, ResRxChan, ResFanout}"

named_theorems life_defs \<open>definitions that the proofs about opening and closing unfold\<close>

lemmas [life_defs] = acquire_def release_def markInitialized_def lifecycle_start_def call_cancel_def
  cancelAndWait_def prepare_runtime_def fanout_Close_def close_rxChan_def drop_fanout_def
  drop_rxChan_def has_proc_def proc_call_def proc_run_def dll_ok_def

section \<open>Total correctness\<close>

text \<open>\<open>returns m Q\<close>: the computation neither panics nor hangs, and its result satisfies \<open>Q\<close>.\<close>

definition returns :: "'a option \<Rightarrow> ('a \<Rightarrow> bool) \<Rightarrow> bool" where
  "returns m Q \<longleftrightarrow> (\<exists>x. m = Some x \<and> Q x)"

lemma returns_simps [simp]:
  "returns (Some x) Q = Q x"
  "\<not> returns None Q"
  "returns (Option.bind m f) Q = returns m (\<lambda>x. returns (f x) Q)"
  by (auto simp: returns_def bind_eq_Some_conv)

lemma returns_if [simp]: "returns (if b then m else n) Q = (if b then returns m Q else returns n Q)"
  by simp

lemma returns_mono: "returns m P \<Longrightarrow> (\<And>x. P x \<Longrightarrow> Q x) \<Longrightarrow> returns m Q"
  by (auto simp: returns_def)

lemma returnsD: "returns m Q \<Longrightarrow> m = Some x \<Longrightarrow> Q x"
  by (simp add: returns_def)

lemma returnsE: "returns m Q \<Longrightarrow> (\<And>x. m = Some x \<Longrightarrow> Q x \<Longrightarrow> P) \<Longrightarrow> P"
  by (auto simp: returns_def)

section \<open>Stopping\<close>

text \<open>
  Every \<open>stop\<close> begins with \<open>cancelAndWait\<close> and the fan-out. On an initialised driver that leaves the
  receive channel and what the vendor holds; on a closed one it changes nothing.
\<close>

definition stopped :: "res set \<Rightarrow> 'a runtime_scheme \<Rightarrow> 'a runtime_scheme" where
  "stopped R s = s\<lparr>rt_initialized := False, rt_running := False, rt_cancel := Some True,
     rt_fanout := None, rt_held := insert ResRxChan R\<rparr>"

definition vendor_res :: "res set" where
  "vendor_res = {ResSession, ResLibrary, ResDriver, ResPort, ResChannel, ResDevice, ResStatistics}"

lemma vendor_resI [simp]:
  "{} \<subseteq> vendor_res" "insert r R \<subseteq> vendor_res \<longleftrightarrow> r \<in> vendor_res \<and> R \<subseteq> vendor_res"
  "ResSession \<in> vendor_res" "ResLibrary \<in> vendor_res" "ResDriver \<in> vendor_res"
  "ResPort \<in> vendor_res" "ResChannel \<in> vendor_res" "ResDevice \<in> vendor_res"
  "ResStatistics \<in> vendor_res"
  by (simp_all add: vendor_res_def)

lemma stop_live:
  assumes "runtime_ok R F procs s" "rt_initialized s" "R \<subseteq> vendor_res"
  shows "do { (w, s) \<leftarrow> cancelAndWait s; s \<leftarrow> drop_fanout s; f w s } = f True (stopped R s)"
proof -
  have R: "ResContext \<notin> R" "ResRxChan \<notin> R" "ResFanout \<notin> R" "ResReadLoop \<notin> R"
    using assms(3) by (auto simp: vendor_res_def)
  note [simp] = R assms(2)
  have *: "rt_cancel s = Some False" "rt_rxChan s = Some True" "rt_fanout s = Some True"
    "rt_held s = R \<union> {ResContext, ResRxChan, ResFanout} \<union> (if rt_running s then {ResReadLoop} else {})"
    using assms(1) by (simp_all add: runtime_ok_def)
  note [simp] = *
  have "s\<lparr>rt_initialized := False, rt_cancel := Some True, rt_running := False,
      rt_held := insert ResRxChan R, rt_fanout := None\<rparr> = stopped R s"
    and "\<not> rt_running s \<Longrightarrow> s\<lparr>rt_initialized := False, rt_cancel := Some True,
      rt_held := insert ResRxChan R, rt_fanout := None\<rparr> = stopped R s"
    unfolding stopped_def by (cases s; simp)+
  then show ?thesis
    by (cases "rt_running s")
      (simp_all add: cancelAndWait_def call_cancel_def drop_fanout_def fanout_Close_def
        release_def insert_Diff_if Un_insert_right insert_commute)
qed

lemma stop_closed:
  assumes "runtime_ok R F procs s" "\<not> rt_initialized s"
  shows "do { (w, s) \<leftarrow> cancelAndWait s; s \<leftarrow> drop_fanout s; f w s } = f False s"
proof -
  have same: "s\<lparr>rt_initialized := False\<rparr> = s" using assms(2) by (cases s) simp
  have "rt_cancel s = None \<or> rt_cancel s = Some True" "\<not> rt_running s" "rt_fanout s = None"
    using assms by (cases "rt_cancel s"; auto simp: runtime_ok_def)+
  then show ?thesis using assms(2)
    by (auto simp: same cancelAndWait_def call_cancel_def drop_fanout_def)
qed

lemma drop_rxChan_closed: "runtime_ok R F procs s \<Longrightarrow> \<not> rt_initialized s \<Longrightarrow> drop_rxChan s = Some s"
  by (simp add: runtime_ok_def drop_rxChan_def)

end
