(* ===== verification/Bus_Device.thy ===== *)
theory Bus_Device
  imports Device_Runtime
begin

text \<open>
  The interface \<open>device\<close> of common.go and the bus that owns one (bus.go). The locale \<open>bus_device\<close> states
  what the bus relies on; every driver interprets it in its own theory. The operations of the bus are
  cut where it gives up its lock or calls the device, so that any interleaving of \<open>Open\<close>, \<open>Close\<close>,
  \<open>Send\<close> and \<open>Subscribe\<close> from several goroutines is a sequence of actions.
\<close>

section \<open>Operations of the bus\<close>

datatype bus_error =
    BusErr can_error
  | InitializeFailed
  | StartFailed
  | WriteFailed drv_error

text \<open>
  \<open>bu_opening\<close> tells how far an \<open>Open\<close> is that holds the lock \<open>mu\<close>, and \<open>bu_closing\<close> whether a \<open>Close\<close>
  that holds \<open>sendMu\<close> has marked the bus closed, given \<open>mu\<close> back, and still has to stop the device.
\<close>

datatype open_phase = NotOpening | DeviceInitialized | OpenFailing bus_error

record 's bus =
  bu_device :: 's
  bu_open :: bool
  bu_opening :: open_phase
  bu_closing :: bool

definition newBus :: "'s \<Rightarrow> 's bus" where
  "newBus d = \<lparr>bu_device = d, bu_open = False, bu_opening = NotOpening, bu_closing = False\<rparr>"

datatype bus_action =
    OpenBegin ctx dll_env
  | OpenStart
  | OpenFail
  | CloseBegin
  | CloseStop
  | SendFrame ctx ctx dll_env Frame
  | SubscribeTo

text \<open>What the caller gets: nothing yet, the result of the call, or whether a subscription is live.\<close>

datatype bus_reply = Pending | Replied "bus_error option" | Subscribed bool

definition open_begin :: "'s device \<Rightarrow> ctx \<Rightarrow> dll_env \<Rightarrow> 's bus \<Rightarrow> (bus_reply \<times> 's bus) option" where
  "open_begin D c e b =
     (case c of
        CtxNil \<Rightarrow> Some (Replied (Some (BusErr NilContext)), b)
      | CtxDone err \<Rightarrow> Some (Replied (Some (BusErr (CtxErr err))), b)
      | CtxLive \<Rightarrow>
          if bu_open b then Some (Replied (Some (BusErr ErrAlreadyOpen)), b)
          else do { (good, d) \<leftarrow> dv_initialize D e (bu_device b);
                    Some (Pending, b\<lparr>bu_device := d, bu_opening :=
                      (if good then DeviceInitialized else OpenFailing InitializeFailed)\<rparr>) })"

definition open_start :: "'s device \<Rightarrow> 's bus \<Rightarrow> (bus_reply \<times> 's bus) option" where
  "open_start D b =
     do { (good, d) \<leftarrow> dv_start D (bu_device b);
          if good then Some (Replied None, b\<lparr>bu_device := d, bu_open := True, bu_opening := NotOpening\<rparr>)
          else Some (Pending, b\<lparr>bu_device := d, bu_opening := OpenFailing StartFailed\<rparr>) }"

definition open_fail :: "'s device \<Rightarrow> bus_error \<Rightarrow> 's bus \<Rightarrow> (bus_reply \<times> 's bus) option" where
  "open_fail D err b =
     do { d \<leftarrow> dv_stop D (bu_device b);
          Some (Replied (Some err), b\<lparr>bu_device := d, bu_opening := NotOpening\<rparr>) }"

definition close_begin :: "'s bus \<Rightarrow> (bus_reply \<times> 's bus) option" where
  "close_begin b =
     (if \<not> bu_open b then Some (Replied None, b)
      else Some (Pending, b\<lparr>bu_open := False, bu_closing := True\<rparr>))"

definition close_stop :: "'s device \<Rightarrow> 's bus \<Rightarrow> (bus_reply \<times> 's bus) option" where
  "close_stop D b =
     do { d \<leftarrow> dv_stop D (bu_device b); Some (Replied None, b\<lparr>bu_device := d, bu_closing := False\<rparr>) }"

text \<open>The second context is what the caller's context has become when the device has returned.\<close>

definition bus_send :: "'s device \<Rightarrow> ctx \<Rightarrow> ctx \<Rightarrow> dll_env \<Rightarrow> Frame \<Rightarrow> 's bus \<Rightarrow> (bus_reply \<times> 's bus) option" where
  "bus_send D c c' e frame b =
     (case bus_send_checks c frame of
        Inl err \<Rightarrow> Some (Replied (Some (BusErr err)), b)
      | Inr _ \<Rightarrow>
          if \<not> bu_open b then Some (Replied (Some (BusErr ErrNotOpen)), b)
          else let d = dv_setBRS D (f_BRS frame) (bu_device b); b = b\<lparr>bu_device := d\<rparr> in
            case dv_write D e d frame of
              Some err \<Rightarrow> Some (Replied (Some (WriteFailed err)), b)
            | None \<Rightarrow> Some (Replied (case c' of CtxDone err \<Rightarrow> Some (BusErr (CtxErr err)) | _ \<Rightarrow> None), b))"

definition bus_subscribe :: "'s device \<Rightarrow> 's bus \<Rightarrow> (bus_reply \<times> 's bus) option" where
  "bus_subscribe D b = Some (Subscribed (bu_open b \<and> dv_subscribable D (bu_device b)), b)"

section \<open>Interleavings\<close>

text \<open>
  \<open>mu\<close> is free when no \<open>Open\<close> is in progress, \<open>sendMu\<close> when no \<open>Close\<close> is. With \<open>serial\<close> no \<open>Open\<close> begins
  while a \<open>Close\<close> is still stopping the device.
\<close>

fun bus_enabled :: "bool \<Rightarrow> bus_action \<Rightarrow> 's bus \<Rightarrow> bool" where
  "bus_enabled serial (OpenBegin c e) b = (bu_opening b = NotOpening \<and> (serial \<longrightarrow> \<not> bu_closing b))"
| "bus_enabled serial OpenStart b = (bu_opening b = DeviceInitialized)"
| "bus_enabled serial OpenFail b = (case bu_opening b of OpenFailing err \<Rightarrow> True | _ \<Rightarrow> False)"
| "bus_enabled serial CloseBegin b = (bu_opening b = NotOpening \<and> \<not> bu_closing b)"
| "bus_enabled serial CloseStop b = bu_closing b"
| "bus_enabled serial (SendFrame c c' e f) b = (bu_opening b = NotOpening \<and> \<not> bu_closing b)"
| "bus_enabled serial SubscribeTo b = (bu_opening b = NotOpening)"

fun bus_do :: "'s device \<Rightarrow> bus_action \<Rightarrow> 's bus \<Rightarrow> (bus_reply \<times> 's bus) option" where
  "bus_do D (OpenBegin c e) b = open_begin D c e b"
| "bus_do D OpenStart b = open_start D b"
| "bus_do D OpenFail b =
     (case bu_opening b of OpenFailing err \<Rightarrow> open_fail D err b | _ \<Rightarrow> Some (Pending, b))"
| "bus_do D CloseBegin b = close_begin b"
| "bus_do D CloseStop b = close_stop D b"
| "bus_do D (SendFrame c c' e f) b = bus_send D c c' e f b"
| "bus_do D SubscribeTo b = bus_subscribe D b"

text \<open>The environment of an action keeps the documented behaviour of the DLLs.\<close>

fun action_env :: "(dll_env \<Rightarrow> bool) \<Rightarrow> bus_action \<Rightarrow> bool" where
  "action_env good (OpenBegin c e) = good e"
| "action_env good _ = True"

text \<open>A run of enabled actions, with the replies they give.\<close>

inductive bus_run :: "'s device \<Rightarrow> (dll_env \<Rightarrow> bool) \<Rightarrow> bool \<Rightarrow> 's bus \<Rightarrow>
    (bus_action \<times> bus_reply) list \<Rightarrow> 's bus \<Rightarrow> bool" for D good serial b where
  run_nil: "bus_run D good serial b [] b"
| run_step: "bus_run D good serial b acts b' \<Longrightarrow> bus_enabled serial a b' \<Longrightarrow> action_env good a \<Longrightarrow>
    bus_do D a b' = Some (r, b'') \<Longrightarrow> bus_run D good serial b (acts @ [(a, r)]) b''"

text \<open>The same as a function, for concrete runs.\<close>

fun bus_replay :: "'s device \<Rightarrow> bool \<Rightarrow> bus_action list \<Rightarrow> 's bus \<Rightarrow> (bus_reply list \<times> 's bus) option" where
  "bus_replay D serial [] b = Some ([], b)"
| "bus_replay D serial (a # acts) b =
     (if bus_enabled serial a b
      then do { (r, b) \<leftarrow> bus_do D a b; (rs, b) \<leftarrow> bus_replay D serial acts b; Some (r # rs, b) }
      else None)"

text \<open>\<open>Open\<close> and \<open>Close\<close> without interference, as bus.go has them.\<close>

definition bus_Open :: "'s device \<Rightarrow> ctx \<Rightarrow> dll_env \<Rightarrow> 's bus \<Rightarrow> (bus_error option \<times> 's bus) option" where
  "bus_Open D c e b =
     (case c of
        CtxNil \<Rightarrow> Some (Some (BusErr NilContext), b)
      | CtxDone err \<Rightarrow> Some (Some (BusErr (CtxErr err)), b)
      | CtxLive \<Rightarrow>
          if bu_open b then Some (Some (BusErr ErrAlreadyOpen), b)
          else do { (good, d) \<leftarrow> dv_initialize D e (bu_device b);
            if \<not> good then do { d \<leftarrow> dv_stop D d; Some (Some InitializeFailed, b\<lparr>bu_device := d\<rparr>) }
            else do { (good, d) \<leftarrow> dv_start D d;
              if \<not> good then do { d \<leftarrow> dv_stop D d; Some (Some StartFailed, b\<lparr>bu_device := d\<rparr>) }
              else Some (None, b\<lparr>bu_device := d, bu_open := True\<rparr>) } })"

definition bus_Close :: "'s device \<Rightarrow> 's bus \<Rightarrow> 's bus option" where
  "bus_Close D b =
     (if \<not> bu_open b then Some b
      else do { d \<leftarrow> dv_stop D (bu_device b); Some (b\<lparr>bu_device := d, bu_open := False\<rparr>) })"

inductive_cases bus_run_nilE: "bus_run D good serial b [] b'"
inductive_cases bus_run_snocE: "bus_run D good serial b (acts @ [x]) b'"

text \<open>They are what the actions come to when nothing happens in between.\<close>

definition finish_open :: "'s device \<Rightarrow> 's bus \<Rightarrow> (bus_reply \<times> 's bus) option" where
  "finish_open D b =
     (case bu_opening b of
        NotOpening \<Rightarrow> Some (Pending, b)
      | OpenFailing err \<Rightarrow> open_fail D err b
      | DeviceInitialized \<Rightarrow>
          do { (r, b) \<leftarrow> open_start D b;
               case bu_opening b of OpenFailing err \<Rightarrow> open_fail D err b | _ \<Rightarrow> Some (r, b) })"

lemma bus_Open_steps:
  assumes "bu_opening b = NotOpening"
  shows "map_option (\<lambda>(r, b). (Replied r, b)) (bus_Open D c e b) =
    do { (r, b) \<leftarrow> open_begin D c e b; if r = Pending then finish_open D b else Some (r, b) }"
proof -
  have same: "b\<lparr>bu_device := d, bu_opening := NotOpening\<rparr> = b\<lparr>bu_device := d\<rparr>"
    "b\<lparr>bu_device := d, bu_open := x, bu_opening := NotOpening\<rparr> = b\<lparr>bu_device := d, bu_open := x\<rparr>" for d x
    using assms by (cases b; simp)+
  note defs = bus_Open_def open_begin_def finish_open_def open_start_def open_fail_def same
  show ?thesis
  proof (cases "c = CtxLive \<and> \<not> bu_open b")
    case False
    then show ?thesis by (auto simp: defs split: ctx.split)
  next
    case live: True
    show ?thesis
    proof (cases "dv_initialize D e (bu_device b)")
      case (Some x)
      obtain good d where x: "x = (good, d)" by fastforce
      show ?thesis
      proof (cases good)
        case False
        then show ?thesis using live Some x by (cases "dv_stop D d") (simp_all add: defs)
      next
        case True
        show ?thesis
        proof (cases "dv_start D d")
          case (Some y)
          then show ?thesis using live x True \<open>dv_initialize D e (bu_device b) = Some x\<close>
            using assms by (cases y; cases "fst y"; cases "dv_stop D (snd y)") (simp_all add: defs)
        qed (use live x True Some in \<open>simp add: defs\<close>)
      qed
    qed (use live in \<open>simp add: defs\<close>)
  qed
qed

lemma bus_Close_steps:
  assumes "\<not> bu_closing b"
  shows "map_option (Pair (Replied None)) (bus_Close D b) =
    do { (r, b) \<leftarrow> close_begin b; if r = Pending then close_stop D b else Some (r, b) }"
proof -
  have "b\<lparr>bu_open := False, bu_closing := True, bu_device := d, bu_closing := False\<rparr> =
      b\<lparr>bu_device := d, bu_open := False\<rparr>" for d
    using assms by (cases b) simp
  then show ?thesis
    by (cases "dv_stop D (bu_device b)") (auto simp: bus_Close_def close_begin_def close_stop_def)
qed

section \<open>The contract of a device\<close>

text \<open>
  \<open>ok\<close> is the invariant of the device, \<open>live\<close> says whether it is initialised, \<open>held\<close> and \<open>faults\<close> are its
  ledger, and \<open>good\<close> the documented behaviour of its DLL.
\<close>

locale bus_device =
  fixes D :: "'s device" and ok :: "'s \<Rightarrow> bool" and live :: "'s \<Rightarrow> bool"
    and held :: "'s \<Rightarrow> res set" and faults :: "'s \<Rightarrow> res set" and good :: "dll_env \<Rightarrow> bool"
  assumes initialize_law: "ok s \<Longrightarrow> good e \<Longrightarrow>
      returns (dv_initialize D e s) (\<lambda>(b, s'). ok s' \<and> b = live s' \<and> (live s \<longrightarrow> s' = s))"
    and start_law: "ok s \<Longrightarrow> returns (dv_start D s) (\<lambda>(b, s'). ok s' \<and> b = live s \<and> live s' = live s)"
    and stop_law: "ok s \<Longrightarrow>
      returns (dv_stop D s) (\<lambda>s'. ok s' \<and> \<not> live s' \<and> dv_config D s' = dv_config D s)"
    and setBRS_law: "ok (dv_setBRS D b s) = ok s" "live (dv_setBRS D b s) = live s"
      "dv_config D (dv_setBRS D b s) = (dv_config D s)\<lparr>cfg_BRS := b\<rparr>"
    and write_law: "ok s \<Longrightarrow> dv_write D e s f = Some DriverNotOpen \<longleftrightarrow> \<not> live s"
    and subscribable_law: "ok s \<Longrightarrow> dv_subscribable D s = live s"
    and idle_law: "ok s \<Longrightarrow> \<not> live s \<Longrightarrow> held s = {}"
    and fault_law: "ok s \<Longrightarrow> faults s \<subseteq> {ResDriver}"
    and reject_law: "\<not> live s \<Longrightarrow> Normalized (dv_config D s) = Inl err \<Longrightarrow>
      dv_initialize D e s = Some (False, s)"
begin

definition bus_ok :: "'s bus \<Rightarrow> bool" where
  "bus_ok b \<longleftrightarrow> ok (bu_device b) \<and> (bu_opening b \<noteq> NotOpening \<longrightarrow> \<not> bu_open b) \<and>
     (live (bu_device b) \<longrightarrow> bu_open b \<or> bu_closing b \<or> bu_opening b \<noteq> NotOpening)"

definition bus_serial :: "'s bus \<Rightarrow> bool" where
  "bus_serial b \<longleftrightarrow> bus_ok b \<and> (bu_open b \<longrightarrow> live (bu_device b) \<and> \<not> bu_closing b) \<and>
     (bu_closing b \<longrightarrow> bu_opening b = NotOpening) \<and>
     (bu_opening b = DeviceInitialized \<longrightarrow> live (bu_device b)) \<and> bu_opening b \<noteq> OpenFailing StartFailed"

lemma newBus_ok: "ok d \<Longrightarrow> \<not> live d \<Longrightarrow> bus_serial (newBus d)"
  by (simp add: newBus_def bus_ok_def bus_serial_def)

lemma begin_ok: "bus_ok b \<Longrightarrow> bu_opening b = NotOpening \<Longrightarrow> good e \<Longrightarrow>
   returns (open_begin D c e b) (\<lambda>(r, b'). bus_ok b' \<and> (bus_serial b \<and> \<not> bu_closing b \<longrightarrow> bus_serial b'))"
  using initialize_law [of "bu_device b" e]
  by (auto simp: open_begin_def bus_ok_def bus_serial_def split: ctx.split elim!: returns_mono)

lemma start_ok: "bus_ok b \<Longrightarrow> bu_opening b = DeviceInitialized \<Longrightarrow>
   returns (open_start D b) (\<lambda>(r, b'). bus_ok b' \<and> (bus_serial b \<longrightarrow> bus_serial b'))"
  using start_law [of "bu_device b"]
  by (auto simp: open_start_def bus_ok_def bus_serial_def elim!: returns_mono)

lemma fail_ok: "bus_ok b \<Longrightarrow> bu_opening b = OpenFailing err \<Longrightarrow>
   returns (open_fail D err b) (\<lambda>(r, b'). bus_ok b' \<and> (bus_serial b \<longrightarrow> bus_serial b'))"
  using stop_law [of "bu_device b"]
  by (auto simp: open_fail_def bus_ok_def bus_serial_def elim!: returns_mono)

lemma close_begin_ok: "bus_ok b \<Longrightarrow> bu_opening b = NotOpening \<Longrightarrow> \<not> bu_closing b \<Longrightarrow>
   returns (close_begin b) (\<lambda>(r, b'). bus_ok b' \<and> (bus_serial b \<longrightarrow> bus_serial b'))"
  by (auto simp: close_begin_def bus_ok_def bus_serial_def)

lemma close_stop_ok: "bus_ok b \<Longrightarrow> bu_closing b \<Longrightarrow>
   returns (close_stop D b) (\<lambda>(r, b'). bus_ok b' \<and> (bus_serial b \<longrightarrow> bus_serial b'))"
  using stop_law [of "bu_device b"]
  by (auto simp: close_stop_def bus_ok_def bus_serial_def elim!: returns_mono)

lemma send_ok: "bus_ok b \<Longrightarrow>
   returns (bus_send D c c' e f b) (\<lambda>(r, b'). bus_ok b' \<and> (bus_serial b \<longrightarrow> bus_serial b'))"
  by (auto simp: bus_send_def bus_ok_def bus_serial_def setBRS_law Let_def split: sum.split option.split)

lemma bus_do_ok:
  assumes "bus_ok b" "bus_enabled serial a b" "action_env good a"
  shows "returns (bus_do D a b) (\<lambda>(r, b'). bus_ok b' \<and> (serial \<and> bus_serial b \<longrightarrow> bus_serial b'))"
proof (cases a)
  case (OpenBegin c e)
  then show ?thesis using begin_ok [of b e c] assms by (auto elim!: returns_mono)
next
  case OpenStart
  then show ?thesis using start_ok [of b] assms by (auto elim!: returns_mono)
next
  case OpenFail
  then show ?thesis using fail_ok [of b] assms by (auto split: open_phase.splits elim!: returns_mono)
next
  case CloseBegin
  then show ?thesis using close_begin_ok [of b] assms by (auto elim!: returns_mono)
next
  case CloseStop
  then show ?thesis using close_stop_ok [of b] assms by (auto elim!: returns_mono)
next
  case (SendFrame c c' e f)
  then show ?thesis using send_ok [of b c c' e f] assms by (auto elim!: returns_mono)
next
  case SubscribeTo
  then show ?thesis using assms by (auto simp: bus_subscribe_def)
qed

lemma run_ok:
  assumes "bus_run D good serial b acts b'" "bus_ok b"
  shows "bus_ok b' \<and> (serial \<and> bus_serial b \<longrightarrow> bus_serial b')"
  using assms
proof (induction rule: bus_run.induct)
  case (run_step acts b1 a r b2)
  then show ?case using bus_do_ok [of b1 serial a] by (auto simp: returns_def)
qed simp

text \<open>What every interleaving keeps.\<close>

lemma run_safe:
  assumes "bus_run D good serial (newBus d) acts b" "ok d" "\<not> live d"
  shows "bus_enabled serial a b \<Longrightarrow> action_env good a \<Longrightarrow> bus_do D a b \<noteq> None"
    and "faults (bu_device b) \<subseteq> {ResDriver}"
    and "\<not> bu_open b \<Longrightarrow> \<not> bu_closing b \<Longrightarrow> bu_opening b = NotOpening \<Longrightarrow> held (bu_device b) = {}"
proof -
  have "bus_ok b" using run_ok [OF assms(1)] newBus_ok [OF assms(2,3)] by (simp add: bus_serial_def)
  then show "bus_enabled serial a b \<Longrightarrow> action_env good a \<Longrightarrow> bus_do D a b \<noteq> None"
    and "faults (bu_device b) \<subseteq> {ResDriver}"
    and "\<not> bu_open b \<Longrightarrow> \<not> bu_closing b \<Longrightarrow> bu_opening b = NotOpening \<Longrightarrow> held (bu_device b) = {}"
    using bus_do_ok [of b serial a] fault_law idle_law by (auto simp: returns_def bus_ok_def)
qed

text \<open>What holds besides when no \<open>Open\<close> overlaps a \<open>Close\<close>.\<close>

lemma run_serial:
  assumes "bus_run D good True (newBus d) acts b" "ok d" "\<not> live d"
  shows "bus_serial b"
  using run_ok [OF assms(1)] newBus_ok [OF assms(2,3)] by (simp add: bus_serial_def)

lemma serial_send: "bus_serial b \<Longrightarrow> bu_open b \<Longrightarrow>
   bus_send D c c' e f b \<noteq> Some (Replied (Some (WriteFailed DriverNotOpen)), b')"
  using write_law [of "dv_setBRS D (f_BRS f) (bu_device b)" e f]
  by (auto simp: bus_send_def bus_serial_def bus_ok_def setBRS_law Let_def
      split: sum.splits option.splits ctx.splits)

lemma serial_subscribe: "bus_serial b \<Longrightarrow> bus_subscribe D b = Some (Subscribed (bu_open b), b)"
  using subscribable_law [of "bu_device b"] by (auto simp: bus_subscribe_def bus_serial_def bus_ok_def)

text \<open>A configuration that \<open>Normalized\<close> rejects locks a closed bus for good.\<close>

definition locked :: "'s bus \<Rightarrow> bool" where
  "locked b \<longleftrightarrow> ok (bu_device b) \<and> \<not> bu_open b \<and> \<not> live (bu_device b) \<and>
     (\<exists>err. Normalized (dv_config D (bu_device b)) = Inl err) \<and>
     (bu_opening b = NotOpening \<or> bu_opening b = OpenFailing InitializeFailed)"

lemma locked_step:
  assumes "locked b" "bus_enabled serial a b" "bus_do D a b = Some (r, b')"
  shows "locked b' \<and> (\<forall>c e. a = OpenBegin c e \<longrightarrow> r \<noteq> Replied None) \<and> (a = OpenStart \<longrightarrow> r \<noteq> Replied None)"
proof -
  obtain err where n: "Normalized (dv_config D (bu_device b)) = Inl err" using assms(1) by (auto simp: locked_def)
  show ?thesis
  proof (cases a)
    case (OpenBegin c e)
    then show ?thesis using assms reject_law [OF _ n]
      by (auto simp: locked_def open_begin_def split: ctx.splits)
  next
    case OpenFail
    then show ?thesis using assms stop_law [of "bu_device b"]
      by (auto simp: locked_def open_fail_def returns_def bind_eq_Some_conv)
  next
    case CloseStop
    then show ?thesis using assms stop_law [of "bu_device b"]
      by (auto simp: locked_def close_stop_def returns_def bind_eq_Some_conv)
  next
    case (SendFrame c c' e f)
    then show ?thesis using assms by (auto simp: locked_def bus_send_def split: sum.splits)
  qed (use assms in \<open>auto simp: locked_def close_begin_def bus_subscribe_def\<close>)
qed

lemma locked_run:
  assumes "bus_run D good serial b acts b'" "locked b"
  shows "locked b' \<and> (\<forall>c e. (OpenBegin c e, Replied None) \<notin> set acts) \<and> (OpenStart, Replied None) \<notin> set acts"
  using assms
proof (induction rule: bus_run.induct)
  case (run_step acts b1 a r b2)
  then show ?case using locked_step [of b1 serial a r b2] by auto
qed simp

text \<open>A \<open>Close\<close> whose device is stopped only after another \<open>Open\<close> has returned.\<close>

lemma overtaken_close:
  assumes "bus_serial b" "bu_open b" "good e"
  shows "\<exists>b'. bus_replay D False [CloseBegin, OpenBegin CtxLive e, OpenStart, CloseStop] b =
      Some ([Pending, Pending, Replied None, Replied None], b') \<and>
    bus_ok b' \<and> bu_open b' \<and> \<not> live (bu_device b') \<and> bu_opening b' = NotOpening \<and> \<not> bu_closing b'"
proof -
  let ?d = "bu_device b"
  have ok: "ok ?d" "live ?d" "bu_opening b = NotOpening" "\<not> bu_closing b"
    using assms by (auto simp: bus_serial_def bus_ok_def)
  have init: "dv_initialize D e ?d = Some (True, ?d)"
    using initialize_law [OF ok(1) assms(3)] ok(2) by (auto simp: returns_def)
  obtain d1 where start: "dv_start D ?d = Some (True, d1)" "ok d1"
    using start_law [OF ok(1)] ok(2) by (auto simp: returns_def)
  obtain d2 where stop: "dv_stop D d1 = Some d2" "ok d2" "\<not> live d2"
    using stop_law [OF start(2)] by (auto simp: returns_def)
  show ?thesis
    using assms(2) ok init start stop
    by (simp add: close_begin_def open_begin_def open_start_def close_stop_def bus_ok_def)
qed

lemma dead_bus_refuses:
  assumes "ok (bu_device b)" "bu_open b" "\<not> live (bu_device b)"
  shows "bus_send_checks CtxLive f = Inr () \<Longrightarrow> \<exists>b'. bus_send D CtxLive c e f b =
      Some (Replied (Some (WriteFailed DriverNotOpen)), b')"
    and "open_begin D CtxLive e b = Some (Replied (Some (BusErr ErrAlreadyOpen)), b)"
    and "bus_subscribe D b = Some (Subscribed False, b)"
proof -
  have "dv_write D e (dv_setBRS D (f_BRS f) (bu_device b)) f = Some DriverNotOpen"
    using assms write_law setBRS_law by simp
  then show "bus_send_checks CtxLive f = Inr () \<Longrightarrow> \<exists>b'. bus_send D CtxLive c e f b =
      Some (Replied (Some (WriteFailed DriverNotOpen)), b')"
    using assms by (simp add: bus_send_def)
qed (use assms subscribable_law in \<open>auto simp: open_begin_def bus_subscribe_def\<close>)

text \<open>A frame with BRS, sent on an open bus in classic mode, locks the bus once it is closed.\<close>

lemma brs_locks:
  assumes "bus_serial b" "bu_open b" "cfg_Mode (dv_config D (bu_device b)) = Classic"
    "bus_send_checks CtxLive f = Inr ()" "f_BRS f"
    "bus_replay D True [SendFrame CtxLive c e f, CloseBegin, CloseStop] b = Some (rs, b')"
  shows "locked b'"
proof -
  have ok: "ok (bu_device b)" "bu_opening b = NotOpening" "\<not> bu_closing b"
    using assms by (auto simp: bus_serial_def bus_ok_def)
  let ?d = "dv_setBRS D True (bu_device b)"
  have d: "ok ?d" "dv_config D ?d = (dv_config D (bu_device b))\<lparr>cfg_BRS := True\<rparr>"
    using ok setBRS_law by simp_all
  obtain d' where stop: "dv_stop D ?d = Some d'" "ok d'" "\<not> live d'" "dv_config D d' = dv_config D ?d"
    using stop_law [OF d(1)] by (auto simp: returns_def)
  obtain r where "bus_send D CtxLive c e f b = Some (r, b\<lparr>bu_device := ?d\<rparr>)"
    using assms by (cases "dv_write D e ?d f") (auto simp: bus_send_def Let_def)
  then have "b' = b\<lparr>bu_device := d', bu_open := False, bu_closing := False\<rparr>"
    using assms(2,6) ok stop(1) by (auto simp: close_begin_def close_stop_def)
  moreover have "\<exists>err. Normalized (dv_config D d') = Inl err"
    using assms(3) stop(4) d(2) by (simp add: Normalized_def)
  ultimately show ?thesis using stop ok by (simp add: locked_def)
qed

end

end
