(* ===== verification/Auto_Device.thy ===== *)
theory Auto_Device
  imports Bus_Device
begin

text \<open>
  Two ways to make a device out of devices. A Go value of the interface type \<open>device\<close> holds one of
  several drivers: a sum, with every method passed on. \<open>autoDevice\<close> (auto_driver.go) tries candidates
  in order and becomes the first that opens in the wanted mode. Both keep the contract of
  \<open>bus_device\<close> when their parts do.
\<close>

section \<open>Dispatch\<close>

definition on_left :: "('r \<times> 'a) option \<Rightarrow> ('r \<times> ('a + 'b)) option" where
  "on_left m = map_option (\<lambda>(r, s). (r, Inl s)) m"

definition on_right :: "('r \<times> 'b) option \<Rightarrow> ('r \<times> ('a + 'b)) option" where
  "on_right m = map_option (\<lambda>(r, s). (r, Inr s)) m"

definition sum_device :: "'a device \<Rightarrow> 'b device \<Rightarrow> ('a + 'b) device" where
  "sum_device D E =
     \<lparr>dv_initialize = (\<lambda>e. case_sum (\<lambda>s. on_left (dv_initialize D e s)) (\<lambda>s. on_right (dv_initialize E e s))),
      dv_start = case_sum (\<lambda>s. on_left (dv_start D s)) (\<lambda>s. on_right (dv_start E s)),
      dv_stop = case_sum (\<lambda>s. map_option Inl (dv_stop D s)) (\<lambda>s. map_option Inr (dv_stop E s)),
      dv_write = (\<lambda>e. case_sum (dv_write D e) (dv_write E e)),
      dv_subscribable = case_sum (dv_subscribable D) (dv_subscribable E),
      dv_isFD = case_sum (dv_isFD D) (dv_isFD E),
      dv_config = case_sum (dv_config D) (dv_config E),
      dv_setBRS = (\<lambda>b. case_sum (\<lambda>s. Inl (dv_setBRS D b s)) (\<lambda>s. Inr (dv_setBRS E b s)))\<rparr>"

lemma returns_map [simp]:
  "returns (map_option f m) Q = returns m (\<lambda>x. Q (f x))"
  "returns (on_left l) P = returns l (\<lambda>(x, s). P (x, Inl s))"
  "returns (on_right r) R = returns r (\<lambda>(x, s). R (x, Inr s))"
  by (auto simp: returns_def on_left_def on_right_def split: prod.splits)

locale two_devices =
  fst: bus_device D okD liveD heldD faultsD goodD + snd: bus_device E okE liveE heldE faultsE goodE
  for D :: "'a device" and okD liveD heldD faultsD goodD
    and E :: "'b device" and okE liveE heldE faultsE goodE

sublocale two_devices \<subseteq> sum: bus_device "sum_device D E" "case_sum okD okE" "case_sum liveD liveE"
  "case_sum heldD heldE" "case_sum faultsD faultsE" "\<lambda>e. goodD e \<and> goodE e"
proof unfold_locales
  fix s e
  assume "case_sum okD okE s" "goodD e \<and> goodE e"
  then show "returns (dv_initialize (sum_device D E) e s)
    (\<lambda>(b, s'). case_sum okD okE s' \<and> b = case_sum liveD liveE s' \<and> (case_sum liveD liveE s \<longrightarrow> s' = s))"
    using fst.initialize_law snd.initialize_law
    by (auto simp: sum_device_def split: sum.splits elim!: returns_mono)
next
  fix s
  assume ok: "case_sum okD okE s"
  show "returns (dv_start (sum_device D E) s)
    (\<lambda>(b, s'). case_sum okD okE s' \<and> b = case_sum liveD liveE s \<and> case_sum liveD liveE s' = case_sum liveD liveE s)"
    using ok fst.start_law snd.start_law by (auto simp: sum_device_def split: sum.splits elim!: returns_mono)
  show "returns (dv_stop (sum_device D E) s) (\<lambda>s'. case_sum okD okE s' \<and> \<not> case_sum liveD liveE s' \<and>
      dv_config (sum_device D E) s' = dv_config (sum_device D E) s)"
    using ok fst.stop_law snd.stop_law by (auto simp: sum_device_def split: sum.splits elim!: returns_mono)
next
  fix s e err
  assume "\<not> case_sum liveD liveE s" "Normalized (dv_config (sum_device D E) s) = Inl err"
  then show "dv_initialize (sum_device D E) e s = Some (False, s)"
    using fst.reject_law snd.reject_law
    by (auto simp: sum_device_def on_left_def on_right_def split: sum.splits)
qed (use fst.setBRS_law snd.setBRS_law fst.write_law snd.write_law fst.subscribable_law
    snd.subscribable_law fst.idle_law snd.idle_law fst.fault_law snd.fault_law
    in \<open>auto simp: sum_device_def split: sum.splits\<close>)

section \<open>Automatic selection\<close>

record 'd autoCandidate =
  ac_Name :: string
  ac_New :: "(Config \<Rightarrow> 'd option) option"

text \<open>A nil factory and a nil device are None; \<open>errors\<close>, \<open>stats\<close> and \<open>busLoad\<close> only pass the call on.\<close>

record 'd autoDevice =
  ad_canType :: Mode
  ad_cfg :: Config
  ad_candidates :: "'d autoCandidate list"
  ad_driver :: "'d option"
  ad_selectedName :: string

definition newAutoDevice :: "Config \<Rightarrow> 'd autoCandidate list \<Rightarrow> 'd autoCandidate list \<Rightarrow> 'd autoDevice" where
  "newAutoDevice cfg defaults candidates =
     \<lparr>ad_canType = cfg_Mode cfg, ad_cfg = cfg,
      ad_candidates = (if candidates = [] then defaults else candidates), ad_driver = None,
      ad_selectedName = []\<rparr>"

text \<open>
  The loop over the candidates. It returns the one selected and, for every one rejected before it,
  the name with what is left of the device: the entries of \<open>errs\<close> in the code.
\<close>

fun auto_try :: "'d device \<Rightarrow> dll_env \<Rightarrow> Config \<Rightarrow> 'd autoCandidate list \<Rightarrow>
    ((string \<times> 'd) option \<times> (string \<times> 'd option) list) option" where
  "auto_try D e cfg [] = Some (None, [])"
| "auto_try D e cfg (c # cs) =
     (case Option.bind (ac_New c) (\<lambda>new. new cfg) of
        None \<Rightarrow> do { (sel, errs) \<leftarrow> auto_try D e cfg cs; Some (sel, (ac_Name c, None) # errs) }
      | Some dev \<Rightarrow>
          do { (good, dev) \<leftarrow> dv_initialize D e dev;
               if good \<and> dv_isFD D dev = (cfg_Mode cfg = FD) then Some (Some (ac_Name c, dev), [])
               else do { dev \<leftarrow> dv_stop D dev;
                         (sel, errs) \<leftarrow> auto_try D e cfg cs;
                         Some (sel, (ac_Name c, Some dev) # errs) } })"

text \<open>A candidate opens when it makes a device that initialises in the wanted mode.\<close>

definition candidate_opens :: "'d device \<Rightarrow> dll_env \<Rightarrow> Config \<Rightarrow> 'd autoCandidate \<Rightarrow> bool" where
  "candidate_opens D e cfg c =
     (case Option.bind (ac_New c) (\<lambda>new. new cfg) of
        None \<Rightarrow> False
      | Some dev \<Rightarrow> (case dv_initialize D e dev of
            None \<Rightarrow> False
          | Some (good, d) \<Rightarrow> good \<and> dv_isFD D d = (cfg_Mode cfg = FD)))"

lemma auto_try_find:
  "auto_try D e cfg cs = Some (sel, errs) \<Longrightarrow>
   map_option fst sel = map_option ac_Name (List.find (candidate_opens D e cfg) cs) \<and>
   map fst errs = map ac_Name (takeWhile (\<lambda>c. \<not> candidate_opens D e cfg c) cs)"
proof (induction cs arbitrary: errs)
  case (Cons c cs)
  then show ?case
    by (auto simp: candidate_opens_def bind_eq_Some_conv split: option.splits prod.splits if_splits)
qed simp

definition auto_initialize :: "'d device \<Rightarrow> dll_env \<Rightarrow> 'd autoDevice \<Rightarrow> (bool \<times> 'd autoDevice) option" where
  "auto_initialize D e a =
     (if ad_driver a \<noteq> None then Some (True, a)
      else case Normalized (ad_cfg a) of
        Inl err \<Rightarrow> Some (False, a)
      | Inr cfg \<Rightarrow>
        (let a = a\<lparr>ad_cfg := cfg, ad_canType := cfg_Mode cfg\<rparr>
         in do { (sel, errs) \<leftarrow> auto_try D e cfg (ad_candidates a);
                 case sel of
                   None \<Rightarrow> Some (False, a)
                 | Some (name, dev) \<Rightarrow> Some (True, a\<lparr>ad_driver := Some dev, ad_selectedName := name\<rparr>) }))"

definition auto_start :: "'d device \<Rightarrow> 'd autoDevice \<Rightarrow> (bool \<times> 'd autoDevice) option" where
  "auto_start D a =
     (case ad_driver a of
        None \<Rightarrow> Some (False, a)
      | Some dev \<Rightarrow> do { (good, dev) \<leftarrow> dv_start D dev; Some (good, a\<lparr>ad_driver := Some dev\<rparr>) })"

definition auto_stop :: "'d device \<Rightarrow> 'd autoDevice \<Rightarrow> ('d option \<times> 'd autoDevice) option" where
  "auto_stop D a =
     (case ad_driver a of
        None \<Rightarrow> Some (None, a\<lparr>ad_selectedName := []\<rparr>)
      | Some dev \<Rightarrow>
          do { dev \<leftarrow> dv_stop D dev; Some (Some dev, a\<lparr>ad_driver := None, ad_selectedName := []\<rparr>) })"

definition auto_device :: "'d device \<Rightarrow> 'd autoDevice device" where
  "auto_device D =
     \<lparr>dv_initialize = auto_initialize D, dv_start = auto_start D,
      dv_stop = (\<lambda>a. map_option snd (auto_stop D a)),
      dv_write = (\<lambda>e a f. case ad_driver a of None \<Rightarrow> Some DriverNotOpen | Some dev \<Rightarrow> dv_write D e dev f),
      dv_subscribable = (\<lambda>a. case ad_driver a of None \<Rightarrow> False | Some dev \<Rightarrow> dv_subscribable D dev),
      dv_isFD = (\<lambda>a. case ad_driver a of None \<Rightarrow> ad_canType a = FD | Some dev \<Rightarrow> dv_isFD D dev),
      dv_config = ad_cfg,
      dv_setBRS = (\<lambda>b a. a\<lparr>ad_cfg := (ad_cfg a)\<lparr>cfg_BRS := b\<rparr>,
                           ad_driver := map_option (dv_setBRS D b) (ad_driver a)\<rparr>)\<rparr>"

text \<open>\<open>stop\<close> drops the device it stopped; \<open>auto_stop\<close> returns it, to say what becomes of it.\<close>

locale auto_candidates = bus_device D ok live held faults good
  for D :: "'s device" and ok live held faults good
begin

text \<open>Every candidate makes a fresh device; one that is selected is live.\<close>

definition fresh_candidates :: "'s autoCandidate list \<Rightarrow> bool" where
  "fresh_candidates cs \<longleftrightarrow>
     (\<forall>c\<in>set cs. \<forall>new cfg d. ac_New c = Some new \<longrightarrow> new cfg = Some d \<longrightarrow> ok d \<and> \<not> live d)"

definition auto_ok :: "'s autoDevice \<Rightarrow> bool" where
  "auto_ok a \<longleftrightarrow> fresh_candidates (ad_candidates a) \<and>
     (\<forall>d. ad_driver a = Some d \<longrightarrow> ok d \<and> live d)"

definition auto_live :: "'s autoDevice \<Rightarrow> bool" where
  "auto_live a \<longleftrightarrow> ad_driver a \<noteq> None"

definition auto_held :: "'s autoDevice \<Rightarrow> res set" where
  "auto_held a = (case ad_driver a of None \<Rightarrow> {} | Some d \<Rightarrow> held d)"

definition auto_faults :: "'s autoDevice \<Rightarrow> res set" where
  "auto_faults a = (case ad_driver a of None \<Rightarrow> {} | Some d \<Rightarrow> faults d)"

text \<open>
  The first candidate that opens in the wanted mode is selected, and those before it hold nothing.
\<close>

definition auto_result :: "Config \<Rightarrow> (string \<times> 's) option \<times> (string \<times> 's option) list \<Rightarrow> bool" where
  "auto_result cfg r \<longleftrightarrow>
     (\<forall>name d. fst r = Some (name, d) \<longrightarrow> ok d \<and> live d \<and> dv_isFD D d = (cfg_Mode cfg = FD)) \<and>
     (\<forall>name d. (name, Some d) \<in> set (snd r) \<longrightarrow> ok d \<and> \<not> live d \<and> held d = {})"

lemma auto_try_ok:
  assumes "good e" "fresh_candidates cs"
  shows "returns (auto_try D e cfg cs) (auto_result cfg)"
  using assms
proof (induction cs)
  case (Cons c cs)
  have IH: "returns (auto_try D e cfg cs) (auto_result cfg)"
    using Cons by (simp add: fresh_candidates_def)
  show ?case
  proof (cases "Option.bind (ac_New c) (\<lambda>new. new cfg)")
    case None
    show ?thesis using IH by (auto simp: None auto_result_def elim!: returns_mono)
  next
    case (Some dev)
    have "ok dev" "\<not> live dev" using Cons.prems(2) Some by (auto simp: fresh_candidates_def bind_eq_Some_conv)
    then obtain b d where init: "dv_initialize D e dev = Some (b, d)" "ok d" "b = live d"
      using initialize_law [of dev e] Cons.prems(1) by (auto simp: returns_def)
    obtain d' where stop: "dv_stop D d = Some d'" "ok d'" "\<not> live d'"
      using stop_law [OF init(2)] by (auto simp: returns_def)
    show ?thesis
      using IH init stop idle_law [OF stop(2,3)] by (auto simp: Some auto_result_def elim!: returns_mono)
  qed
qed (simp add: auto_result_def)

lemma auto_initialize_ok:
  assumes "auto_ok a" "good e"
  shows "returns (auto_initialize D e a)
    (\<lambda>(b, a'). auto_ok a' \<and> b = auto_live a' \<and> (auto_live a \<longrightarrow> a' = a))"
proof (cases "ad_driver a")
  case (Some d)
  then show ?thesis using assms(1) by (simp add: auto_initialize_def auto_live_def)
next
  case None
  have tried: "returns (auto_try D e cfg (ad_candidates a)) (auto_result cfg)" for cfg
    using assms by (intro auto_try_ok) (simp_all add: auto_ok_def)
  show ?thesis
    using tried assms(1) None
    by (fastforce simp: auto_initialize_def auto_ok_def auto_live_def auto_result_def Let_def
        split: sum.split option.split elim!: returns_mono)
qed

lemma auto_start_ok: "auto_ok a \<Longrightarrow> returns (auto_start D a)
   (\<lambda>(b, a'). auto_ok a' \<and> b = auto_live a \<and> auto_live a' = auto_live a)"
  using start_law by (fastforce simp: auto_start_def auto_ok_def auto_live_def split: option.split
      elim!: returns_mono)

lemma auto_stop_ok: "auto_ok a \<Longrightarrow> returns (auto_stop D a)
   (\<lambda>(d, a'). auto_ok a' \<and> \<not> auto_live a' \<and> ad_cfg a' = ad_cfg a \<and>
      (\<forall>d'. d = Some d' \<longrightarrow> ok d' \<and> \<not> live d' \<and> held d' = {}))"
  using stop_law idle_law
  by (fastforce simp: auto_stop_def auto_ok_def auto_live_def split: option.split elim!: returns_mono)

end

sublocale auto_candidates \<subseteq> auto: bus_device "auto_device D" auto_ok auto_live auto_held auto_faults good
proof unfold_locales
  fix a :: "'s autoDevice" and e
  assume "auto_ok a" "good e"
  then show "returns (dv_initialize (auto_device D) e a)
    (\<lambda>(b, a'). auto_ok a' \<and> b = auto_live a' \<and> (auto_live a \<longrightarrow> a' = a))"
    using auto_initialize_ok by (simp add: auto_device_def)
next
  fix a :: "'s autoDevice"
  assume ok: "auto_ok a"
  show "returns (dv_start (auto_device D) a)
    (\<lambda>(b, a'). auto_ok a' \<and> b = auto_live a \<and> auto_live a' = auto_live a)"
    using auto_start_ok [OF ok] by (simp add: auto_device_def)
  show "returns (dv_stop (auto_device D) a)
    (\<lambda>a'. auto_ok a' \<and> \<not> auto_live a' \<and> dv_config (auto_device D) a' = dv_config (auto_device D) a)"
    using auto_stop_ok [OF ok] by (auto simp: auto_device_def elim!: returns_mono)
next
  fix a :: "'s autoDevice" and e err
  assume "\<not> auto_live a" "Normalized (dv_config (auto_device D) a) = Inl err"
  then show "dv_initialize (auto_device D) e a = Some (False, a)"
    by (simp add: auto_device_def auto_initialize_def auto_live_def)
next
  fix a :: "'s autoDevice" and b
  show "auto_ok (dv_setBRS (auto_device D) b a) = auto_ok a"
    using setBRS_law by (cases "ad_driver a") (auto simp: auto_device_def auto_ok_def)
qed (use write_law subscribable_law fault_law
    in \<open>auto simp: auto_device_def auto_live_def auto_ok_def auto_held_def auto_faults_def split: option.splits\<close>)

end
