(* ===== verification/Pcan_Driver.thy ===== *)
theory Pcan_Driver
  imports Driver_Common
begin

text \<open>
  pcan.go: the driver for PCANBasic.dll. Its constants and wire structures, \<open>write\<close>, the conversion of
  received messages, the interpretation of status codes and the read loop, the handles of the USB
  channels, the classic bit rates and the search for FD bit timings. The text of error messages and
  the diagnostics are left out.
\<close>

section \<open>Constants and structures\<close>

definition pcanErrorOK :: u32 where "pcanErrorOK = 0x00000"
definition pcanErrorQRCVEmpty :: u32 where "pcanErrorQRCVEmpty = 0x00020"
definition pcanErrorBusLight :: u32 where "pcanErrorBusLight = 0x00004"
definition pcanErrorBusHeavy :: u32 where "pcanErrorBusHeavy = 0x00008"
definition pcanErrorIllData :: u32 where "pcanErrorIllData = 0x20000"

definition pcanMessageStandard :: u8 where "pcanMessageStandard = 0x00"
definition pcanMessageRTR :: u8 where "pcanMessageRTR = 0x01"
definition pcanMessageExtended :: u8 where "pcanMessageExtended = 0x02"
definition pcanMessageFD :: u8 where "pcanMessageFD = 0x04"
definition pcanMessageBRS :: u8 where "pcanMessageBRS = 0x08"
definition pcanMessageESI :: u8 where "pcanMessageESI = 0x10"
definition pcanMessageEcho :: u8 where "pcanMessageEcho = 0x20"
definition pcanMessageErrFrame :: u8 where "pcanMessageErrFrame = 0x40"

definition pcanUSBBaseLow :: int where "pcanUSBBaseLow = 0x51"
definition pcanUSBBaseHigh :: int where "pcanUSBBaseHigh = 0x500"
definition pcanBaud500K :: u16 where "pcanBaud500K = 0x001C"
definition pcanLangEnglish :: u16 where "pcanLangEnglish = 0x09"
definition pcanAllowEchoFrames :: u8 where "pcanAllowEchoFrames = 0x2C"
definition pcanParameterOn :: u32 where "pcanParameterOn = 0x01"

lemmas pcan_messages = pcanMessageStandard_def pcanMessageRTR_def pcanMessageExtended_def
  pcanMessageFD_def pcanMessageBRS_def pcanMessageESI_def pcanMessageEcho_def pcanMessageErrFrame_def
lemmas pcan_errors = pcanErrorOK_def pcanErrorQRCVEmpty_def pcanErrorBusLight_def
  pcanErrorBusHeavy_def pcanErrorIllData_def

record pcanMsg =
  pm_ID :: u32
  pm_MsgType :: u8
  pm_Len :: u8
  pm_Data :: bytes

record pcanMsgFD =
  pf_ID :: u32
  pf_MsgType :: u8
  pf_DLC :: u8
  pf_Data :: bytes

record pcanTimestamp =
  pt_Millis :: u32
  pt_MillisOverflow :: u16
  pt_Micros :: u16

text \<open>The part of the driver's state that sending and receiving depend on.\<close>

record PCAN =
  pc_initialized :: bool
  pc_canType :: Mode
  pc_cfg :: Config

section \<open>Sending\<close>

datatype pcan_wire = WireClassic pcanMsg | WireFD pcanMsgFD

definition pcan_write :: "(pcan_wire \<Rightarrow> u32) \<Rightarrow> PCAN \<Rightarrow> Frame \<Rightarrow> pcan_wire written" where
  "pcan_write dll p frame =
     (let data = frame_data frame; accepted = (\<lambda>m. dll m = pcanErrorOK)
      in if \<not> pc_initialized p then refuse DriverNotOpen
         else if f_FD frame then
           (if pc_canType p \<noteq> FD then refuse NotInFDMode
            else transmit accepted
              (WireFD \<lparr>pf_ID = f_ID frame,
                 pf_MsgType = (if cfg_BRS (pc_cfg p) then pcanMessageFD OR pcanMessageBRS
                               else pcanMessageFD),
                 pf_DLC = LengthToDLC (int (length data)), pf_Data = go_copy (replicate 64 0) data\<rparr>)
              frame)
         else if pc_canType p = FD then
           transmit accepted
             (WireFD \<lparr>pf_ID = f_ID frame, pf_MsgType = pcanMessageStandard,
                pf_DLC = LengthToDLC (int (length data)), pf_Data = go_copy (replicate 64 0) data\<rparr>)
             frame
         else if pc_canType p = Classic then
           transmit accepted
             (WireClassic \<lparr>pm_ID = f_ID frame, pm_MsgType = pcanMessageStandard,
                pm_Len = word_of_nat (length data), pm_Data = go_copy (replicate 8 0) data\<rparr>)
             frame
         else refuse UnknownMode)"

section \<open>Receiving\<close>

definition enqueueMessage :: "Config \<Rightarrow> u32 \<Rightarrow> u8 \<Rightarrow> bytes \<Rightarrow> u8 \<Rightarrow> u64 \<Rightarrow> disposal" where
  "enqueueMessage cfg ident dlc data msgType timestampUS =
     (if msgType AND (pcanMessageRTR OR pcanMessageErrFrame OR pcanMessageExtended) \<noteq> 0 \<or> ident > 0x7FF
      then Dropped
      else let isFD = (msgType AND pcanMessageFD \<noteq> 0) in
        dispose cfg
          \<lparr>f_Direction = (if msgType AND pcanMessageEcho \<noteq> 0 then Transmit else Receive),
           f_ID = ident, f_DLC = dlc, f_Data = go_copy (replicate 64 0) data, f_FD = isFD,
           f_BRS = (isFD \<and> msgType AND pcanMessageBRS \<noteq> 0), f_Extended = False,
           f_TimestampUS = timestampUS\<rparr>)"

definition pcanClassicTimestampUS :: "pcanTimestamp \<Rightarrow> u64" where
  "pcanClassicTimestampUS ts =
     ucast (pt_Micros ts) + ucast (pt_Millis ts) * 1000 +
     ucast (pt_MillisOverflow ts) * 0x100000000 * 1000"

definition handleReadStatus :: "u32 \<Rightarrow> bool" where
  "handleReadStatus status =
     (if status = pcanErrorOK then True
      else if status = pcanErrorQRCVEmpty then False
      else if status AND (pcanErrorBusLight OR pcanErrorBusHeavy) \<noteq> 0 then True
      else if status = pcanErrorIllData then True
      else False)"

text \<open>
  \<open>readBurst\<close> on the replies the DLL gives to successive reads: what it does with the messages, and
  the replies left over when it returns. None means that it has not returned yet.
\<close>

datatype pcan_reply = ReadClassic u32 pcanMsg pcanTimestamp | ReadFD u32 pcanMsgFD u64

fun reply_status :: "pcan_reply \<Rightarrow> u32" where
  "reply_status (ReadClassic status m ts) = status"
| "reply_status (ReadFD status m ts) = status"

fun enqueue_reply :: "Config \<Rightarrow> pcan_reply \<Rightarrow> disposal" where
  "enqueue_reply cfg (ReadClassic status m ts) =
     enqueueMessage cfg (pm_ID m) (pm_Len m) (pm_Data m) (pm_MsgType m) (pcanClassicTimestampUS ts)"
| "enqueue_reply cfg (ReadFD status m ts) =
     enqueueMessage cfg (pf_ID m) (pf_DLC m) (pf_Data m) (pf_MsgType m) ts"

fun readBurst :: "Config \<Rightarrow> pcan_reply list \<Rightarrow> disposal list \<times> pcan_reply list option" where
  "readBurst cfg [] = ([], None)"
| "readBurst cfg (r # rs) =
     (if \<not> handleReadStatus (reply_status r) then ([], Some rs)
      else if reply_status r \<noteq> pcanErrorOK then readBurst cfg rs
      else case readBurst cfg rs of (ds, rest) \<Rightarrow> (enqueue_reply cfg r # ds, rest))"

text \<open>\<open>drainInitialBuffer\<close>: reads are thrown away until the queue is reported empty, at most 1024 of them.\<close>

definition drainInitialBuffer :: "pcan_reply list \<Rightarrow> pcan_reply list option" where
  "drainInitialBuffer rs = drain_until (\<lambda>r. reply_status r = pcanErrorQRCVEmpty) 1024 rs"

section \<open>Channels and bit rates\<close>

definition pcanUSBHandle :: "int \<Rightarrow> u16 option" where
  "pcanUSBHandle channel =
     (if channel < 0 \<or> channel > 15 then None
      else if channel < 8 then Some (word_of_int (pcanUSBBaseLow + channel))
      else Some (word_of_int (pcanUSBBaseHigh + channel + 1)))"

definition pcanClassicBaud :: "u32 \<Rightarrow> u16" where
  "pcanClassicBaud bitrate =
     (if bitrate = 1000000 then 0x0014
      else if bitrate = 800000 then 0x0016
      else if bitrate = 500000 then pcanBaud500K
      else if bitrate = 250000 then 0x011C
      else if bitrate = 125000 then 0x031C
      else if bitrate = 100000 then 0x432F
      else if bitrate = 50000 then 0x472F
      else if bitrate = 20000 then 0x532F
      else if bitrate = 10000 then 0x672F
      else if bitrate = 5000 then 0x7F7F
      else 0)"

text \<open>
  The search for a bit timing with an 80 MHz clock: every prescaler that divides the time quanta,
  every second segment, and among those with an admissible first segment the first whose sample
  point is nearest to 80 percent. The state of the loops is the best error and its timing.
\<close>

type_synonym timing_choice = "int \<times> int \<times> int \<times> int"

definition try_tseg2 :: "int \<Rightarrow> int \<Rightarrow> int \<Rightarrow> int \<Rightarrow> timing_choice \<Rightarrow> timing_choice" where
  "try_tseg2 maxTseg1 totalTQ candidateBRP candidateTseg2 st =
     (let candidateTseg1 = totalTQ - 1 - candidateTseg2
      in if candidateTseg1 < 1 \<or> candidateTseg1 > maxTseg1 then st
         else let sampleError = \<bar>(1 + candidateTseg1) * 100 div totalTQ - 80\<bar>
              in if sampleError < fst st
                 then (sampleError, candidateBRP, candidateTseg1, candidateTseg2) else st)"

definition try_brp :: "int \<Rightarrow> int \<Rightarrow> int \<Rightarrow> int \<Rightarrow> timing_choice \<Rightarrow> timing_choice" where
  "try_brp maxTseg1 maxTseg2 targetTQ candidateBRP st =
     (if targetTQ mod candidateBRP \<noteq> 0 then st
      else fold (try_tseg2 maxTseg1 (targetTQ div candidateBRP) candidateBRP) [1..maxTseg2] st)"

definition findPCANBitTiming :: "u32 \<Rightarrow> int \<Rightarrow> int \<Rightarrow> (int \<times> int \<times> int) option" where
  "findPCANBitTiming bitrate maxTseg1 maxTseg2 =
     (if bitrate = 0 \<or> 80000000 mod uint bitrate \<noteq> 0 then None
      else case fold (try_brp maxTseg1 maxTseg2 (80000000 div uint bitrate)) [1..1024] (101, 0, 0, 0) of
        (e, brp, tseg1, tseg2) \<Rightarrow> if brp = 0 then None else Some (brp, tseg1, tseg2))"

section \<open>The read burst\<close>

lemma readBurst_replies:
  "readBurst cfg rs =
     (map (enqueue_reply cfg)
        (filter (\<lambda>r. reply_status r = pcanErrorOK) (takeWhile (\<lambda>r. handleReadStatus (reply_status r)) rs)),
      case dropWhile (\<lambda>r. handleReadStatus (reply_status r)) rs of [] \<Rightarrow> None | r # rest \<Rightarrow> Some rest)"
  by (induction rs) (auto split: prod.splits)

text \<open>
  C36: A read burst converts, in order, exactly the messages read with status OK before the first status
  that ends it, and returns at that status. It goes on after OK, after any status with a bus-light or
  bus-heavy bit and after illegal data; every other status ends it. So an empty queue reported
  together with a bus warning does not end the burst, however often it is repeated. Draining the queue
  before the loop starts ends after at most 1024 reads, whatever they report.
\<close>

theorem burst_reads_until_stopped:
  "fst (readBurst cfg rs) =
     map (enqueue_reply cfg)
       (filter (\<lambda>r. reply_status r = pcanErrorOK) (takeWhile (\<lambda>r. handleReadStatus (reply_status r)) rs)) \<and>
   (snd (readBurst cfg rs) = None \<longleftrightarrow> (\<forall>r \<in> set rs. handleReadStatus (reply_status r))) \<and>
   (handleReadStatus s \<longleftrightarrow> s = 0 \<or> s AND 0xC \<noteq> 0 \<or> s = pcanErrorIllData) \<and>
   (let warned = ReadFD (pcanErrorQRCVEmpty OR pcanErrorBusLight) m ts
    in readBurst cfg (replicate n warned) = ([], None)) \<and>
   (\<exists>k \<le> 1024. drainInitialBuffer (map reply [0..<1024]) = Some (drop k (map reply [0..<1024])))"
proof (intro conjI)
  let ?go = "\<lambda>r. handleReadStatus (reply_status r)"
  show "fst (readBurst cfg rs) = map (enqueue_reply cfg)
      (filter (\<lambda>r. reply_status r = pcanErrorOK) (takeWhile ?go rs))"
    by (simp add: readBurst_replies)
  show "snd (readBurst cfg rs) = None \<longleftrightarrow> (\<forall>r \<in> set rs. ?go r)"
    unfolding readBurst_replies by (simp add: dropWhile_eq_Nil_conv split: list.splits)
      (metis dropWhile_eq_Nil_conv list.distinct(1))
  show "handleReadStatus s \<longleftrightarrow> s = 0 \<or> s AND 0xC \<noteq> 0 \<or> s = pcanErrorIllData"
    by (auto simp: handleReadStatus_def pcan_errors)
  show "let warned = ReadFD (pcanErrorQRCVEmpty OR pcanErrorBusLight) m ts
    in readBurst cfg (replicate n warned) = ([], None)"
    by (simp add: readBurst_replies handleReadStatus_def pcan_errors)
  show "\<exists>k \<le> 1024. drainInitialBuffer (map reply [0..<1024]) = Some (drop k (map reply [0..<1024]))"
    unfolding drainInitialBuffer_def by (rule drain_until_returns) simp
qed

text \<open>One message, then an empty queue: the burst returns and leaves the later reply unread.\<close>

lemma burst_reads_until_stopped_witness:
  "let ok = ReadFD 0 \<lparr>pf_ID = 0x123, pf_MsgType = 4, pf_DLC = 9, pf_Data = replicate 64 7\<rparr> 55;
       empty = ReadFD pcanErrorQRCVEmpty \<lparr>pf_ID = 0, pf_MsgType = 0, pf_DLC = 0, pf_Data = []\<rparr> 0
   in fst (readBurst (DefaultConfig FD 0) [ok, empty, ok]) = [enqueue_reply (DefaultConfig FD 0) ok] \<and>
      snd (readBurst (DefaultConfig FD 0) [ok, empty, ok]) \<noteq> None"
  using burst_reads_until_stopped
    [of "DefaultConfig FD 0" "let ok = ReadFD 0 \<lparr>pf_ID = 0x123, pf_MsgType = 4, pf_DLC = 9, pf_Data = replicate 64 7\<rparr> 55;
       empty = ReadFD pcanErrorQRCVEmpty \<lparr>pf_ID = 0, pf_MsgType = 0, pf_DLC = 0, pf_Data = []\<rparr> 0
     in [ok, empty, ok]"]
  by (simp add: Let_def handleReadStatus_def pcan_errors)

section \<open>The search for a bit timing\<close>

definition admissible_timing :: "int \<Rightarrow> int \<Rightarrow> int \<Rightarrow> int \<times> int \<times> int \<Rightarrow> bool" where
  "admissible_timing maxTseg1 maxTseg2 tq c =
     (case c of (brp, tseg1, tseg2) \<Rightarrow>
        1 \<le> brp \<and> brp \<le> 1024 \<and> brp dvd tq \<and> 1 \<le> tseg1 \<and> tseg1 \<le> maxTseg1 \<and>
        1 \<le> tseg2 \<and> tseg2 \<le> maxTseg2 \<and> 1 + tseg1 + tseg2 = tq div brp)"

definition sample_error :: "int \<times> int \<times> int \<Rightarrow> int" where
  "sample_error c = (case c of (brp, tseg1, tseg2) \<Rightarrow>
     \<bar>(1 + tseg1) * 100 div (1 + tseg1 + tseg2) - 80\<bar>)"

text \<open>The state of the search is a best candidate of the set \<open>S\<close>, or none of it is better than 101.\<close>

definition best_of :: "(int \<times> int \<times> int) set \<Rightarrow> timing_choice \<Rightarrow> bool" where
  "best_of S st \<longleftrightarrow> (\<forall>c \<in> S. fst st \<le> sample_error c) \<and>
     (st = (101, 0, 0, 0) \<or> (\<exists>c \<in> S. st = (sample_error c, c)))"

lemma best_of_eq: "best_of A st \<Longrightarrow> A = B \<Longrightarrow> best_of B st"
  by simp

lemma best_of_le: "best_of S (e, t) \<Longrightarrow> c \<in> S \<Longrightarrow> e \<le> sample_error c"
  by (simp add: best_of_def)

lemma best_of_insert:
  "best_of S st \<Longrightarrow> best_of (insert c S) (if sample_error c < fst st then (sample_error c, c) else st)"
  by (auto simp: best_of_def)

lemma best_of_inner:
  "best_of S st \<Longrightarrow>
   best_of (S \<union> {(brp, tot - 1 - t2, t2) | t2. t2 \<in> set xs \<and> 1 \<le> tot - 1 - t2 \<and> tot - 1 - t2 \<le> m1})
     (fold (try_tseg2 m1 tot brp) xs st)"
proof (induction xs arbitrary: S st)
  case Nil
  then show ?case by simp
next
  case (Cons x xs)
  let ?c = "(brp, tot - 1 - x, x)"
  let ?ok = "1 \<le> tot - 1 - x \<and> tot - 1 - x \<le> m1"
  let ?S = "if ?ok then insert ?c S else S"
  have "best_of ?S (try_tseg2 m1 tot brp x st)"
    using Cons.prems best_of_insert [OF Cons.prems, of ?c]
    by (auto simp: try_tseg2_def Let_def sample_error_def)
  from Cons.IH [OF this] show ?case
    unfolding fold_simps by (rule best_of_eq) (auto split: if_splits)
qed

lemma best_of_outer:
  "best_of S st \<Longrightarrow>
   best_of (S \<union> {(brp, tq div brp - 1 - t2, t2) | brp t2. brp \<in> set bs \<and> tq mod brp = 0 \<and> t2 \<in> {1..m2} \<and>
       1 \<le> tq div brp - 1 - t2 \<and> tq div brp - 1 - t2 \<le> m1})
     (fold (try_brp m1 m2 tq) bs st)"
proof (induction bs arbitrary: S st)
  case Nil
  then show ?case by simp
next
  case (Cons b bs)
  let ?T = "{(b, tq div b - 1 - t2, t2) | t2. t2 \<in> set [1..m2] \<and> 1 \<le> tq div b - 1 - t2 \<and>
       tq div b - 1 - t2 \<le> m1}"
  let ?S = "if tq mod b = 0 then S \<union> ?T else S"
  have "best_of ?S (try_brp m1 m2 tq b st)"
    using Cons.prems best_of_inner [OF Cons.prems, of b "tq div b" "[1..m2]" m1]
    by (simp add: try_brp_def)
  from Cons.IH [OF this] show ?case
    unfolding fold_simps by (rule best_of_eq) (auto split: if_splits)
qed

lemma search_best:
  "best_of {c. admissible_timing m1 m2 tq c} (fold (try_brp m1 m2 tq) [1..1024] (101, 0, 0, 0))"
proof -
  have "{c. admissible_timing m1 m2 tq c} =
      {} \<union> {(brp, tq div brp - 1 - t2, t2) | brp t2. brp \<in> set [1..1024] \<and> tq mod brp = 0 \<and> t2 \<in> {1..m2} \<and>
        1 \<le> tq div brp - 1 - t2 \<and> tq div brp - 1 - t2 \<le> m1}"
    by (auto simp: admissible_timing_def dvd_eq_mod_eq_0)
  moreover have "best_of {} (101, 0, 0, 0)" by (simp add: best_of_def)
  ultimately show ?thesis using best_of_outer [where S = "{}" and st = "(101, 0, 0, 0)" and bs = "[1..1024]" and tq = tq and ?m1.0 = m1 and ?m2.0 = m2]
    by simp
qed

lemma sample_error_lt: "admissible_timing m1 m2 tq c \<Longrightarrow> sample_error c < 101"
proof -
  assume "admissible_timing m1 m2 tq c"
  then obtain b t1 t2 where c: "c = (b, t1, t2)" "1 \<le> t1" "1 \<le> t2"
    by (cases c) (auto simp: admissible_timing_def)
  have "0 \<le> (1 + t1) * 100 div (1 + t1 + t2)" using c by (intro pos_imp_zdiv_nonneg_iff [THEN iffD2]) auto
  moreover have "(1 + t1) * 100 div (1 + t1 + t2) \<le> 100"
  proof -
    obtain q where q: "q = 1 + t1 + t2" by simp
    then have "(1 + t1) * 100 div q \<le> (100 * q) div q" using c by (intro zdiv_mono1) auto
    moreover have "q \<noteq> 0" using c q by simp
    then have "(100 * q) div q = 100" by simp
    ultimately have "(1 + t1) * 100 div q \<le> 100" by simp
    then show ?thesis by (simp only: q)
  qed
  ultimately show ?thesis by (simp add: sample_error_def c(1))
qed

text \<open>The search for an FD bit timing finds one exactly when the bit rate divides 80 MHz and some
  prescaler up to 1024 splits the bit into segments within the limits; what it finds produces the
  bit rate exactly, keeps the limits, and no admissible timing has its sample point nearer to 80
  percent.
\<close>

theorem bit_timing_optimal:
  "case findPCANBitTiming bitrate maxTseg1 maxTseg2 of
     None \<Rightarrow> bitrate = 0 \<or> 80000000 mod uint bitrate \<noteq> 0 \<or>
       (\<forall>c. \<not> admissible_timing maxTseg1 maxTseg2 (80000000 div uint bitrate) c)
   | Some c \<Rightarrow> (case c of (brp, tseg1, tseg2) \<Rightarrow>
       uint bitrate * brp * (1 + tseg1 + tseg2) = 80000000 \<and>
       admissible_timing maxTseg1 maxTseg2 (80000000 div uint bitrate) c \<and>
       (\<forall>c'. admissible_timing maxTseg1 maxTseg2 (80000000 div uint bitrate) c' \<longrightarrow>
          sample_error c \<le> sample_error c'))"
proof (cases "bitrate = 0 \<or> 80000000 mod uint bitrate \<noteq> 0")
  case True
  then have "findPCANBitTiming bitrate maxTseg1 maxTseg2 = None" by (simp add: findPCANBitTiming_def)
  then show ?thesis using True by (simp only: option.case) (elim disjE, simp_all)
next
  case False
  let ?tq = "80000000 div uint bitrate"
  obtain e brp t1 t2 where st: "fold (try_brp maxTseg1 maxTseg2 ?tq) [1..1024] (101, 0, 0, 0) = (e, brp, t1, t2)"
    by (metis prod_cases4)
  have best: "best_of {c. admissible_timing maxTseg1 maxTseg2 ?tq c} (e, brp, t1, t2)"
    using search_best [of maxTseg1 maxTseg2 ?tq] st by simp
  show ?thesis
  proof (cases "brp = 0")
    case True
    have "\<not> admissible_timing maxTseg1 maxTseg2 ?tq c" for c
    proof
      assume c: "admissible_timing maxTseg1 maxTseg2 ?tq c"
      then have "e \<le> sample_error c" using best_of_le [OF best] by simp
      then have "e < 101" using sample_error_lt [OF c] by simp
      then show False using best True by (auto simp: best_of_def admissible_timing_def)
    qed
    then show ?thesis using False st True by (simp add: findPCANBitTiming_def)
  next
    case nz: False
    then have adm: "admissible_timing maxTseg1 maxTseg2 ?tq (brp, t1, t2)" and e: "e = sample_error (brp, t1, t2)"
      using best by (auto simp: best_of_def)
    have "brp * (1 + t1 + t2) = ?tq" using adm by (auto simp: admissible_timing_def)
    moreover have "uint bitrate * ?tq = 80000000" using False by auto
    ultimately have "uint bitrate * brp * (1 + t1 + t2) = 80000000" by (simp add: mult.assoc)
    moreover have "admissible_timing maxTseg1 maxTseg2 ?tq c' \<longrightarrow> sample_error (brp, t1, t2) \<le> sample_error c'" for c'
      using best_of_le [OF best, of c'] e by simp
    moreover have "findPCANBitTiming bitrate maxTseg1 maxTseg2 = Some (brp, t1, t2)"
      using False st nz by (simp add: findPCANBitTiming_def)
    ultimately show ?thesis using adm by simp
  qed
qed

text \<open>500 kbit/s with the driver's nominal limits: the sample point of the timing is exactly 80 percent.\<close>

lemma bit_timing_optimal_witness:
  "case findPCANBitTiming 500000 256 128 of
     None \<Rightarrow> False
   | Some (brp, tseg1, tseg2) \<Rightarrow>
       brp * (1 + tseg1 + tseg2) = 160 \<and> (1 + tseg1) * 100 div (1 + tseg1 + tseg2) = 80"
proof -
  have adm: "admissible_timing 256 128 160 (1, 127, 32)"
    by (simp add: admissible_timing_def)
  note opt = bit_timing_optimal [of 500000 256 128]
  show ?thesis
  proof (cases "findPCANBitTiming 500000 256 128")
    case None
    with opt have "\<forall>c. \<not> admissible_timing 256 128 160 c" by simp
    with adm show ?thesis by blast
  next
    case (Some c)
    obtain brp tseg1 tseg2 where c: "c = (brp, tseg1, tseg2)" by (cases c)
    have "500000 * brp * (1 + tseg1 + tseg2) = 80000000"
      and "sample_error c \<le> sample_error (1, 127, 32)"
      using opt adm unfolding Some c by simp_all
    then show ?thesis
      unfolding Some c by (simp add: sample_error_def mult.assoc)
  qed
qed

end
