(* ===== verification/C_Abi.thy ===== *)
theory C_Abi
  imports Go_Prelude
begin

text \<open>
  The part of C that a vendor header speaks: constant expressions and tables of macros, the types
  of its declarations with their size, alignment and member offsets under a packing pragma, and
  function prototypes. The target is Windows: \<open>long\<close> has four bytes, a pointer has \<open>p\<close> bytes (8 on
  amd64, 4 on 386), and a member of a structure declared under \<open>pack(k)\<close> is aligned to the
  smaller of \<open>k\<close> and its natural alignment.

  Each header has a theory of its own with one definition for each structure, type or block of
  macros. The layout of Go structures is here too, so that the types a Go driver passes to a DLL
  can be compared with the declarations of the header.
\<close>

section \<open>Constant expressions\<close>

text \<open>
  The right-hand side of an object-like macro or an enumerator: \<open>Sym\<close> names an earlier constant,
  \<open>Cast s n\<close> converts to a signed or unsigned integer of \<open>n\<close> bytes, \<open>App\<close> is a call of a one-place
  macro.
\<close>

datatype cexpr =
    Lit int
  | Sym string
  | Neg cexpr
  | Inv cexpr
  | BOr cexpr cexpr
  | BAnd cexpr cexpr
  | Shl cexpr cexpr
  | Add cexpr cexpr
  | Sub cexpr cexpr
  | Mul cexpr cexpr
  | Cast bool nat cexpr
  | App string cexpr

definition convert :: "bool \<Rightarrow> nat \<Rightarrow> int \<Rightarrow> int" where
  "convert sgnd n v =
     (let m = 2 ^ (8 * n); u = v mod m in if sgnd \<and> m \<le> 2 * u then u - m else u)"

type_synonym consts_env = "(string \<times> int) list"
type_synonym macros = "string \<Rightarrow> (int \<Rightarrow> int) option"

fun ceval :: "macros \<Rightarrow> consts_env \<Rightarrow> cexpr \<Rightarrow> int option" where
  "ceval fs env (Lit n) = Some n"
| "ceval fs env (Sym x) = map_of env x"
| "ceval fs env (Neg e) = map_option uminus (ceval fs env e)"
| "ceval fs env (Inv e) = map_option (\<lambda>v. NOT v) (ceval fs env e)"
| "ceval fs env (BOr a b) = do { x \<leftarrow> ceval fs env a; y \<leftarrow> ceval fs env b; Some (x OR y) }"
| "ceval fs env (BAnd a b) = do { x \<leftarrow> ceval fs env a; y \<leftarrow> ceval fs env b; Some (x AND y) }"
| "ceval fs env (Shl a b) = do { x \<leftarrow> ceval fs env a; y \<leftarrow> ceval fs env b; Some (push_bit (nat y) x) }"
| "ceval fs env (Add a b) = do { x \<leftarrow> ceval fs env a; y \<leftarrow> ceval fs env b; Some (x + y) }"
| "ceval fs env (Sub a b) = do { x \<leftarrow> ceval fs env a; y \<leftarrow> ceval fs env b; Some (x - y) }"
| "ceval fs env (Mul a b) = do { x \<leftarrow> ceval fs env a; y \<leftarrow> ceval fs env b; Some (x * y) }"
| "ceval fs env (Cast s n e) = map_option (convert s n) (ceval fs env e)"
| "ceval fs env (App f e) = do { g \<leftarrow> fs f; x \<leftarrow> ceval fs env e; Some (g x) }"

text \<open>A block of macros, in the order of the file; a later definition shadows an earlier one.\<close>

type_synonym macro_table = "(string \<times> cexpr) list"

fun define_all :: "macros \<Rightarrow> macro_table \<Rightarrow> consts_env \<Rightarrow> consts_env option" where
  "define_all fs [] env = Some env"
| "define_all fs ((x, e) # ds) env =
     (case ceval fs env e of None \<Rightarrow> None | Some v \<Rightarrow> define_all fs ds ((x, v) # env))"

definition no_macros :: macros where "no_macros x = None"

definition table_values :: "macro_table \<Rightarrow> consts_env option" where
  "table_values t = define_all no_macros t []"

definition table_const :: "macro_table \<Rightarrow> string \<Rightarrow> int option" where
  "table_const t x = Option.bind (table_values t) (\<lambda>env. map_of env x)"

text \<open>An enumeration: an enumerator without a value is one more than the one before.\<close>

type_synonym enumerators = "(string \<times> cexpr option) list"

fun enum_values :: "int \<Rightarrow> enumerators \<Rightarrow> consts_env option" where
  "enum_values next [] = Some []"
| "enum_values next ((x, v) # es) =
     (case (case v of None \<Rightarrow> Some next | Some e \<Rightarrow> ceval no_macros [] e) of
        None \<Rightarrow> None
      | Some n \<Rightarrow> map_option (\<lambda>r. (x, n) # r) (enum_values (n + 1) es))"

text \<open>Macros that stand for a string literal.\<close>

type_synonym text_table = "(string \<times> string) list"

section \<open>Types\<close>

datatype ctype =
    CVoid
  | CInt bool nat
  | CFloat nat
  | CPtr string
  | CFnPtr ctype "ctype list"
  | CArr ctype nat
  | CStruct nat "(string \<times> ctype) list"
  | CUnion nat "(string \<times> ctype) list"

text \<open>A prototype: the name of the function, its result and its parameters.\<close>

datatype cproto = CProto (pr_name: string) (pr_result: ctype) (pr_params: "(string \<times> ctype) list")

named_theorems hdr_types \<open>definitions of the types a header declares\<close>

definition round_up :: "nat \<Rightarrow> nat \<Rightarrow> nat" where
  "round_up n a = (n + a - 1) div a * a"

fun align_of :: "nat \<Rightarrow> ctype \<Rightarrow> nat" and members_align :: "nat \<Rightarrow> nat \<Rightarrow> (string \<times> ctype) list \<Rightarrow> nat" where
  "align_of p CVoid = 1"
| "align_of p (CInt s n) = n"
| "align_of p (CFloat n) = n"
| "align_of p (CPtr x) = p"
| "align_of p (CFnPtr r as) = p"
| "align_of p (CArr t n) = align_of p t"
| "align_of p (CStruct k ms) = members_align p k ms"
| "align_of p (CUnion k ms) = members_align p k ms"
| "members_align p k [] = 1"
| "members_align p k ((x, t) # ms) = max (min k (align_of p t)) (members_align p k ms)"

fun size_of :: "nat \<Rightarrow> ctype \<Rightarrow> nat"
and members_end :: "nat \<Rightarrow> nat \<Rightarrow> nat \<Rightarrow> (string \<times> ctype) list \<Rightarrow> nat"
and members_max :: "nat \<Rightarrow> (string \<times> ctype) list \<Rightarrow> nat" where
  "size_of p CVoid = 0"
| "size_of p (CInt s n) = n"
| "size_of p (CFloat n) = n"
| "size_of p (CPtr x) = p"
| "size_of p (CFnPtr r as) = p"
| "size_of p (CArr t n) = n * size_of p t"
| "size_of p (CStruct k ms) = round_up (members_end p k 0 ms) (members_align p k ms)"
| "size_of p (CUnion k ms) = round_up (members_max p ms) (members_align p k ms)"
| "members_end p k off [] = off"
| "members_end p k off ((x, t) # ms) =
     members_end p k (round_up off (min k (align_of p t)) + size_of p t) ms"
| "members_max p [] = 0"
| "members_max p ((x, t) # ms) = max (size_of p t) (members_max p ms)"

text \<open>The members of a structure with their offsets.\<close>

fun member_offsets :: "nat \<Rightarrow> nat \<Rightarrow> nat \<Rightarrow> (string \<times> ctype) list \<Rightarrow> (string \<times> nat \<times> ctype) list" where
  "member_offsets p k off [] = []"
| "member_offsets p k off ((x, t) # ms) =
     (let o' = round_up off (min k (align_of p t))
      in (x, o', t) # member_offsets p k (o' + size_of p t) ms)"

fun members :: "nat \<Rightarrow> ctype \<Rightarrow> (string \<times> nat \<times> ctype) list" where
  "members p (CStruct k ms) = member_offsets p k 0 ms"
| "members p (CUnion k ms) = map (\<lambda>(x, t). (x, 0, t)) ms"
| "members p t = []"

text \<open>The offset and the type of the member a path names: \<open>e.tagData.msg\<close>.\<close>

fun member_path :: "nat \<Rightarrow> string list \<Rightarrow> ctype \<Rightarrow> (nat \<times> ctype) option" where
  "member_path p [] t = Some (0, t)"
| "member_path p (x # xs) t =
     (case map_of (members p t) x of
        None \<Rightarrow> None
      | Some (o1, u) \<Rightarrow> (case member_path p xs u of
            None \<Rightarrow> None
          | Some (o2, v) \<Rightarrow> Some (o1 + o2, v)))"

section \<open>Well-formed types and their layout\<close>

fun wf_ctype :: "ctype \<Rightarrow> bool" and wf_members :: "(string \<times> ctype) list \<Rightarrow> bool" where
  "wf_ctype CVoid = False"
| "wf_ctype (CInt s n) = (n \<in> {1, 2, 4, 8})"
| "wf_ctype (CFloat n) = (n \<in> {4, 8})"
| "wf_ctype (CPtr x) = True"
| "wf_ctype (CFnPtr r as) = True"
| "wf_ctype (CArr t n) = (0 < n \<and> wf_ctype t)"
| "wf_ctype (CStruct k ms) = (k \<in> {1, 2, 4, 8} \<and> ms \<noteq> [] \<and> wf_members ms)"
| "wf_ctype (CUnion k ms) = (k \<in> {1, 2, 4, 8} \<and> ms \<noteq> [] \<and> wf_members ms)"
| "wf_members [] = True"
| "wf_members ((x, t) # ms) = (wf_ctype t \<and> wf_members ms)"

definition pow2_align :: "nat \<Rightarrow> bool" where
  "pow2_align a \<longleftrightarrow> a \<in> {1, 2, 4, 8}"

named_theorems layout_simps \<open>rules that evaluate sizes, alignments and offsets\<close>

lemma round_up_ge: "0 < a \<Longrightarrow> n \<le> round_up n a"
proof -
  assume a: "0 < a"
  have "(n + a - 1) mod a < a" using a by simp
  moreover have "(n + a - 1) div a * a + (n + a - 1) mod a = n + a - 1" by simp
  ultimately show ?thesis unfolding round_up_def using a by linarith
qed

lemma round_up_dvd [simp]: "a dvd round_up n a"
  by (simp add: round_up_def)

lemma round_up_lt: "0 < a \<Longrightarrow> round_up n a < n + a"
  unfolding round_up_def
  by (metis Nat.add_diff_assoc2 add.commute diff_less div_times_less_eq_dividend le_less_trans
      less_numeral_extra(1) One_nat_def Suc_leI add_gr_0)

lemma round_up_fixed: "0 < a \<Longrightarrow> a dvd n \<Longrightarrow> round_up n a = n"
proof -
  assume a: "0 < a" and "a dvd n"
  then obtain q where "n = a * q" by blast
  then have "n + a - 1 = q * a + (a - 1)" using a by (simp add: mult.commute)
  moreover have "(q * a + (a - 1)) div a = q + (a - 1) div a"
    using a by (intro div_mult_self3) simp
  ultimately have "(n + a - 1) div a = q" using a by simp
  then show ?thesis using \<open>n = a * q\<close> by (simp add: round_up_def)
qed

lemma round_up_1 [layout_simps]: "round_up n 1 = n" "round_up n (Suc 0) = n"
  by (simp_all add: round_up_def)

lemma round_up_num [layout_simps]:
  "round_up n 2 = (n + 1) div 2 * 2" "round_up n 4 = (n + 3) div 4 * 4"
  "round_up n 8 = (n + 7) div 8 * 8"
  by (simp_all add: round_up_def)

lemma round_up_2 [layout_simps]: "round_up n (Suc (Suc 0)) = (n + 1) div 2 * 2"
  by (simp only: round_up_num(1) flip: numeral_2_eq_2)

lemma pow2_max: "pow2_align a \<Longrightarrow> pow2_align b \<Longrightarrow> pow2_align (max a b)"
  by (auto simp: pow2_align_def max_def)

lemma pow2_min: "pow2_align a \<Longrightarrow> pow2_align b \<Longrightarrow> pow2_align (min a b)"
  by (auto simp: pow2_align_def min_def)

lemma pow2_dvd: "pow2_align a \<Longrightarrow> pow2_align b \<Longrightarrow> a \<le> b \<Longrightarrow> a dvd b"
  by (auto simp: pow2_align_def)

lemma pow2_pos: "pow2_align a \<Longrightarrow> 0 < a"
  by (auto simp: pow2_align_def)

lemma align_of_pow2:
  "p \<in> {4, 8} \<Longrightarrow> wf_ctype t \<Longrightarrow> pow2_align (align_of p t)"
  "p \<in> {4, 8} \<Longrightarrow> pow2_align k \<Longrightarrow> wf_members ms \<Longrightarrow> pow2_align (members_align p k ms)"
  by (induction p t and p k ms rule: align_of_members_align.induct)
    (auto intro: pow2_max pow2_min simp: pow2_align_def)

text \<open>The size of a type is positive and a multiple of its alignment.\<close>

lemma align_of_pos: "p \<in> {4, 8} \<Longrightarrow> wf_ctype t \<Longrightarrow> 0 < align_of p t"
  using align_of_pow2(1) pow2_pos by blast

lemma members_align_pos: "0 < members_align p k ms"
  by (induction ms) (auto simp: less_max_iff_disj)

lemma size_of_dvd: "p \<in> {4, 8} \<Longrightarrow> wf_ctype t \<Longrightarrow> align_of p t dvd size_of p t"
proof (induction t)
  case (CArr t n)
  then show ?case by simp
qed auto

lemma member_offsets_sound:
  assumes "p \<in> {4, 8}" "pow2_align k" "wf_members ms" "(x, o', t) \<in> set (member_offsets p k off ms)"
  shows "off \<le> o' \<and> min k (align_of p t) dvd o' \<and> o' + size_of p t \<le> members_end p k off ms"
  using assms
proof (induction ms arbitrary: off)
  case Nil
  then show ?case by simp
next
  case (Cons m ms)
  obtain y u where m: "m = (y, u)" by fastforce
  let ?o = "round_up off (min k (align_of p u))"
  have pos: "0 < min k (align_of p u)"
    using Cons.prems m align_of_pos [of p u] pow2_pos [of k] by auto
  have ge: "off \<le> ?o" using round_up_ge [OF pos] .
  have wf: "wf_members ms" using Cons.prems m by simp
  have mono: "off' \<le> members_end p k off' ms" for off'
    using wf Cons.prems(1,2)
  proof (induction ms arbitrary: off')
    case (Cons a as)
    obtain z v where a: "a = (z, v)" by fastforce
    have "0 < min k (align_of p v)"
      using Cons.prems a align_of_pos [of p v] pow2_pos [of k] by auto
    from round_up_ge [OF this, of off'] Cons a show ?case
      by simp (meson le_trans add_leE le_add1)
  qed simp
  from Cons.prems(4) m consider "x = y" "o' = ?o" "t = u"
    | "(x, o', t) \<in> set (member_offsets p k (?o + size_of p u) ms)" by (auto simp: Let_def)
  then show ?case
  proof cases
    case 1
    then show ?thesis using ge mono [of "?o + size_of p u"] m by simp
  next
    case 2
    from Cons.IH [OF Cons.prems(1,2) wf this] show ?thesis using ge m by auto
  qed
qed

lemma member_offsets_ordered:
  assumes "p \<in> {4, 8}" "pow2_align k" "wf_members ms"
  shows "sorted_wrt (\<lambda>(x, o1, t) (y, o2, u). o1 + size_of p t \<le> o2) (member_offsets p k off ms)"
  using assms
proof (induction ms arbitrary: off)
  case (Cons m ms)
  obtain y u where m: "m = (y, u)" by fastforce
  have wf: "wf_members ms" using Cons.prems m by simp
  show ?case
    using Cons.IH [OF Cons.prems(1,2) wf] member_offsets_sound [OF Cons.prems(1,2) wf]
    by (fastforce simp: m Let_def)
qed simp

text \<open>
  The layout of a well-formed structure: every member is aligned, they follow each other without
  overlap and end before the end of the structure, whose size is a multiple of its alignment.
\<close>

lemma struct_layout_sound:
  assumes "p \<in> {4, 8}" "wf_ctype (CStruct k ms)"
  shows "(\<forall>(x, o', t) \<in> set (members p (CStruct k ms)).
            min k (align_of p t) dvd o' \<and> o' + size_of p t \<le> size_of p (CStruct k ms)) \<and>
         sorted_wrt (\<lambda>(x, o1, t) (y, o2, u). o1 + size_of p t \<le> o2) (members p (CStruct k ms)) \<and>
         align_of p (CStruct k ms) dvd size_of p (CStruct k ms)"
proof -
  have k: "pow2_align k" and wf: "wf_members ms" using assms by (auto simp: pow2_align_def)
  have "members_end p k 0 ms \<le> round_up (members_end p k 0 ms) (members_align p k ms)"
    by (rule round_up_ge [OF members_align_pos])
  then show ?thesis
    using member_offsets_sound [OF assms(1) k wf, of _ _ _ 0] member_offsets_ordered [OF assms(1) k wf, of 0]
    by fastforce
qed

end
