(* ===== verification/Hdr_Pcan.thy ===== *)
theory Hdr_Pcan
  imports C_Abi
begin

text \<open>
  pcan_PCANBasic.h, the interface of PCANBasic.dll: channel handles, status codes, parameters, message
  types, bit rate codes, the messages of the three protocol generations and the prototypes.
\<close>

unbundle bit_operations_syntax

definition PCAN_channels :: macro_table where
  "PCAN_channels =
     [(''PCAN_NONEBUS'', Lit 0x00),
      (''PCAN_PCIBUS1'', Lit 0x41),
      (''PCAN_PCIBUS2'', Lit 0x42),
      (''PCAN_PCIBUS3'', Lit 0x43),
      (''PCAN_PCIBUS4'', Lit 0x44),
      (''PCAN_PCIBUS5'', Lit 0x45),
      (''PCAN_PCIBUS6'', Lit 0x46),
      (''PCAN_PCIBUS7'', Lit 0x47),
      (''PCAN_PCIBUS8'', Lit 0x48),
      (''PCAN_PCIBUS9'', Lit 0x409),
      (''PCAN_PCIBUS10'', Lit 0x40a),
      (''PCAN_PCIBUS11'', Lit 0x40b),
      (''PCAN_PCIBUS12'', Lit 0x40c),
      (''PCAN_PCIBUS13'', Lit 0x40d),
      (''PCAN_PCIBUS14'', Lit 0x40e),
      (''PCAN_PCIBUS15'', Lit 0x40f),
      (''PCAN_PCIBUS16'', Lit 0x410),
      (''PCAN_USBBUS1'', Lit 0x51),
      (''PCAN_USBBUS2'', Lit 0x52),
      (''PCAN_USBBUS3'', Lit 0x53),
      (''PCAN_USBBUS4'', Lit 0x54),
      (''PCAN_USBBUS5'', Lit 0x55),
      (''PCAN_USBBUS6'', Lit 0x56),
      (''PCAN_USBBUS7'', Lit 0x57),
      (''PCAN_USBBUS8'', Lit 0x58),
      (''PCAN_USBBUS9'', Lit 0x509),
      (''PCAN_USBBUS10'', Lit 0x50a),
      (''PCAN_USBBUS11'', Lit 0x50b),
      (''PCAN_USBBUS12'', Lit 0x50c),
      (''PCAN_USBBUS13'', Lit 0x50d),
      (''PCAN_USBBUS14'', Lit 0x50e),
      (''PCAN_USBBUS15'', Lit 0x50f),
      (''PCAN_USBBUS16'', Lit 0x510),
      (''PCAN_LANBUS1'', Lit 0x801),
      (''PCAN_LANBUS2'', Lit 0x802),
      (''PCAN_LANBUS3'', Lit 0x803),
      (''PCAN_LANBUS4'', Lit 0x804),
      (''PCAN_LANBUS5'', Lit 0x805),
      (''PCAN_LANBUS6'', Lit 0x806),
      (''PCAN_LANBUS7'', Lit 0x807),
      (''PCAN_LANBUS8'', Lit 0x808),
      (''PCAN_LANBUS9'', Lit 0x809),
      (''PCAN_LANBUS10'', Lit 0x80a),
      (''PCAN_LANBUS11'', Lit 0x80b),
      (''PCAN_LANBUS12'', Lit 0x80c),
      (''PCAN_LANBUS13'', Lit 0x80d),
      (''PCAN_LANBUS14'', Lit 0x80e),
      (''PCAN_LANBUS15'', Lit 0x80f),
      (''PCAN_LANBUS16'', Lit 0x810)]"

definition PCAN_status_codes :: macro_table where
  "PCAN_status_codes =
     [(''PCAN_ERROR_OK'', Lit 0x00000),
      (''PCAN_ERROR_XMTFULL'', Lit 0x00001),
      (''PCAN_ERROR_OVERRUN'', Lit 0x00002),
      (''PCAN_ERROR_BUSLIGHT'', Lit 0x00004),
      (''PCAN_ERROR_BUSHEAVY'', Lit 0x00008),
      (''PCAN_ERROR_BUSWARNING'', Sym ''PCAN_ERROR_BUSHEAVY''),
      (''PCAN_ERROR_BUSPASSIVE'', Lit 0x40000),
      (''PCAN_ERROR_BUSOFF'', Lit 0x00010),
      (''PCAN_ERROR_ANYBUSERR'', BOr (BOr (BOr (BOr (Sym ''PCAN_ERROR_BUSWARNING'') (Sym ''PCAN_ERROR_BUSLIGHT'')) (Sym ''PCAN_ERROR_BUSHEAVY'')) (Sym ''PCAN_ERROR_BUSOFF'')) (Sym ''PCAN_ERROR_BUSPASSIVE'')),
      (''PCAN_ERROR_QRCVEMPTY'', Lit 0x00020),
      (''PCAN_ERROR_QOVERRUN'', Lit 0x00040),
      (''PCAN_ERROR_QXMTFULL'', Lit 0x00080),
      (''PCAN_ERROR_REGTEST'', Lit 0x00100),
      (''PCAN_ERROR_NODRIVER'', Lit 0x00200),
      (''PCAN_ERROR_HWINUSE'', Lit 0x00400),
      (''PCAN_ERROR_NETINUSE'', Lit 0x00800),
      (''PCAN_ERROR_ILLHW'', Lit 0x01400),
      (''PCAN_ERROR_ILLNET'', Lit 0x01800),
      (''PCAN_ERROR_ILLCLIENT'', Lit 0x01c00),
      (''PCAN_ERROR_ILLHANDLE'', BOr (BOr (Sym ''PCAN_ERROR_ILLHW'') (Sym ''PCAN_ERROR_ILLNET'')) (Sym ''PCAN_ERROR_ILLCLIENT'')),
      (''PCAN_ERROR_RESOURCE'', Lit 0x02000),
      (''PCAN_ERROR_ILLPARAMTYPE'', Lit 0x04000),
      (''PCAN_ERROR_ILLPARAMVAL'', Lit 0x08000),
      (''PCAN_ERROR_UNKNOWN'', Lit 0x10000),
      (''PCAN_ERROR_ILLDATA'', Lit 0x20000),
      (''PCAN_ERROR_ILLMODE'', Lit 0x80000),
      (''PCAN_ERROR_CAUTION'', Lit 0x2000000),
      (''PCAN_ERROR_INITIALIZE'', Lit 0x4000000),
      (''PCAN_ERROR_ILLOPERATION'', Lit 0x8000000)]"

definition PCAN_devices :: macro_table where
  "PCAN_devices =
     [(''PCAN_NONE'', Lit 0x00),
      (''PCAN_PCI'', Lit 0x04),
      (''PCAN_USB'', Lit 0x05),
      (''PCAN_LAN'', Lit 0x08)]"

definition PCAN_parameters :: macro_table where
  "PCAN_parameters =
     [(''PCAN_DEVICE_ID'', Lit 0x01),
      (''PCAN_5VOLTS_POWER'', Lit 0x02),
      (''PCAN_RECEIVE_EVENT'', Lit 0x03),
      (''PCAN_MESSAGE_FILTER'', Lit 0x04),
      (''PCAN_API_VERSION'', Lit 0x05),
      (''PCAN_CHANNEL_VERSION'', Lit 0x06),
      (''PCAN_BUSOFF_AUTORESET'', Lit 0x07),
      (''PCAN_LISTEN_ONLY'', Lit 0x08),
      (''PCAN_LOG_LOCATION'', Lit 0x09),
      (''PCAN_LOG_STATUS'', Lit 0x0a),
      (''PCAN_LOG_CONFIGURE'', Lit 0x0b),
      (''PCAN_LOG_TEXT'', Lit 0x0c),
      (''PCAN_CHANNEL_CONDITION'', Lit 0x0d),
      (''PCAN_HARDWARE_NAME'', Lit 0x0e),
      (''PCAN_RECEIVE_STATUS'', Lit 0x0f),
      (''PCAN_CONTROLLER_NUMBER'', Lit 0x10),
      (''PCAN_TRACE_LOCATION'', Lit 0x11),
      (''PCAN_TRACE_STATUS'', Lit 0x12),
      (''PCAN_TRACE_SIZE'', Lit 0x13),
      (''PCAN_TRACE_CONFIGURE'', Lit 0x14),
      (''PCAN_CHANNEL_IDENTIFYING'', Lit 0x15),
      (''PCAN_CHANNEL_FEATURES'', Lit 0x16),
      (''PCAN_BITRATE_ADAPTING'', Lit 0x17),
      (''PCAN_BITRATE_INFO_BTR'', Lit 0x18),
      (''PCAN_BITRATE_INFO_FD'', Lit 0x19),
      (''PCAN_BUSSPEED_NOMINAL'', Lit 0x1a),
      (''PCAN_BUSSPEED_FD'', Lit 0x1b),
      (''PCAN_IP_ADDRESS'', Lit 0x1c),
      (''PCAN_LAN_SERVICE_STATUS'', Lit 0x1d),
      (''PCAN_ALLOW_STATUS_FRAMES'', Lit 0x1e),
      (''PCAN_ALLOW_RTR_FRAMES'', Lit 0x1f),
      (''PCAN_ALLOW_ERROR_FRAMES'', Lit 0x20),
      (''PCAN_INTERFRAME_DELAY'', Lit 0x21),
      (''PCAN_ACCEPTANCE_FILTER_11BIT'', Lit 0x22),
      (''PCAN_ACCEPTANCE_FILTER_29BIT'', Lit 0x23),
      (''PCAN_IO_DIGITAL_CONFIGURATION'', Lit 0x24),
      (''PCAN_IO_DIGITAL_VALUE'', Lit 0x25),
      (''PCAN_IO_DIGITAL_SET'', Lit 0x26),
      (''PCAN_IO_DIGITAL_CLEAR'', Lit 0x27),
      (''PCAN_IO_ANALOG_VALUE'', Lit 0x28),
      (''PCAN_FIRMWARE_VERSION'', Lit 0x29),
      (''PCAN_ATTACHED_CHANNELS_COUNT'', Lit 0x2a),
      (''PCAN_ATTACHED_CHANNELS'', Lit 0x2b),
      (''PCAN_ALLOW_ECHO_FRAMES'', Lit 0x2c),
      (''PCAN_DEVICE_PART_NUMBER'', Lit 0x2d),
      (''PCAN_HARD_RESET_STATUS'', Lit 0x2e),
      (''PCAN_LAN_CHANNEL_DIRECTION'', Lit 0x2f),
      (''PCAN_DEVICE_GUID'', Lit 0x30),
      (''PCAN_BITRATE_INFO_CC'', Lit 0x31),
      (''PCAN_BITRATE_INFO_XL'', Lit 0x32),
      (''PCAN_BUSSPEED_XL'', Lit 0x33),
      (''PCAN_BUSSPEED_DATA'', Sym ''PCAN_BUSSPEED_FD''),
      (''PCAN_BITRATE_INFO'', Sym ''PCAN_BITRATE_INFO_BTR'')]"

definition PCAN_parameter_values :: macro_table where
  "PCAN_parameter_values =
     [(''PCAN_PARAMETER_OFF'', Lit 0x00),
      (''PCAN_PARAMETER_ON'', Lit 0x01),
      (''PCAN_FILTER_CLOSE'', Lit 0x00),
      (''PCAN_FILTER_OPEN'', Lit 0x01),
      (''PCAN_FILTER_CUSTOM'', Lit 0x02),
      (''PCAN_CHANNEL_UNAVAILABLE'', Lit 0x00),
      (''PCAN_CHANNEL_AVAILABLE'', Lit 0x01),
      (''PCAN_CHANNEL_OCCUPIED'', Lit 0x02),
      (''PCAN_CHANNEL_PCANVIEW'', BOr (Sym ''PCAN_CHANNEL_AVAILABLE'') (Sym ''PCAN_CHANNEL_OCCUPIED'')),
      (''LOG_FUNCTION_DEFAULT'', Lit 0x00),
      (''LOG_FUNCTION_ENTRY'', Lit 0x01),
      (''LOG_FUNCTION_PARAMETERS'', Lit 0x02),
      (''LOG_FUNCTION_LEAVE'', Lit 0x04),
      (''LOG_FUNCTION_WRITE'', Lit 0x08),
      (''LOG_FUNCTION_READ'', Lit 0x10),
      (''LOG_FUNCTION_ALL'', Lit 0xffff),
      (''TRACE_FILE_SINGLE'', Lit 0x00),
      (''TRACE_FILE_SEGMENTED'', Lit 0x01),
      (''TRACE_FILE_DATE'', Lit 0x02),
      (''TRACE_FILE_TIME'', Lit 0x04),
      (''TRACE_FILE_OVERWRITE'', Lit 0x80),
      (''TRACE_FILE_DATA_LENGTH'', Lit 0x100),
      (''FEATURE_FD_CAPABLE'', Lit 0x01),
      (''FEATURE_DELAY_CAPABLE'', Lit 0x02),
      (''FEATURE_IO_CAPABLE'', Lit 0x04),
      (''FEATURE_XL_CAPABLE'', Lit 0x08),
      (''SERVICE_STATUS_STOPPED'', Lit 0x01),
      (''SERVICE_STATUS_RUNNING'', Lit 0x04),
      (''LAN_DIRECTION_READ'', Lit 0x01),
      (''LAN_DIRECTION_WRITE'', Lit 0x02),
      (''LAN_DIRECTION_READ_WRITE'', BOr (Sym ''LAN_DIRECTION_READ'') (Sym ''LAN_DIRECTION_WRITE''))]"

definition PCAN_limits :: macro_table where
  "PCAN_limits =
     [(''MAX_LENGTH_HARDWARE_NAME'', Lit 33),
      (''MAX_LENGTH_VERSION_STRING'', Lit 256),
      (''MAX_LENGTH_DATA_XL'', Lit 2048),
      (''MAX_VALUE_STANDARD_ID'', Lit 0x7ff),
      (''MAX_VALUE_EXTENDED_ID'', Lit 0x1fffffff),
      (''MAX_VALUE_PRIORITY_ID'', Lit 0x7ff)]"

definition PCAN_message_types :: macro_table where
  "PCAN_message_types =
     [(''PCAN_MESSAGE_STANDARD'', Lit 0x00),
      (''PCAN_MESSAGE_RTR'', Lit 0x01),
      (''PCAN_MESSAGE_EXTENDED'', Lit 0x02),
      (''PCAN_MESSAGE_FD'', Lit 0x04),
      (''PCAN_MESSAGE_BRS'', Lit 0x08),
      (''PCAN_MESSAGE_ESI'', Lit 0x10),
      (''PCAN_MESSAGE_ECHO'', Lit 0x20),
      (''PCAN_MESSAGE_ERRFRAME'', Lit 0x40),
      (''PCAN_MESSAGE_STATUS'', Lit 0x80)]"

definition PCAN_message_types_XL :: macro_table where
  "PCAN_message_types_XL =
     [(''PCAN_MESSAGE_XL'', Lit 0x100),
      (''PCAN_MESSAGE_PROTOCOL_EXCEPTION'', Lit 0x200),
      (''PCAN_MESSAGE_ERROR_NOTIFICATION'', Lit 0x400)]"

definition PCAN_lookup_keys :: text_table where
  "PCAN_lookup_keys =
     [(''LOOKUP_DEVICE_TYPE'', ''devicetype''),
      (''LOOKUP_DEVICE_ID'', ''deviceid''),
      (''LOOKUP_CONTROLLER_NUMBER'', ''controllernumber''),
      (''LOOKUP_IP_ADDRESS'', ''ipaddress''),
      (''LOOKUP_DEVICE_GUID'', ''deviceguid'')]"

definition PCAN_modes :: macro_table where
  "PCAN_modes =
     [(''PCAN_MODE_STANDARD'', Sym ''PCAN_MESSAGE_STANDARD''),
      (''PCAN_MODE_EXTENDED'', Sym ''PCAN_MESSAGE_EXTENDED'')]"

definition PCAN_baud_codes :: macro_table where
  "PCAN_baud_codes =
     [(''PCAN_BAUD_1M'', Lit 0x0014),
      (''PCAN_BAUD_800K'', Lit 0x0016),
      (''PCAN_BAUD_500K'', Lit 0x001c),
      (''PCAN_BAUD_250K'', Lit 0x011c),
      (''PCAN_BAUD_125K'', Lit 0x031c),
      (''PCAN_BAUD_100K'', Lit 0x432f),
      (''PCAN_BAUD_95K'', Lit 0xc34e),
      (''PCAN_BAUD_83K'', Lit 0x852b),
      (''PCAN_BAUD_50K'', Lit 0x472f),
      (''PCAN_BAUD_47K'', Lit 0x1414),
      (''PCAN_BAUD_33K'', Lit 0x8b2f),
      (''PCAN_BAUD_20K'', Lit 0x532f),
      (''PCAN_BAUD_10K'', Lit 0x672f),
      (''PCAN_BAUD_5K'', Lit 0x7f7f)]"

definition PCAN_bitrate_keys :: text_table where
  "PCAN_bitrate_keys =
     [(''PCAN_BR_CLOCK'', ''f_clock''),
      (''PCAN_BR_CLOCK_MHZ'', ''f_clock_mhz''),
      (''PCAN_BR_NOM_BRP'', ''nom_brp''),
      (''PCAN_BR_NOM_TSEG1'', ''nom_tseg1''),
      (''PCAN_BR_NOM_TSEG2'', ''nom_tseg2''),
      (''PCAN_BR_NOM_SJW'', ''nom_sjw''),
      (''PCAN_BR_NOM_SAMPLE'', ''nom_sam''),
      (''PCAN_BR_DATA_BRP'', ''data_brp''),
      (''PCAN_BR_DATA_TSEG1'', ''data_tseg1''),
      (''PCAN_BR_DATA_TSEG2'', ''data_tseg2''),
      (''PCAN_BR_DATA_SJW'', ''data_sjw''),
      (''PCAN_BR_DATA_SAMPLE'', ''data_ssp_offset''),
      (''PCAN_BR_DATA_SSP_OFFSET'', ''data_ssp_offset''),
      (''PCAN_BR_BRP'', ''brp''),
      (''PCAN_BR_FD_TSEG1'', ''fd_tseg1''),
      (''PCAN_BR_FD_TSEG2'', ''fd_tseg2''),
      (''PCAN_BR_FD_SJW'', ''fd_sjw''),
      (''PCAN_BR_FD_SSP_OFFSET'', ''fd_ssp_offset''),
      (''PCAN_BR_XL_TSEG1'', ''xl_tseg1''),
      (''PCAN_BR_XL_TSEG2'', ''xl_tseg2''),
      (''PCAN_BR_XL_SJW'', ''xl_sjw''),
      (''PCAN_BR_XL_SSP_OFFSET'', ''xl_ssp_offset''),
      (''PCAN_BR_XL_PWM_OFFSET'', ''xl_pwm_offset''),
      (''PCAN_BR_XL_PWM_SHORT'', ''xl_pwm_short''),
      (''PCAN_BR_XL_PWM_LONG'', ''xl_pwm_long''),
      (''PCAN_BR_XL_TRANSCEIVER_MODE_SWITCH'', ''xl_transceiver_mode_switch''),
      (''PCAN_BR_XL_ERROR_SIGNALING'', ''xl_error_signaling'')]"

definition TPCANHandle :: ctype where [hdr_types]: "TPCANHandle = CInt False 2"

definition TPCANStatus :: ctype where [hdr_types]: "TPCANStatus = CInt False 4"

definition TPCANParameter :: ctype where [hdr_types]: "TPCANParameter = CInt False 1"

definition TPCANDevice :: ctype where [hdr_types]: "TPCANDevice = CInt False 1"

definition TPCANMessageType :: ctype where [hdr_types]: "TPCANMessageType = CInt False 1"

definition TPCANMessageTypeXL :: ctype where [hdr_types]: "TPCANMessageTypeXL = CInt False 2"

definition TPCANMode :: ctype where [hdr_types]: "TPCANMode = CInt False 1"

definition TPCANBaudrate :: ctype where [hdr_types]: "TPCANBaudrate = CInt False 2"

definition TPCANBitrateCC :: ctype where [hdr_types]: "TPCANBitrateCC = CPtr ''char''"

definition TPCANBitrateFD :: ctype where [hdr_types]: "TPCANBitrateFD = CPtr ''char''"

definition TPCANBitrateXL :: ctype where [hdr_types]: "TPCANBitrateXL = CPtr ''char''"

definition TPCANTimestampFD :: ctype where [hdr_types]: "TPCANTimestampFD = CInt False 8"

definition TPCANTimestampXL :: ctype where [hdr_types]: "TPCANTimestampXL = TPCANTimestampFD"

definition TPCANMsg :: ctype where [hdr_types]:
  "TPCANMsg =
     CStruct 8 [(''ID'', CInt False 4), (''MSGTYPE'', TPCANMessageType), (''LEN'', CInt False 1),
     (''DATA'', CArr (CInt False 1) 8)]"

definition TPCANTimestamp :: ctype where [hdr_types]:
  "TPCANTimestamp =
     CStruct 8 [(''millis'', CInt False 4), (''millis_overflow'', CInt False 2), (''micros'',
     CInt False 2)]"

definition TPCANMsgFD :: ctype where [hdr_types]:
  "TPCANMsgFD =
     CStruct 8 [(''ID'', CInt False 4), (''MSGTYPE'', TPCANMessageType), (''DLC'', CInt False 1),
     (''DATA'', CArr (CInt False 1) 64)]"

definition TPCANMsgXL :: ctype where [hdr_types]:
  "TPCANMsgXL =
     CStruct 8 [(''PID'', CInt False 4), (''VCID'', CInt False 1), (''MSGTYPE'',
     TPCANMessageTypeXL), (''DLC'', CInt False 2), (''SDT'', CInt False 1), (''AF'', CInt False
     4), (''RRS'', CInt False 1), (''SEC'', CInt False 1), (''DATA'', CArr (CInt False 1) 2048)]"

definition TPCANChannelInformation :: ctype where [hdr_types]:
  "TPCANChannelInformation =
     CStruct 8 [(''channel_handle'', TPCANHandle), (''device_type'', TPCANDevice),
     (''controller_number'', CInt False 1), (''device_features'', CInt False 4),
     (''device_name'', CArr (CInt True 1) 33), (''device_id'', CInt False 4),
     (''channel_condition'', CInt False 4)]"

definition PCAN_prototypes_1 :: "cproto list" where
  "PCAN_prototypes_1 =
     [CProto ''CAN_Initialize'' (TPCANStatus) [(''Channel'', TPCANHandle), (''Btr0Btr1'',
      TPCANBaudrate), (''deprecated1'', CInt False 1), (''deprecated2'', CInt False 4),
      (''deprecated3'', CInt False 2)],
      CProto ''CAN_InitializeFD'' (TPCANStatus) [(''Channel'', TPCANHandle), (''BitrateFD'',
      TPCANBitrateFD)],
      CProto ''CAN_InitializeXL'' (TPCANStatus) [(''Channel'', TPCANHandle), (''BitrateXL'',
      TPCANBitrateXL)],
      CProto ''CAN_Uninitialize'' (TPCANStatus) [(''Channel'', TPCANHandle)],
      CProto ''CAN_Reset'' (TPCANStatus) [(''Channel'', TPCANHandle)],
      CProto ''CAN_GetStatus'' (TPCANStatus) [(''Channel'', TPCANHandle)],
      CProto ''CAN_Read'' (TPCANStatus) [(''Channel'', TPCANHandle), (''MessageBuffer'', CPtr
      ''TPCANMsg''), (''TimestampBuffer'', CPtr ''TPCANTimestamp'')],
      CProto ''CAN_ReadFD'' (TPCANStatus) [(''Channel'', TPCANHandle), (''MessageBuffer'', CPtr
      ''TPCANMsgFD''), (''TimestampBuffer'', CPtr ''TPCANTimestampFD'')],
      CProto ''CAN_ReadXL'' (TPCANStatus) [(''Channel'', TPCANHandle), (''MessageBuffer'', CPtr
      ''TPCANMsgXL''), (''TimestampBuffer'', CPtr ''TPCANTimestampXL'')],
      CProto ''CAN_Write'' (TPCANStatus) [(''Channel'', TPCANHandle), (''MessageBuffer'', CPtr
      ''TPCANMsg'')]]"

definition PCAN_prototypes_2 :: "cproto list" where
  "PCAN_prototypes_2 =
     [CProto ''CAN_WriteFD'' (TPCANStatus) [(''Channel'', TPCANHandle), (''MessageBuffer'', CPtr
      ''TPCANMsgFD'')],
      CProto ''CAN_WriteXL'' (TPCANStatus) [(''Channel'', TPCANHandle), (''MessageBuffer'', CPtr
      ''TPCANMsgXL'')],
      CProto ''CAN_FilterMessages'' (TPCANStatus) [(''Channel'', TPCANHandle), (''FromID'', CInt
      False 4), (''ToID'', CInt False 4), (''Mode'', TPCANMode)],
      CProto ''CAN_GetValue'' (TPCANStatus) [(''Channel'', TPCANHandle), (''Parameter'',
      TPCANParameter), (''Buffer'', CPtr ''void''), (''BufferLength'', CInt False 4)],
      CProto ''CAN_SetValue'' (TPCANStatus) [(''Channel'', TPCANHandle), (''Parameter'',
      TPCANParameter), (''Buffer'', CPtr ''void''), (''BufferLength'', CInt False 4)],
      CProto ''CAN_GetErrorText'' (TPCANStatus) [(''Error'', TPCANStatus), (''Language'', CInt
      False 2), (''Buffer'', CPtr ''char'')],
      CProto ''CAN_LookUpChannel'' (TPCANStatus) [(''Parameters'', CPtr ''char''),
      (''FoundChannel'', CPtr ''TPCANHandle'')]]"

text \<open>Every structure, macro table and prototype of the header.\<close>

definition PCAN_structs :: "ctype list" where
  "PCAN_structs =
     [TPCANMsg, TPCANTimestamp, TPCANMsgFD, TPCANMsgXL, TPCANChannelInformation]"

definition PCAN_tables :: "macro_table list" where
  "PCAN_tables =
     [PCAN_channels, PCAN_status_codes, PCAN_devices, PCAN_parameters, PCAN_parameter_values,
     PCAN_limits, PCAN_message_types, PCAN_message_types_XL, PCAN_modes, PCAN_baud_codes]"

definition PCAN_functions :: "cproto list" where
  "PCAN_functions = PCAN_prototypes_1 @
     PCAN_prototypes_2"

end
