(* ===== verification/Pcan_Bitrate.thy ===== *)
theory Pcan_Bitrate
  imports Pcan_Driver Hdr_Pcan
begin

text \<open>
  The bit-rate string that PCAN-Basic takes for a CAN FD channel (pcan.go): the fixed string for
  500 kbit/s and 2 Mbit/s, the one built from the search for a bit timing, and the one built from
  explicit timings. The parser states how the library reads it: \<open>name=value\<close> pairs with the names of
  the header, separated by commas.
\<close>

section \<open>Printing\<close>

text \<open>The verb \<open>%d\<close> of the formatting package.\<close>

fun decimal :: "nat \<Rightarrow> string" where
  "decimal n = (if n < 10 then [char_of (48 + n)] else decimal (n div 10) @ [char_of (48 + n mod 10)])"

declare decimal.simps [simp del]

definition format_d :: "int \<Rightarrow> string" where
  "format_d i = (if i < 0 then ''-'' @ decimal (nat (- i)) else decimal (nat i))"

type_synonym phase = "int \<times> int \<times> int \<times> int"

text \<open>The prescaler, both segments and the jump width of the nominal phase, then of the data phase.\<close>

fun bitrate_text :: "phase \<Rightarrow> phase \<Rightarrow> string" where
  "bitrate_text (nb, n1, n2, ns) (db, d1, d2, ds) =
     ''f_clock_mhz=80,nom_brp='' @ format_d nb @ '',nom_tseg1='' @ format_d n1 @ '',nom_tseg2='' @ format_d n2 @
     '',nom_sjw='' @ format_d ns @ '',data_brp='' @ format_d db @ '',data_tseg1='' @ format_d d1 @
     '',data_tseg2='' @ format_d d2 @ '',data_sjw='' @ format_d ds"

definition pcanFDDefaultBitrate :: string where
  "pcanFDDefaultBitrate =
     ''f_clock_mhz=80,nom_brp=20,nom_tseg1=5,nom_tseg2=2,nom_sjw=1,data_brp=4,data_tseg1=7,data_tseg2=2,data_sjw=1''"

definition pcanFDBitrate :: "u32 \<Rightarrow> u32 \<Rightarrow> string option" where
  "pcanFDBitrate nominal data =
     (if nominal = 500000 \<and> data = 2000000 then Some pcanFDDefaultBitrate
      else do { (nomBRP, nomTseg1, nomTseg2) \<leftarrow> findPCANBitTiming nominal 256 128;
                (dataBRP, dataTseg1, dataTseg2) \<leftarrow> findPCANBitTiming data 32 16;
                Some (bitrate_text (nomBRP, nomTseg1, nomTseg2, min nomTseg2 4)
                        (dataBRP, dataTseg1, dataTseg2, min dataTseg2 4)) })"

definition pcanFDBitrateFromTiming :: "BitTiming \<Rightarrow> BitTiming \<Rightarrow> string" where
  "pcanFDBitrateFromTiming nominal data =
     bitrate_text (uint (BRP nominal), uint (SEG1 nominal), uint (SEG2 nominal), uint (SJW nominal))
       (uint (BRP data), uint (SEG1 data), uint (SEG2 data), uint (SJW data))"

section \<open>Reading it back\<close>

fun split_at :: "char \<Rightarrow> string \<Rightarrow> string list" where
  "split_at c [] = [[]]"
| "split_at c (x # xs) = (if x = c then [] # split_at c xs
     else case split_at c xs of [] \<Rightarrow> [[x]] | w # ws \<Rightarrow> (x # w) # ws)"

definition read_decimal :: "string \<Rightarrow> nat option" where
  "read_decimal s =
     (if s \<noteq> [] \<and> list_all (\<lambda>c. 48 \<le> (of_char c :: nat) \<and> of_char c \<le> (57 :: nat)) s
      then Some (foldl (\<lambda>n c. 10 * n + (of_char c - 48)) 0 s) else None)"

definition read_field :: "string \<Rightarrow> (string \<times> nat) option" where
  "read_field s =
     (case split_at (CHR ''='') s of
        [name, v] \<Rightarrow> map_option (Pair name) (read_decimal v)
      | _ \<Rightarrow> None)"

definition read_bitrate :: "string \<Rightarrow> (string \<times> nat) list option" where
  "read_bitrate s = those (map read_field (split_at (CHR '','') s))"

text \<open>The names of the header for the clock and the eight numbers.\<close>

definition bitrate_names :: "string option list" where
  "bitrate_names = map (map_of PCAN_bitrate_keys)
     [''PCAN_BR_CLOCK_MHZ'', ''PCAN_BR_NOM_BRP'', ''PCAN_BR_NOM_TSEG1'', ''PCAN_BR_NOM_TSEG2'',
      ''PCAN_BR_NOM_SJW'', ''PCAN_BR_DATA_BRP'', ''PCAN_BR_DATA_TSEG1'', ''PCAN_BR_DATA_TSEG2'',
      ''PCAN_BR_DATA_SJW'']"

lemma split_at_none: "c \<notin> set xs \<Longrightarrow> split_at c xs = [xs]"
  by (induction xs) auto

lemma split_at_append: "c \<notin> set xs \<Longrightarrow> split_at c (xs @ c # ys) = xs # split_at c ys"
  by (induction xs) auto

lemma decimal_digits: "c \<in> set (decimal n) \<Longrightarrow> 48 \<le> (of_char c :: nat) \<and> of_char c \<le> (57 :: nat)"
proof (induction n rule: decimal.induct)
  case (1 n)
  have last: "48 \<le> (of_char (char_of (48 + d :: nat) :: char) :: nat) \<and> of_char (char_of (48 + d)) \<le> (57 :: nat)"
    if "d < 10" for d :: nat
    using that by simp
  have "n < 10 \<or> n mod 10 < 10" by simp
  show ?case
  proof (cases "n < 10")
    case True
    then show ?thesis using 1(2) last [of n] by (simp add: decimal.simps [of n])
  next
    case False
    then have "c \<in> set (decimal (n div 10)) \<or> c = char_of (48 + n mod 10)"
      using 1(2) by (auto simp: decimal.simps [of n])
    then show ?thesis using 1(1) [OF False] last [of "n mod 10"] by auto
  qed
qed

lemma decimal_nonempty: "decimal n \<noteq> []"
  by (simp add: decimal.simps [of n])

lemma read_digits: "foldl (\<lambda>n c. 10 * n + (of_char c - 48)) 0 (decimal n) = n"
proof (induction n rule: decimal.induct)
  case (1 n)
  show ?case
  proof (cases "n < 10")
    case False
    then show ?thesis using 1 by (simp add: decimal.simps [of n])
  qed (simp add: decimal.simps [of n])
qed

lemma read_decimal_format: "0 \<le> i \<Longrightarrow> read_decimal (format_d i) = Some (nat i)"
  using decimal_digits [of _ "nat i"]
  by (auto simp: read_decimal_def format_d_def read_digits decimal_nonempty list_all_iff)

lemma format_no_separator: "0 \<le> i \<Longrightarrow> CHR '','' \<notin> set (format_d i) \<and> CHR ''='' \<notin> set (format_d i)"
  using decimal_digits [of "CHR '',''" "nat i"] decimal_digits [of "CHR ''=''" "nat i"]
  by (auto simp: format_d_def)

lemma read_bitrate_text:
  assumes "0 \<le> nb" "0 \<le> n1" "0 \<le> n2" "0 \<le> ns" "0 \<le> db" "0 \<le> d1" "0 \<le> d2" "0 \<le> ds"
  shows "read_bitrate (bitrate_text (nb, n1, n2, ns) (db, d1, d2, ds)) =
    Some (zip (map the bitrate_names) (map nat [80, nb, n1, n2, ns, db, d1, d2, ds]))"
proof -
  have "read_decimal ''80'' = Some 80" by code_simp
  then show ?thesis using assms by (simp add: read_bitrate_def read_field_def split_at_append split_at_none
      format_no_separator read_decimal_format bitrate_names_def PCAN_bitrate_keys_def)
qed

section \<open>What the string programs\<close>

definition programs :: "u32 \<Rightarrow> int \<Rightarrow> int \<Rightarrow> int \<times> int \<times> int \<Rightarrow> bool" where
  "programs bitrate maxTseg1 maxTseg2 c =
     (case c of (brp, tseg1, tseg2) \<Rightarrow>
        1 \<le> brp \<and> brp \<le> 1024 \<and> 1 \<le> tseg1 \<and> tseg1 \<le> maxTseg1 \<and> 1 \<le> tseg2 \<and> tseg2 \<le> maxTseg2 \<and>
        uint bitrate * brp * (1 + tseg1 + tseg2) = 80000000)"

lemma programs_admissible:
  "programs bitrate m1 m2 c \<longleftrightarrow>
   bitrate \<noteq> 0 \<and> 80000000 mod uint bitrate = 0 \<and> admissible_timing m1 m2 (80000000 div uint bitrate) c"
proof -
  obtain brp t1 t2 where c: "c = (brp, t1, t2)" by (cases c)
  have "uint bitrate * brp * (1 + t1 + t2) = 80000000 \<longleftrightarrow>
      bitrate \<noteq> 0 \<and> 80000000 mod uint bitrate = 0 \<and> brp dvd 80000000 div uint bitrate \<and>
      1 + t1 + t2 = 80000000 div uint bitrate div brp" (is "?l \<longleftrightarrow> ?r") if "1 \<le> brp"
  proof
    assume l: ?l
    then have nz: "uint bitrate \<noteq> 0" by auto
    have "80000000 = uint bitrate * (brp * (1 + t1 + t2))" using l by (simp add: mult.assoc)
    then have "80000000 mod uint bitrate = 0" "80000000 div uint bitrate = brp * (1 + t1 + t2)"
      using nz by (metis mod_mult_self1_is_0, metis nonzero_mult_div_cancel_left)
    then show ?r using nz that by auto
  next
    assume r: ?r
    then have "uint bitrate * (80000000 div uint bitrate) = 80000000" by auto
    moreover have "brp * (1 + t1 + t2) = 80000000 div uint bitrate" using r by auto
    ultimately show ?l by (simp add: mult.assoc)
  qed
  then show ?thesis by (auto simp: programs_def admissible_timing_def c)
qed

lemma find_programs:
  "case findPCANBitTiming bitrate m1 m2 of
     None \<Rightarrow> \<forall>c. \<not> programs bitrate m1 m2 c
   | Some c \<Rightarrow> programs bitrate m1 m2 c \<and> (\<forall>c'. programs bitrate m1 m2 c' \<longrightarrow> sample_error c \<le> sample_error c')"
  using bit_timing_optimal [of bitrate m1 m2]
  by (auto simp: programs_admissible split: option.splits)
   (auto simp: findPCANBitTiming_def split: if_splits)

text \<open>C23: the string for a CAN FD channel, read the way the header describes it, has exactly the nine fields of
  the header for an 80 MHz clock. Its prescalers and segments keep the limits of the hardware and divide
  the clock to exactly the bit rates asked for, and the jump widths are at most the second segments.
  Unless it is the fixed string, no other timing for these rates samples nearer to 80 percent. There is
  no string exactly when one of the rates cannot be made. The string for explicit timings passes them
  on unchanged.\<close>
theorem fd_bitrate_string:
  "(case pcanFDBitrate nominal data of
      None \<Rightarrow> (\<forall>c. \<not> programs nominal 256 128 c) \<or> (\<forall>c. \<not> programs data 32 16 c)
    | Some s \<Rightarrow> \<exists>nb n1 n2 ns db d1 d2 ds.
        read_bitrate s = Some (zip (map the bitrate_names) (map nat [80, nb, n1, n2, ns, db, d1, d2, ds])) \<and>
        programs nominal 256 128 (nb, n1, n2) \<and> 1 \<le> ns \<and> ns \<le> n2 \<and>
        programs data 32 16 (db, d1, d2) \<and> 1 \<le> ds \<and> ds \<le> d2 \<and>
        ((nominal, data) = (500000, 2000000) \<or>
          (\<forall>c. \<not> (programs nominal 256 128 c \<and> sample_error c < sample_error (nb, n1, n2)) \<and>
               \<not> (programs data 32 16 c \<and> sample_error c < sample_error (db, d1, d2))))) \<and>
   read_bitrate (pcanFDBitrateFromTiming t u) =
     Some (zip (map the bitrate_names) (80 # map unat [BRP t, SEG1 t, SEG2 t, SJW t, BRP u, SEG1 u, SEG2 u, SJW u]))" (is "?string \<and> ?explicit")
proof
  show ?explicit
    by (simp add: pcanFDBitrateFromTiming_def read_bitrate_text del: bitrate_text.simps)
  show ?string
  proof (cases "nominal = 500000 \<and> data = 2000000")
    case True
    have "read_bitrate pcanFDDefaultBitrate =
        Some (zip (map the bitrate_names) (map nat [80, 20, 5, 2, 1, 4, 7, 2, 1]))"
      by code_simp
    moreover have "programs 500000 256 128 (20, 5, 2)" "programs 2000000 32 16 (4, 7, 2)"
      by (simp_all add: programs_def)
    ultimately show ?thesis
      using True
      by (simp only: pcanFDBitrate_def simp_thms if_True option.case)
        (rule exI [of _ 20], rule exI [of _ 5], rule exI [of _ 2], rule exI [of _ 1], rule exI [of _ 4],
         rule exI [of _ 7], rule exI [of _ 2], rule exI [of _ 1], simp)
  next
    case False
    show ?thesis
    proof (cases "findPCANBitTiming nominal 256 128 = None \<or> findPCANBitTiming data 32 16 = None")
      case True
      then have "pcanFDBitrate nominal data = None"
        using False by (cases "findPCANBitTiming nominal 256 128") (auto simp: pcanFDBitrate_def)
      moreover have "(\<forall>c. \<not> programs nominal 256 128 c) \<or> (\<forall>c. \<not> programs data 32 16 c)"
        using True find_programs [of nominal 256 128] find_programs [of data 32 16] by auto
      ultimately show ?thesis by simp
    next
      case found: False
      then obtain nb n1 n2 db d1 d2 where n: "findPCANBitTiming nominal 256 128 = Some (nb, n1, n2)"
        and d: "findPCANBitTiming data 32 16 = Some (db, d1, d2)" by auto
      note best = find_programs [of nominal 256 128, unfolded n option.case]
        find_programs [of data 32 16, unfolded d option.case]
      then have "read_bitrate (bitrate_text (nb, n1, n2, min n2 4) (db, d1, d2, min d2 4)) =
          Some (zip (map the bitrate_names) (map nat [80, nb, n1, n2, min n2 4, db, d1, d2, min d2 4]))"
        by (intro read_bitrate_text) (auto simp: programs_def)
      moreover have "1 \<le> min n2 4 \<and> min n2 4 \<le> n2 \<and> 1 \<le> min d2 4 \<and> min d2 4 \<le> d2"
        using best by (auto simp: programs_def)
      moreover have "\<forall>c. \<not> (programs nominal 256 128 c \<and> sample_error c < sample_error (nb, n1, n2)) \<and>
          \<not> (programs data 32 16 c \<and> sample_error c < sample_error (db, d1, d2))"
        using best by (metis not_le)
      moreover have "pcanFDBitrate nominal data =
          Some (bitrate_text (nb, n1, n2, min n2 4) (db, d1, d2, min d2 4))"
        using False n d by (auto simp: pcanFDBitrate_def simp del: bitrate_text.simps)
      ultimately show ?thesis using best
        by (simp only: option.case)
          (rule exI [of _ nb], rule exI [of _ n1], rule exI [of _ n2], rule exI [of _ "min n2 4"],
           rule exI [of _ db], rule exI [of _ d1], rule exI [of _ d2], rule exI [of _ "min d2 4"], simp)
    qed
  qed
qed

text \<open>250 kbit/s and 1 Mbit/s can both be made, so there is a string.\<close>

lemma fd_bitrate_string_witness:
  "\<exists>s numbers. pcanFDBitrate 250000 1000000 = Some s \<and>
     read_bitrate s = Some (zip (map the bitrate_names) (80 # numbers))"
proof -
  have "programs 250000 256 128 (4, 63, 16)" "programs 1000000 32 16 (4, 15, 4)"
    by (simp_all add: programs_def)
  then show ?thesis
    using fd_bitrate_string [of 250000 1000000 zero_timing zero_timing]
    by (cases "pcanFDBitrate 250000 1000000") (auto simp del: zip_Cons_Cons)
qed

end
