(* ===== verification/Pcan_Life.thy ===== *)
theory Pcan_Life
  imports Bus_Device Pcan_Bitrate
begin

text \<open>
  How PCAN opens and closes: \<open>initialize\<close>, \<open>start\<close> and \<open>stop\<close> of pcan.go, step by step in the order of
  the calls, with the cleanup of every error path. Searching for the DLL, the text of errors and
  logging are left out. The driver keeps the contract of \<open>bus_device\<close>.
\<close>

section \<open>The driver\<close>

record pcan_dev = runtime +
  pd_CANChannel :: u8
  pd_handle :: u16

definition pcan_procs :: "string list" where
  "pcan_procs = [''CAN_Initialize'', ''CAN_InitializeFD'', ''CAN_Uninitialize'', ''CAN_Read'', ''CAN_ReadFD'',
     ''CAN_Write'', ''CAN_WriteFD'', ''CAN_GetErrorText'']"

section \<open>Opening and closing\<close>

definition pcan_cleanup :: "pcan_dev \<Rightarrow> (bool \<times> pcan_dev) option" where
  "pcan_cleanup p =
     do { p \<leftarrow> call_cancel p; p \<leftarrow> fanout_Close p; p \<leftarrow> close_rxChan p;
          Some (False, p\<lparr>rt_fanout := None, rt_rxChan := None\<rparr>) }"

text \<open>\<open>formatStatus\<close> asks the DLL for the text of a status.\<close>

definition pcan_checked :: "dll_env \<Rightarrow> pcan_dev \<Rightarrow> string \<Rightarrow> bool option" where
  "pcan_checked e p x =
     do { good \<leftarrow> proc_call e p x;
          if good then Some True else do { _ \<leftarrow> proc_run p ''CAN_GetErrorText''; Some False } }"

definition pcan_initCAN :: "dll_env \<Rightarrow> pcan_dev \<Rightarrow> bool option" where
  "pcan_initCAN e p =
     (if pcanClassicBaud (cfg_NominalBitrate (rt_cfg p)) = 0 then Some False
      else pcan_checked e p ''CAN_Initialize'')"

definition pcan_initFD :: "dll_env \<Rightarrow> pcan_dev \<Rightarrow> bool option" where
  "pcan_initFD e p =
     (if timing_IsZero (cfg_NominalTiming (rt_cfg p)) \<and>
         pcanFDBitrate (cfg_NominalBitrate (rt_cfg p)) (cfg_DataBitrate (rt_cfg p)) = None
      then Some False
      else pcan_checked e p ''CAN_InitializeFD'')"

definition pcan_enableEcho :: "dll_env \<Rightarrow> pcan_dev \<Rightarrow> unit option" where
  "pcan_enableEcho e p =
     (if \<not> has_proc p ''CAN_SetValue'' then Some ()
      else do { _ \<leftarrow> pcan_checked e p ''CAN_SetValue''; Some () })"

definition pcan_loadDLL :: "dll_env \<Rightarrow> pcan_dev \<Rightarrow> bool \<times> pcan_dev" where
  "pcan_loadDLL e p =
     (if de_loads e ''PCANBasic.dll'' then (True, p\<lparr>rt_dll := Some (de_exports e)\<rparr>) else (False, p))"

text \<open>\<open>initialize\<close> after the channels are made.\<close>

definition pcan_open :: "dll_env \<Rightarrow> pcan_dev \<Rightarrow> (bool \<times> pcan_dev) option" where
  "pcan_open e p =
     (case pcanUSBHandle (uint (pd_CANChannel p)) of
        None \<Rightarrow> pcan_cleanup p
      | Some handle \<Rightarrow>
        (let p = p\<lparr>pd_handle := handle\<rparr>
         in case pcan_loadDLL e p of (good, p) \<Rightarrow>
              if \<not> good then pcan_cleanup p
              else do { good \<leftarrow> (if rt_canType p = FD then pcan_initFD e p
                                else if rt_canType p = Classic then pcan_initCAN e p
                                else Some False);
                        if \<not> good then pcan_cleanup p
                        else do { _ \<leftarrow> pcan_enableEcho e (acquire ResDevice p);
                                  Some (True, markInitialized (acquire ResDevice p)) } }))"

definition pcan_initialize :: "dll_env \<Rightarrow> pcan_dev \<Rightarrow> (bool \<times> pcan_dev) option" where
  "pcan_initialize e p =
     (if rt_initialized p then Some (True, p)
      else case Normalized (rt_cfg p) of
        Inl err \<Rightarrow> Some (False, p)
      | Inr cfg \<Rightarrow>
          pcan_open e (prepare_runtime (p\<lparr>rt_cfg := cfg, rt_canType := cfg_Mode cfg,
            pd_CANChannel := cfg_Channel cfg\<rparr>)))"

definition pcan_start :: "pcan_dev \<Rightarrow> (bool \<times> pcan_dev) option" where
  "pcan_start p =
     (if \<not> rt_initialized p then Some (False, p)
      else do { _ \<leftarrow> proc_run p (if rt_canType p = FD then ''CAN_ReadFD'' else ''CAN_Read'');
                Some (True, lifecycle_start p) })"

definition pcan_stop :: "pcan_dev \<Rightarrow> pcan_dev option" where
  "pcan_stop p =
     do { (wasInitialized, p) \<leftarrow> cancelAndWait p;
          p \<leftarrow> drop_fanout p;
          p \<leftarrow> (if wasInitialized \<and> rt_dll p \<noteq> None
                then do { _ \<leftarrow> proc_run p ''CAN_Uninitialize''; Some (release ResDevice p) } else Some p);
          drop_rxChan p }"

definition pcan_device :: "pcan_dev device" where
  "pcan_device = \<lparr>dv_initialize = pcan_initialize, dv_start = pcan_start, dv_stop = pcan_stop,
     dv_write = (\<lambda>e p f. w_error (pcan_write (\<lambda>m. if de_accepts e then 0 else 1)
       \<lparr>pc_initialized = rt_initialized p, pc_canType = rt_canType p, pc_cfg = rt_cfg p\<rparr> f)),
     dv_subscribable = (\<lambda>p. rt_fanout p \<noteq> None), dv_isFD = (\<lambda>p. rt_canType p = FD),
     dv_config = rt_cfg, dv_setBRS = (\<lambda>b p. p\<lparr>rt_cfg := (rt_cfg p)\<lparr>cfg_BRS := b\<rparr>\<rparr>)\<rparr>"

text \<open>\<open>newPCAN\<close>: the handle of a channel out of range is 0.\<close>

definition newPCAN :: "Config \<Rightarrow> pcan_dev" where
  "newPCAN cfg = \<lparr>rt_cfg = cfg, rt_canType = cfg_Mode cfg, rt_initialized = False, rt_running = False,
     rt_cancel = None, rt_rxChan = None, rt_fanout = None, rt_dll = None, rt_held = {}, rt_faults = {},
     pd_CANChannel = cfg_Channel cfg,
     pd_handle = (case pcanUSBHandle (uint (cfg_Channel cfg)) of None \<Rightarrow> 0 | Some h \<Rightarrow> h)\<rparr>"

section \<open>The contract\<close>

definition pcan_ok :: "pcan_dev \<Rightarrow> bool" where
  "pcan_ok p \<longleftrightarrow> runtime_ok {ResDevice} {} pcan_procs p"

text \<open>PCANBasic.dll exports what pcan.h documents.\<close>

definition pcan_dll :: "dll_env \<Rightarrow> bool" where
  "pcan_dll e \<longleftrightarrow> list_all (de_exports e) pcan_procs"

lemma pcan_cleanup_ok: "runtime_prepared {} {} pcan_procs p \<Longrightarrow>
   returns (pcan_cleanup p) (\<lambda>(b, p'). \<not> b \<and> pcan_ok p' \<and> \<not> rt_initialized p')"
  by (auto simp: pcan_cleanup_def life_defs pcan_ok_def runtime_ok_def runtime_prepared_def)

lemma pcan_checked_returns:
  "has_proc p x \<Longrightarrow> has_proc p ''CAN_GetErrorText'' \<Longrightarrow> pcan_checked e p x = Some (de_ok e x)"
  by (simp add: pcan_checked_def proc_call_def proc_run_def)

lemma pcan_init_returns: "rt_dll p = Some (de_exports e) \<Longrightarrow> pcan_dll e \<Longrightarrow>
   \<exists>b. (if rt_canType p = FD then pcan_initFD e p
        else if rt_canType p = Classic then pcan_initCAN e p else Some False) = Some b"
  by (auto simp: pcan_initFD_def pcan_initCAN_def pcan_checked_returns has_proc_def pcan_dll_def pcan_procs_def)

lemma pcan_echo_returns: "rt_dll p = Some (de_exports e) \<Longrightarrow> pcan_dll e \<Longrightarrow> pcan_enableEcho e p = Some ()"
  by (auto simp: pcan_enableEcho_def pcan_checked_returns has_proc_def pcan_dll_def pcan_procs_def)

lemma pcan_open_ok:
  assumes "runtime_prepared {} {} pcan_procs p" "pcan_dll e"
  shows "returns (pcan_open e p) (\<lambda>(b, p'). pcan_ok p' \<and> b = rt_initialized p')"
proof (cases "pcanUSBHandle (uint (pd_CANChannel p))")
  case None
  show ?thesis
    using pcan_cleanup_ok [OF assms(1)] by (auto simp: pcan_open_def None elim!: returns_mono)
next
  case (Some h)
  let ?p = "p\<lparr>pd_handle := h\<rparr>" and ?q = "p\<lparr>pd_handle := h, rt_dll := Some (de_exports e)\<rparr>"
  have p: "runtime_prepared {} {} pcan_procs ?p" "runtime_prepared {} {} pcan_procs ?q"
    using assms by (auto simp: runtime_prepared_def dll_ok_def pcan_dll_def)
  obtain b where b: "(if rt_canType ?q = FD then pcan_initFD e ?q
      else if rt_canType ?q = Classic then pcan_initCAN e ?q else Some False) = Some b"
    using pcan_init_returns [of ?q e] assms(2) by auto
  have echo: "pcan_enableEcho e (acquire ResDevice ?q) = Some ()"
    using assms(2) by (intro pcan_echo_returns) (simp_all add: acquire_def)
  have opened: "pcan_ok (markInitialized (acquire ResDevice ?q))"
    using p(2) by (auto simp: runtime_prepared_def pcan_ok_def runtime_ok_def life_defs)
  have load: "pcan_loadDLL e ?p = (if de_loads e ''PCANBasic.dll'' then (True, ?q) else (False, ?p))"
    by (simp add: pcan_loadDLL_def)
  show ?thesis
  proof (cases "de_loads e ''PCANBasic.dll''")
    case True
    show ?thesis
      unfolding pcan_open_def Some option.case Let_def load if_P [OF True] prod.case b bind.simps
      using pcan_cleanup_ok [OF p(2)] opened by (auto simp: echo markInitialized_def elim!: returns_mono)
  next
    case False
    then show ?thesis
      using pcan_cleanup_ok [OF p(1)] by (auto simp: pcan_open_def Some load elim!: returns_mono)
  qed
qed

lemma pcan_initialize_ok:
  assumes "pcan_ok p" "pcan_dll e"
  shows "returns (pcan_initialize e p)
    (\<lambda>(b, p'). pcan_ok p' \<and> b = rt_initialized p' \<and> (rt_initialized p \<longrightarrow> p' = p))"
proof (cases "rt_initialized p")
  case True
  then show ?thesis using assms(1) by (simp add: pcan_initialize_def)
next
  case False
  have "runtime_prepared {} {} pcan_procs (prepare_runtime (p\<lparr>rt_cfg := cfg,
      rt_canType := cfg_Mode cfg, pd_CANChannel := cfg_Channel cfg\<rparr>))" for cfg
    using assms(1) False by (auto simp: pcan_ok_def runtime_ok_def runtime_prepared_def
        prepare_runtime_def acquire_def dll_ok_def)
  then show ?thesis
    using assms False pcan_open_ok
    by (auto simp: pcan_initialize_def split: sum.split)
qed

lemma pcan_start_ok: "pcan_ok p \<Longrightarrow> returns (pcan_start p)
   (\<lambda>(b, p'). pcan_ok p' \<and> b = rt_initialized p \<and> rt_initialized p' = rt_initialized p)"
  by (auto simp: pcan_start_def life_defs pcan_ok_def runtime_ok_def pcan_procs_def)

lemma pcan_stop_ok:
  assumes "pcan_ok p"
  shows "returns (pcan_stop p) (\<lambda>p'. pcan_ok p' \<and> \<not> rt_initialized p' \<and> rt_cfg p' = rt_cfg p)"
proof (cases "rt_initialized p")
  case True
  note ok = assms [unfolded pcan_ok_def]
  have "rt_dll p \<noteq> None" "has_proc p ''CAN_Uninitialize''"
    using ok True by (auto simp: runtime_ok_def dll_ok_def has_proc_def pcan_procs_def)
  then show ?thesis
    unfolding pcan_stop_def stop_live [OF ok True, simplified]
    using ok True by (auto simp: stopped_def life_defs pcan_ok_def runtime_ok_def)
next
  case False
  note ok = assms [unfolded pcan_ok_def]
  show ?thesis unfolding pcan_stop_def stop_closed [OF ok False]
    using assms False drop_rxChan_closed [OF ok False] by simp
qed

lemma pcan_write_refuses: "w_error (pcan_write dll
     \<lparr>pc_initialized = rt_initialized p, pc_canType = m, pc_cfg = cfg\<rparr> f) = Some DriverNotOpen
   \<longleftrightarrow> \<not> rt_initialized p"
  by (auto simp: pcan_write_def refuse_def transmit_def Let_def)

interpretation pcan: bus_device pcan_device pcan_ok rt_initialized rt_held rt_faults pcan_dll
proof unfold_locales
  fix p :: pcan_dev and e err
  assume "\<not> rt_initialized p" "Normalized (dv_config pcan_device p) = Inl err"
  then show "dv_initialize pcan_device e p = Some (False, p)"
    by (simp add: pcan_device_def pcan_initialize_def)
qed (use pcan_initialize_ok pcan_start_ok pcan_stop_ok in \<open>auto simp: pcan_device_def
      pcan_write_refuses pcan_ok_def runtime_ok_def dll_ok_def split: if_splits\<close>)

lemma newPCAN_ok: "pcan_ok (newPCAN cfg)" "\<not> rt_initialized (newPCAN cfg)"
  by (simp_all add: pcan_ok_def runtime_ok_def newPCAN_def dll_ok_def)

end
