(* ===== verification/Canalyst_Driver.thy ===== *)
theory Canalyst_Driver
  imports Driver_Common
begin

text \<open>
  canalystii.go: the driver for ControlCAN.dll. Constants, the structures passed to the DLL, the
  table of SJA1000 bit timings, \<open>write\<close>, and what the read loop does with a batch of messages. The
  device is classic CAN only. The search for the DLL and the diagnostics are left out.
\<close>

section \<open>Constants, structures and bit timings\<close>

definition VCI_USBCAN1 :: int where "VCI_USBCAN1 = 3"
definition VCI_USBCAN2 :: int where "VCI_USBCAN2 = 4"
definition VCI_USBCAN2A :: int where "VCI_USBCAN2A = 4"
definition VCI_USBCAN_E_U :: int where "VCI_USBCAN_E_U = 20"
definition VCI_USBCAN_2E_U :: int where "VCI_USBCAN_2E_U = 21"
definition STATUS_OK :: int where "STATUS_OK = 1"
definition STATUS_ERR :: int where "STATUS_ERR = 0"

record Btr =
  Btr0 :: u8
  Btr1 :: u8

definition canalystBitrateTable :: "(u32 \<times> Btr) list" where
  "canalystBitrateTable =
     [(20000, \<lparr>Btr0 = 0x18, Btr1 = 0x1C\<rparr>), (33333, \<lparr>Btr0 = 0x09, Btr1 = 0x6F\<rparr>),
      (40000, \<lparr>Btr0 = 0x87, Btr1 = 0xFF\<rparr>), (50000, \<lparr>Btr0 = 0x09, Btr1 = 0x1C\<rparr>),
      (66666, \<lparr>Btr0 = 0x04, Btr1 = 0x6F\<rparr>), (80000, \<lparr>Btr0 = 0x83, Btr1 = 0xFF\<rparr>),
      (83333, \<lparr>Btr0 = 0x03, Btr1 = 0x6F\<rparr>), (100000, \<lparr>Btr0 = 0x04, Btr1 = 0x1C\<rparr>),
      (125000, \<lparr>Btr0 = 0x03, Btr1 = 0x1C\<rparr>), (200000, \<lparr>Btr0 = 0x81, Btr1 = 0xFA\<rparr>),
      (250000, \<lparr>Btr0 = 0x01, Btr1 = 0x1C\<rparr>), (400000, \<lparr>Btr0 = 0x80, Btr1 = 0xFA\<rparr>),
      (500000, \<lparr>Btr0 = 0x00, Btr1 = 0x1C\<rparr>), (666000, \<lparr>Btr0 = 0x80, Btr1 = 0xB6\<rparr>),
      (800000, \<lparr>Btr0 = 0x00, Btr1 = 0x16\<rparr>), (1000000, \<lparr>Btr0 = 0x00, Btr1 = 0x14\<rparr>)]"

definition canalystTiming :: "u32 \<Rightarrow> Btr option" where
  "canalystTiming bitrate = map_of canalystBitrateTable bitrate"

record vci_can_obj =
  vo_ID :: u32
  vo_TimeStamp :: u32
  vo_TimeFlag :: u8
  vo_SendType :: u8
  vo_RemoteFlag :: u8
  vo_ExternFlag :: u8
  vo_DataLen :: u8
  vo_Data :: bytes
  vo_Reserved :: bytes

record CanalystII =
  ca_initialized :: bool
  ca_opened :: bool
  ca_cfg :: Config

section \<open>Sending and receiving\<close>

definition canalyst_write :: "(vci_can_obj \<Rightarrow> bool) \<Rightarrow> CanalystII \<Rightarrow> Frame \<Rightarrow> vci_can_obj written" where
  "canalyst_write dll c frame =
     (let data = frame_data frame
      in if \<not> ca_initialized c \<or> \<not> ca_opened c then refuse DriverNotOpen
         else if f_FD frame then refuse FDUnsupported
         else transmit dll
           \<lparr>vo_ID = f_ID frame, vo_TimeStamp = 0, vo_TimeFlag = 0, vo_SendType = 0,
            vo_RemoteFlag = 0, vo_ExternFlag = 0, vo_DataLen = word_of_nat (length data),
            vo_Data = go_copy (replicate 8 0) data, vo_Reserved = replicate 3 0\<rparr> frame)"

definition canalystTimestampUS :: "u32 \<Rightarrow> u8 \<Rightarrow> u64" where
  "canalystTimestampUS timestamp timeFlag = (if timeFlag = 0 then 0 else ucast timestamp * 100)"

definition canalystTimestampWrapUS :: u64 where
  "canalystTimestampWrapUS = push_bit 32 1 * 100"

text \<open>The body of the loop over a batch; the device gives no transmit confirmations.\<close>

definition canalyst_receive :: "vci_can_obj \<Rightarrow> disposal" where
  "canalyst_receive msg =
     (if vo_RemoteFlag msg \<noteq> 0 \<or> vo_ExternFlag msg \<noteq> 0 then Dropped
      else if vo_ID msg > 0x7FF then Dropped
      else if vo_DataLen msg > 8 then Dropped
      else Published
        \<lparr>f_Direction = Receive, f_ID = vo_ID msg, f_DLC = vo_DataLen msg,
         f_Data = go_copy (replicate 64 0) (take (unat (vo_DataLen msg)) (vo_Data msg)),
         f_FD = False, f_BRS = False, f_Extended = False,
         f_TimestampUS = canalystTimestampUS (vo_TimeStamp msg) (vo_TimeFlag msg)\<rparr>)"

text \<open>One tick of the read loop: the value \<open>VCI_Receive\<close> returned and the buffer it filled.\<close>

definition canalyst_tick :: "u32 \<Rightarrow> vci_can_obj list \<Rightarrow> disposal list" where
  "canalyst_tick n canMsg =
     (let count = sint n
      in if count < 0 then []
         else if count = 0 then []
         else if count > 1024 then []
         else map canalyst_receive (take (nat count) canMsg))"

end
