(* ===== verification/Canalyst_Life.thy ===== *)
theory Canalyst_Life
  imports Bus_Device Canalyst_Driver
begin

text \<open>
  How CANalyst-II opens and closes: \<open>initialize\<close>, \<open>start\<close> and \<open>stop\<close> of canalystii.go in the order of the
  calls, with the cleanup of every error path; the DLL is loaded once and kept. The driver keeps the
  contract of \<open>bus_device\<close>.
\<close>

record canalyst_dev = runtime +
  cd_CANChannel :: u8
  cd_DeviceType :: int
  cd_DeviceInd :: int
  cd_opened :: bool

definition newCanalystII :: "Config \<Rightarrow> int \<Rightarrow> int \<Rightarrow> canalyst_dev" where
  "newCanalystII cfg deviceType deviceInd =
     \<lparr>rt_cfg = cfg, rt_canType = Classic, rt_initialized = False, rt_running = False,
      rt_cancel = None, rt_rxChan = None, rt_fanout = None, rt_dll = None, rt_held = {}, rt_faults = {},
      cd_CANChannel = cfg_Channel cfg, cd_DeviceType = deviceType, cd_DeviceInd = deviceInd,
      cd_opened = False\<rparr>"

definition canalyst_procs :: "string list" where
  "canalyst_procs = [''VCI_OpenDevice'', ''VCI_CloseDevice'', ''VCI_InitCAN'', ''VCI_StartCAN'',
     ''VCI_ClearBuffer'', ''VCI_Transmit'', ''VCI_Receive'']"

definition canalyst_close :: "canalyst_dev \<Rightarrow> canalyst_dev option" where
  "canalyst_close c =
     do { _ \<leftarrow> proc_run c ''VCI_CloseDevice''; Some (release ResDevice (c\<lparr>cd_opened := False\<rparr>)) }"

definition canalyst_cleanup :: "canalyst_dev \<Rightarrow> (bool \<times> canalyst_dev) option" where
  "canalyst_cleanup c =
     do { c \<leftarrow> (if cd_opened c \<and> rt_dll c \<noteq> None then canalyst_close c else Some c);
          c \<leftarrow> (if rt_cancel c \<noteq> None then call_cancel c else Some c);
          c \<leftarrow> drop_fanout c;
          c \<leftarrow> drop_rxChan c;
          Some (False, c) }"

text \<open>\<open>loadDLL\<close> keeps a DLL that is loaded.\<close>

definition canalyst_loadDLL :: "dll_env \<Rightarrow> canalyst_dev \<Rightarrow> bool \<times> canalyst_dev" where
  "canalyst_loadDLL e c =
     (if rt_dll c \<noteq> None then (True, c)
      else if de_loads e ''ControlCAN.dll'' then (True, c\<lparr>rt_dll := Some (de_exports e)\<rparr>)
      else (False, c))"

text \<open>\<open>initialize\<close> once the DLL is loaded and the bit rate is known.\<close>

definition canalyst_open :: "dll_env \<Rightarrow> canalyst_dev \<Rightarrow> (bool \<times> canalyst_dev) option" where
  "canalyst_open e c =
     do { good \<leftarrow> proc_call e c ''VCI_OpenDevice'';
          if \<not> good then canalyst_cleanup c
          else let c = acquire ResDevice (c\<lparr>cd_opened := True\<rparr>) in
            do { good \<leftarrow> proc_call e c ''VCI_InitCAN'';
                 if \<not> good then canalyst_cleanup c
                 else do { _ \<leftarrow> proc_run c ''VCI_ClearBuffer'';
                           good \<leftarrow> proc_call e c ''VCI_StartCAN'';
                           if \<not> good then canalyst_cleanup c
                           else Some (True, markInitialized c) } } }"

definition canalyst_initialize :: "dll_env \<Rightarrow> canalyst_dev \<Rightarrow> (bool \<times> canalyst_dev) option" where
  "canalyst_initialize e c =
     (if rt_initialized c then Some (True, c)
      else case Normalized (rt_cfg c) of
        Inl err \<Rightarrow> Some (False, c)
      | Inr cfg \<Rightarrow>
          if cfg_Mode cfg \<noteq> Classic then Some (False, c)
          else (case canalyst_loadDLL e
                  (prepare_runtime (c\<lparr>rt_cfg := cfg, cd_CANChannel := cfg_Channel cfg\<rparr>)) of
              (good, c) \<Rightarrow>
                if \<not> good \<or> canalystTiming (cfg_NominalBitrate cfg) = None then canalyst_cleanup c
                else canalyst_open e c))"

definition canalyst_start :: "canalyst_dev \<Rightarrow> (bool \<times> canalyst_dev) option" where
  "canalyst_start c =
     Some (if \<not> rt_initialized c \<or> \<not> cd_opened c then (False, c) else (True, lifecycle_start c))"

definition canalyst_stop :: "canalyst_dev \<Rightarrow> canalyst_dev option" where
  "canalyst_stop c =
     do { (wasInitialized, c) \<leftarrow> cancelAndWait c;
          c \<leftarrow> drop_fanout c;
          c \<leftarrow> (if wasInitialized \<and> cd_opened c \<and> rt_dll c \<noteq> None then canalyst_close c else Some c);
          drop_rxChan c }"

definition canalyst_device :: "canalyst_dev device" where
  "canalyst_device = \<lparr>dv_initialize = canalyst_initialize, dv_start = canalyst_start,
     dv_stop = canalyst_stop,
     dv_write = (\<lambda>e c f. w_error (canalyst_write (\<lambda>m. de_accepts e)
       \<lparr>ca_initialized = rt_initialized c, ca_opened = cd_opened c, ca_cfg = rt_cfg c\<rparr> f)),
     dv_subscribable = (\<lambda>c. rt_fanout c \<noteq> None), dv_isFD = (\<lambda>c. False),
     dv_config = rt_cfg, dv_setBRS = (\<lambda>b c. c\<lparr>rt_cfg := (rt_cfg c)\<lparr>cfg_BRS := b\<rparr>\<rparr>)\<rparr>"

section \<open>The contract\<close>

definition canalyst_ok :: "canalyst_dev \<Rightarrow> bool" where
  "canalyst_ok c \<longleftrightarrow> runtime_ok {ResDevice} {} canalyst_procs c \<and> cd_opened c = rt_initialized c"

definition canalyst_dll :: "dll_env \<Rightarrow> bool" where
  "canalyst_dll e \<longleftrightarrow> list_all (de_exports e) canalyst_procs"

definition canalyst_prepared :: "canalyst_dev \<Rightarrow> bool" where
  "canalyst_prepared c \<longleftrightarrow>
     runtime_prepared (if cd_opened c then {ResDevice} else {}) {} canalyst_procs c \<and>
     (cd_opened c \<longrightarrow> rt_dll c \<noteq> None)"

lemma canalyst_cleanup_ok: "canalyst_prepared c \<Longrightarrow>
   returns (canalyst_cleanup c) (\<lambda>(b, c'). \<not> b \<and> canalyst_ok c' \<and> \<not> rt_initialized c')"
  by (cases "cd_opened c") (auto simp: canalyst_cleanup_def canalyst_close_def life_defs
      canalyst_prepared_def canalyst_ok_def runtime_ok_def runtime_prepared_def canalyst_procs_def)

lemma canalyst_open_ok:
  assumes "canalyst_prepared c" "\<not> cd_opened c" "rt_dll c \<noteq> None"
  shows "returns (canalyst_open e c) (\<lambda>(b, c'). canalyst_ok c' \<and> b = rt_initialized c')"
proof -
  let ?c = "acquire ResDevice (c\<lparr>cd_opened := True\<rparr>)"
  have c: "canalyst_prepared ?c"
    using assms by (auto simp: canalyst_prepared_def runtime_prepared_def life_defs)
  have opened: "canalyst_ok (markInitialized ?c)"
    using assms by (auto simp: canalyst_prepared_def runtime_prepared_def canalyst_ok_def
        runtime_ok_def life_defs)
  have procs: "proc_call e c x = Some (de_ok e x)" "proc_call e ?c x = Some (de_ok e x)"
      "proc_run ?c x = Some ()" if "x \<in> set canalyst_procs" for x
    using that assms by (auto simp: canalyst_prepared_def runtime_prepared_def life_defs list_all_iff)
  show ?thesis
    unfolding canalyst_open_def Let_def
    using canalyst_cleanup_ok [OF assms(1)] canalyst_cleanup_ok [OF c] opened
    by (auto simp: procs canalyst_procs_def markInitialized_def elim!: returns_mono)
qed

lemma canalyst_initialize_ok:
  assumes "canalyst_ok c" "canalyst_dll e"
  shows "returns (canalyst_initialize e c)
    (\<lambda>(b, c'). canalyst_ok c' \<and> b = rt_initialized c' \<and> (rt_initialized c \<longrightarrow> c' = c))"
proof (cases "rt_initialized c")
  case True
  then show ?thesis using assms(1) by (simp add: canalyst_initialize_def)
next
  case False
  have *: "canalyst_prepared c' \<and> \<not> cd_opened c' \<and> (b \<longrightarrow> rt_dll c' \<noteq> None)"
    if "canalyst_loadDLL e (prepare_runtime (c\<lparr>rt_cfg := cfg, cd_CANChannel := cfg_Channel cfg\<rparr>)) = (b, c')"
    for cfg b c'
    using that assms False
    by (auto simp: canalyst_loadDLL_def canalyst_ok_def runtime_ok_def runtime_prepared_def canalyst_dll_def
        canalyst_prepared_def prepare_runtime_def acquire_def dll_ok_def split: if_splits)
  show ?thesis
  proof (cases "Normalized (rt_cfg c)")
    case (Inl err)
    then show ?thesis using assms(1) False by (simp add: canalyst_initialize_def)
  next
    case (Inr cfg)
    obtain b c' where load: "canalyst_loadDLL e
        (prepare_runtime (c\<lparr>rt_cfg := cfg, cd_CANChannel := cfg_Channel cfg\<rparr>)) = (b, c')" by fastforce
    show ?thesis
      using * [OF load] canalyst_open_ok [of c' e] canalyst_cleanup_ok [of c'] assms(1) False
      by (auto simp: canalyst_initialize_def Inr load elim!: returns_mono)
  qed
qed

lemma canalyst_start_ok: "canalyst_ok c \<Longrightarrow> returns (canalyst_start c)
   (\<lambda>(b, c'). canalyst_ok c' \<and> b = rt_initialized c \<and> rt_initialized c' = rt_initialized c)"
  by (auto simp: canalyst_start_def life_defs canalyst_ok_def runtime_ok_def)

lemma canalyst_stop_ok:
  assumes "canalyst_ok c"
  shows "returns (canalyst_stop c) (\<lambda>c'. canalyst_ok c' \<and> \<not> rt_initialized c' \<and> rt_cfg c' = rt_cfg c)"
proof -
  have ok: "runtime_ok {ResDevice} {} canalyst_procs c" using assms by (simp add: canalyst_ok_def)
  show ?thesis
  proof (cases "rt_initialized c")
    case True
    have "has_proc c ''VCI_CloseDevice''"
      using ok True by (auto simp: runtime_ok_def dll_ok_def has_proc_def canalyst_procs_def)
    then show ?thesis
      unfolding canalyst_stop_def stop_live [OF ok True, simplified]
      using ok assms True by (auto simp: stopped_def life_defs canalyst_ok_def runtime_ok_def canalyst_close_def)
  next
    case False
    show ?thesis unfolding canalyst_stop_def stop_closed [OF ok False]
      using assms False drop_rxChan_closed [OF ok False] by simp
  qed
qed

lemma canalyst_write_refuses: "w_error (canalyst_write dll
     \<lparr>ca_initialized = i, ca_opened = o', ca_cfg = cfg\<rparr> f) = Some DriverNotOpen \<longleftrightarrow> \<not> i \<or> \<not> o'"
  by (auto simp: canalyst_write_def refuse_def transmit_def Let_def)

interpretation canalyst: bus_device canalyst_device canalyst_ok rt_initialized rt_held rt_faults canalyst_dll
proof unfold_locales
  fix c :: canalyst_dev and e err
  assume "\<not> rt_initialized c" "Normalized (dv_config canalyst_device c) = Inl err"
  then show "dv_initialize canalyst_device e c = Some (False, c)"
    by (simp add: canalyst_device_def canalyst_initialize_def)
qed (use canalyst_initialize_ok canalyst_start_ok canalyst_stop_ok in \<open>auto simp: canalyst_device_def
      canalyst_write_refuses canalyst_ok_def runtime_ok_def dll_ok_def split: if_splits\<close>)

lemma newCanalystII_ok:
  "canalyst_ok (newCanalystII cfg t i)" "\<not> rt_initialized (newCanalystII cfg t i)"
  by (simp_all add: canalyst_ok_def runtime_ok_def newCanalystII_def dll_ok_def)

end
