(* ===== verification/Toomoss_Driver.thy ===== *)
theory Toomoss_Driver
  imports Driver_Common
begin

text \<open>
  toomoss.go, the part that talks CAN: constants, the message structures of USB2XXX.dll, the flag
  codecs, \<open>write\<close> for classic and FD devices and what the read loop does with a batch of messages.
  Loading the DLL, the USB session and the start-up calls are left out.
\<close>

section \<open>Constants and structures\<close>

definition CANFD_MSG_FLAG_BRS :: u8 where "CANFD_MSG_FLAG_BRS = 0x01"
definition CANFD_MSG_FLAG_ESI :: u8 where "CANFD_MSG_FLAG_ESI = 0x02"
definition CANFD_MSG_FLAG_FDF :: u8 where "CANFD_MSG_FLAG_FDF = 0x04"

definition toomossCANFDIDMaskStandard :: u32 where "toomossCANFDIDMaskStandard = 0x7FF"
definition toomossCANFDIDMaskExtended :: u32 where "toomossCANFDIDMaskExtended = 0x1FFFFFFF"
definition toomossCANFDIDFlagRemote :: u32 where "toomossCANFDIDFlagRemote = push_bit 30 1"
definition toomossCANFDIDFlagExtended :: u32 where "toomossCANFDIDFlagExtended = push_bit 31 1"
definition toomossCANFDFlagChannel :: u8 where "toomossCANFDFlagChannel = 0x60"
definition toomossCANFDFlagTx :: u8 where "toomossCANFDFlagTx = 0x80"
definition toomossClassicFlagRemote :: u8 where "toomossClassicFlagRemote = 0x01"
definition toomossClassicFlagChannel :: u8 where "toomossClassicFlagChannel = 0x60"
definition toomossClassicFlagTx :: u8 where "toomossClassicFlagTx = 0x80"
definition toomossClassicFlagExt :: u8 where "toomossClassicFlagExt = 0x01"
definition toomossClassicFlagError :: u8 where "toomossClassicFlagError = 0x80"

lemmas toomoss_flags = CANFD_MSG_FLAG_BRS_def CANFD_MSG_FLAG_ESI_def CANFD_MSG_FLAG_FDF_def
  toomossCANFDIDMaskStandard_def toomossCANFDIDMaskExtended_def toomossCANFDIDFlagRemote_def
  toomossCANFDIDFlagExtended_def toomossCANFDFlagChannel_def toomossCANFDFlagTx_def
  toomossClassicFlagRemote_def toomossClassicFlagChannel_def toomossClassicFlagTx_def
  toomossClassicFlagExt_def toomossClassicFlagError_def

text \<open>The identifier of a classic message is an \<open>int32\<close>; the code only masks it as an unsigned word.\<close>

record toomoss_can_msg =
  tc_ID :: u32
  tc_TimeStamp :: u32
  tc_RemoteFlag :: u8
  tc_ExternFlag :: u8
  tc_DataLen :: u8
  tc_Data :: bytes
  tc_TimeStampHigh :: u8

record toomoss_canfd_msg =
  tf_ID :: u32
  tf_DLC :: u8
  tf_Flags :: u8
  tf_Res0 :: u8
  tf_TimeStampHigh :: u8
  tf_TimeStamp :: u32
  tf_Data :: bytes

record Toomoss =
  to_initialized :: bool
  to_legacyCAN :: bool
  to_canSend :: bool
  to_CANChannel :: u8
  to_cfg :: Config

section \<open>Flags, identifiers and times\<close>

definition decodeToomossClassicFlags :: "u8 \<Rightarrow> u8 \<Rightarrow> u8 \<times> bool \<times> bool \<times> bool \<times> bool" where
  "decodeToomossClassicFlags remoteFlag externFlag =
     (drop_bit 5 (remoteFlag AND toomossClassicFlagChannel),
      remoteFlag AND toomossClassicFlagRemote \<noteq> 0,
      externFlag AND toomossClassicFlagExt \<noteq> 0,
      externFlag AND toomossClassicFlagError \<noteq> 0,
      remoteFlag AND toomossClassicFlagTx \<noteq> 0)"

definition decodeToomossCANFDID :: "u32 \<Rightarrow> u32 \<times> bool \<times> bool" where
  "decodeToomossCANFDID rawID =
     (rawID AND toomossCANFDIDMaskExtended,
      rawID AND toomossCANFDIDFlagRemote \<noteq> 0,
      rawID AND toomossCANFDIDFlagExtended \<noteq> 0)"

definition decodeToomossCANFDFlags :: "u8 \<Rightarrow> u8 \<times> bool \<times> bool \<times> bool" where
  "decodeToomossCANFDFlags flags =
     (drop_bit 5 (flags AND toomossCANFDFlagChannel),
      flags AND CANFD_MSG_FLAG_FDF \<noteq> 0,
      flags AND CANFD_MSG_FLAG_BRS \<noteq> 0,
      flags AND toomossCANFDFlagTx \<noteq> 0)"

definition encodeToomossClassicFlags :: "u8 \<Rightarrow> bool \<Rightarrow> bool \<Rightarrow> u8 \<times> u8" where
  "encodeToomossClassicFlags channel extended remote =
     (let remoteFlag = push_bit 5 channel AND toomossClassicFlagChannel
      in (if remote then remoteFlag OR toomossClassicFlagRemote else remoteFlag,
          if extended then toomossClassicFlagExt else 0))"

definition toomossDLCToDataLen :: "u8 \<Rightarrow> bool \<Rightarrow> int" where
  "toomossDLCToDataLen rawDLC isFD =
     (let maxLen = (if isFD then 64 else 8); actualLen = uint rawDLC
      in if actualLen > maxLen then maxLen else actualLen)"

definition toomossTimestampUS :: "u8 \<Rightarrow> u32 \<Rightarrow> u64 \<Rightarrow> u64" where
  "toomossTimestampUS high low tickUS = (push_bit 32 (ucast high) OR ucast low) * tickUS"

definition toomossTimestampWrapUS :: "u64 \<Rightarrow> u64" where
  "toomossTimestampWrapUS tickUS = push_bit 40 1 * tickUS"

section \<open>Sending\<close>

datatype toomoss_wire = WireLegacy toomoss_can_msg | WireCANFD toomoss_canfd_msg

definition writeClassicCAN :: "(toomoss_wire \<Rightarrow> bool) \<Rightarrow> Toomoss \<Rightarrow> Frame \<Rightarrow> toomoss_wire written" where
  "writeClassicCAN dll t frame =
     (let data = frame_data frame
      in if \<not> to_canSend t then refuse ProcNotLoaded
         else if f_FD frame then refuse FDUnsupported
         else if length data > 8 then refuse (DataTooLong (int (length data)))
         else (case encodeToomossClassicFlags (to_CANChannel t) False False of
           (remoteFlag, externFlag) \<Rightarrow>
             transmit dll
               (WireLegacy \<lparr>tc_ID = f_ID frame AND toomossCANFDIDMaskStandard, tc_TimeStamp = 0,
                  tc_RemoteFlag = remoteFlag, tc_ExternFlag = externFlag,
                  tc_DataLen = word_of_nat (length data), tc_Data = go_copy (replicate 8 0) data,
                  tc_TimeStampHigh = 0\<rparr>) frame))"

definition toomoss_write :: "(toomoss_wire \<Rightarrow> bool) \<Rightarrow> Toomoss \<Rightarrow> Frame \<Rightarrow> toomoss_wire written" where
  "toomoss_write dll t frame =
     (let data = frame_data frame;
          transmitLen = (if f_FD frame then dlcLen (LengthToDLC (int (length data)))
                         else int (length data))
      in if \<not> to_initialized t then refuse DriverNotOpen
         else if to_legacyCAN t then writeClassicCAN dll t frame
         else transmit dll
           (WireCANFD \<lparr>tf_ID = f_ID frame, tf_DLC = word_of_int transmitLen,
              tf_Flags = (if f_FD frame
                          then (if cfg_BRS (to_cfg t) then CANFD_MSG_FLAG_FDF OR CANFD_MSG_FLAG_BRS
                                else CANFD_MSG_FLAG_FDF)
                          else 0),
              tf_Res0 = 0, tf_TimeStampHigh = 0, tf_TimeStamp = 0,
              tf_Data = go_copy (replicate 64 0) data\<rparr>) frame)"

section \<open>Receiving\<close>

definition toomoss_receive_fd :: "Config \<Rightarrow> toomoss_canfd_msg \<Rightarrow> disposal" where
  "toomoss_receive_fd cfg msg =
     (case decodeToomossCANFDID (tf_ID msg) of (ident, remote, extended) \<Rightarrow>
        if remote \<or> extended \<or> ident > toomossCANFDIDMaskStandard then Dropped
        else (case decodeToomossCANFDFlags (tf_Flags msg) of (channel, isFD, brs, txEcho) \<Rightarrow>
          dispose cfg
            \<lparr>f_Direction = (if txEcho then Transmit else Receive), f_ID = ident,
             f_DLC = LengthToDLC (toomossDLCToDataLen (tf_DLC msg) isFD), f_Data = tf_Data msg,
             f_FD = isFD, f_BRS = (isFD \<and> brs), f_Extended = False,
             f_TimestampUS = toomossTimestampUS (tf_TimeStampHigh msg) (tf_TimeStamp msg) 10\<rparr>))"

definition toomoss_receive_classic :: "Config \<Rightarrow> toomoss_can_msg \<Rightarrow> disposal" where
  "toomoss_receive_classic cfg msg =
     (case decodeToomossClassicFlags (tc_RemoteFlag msg) (tc_ExternFlag msg) of
        (channel, remote, extended, errorFrame, txEcho) \<Rightarrow>
          if errorFrame then Dropped
          else if extended then Dropped
          else if remote then Dropped
          else let actualLen = min (uint (tc_DataLen msg)) (int (length (tc_Data msg)))
               in dispose cfg
                 \<lparr>f_Direction = (if txEcho then Transmit else Receive),
                  f_ID = tc_ID msg AND toomossCANFDIDMaskStandard, f_DLC = LengthToDLC actualLen,
                  f_Data = go_copy (replicate 64 0) (take (nat actualLen) (tc_Data msg)),
                  f_FD = False, f_BRS = False, f_Extended = False,
                  f_TimestampUS = toomossTimestampUS (tc_TimeStampHigh msg) (tc_TimeStamp msg) 100\<rparr>)"

text \<open>The count the DLL returns is clamped to the buffer of 1024 messages.\<close>

definition toomoss_tick :: "u32 \<Rightarrow> ('m \<Rightarrow> disposal) \<Rightarrow> 'm list \<Rightarrow> disposal list" where
  "toomoss_tick n receive buffer =
     (let count = sint n
      in if count \<le> 0 then [] else map receive (take (nat (min count 1024)) buffer))"

text \<open>\<open>drainInitialBuffer\<close>: whole batches are thrown away until one is empty, at most 16 of them.\<close>

definition toomoss_drain :: "u32 list \<Rightarrow> u32 list option" where
  "toomoss_drain counts = drain_until (\<lambda>n. sint n \<le> 0) 16 counts"

end
