(* ===== verification/Toomoss_Life.thy ===== *)
theory Toomoss_Life
  imports Bus_Device Toomoss_Driver
begin

text \<open>
  How a Toomoss adapter opens and closes: \<open>initialize\<close>, \<open>start\<close> and \<open>stop\<close> of toomoss.go in the order of
  the calls. One instance at a time owns the process-wide session; the DLL is loaded for every open
  and freed again; the channels are made last. A call through an address that was not found crashes.
\<close>

record toomoss_dev = runtime +
  td_CANChannel :: u8
  td_legacyCAN :: bool
  td_ownsDevice :: bool

definition newToomoss :: "Config \<Rightarrow> toomoss_dev" where
  "newToomoss cfg =
     \<lparr>rt_cfg = cfg, rt_canType = cfg_Mode cfg, rt_initialized = False, rt_running = False,
      rt_cancel = None, rt_rxChan = None, rt_fanout = None, rt_dll = None, rt_held = {}, rt_faults = {},
      td_CANChannel = cfg_Channel cfg, td_legacyCAN = False, td_ownsDevice = False\<rparr>"

section \<open>The DLL and the session\<close>

definition toomoss_classic_procs :: "string list" where
  "toomoss_classic_procs = [''CAN_Init'', ''CAN_StartGetMsg'', ''CAN_GetMsg'', ''CAN_SendMsgWithTime'',
     ''CAN_GetCANSpeedArg'']"

definition toomoss_fd_procs :: "string list" where
  "toomoss_fd_procs = [''CANFD_Init'', ''CANFD_StartGetMsg'', ''CANFD_GetMsg'',
     ''CANFD_SendMsgWithTime'', ''CANFD_GetCANSpeedArg'']"

definition toomoss_ready :: "(string \<Rightarrow> bool) \<Rightarrow> bool" where
  "toomoss_ready api \<longleftrightarrow>
     api ''USB_ScanDevice'' \<and> api ''USB_OpenDevice'' \<and> api ''USB_CloseDevice'' \<and>
     (list_all api toomoss_classic_procs \<or> list_all api toomoss_fd_procs)"

definition toomoss_release :: "toomoss_dev \<Rightarrow> toomoss_dev" where
  "toomoss_release t = (if rt_dll t = None then t else release ResLibrary (t\<lparr>rt_dll := None\<rparr>))"

definition releaseToomossSession :: "toomoss_dev \<Rightarrow> toomoss_dev" where
  "releaseToomossSession t =
     (if td_ownsDevice t then release ResSession (t\<lparr>td_ownsDevice := False\<rparr>) else t)"

text \<open>A DLL that lacks a required procedure is freed before the error is returned.\<close>

definition loadToomossAPI :: "dll_env \<Rightarrow> toomoss_dev \<Rightarrow> bool \<times> toomoss_dev" where
  "loadToomossAPI e t =
     (if \<not> de_loads e ''USB2XXX.dll'' then (False, t)
      else if \<not> toomoss_ready (de_exports e) then (False, release ResLibrary (acquire ResLibrary t))
      else (True, acquire ResLibrary (t\<lparr>rt_dll := Some (de_exports e)\<rparr>)))"

definition closeUSB :: "toomoss_dev \<Rightarrow> toomoss_dev" where
  "closeUSB t =
     (if rt_dll t = None then t
      else if \<not> has_proc t ''USB_CloseDevice'' then toomoss_release t
      else toomoss_release (release ResDevice t))"

definition toomoss_cleanup :: "bool \<Rightarrow> toomoss_dev \<Rightarrow> bool \<times> toomoss_dev" where
  "toomoss_cleanup opened t =
     (False, releaseToomossSession (if opened then closeUSB t else toomoss_release t))"

section \<open>The CAN FD configuration\<close>

text \<open>
  The bytes handed to \<open>CANFD_Init\<close>. Without explicit timing the library overwrites the phases of the
  defaults with what it computes for the bit rates. The reserved part stays nil.
\<close>

record CANFD_INIT_CONFIG =
  fi_Mode :: u8
  fi_ISOCRCEnable :: u8
  fi_RetrySend :: u8
  fi_ResEnable :: u8
  fi_NBT_BRP :: u8
  fi_NBT_SEG1 :: u8
  fi_NBT_SEG2 :: u8
  fi_NBT_SJW :: u8
  fi_DBT_BRP :: u8
  fi_DBT_SEG1 :: u8
  fi_DBT_SEG2 :: u8
  fi_DBT_SJW :: u8

definition defaultCANFDInitConfig :: CANFD_INIT_CONFIG where
  "defaultCANFDInitConfig =
     \<lparr>fi_Mode = 0, fi_ISOCRCEnable = 1, fi_RetrySend = 1, fi_ResEnable = 1,
      fi_NBT_BRP = 1, fi_NBT_SEG1 = 59, fi_NBT_SEG2 = 20, fi_NBT_SJW = 2,
      fi_DBT_BRP = 1, fi_DBT_SEG1 = 14, fi_DBT_SEG2 = 5, fi_DBT_SJW = 2\<rparr>"

definition applyToomossTiming :: "Config \<Rightarrow> CANFD_INIT_CONFIG" where
  "applyToomossTiming cfg = defaultCANFDInitConfig
     \<lparr>fi_NBT_BRP := BRP (cfg_NominalTiming cfg), fi_NBT_SEG1 := SEG1 (cfg_NominalTiming cfg),
      fi_NBT_SEG2 := SEG2 (cfg_NominalTiming cfg), fi_NBT_SJW := SJW (cfg_NominalTiming cfg),
      fi_DBT_BRP := BRP (cfg_DataTiming cfg), fi_DBT_SEG1 := SEG1 (cfg_DataTiming cfg),
      fi_DBT_SEG2 := SEG2 (cfg_DataTiming cfg), fi_DBT_SJW := SJW (cfg_DataTiming cfg)\<rparr>"

definition toomoss_fd_config :: "Config \<Rightarrow> CANFD_INIT_CONFIG" where
  "toomoss_fd_config cfg =
     (if timing_IsZero (cfg_NominalTiming cfg) then defaultCANFDInitConfig else applyToomossTiming cfg)"

text \<open>Every phase of what is handed over is set, as the configuration has passed \<open>Normalized\<close>.\<close>

lemma fill_defaults_timing:
  "fill_defaults cfg = Inr c \<Longrightarrow> cfg_Mode c = cfg_Mode cfg \<and>
   cfg_NominalTiming c = cfg_NominalTiming cfg \<and> cfg_DataTiming c = cfg_DataTiming cfg"
  by (auto simp: fill_defaults_def Let_def split: if_splits)

lemma timing_validate_fields:
  "timing_validate t = Inr u \<Longrightarrow> \<not> timing_IsZero t \<Longrightarrow> BRP t \<noteq> 0 \<and> SEG1 t \<noteq> 0 \<and> SEG2 t \<noteq> 0 \<and> SJW t \<noteq> 0"
  by (simp add: timing_validate_def split: if_splits)

lemma Normalized_timing:
  assumes "Normalized cfg = Inr c" "cfg_Mode c = FD"
  shows "timing_IsZero (cfg_DataTiming c) = timing_IsZero (cfg_NominalTiming c) \<and>
    (\<exists>u v. timing_validate (cfg_NominalTiming c) = Inr u \<and> timing_validate (cfg_DataTiming c) = Inr v)"
  using assms by (auto simp: Normalized_def dest: fill_defaults_timing split: if_splits sum.splits)

lemma toomoss_fd_config_complete:
  assumes "Normalized cfg = Inr c" "cfg_Mode c = FD"
  shows "0 \<notin> set (map (\<lambda>field. field (toomoss_fd_config c)) [fi_NBT_BRP, fi_NBT_SEG1, fi_NBT_SEG2, fi_NBT_SJW,
    fi_DBT_BRP, fi_DBT_SEG1, fi_DBT_SEG2, fi_DBT_SJW])"
  using Normalized_timing [OF assms] timing_validate_fields [of "cfg_NominalTiming c"]
    timing_validate_fields [of "cfg_DataTiming c"]
  by (auto simp: toomoss_fd_config_def applyToomossTiming_def defaultCANFDInitConfig_def)

section \<open>Opening and closing\<close>

definition initLegacyCANDevice :: "dll_env \<Rightarrow> toomoss_dev \<Rightarrow> bool option" where
  "initLegacyCANDevice e t =
     (if \<not> has_proc t ''CAN_GetCANSpeedArg'' \<or> \<not> has_proc t ''CAN_Init'' \<or> \<not> has_proc t ''CAN_StartGetMsg''
      then Some False
      else do { good \<leftarrow> proc_call e t ''CAN_GetCANSpeedArg'';
                if \<not> good then Some False
                else do { inited \<leftarrow> proc_call e t ''CAN_Init'';
                          started \<leftarrow> proc_call e t ''CAN_StartGetMsg'';
                          Some (inited \<and> started) } })"

definition initFDDevice :: "dll_env \<Rightarrow> toomoss_dev \<Rightarrow> bool option" where
  "initFDDevice e t =
     (if \<not> list_all (has_proc t) toomoss_fd_procs then Some False
      else do { speed \<leftarrow> (if timing_IsZero (cfg_NominalTiming (rt_cfg t))
                          then proc_call e t ''CANFD_GetCANSpeedArg'' else Some True);
                inited \<leftarrow> proc_call e t ''CANFD_Init'';
                started \<leftarrow> proc_call e t ''CANFD_StartGetMsg'';
                Some (inited \<and> started \<and> speed) })"

text \<open>\<open>initialize\<close> once the device is open.\<close>

definition toomoss_open :: "dll_env \<Rightarrow> toomoss_dev \<Rightarrow> (bool \<times> toomoss_dev) option" where
  "toomoss_open e t =
     (let t = t\<lparr>td_legacyCAN := (rt_canType t = Classic)\<rparr>
      in do { good \<leftarrow> (if td_legacyCAN t then initLegacyCANDevice e t else initFDDevice e t);
              if \<not> good then Some (toomoss_cleanup True t)
              else Some (True, markInitialized (prepare_runtime t)) })"

definition toomoss_initialize :: "dll_env \<Rightarrow> toomoss_dev \<Rightarrow> (bool \<times> toomoss_dev) option" where
  "toomoss_initialize e t =
     (if rt_initialized t then Some (True, t)
      else case Normalized (rt_cfg t) of
        Inl err \<Rightarrow> Some (False, t)
      | Inr cfg \<Rightarrow>
        (let t = t\<lparr>rt_cfg := cfg, rt_canType := cfg_Mode cfg, td_CANChannel := cfg_Channel cfg,
                   td_legacyCAN := False\<rparr>
         in if \<not> de_session_free e then Some (False, t)
            else (case loadToomossAPI e (acquire ResSession (t\<lparr>td_ownsDevice := True\<rparr>)) of
                (good, t) \<Rightarrow>
                  if \<not> good then Some (toomoss_cleanup False t)
                  else do { found \<leftarrow> proc_call e t ''USB_ScanDevice'';
                            if \<not> found then Some (toomoss_cleanup False t)
                            else do { good \<leftarrow> proc_call e t ''USB_OpenDevice'';
                                      if \<not> good then Some (toomoss_cleanup False t)
                                      else toomoss_open e (acquire ResDevice t) } })))"

text \<open>\<open>start\<close> drains the receive queue first.\<close>

definition toomoss_start :: "toomoss_dev \<Rightarrow> (bool \<times> toomoss_dev) option" where
  "toomoss_start t =
     (if \<not> rt_initialized t then Some (False, t)
      else do { _ \<leftarrow> proc_run t (if td_legacyCAN t then ''CAN_GetMsg'' else ''CANFD_GetMsg'');
                Some (True, lifecycle_start t) })"

definition toomoss_stop :: "toomoss_dev \<Rightarrow> toomoss_dev option" where
  "toomoss_stop t =
     do { (wasInitialized, t) \<leftarrow> cancelAndWait t;
          t \<leftarrow> drop_fanout t;
          t \<leftarrow> Some (if wasInitialized then closeUSB t else t);
          t \<leftarrow> drop_rxChan t;
          Some (releaseToomossSession t) }"

definition toomoss_device :: "toomoss_dev device" where
  "toomoss_device = \<lparr>dv_initialize = toomoss_initialize, dv_start = toomoss_start,
     dv_stop = toomoss_stop,
     dv_write = (\<lambda>e t f. w_error (toomoss_write (\<lambda>m. de_accepts e)
       \<lparr>to_initialized = rt_initialized t, to_legacyCAN = td_legacyCAN t,
        to_canSend = has_proc t ''CAN_SendMsgWithTime'', to_CANChannel = td_CANChannel t,
        to_cfg = rt_cfg t\<rparr> f)),
     dv_subscribable = (\<lambda>t. rt_fanout t \<noteq> None), dv_isFD = (\<lambda>t. rt_canType t = FD),
     dv_config = rt_cfg, dv_setBRS = (\<lambda>b t. t\<lparr>rt_cfg := (rt_cfg t)\<lparr>cfg_BRS := b\<rparr>\<rparr>)\<rparr>"

section \<open>The contract\<close>

text \<open>
  A DLL that has the procedures a classic channel is set up with also has the one it is read with:
  \<open>ready\<close> does not demand that of a DLL that has all the FD procedures.
\<close>

definition toomoss_dll :: "dll_env \<Rightarrow> bool" where
  "toomoss_dll e \<longleftrightarrow>
     (de_exports e ''CAN_GetCANSpeedArg'' \<and> de_exports e ''CAN_Init'' \<and> de_exports e ''CAN_StartGetMsg'' \<longrightarrow>
      de_exports e ''CAN_GetMsg'')"

definition toomoss_ok :: "toomoss_dev \<Rightarrow> bool" where
  "toomoss_ok t \<longleftrightarrow> runtime_ok {ResSession, ResLibrary, ResDevice} {} [''USB_CloseDevice''] t \<and>
     td_ownsDevice t = rt_initialized t \<and> (rt_dll t \<noteq> None) = rt_initialized t \<and>
     (rt_initialized t \<longrightarrow> has_proc t (if td_legacyCAN t then ''CAN_GetMsg'' else ''CANFD_GetMsg''))"

text \<open>In between: no channels yet, the session is taken, the library may be loaded, the device open.\<close>

definition toomoss_between :: "bool \<Rightarrow> toomoss_dev \<Rightarrow> bool" where
  "toomoss_between opened t \<longleftrightarrow>
     rt_faults t = {} \<and> \<not> rt_initialized t \<and> \<not> rt_running t \<and> rt_cancel t \<noteq> Some False \<and>
     rt_rxChan t = None \<and> rt_fanout t = None \<and> td_ownsDevice t \<and>
     (opened \<longrightarrow> rt_dll t \<noteq> None) \<and> (rt_dll t \<noteq> None \<longrightarrow> has_proc t ''USB_CloseDevice'') \<and>
     rt_held t = {ResSession} \<union> (if rt_dll t \<noteq> None then {ResLibrary} else {}) \<union>
       (if opened then {ResDevice} else {})"

lemma toomoss_cleanup_ok:
  assumes "toomoss_between opened t"
  shows "\<exists>t'. toomoss_cleanup opened t = (False, t') \<and> toomoss_ok t' \<and> \<not> rt_initialized t'"
  using assms
  by (cases opened; cases "rt_dll t") (auto simp: toomoss_cleanup_def toomoss_between_def closeUSB_def
      toomoss_release_def releaseToomossSession_def release_def toomoss_ok_def runtime_ok_def
      dll_ok_def has_proc_def insert_Diff_if)

lemma initLegacy_returns: "\<exists>b. initLegacyCANDevice e t = Some b \<and>
   (b \<longrightarrow> has_proc t ''CAN_GetCANSpeedArg'' \<and> has_proc t ''CAN_Init'' \<and> has_proc t ''CAN_StartGetMsg'')"
  by (auto simp: initLegacyCANDevice_def proc_call_def)

lemma initFD_returns: "\<exists>b. initFDDevice e t = Some b \<and> (b \<longrightarrow> has_proc t ''CANFD_GetMsg'')"
  by (auto simp: initFDDevice_def proc_call_def toomoss_fd_procs_def)

lemma toomoss_open_ok:
  assumes "toomoss_between True t" "toomoss_dll e" "rt_dll t = Some (de_exports e)"
  shows "returns (toomoss_open e t) (\<lambda>(b, t'). toomoss_ok t' \<and> b = rt_initialized t')"
proof -
  let ?t = "t\<lparr>td_legacyCAN := (rt_canType t = Classic)\<rparr>"
  have between: "toomoss_between True ?t" using assms(1) by (simp add: toomoss_between_def has_proc_def insert_commute)
  then obtain t' where t': "toomoss_cleanup True ?t = (False, t')" "toomoss_ok t'" "\<not> rt_initialized t'"
    using toomoss_cleanup_ok [of True ?t] by auto
  obtain b where b: "(if td_legacyCAN ?t then initLegacyCANDevice e ?t else initFDDevice e ?t) = Some b"
      "b \<longrightarrow> has_proc ?t (if td_legacyCAN ?t then ''CAN_GetMsg'' else ''CANFD_GetMsg'')"
  proof (cases "rt_canType t = Classic")
    case True
    then show ?thesis using that initLegacy_returns [of e ?t] assms(2,3)
      by (auto simp: toomoss_dll_def has_proc_def)
  next
    case False
    then show ?thesis using that initFD_returns [of e ?t] by auto
  qed
  have "toomoss_ok (markInitialized (prepare_runtime ?t))"
    if "has_proc ?t (if td_legacyCAN ?t then ''CAN_GetMsg'' else ''CANFD_GetMsg'')"
    using between that assms(3)
    by (auto simp: toomoss_between_def toomoss_ok_def runtime_ok_def markInitialized_def
        prepare_runtime_def acquire_def dll_ok_def has_proc_def insert_commute)
  then show ?thesis
    unfolding toomoss_open_def Let_def b(1) bind.simps using b(2) t'
    by (auto simp: markInitialized_def)
qed

lemma toomoss_initialize_ok:
  assumes "toomoss_ok t" "toomoss_dll e"
  shows "returns (toomoss_initialize e t)
    (\<lambda>(b, t'). toomoss_ok t' \<and> b = rt_initialized t' \<and> (rt_initialized t \<longrightarrow> t' = t))"
proof (cases "rt_initialized t")
  case True
  then show ?thesis using assms(1) by (simp add: toomoss_initialize_def)
next
  case False
  show ?thesis
  proof (cases "Normalized (rt_cfg t)")
    case (Inl err)
    then show ?thesis using assms(1) False by (simp add: toomoss_initialize_def)
  next
    case (Inr cfg)
    let ?t = "t\<lparr>rt_cfg := cfg, rt_canType := cfg_Mode cfg, td_CANChannel := cfg_Channel cfg,
                   td_legacyCAN := False\<rparr>"
    let ?u = "acquire ResSession (?t\<lparr>td_ownsDevice := True\<rparr>)"
    have t: "toomoss_ok ?t" "\<not> rt_initialized ?t"
      using assms(1) False by (auto simp: toomoss_ok_def runtime_ok_def dll_ok_def has_proc_def)
    obtain b v where load: "loadToomossAPI e ?u = (b, v)" by fastforce
    have v: "toomoss_between False v" "b \<longrightarrow> rt_dll v = Some (de_exports e) \<and>
        has_proc v ''USB_ScanDevice'' \<and> has_proc v ''USB_OpenDevice''"
      using load assms(1) False
      by (auto simp: loadToomossAPI_def toomoss_between_def toomoss_ok_def runtime_ok_def life_defs
          toomoss_ready_def split: if_splits)
    have between: "b \<longrightarrow> toomoss_between True (acquire ResDevice v)"
      "rt_dll (acquire ResDevice v) = rt_dll v"
      using v by (auto simp: toomoss_between_def acquire_def has_proc_def)
    obtain w where w: "toomoss_cleanup False v = (False, w)" "toomoss_ok w" "\<not> rt_initialized w"
      using toomoss_cleanup_ok [OF v(1)] by auto
    show ?thesis
      using t v w between toomoss_open_ok [of "acquire ResDevice v" e] assms(2) False
      by (auto simp: toomoss_initialize_def Inr load Let_def proc_call_def)
  qed
qed

lemma toomoss_start_ok: "toomoss_ok t \<Longrightarrow> returns (toomoss_start t)
   (\<lambda>(b, t'). toomoss_ok t' \<and> b = rt_initialized t \<and> rt_initialized t' = rt_initialized t)"
  by (auto simp: toomoss_start_def proc_run_def lifecycle_start_def acquire_def toomoss_ok_def
      runtime_ok_def dll_ok_def has_proc_def split: if_splits)

lemma toomoss_stop_ok:
  assumes "toomoss_ok t"
  shows "returns (toomoss_stop t) (\<lambda>t'. toomoss_ok t' \<and> \<not> rt_initialized t' \<and> rt_cfg t' = rt_cfg t)"
proof -
  have ok: "runtime_ok {ResSession, ResLibrary, ResDevice} {} [''USB_CloseDevice''] t"
    using assms by (simp add: toomoss_ok_def)
  show ?thesis
  proof (cases "rt_initialized t")
    case True
    obtain api where api: "rt_dll t = Some api" "api ''USB_CloseDevice''"
      using ok True by (auto simp: runtime_ok_def dll_ok_def)
    have "td_ownsDevice t" "rt_faults t = {}" "rt_rxChan t = Some True"
      using ok assms True by (simp_all add: toomoss_ok_def runtime_ok_def)
    then show ?thesis
      unfolding toomoss_stop_def stop_live [OF ok True, simplified]
      by (simp add: api stopped_def drop_rxChan_def close_rxChan_def release_def dll_ok_def has_proc_def
          toomoss_ok_def runtime_ok_def closeUSB_def toomoss_release_def releaseToomossSession_def
          insert_Diff_if)
  next
    case False
    show ?thesis unfolding toomoss_stop_def stop_closed [OF ok False]
      using assms False drop_rxChan_closed [OF ok False]
      by (simp add: releaseToomossSession_def toomoss_ok_def)
  qed
qed

lemma toomoss_write_refuses: "w_error (toomoss_write dll
     \<lparr>to_initialized = i, to_legacyCAN = l, to_canSend = s, to_CANChannel = c, to_cfg = cfg\<rparr> f)
   = Some DriverNotOpen \<longleftrightarrow> \<not> i"
  by (auto simp: toomoss_write_def writeClassicCAN_def refuse_def transmit_def Let_def split: prod.split)

interpretation toomoss: bus_device toomoss_device toomoss_ok rt_initialized rt_held rt_faults toomoss_dll
proof unfold_locales
  fix t :: toomoss_dev and e err
  assume "\<not> rt_initialized t" "Normalized (dv_config toomoss_device t) = Inl err"
  then show "dv_initialize toomoss_device e t = Some (False, t)"
    by (simp add: toomoss_device_def toomoss_initialize_def)
qed (use toomoss_initialize_ok toomoss_start_ok toomoss_stop_ok in \<open>auto simp: toomoss_device_def
      toomoss_write_refuses toomoss_ok_def runtime_ok_def dll_ok_def has_proc_def split: if_splits\<close>)

lemma newToomoss_ok: "toomoss_ok (newToomoss cfg)" "\<not> rt_initialized (newToomoss cfg)"
  by (simp_all add: toomoss_ok_def runtime_ok_def newToomoss_def dll_ok_def)

end
