(* ===== verification/Tsmaster_Frames.thy ===== *)
theory Tsmaster_Frames
  imports C_Abi Can_Frame
begin

text \<open>
  The frame types of TSMaster.h with the C++ methods the header defines on them: the properties
  read and written through masks, the initialisers, the data loaders, the length of a CAN FD frame
  and the reinterpretation of a CAN FD frame as a CAN frame.

  A method is a function from the object to the object. The properties of each type form one
  family indexed by a datatype, and two locales state what a family of properties promises:
  reading returns the last value written and the properties do not disturb each other
  (\<open>property_set\<close>), and writing back what was read changes nothing (\<open>lens_set\<close>). The flag
  properties meet both; \<open>is_tx\<close> of a FlexRay frame meets the first only.
\<close>

unbundle bit_operations_syntax

section \<open>Properties of an object\<close>

locale property_set =
  fixes get :: "'p \<Rightarrow> 's \<Rightarrow> bool"
    and put :: "'p \<Rightarrow> bool \<Rightarrow> 's \<Rightarrow> 's"
  assumes get_put: "get p (put q v s) = (if p = q then v else get p s)"
    and put_put: "put p v (put p u s) = put p v s"
    and put_comm: "p \<noteq> q \<Longrightarrow> put p v (put q u s) = put q u (put p v s)"
begin

lemma get_puts:
  "get p (fold (\<lambda>(q, v). put q v) ops s) =
     (case map_of (rev ops) p of None \<Rightarrow> get p s | Some v \<Rightarrow> v)"
proof (induction ops rule: rev_induct)
  case Nil
  then show ?case by simp
next
  case (snoc a ops)
  then show ?case by (cases a) (simp add: get_put)
qed

text \<open>Only the last write of each property matters for the object, too.\<close>

lemma put_absorbed:
  "\<exists>v. (p, v) \<in> set ops \<Longrightarrow>
     fold (\<lambda>(q, v). put q v) ops (put p u s) = fold (\<lambda>(q, v). put q v) ops s"
proof (induction ops arbitrary: s)
  case Nil
  then show ?case by simp
next
  case (Cons a ops)
  obtain q v where a: "a = (q, v)" by fastforce
  show ?case
  proof (cases "q = p")
    case True
    then show ?thesis by (simp add: a put_put)
  next
    case False
    then have "\<exists>v. (p, v) \<in> set ops" using Cons.prems a by auto
    then show ?thesis using Cons.IH [of "put q v s"] False by (simp add: a put_comm)
  qed
qed

lemma puts_preserve:
  "(\<And>q v s. f (put q v s) = f s) \<Longrightarrow> f (fold (\<lambda>(q, v). put q v) ops s) = f s"
  by (induction ops arbitrary: s) auto

end

locale lens_set = property_set +
  assumes put_get: "put p (get p s) s = s"
begin

lemma puts_same: "(\<And>p v. (p, v) \<in> set ops \<Longrightarrow> v = get p s) \<Longrightarrow> fold (\<lambda>(q, v). put q v) ops s = s"
proof (induction ops)
  case Nil
  then show ?case by simp
next
  case (Cons a ops)
  obtain q v where a: "a = (q, v)" by fastforce
  have "put q v s = s" using Cons.prems [of q v] put_get a by simp
  then show ?case using Cons a by simp
qed

end

section \<open>Flags in a word\<close>

text \<open>The two branches of every flag setter of the header.\<close>

definition has_flag :: "'a::len word \<Rightarrow> 'a word \<Rightarrow> bool" where
  "has_flag w m \<longleftrightarrow> w AND m \<noteq> 0"

definition put_flag :: "bool \<Rightarrow> 'a::len word \<Rightarrow> 'a word \<Rightarrow> 'a word" where
  "put_flag v m w = (if v then w OR m else w AND NOT m)"

definition one_bit :: "'a::len word \<Rightarrow> bool" where
  "one_bit m \<longleftrightarrow> (\<exists>n < LENGTH('a). m = push_bit n 1)"

lemma one_bitI: "n < LENGTH('a) \<Longrightarrow> m = push_bit n 1 \<Longrightarrow> one_bit (m :: 'a::len word)"
  by (auto simp: one_bit_def)

lemma has_put_same: "one_bit m \<Longrightarrow> has_flag (put_flag v m w) m = v"
proof -
  assume "one_bit m"
  then obtain n where "n < LENGTH('a)" "m = push_bit n 1" by (auto simp: one_bit_def)
  then have "bit m n" by (simp add: bit_simps)
  then have "m \<noteq> 0" by auto
  moreover have "(w OR m) AND m = m" by (rule bit_eqI) (auto simp: bit_simps)
  moreover have "(w AND NOT m) AND m = 0" by (rule bit_eqI) (auto simp: bit_simps)
  ultimately show ?thesis by (simp add: has_flag_def put_flag_def)
qed

lemma put_flag_keeps: "m AND k = 0 \<Longrightarrow> put_flag v m w AND k = w AND k"
proof (rule bit_word_eqI)
  fix n
  assume "m AND k = 0" and n: "n < LENGTH('a)"
  then have "bit (m AND k) n = False" by simp
  then show "bit (put_flag v m w AND k) n = bit (w AND k) n"
    using n by (auto simp: put_flag_def bit_simps)
qed

lemma has_put_other: "m AND n = 0 \<Longrightarrow> has_flag (put_flag v m w) n = has_flag w n"
  by (simp add: has_flag_def put_flag_keeps)

lemma put_put_flag: "put_flag v m (put_flag u m w) = put_flag v m w"
  unfolding put_flag_def by (rule bit_eqI) (auto simp: bit_simps)

lemma put_comm_flag: "m AND n = 0 \<Longrightarrow> put_flag v m (put_flag u n w) = put_flag u n (put_flag v m w)"
proof (rule bit_word_eqI)
  fix k
  assume "m AND n = 0" and k: "k < LENGTH('a)"
  then have "bit (m AND n) k = False" by simp
  then show "bit (put_flag v m (put_flag u n w)) k = bit (put_flag u n (put_flag v m w)) k"
    using k by (auto simp: put_flag_def bit_simps)
qed

lemma put_has_flag: "one_bit m \<Longrightarrow> put_flag (has_flag w m) m w = w"
proof -
  assume "one_bit m"
  then obtain n where m: "m = push_bit n 1" and n: "n < LENGTH('a)" by (auto simp: one_bit_def)
  have "bit (w AND m) k = (k = n \<and> bit w n)" for k
    using n by (auto simp: m bit_simps)
  then have has: "has_flag w m = bit w n"
    unfolding has_flag_def using n by (simp only: bit_eq_iff [of _ 0] bit_0_eq) auto
  show ?thesis unfolding has unfolding m put_flag_def
    by (rule bit_word_eqI) (auto simp: bit_simps)
qed

lemmas flag_laws = has_put_same has_put_other put_put_flag put_comm_flag put_has_flag

section \<open>Objects in memory\<close>

text \<open>The bytes of an integer, the least significant first, and the integer of some bytes.\<close>

fun le_bytes :: "nat \<Rightarrow> 'a::len word \<Rightarrow> bytes" where
  "le_bytes 0 w = []"
| "le_bytes (Suc k) w = ucast w # le_bytes k (drop_bit 8 w)"

fun of_le :: "bytes \<Rightarrow> 'a::len word" where
  "of_le [] = 0"
| "of_le (b # bs) = ucast b OR push_bit 8 (of_le bs)"

lemma length_le_bytes [simp]: "length (le_bytes k w) = k"
  by (induction k arbitrary: w) simp_all

lemma of_le_le_bytes: "of_le (le_bytes k w) = take_bit (8 * k) (w :: 'a::len word)"
proof (induction k arbitrary: w)
  case 0
  then show ?case by simp
next
  case (Suc k)
  show ?case unfolding le_bytes.simps of_le.simps Suc.IH
    by (rule bit_eqI) (auto simp: bit_simps)
qed

text \<open>A store of zero bytes, the copy loop of the loaders and the zeroing loop of the initialisers.\<close>

definition store_zero :: "nat \<Rightarrow> bytes \<Rightarrow> bytes" where
  "store_zero n d = replicate n 0 @ drop n d"

fun load_loop :: "nat \<Rightarrow> nat \<Rightarrow> bytes \<Rightarrow> bytes \<Rightarrow> bytes option" where
  "load_loop i 0 d a = Some d"
| "load_loop i (Suc k) d [] = None"
| "load_loop i (Suc k) d (x # a) = load_loop (i + 1) k (d[i := x]) a"

fun zero_loop :: "nat \<Rightarrow> nat \<Rightarrow> bytes \<Rightarrow> bytes" where
  "zero_loop i 0 d = d"
| "zero_loop i (Suc k) d = zero_loop (i + 1) k (d[i := 0])"

lemma load_loop_copies:
  "i + k \<le> length d \<Longrightarrow> load_loop i k d a =
     (if length a < k then None else Some (take i d @ take k a @ drop (i + k) d))"
proof (induction i k d a rule: load_loop.induct)
  case (3 i k d x a)
  then show ?case by (simp add: take_Suc_conv_app_nth)
qed simp_all

lemma zero_loop_fills: "i + k \<le> length d \<Longrightarrow> zero_loop i k d = take i d @ replicate k 0 @ drop (i + k) d"
proof (induction i k d rule: zero_loop.induct)
  case (2 i k d)
  then show ?case by (simp add: take_Suc_conv_app_nth)
qed simp

type_synonym s32 = "32 word"
type_synonym s64 = "64 word"

section \<open>Masks and the length table\<close>

definition MASK_CANProp_DIR_TX :: u8 where "MASK_CANProp_DIR_TX = 0x01"

definition MASK_CANProp_REMOTE :: u8 where "MASK_CANProp_REMOTE = 0x02"

definition MASK_CANProp_EXTEND :: u8 where "MASK_CANProp_EXTEND = 0x04"

definition MASK_CANProp_ERROR :: u8 where "MASK_CANProp_ERROR = 0x80"

definition MASK_CANProp_LOGGED :: u8 where "MASK_CANProp_LOGGED = 0x60"

definition MASK_CANFDProp_IS_FD :: u8 where "MASK_CANFDProp_IS_FD = 0x01"

definition MASK_CANFDProp_IS_EDL :: u8 where "MASK_CANFDProp_IS_EDL = MASK_CANFDProp_IS_FD"

definition MASK_CANFDProp_IS_BRS :: u8 where "MASK_CANFDProp_IS_BRS = 0x02"

definition MASK_CANFDProp_IS_ESI :: u8 where "MASK_CANFDProp_IS_ESI = 0x04"

definition MASK_LINProp_DIR_TX :: u8 where "MASK_LINProp_DIR_TX = 0x01"

definition MASK_LINProp_SEND_BREAK :: u8 where "MASK_LINProp_SEND_BREAK = 0x02"

definition MASK_LINProp_RECEIVED_BREAK :: u8 where "MASK_LINProp_RECEIVED_BREAK = 0x04"

definition MASK_LINProp_SEND_SYNC :: u8 where "MASK_LINProp_SEND_SYNC = 0x80"

definition MASK_LINProp_RECEIVED_SYNC :: u8 where "MASK_LINProp_RECEIVED_SYNC = 0x10"


lemmas can_masks = MASK_CANProp_DIR_TX_def MASK_CANProp_REMOTE_def MASK_CANProp_EXTEND_def
  MASK_CANProp_ERROR_def MASK_CANProp_LOGGED_def
lemmas fd_masks = MASK_CANFDProp_IS_FD_def MASK_CANFDProp_IS_EDL_def MASK_CANFDProp_IS_BRS_def
  MASK_CANFDProp_IS_ESI_def

lemma can_mask_bits [simp]:
  "one_bit MASK_CANProp_DIR_TX" "one_bit MASK_CANProp_REMOTE" "one_bit MASK_CANProp_EXTEND"
  "one_bit MASK_CANProp_ERROR" "one_bit MASK_CANFDProp_IS_FD" "one_bit MASK_CANFDProp_IS_BRS"
  "one_bit MASK_CANFDProp_IS_ESI" "one_bit MASK_LINProp_DIR_TX"
  by (auto simp: can_masks fd_masks MASK_LINProp_DIR_TX_def
      intro: one_bitI [of 0] one_bitI [of 1] one_bitI [of 2] one_bitI [of 7])

definition C_MIN :: "int \<Rightarrow> int \<Rightarrow> int" where "C_MIN a b = (if a < b then a else b)"
definition C_MAX :: "int \<Rightarrow> int \<Rightarrow> int" where "C_MAX a b = (if a > b then a else b)"

definition DLC_DATA_BYTE_CNT :: "u8 list" where
  "DLC_DATA_BYTE_CNT = [0, 1, 2, 3, 4, 5, 6, 7,
                        8, 12, 16, 20, 24, 32, 48, 64]"

section \<open>TCAN\<close>

record TCAN =
  can_FIdxChn :: u8
  can_FProperties :: u8
  can_FDLC :: u8
  can_FReserved :: u8
  can_FIdentifier :: s32
  can_FTimeUs :: s64
  can_FData :: bytes

definition can_get_is_tx :: "TCAN \<Rightarrow> bool" where
  "can_get_is_tx m \<longleftrightarrow> can_FProperties m AND MASK_CANProp_DIR_TX \<noteq> 0"

definition can_set_is_tx :: "bool \<Rightarrow> TCAN \<Rightarrow> TCAN" where
  "can_set_is_tx value m =
     (if value then m\<lparr>can_FProperties := can_FProperties m OR MASK_CANProp_DIR_TX\<rparr>
      else m\<lparr>can_FProperties := can_FProperties m AND NOT MASK_CANProp_DIR_TX\<rparr>)"

definition can_get_is_data :: "TCAN \<Rightarrow> bool" where
  "can_get_is_data m \<longleftrightarrow> can_FProperties m AND MASK_CANProp_REMOTE = 0"

definition can_set_is_data :: "bool \<Rightarrow> TCAN \<Rightarrow> TCAN" where
  "can_set_is_data value m =
     (if value then m\<lparr>can_FProperties := can_FProperties m AND NOT MASK_CANProp_REMOTE\<rparr>
      else m\<lparr>can_FProperties := can_FProperties m OR MASK_CANProp_REMOTE\<rparr>)"

definition can_get_is_std :: "TCAN \<Rightarrow> bool" where
  "can_get_is_std m \<longleftrightarrow> can_FProperties m AND MASK_CANProp_EXTEND = 0"

definition can_set_is_std :: "bool \<Rightarrow> TCAN \<Rightarrow> TCAN" where
  "can_set_is_std value m =
     (if value then m\<lparr>can_FProperties := can_FProperties m AND NOT MASK_CANProp_EXTEND\<rparr>
      else m\<lparr>can_FProperties := can_FProperties m OR MASK_CANProp_EXTEND\<rparr>)"

definition can_get_is_err :: "TCAN \<Rightarrow> bool" where
  "can_get_is_err m \<longleftrightarrow> can_FProperties m AND MASK_CANProp_ERROR \<noteq> 0"

definition can_set_is_err :: "bool \<Rightarrow> TCAN \<Rightarrow> TCAN" where
  "can_set_is_err value m =
     (if value then m\<lparr>can_FProperties := can_FProperties m OR MASK_CANProp_ERROR\<rparr>
      else m\<lparr>can_FProperties := can_FProperties m AND NOT MASK_CANProp_ERROR\<rparr>)"

definition can_load_data_array :: "bytes \<Rightarrow> TCAN \<Rightarrow> TCAN option" where
  "can_load_data_array a m =
     map_option (\<lambda>d. m\<lparr>can_FData := d\<rparr>) (load_loop 0 8 (can_FData m) a)"

definition can_set_data :: "u8 \<Rightarrow> u8 \<Rightarrow> u8 \<Rightarrow> u8 \<Rightarrow> u8 \<Rightarrow> u8 \<Rightarrow> u8 \<Rightarrow> u8 \<Rightarrow> TCAN \<Rightarrow> TCAN" where
  "can_set_data d0 d1 d2 d3 d4 d5 d6 d7 m =
     m\<lparr>can_FData := (can_FData m)[0 := d0, 1 := d1, 2 := d2, 3 := d3,
                                   4 := d4, 5 := d5, 6 := d6, 7 := d7]\<rparr>"

definition can_init_w_std_id :: "s32 \<Rightarrow> s32 \<Rightarrow> TCAN \<Rightarrow> TCAN" where
  "can_init_w_std_id AId ADLC m0 =
     (let m = m0\<lparr>can_FIdxChn := 0, can_FIdentifier := AId, can_FDLC := ucast ADLC,
                 can_FReserved := 0, can_FProperties := 0\<rparr>;
          m = can_set_is_tx False m;
          m = can_set_is_std True m;
          m = can_set_is_data True m
      in m\<lparr>can_FData := store_zero 8 (can_FData m), can_FTimeUs := 0\<rparr>)"

definition can_init_w_ext_id :: "s32 \<Rightarrow> s32 \<Rightarrow> TCAN \<Rightarrow> TCAN" where
  "can_init_w_ext_id AId ADLC m0 =
     (let m = m0\<lparr>can_FIdxChn := 0, can_FIdentifier := AId, can_FDLC := ucast ADLC,
                 can_FReserved := 0, can_FProperties := 0\<rparr>;
          m = can_set_is_tx False m;
          m = can_set_is_std False m;
          m = can_set_is_data True m
      in m\<lparr>can_FData := store_zero 8 (can_FData m), can_FTimeUs := 0\<rparr>)"

datatype can_property = Pcan_is_tx | Pcan_is_data | Pcan_is_std | Pcan_is_err

fun can_get :: "can_property \<Rightarrow> TCAN \<Rightarrow> bool" where
  "can_get Pcan_is_tx = can_get_is_tx"
| "can_get Pcan_is_data = can_get_is_data"
| "can_get Pcan_is_std = can_get_is_std"
| "can_get Pcan_is_err = can_get_is_err"

fun can_put :: "can_property \<Rightarrow> bool \<Rightarrow> TCAN \<Rightarrow> TCAN" where
  "can_put Pcan_is_tx = can_set_is_tx"
| "can_put Pcan_is_data = can_set_is_data"
| "can_put Pcan_is_std = can_set_is_std"
| "can_put Pcan_is_err = can_set_is_err"

lemmas can_defs =
  can_get_is_tx_def can_set_is_tx_def
  can_get_is_data_def can_set_is_data_def
  can_get_is_std_def can_set_is_std_def
  can_get_is_err_def can_set_is_err_def

lemma can_put_as_flag:
  "can_set_is_tx v m = m\<lparr>can_FProperties := put_flag v MASK_CANProp_DIR_TX (can_FProperties m)\<rparr>"
  "can_set_is_data v m = m\<lparr>can_FProperties := put_flag (\<not> v) MASK_CANProp_REMOTE (can_FProperties m)\<rparr>"
  "can_set_is_std v m = m\<lparr>can_FProperties := put_flag (\<not> v) MASK_CANProp_EXTEND (can_FProperties m)\<rparr>"
  "can_set_is_err v m = m\<lparr>can_FProperties := put_flag v MASK_CANProp_ERROR (can_FProperties m)\<rparr>"
  by (simp_all add: can_defs put_flag_def)

lemma can_get_as_flag:
  "can_get_is_tx m = has_flag (can_FProperties m) MASK_CANProp_DIR_TX"
  "can_get_is_data m = (\<not> has_flag (can_FProperties m) MASK_CANProp_REMOTE)"
  "can_get_is_std m = (\<not> has_flag (can_FProperties m) MASK_CANProp_EXTEND)"
  "can_get_is_err m = has_flag (can_FProperties m) MASK_CANProp_ERROR"
  by (simp_all add: can_defs has_flag_def)

lemma can_masks_apart [simp]:
  "MASK_CANProp_DIR_TX AND MASK_CANProp_REMOTE = 0" "MASK_CANProp_REMOTE AND MASK_CANProp_DIR_TX = 0"
  "MASK_CANProp_DIR_TX AND MASK_CANProp_EXTEND = 0" "MASK_CANProp_EXTEND AND MASK_CANProp_DIR_TX = 0"
  "MASK_CANProp_DIR_TX AND MASK_CANProp_ERROR = 0" "MASK_CANProp_ERROR AND MASK_CANProp_DIR_TX = 0"
  "MASK_CANProp_REMOTE AND MASK_CANProp_EXTEND = 0" "MASK_CANProp_EXTEND AND MASK_CANProp_REMOTE = 0"
  "MASK_CANProp_REMOTE AND MASK_CANProp_ERROR = 0" "MASK_CANProp_ERROR AND MASK_CANProp_REMOTE = 0"
  "MASK_CANProp_EXTEND AND MASK_CANProp_ERROR = 0" "MASK_CANProp_ERROR AND MASK_CANProp_EXTEND = 0"
  "MASK_CANProp_DIR_TX AND MASK_CANProp_LOGGED = 0" "MASK_CANProp_REMOTE AND MASK_CANProp_LOGGED = 0"
  "MASK_CANProp_EXTEND AND MASK_CANProp_LOGGED = 0" "MASK_CANProp_ERROR AND MASK_CANProp_LOGGED = 0"
  by (simp_all add: can_masks)

interpretation tcan: lens_set can_get can_put
proof
  fix p q v u s
  show "can_get p (can_put q v s) = (if p = q then v else can_get p s)"
    by (cases p; cases q) (simp_all add: can_put_as_flag can_get_as_flag flag_laws)
  show "can_put p v (can_put p u s) = can_put p v s"
    by (cases p) (simp_all add: can_put_as_flag flag_laws)
  show "p \<noteq> q \<Longrightarrow> can_put p v (can_put q u s) = can_put q u (can_put p v s)"
    by (cases p; cases q) (simp_all add: can_put_as_flag put_comm_flag)
  show "can_put p (can_get p s) s = s"
    by (cases p) (simp_all add: can_put_as_flag can_get_as_flag flag_laws)
qed

lemma can_put_keeps:
  "can_FProperties (can_put p v m) AND MASK_CANProp_LOGGED = can_FProperties m AND MASK_CANProp_LOGGED"
  by (cases p) (simp_all add: can_put_as_flag put_flag_keeps)

lemma can_put_only:
  "(can_put p v m)\<lparr>can_FProperties := x\<rparr> = m\<lparr>can_FProperties := x\<rparr>"
  by (cases p) (simp_all add: can_put_as_flag)

section \<open>TCANFD\<close>

record TCANFD =
  fd_FIdxChn :: u8
  fd_FProperties :: u8
  fd_FDLC :: u8
  fd_FFDProperties :: u8
  fd_FIdentifier :: s32
  fd_FTimeUs :: s64
  fd_FData :: bytes

definition fd_get_is_tx :: "TCANFD \<Rightarrow> bool" where
  "fd_get_is_tx m \<longleftrightarrow> fd_FProperties m AND MASK_CANProp_DIR_TX \<noteq> 0"

definition fd_set_is_tx :: "bool \<Rightarrow> TCANFD \<Rightarrow> TCANFD" where
  "fd_set_is_tx value m =
     (if value then m\<lparr>fd_FProperties := fd_FProperties m OR MASK_CANProp_DIR_TX\<rparr>
      else m\<lparr>fd_FProperties := fd_FProperties m AND NOT MASK_CANProp_DIR_TX\<rparr>)"

definition fd_get_is_data :: "TCANFD \<Rightarrow> bool" where
  "fd_get_is_data m \<longleftrightarrow> fd_FProperties m AND MASK_CANProp_REMOTE = 0"

definition fd_set_is_data :: "bool \<Rightarrow> TCANFD \<Rightarrow> TCANFD" where
  "fd_set_is_data value m =
     (if value then m\<lparr>fd_FProperties := fd_FProperties m AND NOT MASK_CANProp_REMOTE\<rparr>
      else m\<lparr>fd_FProperties := fd_FProperties m OR MASK_CANProp_REMOTE\<rparr>)"

definition fd_get_is_std :: "TCANFD \<Rightarrow> bool" where
  "fd_get_is_std m \<longleftrightarrow> fd_FProperties m AND MASK_CANProp_EXTEND = 0"

definition fd_set_is_std :: "bool \<Rightarrow> TCANFD \<Rightarrow> TCANFD" where
  "fd_set_is_std value m =
     (if value then m\<lparr>fd_FProperties := fd_FProperties m AND NOT MASK_CANProp_EXTEND\<rparr>
      else m\<lparr>fd_FProperties := fd_FProperties m OR MASK_CANProp_EXTEND\<rparr>)"

definition fd_get_is_err :: "TCANFD \<Rightarrow> bool" where
  "fd_get_is_err m \<longleftrightarrow> fd_FProperties m AND MASK_CANProp_ERROR \<noteq> 0"

definition fd_set_is_err :: "bool \<Rightarrow> TCANFD \<Rightarrow> TCANFD" where
  "fd_set_is_err value m =
     (if value then m\<lparr>fd_FProperties := fd_FProperties m OR MASK_CANProp_ERROR\<rparr>
      else m\<lparr>fd_FProperties := fd_FProperties m AND NOT MASK_CANProp_ERROR\<rparr>)"

definition fd_get_is_edl :: "TCANFD \<Rightarrow> bool" where
  "fd_get_is_edl m \<longleftrightarrow> fd_FFDProperties m AND MASK_CANFDProp_IS_FD \<noteq> 0"

definition fd_set_is_edl :: "bool \<Rightarrow> TCANFD \<Rightarrow> TCANFD" where
  "fd_set_is_edl value m =
     (if value then m\<lparr>fd_FFDProperties := fd_FFDProperties m OR MASK_CANFDProp_IS_FD\<rparr>
      else m\<lparr>fd_FFDProperties := fd_FFDProperties m AND NOT MASK_CANFDProp_IS_FD\<rparr>)"

definition fd_get_is_brs :: "TCANFD \<Rightarrow> bool" where
  "fd_get_is_brs m \<longleftrightarrow> fd_FFDProperties m AND MASK_CANFDProp_IS_BRS \<noteq> 0"

definition fd_set_is_brs :: "bool \<Rightarrow> TCANFD \<Rightarrow> TCANFD" where
  "fd_set_is_brs value m =
     (if value then m\<lparr>fd_FFDProperties := fd_FFDProperties m OR MASK_CANFDProp_IS_BRS\<rparr>
      else m\<lparr>fd_FFDProperties := fd_FFDProperties m AND NOT MASK_CANFDProp_IS_BRS\<rparr>)"

definition fd_get_is_esi :: "TCANFD \<Rightarrow> bool" where
  "fd_get_is_esi m \<longleftrightarrow> fd_FFDProperties m AND MASK_CANFDProp_IS_ESI \<noteq> 0"

definition fd_set_is_esi :: "bool \<Rightarrow> TCANFD \<Rightarrow> TCANFD" where
  "fd_set_is_esi value m =
     (if value then m\<lparr>fd_FFDProperties := fd_FFDProperties m OR MASK_CANFDProp_IS_ESI\<rparr>
      else m\<lparr>fd_FFDProperties := fd_FFDProperties m AND NOT MASK_CANFDProp_IS_ESI\<rparr>)"

definition fd_load_data :: "bytes \<Rightarrow> TCANFD \<Rightarrow> TCANFD option" where
  "fd_load_data a m = map_option (\<lambda>d. m\<lparr>fd_FData := d\<rparr>) (load_loop 0 64 (fd_FData m) a)"

definition fd_init_w_std_id :: "s32 \<Rightarrow> s32 \<Rightarrow> TCANFD \<Rightarrow> TCANFD" where
  "fd_init_w_std_id AId ADLC m0 =
     (let m = m0\<lparr>fd_FIdxChn := 0, fd_FIdentifier := AId, fd_FDLC := ucast ADLC,
                 fd_FProperties := 0, fd_FFDProperties := MASK_CANFDProp_IS_FD\<rparr>;
          m = fd_set_is_tx False m;
          m = fd_set_is_std True m;
          m = fd_set_is_data True m
      in m\<lparr>fd_FData := zero_loop 0 64 (fd_FData m), fd_FTimeUs := 0\<rparr>)"

definition fd_init_w_ext_id :: "s32 \<Rightarrow> s32 \<Rightarrow> TCANFD \<Rightarrow> TCANFD" where
  "fd_init_w_ext_id AId ADLC m0 =
     (let m = m0\<lparr>fd_FIdxChn := 0, fd_FIdentifier := AId, fd_FDLC := ucast ADLC,
                 fd_FFDProperties := MASK_CANFDProp_IS_FD, fd_FProperties := 0\<rparr>;
          m = fd_set_is_tx False m;
          m = fd_set_is_std False m;
          m = fd_set_is_data True m
      in m\<lparr>fd_FData := zero_loop 0 64 (fd_FData m), fd_FTimeUs := 0\<rparr>)"

definition fd_get_data_length :: "TCANFD \<Rightarrow> int" where
  "fd_get_data_length m =
     (let l = C_MIN (uint (fd_FDLC m)) 15; l = C_MAX l 0 in uint (DLC_DATA_BYTE_CNT ! nat l))"

text \<open>
  The memory of the two types under \<open>pack(1)\<close>. \<open>to_tcan\<close> reads a \<open>TCAN\<close> at the address of the first
  member of a \<open>TCANFD\<close>.
\<close>

definition TCAN_bytes :: "TCAN \<Rightarrow> bytes" where
  "TCAN_bytes m = [can_FIdxChn m, can_FProperties m, can_FDLC m, can_FReserved m] @
     le_bytes 4 (can_FIdentifier m) @ le_bytes 8 (can_FTimeUs m) @ can_FData m"

definition TCANFD_bytes :: "TCANFD \<Rightarrow> bytes" where
  "TCANFD_bytes m = [fd_FIdxChn m, fd_FProperties m, fd_FDLC m, fd_FFDProperties m] @
     le_bytes 4 (fd_FIdentifier m) @ le_bytes 8 (fd_FTimeUs m) @ fd_FData m"

definition TCAN_of_bytes :: "bytes \<Rightarrow> TCAN" where
  "TCAN_of_bytes b = \<lparr>can_FIdxChn = b ! 0, can_FProperties = b ! 1, can_FDLC = b ! 2,
     can_FReserved = b ! 3, can_FIdentifier = of_le (take 4 (drop 4 b)),
     can_FTimeUs = of_le (take 8 (drop 8 b)), can_FData = take 8 (drop 16 b)\<rparr>"

definition TCANFD_of_bytes :: "bytes \<Rightarrow> TCANFD" where
  "TCANFD_of_bytes b = \<lparr>fd_FIdxChn = b ! 0, fd_FProperties = b ! 1, fd_FDLC = b ! 2,
     fd_FFDProperties = b ! 3, fd_FIdentifier = of_le (take 4 (drop 4 b)),
     fd_FTimeUs = of_le (take 8 (drop 8 b)), fd_FData = take 64 (drop 16 b)\<rparr>"

definition fd_to_tcan :: "TCANFD \<Rightarrow> TCAN" where
  "fd_to_tcan m = TCAN_of_bytes (TCANFD_bytes m)"

datatype fd_property = Pfd_is_tx | Pfd_is_data | Pfd_is_std | Pfd_is_err | Pfd_is_edl | Pfd_is_brs | Pfd_is_esi

fun fd_get :: "fd_property \<Rightarrow> TCANFD \<Rightarrow> bool" where
  "fd_get Pfd_is_tx = fd_get_is_tx"
| "fd_get Pfd_is_data = fd_get_is_data"
| "fd_get Pfd_is_std = fd_get_is_std"
| "fd_get Pfd_is_err = fd_get_is_err"
| "fd_get Pfd_is_edl = fd_get_is_edl"
| "fd_get Pfd_is_brs = fd_get_is_brs"
| "fd_get Pfd_is_esi = fd_get_is_esi"

fun fd_put :: "fd_property \<Rightarrow> bool \<Rightarrow> TCANFD \<Rightarrow> TCANFD" where
  "fd_put Pfd_is_tx = fd_set_is_tx"
| "fd_put Pfd_is_data = fd_set_is_data"
| "fd_put Pfd_is_std = fd_set_is_std"
| "fd_put Pfd_is_err = fd_set_is_err"
| "fd_put Pfd_is_edl = fd_set_is_edl"
| "fd_put Pfd_is_brs = fd_set_is_brs"
| "fd_put Pfd_is_esi = fd_set_is_esi"

lemmas fd_defs =
  fd_get_is_tx_def fd_set_is_tx_def
  fd_get_is_data_def fd_set_is_data_def
  fd_get_is_std_def fd_set_is_std_def
  fd_get_is_err_def fd_set_is_err_def
  fd_get_is_edl_def fd_set_is_edl_def
  fd_get_is_brs_def fd_set_is_brs_def
  fd_get_is_esi_def fd_set_is_esi_def

lemma fd_put_as_flag:
  "fd_set_is_tx v m = m\<lparr>fd_FProperties := put_flag v MASK_CANProp_DIR_TX (fd_FProperties m)\<rparr>"
  "fd_set_is_data v m = m\<lparr>fd_FProperties := put_flag (\<not> v) MASK_CANProp_REMOTE (fd_FProperties m)\<rparr>"
  "fd_set_is_std v m = m\<lparr>fd_FProperties := put_flag (\<not> v) MASK_CANProp_EXTEND (fd_FProperties m)\<rparr>"
  "fd_set_is_err v m = m\<lparr>fd_FProperties := put_flag v MASK_CANProp_ERROR (fd_FProperties m)\<rparr>"
  "fd_set_is_edl v m = m\<lparr>fd_FFDProperties := put_flag v MASK_CANFDProp_IS_FD (fd_FFDProperties m)\<rparr>"
  "fd_set_is_brs v m = m\<lparr>fd_FFDProperties := put_flag v MASK_CANFDProp_IS_BRS (fd_FFDProperties m)\<rparr>"
  "fd_set_is_esi v m = m\<lparr>fd_FFDProperties := put_flag v MASK_CANFDProp_IS_ESI (fd_FFDProperties m)\<rparr>"
  by (simp_all add: fd_defs put_flag_def)

lemma fd_get_as_flag:
  "fd_get_is_tx m = has_flag (fd_FProperties m) MASK_CANProp_DIR_TX"
  "fd_get_is_data m = (\<not> has_flag (fd_FProperties m) MASK_CANProp_REMOTE)"
  "fd_get_is_std m = (\<not> has_flag (fd_FProperties m) MASK_CANProp_EXTEND)"
  "fd_get_is_err m = has_flag (fd_FProperties m) MASK_CANProp_ERROR"
  "fd_get_is_edl m = has_flag (fd_FFDProperties m) MASK_CANFDProp_IS_FD"
  "fd_get_is_brs m = has_flag (fd_FFDProperties m) MASK_CANFDProp_IS_BRS"
  "fd_get_is_esi m = has_flag (fd_FFDProperties m) MASK_CANFDProp_IS_ESI"
  by (simp_all add: fd_defs has_flag_def)

lemma fd_masks_apart [simp]:
  "MASK_CANFDProp_IS_FD AND MASK_CANFDProp_IS_BRS = 0" "MASK_CANFDProp_IS_BRS AND MASK_CANFDProp_IS_FD = 0"
  "MASK_CANFDProp_IS_FD AND MASK_CANFDProp_IS_ESI = 0" "MASK_CANFDProp_IS_ESI AND MASK_CANFDProp_IS_FD = 0"
  "MASK_CANFDProp_IS_BRS AND MASK_CANFDProp_IS_ESI = 0" "MASK_CANFDProp_IS_ESI AND MASK_CANFDProp_IS_BRS = 0"
  by (simp_all add: fd_masks)

interpretation tcanfd: lens_set fd_get fd_put
proof
  fix p q v u s
  show "fd_get p (fd_put q v s) = (if p = q then v else fd_get p s)"
    by (cases p; cases q) (simp_all add: fd_put_as_flag fd_get_as_flag flag_laws)
  show "fd_put p v (fd_put p u s) = fd_put p v s"
    by (cases p) (simp_all add: fd_put_as_flag flag_laws)
  show "p \<noteq> q \<Longrightarrow> fd_put p v (fd_put q u s) = fd_put q u (fd_put p v s)"
    by (cases p; cases q) (simp_all add: fd_put_as_flag put_comm_flag)
  show "fd_put p (fd_get p s) s = s"
    by (cases p) (simp_all add: fd_put_as_flag fd_get_as_flag flag_laws)
qed


lemma fd_put_keeps:
  "fd_FProperties (fd_put p v m) AND MASK_CANProp_LOGGED = fd_FProperties m AND MASK_CANProp_LOGGED"
  by (cases p) (simp_all add: fd_put_as_flag put_flag_keeps)

lemma fd_put_only:
  "(fd_put p v m)\<lparr>fd_FProperties := x, fd_FFDProperties := y\<rparr> = m\<lparr>fd_FProperties := x, fd_FFDProperties := y\<rparr>"
  by (cases p) (simp_all add: fd_put_as_flag)

section \<open>TLIN\<close>

record TLIN =
  lin_FIdxChn :: u8
  lin_FErrStatus :: u8
  lin_FProperties :: u8
  lin_FDLC :: u8
  lin_FIdentifier :: u8
  lin_FChecksum :: u8
  lin_FStatus :: u8
  lin_FTimeUs :: s64
  lin_FData :: bytes

definition lin_get_is_tx :: "TLIN \<Rightarrow> bool" where
  "lin_get_is_tx m \<longleftrightarrow> lin_FProperties m AND MASK_LINProp_DIR_TX \<noteq> 0"

definition lin_set_is_tx :: "bool \<Rightarrow> TLIN \<Rightarrow> TLIN" where
  "lin_set_is_tx value m =
     (if value then m\<lparr>lin_FProperties := lin_FProperties m OR MASK_LINProp_DIR_TX\<rparr>
      else m\<lparr>lin_FProperties := lin_FProperties m AND NOT MASK_LINProp_DIR_TX\<rparr>)"

definition lin_load_data :: "bytes \<Rightarrow> TLIN \<Rightarrow> TLIN option" where
  "lin_load_data a m = map_option (\<lambda>d. m\<lparr>lin_FData := d\<rparr>) (load_loop 0 8 (lin_FData m) a)"

definition lin_init_w_id :: "s32 \<Rightarrow> s32 \<Rightarrow> TLIN \<Rightarrow> TLIN" where
  "lin_init_w_id AId ADLC m =
     m\<lparr>lin_FIdxChn := 0, lin_FErrStatus := 0, lin_FProperties := 0, lin_FDLC := ucast ADLC,
       lin_FIdentifier := ucast AId, lin_FData := store_zero 8 (lin_FData m),
       lin_FChecksum := 0, lin_FStatus := 0, lin_FTimeUs := 0\<rparr>"

lemma lin_as_flag:
  "lin_set_is_tx v m = m\<lparr>lin_FProperties := put_flag v MASK_LINProp_DIR_TX (lin_FProperties m)\<rparr>"
  "lin_get_is_tx m = has_flag (lin_FProperties m) MASK_LINProp_DIR_TX"
  by (simp_all add: lin_get_is_tx_def lin_set_is_tx_def put_flag_def has_flag_def)

interpretation tlin: lens_set "\<lambda>_::unit. lin_get_is_tx" "\<lambda>_. lin_set_is_tx"
  by unfold_locales (simp_all add: lin_as_flag flag_laws)

section \<open>TFlexRay\<close>

record TFlexRay =
  fr_FIdxChn :: u8
  fr_FChannelMask :: u8
  fr_FDir :: u8
  fr_FPayloadLength :: u8
  fr_FActualPayloadLength :: u8
  fr_FCycleNumber :: u8
  fr_FCCType :: u8
  fr_FFrameType :: u8
  fr_FHeaderCRCA :: u16
  fr_FHeaderCRCB :: u16
  fr_FFrameStateInfo :: u16
  fr_FSlotId :: u16
  fr_FFrameFlags :: u32
  fr_FFrameCRC :: u32
  fr_FReserved1 :: u64
  fr_FReserved2 :: u64
  fr_FTimeUs :: u64
  fr_FData :: bytes

text \<open>The expression \<open>(u32)1 << n\<close>.\<close>

definition flag_bit :: "nat \<Rightarrow> u32" where
  "flag_bit n = push_bit n 1"

definition fr_get_is_tx :: "TFlexRay \<Rightarrow> bool" where
  "fr_get_is_tx m \<longleftrightarrow> fr_FDir m \<noteq> 0"

definition fr_set_is_tx :: "bool \<Rightarrow> TFlexRay \<Rightarrow> TFlexRay" where
  "fr_set_is_tx value m = (if value then m\<lparr>fr_FDir := 1\<rparr> else m\<lparr>fr_FDir := 0\<rparr>)"

definition fr_get_is_null :: "TFlexRay \<Rightarrow> bool" where
  "fr_get_is_null m \<longleftrightarrow> fr_FFrameFlags m AND (flag_bit 0) \<noteq> 0"

definition fr_set_is_null :: "bool \<Rightarrow> TFlexRay \<Rightarrow> TFlexRay" where
  "fr_set_is_null value m =
     (if value then m\<lparr>fr_FFrameFlags := fr_FFrameFlags m OR (flag_bit 0)\<rparr>
      else m\<lparr>fr_FFrameFlags := fr_FFrameFlags m AND NOT (flag_bit 0)\<rparr>)"

definition fr_get_is_data :: "TFlexRay \<Rightarrow> bool" where
  "fr_get_is_data m \<longleftrightarrow> fr_FFrameFlags m AND (flag_bit 1) \<noteq> 0"

definition fr_set_is_data :: "bool \<Rightarrow> TFlexRay \<Rightarrow> TFlexRay" where
  "fr_set_is_data value m =
     (if value then m\<lparr>fr_FFrameFlags := fr_FFrameFlags m OR (flag_bit 1)\<rparr>
      else m\<lparr>fr_FFrameFlags := fr_FFrameFlags m AND NOT (flag_bit 1)\<rparr>)"

definition fr_get_is_sync :: "TFlexRay \<Rightarrow> bool" where
  "fr_get_is_sync m \<longleftrightarrow> fr_FFrameFlags m AND (flag_bit 2) \<noteq> 0"

definition fr_set_is_sync :: "bool \<Rightarrow> TFlexRay \<Rightarrow> TFlexRay" where
  "fr_set_is_sync value m =
     (if value then m\<lparr>fr_FFrameFlags := fr_FFrameFlags m OR (flag_bit 2)\<rparr>
      else m\<lparr>fr_FFrameFlags := fr_FFrameFlags m AND NOT (flag_bit 2)\<rparr>)"

definition fr_get_is_startup :: "TFlexRay \<Rightarrow> bool" where
  "fr_get_is_startup m \<longleftrightarrow> fr_FFrameFlags m AND (flag_bit 3) \<noteq> 0"

definition fr_set_is_startup :: "bool \<Rightarrow> TFlexRay \<Rightarrow> TFlexRay" where
  "fr_set_is_startup value m =
     (if value then m\<lparr>fr_FFrameFlags := fr_FFrameFlags m OR (flag_bit 3)\<rparr>
      else m\<lparr>fr_FFrameFlags := fr_FFrameFlags m AND NOT (flag_bit 3)\<rparr>)"

definition fr_get_is_pp :: "TFlexRay \<Rightarrow> bool" where
  "fr_get_is_pp m \<longleftrightarrow> fr_FFrameFlags m AND (flag_bit 4) \<noteq> 0"

definition fr_set_is_pp :: "bool \<Rightarrow> TFlexRay \<Rightarrow> TFlexRay" where
  "fr_set_is_pp value m =
     (if value then m\<lparr>fr_FFrameFlags := fr_FFrameFlags m OR (flag_bit 4)\<rparr>
      else m\<lparr>fr_FFrameFlags := fr_FFrameFlags m AND NOT (flag_bit 4)\<rparr>)"

definition fr_get_is_err :: "TFlexRay \<Rightarrow> bool" where
  "fr_get_is_err m \<longleftrightarrow> fr_FFrameFlags m AND (flag_bit 6) \<noteq> 0"

definition fr_set_is_err :: "bool \<Rightarrow> TFlexRay \<Rightarrow> TFlexRay" where
  "fr_set_is_err value m =
     (if value then m\<lparr>fr_FFrameFlags := fr_FFrameFlags m OR (flag_bit 6)\<rparr>
      else m\<lparr>fr_FFrameFlags := fr_FFrameFlags m AND NOT (flag_bit 6)\<rparr>)"

definition fr_get_is_static_segment :: "TFlexRay \<Rightarrow> bool" where
  "fr_get_is_static_segment m \<longleftrightarrow> fr_FFrameFlags m AND (flag_bit 20) \<noteq> 0"

definition fr_set_is_static_segment :: "bool \<Rightarrow> TFlexRay \<Rightarrow> TFlexRay" where
  "fr_set_is_static_segment value m =
     (if value then m\<lparr>fr_FFrameFlags := fr_FFrameFlags m OR (flag_bit 20)\<rparr>
      else m\<lparr>fr_FFrameFlags := fr_FFrameFlags m AND NOT (flag_bit 20)\<rparr>)"

definition fr_init_w_slot_id :: "s32 \<Rightarrow> s32 \<Rightarrow> TFlexRay \<Rightarrow> TFlexRay" where
  "fr_init_w_slot_id ASlotId ADLC m =
     m\<lparr>fr_FIdxChn := 0, fr_FChannelMask := 1, fr_FDir := 0,
       fr_FPayloadLength := ucast ADLC, fr_FActualPayloadLength := ucast ADLC,
       fr_FCycleNumber := 0, fr_FCCType := 5, fr_FFrameType := 0,
       fr_FHeaderCRCA := 0, fr_FHeaderCRCB := 0, fr_FFrameStateInfo := 0,
       fr_FFrameFlags := flag_bit 1, fr_FSlotId := ucast ASlotId, fr_FFrameCRC := 0,
       fr_FReserved1 := 0, fr_FReserved2 := 0, fr_FTimeUs := 0,
       fr_FData := zero_loop 0 254 (fr_FData m)\<rparr>"

definition fr_load_data :: "bytes \<Rightarrow> TFlexRay \<Rightarrow> TFlexRay option" where
  "fr_load_data a m = map_option (\<lambda>d. m\<lparr>fr_FData := d\<rparr>) (load_loop 0 254 (fr_FData m) a)"

datatype fr_property = Pfr_is_tx | Pfr_is_null | Pfr_is_data | Pfr_is_sync | Pfr_is_startup | Pfr_is_pp | Pfr_is_err | Pfr_is_static_segment

fun fr_get :: "fr_property \<Rightarrow> TFlexRay \<Rightarrow> bool" where
  "fr_get Pfr_is_tx = fr_get_is_tx"
| "fr_get Pfr_is_null = fr_get_is_null"
| "fr_get Pfr_is_data = fr_get_is_data"
| "fr_get Pfr_is_sync = fr_get_is_sync"
| "fr_get Pfr_is_startup = fr_get_is_startup"
| "fr_get Pfr_is_pp = fr_get_is_pp"
| "fr_get Pfr_is_err = fr_get_is_err"
| "fr_get Pfr_is_static_segment = fr_get_is_static_segment"

fun fr_put :: "fr_property \<Rightarrow> bool \<Rightarrow> TFlexRay \<Rightarrow> TFlexRay" where
  "fr_put Pfr_is_tx = fr_set_is_tx"
| "fr_put Pfr_is_null = fr_set_is_null"
| "fr_put Pfr_is_data = fr_set_is_data"
| "fr_put Pfr_is_sync = fr_set_is_sync"
| "fr_put Pfr_is_startup = fr_set_is_startup"
| "fr_put Pfr_is_pp = fr_set_is_pp"
| "fr_put Pfr_is_err = fr_set_is_err"
| "fr_put Pfr_is_static_segment = fr_set_is_static_segment"

lemmas fr_defs =
  fr_get_is_tx_def fr_set_is_tx_def
  fr_get_is_null_def fr_set_is_null_def
  fr_get_is_data_def fr_set_is_data_def
  fr_get_is_sync_def fr_set_is_sync_def
  fr_get_is_startup_def fr_set_is_startup_def
  fr_get_is_pp_def fr_set_is_pp_def
  fr_get_is_err_def fr_set_is_err_def
  fr_get_is_static_segment_def fr_set_is_static_segment_def

lemma fr_put_as_flag:
  "fr_set_is_null v m = m\<lparr>fr_FFrameFlags := put_flag v (flag_bit 0) (fr_FFrameFlags m)\<rparr>"
  "fr_set_is_data v m = m\<lparr>fr_FFrameFlags := put_flag v (flag_bit 1) (fr_FFrameFlags m)\<rparr>"
  "fr_set_is_sync v m = m\<lparr>fr_FFrameFlags := put_flag v (flag_bit 2) (fr_FFrameFlags m)\<rparr>"
  "fr_set_is_startup v m = m\<lparr>fr_FFrameFlags := put_flag v (flag_bit 3) (fr_FFrameFlags m)\<rparr>"
  "fr_set_is_pp v m = m\<lparr>fr_FFrameFlags := put_flag v (flag_bit 4) (fr_FFrameFlags m)\<rparr>"
  "fr_set_is_err v m = m\<lparr>fr_FFrameFlags := put_flag v (flag_bit 6) (fr_FFrameFlags m)\<rparr>"
  "fr_set_is_static_segment v m = m\<lparr>fr_FFrameFlags := put_flag v (flag_bit 20) (fr_FFrameFlags m)\<rparr>"
  by (simp_all add: fr_defs put_flag_def)

lemma fr_get_as_flag:
  "fr_get_is_null m = has_flag (fr_FFrameFlags m) (flag_bit 0)"
  "fr_get_is_data m = has_flag (fr_FFrameFlags m) (flag_bit 1)"
  "fr_get_is_sync m = has_flag (fr_FFrameFlags m) (flag_bit 2)"
  "fr_get_is_startup m = has_flag (fr_FFrameFlags m) (flag_bit 3)"
  "fr_get_is_pp m = has_flag (fr_FFrameFlags m) (flag_bit 4)"
  "fr_get_is_err m = has_flag (fr_FFrameFlags m) (flag_bit 6)"
  "fr_get_is_static_segment m = has_flag (fr_FFrameFlags m) (flag_bit 20)"
  by (simp_all add: fr_defs has_flag_def)

lemma one_bit_flag: "n < 32 \<Longrightarrow> one_bit (flag_bit n)"
  unfolding flag_bit_def by (rule one_bitI [OF _ refl]) simp

lemma flag_bits_apart: "i \<noteq> j \<Longrightarrow> flag_bit i AND flag_bit j = 0"
  unfolding flag_bit_def by (rule bit_eqI) (auto simp: bit_simps)

lemmas fr_laws = has_put_same [OF one_bit_flag] has_put_other [OF flag_bits_apart]
  put_put_flag put_comm_flag [OF flag_bits_apart]

interpretation tflexray: property_set fr_get fr_put
proof
  fix p q v u s
  show "fr_get p (fr_put q v s) = (if p = q then v else fr_get p s)"
    by (cases p; cases q) (simp_all add: fr_put_as_flag fr_get_as_flag fr_laws
        fr_get_is_tx_def fr_set_is_tx_def)
  show "fr_put p v (fr_put p u s) = fr_put p v s"
    by (cases p) (simp_all add: fr_put_as_flag put_put_flag fr_set_is_tx_def)
  show "p \<noteq> q \<Longrightarrow> fr_put p v (fr_put q u s) = fr_put q u (fr_put p v s)"
    by (cases p; cases q) (simp_all add: fr_put_as_flag fr_laws fr_set_is_tx_def)
qed


lemma fr_put_keeps: "fr_FFrameFlags (fr_put p v m) AND 0xFFEFFFA0 = fr_FFrameFlags m AND 0xFFEFFFA0"
  by (cases p) (simp_all add: fr_put_as_flag fr_set_is_tx_def put_flag_keeps flag_bit_def)

lemma fr_put_only:
  "(fr_put p v m)\<lparr>fr_FFrameFlags := x, fr_FDir := y\<rparr> = m\<lparr>fr_FFrameFlags := x, fr_FDir := y\<rparr>"
  by (cases p) (simp_all add: fr_put_as_flag fr_set_is_tx_def)

section \<open>What the frame types promise\<close>

text \<open>
  C33: A sequence of assignments to the properties of a CAN or CAN FD frame leaves every property at
  the value last assigned to it, or as it was, and touches neither the logging bits of the property
  byte nor the identifier, the data length code, the channel, the time or the data.
\<close>

theorem frame_properties_independent:
  "(let m' = fold (\<lambda>(q, v). can_put q v) ops m in
      (\<forall>p. can_get p m' = (case map_of (rev ops) p of None \<Rightarrow> can_get p m | Some v \<Rightarrow> v)) \<and>
      can_FProperties m' AND MASK_CANProp_LOGGED = can_FProperties m AND MASK_CANProp_LOGGED \<and>
      m'\<lparr>can_FProperties := can_FProperties m\<rparr> = m) \<and>
   (let f' = fold (\<lambda>(q, v). fd_put q v) fops f in
      (\<forall>p. fd_get p f' = (case map_of (rev fops) p of None \<Rightarrow> fd_get p f | Some v \<Rightarrow> v)) \<and>
      fd_FProperties f' AND MASK_CANProp_LOGGED = fd_FProperties f AND MASK_CANProp_LOGGED \<and>
      f'\<lparr>fd_FProperties := fd_FProperties f, fd_FFDProperties := fd_FFDProperties f\<rparr> = f)"
  unfolding Let_def
  using tcan.get_puts [of _ ops m] tcanfd.get_puts [of _ fops f]
    tcan.puts_preserve [of "\<lambda>s. can_FProperties s AND MASK_CANProp_LOGGED", OF can_put_keeps]
    tcanfd.puts_preserve [of "\<lambda>s. fd_FProperties s AND MASK_CANProp_LOGGED", OF fd_put_keeps]
    tcan.puts_preserve [of "\<lambda>s. s\<lparr>can_FProperties := can_FProperties m\<rparr>", OF can_put_only]
    tcanfd.puts_preserve [of "\<lambda>s. s\<lparr>fd_FProperties := fd_FProperties f, fd_FFDProperties := fd_FFDProperties f\<rparr>",
      OF fd_put_only]
  by simp

text \<open>The properties of a FlexRay frame are independent as well, and an assignment keeps the 25 flag
  bits that no property names; but reading \<open>is_tx\<close> and writing it back turns a transmit request
  (direction 2) into a transmitted frame.
\<close>

theorem flexray_properties:
  "(let m' = fold (\<lambda>(q, v). fr_put q v) ops m in
      (\<forall>p. fr_get p m' = (case map_of (rev ops) p of None \<Rightarrow> fr_get p m | Some v \<Rightarrow> v)) \<and>
      fr_FFrameFlags m' AND 0xFFEFFFA0 = fr_FFrameFlags m AND 0xFFEFFFA0 \<and>
      m'\<lparr>fr_FFrameFlags := fr_FFrameFlags m, fr_FDir := fr_FDir m\<rparr> = m) \<and>
   fr_FDir (fr_put Pfr_is_tx (fr_get Pfr_is_tx m) m) = (if fr_FDir m = 0 then 0 else 1)"
  unfolding Let_def
  using tflexray.get_puts [of _ ops m]
    tflexray.puts_preserve [of "\<lambda>s. fr_FFrameFlags s AND 0xFFEFFFA0", OF fr_put_keeps]
    tflexray.puts_preserve [of "\<lambda>s. s\<lparr>fr_FFrameFlags := fr_FFrameFlags m, fr_FDir := fr_FDir m\<rparr>",
      OF fr_put_only]
  by (simp add: fr_set_is_tx_def fr_get_is_tx_def)

text \<open>An initialiser forgets the object it is called on: the frame depends on the identifier and the
  length code alone, it is a received data frame without error flag and with zeroed data, CAN FD
  frames have the FD flag set, and the length code is the low byte of the argument.
\<close>

theorem initialisers_forget:
  assumes "length (can_FData m) = 8" and "length (fd_FData f) = 64" and "length (lin_FData l) = 8"
    and "length (fr_FData r) = 254"
  shows
    "can_init_w_std_id i d m = \<lparr>can_FIdxChn = 0, can_FProperties = 0, can_FDLC = ucast d,
       can_FReserved = 0, can_FIdentifier = i, can_FTimeUs = 0, can_FData = replicate 8 0\<rparr> \<and>
     can_init_w_ext_id i d m = \<lparr>can_FIdxChn = 0, can_FProperties = MASK_CANProp_EXTEND,
       can_FDLC = ucast d, can_FReserved = 0, can_FIdentifier = i, can_FTimeUs = 0,
       can_FData = replicate 8 0\<rparr> \<and>
     fd_init_w_std_id i d f = \<lparr>fd_FIdxChn = 0, fd_FProperties = 0, fd_FDLC = ucast d,
       fd_FFDProperties = MASK_CANFDProp_IS_FD, fd_FIdentifier = i, fd_FTimeUs = 0,
       fd_FData = replicate 64 0\<rparr> \<and>
     fd_init_w_ext_id i d f = \<lparr>fd_FIdxChn = 0, fd_FProperties = MASK_CANProp_EXTEND,
       fd_FDLC = ucast d, fd_FFDProperties = MASK_CANFDProp_IS_FD, fd_FIdentifier = i, fd_FTimeUs = 0,
       fd_FData = replicate 64 0\<rparr> \<and>
     lin_init_w_id i d l = \<lparr>lin_FIdxChn = 0, lin_FErrStatus = 0, lin_FProperties = 0,
       lin_FDLC = ucast d, lin_FIdentifier = ucast i, lin_FChecksum = 0, lin_FStatus = 0,
       lin_FTimeUs = 0, lin_FData = replicate 8 0\<rparr> \<and>
     fr_FData (fr_init_w_slot_id i d r) = replicate 254 0 \<and>
     (\<forall>p. fr_get p (fr_init_w_slot_id i d r) = (p = Pfr_is_data))"
proof -
  have "\<forall>p. fr_get p (fr_init_w_slot_id i d r) = (p = Pfr_is_data)"
  proof
    fix p
    show "fr_get p (fr_init_w_slot_id i d r) = (p = Pfr_is_data)"
      by (cases p) (simp_all add: fr_init_w_slot_id_def fr_defs flag_bit_def)
  qed
  then show ?thesis
    using assms
    by (simp add: can_init_w_std_id_def can_init_w_ext_id_def fd_init_w_std_id_def
        fd_init_w_ext_id_def lin_init_w_id_def fr_init_w_slot_id_def can_defs fd_defs can_masks
        store_zero_def zero_loop_fills)
qed

lemma initialisers_forget_witness:
  "can_init_w_std_id 0x123 8 \<lparr>can_FIdxChn = 3, can_FProperties = 0xFF, can_FDLC = 4,
     can_FReserved = 9, can_FIdentifier = 1, can_FTimeUs = 77, can_FData = replicate 8 5\<rparr> =
   \<lparr>can_FIdxChn = 0, can_FProperties = 0, can_FDLC = 8, can_FReserved = 0,
     can_FIdentifier = 0x123, can_FTimeUs = 0, can_FData = replicate 8 0\<rparr>"
  using initialisers_forget
    [where i = "0x123" and d = 8 and m = "\<lparr>can_FIdxChn = 3, can_FProperties = 0xFF, can_FDLC = 4, can_FReserved = 9,
          can_FIdentifier = 1, can_FTimeUs = 77, can_FData = replicate 8 5\<rparr>"
        and f = "\<lparr>fd_FIdxChn = 3, fd_FProperties = 0xFF, fd_FDLC = 4, fd_FFDProperties = 9,
          fd_FIdentifier = 1, fd_FTimeUs = 77, fd_FData = replicate 64 5\<rparr>"
        and l = "\<lparr>lin_FIdxChn = 3, lin_FErrStatus = 1, lin_FProperties = 1, lin_FDLC = 4,
          lin_FIdentifier = 1, lin_FChecksum = 1, lin_FStatus = 1, lin_FTimeUs = 1,
          lin_FData = replicate 8 5\<rparr>"
        and r = "\<lparr>fr_FIdxChn = 0, fr_FChannelMask = 0, fr_FDir = 2, fr_FPayloadLength = 1,
          fr_FActualPayloadLength = 1, fr_FCycleNumber = 1, fr_FCCType = 1, fr_FFrameType = 1,
          fr_FHeaderCRCA = 1, fr_FHeaderCRCB = 1, fr_FFrameStateInfo = 1, fr_FSlotId = 1,
          fr_FFrameFlags = 1, fr_FFrameCRC = 1, fr_FReserved1 = 1, fr_FReserved2 = 1,
          fr_FTimeUs = 1, fr_FData = replicate 254 5\<rparr>"]
  by simp

text \<open>\<open>get_data_length\<close> of the header and \<open>DLCToLength\<close> of the Go package agree on every length code
  up to 15; above, the header answers 64 where the Go function rejects the code.
\<close>

theorem data_length_agrees:
  "fd_get_data_length m =
     (if snd (DLCToLength (fd_FDLC m)) then fst (DLCToLength (fd_FDLC m)) else 64)"
proof -
  define d where "d = uint (fd_FDLC m)"
  have d: "fd_FDLC m = word_of_int d" "0 \<le> d" "d < 256" using unsigned_less [of "fd_FDLC m", where 'a = int] by (simp_all add: d_def)
  consider "d \<in> {0..15}" | "16 \<le> d" using d by fastforce
  then show ?thesis
  proof cases
    case 1
    then have "d \<in> {0,1,2,3,4,5,6,7,8,9,10,11,12,13,14,15}"
      unfolding atLeastAtMost_iff insert_iff empty_iff by presburger
    then show ?thesis
      by (auto simp: fd_get_data_length_def DLCToLength_def DLC_DATA_BYTE_CNT_def C_MIN_def
          C_MAX_def d(1))
  next
    case 2
    have "\<not> fd_FDLC m \<le> 8" "fd_FDLC m > 15"
      using 2 by (simp_all add: word_le_def word_less_def flip: d_def)
    then show ?thesis using 2
      by (simp add: fd_get_data_length_def DLCToLength_def DLC_DATA_BYTE_CNT_def C_MIN_def
          C_MAX_def flip: d_def)
  qed
qed

text \<open>\<open>to_tcan\<close>, which reinterprets the memory of a CAN FD frame, yields the CAN frame with the same
  channel, properties, length code, identifier and time, the first eight data bytes, and the FD
  flags in its reserved byte.
\<close>

theorem to_tcan_reinterprets:
  assumes "length (fd_FData m) = 64"
  shows "fd_to_tcan m = \<lparr>can_FIdxChn = fd_FIdxChn m, can_FProperties = fd_FProperties m,
     can_FDLC = fd_FDLC m, can_FReserved = fd_FFDProperties m, can_FIdentifier = fd_FIdentifier m,
     can_FTimeUs = fd_FTimeUs m, can_FData = take 8 (fd_FData m)\<rparr>"
  by (simp add: fd_to_tcan_def TCAN_of_bytes_def TCANFD_bytes_def of_le_le_bytes take_bit_word_eq_self)

lemma to_tcan_reinterprets_witness:
  "can_FData (fd_to_tcan \<lparr>fd_FIdxChn = 3, fd_FProperties = 1, fd_FDLC = 9, fd_FFDProperties = 1,
     fd_FIdentifier = 0x7FF, fd_FTimeUs = 77, fd_FData = replicate 64 5\<rparr>) = replicate 8 5"
  using to_tcan_reinterprets [of "\<lparr>fd_FIdxChn = 3, fd_FProperties = 1, fd_FDLC = 9,
     fd_FFDProperties = 1, fd_FIdentifier = 0x7FF, fd_FTimeUs = 77, fd_FData = replicate 64 5\<rparr>"]
  by simp

text \<open>The data loaders copy exactly the array, and need all of it.\<close>

lemma loaders_copy:
  assumes "length (can_FData m) = 8" and "length (fd_FData f) = 64"
  shows "can_load_data_array a m =
           (if length a < 8 then None else Some (m\<lparr>can_FData := take 8 a\<rparr>))"
    and "fd_load_data b f =
           (if length b < 64 then None else Some (f\<lparr>fd_FData := take 64 b\<rparr>))"
  using assms by (simp_all add: can_load_data_array_def fd_load_data_def load_loop_copies)

lemma fd_bytes_roundtrip:
  "length (fd_FData m) = 64 \<Longrightarrow> TCANFD_of_bytes (TCANFD_bytes m) = m"
  by (simp add: TCANFD_of_bytes_def TCANFD_bytes_def of_le_le_bytes take_bit_word_eq_self)


end
