(* ===== verification/Tsmaster_Driver.thy ===== *)
theory Tsmaster_Driver
  imports Driver_Common Tsmaster_Frames
begin

text \<open>
  tsmaster.go, the part that talks CAN: the Go structure handed to libTSMaster, \<open>write\<close>, and what the
  read loop does with a batch of frames. The DLL reads and fills memory: \<open>TLIBCANFD_bytes\<close> is the
  memory of the Go structure, the header's methods see the same bytes as a \<open>TCANFD\<close>. Loading the
  DLL, the start-up calls and the native bus statistics are left out, but for the normalisation of
  the latter.
\<close>

definition tsCANPropertyTX :: u8 where "tsCANPropertyTX = push_bit 0 1"
definition tsCANPropertyRemote :: u8 where "tsCANPropertyRemote = push_bit 1 1"
definition tsCANPropertyExtended :: u8 where "tsCANPropertyExtended = push_bit 2 1"
definition tsCANFDPropertyEDL :: u8 where "tsCANFDPropertyEDL = push_bit 0 1"
definition tsCANFDPropertyBRS :: u8 where "tsCANFDPropertyBRS = push_bit 1 1"
definition tsCANFDPropertyESI :: u8 where "tsCANFDPropertyESI = push_bit 2 1"

lemmas ts_properties = tsCANPropertyTX_def tsCANPropertyRemote_def tsCANPropertyExtended_def
  tsCANFDPropertyEDL_def tsCANFDPropertyBRS_def tsCANFDPropertyESI_def

record TLIBCANFD =
  tl_FIdxChn :: u8
  tl_FProperties :: u8
  tl_FDLC :: u8
  tl_FFDProperties :: u8
  tl_FIdentifier :: s32
  tl_FTimeUs :: s64
  tl_FData :: bytes

record TSMaster =
  ts_initialized :: bool
  ts_ApplicationChannel :: u8
  ts_cfg :: Config

text \<open>The Go structure has no padding: its fields lie on their natural boundaries.\<close>

definition TLIBCANFD_bytes :: "TLIBCANFD \<Rightarrow> bytes" where
  "TLIBCANFD_bytes m = [tl_FIdxChn m, tl_FProperties m, tl_FDLC m, tl_FFDProperties m] @
     le_bytes 4 (tl_FIdentifier m) @ le_bytes 8 (tl_FTimeUs m) @ tl_FData m"

text \<open>The loop that copies the payload: \<open>for i := 0; i < maxLen && i < len(data); i++\<close>.\<close>

fun ts_copy_loop :: "nat \<Rightarrow> nat \<Rightarrow> bytes \<Rightarrow> bytes \<Rightarrow> bytes" where
  "ts_copy_loop i 0 data d = d"
| "ts_copy_loop i (Suc k) [] d = d"
| "ts_copy_loop i (Suc k) (x # data) d = ts_copy_loop (i + 1) k data (d[i := x])"

definition tsmaster_write :: "(TLIBCANFD \<Rightarrow> bool) \<Rightarrow> TSMaster \<Rightarrow> Frame \<Rightarrow> TLIBCANFD written" where
  "tsmaster_write dll t frame =
     (let data = frame_data frame
      in if \<not> ts_initialized t then refuse DriverNotOpen
         else let dlc = LengthToDLC (int (length data)) in
           transmit dll
             \<lparr>tl_FIdxChn = ts_ApplicationChannel t, tl_FProperties = 1, tl_FDLC = dlc,
              tl_FFDProperties =
                (if f_FD frame
                 then (if cfg_BRS (ts_cfg t) then tsCANFDPropertyEDL OR tsCANFDPropertyBRS
                       else tsCANFDPropertyEDL)
                 else 0),
              tl_FIdentifier = f_ID frame, tl_FTimeUs = 0,
              tl_FData = ts_copy_loop 0 (nat (dlcLen dlc)) data (replicate 64 0)\<rparr> frame)"

definition tsmasterTimestampUS :: "s64 \<Rightarrow> u64" where
  "tsmasterTimestampUS timestamp = (if sint timestamp < 0 then 0 else timestamp)"

definition tsmaster_receive :: "Config \<Rightarrow> TLIBCANFD \<Rightarrow> disposal" where
  "tsmaster_receive cfg msg =
     (if sint (tl_FIdentifier msg) < 0 \<or> sint (tl_FIdentifier msg) > 0x7FF then Dropped
      else if tl_FProperties msg AND (tsCANPropertyRemote OR tsCANPropertyExtended) \<noteq> 0 then Dropped
      else if tl_FDLC msg > 15 then Dropped
      else dispose cfg
        \<lparr>f_Direction = (if tl_FProperties msg AND tsCANPropertyTX \<noteq> 0 then Transmit else Receive),
         f_ID = tl_FIdentifier msg, f_DLC = tl_FDLC msg, f_Data = tl_FData msg,
         f_FD = (tl_FFDProperties msg AND tsCANFDPropertyEDL \<noteq> 0),
         f_BRS = (tl_FFDProperties msg AND tsCANFDPropertyBRS \<noteq> 0), f_Extended = False,
         f_TimestampUS = tsmasterTimestampUS (tl_FTimeUs msg)\<rparr>)"

definition tsmaster_tick :: "Config \<Rightarrow> int \<Rightarrow> s32 \<Rightarrow> TLIBCANFD list \<Rightarrow> disposal list" where
  "tsmaster_tick cfg r count buffer =
     (if r \<noteq> 0 then []
      else if sint count < 0 \<or> sint count > 1024 then []
      else map (tsmaster_receive cfg) (take (nat (sint count)) buffer))"

section \<open>Device types\<close>

text \<open>The two \<open>iota\<close> blocks of constants: the position in the list is the value.\<close>

definition tsmaster_bus_devices :: "string list" where
  "tsmaster_bus_devices =
     [''BUS_UNKNOWN_TYPE'', ''TS_TCP_DEVICE'', ''XL_USB_DEVICE'', ''TS_USB_DEVICE'',
      ''PEAK_USB_DEVICE'', ''KVASER_USB_DEVICE'', ''ZLG_USB_DEVICE'', ''ICS_USB_DEVICE'',
      ''TS_TC1005_DEVICE'', ''CANABLE_USB_DEVICE'', ''TS_WIRELESS_OBD'', ''TS_USB_DEVICE_EX'',
      ''IXXAT_USB_DEVICE'', ''TS_ETH_IF_DEVICE'', ''TS_USB_IF_DEVICE'', ''BUS_DEV_TYPE_COUNT'']"

definition tsmaster_device_types :: "string list" where
  "tsmaster_device_types =
     [''TS_UNKNOWN_DEVICE'', ''TSCAN_PRO'', ''TSCAN_Lite1'', ''TC1001'', ''TL1001'', ''TC1011'',
      ''TM5011'', ''TC1002'', ''TC1014'', ''TSCANFD2517'', ''TC1026'', ''TC1016'', ''TC1012'',
      ''TC1013'', ''TLog1002'', ''TC1034'', ''TC1018'', ''GW2116'', ''TC2115'', ''MP1013'',
      ''TC1113'', ''TC1114'', ''TP1013'', ''TC1017'', ''TP1018'', ''TF10XX'',
      ''TL1004_FD_4_LIN_2'', ''TE1051'', ''TP1051'', ''TP1034'', ''TTS9015'', ''TP1026'',
      ''TTS1026'', ''TTS1034'', ''TTS1018'', ''TL1011'', ''TTS1015_LiAuto'', ''TTS1013_LiAuto'',
      ''TTS1016Pro'', ''TC1054Pro'', ''TC1054'', ''TLog1038'', ''TO1013'', ''TC1034Pro'',
      ''TC1018Pro'', ''TC1038Pro'', ''TC1014Pro'', ''TC1034ProPlus'', ''TA1038'', ''TC1055Pro'',
      ''TC1056Pro'', ''TC1057Pro'', ''TC4016'', ''GW2208'', ''TLog1039'', ''GW1040'', ''TC3014'',
      ''TP1014'', ''TA825_4'', ''TC1013HV'', ''TC1052'', ''TTS1017Pro'', ''TLog1057'',
      ''TC1017Pro'', ''GW2202'', ''GW2204'', ''GW2212'', ''TA821'', ''TX1000'',
      ''TC1055ProPlus'', ''TC1043'', ''TS_DEV_END'']"

text \<open>The map from names to those constants, every name to the constant of the same name.\<close>

definition tsMasterNames :: "(string \<times> nat) list" where
  "tsMasterNames = zip tsmaster_device_types [0..<length tsmaster_device_types]"

text \<open>
  \<open>deviceNameFromType\<close> returns the first name it meets in a traversal of the map, whose order Go leaves
  open: an argument here.
\<close>

definition deviceNameFromType :: "(string \<times> nat) list \<Rightarrow> int \<Rightarrow> string option" where
  "deviceNameFromType order deviceType =
     map_option fst (List.find (\<lambda>(name, i). int i = deviceType \<and> name \<noteq> ''TS_UNKNOWN_DEVICE'' \<and>
       name \<noteq> ''TS_DEV_END'') order)"

lemma device_types_distinct: "distinct tsmaster_device_types \<and> length tsmaster_device_types = 72"
  by code_simp

lemma device_types_ends: "tsmaster_device_types ! 0 = ''TS_UNKNOWN_DEVICE''" "tsmaster_device_types ! 71 = ''TS_DEV_END''"
  by code_simp+

text \<open>
  The name found does not depend on the order of the traversal: it is the constant of that value,
  for every value between the two markers.
\<close>

lemma device_name_any_order:
  assumes "set order = set tsMasterNames"
  shows "deviceNameFromType order d =
    (if 0 < d \<and> d < 71 then Some (tsmaster_device_types ! nat d) else None)"
proof -
  let ?T = "tsmaster_device_types"
  let ?P = "\<lambda>(name, i). int i = d \<and> name \<noteq> ''TS_UNKNOWN_DEVICE'' \<and> name \<noteq> ''TS_DEV_END''"
  have mem: "(x, i) \<in> set order \<longleftrightarrow> i < 72 \<and> x = ?T ! i" for x i
    using assms device_types_distinct by (auto simp: tsMasterNames_def in_set_zip)
  have marks: "i < 72 \<Longrightarrow> ?T ! i = ''TS_UNKNOWN_DEVICE'' \<longleftrightarrow> i = 0"
    "i < 72 \<Longrightarrow> ?T ! i = ''TS_DEV_END'' \<longleftrightarrow> i = 71" for i
    using device_types_distinct device_types_ends nth_eq_iff_index_eq [of ?T i 0]
      nth_eq_iff_index_eq [of ?T i 71] by simp_all
  define P where "P = ?P"
  have hit: "e \<in> set order \<and> P e \<longleftrightarrow> 0 < d \<and> d < 71 \<and> e = (?T ! nat d, nat d)" for e
    unfolding P_def by (cases e) (auto simp: mem marks)
  have name: "deviceNameFromType order d = map_option fst (List.find P order)"
    by (simp only: deviceNameFromType_def P_def)
  show ?thesis
  proof (cases "List.find P order")
    case None
    then have "\<not> (0 < d \<and> d < 71)" using hit [of "(?T ! nat d, nat d)"] by (metis find_None_iff)
    then show ?thesis using None name by simp
  next
    case (Some e)
    then have "e \<in> set order \<and> P e" by (metis find_Some_iff nth_mem)
    then have "0 < d \<and> d < 71 \<and> e = (?T ! nat d, nat d)" by (simp only: hit)
    then show ?thesis using Some name by simp
  qed
qed

end
