(* ===== verification/Memory_Bus.thy ===== *)
theory Memory_Bus
  imports Can_Frame Complex_Main
begin

text \<open>
  The in-process link (can/memory/memory.go): two endpoints connected back-to-back, with their
  lifecycle, subscriptions, dispatch and the driver contract they promise.

  Go's channels are objects shared by the endpoint and the reader, so an endpoint keeps a store
  of every channel it made (\<open>ep_chans\<close>, a channel is its index) and the keys of its
  \<open>subscribers\<close> map (\<open>ep_subs\<close>), in the order an iteration visits them. Operations that
  close or send on a channel have an option type: None is a run-time panic.
\<close>

section \<open>State\<close>

record endpoint =
  ep_cfg :: Config
  ep_opened :: bool
  ep_closed :: bool
  ep_subs :: "nat list"
  ep_chans :: "Frame chan list"
  ep_errors :: "can_error chan"
  ep_dropped :: u64
  ep_frames :: u64

definition newEndpoint :: "Config \<Rightarrow> endpoint" where
  "newEndpoint cfg =
     \<lparr>ep_cfg = (if cfg_RxBufferSize cfg = 0 then cfg\<lparr>cfg_RxBufferSize := 1024\<rparr> else cfg),
      ep_opened = False, ep_closed = False, ep_subs = [], ep_chans = [],
      ep_errors = make_chan 16, ep_dropped = 0, ep_frames = 0\<rparr>"

text \<open>An endpoint and the peer it is connected to, as seen by an operation of the endpoint.\<close>

type_synonym link = "endpoint \<times> endpoint option"

definition Pair_endpoints :: "Config \<Rightarrow> endpoint \<times> endpoint" where
  "Pair_endpoints cfg = (newEndpoint cfg, newEndpoint cfg)"

section \<open>Operations\<close>

definition ep_Open :: "ctx \<Rightarrow> endpoint \<Rightarrow> endpoint \<times> can_error option" where
  "ep_Open c e =
     (case c of
        CtxNil \<Rightarrow> (e, Some NilContext)
      | CtxDone err \<Rightarrow> (e, Some (CtxErr err))
      | CtxLive \<Rightarrow>
          if ep_closed e then (e, Some EndpointClosed)
          else if ep_opened e then (e, Some ErrAlreadyOpen)
          else case Normalized (ep_cfg e) of
                 Inl err \<Rightarrow> (e, Some err)
               | Inr normalized \<Rightarrow> (e\<lparr>ep_cfg := normalized, ep_opened := True\<rparr>, None))"

text \<open>\<open>for ch := range subscribers { close(ch) }\<close>\<close>

fun close_all :: "nat list \<Rightarrow> Frame chan list \<Rightarrow> Frame chan list option" where
  "close_all [] chans = Some chans"
| "close_all (c # cs) chans =
     (case close_chan (chans ! c) of
        None \<Rightarrow> None
      | Some ch \<Rightarrow> close_all cs (chans[c := ch]))"

definition ep_Close :: "endpoint \<Rightarrow> endpoint option" where
  "ep_Close e =
     (if ep_closed e then Some e
      else do {
        chans \<leftarrow> close_all (ep_subs e) (ep_chans e);
        errs \<leftarrow> close_chan (ep_errors e);
        Some (e\<lparr>ep_opened := False, ep_closed := True, ep_chans := chans, ep_subs := [],
                ep_errors := errs\<rparr>)
      })"

text \<open>
  The loop of \<open>dispatch\<close>. \<open>select\<close> with a cancelled context and a ready channel takes either
  branch; \<open>pick c\<close> says whether the iteration for \<open>c\<close> takes \<open>ctx.Done()\<close>, which it can only
  when the context is done, and must when the channel is not ready.
\<close>

fun dispatch_loop :: "ctx \<Rightarrow> (nat \<Rightarrow> bool) \<Rightarrow> Frame \<Rightarrow> nat list \<Rightarrow> endpoint
    \<Rightarrow> (endpoint \<times> can_error option) option" where
  "dispatch_loop c pick frame [] e = Some (e, None)"
| "dispatch_loop c pick frame (k # ks) e =
     (case (c, pick k \<or> \<not> ch_closed (ep_chans e ! k) \<and> \<not> chan_room (ep_chans e ! k)) of
        (CtxDone err, True) \<Rightarrow> Some (e, Some (CtxErr err))
      | _ \<Rightarrow>
        (case try_send frame (ep_chans e ! k) of
           None \<Rightarrow> None
         | Some (ch, taken) \<Rightarrow>
             if taken then dispatch_loop c pick frame ks (e\<lparr>ep_chans := (ep_chans e)[k := ch]\<rparr>)
             else dispatch_loop c pick frame ks (e\<lparr>ep_dropped := ep_dropped e + 1\<rparr>)))"

definition ep_dispatch :: "ctx \<Rightarrow> (nat \<Rightarrow> bool) \<Rightarrow> Frame \<Rightarrow> endpoint
    \<Rightarrow> (endpoint \<times> can_error option) option" where
  "ep_dispatch c pick frame e =
     (if \<not> ep_opened e \<or> ep_closed e then Some (e, Some ErrNotOpen)
      else dispatch_loop c pick frame (ep_subs e) e)"

text \<open>
  \<open>Send\<close>: \<open>c\<close> is the context at the entry check, \<open>c'\<close> during the dispatch (it may be
  cancelled in between). The result is the endpoint, its peer and the returned error.
\<close>

definition ep_Send :: "ctx \<Rightarrow> ctx \<Rightarrow> (nat \<Rightarrow> bool) \<Rightarrow> Frame \<Rightarrow> link
    \<Rightarrow> (link \<times> can_error option) option" where
  "ep_Send c c' pick frame l =
     (let e = fst l in
      case c of
        CtxNil \<Rightarrow> Some (l, Some NilContext)
      | CtxDone err \<Rightarrow> Some (l, Some (CtxErr err))
      | CtxLive \<Rightarrow>
        (case Frame_Validate frame of
           Inl err \<Rightarrow> Some (l, Some err)
         | Inr _ \<Rightarrow>
           if \<not> (ep_opened e \<and> \<not> ep_closed e) then Some (l, Some ErrNotOpen)
           else if cfg_Mode (ep_cfg e) = Classic \<and> f_FD frame
           then Some (l, Some FdFrameInClassicMode)
           else case snd l of
             None \<Rightarrow> Some (l, Some EndpointNotConnected)
           | Some p \<Rightarrow>
             (case ep_dispatch c' pick (frame\<lparr>f_Direction := Receive\<rparr>) p of
                None \<Rightarrow> None
              | Some (p', Some err) \<Rightarrow> Some ((e, Some p'), Some err)
              | Some (p', None) \<Rightarrow>
                  let e1 = e\<lparr>ep_frames := ep_frames e + 1\<rparr> in
                  if cfg_IncludeTxEcho (ep_cfg e)
                  then case ep_dispatch c' pick (frame\<lparr>f_Direction := Transmit\<rparr>) e1 of
                         None \<Rightarrow> None
                       | Some (e2, _) \<Rightarrow> Some ((e2, Some p'), None)
                  else Some ((e1, Some p'), None))))"

text \<open>The new channel is the last of the store; on an endpoint that is not open it is closed.\<close>

definition ep_Subscribe :: "int \<Rightarrow> endpoint \<Rightarrow> endpoint \<times> nat \<times> can_error option" where
  "ep_Subscribe buffer e =
     (let ch = make_chan (nat (if buffer < 0 then 0 else buffer));
          k = length (ep_chans e)
      in if \<not> ep_opened e \<or> ep_closed e
         then (e\<lparr>ep_chans := ep_chans e @ [ch\<lparr>ch_closed := True\<rparr>]\<rparr>, k, Some ErrNotOpen)
         else (e\<lparr>ep_chans := ep_chans e @ [ch], ep_subs := ep_subs e @ [k]\<rparr>, k, None))"

text \<open>
  The function \<open>Subscribe\<close> returns. \<open>sync.Once\<close> adds nothing to the state: after the first
  call the key is no longer in the map. The function returned with an error does nothing, as
  its key never was in the map.
\<close>

definition ep_unsubscribe :: "nat \<Rightarrow> endpoint \<Rightarrow> endpoint option" where
  "ep_unsubscribe k e =
     (if k \<in> set (ep_subs e)
      then case close_chan (ep_chans e ! k) of
             None \<Rightarrow> None
           | Some ch \<Rightarrow> Some (e\<lparr>ep_subs := remove1 k (ep_subs e), ep_chans := (ep_chans e)[k := ch]\<rparr>)
      else Some e)"

record Stats =
  SourceDropped :: u64
  SubscriberDropped :: u64

definition ep_Stats :: "endpoint \<Rightarrow> Stats" where
  "ep_Stats e = \<lparr>SourceDropped = 0, SubscriberDropped = ep_dropped e\<rparr>"

text \<open>
  \<open>Errors\<close>, \<open>Config\<close> and \<open>BusLoad\<close>; this driver leaves the load and its window zero. The load
  is a \<open>float64\<close> in the code and an exact rational here: the rounding of the quotient is not
  modelled.
\<close>

definition ep_Errors :: "endpoint \<Rightarrow> can_error chan" where "ep_Errors e = ep_errors e"

definition ep_Config :: "endpoint \<Rightarrow> Config" where "ep_Config e = ep_cfg e"

record BusLoad =
  bl_Load :: rat
  bl_Window :: duration
  bl_NominalBitrate :: u32
  bl_DataBitrate :: u32
  bl_FrameCount :: u64

definition ep_BusLoad :: "endpoint \<Rightarrow> BusLoad" where
  "ep_BusLoad e = \<lparr>bl_Load = 0, bl_Window = 0, bl_NominalBitrate = cfg_NominalBitrate (ep_cfg e),
     bl_DataBitrate = cfg_DataBitrate (ep_cfg e), bl_FrameCount = ep_frames e\<rparr>"

text \<open>A reader receiving from subscription \<open>k\<close>.\<close>

definition ep_recv :: "nat \<Rightarrow> endpoint \<Rightarrow> Frame received \<times> endpoint" where
  "ep_recv k e = (case chan_recv (ep_chans e ! k) of
     (r, ch) \<Rightarrow> (r, e\<lparr>ep_chans := (ep_chans e)[k := ch]\<rparr>))"

section \<open>The link as a machine\<close>

datatype side = SideA | SideB

datatype link_op =
    LOpen side ctx
  | LClose side
  | LSend side ctx ctx "nat \<Rightarrow> bool" Frame
  | LSubscribe side int
  | LUnsubscribe side nat
  | LRecv side nat

text \<open>The endpoints in the order (acting, other), and back.\<close>

fun orient :: "side \<Rightarrow> endpoint \<times> endpoint \<Rightarrow> endpoint \<times> endpoint" where
  "orient SideA (a, b) = (a, b)"
| "orient SideB (a, b) = (b, a)"

fun link_step :: "link_op \<Rightarrow> endpoint \<times> endpoint \<Rightarrow> (endpoint \<times> endpoint) option" where
  "link_step (LOpen s c) l =
     (case orient s l of (e, p) \<Rightarrow> Some (orient s (fst (ep_Open c e), p)))"
| "link_step (LClose s) l =
     (case orient s l of (e, p) \<Rightarrow> map_option (\<lambda>e'. orient s (e', p)) (ep_Close e))"
| "link_step (LSend s c c' pick frame) l =
     (case orient s l of (e, p) \<Rightarrow>
        map_option (\<lambda>((e', p'), _). orient s (e', case p' of None \<Rightarrow> p | Some q \<Rightarrow> q))
          (ep_Send c c' pick frame (e, Some p)))"
| "link_step (LSubscribe s n) l =
     (case orient s l of (e, p) \<Rightarrow> Some (orient s (fst (ep_Subscribe n e), p)))"
| "link_step (LUnsubscribe s k) l =
     (case orient s l of (e, p) \<Rightarrow> map_option (\<lambda>e'. orient s (e', p)) (ep_unsubscribe k e))"
| "link_step (LRecv s k) l =
     (case orient s l of (e, p) \<Rightarrow>
        if k < length (ep_chans e) then Some (orient s (snd (ep_recv k e), p)) else Some l)"

fun link_run :: "link_op list \<Rightarrow> endpoint \<times> endpoint \<Rightarrow> (endpoint \<times> endpoint) option" where
  "link_run [] l = Some l"
| "link_run (x # xs) l = (case link_step x l of None \<Rightarrow> None | Some l' \<Rightarrow> link_run xs l')"

section \<open>Invariant\<close>

text \<open>
  The keys of the subscriber map are distinct and name open channels; a closed endpoint has
  none; the error channel is closed exactly when the endpoint is.
\<close>

definition subs_ok :: "nat list \<Rightarrow> Frame chan list \<Rightarrow> bool" where
  "subs_ok ks chans \<longleftrightarrow> distinct ks \<and> (\<forall>k \<in> set ks. k < length chans \<and> \<not> ch_closed (chans ! k))"

definition ep_inv :: "endpoint \<Rightarrow> bool" where
  "ep_inv e \<longleftrightarrow> subs_ok (ep_subs e) (ep_chans e) \<and>
     (ep_closed e \<longrightarrow> ep_subs e = [] \<and> \<not> ep_opened e) \<and>
     ch_closed (ep_errors e) = ep_closed e"

definition link_inv :: "endpoint \<times> endpoint \<Rightarrow> bool" where
  "link_inv l \<longleftrightarrow> ep_inv (fst l) \<and> ep_inv (snd l)"

lemma subs_ok_Nil [simp]: "subs_ok [] chans"
  by (simp add: subs_ok_def)

lemma subs_ok_update:
  "subs_ok ks chans \<Longrightarrow> ch_closed ch = ch_closed (chans ! k) \<Longrightarrow> subs_ok ks (chans[k := ch])"
  by (auto simp: subs_ok_def nth_update_if split: if_splits)

lemma subs_ok_other:
  "subs_ok ks chans \<Longrightarrow> k \<notin> set ks \<Longrightarrow> subs_ok ks (chans[k := ch])"
  by (auto simp: subs_ok_def nth_update_if split: if_splits)

lemma subs_ok_tl: "subs_ok (k # ks) chans \<Longrightarrow> subs_ok ks chans"
  by (simp add: subs_ok_def)

lemma ep_inv_new [simp]: "ep_inv (newEndpoint cfg)"
  by (simp add: ep_inv_def newEndpoint_def make_chan_def)

subsection \<open>Dispatch\<close>

text \<open>What a dispatch does to the store of channels, and the frames it drops.\<close>

definition deliver_to :: "Frame \<Rightarrow> nat list \<Rightarrow> Frame chan list \<Rightarrow> Frame chan list" where
  "deliver_to frame ks chans =
     map (\<lambda>k. if k \<in> set ks then offered frame (chans ! k) else chans ! k) [0..<length chans]"

definition full_count :: "nat list \<Rightarrow> Frame chan list \<Rightarrow> nat" where
  "full_count ks chans = length (filter (\<lambda>k. \<not> chan_room (chans ! k)) ks)"

lemma length_deliver_to [simp]: "length (deliver_to frame ks chans) = length chans"
  by (simp add: deliver_to_def)

lemma nth_deliver_to:
  "k < length chans \<Longrightarrow>
   deliver_to frame ks chans ! k = (if k \<in> set ks then offered frame (chans ! k) else chans ! k)"
  by (simp add: deliver_to_def)

lemma deliver_to_Nil [simp]: "deliver_to frame [] chans = chans"
  by (simp add: deliver_to_def map_nth)

lemma deliver_to_Cons:
  assumes "k \<notin> set ks"
  shows "deliver_to frame ks (chans[k := offered frame (chans ! k)])
       = deliver_to frame (k # ks) chans"
  using assms by (intro nth_equalityI) (auto simp: nth_deliver_to nth_update_if)

lemma full_count_other:
  "k \<notin> set ks \<Longrightarrow> full_count ks (chans[k := ch]) = full_count ks chans"
proof -
  assume "k \<notin> set ks"
  then have "filter (\<lambda>j. \<not> chan_room (chans[k := ch] ! j)) ks = filter (\<lambda>j. \<not> chan_room (chans ! j)) ks"
    by (intro filter_cong) (auto simp: nth_update_if)
  then show ?thesis by (simp add: full_count_def)
qed

lemma full_count_Cons:
  "full_count (k # ks) chans = (if chan_room (chans ! k) then 0 else 1) + full_count ks chans"
  by (simp add: full_count_def)

lemma dispatch_loop_live:
  assumes "subs_ok ks (ep_chans e)"
  shows "dispatch_loop CtxLive pick frame ks e =
     Some (e\<lparr>ep_chans := deliver_to frame ks (ep_chans e),
             ep_dropped := ep_dropped e + word_of_nat (full_count ks (ep_chans e))\<rparr>, None)"
  using assms
proof (induction ks arbitrary: e)
  case Nil
  then show ?case by (simp add: full_count_def)
next
  case (Cons k ks)
  let ?ch = "ep_chans e ! k" and ?e' = "e\<lparr>ep_chans := (ep_chans e)[k := offered frame (ep_chans e ! k)]\<rparr>"
  have k: "k \<notin> set ks" and op: "\<not> ch_closed ?ch"
    using Cons.prems by (auto simp: subs_ok_def)
  have ok: "subs_ok ks ((ep_chans e)[k := offered frame ?ch])"
    using Cons.prems by (simp add: subs_ok_update subs_ok_tl)
  note send = try_send_offered [OF op, of frame]
  show ?case
  proof (cases "chan_room ?ch")
    case True
    then show ?thesis
      using send Cons.IH [of ?e'] ok k
      by (simp add: deliver_to_Cons full_count_other full_count_Cons)
  next
    case False
    then have "(ep_chans e)[k := offered frame ?ch] = ep_chans e"
      by (simp add: offered_full)
    then show ?thesis
      using send False Cons.IH [of "e\<lparr>ep_dropped := ep_dropped e + 1\<rparr>"] ok k
        deliver_to_Cons [OF k, of frame "ep_chans e"]
      by (simp add: full_count_Cons add.assoc)
  qed
qed

lemma dispatch_loop_total:
  assumes "subs_ok ks (ep_chans e)" and "subs_ok ss (ep_chans e)"
  shows "\<exists>e' r. dispatch_loop c pick frame ks e = Some (e', r) \<and> ep_subs e' = ep_subs e \<and>
     ep_opened e' = ep_opened e \<and> ep_closed e' = ep_closed e \<and> ep_errors e' = ep_errors e \<and>
     ep_cfg e' = ep_cfg e \<and> subs_ok ss (ep_chans e')"
  using assms
proof (induction ks arbitrary: e)
  case Nil
  then show ?case by simp
next
  case (Cons k ks)
  let ?ch = "ep_chans e ! k" and ?e' = "e\<lparr>ep_chans := (ep_chans e)[k := offered frame (ep_chans e ! k)]\<rparr>"
  have op: "\<not> ch_closed ?ch" using Cons.prems by (auto simp: subs_ok_def)
  note send = try_send_offered [OF op, of frame]
  have 1: "subs_ok ks (ep_chans ?e')" "subs_ok ss (ep_chans ?e')"
    using Cons.prems by (simp_all add: subs_ok_update subs_ok_tl)
  have 2: "subs_ok ks (ep_chans (e\<lparr>ep_dropped := ep_dropped e + 1\<rparr>))"
    "subs_ok ss (ep_chans (e\<lparr>ep_dropped := ep_dropped e + 1\<rparr>))"
    using Cons.prems by (simp_all add: subs_ok_tl)
  show ?case
    using send op Cons.IH [OF 1] Cons.IH [OF 2] Cons.prems(2)
    by (cases "chan_room ?ch"; cases c; cases "pick k") auto
qed

lemma ep_dispatch_total:
  assumes "ep_inv e"
  shows "\<exists>e' r. ep_dispatch c pick frame e = Some (e', r) \<and> ep_inv e' \<and>
     ep_cfg e' = ep_cfg e \<and> ep_opened e' = ep_opened e"
  using assms dispatch_loop_total [of "ep_subs e" e "ep_subs e" c pick frame]
  by (cases "\<not> ep_opened e \<or> ep_closed e") (auto simp: ep_dispatch_def ep_inv_def)

lemma ep_dispatch_live:
  "ep_inv e \<Longrightarrow> ep_opened e \<Longrightarrow> ep_dispatch CtxLive pick frame e =
     Some (e\<lparr>ep_chans := deliver_to frame (ep_subs e) (ep_chans e),
             ep_dropped := ep_dropped e + word_of_nat (full_count (ep_subs e) (ep_chans e))\<rparr>, None)"
  by (auto simp: ep_dispatch_def ep_inv_def dispatch_loop_live)

subsection \<open>Every operation keeps the invariant\<close>

lemma ep_Open_inv: "ep_inv e \<Longrightarrow> ep_inv (fst (ep_Open c e))"
  by (auto simp: ep_Open_def ep_inv_def split: ctx.splits sum.splits)

lemma close_all_total:
  "subs_ok ks chans \<Longrightarrow> \<exists>chans'. close_all ks chans = Some chans' \<and> length chans' = length chans"
proof (induction ks arbitrary: chans)
  case Nil
  then show ?case by simp
next
  case (Cons k ks)
  let ?ch = "(chans ! k)\<lparr>ch_closed := True\<rparr>"
  have "subs_ok ks (chans[k := ?ch])"
    using Cons.prems by (intro subs_ok_other) (auto simp: subs_ok_def)
  then obtain chans' where "close_all ks (chans[k := ?ch]) = Some chans'" "length chans' = length chans"
    using Cons.IH [of "chans[k := ?ch]"] by auto
  then show ?case using Cons.prems by (simp add: close_chan_def subs_ok_def)
qed

lemma close_all_other:
  "close_all ks chans = Some chans' \<Longrightarrow> k \<notin> set ks \<Longrightarrow> chans' ! k = chans ! k"
proof (induction ks arbitrary: chans)
  case Nil
  then show ?case by simp
next
  case (Cons c cs)
  then have "close_all cs (chans[c := (chans ! c)\<lparr>ch_closed := True\<rparr>]) = Some chans'"
    by (simp add: close_chan_def split: if_splits)
  from Cons.IH [OF this] Cons.prems(2) show ?case by simp
qed

lemma close_all_closes:
  assumes "subs_ok ks chans"
  shows "\<exists>chans'. close_all ks chans = Some chans' \<and>
    (\<forall>k \<in> set ks. ch_closed (chans' ! k) \<and> ch_buf (chans' ! k) = ch_buf (chans ! k))"
  using assms
proof (induction ks arbitrary: chans)
  case Nil
  then show ?case by simp
next
  case (Cons k ks)
  let ?chans = "chans[k := (chans ! k)\<lparr>ch_closed := True\<rparr>]"
  have k: "k \<notin> set ks" "k < length chans" "\<not> ch_closed (chans ! k)"
    using Cons.prems by (auto simp: subs_ok_def)
  have "subs_ok ks ?chans" by (rule subs_ok_other [OF subs_ok_tl [OF Cons.prems] k(1)])
  then obtain chans' where c: "close_all ks ?chans = Some chans'"
    "\<forall>j \<in> set ks. ch_closed (chans' ! j) \<and> ch_buf (chans' ! j) = ch_buf (?chans ! j)"
    using Cons.IH [of ?chans] by blast
  have "chans' ! k = ?chans ! k" by (rule close_all_other [OF c(1) k(1)])
  then show ?case
    using c k by (auto simp: close_chan_def nth_update_if split: if_splits)
qed

lemma ep_Close_total: "ep_inv e \<Longrightarrow> \<exists>e'. ep_Close e = Some e' \<and> ep_inv e' \<and> ep_closed e'"
  using close_all_total [of "ep_subs e" "ep_chans e"]
  by (auto simp: ep_Close_def ep_inv_def close_chan_def)

lemma ep_Send_total:
  assumes "ep_inv e" "ep_inv p"
  shows "\<exists>e' p' r. ep_Send c c' pick frame (e, Some p) = Some ((e', Some p'), r) \<and> ep_inv e' \<and> ep_inv p'"
proof -
  let ?fr = "frame\<lparr>f_Direction := Receive\<rparr>" and ?e1 = "e\<lparr>ep_frames := ep_frames e + 1\<rparr>"
  obtain p' r where p: "ep_dispatch c' pick ?fr p = Some (p', r)" "ep_inv p'"
    using ep_dispatch_total [OF assms(2), of c' pick ?fr] by blast
  have "ep_inv ?e1" using assms(1) by (simp add: ep_inv_def)
  then obtain e2 r2 where "ep_dispatch c' pick (frame\<lparr>f_Direction := Transmit\<rparr>) ?e1 = Some (e2, r2)"
      "ep_inv e2"
    using ep_dispatch_total [of ?e1 c' pick "frame\<lparr>f_Direction := Transmit\<rparr>"] by blast
  then show ?thesis
    using p assms \<open>ep_inv ?e1\<close>
    by (auto simp: ep_Send_def Let_def split: ctx.splits sum.splits option.splits)
qed

lemma ep_Subscribe_inv: "ep_inv e \<Longrightarrow> ep_inv (fst (ep_Subscribe n e))"
  by (auto simp: ep_Subscribe_def ep_inv_def subs_ok_def make_chan_def Let_def nth_append)

lemma ep_unsubscribe_total: "ep_inv e \<Longrightarrow> \<exists>e'. ep_unsubscribe k e = Some e' \<and> ep_inv e'"
  by (auto simp: ep_unsubscribe_def ep_inv_def subs_ok_def close_chan_def)

lemma ep_recv_inv: "ep_inv e \<Longrightarrow> ep_inv (snd (ep_recv k e))"
  by (auto simp: ep_recv_def ep_inv_def chan_recv_def intro!: subs_ok_update
      split: prod.splits list.splits if_splits)

lemma link_inv_orient: "ep_inv e \<Longrightarrow> ep_inv p \<Longrightarrow> link_inv (orient s (e, p))"
  by (cases s) (simp_all add: link_inv_def)

lemma link_step_inv:
  assumes "link_inv l"
  shows "\<exists>l'. link_step x l = Some l' \<and> link_inv l'"
proof -
  have inv: "ep_inv (fst (orient s l)) \<and> ep_inv (snd (orient s l))" for s
    using assms by (cases s; cases l) (simp_all add: link_inv_def)
  note unfold = case_prod_unfold link_inv_orient
  show ?thesis
  proof (cases x)
    case (LOpen s c)
    then show ?thesis using inv [of s] by (simp add: unfold ep_Open_inv del: split_paired_Ex)
  next
    case (LClose s)
    then show ?thesis using inv [of s] ep_Close_total [of "fst (orient s l)"]
      by (auto simp: unfold simp del: split_paired_Ex)
  next
    case (LSend s c c' pick frame)
    then show ?thesis
      using inv [of s] ep_Send_total [of "fst (orient s l)" "snd (orient s l)" c c' pick frame]
      by (auto simp: unfold simp del: split_paired_Ex)
  next
    case (LSubscribe s n)
    then show ?thesis using inv [of s] by (simp add: unfold ep_Subscribe_inv del: split_paired_Ex)
  next
    case (LUnsubscribe s k)
    then show ?thesis using inv [of s] ep_unsubscribe_total [of "fst (orient s l)" k]
      by (auto simp: unfold simp del: split_paired_Ex)
  next
    case (LRecv s k)
    then show ?thesis using inv [of s] assms
      by (simp add: unfold ep_recv_inv del: split_paired_Ex)
  qed
qed

lemma link_run_inv: "link_inv l \<Longrightarrow> \<exists>l'. link_run xs l = Some l' \<and> link_inv l'"
proof (induction xs arbitrary: l)
  case Nil
  then show ?case by simp
next
  case (Cons x xs)
  then show ?case using link_step_inv [OF Cons.prems, of x] by auto
qed

section \<open>Properties\<close>

text \<open>C26: no sequence of Open, Close, Send, Subscribe, unsubscribe and receive operations on the
  two endpoints of a link, with any contexts and any order of the subscriber map, ends in a panic
  (a send on a closed channel or a second close).\<close>

theorem link_never_panics:
  "\<exists>l. link_run ops (Pair_endpoints cfg) = Some l \<and> link_inv l"
  by (rule link_run_inv) (simp add: Pair_endpoints_def link_inv_def)

text \<open>C27: with a live context, sending a valid frame on an open link succeeds, appends the frame,
  marked as received, to every subscription of the peer that has room, counts one dropped frame
  for every other one, and touches no other channel; with the echo off the sender only counts
  the frame.\<close>

theorem Send_delivers:
  assumes "ep_inv e" "ep_inv p" "ep_opened e" "ep_opened p"
    and "Frame_Validate frame = Inr ()" "cfg_Mode (ep_cfg e) = Classic \<longrightarrow> \<not> f_FD frame"
    and "\<not> cfg_IncludeTxEcho (ep_cfg e)"
  shows "ep_Send CtxLive CtxLive pick frame (e, Some p) =
    Some ((e\<lparr>ep_frames := ep_frames e + 1\<rparr>,
           Some (p\<lparr>ep_chans := deliver_to (frame\<lparr>f_Direction := Receive\<rparr>) (ep_subs p) (ep_chans p),
                   ep_dropped := ep_dropped p + word_of_nat (full_count (ep_subs p) (ep_chans p))\<rparr>)),
          None)"
proof -
  have "\<not> ep_closed e" using assms(1,3) by (auto simp: ep_inv_def)
  then show ?thesis
    using assms ep_dispatch_live [OF assms(2,4), of pick "frame\<lparr>f_Direction := Receive\<rparr>"]
    by (auto simp: ep_Send_def Let_def)
qed

theorem Send_delivers_witness:
  "let e = fst (ep_Open CtxLive (newEndpoint (DefaultConfig Classic 0)));
       p = fst (ep_Subscribe 4 e);
       frame = built_frame 5 [1, 2] \<lparr>fl_FD = False, fl_BRS = False, fl_Extended = False\<rparr>
   in case ep_Send CtxLive CtxLive (\<lambda>_. False) frame (e, Some p) of
        Some ((e', Some p'), None) \<Rightarrow>
          map ch_buf (ep_chans p') = [[frame\<lparr>f_Direction := Receive\<rparr>]] \<and> ep_frames e' = 1
      | _ \<Rightarrow> False"
proof -
  let ?e = "fst (ep_Open CtxLive (newEndpoint (DefaultConfig Classic 0)))"
  let ?fl = "\<lparr>fl_FD = False, fl_BRS = False, fl_Extended = False\<rparr>"
  have n: "Normalized (DefaultConfig Classic 0) = Inr (DefaultConfig Classic 0)"
    by (simp add: Normalized_def DefaultConfig_def FD_def Classic_def timing_validate_def
        timing_IsZero_def fill_defaults_def Let_def Millisecond_def Microsecond_def)
  have c: "cfg_RxBufferSize (DefaultConfig Classic 0) = 1024" "cfg_Mode (DefaultConfig Classic 0) = Classic"
    "\<not> cfg_IncludeTxEcho (DefaultConfig Classic 0)"
    by (simp_all add: DefaultConfig_def)
  have e: "?e = (newEndpoint (DefaultConfig Classic 0))\<lparr>ep_opened := True\<rparr>"
    using n c by (simp add: ep_Open_def newEndpoint_def)
  let ?p = "fst (ep_Subscribe 4 ?e)"
  have E: "ep_opened ?e" "\<not> ep_closed ?e" "ep_cfg ?e = DefaultConfig Classic 0" "ep_subs ?e = []"
    "ep_chans ?e = []" "ep_frames ?e = 0"
    unfolding e by (simp_all add: newEndpoint_def c)
  have P: "ep_opened ?p" "ep_subs ?p = [0]" "ep_chans ?p = [make_chan 4]"
    by (simp_all add: ep_Subscribe_def Let_def E)
  have i: "ep_inv ?e" "ep_inv ?p" by (simp_all add: ep_Open_inv ep_Subscribe_inv)
  have v: "Frame_Validate (built_frame 5 [1, 2] ?fl) = Inr ()"
    by (rule built_frame_Validate) (simp add: frame_limits_ok_def)
  have "\<not> f_FD (built_frame 5 [1, 2] ?fl)" by (simp add: built_frame_def)
  from Send_delivers [OF i E(1) P(1) v, of "\<lambda>_. False"] this show ?thesis
    by (simp add: E P c Let_def make_chan_def deliver_to_def offered_def chan_room_def)
qed

text \<open>Close is terminal. It closes every subscription, which keeps its unread frames, and the
  error channel; afterwards a second Close changes nothing, and Open, Send and Subscribe fail.\<close>

theorem Close_terminal:
  assumes "ep_inv e" "\<not> ep_closed e"
  shows "\<exists>e'. ep_Close e = Some e' \<and> ep_Close e' = Some e' \<and> ep_subs e' = [] \<and>
    (\<forall>k \<in> set (ep_subs e). ch_closed (ep_chans e' ! k) \<and>
       ch_buf (ep_chans e' ! k) = ch_buf (ep_chans e ! k)) \<and>
    ch_closed (ep_errors e') \<and>
    ep_Open CtxLive e' = (e', Some EndpointClosed) \<and>
    snd (snd (ep_Subscribe n e')) = Some ErrNotOpen \<and>
    (Frame_Validate frame = Inr () \<longrightarrow>
       ep_Send CtxLive CtxLive pick frame (e', Some p) = Some ((e', Some p), Some ErrNotOpen))"
proof -
  obtain chans where c: "close_all (ep_subs e) (ep_chans e) = Some chans"
    "\<forall>k \<in> set (ep_subs e). ch_closed (chans ! k) \<and> ch_buf (chans ! k) = ch_buf (ep_chans e ! k)"
    using close_all_closes [of "ep_subs e" "ep_chans e"] assms(1) by (auto simp: ep_inv_def)
  then show ?thesis
    using assms
    by (simp add: ep_Close_def ep_inv_def close_chan_def ep_Open_def ep_Subscribe_def ep_Send_def Let_def)
qed

theorem Close_terminal_witness:
  "\<exists>e'. ep_Close (newEndpoint (DefaultConfig Classic 0)) = Some e' \<and>
     ep_Open CtxLive e' = (e', Some EndpointClosed)"
proof -
  have "\<not> ep_closed (newEndpoint (DefaultConfig Classic 0))" by (simp add: newEndpoint_def)
  from Close_terminal [OF ep_inv_new this] show ?thesis by blast
qed

end
