(* ===== verification/Tsmaster_Life.thy ===== *)
theory Tsmaster_Life
  imports Bus_Device Tsmaster_Driver Memory_Bus
begin

text \<open>
  How TSMaster opens and closes: \<open>initialize\<close>, \<open>start\<close> and \<open>stop\<close> of tsmaster.go in the order of the
  calls: the mapping is checked, the channels are made, the library is loaded and initialised, the
  device is looked up and mapped to the application channel, connected, and its statistics and
  receive queue are enabled. The DLL path in the registry and the DLL directory are left out.
\<close>

record TSMasterMapping =
  mp_ApplicationChannel :: u8
  mp_HardwareIndex :: int
  mp_HardwareChannel :: u8

definition defaultTSMasterMapping :: "u8 \<Rightarrow> TSMasterMapping" where
  "defaultTSMasterMapping hardwareChannel =
     \<lparr>mp_ApplicationChannel = 0, mp_HardwareIndex = 0, mp_HardwareChannel = hardwareChannel\<rparr>"

record tsmaster_dev = runtime +
  sd_CANChannel :: u8
  sd_mapping :: TSMasterMapping
  sd_deviceType :: int
  sd_isConnected :: bool
  sd_busStatisticsEnabled :: bool
  sd_enableProc :: bool
  sd_getProc :: bool

text \<open>\<open>sd_enableProc\<close> and \<open>sd_getProc\<close> say that the procedures for the statistics are not nil.\<close>

definition newTSMaster :: "Config \<Rightarrow> int \<Rightarrow> TSMasterMapping option \<Rightarrow> tsmaster_dev" where
  "newTSMaster cfg deviceType mapping =
     (let m = (case mapping of None \<Rightarrow> defaultTSMasterMapping (cfg_Channel cfg) | Some m \<Rightarrow> m)
      in \<lparr>rt_cfg = cfg\<lparr>cfg_Channel := mp_HardwareChannel m\<rparr>, rt_canType = cfg_Mode cfg,
          rt_initialized = False, rt_running = False, rt_cancel = None, rt_rxChan = None,
          rt_fanout = None, rt_dll = None, rt_held = {}, rt_faults = {},
          sd_CANChannel = mp_HardwareChannel m, sd_mapping = m, sd_deviceType = deviceType,
          sd_isConnected = False, sd_busStatisticsEnabled = False, sd_enableProc = False,
          sd_getProc = False\<rparr>)"

section \<open>Closing\<close>

text \<open>
  Switching the statistics off and disconnecting, as far as they were reached. \<open>cleanup\<close> resets the
  flags at its end and \<open>stop\<close> as it goes, with the same result.
\<close>

definition tsmaster_disconnect :: "tsmaster_dev \<Rightarrow> tsmaster_dev option" where
  "tsmaster_disconnect t =
     do { t \<leftarrow> (if sd_busStatisticsEnabled t \<and> sd_enableProc t
               then do { _ \<leftarrow> proc_run t ''tsapp_enable_bus_statistics'';
                         Some (release ResStatistics (t\<lparr>sd_busStatisticsEnabled := False\<rparr>)) }
               else Some t);
          _ \<leftarrow> proc_run t ''tsapp_disconnect'';
          Some (release ResDevice (t\<lparr>sd_isConnected := False\<rparr>)) }"

definition tsmaster_forget :: "tsmaster_dev \<Rightarrow> tsmaster_dev" where
  "tsmaster_forget t = t\<lparr>rt_dll := None, sd_enableProc := False, sd_getProc := False\<rparr>"

definition tsmaster_cleanup :: "tsmaster_dev \<Rightarrow> (bool \<times> tsmaster_dev) option" where
  "tsmaster_cleanup t =
     do { t \<leftarrow> (if rt_cancel t \<noteq> None then call_cancel t else Some t);
          t \<leftarrow> (if rt_dll t \<noteq> None \<and> sd_isConnected t then tsmaster_disconnect t else Some t);
          t \<leftarrow> drop_fanout (tsmaster_forget t);
          t \<leftarrow> drop_rxChan t;
          Some (False, t\<lparr>sd_isConnected := False, sd_busStatisticsEnabled := False\<rparr>) }"

section \<open>Opening\<close>

text \<open>\<open>loadStatisticsProc\<close> looks a procedure up before it is called.\<close>

definition tsmaster_load :: "dll_env \<Rightarrow> tsmaster_dev \<Rightarrow> bool \<times> tsmaster_dev" where
  "tsmaster_load e t =
     (if \<not> de_loads e ''TSMaster.dll'' then (False, t\<lparr>rt_dll := None\<rparr>)
      else let t = t\<lparr>rt_dll := Some (de_exports e)\<rparr> in
        if \<not> has_proc t ''tsapp_enable_bus_statistics'' then (False, t\<lparr>sd_enableProc := False\<rparr>)
        else let t = t\<lparr>sd_enableProc := True\<rparr> in
          if \<not> has_proc t ''tsapp_get_bus_statistics'' then (False, t\<lparr>sd_getProc := False\<rparr>)
          else (True, t\<lparr>sd_getProc := True\<rparr>))"

text \<open>The calls up to \<open>tsapp_connect\<close>; the reply says whether the device is connected.\<close>

definition tsmaster_map :: "dll_env \<Rightarrow> tsmaster_dev \<Rightarrow> bool option" where
  "tsmaster_map e t =
     do { good \<leftarrow> proc_call e t ''initialize_lib_tsmaster'';
          if \<not> good then Some False
          else do { good \<leftarrow> proc_call e t ''tsapp_enumerate_hw_devices'';
            let findDevice = de_value e ''tsapp_enumerate_hw_devices'' in
            if \<not> good \<or> findDevice \<le> 0 \<or> mp_HardwareIndex (sd_mapping t) \<ge> findDevice then Some False
            else do { _ \<leftarrow> proc_run t ''tsapp_show_tsmaster_window'';
              good \<leftarrow> proc_call e t ''tsapp_set_can_channel_count'';
              if \<not> good \<or> deviceNameFromType tsMasterNames (sd_deviceType t) = None then Some False
              else do { good \<leftarrow> proc_call e t ''tsapp_set_mapping_verbose'';
                if \<not> good then Some False
                else do { good \<leftarrow> proc_call e t (if rt_canType t = FD
                            then ''tsapp_configure_baudrate_canfd'' else ''tsapp_configure_baudrate_can'');
                  if \<not> good then Some False else proc_call e t ''tsapp_connect'' } } } } }"

definition tsmaster_connected :: "dll_env \<Rightarrow> tsmaster_dev \<Rightarrow> (bool \<times> tsmaster_dev) option" where
  "tsmaster_connected e t =
     (let t = acquire ResDevice (t\<lparr>sd_isConnected := True\<rparr>)
      in do { good \<leftarrow> proc_call e t ''tsapp_enable_bus_statistics'';
              if \<not> good then tsmaster_cleanup t
              else let t = acquire ResStatistics (t\<lparr>sd_busStatisticsEnabled := True\<rparr>) in
                if \<not> has_proc t ''tsfifo_enable_receive_fifo'' then tsmaster_cleanup t
                else do { _ \<leftarrow> proc_run t ''tsfifo_enable_receive_fifo'';
                          Some (True, markInitialized t) } })"

definition tsmaster_initialize :: "dll_env \<Rightarrow> tsmaster_dev \<Rightarrow> (bool \<times> tsmaster_dev) option" where
  "tsmaster_initialize e t =
     (if rt_initialized t then Some (True, t)
      else case Normalized (rt_cfg t) of
        Inl err \<Rightarrow> Some (False, t)
      | Inr cfg \<Rightarrow>
        (let hardware = mp_HardwareChannel (sd_mapping t);
             t = t\<lparr>rt_cfg := cfg\<lparr>cfg_Channel := hardware\<rparr>, rt_canType := cfg_Mode cfg,
                   sd_CANChannel := hardware\<rparr>
         in if mp_ApplicationChannel (sd_mapping t) \<ge> 32 \<or> mp_HardwareIndex (sd_mapping t) < 0
            then Some (False, t)
            else (case tsmaster_load e (prepare_runtime t) of (good, t) \<Rightarrow>
                if \<not> good then tsmaster_cleanup t
                else do { good \<leftarrow> tsmaster_map e t;
                          if \<not> good then tsmaster_cleanup t else tsmaster_connected e t })))"

definition tsmaster_start :: "tsmaster_dev \<Rightarrow> (bool \<times> tsmaster_dev) option" where
  "tsmaster_start t =
     Some (if \<not> rt_initialized t \<or> \<not> sd_isConnected t then (False, t) else (True, lifecycle_start t))"

definition tsmaster_stop :: "tsmaster_dev \<Rightarrow> tsmaster_dev option" where
  "tsmaster_stop t =
     do { (wasInitialized, t) \<leftarrow> cancelAndWait t;
          t \<leftarrow> drop_fanout t;
          t \<leftarrow> (if wasInitialized \<and> rt_dll t \<noteq> None \<and> sd_isConnected t then tsmaster_disconnect t
               else Some t);
          drop_rxChan (tsmaster_forget t) }"

definition tsmaster_device :: "tsmaster_dev device" where
  "tsmaster_device = \<lparr>dv_initialize = tsmaster_initialize, dv_start = tsmaster_start,
     dv_stop = tsmaster_stop,
     dv_write = (\<lambda>e t f. w_error (tsmaster_write (\<lambda>m. de_accepts e)
       \<lparr>ts_initialized = rt_initialized t, ts_ApplicationChannel = mp_ApplicationChannel (sd_mapping t),
        ts_cfg = rt_cfg t\<rparr> f)),
     dv_subscribable = (\<lambda>t. rt_fanout t \<noteq> None), dv_isFD = (\<lambda>t. rt_canType t = FD),
     dv_config = rt_cfg, dv_setBRS = (\<lambda>b t. t\<lparr>rt_cfg := (rt_cfg t)\<lparr>cfg_BRS := b\<rparr>\<rparr>)\<rparr>"

section \<open>Native bus load\<close>

text \<open>
  The load the library reports, in per cent: a \<open>float64\<close>, which may be infinite or not a number. Finite
  values are exact rationals here; the rounding of the quotient is not modelled.
\<close>

datatype float_value = NaN | Infinite | Finite rat

definition normalizeTSMasterBusLoad :: "float_value \<Rightarrow> rat" where
  "normalizeTSMasterBusLoad percent =
     (case percent of
        NaN \<Rightarrow> 0
      | Infinite \<Rightarrow> 0
      | Finite x \<Rightarrow> if x \<le> 0 then 0 else if x \<ge> 100 then 1 else x / 100)"

lemma normalized_load_range: "0 \<le> normalizeTSMasterBusLoad x \<and> normalizeTSMasterBusLoad x \<le> 1"
  by (cases x) (auto simp: normalizeTSMasterBusLoad_def)

text \<open>\<open>busLoad\<close>, given the status and the value of \<open>tsapp_get_bus_statistics\<close>; the report of a failed call is left out.\<close>

definition tsmaster_busLoad :: "(bool \<times> float_value) \<Rightarrow> tsmaster_dev \<Rightarrow> BusLoad option" where
  "tsmaster_busLoad reply t =
     (let info = \<lparr>bl_Load = 0, bl_Window = Second, bl_NominalBitrate = cfg_NominalBitrate (rt_cfg t),
            bl_DataBitrate = cfg_DataBitrate (rt_cfg t), bl_FrameCount = 0\<rparr>
      in if \<not> rt_initialized t \<or> \<not> sd_isConnected t \<or> \<not> sd_busStatisticsEnabled t \<or> \<not> sd_getProc t
         then Some info
         else do { _ \<leftarrow> proc_run t ''tsapp_get_bus_statistics'';
                   Some (if fst reply then info\<lparr>bl_Load := normalizeTSMasterBusLoad (snd reply)\<rparr> else info) })"

section \<open>The contract\<close>

text \<open>The procedures that are called without being looked up first.\<close>

definition tsmaster_procs :: "string list" where
  "tsmaster_procs = [''initialize_lib_tsmaster'', ''tsapp_enumerate_hw_devices'',
     ''tsapp_show_tsmaster_window'', ''tsapp_set_can_channel_count'', ''tsapp_set_mapping_verbose'',
     ''tsapp_configure_baudrate_canfd'', ''tsapp_configure_baudrate_can'', ''tsapp_connect'',
     ''tsapp_disconnect'', ''tsfifo_receive_canfd_msgs'', ''tsapp_transmit_canfd_async'']"

definition tsmaster_dll :: "dll_env \<Rightarrow> bool" where
  "tsmaster_dll e \<longleftrightarrow> list_all (de_exports e) tsmaster_procs"

definition tsmaster_ok :: "tsmaster_dev \<Rightarrow> bool" where
  "tsmaster_ok t \<longleftrightarrow> runtime_ok {ResDevice, ResStatistics} {} tsmaster_procs t \<and>
     sd_isConnected t = rt_initialized t \<and> sd_busStatisticsEnabled t = rt_initialized t \<and>
     (rt_initialized t \<longrightarrow> sd_enableProc t \<and> has_proc t ''tsapp_enable_bus_statistics'')"

definition tsmaster_prepared :: "tsmaster_dev \<Rightarrow> bool" where
  "tsmaster_prepared t \<longleftrightarrow>
     runtime_prepared ((if sd_isConnected t then {ResDevice} else {}) \<union>
       (if sd_busStatisticsEnabled t then {ResStatistics} else {})) {} tsmaster_procs t \<and>
     (sd_busStatisticsEnabled t \<longrightarrow> sd_isConnected t) \<and>
     (sd_isConnected t \<longrightarrow> rt_dll t \<noteq> None \<and> sd_enableProc t \<and> has_proc t ''tsapp_enable_bus_statistics'')"

lemma tsmaster_cleanup_ok: "tsmaster_prepared t \<Longrightarrow>
   returns (tsmaster_cleanup t) (\<lambda>(b, t'). \<not> b \<and> tsmaster_ok t' \<and> \<not> rt_initialized t')"
  by (cases "sd_isConnected t"; cases "sd_busStatisticsEnabled t"; cases "rt_dll t")
    (auto simp: tsmaster_cleanup_def tsmaster_disconnect_def tsmaster_forget_def life_defs
      tsmaster_prepared_def tsmaster_ok_def runtime_ok_def runtime_prepared_def tsmaster_procs_def)

lemma tsmaster_map_returns:
  assumes "dll_ok tsmaster_procs t" "rt_dll t \<noteq> None"
  shows "\<exists>b. tsmaster_map e t = Some b"
proof -
  have "proc_call e t x = Some (de_ok e x)" "proc_run t x = Some ()" if "x \<in> set tsmaster_procs" for x
    using that assms by (auto simp: proc_call_def proc_run_def has_proc_def dll_ok_def list_all_iff)
  then have "returns (tsmaster_map e t) (\<lambda>_. True)"
    by (simp add: tsmaster_map_def tsmaster_procs_def Let_def)
  then show ?thesis by (auto simp: returns_def)
qed

lemma tsmaster_connected_ok:
  assumes "tsmaster_prepared t" "\<not> sd_isConnected t" "sd_enableProc t"
    "has_proc t ''tsapp_enable_bus_statistics''"
  shows "returns (tsmaster_connected e t) (\<lambda>(b, t'). tsmaster_ok t' \<and> b = rt_initialized t')"
proof -
  let ?t = "acquire ResDevice (t\<lparr>sd_isConnected := True\<rparr>)"
  let ?u = "acquire ResStatistics (?t\<lparr>sd_busStatisticsEnabled := True\<rparr>)"
  have dll: "rt_dll t \<noteq> None" using assms(4) by (cases "rt_dll t") (auto simp: has_proc_def)
  have t: "tsmaster_prepared ?t" and u: "tsmaster_prepared ?u"
    and opened: "tsmaster_ok (markInitialized ?u)"
    using assms dll by (auto simp: tsmaster_prepared_def runtime_prepared_def acquire_def dll_ok_def
        has_proc_def tsmaster_ok_def runtime_ok_def markInitialized_def)
  have "proc_call e ?t ''tsapp_enable_bus_statistics'' = Some (de_ok e ''tsapp_enable_bus_statistics'')"
    using assms(4) by (simp add: proc_call_def has_proc_def acquire_def)
  then show ?thesis
    unfolding tsmaster_connected_def Let_def
    using tsmaster_cleanup_ok [OF t] tsmaster_cleanup_ok [OF u] opened
    by (auto simp: proc_run_def markInitialized_def elim!: returns_mono)
qed

lemma tsmaster_initialize_ok:
  assumes "tsmaster_ok t" "tsmaster_dll e"
  shows "returns (tsmaster_initialize e t)
    (\<lambda>(b, t'). tsmaster_ok t' \<and> b = rt_initialized t' \<and> (rt_initialized t \<longrightarrow> t' = t))"
proof (cases "rt_initialized t")
  case True
  then show ?thesis using assms(1) by (simp add: tsmaster_initialize_def)
next
  case False
  show ?thesis
  proof (cases "Normalized (rt_cfg t)")
    case (Inl err)
    then show ?thesis using assms(1) False by (simp add: tsmaster_initialize_def)
  next
    case (Inr cfg)
    let ?h = "mp_HardwareChannel (sd_mapping t)"
    let ?t = "t\<lparr>rt_cfg := cfg\<lparr>cfg_Channel := ?h\<rparr>, rt_canType := cfg_Mode cfg, sd_CANChannel := ?h\<rparr>"
    have t: "tsmaster_ok ?t" "\<not> rt_initialized ?t"
      using assms(1) False by (auto simp: tsmaster_ok_def runtime_ok_def dll_ok_def has_proc_def)
    obtain b u where load: "tsmaster_load e (prepare_runtime ?t) = (b, u)" by fastforce
    have u: "tsmaster_prepared u" "\<not> sd_isConnected u" "dll_ok tsmaster_procs u"
      "b \<longrightarrow> sd_enableProc u \<and> has_proc u ''tsapp_enable_bus_statistics'' \<and> rt_dll u \<noteq> None"
      using load t assms(2)
      by (auto simp: tsmaster_load_def tsmaster_prepared_def tsmaster_ok_def runtime_ok_def
          runtime_prepared_def prepare_runtime_def acquire_def dll_ok_def tsmaster_dll_def has_proc_def
          Let_def split: if_splits)
    show ?thesis
      using t u tsmaster_cleanup_ok [OF u(1)] tsmaster_connected_ok [OF u(1,2)]
        tsmaster_map_returns [OF u(3), of e] False
      by (auto simp: tsmaster_initialize_def Inr load Let_def elim!: returns_mono)
  qed
qed

lemma tsmaster_start_ok: "tsmaster_ok t \<Longrightarrow> returns (tsmaster_start t)
   (\<lambda>(b, t'). tsmaster_ok t' \<and> b = rt_initialized t \<and> rt_initialized t' = rt_initialized t)"
  by (auto simp: tsmaster_start_def lifecycle_start_def acquire_def tsmaster_ok_def
      runtime_ok_def dll_ok_def has_proc_def split: if_splits)

lemma tsmaster_stop_ok:
  assumes "tsmaster_ok t"
  shows "returns (tsmaster_stop t) (\<lambda>t'. tsmaster_ok t' \<and> \<not> rt_initialized t' \<and> rt_cfg t' = rt_cfg t)"
proof -
  have ok: "runtime_ok {ResDevice, ResStatistics} {} tsmaster_procs t"
    using assms by (simp add: tsmaster_ok_def)
  show ?thesis
  proof (cases "rt_initialized t")
    case True
    obtain api where api: "rt_dll t = Some api" "api ''tsapp_disconnect''"
      "api ''tsapp_enable_bus_statistics''"
      using ok assms True
      by (auto simp: runtime_ok_def dll_ok_def tsmaster_procs_def tsmaster_ok_def has_proc_def)
    have "sd_isConnected t" "sd_busStatisticsEnabled t" "sd_enableProc t" "rt_faults t = {}"
      "rt_rxChan t = Some True"
      using ok assms True by (simp_all add: tsmaster_ok_def runtime_ok_def)
    then show ?thesis
      unfolding tsmaster_stop_def stop_live [OF ok True, simplified]
      by (simp add: api stopped_def drop_rxChan_def close_rxChan_def release_def dll_ok_def has_proc_def
          proc_run_def tsmaster_ok_def runtime_ok_def tsmaster_disconnect_def tsmaster_forget_def
          insert_Diff_if)
  next
    case False
    have "tsmaster_ok (tsmaster_forget t)" "rt_rxChan (tsmaster_forget t) = None"
      "\<not> rt_initialized (tsmaster_forget t)" "rt_cfg (tsmaster_forget t) = rt_cfg t"
      using assms False by (auto simp: tsmaster_forget_def tsmaster_ok_def runtime_ok_def dll_ok_def)
    then show ?thesis unfolding tsmaster_stop_def stop_closed [OF ok False]
      by (simp add: drop_rxChan_def)
  qed
qed

lemma tsmaster_write_refuses: "w_error (tsmaster_write dll
     \<lparr>ts_initialized = i, ts_ApplicationChannel = c, ts_cfg = cfg\<rparr> f) = Some DriverNotOpen \<longleftrightarrow> \<not> i"
  by (auto simp: tsmaster_write_def refuse_def transmit_def Let_def)

interpretation tsmaster: bus_device tsmaster_device tsmaster_ok rt_initialized rt_held rt_faults tsmaster_dll
proof unfold_locales
  fix t :: tsmaster_dev and e err
  assume "\<not> rt_initialized t" "Normalized (dv_config tsmaster_device t) = Inl err"
  then show "dv_initialize tsmaster_device e t = Some (False, t)"
    by (simp add: tsmaster_device_def tsmaster_initialize_def)
qed (use tsmaster_initialize_ok tsmaster_start_ok tsmaster_stop_ok in \<open>auto simp: tsmaster_device_def
      tsmaster_write_refuses tsmaster_ok_def runtime_ok_def dll_ok_def has_proc_def split: if_splits\<close>)

lemma newTSMaster_ok:
  "tsmaster_ok (newTSMaster cfg t m)" "\<not> rt_initialized (newTSMaster cfg t m)"
  by (simp_all add: tsmaster_ok_def runtime_ok_def newTSMaster_def dll_ok_def Let_def)

end
