(* ===== verification/Vector_Driver.thy ===== *)
theory Vector_Driver
  imports Driver_Common
begin

text \<open>
  vector.go, the part that talks CAN: constants, the event structures of vxlapi, \<open>write\<close> and the two
  receive steps \<open>readOneCanFD\<close> and \<open>readOneCAN\<close>. Loading the DLL and the start-up calls are left out.
\<close>

section \<open>Constants and structures\<close>

definition vectorBusTypeCAN :: int where "vectorBusTypeCAN = 1"
definition vectorInterfaceVersion :: int where "vectorInterfaceVersion = 3"
definition vectorInterfaceVersionV4 :: int where "vectorInterfaceVersionV4 = 4"
definition vectorOutputModeNormal :: int where "vectorOutputModeNormal = 1"
definition vectorInvalidPortHandle :: int where "vectorInvalidPortHandle = -1"
definition vectorStatusSuccess :: int where "vectorStatusSuccess = 0"
definition vectorStatusQueueIsEmpty :: int where "vectorStatusQueueIsEmpty = 10"
definition vectorEventTagReceiveMsg :: u8 where "vectorEventTagReceiveMsg = 1"
definition vectorEventTagTransmitMsg :: u8 where "vectorEventTagTransmitMsg = 10"
definition vectorCanMsgFlagErrorFrame :: u16 where "vectorCanMsgFlagErrorFrame = 1"
definition vectorCanMsgFlagRemote :: u16 where "vectorCanMsgFlagRemote = 0x10"
definition vectorCanMsgFlagTXCompleted :: u16 where "vectorCanMsgFlagTXCompleted = 0x40"
definition vectorCanFdTagRxOK :: u16 where "vectorCanFdTagRxOK = 1024"
definition vectorCanFdTagTxOK :: u16 where "vectorCanFdTagTxOK = 1028"
definition vectorCanFdRxFlagEDL :: u32 where "vectorCanFdRxFlagEDL = 1"
definition vectorCanFdRxFlagBRS :: u32 where "vectorCanFdRxFlagBRS = 2"
definition vectorCanFdTxTag :: u16 where "vectorCanFdTxTag = 1088"
definition vectorCanFdTxFlagEDL :: u32 where "vectorCanFdTxFlagEDL = 1"
definition vectorCanFdTxFlagBRS :: u32 where "vectorCanFdTxFlagBRS = 2"

lemmas vector_flags = vectorCanMsgFlagErrorFrame_def vectorCanMsgFlagRemote_def
  vectorCanMsgFlagTXCompleted_def vectorCanFdRxFlagEDL_def vectorCanFdRxFlagBRS_def
  vectorCanFdTxFlagEDL_def vectorCanFdTxFlagBRS_def
lemmas vector_tags = vectorEventTagReceiveMsg_def vectorEventTagTransmitMsg_def
  vectorCanFdTagRxOK_def vectorCanFdTagTxOK_def vectorCanFdTxTag_def

record xlCanMsg =
  xm_ID :: u32
  xm_Flags :: u16
  xm_DLC :: u16
  xm_Res1 :: u64
  xm_Data :: bytes
  xm_Res2 :: u64

record xlEvent =
  xe_Tag :: u8
  xe_ChanIndex :: u8
  xe_TransID :: u16
  xe_PortHandle :: u16
  xe_Flags :: u8
  xe_Reserved :: u8
  xe_TimeStamp :: u64
  xe_Msg :: xlCanMsg

record xlCanRxMsg =
  xr_CanID :: u32
  xr_MsgFlags :: u32
  xr_CRC :: u32
  xr_MsgReserved1 :: bytes
  xr_TotalBitCnt :: u16
  xr_DLC :: u8
  xr_MsgReserved :: bytes
  xr_Data :: bytes

record xlCanRxEvent =
  xr_Size :: u32
  xr_Tag :: u16
  xr_ChanIndex :: u8
  xr_Reserved :: u8
  xr_UserHandle :: u32
  xr_FlagsChip :: u16
  xr_Reserved0 :: u16
  xr_Reserved1 :: u64
  xr_TimeStamp :: u64
  xr_Msg :: xlCanRxMsg

record xlCanTxMsg =
  xt_CanID :: u32
  xt_MsgFlags :: u32
  xt_DLC :: u8
  xt_MsgReserved :: bytes
  xt_Data :: bytes

record xlCanTxEvent =
  xt_Tag :: u16
  xt_TransID :: u16
  xt_ChanIndex :: u8
  xt_Reserved :: bytes
  xt_Msg :: xlCanTxMsg

record Vector =
  ve_initialized :: bool
  ve_canType :: Mode
  ve_cfg :: Config

section \<open>Sending\<close>

datatype vector_wire = WireEvent xlEvent | WireTxEvent xlCanTxEvent

definition vector_write :: "(vector_wire \<Rightarrow> bool) \<Rightarrow> Vector \<Rightarrow> Frame \<Rightarrow> vector_wire written" where
  "vector_write dll v frame =
     (let data = frame_data frame
      in if \<not> ve_initialized v then refuse DriverNotOpen
         else if f_FD frame then
           (if ve_canType v \<noteq> FD then refuse NotInFDMode
            else transmit dll
              (WireTxEvent \<lparr>xt_Tag = vectorCanFdTxTag, xt_TransID = 0xFFFF, xt_ChanIndex = 0, xt_Reserved = replicate 3 0,
                 xt_Msg = \<lparr>xt_CanID = f_ID frame,
                   xt_MsgFlags = (if cfg_BRS (ve_cfg v)
                                  then vectorCanFdTxFlagEDL OR vectorCanFdTxFlagBRS
                                  else vectorCanFdTxFlagEDL),
                   xt_DLC = LengthToDLC (int (length data)), xt_MsgReserved = replicate 7 0,
                   xt_Data = go_copy (replicate 64 0) data\<rparr>\<rparr>) frame)
         else if ve_canType v = FD then
           transmit dll
             (WireTxEvent \<lparr>xt_Tag = vectorCanFdTxTag, xt_TransID = 0xFFFF, xt_ChanIndex = 0, xt_Reserved = replicate 3 0,
                xt_Msg = \<lparr>xt_CanID = f_ID frame, xt_MsgFlags = 0,
                  xt_DLC = LengthToDLC (int (length data)), xt_MsgReserved = replicate 7 0,
                  xt_Data = go_copy (replicate 64 0) data\<rparr>\<rparr>) frame
         else if ve_canType v = Classic then
           transmit dll
             (WireEvent \<lparr>xe_Tag = vectorEventTagTransmitMsg, xe_ChanIndex = 0, xe_TransID = 0,
                xe_PortHandle = 0, xe_Flags = 0, xe_Reserved = 0, xe_TimeStamp = 0,
                xe_Msg = \<lparr>xm_ID = f_ID frame, xm_Flags = 0, xm_DLC = word_of_nat (length data), xm_Res1 = 0,
                  xm_Data = go_copy (replicate 8 0) data, xm_Res2 = 0\<rparr>\<rparr>) frame
         else refuse UnknownMode)"

section \<open>Receiving\<close>

text \<open>
  One receive step on the status and the event of the DLL: None when the burst ends, and otherwise
  what became of the event. Confirmations in FD mode carry the bit count of the hardware.
\<close>

definition vector_event_fd :: "Config \<Rightarrow> xlCanRxEvent \<Rightarrow> disposal" where
  "vector_event_fd cfg event =
     (if xr_Tag event \<noteq> vectorCanFdTagRxOK \<and> xr_Tag event \<noteq> vectorCanFdTagTxOK then Dropped
      else let msg = xr_Msg event
        in if xr_CanID msg AND 0x80000000 \<noteq> 0 \<or> xr_CanID msg AND 0x1FFFFFFF > 0x7FF then Dropped
           else let payloadLen = dlcLen (xr_DLC msg);
                    isFD = (xr_MsgFlags msg AND vectorCanFdRxFlagEDL \<noteq> 0)
             in dispose cfg
               \<lparr>f_Direction = (if xr_Tag event = vectorCanFdTagTxOK then Transmit else Receive),
                f_ID = xr_CanID msg AND 0x1FFFFFFF, f_DLC = xr_DLC msg,
                f_Data = go_copy (replicate 64 0) (take (nat payloadLen) (xr_Data msg)),
                f_FD = isFD, f_BRS = (isFD \<and> xr_MsgFlags msg AND vectorCanFdRxFlagBRS \<noteq> 0),
                f_Extended = False, f_TimestampUS = xr_TimeStamp event div 1000\<rparr>)"

definition readOneCanFD :: "Config \<Rightarrow> int \<Rightarrow> xlCanRxEvent \<Rightarrow> disposal option" where
  "readOneCanFD cfg status event =
     (if status = vectorStatusSuccess then Some (vector_event_fd cfg event) else None)"

definition vector_event_classic :: "Config \<Rightarrow> xlEvent \<Rightarrow> disposal" where
  "vector_event_classic cfg event =
     (let msg = xe_Msg event
      in if xe_Tag event \<noteq> vectorEventTagReceiveMsg then Dropped
         else if xm_Flags msg AND (vectorCanMsgFlagErrorFrame OR vectorCanMsgFlagRemote) \<noteq> 0
         then Dropped
         else if xm_ID msg AND 0x80000000 \<noteq> 0 \<or> xm_ID msg AND 0x1FFFFFFF > 0x7FF then Dropped
         else let dlc = (ucast (xm_DLC msg) :: u8)
           in if dlc > 8 then Dropped
              else dispose cfg
                \<lparr>f_Direction = (if xm_Flags msg AND vectorCanMsgFlagTXCompleted \<noteq> 0
                                then Transmit else Receive),
                 f_ID = xm_ID msg AND 0x1FFFFFFF, f_DLC = dlc,
                 f_Data = go_copy (replicate 64 0) (take (nat (dlcLen dlc)) (xm_Data msg)),
                 f_FD = False, f_BRS = False, f_Extended = False,
                 f_TimestampUS = xe_TimeStamp event div 1000\<rparr>)"

definition readOneCAN :: "Config \<Rightarrow> int \<Rightarrow> xlEvent \<Rightarrow> disposal option" where
  "readOneCAN cfg status event =
     (if status = vectorStatusSuccess then Some (vector_event_classic cfg event) else None)"

end
