(* ===== verification/Vector_Life.thy ===== *)
theory Vector_Life
  imports Bus_Device Vector_Driver
begin

text \<open>
  How Vector opens and closes: \<open>initialize\<close>, \<open>start\<close> and \<open>stop\<close> of vector.go in the order of the calls:
  the driver is opened, the channel looked up, the port opened and the channel configured and
  activated. The DLL is loaded once and kept, also when it lacks a procedure.
\<close>

definition vectorDefaultCanFdSJW :: u32 where "vectorDefaultCanFdSJW = 2"
definition vectorDefaultCanFdTseg1 :: u32 where "vectorDefaultCanFdTseg1 = 6"
definition vectorDefaultCanFdTseg2 :: u32 where "vectorDefaultCanFdTseg2 = 3"

record vector_dev = runtime +
  vd_portHandle :: int
  vd_channelIndex :: int
  vd_channelMask :: u64
  vd_permissionMask :: u64
  vd_canFdSjwAbr :: u32
  vd_canFdTseg1Abr :: u32
  vd_canFdTseg2Abr :: u32
  vd_canFdSjwDbr :: u32
  vd_canFdTseg1Dbr :: u32
  vd_canFdTseg2Dbr :: u32
  vd_DeviceType :: int
  vd_CANChannel :: int

definition newVector :: "Config \<Rightarrow> int \<Rightarrow> vector_dev" where
  "newVector cfg deviceType =
     \<lparr>rt_cfg = cfg, rt_canType = cfg_Mode cfg, rt_initialized = False, rt_running = False,
      rt_cancel = None, rt_rxChan = None, rt_fanout = None, rt_dll = None, rt_held = {}, rt_faults = {},
      vd_portHandle = vectorInvalidPortHandle, vd_channelIndex = 0, vd_channelMask = 0,
      vd_permissionMask = 0, vd_canFdSjwAbr = vectorDefaultCanFdSJW,
      vd_canFdTseg1Abr = vectorDefaultCanFdTseg1, vd_canFdTseg2Abr = vectorDefaultCanFdTseg2,
      vd_canFdSjwDbr = vectorDefaultCanFdSJW, vd_canFdTseg1Dbr = vectorDefaultCanFdTseg1,
      vd_canFdTseg2Dbr = vectorDefaultCanFdTseg2, vd_DeviceType = deviceType,
      vd_CANChannel = uint (cfg_Channel cfg)\<rparr>"

definition vector_procs :: "string list" where
  "vector_procs = [''xlOpenDriver'', ''xlCloseDriver'', ''xlOpenPort'', ''xlClosePort'',
     ''xlGetChannelIndex'', ''xlActivateChannel'', ''xlDeactivateChannel'', ''xlCanSetChannelBitrate'',
     ''xlCanFdSetConfiguration'', ''xlCanSetChannelOutput'', ''xlCanSetChannelMode'', ''xlReceive'',
     ''xlCanReceive'', ''xlCanTransmit'', ''xlCanTransmitEx'']"

section \<open>Opening and closing\<close>

text \<open>
  A port or driver is released when its close procedure is called; \<open>rt_dll\<close> stands for all the
  procedure fields, which are set together.
\<close>

definition vector_closePort :: "vector_dev \<Rightarrow> vector_dev option" where
  "vector_closePort v =
     (if rt_dll v \<noteq> None \<and> vd_portHandle v \<noteq> vectorInvalidPortHandle
      then do { _ \<leftarrow> proc_run v ''xlClosePort''; Some (release ResPort v) } else Some v)"

definition vector_closeDriver :: "vector_dev \<Rightarrow> vector_dev option" where
  "vector_closeDriver v =
     (if rt_dll v \<noteq> None then do { _ \<leftarrow> proc_run v ''xlCloseDriver''; Some (release ResDriver v) }
      else Some v)"

definition vector_cleanup :: "vector_dev \<Rightarrow> (bool \<times> vector_dev) option" where
  "vector_cleanup v =
     do { v \<leftarrow> call_cancel v; v \<leftarrow> fanout_Close v;
          v \<leftarrow> vector_closePort v; v \<leftarrow> vector_closeDriver v;
          v \<leftarrow> close_rxChan v;
          Some (False, v\<lparr>rt_fanout := None, rt_rxChan := None,
            vd_portHandle := vectorInvalidPortHandle\<rparr>) }"

definition vector_loadDLL :: "dll_env \<Rightarrow> vector_dev \<Rightarrow> bool \<times> vector_dev" where
  "vector_loadDLL e v =
     (if rt_dll v \<noteq> None then (True, v)
      else if \<not> de_loads e ''vxlapi64.dll'' then (False, v)
      else let v = v\<lparr>rt_dll := Some (de_exports e)\<rparr> in (list_all (has_proc v) vector_procs, v))"

definition selectChannel :: "dll_env \<Rightarrow> vector_dev \<Rightarrow> (bool \<times> vector_dev) option" where
  "selectChannel e v =
     do { _ \<leftarrow> proc_run v ''xlGetChannelIndex'';
          let idx = de_value e ''xlGetChannelIndex'' in
          if idx < 0 \<or> idx > 63 then Some (False, v)
          else Some (True, v\<lparr>vd_channelIndex := idx, vd_channelMask := push_bit (nat idx) 1\<rparr>) }"

text \<open>
  The DLL writes the port handle whether or not the call succeeds; the port is held when it does and
  the handle is valid.
\<close>

definition openPort :: "dll_env \<Rightarrow> vector_dev \<Rightarrow> (bool \<times> vector_dev) option" where
  "openPort e v =
     do { good \<leftarrow> proc_call e v ''xlOpenPort'';
          let v = v\<lparr>vd_portHandle := de_value e ''xlOpenPort''\<rparr> in
          if \<not> good then Some (False, v)
          else let v = v\<lparr>vd_permissionMask := de_mask e\<rparr> in
            if vd_portHandle v = vectorInvalidPortHandle then Some (False, v)
            else Some (True, acquire ResPort v) }"

definition configureChannel :: "dll_env \<Rightarrow> vector_dev \<Rightarrow> bool option" where
  "configureChannel e v =
     (if vd_channelMask v AND vd_permissionMask v = 0 then Some False
      else do { good \<leftarrow> proc_call e v (if rt_canType v = FD then ''xlCanFdSetConfiguration''
                                      else ''xlCanSetChannelBitrate'');
        if \<not> good then Some False
        else do { good \<leftarrow> proc_call e v ''xlCanSetChannelOutput'';
          if \<not> good then Some False
          else do { good \<leftarrow> proc_call e v ''xlCanSetChannelMode'';
            if \<not> good then Some False else proc_call e v ''xlActivateChannel'' } } })"

text \<open>\<open>initialize\<close> once the driver is open.\<close>

definition vector_open :: "dll_env \<Rightarrow> vector_dev \<Rightarrow> (bool \<times> vector_dev) option" where
  "vector_open e v =
     do { (good, v) \<leftarrow> selectChannel e v;
          if \<not> good then vector_cleanup v
          else do { (good, v) \<leftarrow> openPort e v;
            if \<not> good then vector_cleanup v
            else do { good \<leftarrow> configureChannel e v;
              if \<not> good then vector_cleanup v
              else Some (True, markInitialized (acquire ResChannel v)) } } }"

definition vector_timings :: "Config \<Rightarrow> vector_dev \<Rightarrow> vector_dev" where
  "vector_timings cfg v =
     (let v = (if timing_IsZero (cfg_NominalTiming cfg) then v
               else v\<lparr>vd_canFdSjwAbr := ucast (SJW (cfg_NominalTiming cfg)),
                      vd_canFdTseg1Abr := ucast (SEG1 (cfg_NominalTiming cfg)),
                      vd_canFdTseg2Abr := ucast (SEG2 (cfg_NominalTiming cfg))\<rparr>)
      in if timing_IsZero (cfg_DataTiming cfg) then v
         else v\<lparr>vd_canFdSjwDbr := ucast (SJW (cfg_DataTiming cfg)),
                vd_canFdTseg1Dbr := ucast (SEG1 (cfg_DataTiming cfg)),
                vd_canFdTseg2Dbr := ucast (SEG2 (cfg_DataTiming cfg))\<rparr>)"

definition vector_initialize :: "dll_env \<Rightarrow> vector_dev \<Rightarrow> (bool \<times> vector_dev) option" where
  "vector_initialize e v =
     (if rt_initialized v then Some (True, v)
      else case Normalized (rt_cfg v) of
        Inl err \<Rightarrow> Some (False, v)
      | Inr cfg \<Rightarrow>
        (case vector_loadDLL e ((prepare_runtime (vector_timings cfg (v\<lparr>rt_cfg := cfg,
                rt_canType := cfg_Mode cfg, vd_CANChannel := uint (cfg_Channel cfg)\<rparr>)))
              \<lparr>vd_portHandle := vectorInvalidPortHandle\<rparr>) of
           (good, v) \<Rightarrow>
             if \<not> good then vector_cleanup v
             else do { good \<leftarrow> proc_call e v ''xlOpenDriver'';
                       if \<not> good then vector_cleanup v
                       else vector_open e (acquire ResDriver v) }))"

definition vector_start :: "vector_dev \<Rightarrow> (bool \<times> vector_dev) option" where
  "vector_start v =
     Some (if \<not> rt_initialized v \<or> vd_portHandle v = vectorInvalidPortHandle then (False, v)
           else (True, lifecycle_start v))"

definition vector_stop :: "vector_dev \<Rightarrow> vector_dev option" where
  "vector_stop v =
     do { (wasInitialized, v) \<leftarrow> cancelAndWait v;
          v \<leftarrow> drop_fanout v;
          v \<leftarrow> (if wasInitialized \<and> rt_dll v \<noteq> None \<and> vd_portHandle v \<noteq> vectorInvalidPortHandle
               then do { _ \<leftarrow> proc_run v ''xlDeactivateChannel''; Some (release ResChannel v) } else Some v);
          v \<leftarrow> (if wasInitialized then vector_closePort v else Some v);
          v \<leftarrow> (if wasInitialized then vector_closeDriver v else Some v);
          v \<leftarrow> drop_rxChan v;
          Some (v\<lparr>vd_portHandle := vectorInvalidPortHandle\<rparr>) }"

definition vector_device :: "vector_dev device" where
  "vector_device = \<lparr>dv_initialize = vector_initialize, dv_start = vector_start,
     dv_stop = vector_stop,
     dv_write = (\<lambda>e v f. w_error (vector_write (\<lambda>m. de_accepts e)
       \<lparr>ve_initialized = rt_initialized v, ve_canType = rt_canType v, ve_cfg = rt_cfg v\<rparr> f)),
     dv_subscribable = (\<lambda>v. rt_fanout v \<noteq> None), dv_isFD = (\<lambda>v. rt_canType v = FD),
     dv_config = rt_cfg, dv_setBRS = (\<lambda>b v. v\<lparr>rt_cfg := (rt_cfg v)\<lparr>cfg_BRS := b\<rparr>\<rparr>)\<rparr>"

section \<open>The contract\<close>

text \<open>
  vxlapi64.dll exports what the driver looks up, and a failed \<open>xlOpenPort\<close> hands back the invalid handle.
\<close>

definition vector_dll :: "dll_env \<Rightarrow> bool" where
  "vector_dll e \<longleftrightarrow> list_all (de_exports e) vector_procs \<and>
     (\<not> de_ok e ''xlOpenPort'' \<longrightarrow> de_value e ''xlOpenPort'' = vectorInvalidPortHandle)"

definition vector_ok :: "vector_dev \<Rightarrow> bool" where
  "vector_ok v \<longleftrightarrow> runtime_ok {ResDriver, ResPort, ResChannel} {ResDriver} vector_procs v \<and>
     (vd_portHandle v \<noteq> vectorInvalidPortHandle) = rt_initialized v"

text \<open>In between; \<open>driver\<close> says whether the driver is open.\<close>

definition vector_prepared :: "bool \<Rightarrow> vector_dev \<Rightarrow> bool" where
  "vector_prepared driver v \<longleftrightarrow>
     runtime_prepared ((if driver then {ResDriver} else {}) \<union>
       (if vd_portHandle v = vectorInvalidPortHandle then {} else {ResPort})) {ResDriver} vector_procs v \<and>
     (driver \<or> vd_portHandle v \<noteq> vectorInvalidPortHandle \<longrightarrow> rt_dll v \<noteq> None)"

lemma vector_cleanup_ok: "vector_prepared driver v \<Longrightarrow>
   returns (vector_cleanup v) (\<lambda>(b, v'). \<not> b \<and> vector_ok v' \<and> \<not> rt_initialized v')"
  by (cases driver; cases "vd_portHandle v = vectorInvalidPortHandle"; cases "rt_dll v")
    (auto simp: vector_cleanup_def vector_closePort_def vector_closeDriver_def life_defs
      vector_prepared_def vector_ok_def runtime_ok_def runtime_prepared_def vector_procs_def)

lemma vector_calls_return:
  assumes "dll_ok vector_procs v" "rt_dll v \<noteq> None" "x \<in> set vector_procs"
  shows "proc_call e v x = Some (de_ok e x)" "proc_run v x = Some ()"
  using assms by (auto simp: proc_call_def proc_run_def has_proc_def dll_ok_def list_all_iff)

lemma vector_openPort_ok:
  assumes "vector_prepared True v" "vd_portHandle v = vectorInvalidPortHandle" "vector_dll e"
  shows "\<exists>b v'. openPort e v = Some (b, v') \<and> vector_prepared True v' \<and>
    b = (vd_portHandle v' \<noteq> vectorInvalidPortHandle)"
proof -
  have "proc_call e v ''xlOpenPort'' = Some (de_ok e ''xlOpenPort'')"
    using assms(1) by (intro vector_calls_return)
      (auto simp: vector_prepared_def runtime_prepared_def vector_procs_def)
  moreover have "\<not> de_ok e ''xlOpenPort'' \<Longrightarrow> de_value e ''xlOpenPort'' = vectorInvalidPortHandle"
    using assms(3) by (simp add: vector_dll_def)
  ultimately show ?thesis
    using assms(1,2) by (cases "de_ok e ''xlOpenPort''";
        cases "de_value e ''xlOpenPort'' = vectorInvalidPortHandle")
      (auto simp: openPort_def vector_prepared_def runtime_prepared_def acquire_def dll_ok_def Let_def)
qed

lemma vector_configure_returns:
  assumes "dll_ok vector_procs v" "rt_dll v \<noteq> None"
  shows "\<exists>b. configureChannel e v = Some b"
proof -
  have "returns (configureChannel e v) (\<lambda>_. True)"
    using vector_calls_return(1) [OF assms] by (simp add: configureChannel_def vector_procs_def)
  then show ?thesis by (auto simp: returns_def)
qed

lemma vector_open_ok:
  assumes v: "vector_prepared True v" "vd_portHandle v = vectorInvalidPortHandle" and e: "vector_dll e"
  shows "returns (vector_open e v) (\<lambda>(b, v'). vector_ok v' \<and> b = rt_initialized v')"
proof -
  have dll: "dll_ok vector_procs v" "rt_dll v \<noteq> None"
    using v by (simp_all add: vector_prepared_def runtime_prepared_def)
  obtain b u where u: "selectChannel e v = Some (b, u)" "vector_prepared True u"
      "vd_portHandle u = vectorInvalidPortHandle"
    using v vector_calls_return(2) [OF dll, of "''xlGetChannelIndex''"]
    by (cases "de_value e ''xlGetChannelIndex'' < 0 \<or> de_value e ''xlGetChannelIndex'' > 63")
      (auto simp: selectChannel_def vector_procs_def vector_prepared_def runtime_prepared_def dll_ok_def Let_def)
  have dll_u: "dll_ok vector_procs u" "rt_dll u \<noteq> None"
    using u by (simp_all add: vector_prepared_def runtime_prepared_def)
  obtain c w where w: "openPort e u = Some (c, w)" "vector_prepared True w"
      "c = (vd_portHandle w \<noteq> vectorInvalidPortHandle)"
    using vector_openPort_ok [OF u(2,3) e] by auto
  have dll_w: "dll_ok vector_procs w" "rt_dll w \<noteq> None"
    using w by (simp_all add: vector_prepared_def runtime_prepared_def)
  obtain d where d: "configureChannel e w = Some d"
    using vector_configure_returns [OF dll_w] by auto
  have opened: "c \<Longrightarrow> vector_ok (markInitialized (acquire ResChannel w))"
    using w(2,3) by (auto simp: vector_prepared_def runtime_prepared_def vector_ok_def runtime_ok_def
        markInitialized_def acquire_def dll_ok_def)
  show ?thesis
    unfolding vector_open_def u(1) w(1) bind.simps prod.case
    using vector_cleanup_ok [OF u(2)] vector_cleanup_ok [OF w(2)] opened
    by (auto simp: d markInitialized_def elim!: returns_mono)
qed

lemma vector_initialize_ok:
  assumes "vector_ok v" "vector_dll e"
  shows "returns (vector_initialize e v)
    (\<lambda>(b, v'). vector_ok v' \<and> b = rt_initialized v' \<and> (rt_initialized v \<longrightarrow> v' = v))"
proof (cases "rt_initialized v")
  case True
  then show ?thesis using assms(1) by (simp add: vector_initialize_def)
next
  case False
  show ?thesis
  proof (cases "Normalized (rt_cfg v)")
    case (Inl err)
    then show ?thesis using assms(1) False by (simp add: vector_initialize_def)
  next
    case (Inr cfg)
    let ?v = "(prepare_runtime (vector_timings cfg (v\<lparr>rt_cfg := cfg, rt_canType := cfg_Mode cfg,
      vd_CANChannel := uint (cfg_Channel cfg)\<rparr>)))\<lparr>vd_portHandle := vectorInvalidPortHandle\<rparr>"
    obtain b u where load: "vector_loadDLL e ?v = (b, u)" by fastforce
    have v: "vector_prepared False ?v"
      using assms(1) False by (auto simp: vector_timings_def Let_def vector_prepared_def vector_ok_def
          runtime_ok_def runtime_prepared_def prepare_runtime_def acquire_def dll_ok_def)
    then have u: "vector_prepared False u" "vd_portHandle u = vectorInvalidPortHandle"
        "dll_ok vector_procs u" "b \<longrightarrow> rt_dll u \<noteq> None"
      using load assms(2) by (auto simp: vector_loadDLL_def vector_dll_def vector_prepared_def
          runtime_prepared_def dll_ok_def Let_def split: if_splits)
    then have d: "b \<longrightarrow> vector_prepared True (acquire ResDriver u) \<and>
        proc_call e u ''xlOpenDriver'' = Some (de_ok e ''xlOpenDriver'')"
      using vector_calls_return(1) [of u "''xlOpenDriver''" e]
      by (auto simp: vector_prepared_def runtime_prepared_def acquire_def dll_ok_def vector_procs_def)
    show ?thesis
      using u d vector_cleanup_ok [OF u(1)] vector_open_ok [of "acquire ResDriver u" e] assms(2) False
      by (auto simp: vector_initialize_def Inr load acquire_def elim!: returns_mono)
  qed
qed

lemma vector_start_ok: "vector_ok v \<Longrightarrow> returns (vector_start v)
   (\<lambda>(b, v'). vector_ok v' \<and> b = rt_initialized v \<and> rt_initialized v' = rt_initialized v)"
  by (auto simp: vector_start_def lifecycle_start_def acquire_def vector_ok_def
      runtime_ok_def dll_ok_def has_proc_def split: if_splits)

lemma vector_stop_ok:
  assumes "vector_ok v"
  shows "returns (vector_stop v) (\<lambda>v'. vector_ok v' \<and> \<not> rt_initialized v' \<and> rt_cfg v' = rt_cfg v)"
proof -
  have ok: "runtime_ok {ResDriver, ResPort, ResChannel} {ResDriver} vector_procs v"
    using assms by (simp add: vector_ok_def)
  show ?thesis
  proof (cases "rt_initialized v")
    case True
    obtain api where api: "rt_dll v = Some api" "api ''xlClosePort''" "api ''xlCloseDriver''"
      "api ''xlDeactivateChannel''" "list_all api vector_procs"
      using ok True by (auto simp: runtime_ok_def dll_ok_def vector_procs_def)
    have "vd_portHandle v \<noteq> vectorInvalidPortHandle" "rt_faults v \<subseteq> {ResDriver}"
      "rt_rxChan v = Some True"
      using ok assms True by (simp_all add: vector_ok_def runtime_ok_def)
    then show ?thesis
      unfolding vector_stop_def stop_live [OF ok True, simplified]
      by (simp add: api stopped_def drop_rxChan_def close_rxChan_def release_def dll_ok_def has_proc_def
          proc_run_def vector_ok_def runtime_ok_def vector_closePort_def vector_closeDriver_def
          insert_Diff_if)
  next
    case False
    have "vd_portHandle v = vectorInvalidPortHandle" using assms False by (simp add: vector_ok_def)
    then have "v\<lparr>vd_portHandle := vectorInvalidPortHandle\<rparr> = v" by (cases v) simp
    then show ?thesis unfolding vector_stop_def stop_closed [OF ok False]
      using assms False drop_rxChan_closed [OF ok False] by simp
  qed
qed

lemma vector_write_refuses: "w_error (vector_write dll
     \<lparr>ve_initialized = i, ve_canType = m, ve_cfg = cfg\<rparr> f) = Some DriverNotOpen \<longleftrightarrow> \<not> i"
  by (auto simp: vector_write_def refuse_def transmit_def Let_def)

interpretation vector: bus_device vector_device vector_ok rt_initialized rt_held rt_faults vector_dll
proof unfold_locales
  fix v :: vector_dev and e err
  assume "\<not> rt_initialized v" "Normalized (dv_config vector_device v) = Inl err"
  then show "dv_initialize vector_device e v = Some (False, v)"
    by (simp add: vector_device_def vector_initialize_def)
qed (use vector_initialize_ok vector_start_ok vector_stop_ok in \<open>auto simp: vector_device_def
      vector_write_refuses vector_ok_def runtime_ok_def dll_ok_def has_proc_def split: if_splits\<close>)

lemma newVector_ok: "vector_ok (newVector cfg t)" "\<not> rt_initialized (newVector cfg t)"
  by (simp_all add: vector_ok_def runtime_ok_def newVector_def dll_ok_def)

end
