(* ===== verification/Driver_Bus.thy ===== *)
theory Driver_Bus
  imports Auto_Device Pcan_Life Canalyst_Life Toomoss_Life Tsmaster_Life Vector_Life
begin

text \<open>
  The drivers as the user gets them: the constructors of bus_windows.go and of the packages under
  src/driver, the default candidates of the automatic selection, and the theorems about opening,
  closing and using a bus that hold for all of them.
\<close>

section \<open>The backends\<close>

type_synonym vendor_dev = "toomoss_dev + tsmaster_dev + pcan_dev + vector_dev + canalyst_dev"
type_synonym backend = "vendor_dev + vendor_dev autoDevice"

definition vendor_device :: "vendor_dev device" where
  "vendor_device = sum_device toomoss_device (sum_device tsmaster_device
     (sum_device pcan_device (sum_device vector_device canalyst_device)))"

definition backend_device :: "backend device" where
  "backend_device = sum_device vendor_device (auto_device vendor_device)"

definition vectorVN1630 :: int where "vectorVN1630 = 57"
definition vectorVN1640 :: int where "vectorVN1640 = 59"
definition TC1016 :: int where "TC1016 = 11"

definition defaultAutoCandidates :: "vendor_dev autoCandidate list" where
  "defaultAutoCandidates =
     [\<lparr>ac_Name = ''Toomoss'', ac_New = Some (\<lambda>cfg. Some (Inl (newToomoss cfg)))\<rparr>,
      \<lparr>ac_Name = ''TSMaster'', ac_New = Some (\<lambda>cfg. Some (Inr (Inl (newTSMaster cfg TC1016 None))))\<rparr>,
      \<lparr>ac_Name = ''PCAN'', ac_New = Some (\<lambda>cfg. Some (Inr (Inr (Inl (newPCAN cfg)))))\<rparr>,
      \<lparr>ac_Name = ''Vector'', ac_New = Some (\<lambda>cfg. Some (Inr (Inr (Inr (Inl (newVector cfg vectorVN1640))))))\<rparr>]"

definition AutoBus :: "Config \<Rightarrow> backend bus" where
  "AutoBus cfg = newBus (Inr (newAutoDevice cfg defaultAutoCandidates []))"

definition ToomossBus :: "Config \<Rightarrow> backend bus" where
  "ToomossBus cfg = newBus (Inl (Inl (newToomoss cfg)))"

definition TSMasterBus :: "Config \<Rightarrow> int \<Rightarrow> TSMasterMapping option \<Rightarrow> backend bus" where
  "TSMasterBus cfg deviceType mapping = newBus (Inl (Inr (Inl (newTSMaster cfg deviceType mapping))))"

definition PCANBus :: "Config \<Rightarrow> backend bus" where
  "PCANBus cfg = newBus (Inl (Inr (Inr (Inl (newPCAN cfg)))))"

definition VectorBus :: "Config \<Rightarrow> int \<Rightarrow> backend bus" where
  "VectorBus cfg deviceType = newBus (Inl (Inr (Inr (Inr (Inl (newVector cfg deviceType))))))"

definition CanalystIIBus :: "Config \<Rightarrow> int \<Rightarrow> int \<Rightarrow> backend bus" where
  "CanalystIIBus cfg deviceType deviceIndex =
     newBus (Inl (Inr (Inr (Inr (Inr (newCanalystII cfg deviceType deviceIndex))))))"

text \<open>The packages users import; a device type of 0 selects the default.\<close>

definition auto_New :: "Config \<Rightarrow> backend bus" where "auto_New cfg = AutoBus cfg"
definition toomoss_New :: "Config \<Rightarrow> backend bus" where "toomoss_New cfg = ToomossBus cfg"
definition pcan_New :: "Config \<Rightarrow> backend bus" where "pcan_New cfg = PCANBus cfg"

definition tsmaster_New :: "Config \<Rightarrow> int \<Rightarrow> TSMasterMapping option \<Rightarrow> backend bus" where
  "tsmaster_New cfg deviceType mapping = TSMasterBus cfg (if deviceType = 0 then 11 else deviceType) mapping"

definition vector_New :: "Config \<Rightarrow> int \<Rightarrow> backend bus" where
  "vector_New cfg deviceType = VectorBus cfg (if deviceType = 0 then 59 else deviceType)"

definition canalystii_New :: "Config \<Rightarrow> int \<Rightarrow> int \<Rightarrow> backend bus" where
  "canalystii_New cfg deviceType deviceIndex =
     CanalystIIBus cfg (if deviceType = 0 then 4 else deviceType) deviceIndex"

inductive new_driver :: "backend bus \<Rightarrow> bool" where
  "new_driver (auto_New cfg)"
| "new_driver (toomoss_New cfg)"
| "new_driver (tsmaster_New cfg t m)"
| "new_driver (pcan_New cfg)"
| "new_driver (vector_New cfg t)"
| "new_driver (canalystii_New cfg t i)"

section \<open>Their contract\<close>

definition dlls_documented :: "dll_env \<Rightarrow> bool" where
  "dlls_documented e \<longleftrightarrow> toomoss_dll e \<and> tsmaster_dll e \<and> pcan_dll e \<and> vector_dll e \<and> canalyst_dll e"

definition vendor_ok :: "vendor_dev \<Rightarrow> bool" where
  "vendor_ok = case_sum toomoss_ok (case_sum tsmaster_ok (case_sum pcan_ok (case_sum vector_ok canalyst_ok)))"

definition vendor_live :: "vendor_dev \<Rightarrow> bool" where
  "vendor_live = case_sum rt_initialized (case_sum rt_initialized (case_sum rt_initialized
     (case_sum rt_initialized rt_initialized)))"

definition vendor_held :: "vendor_dev \<Rightarrow> res set" where
  "vendor_held = case_sum rt_held (case_sum rt_held (case_sum rt_held (case_sum rt_held rt_held)))"

definition vendor_faults :: "vendor_dev \<Rightarrow> res set" where
  "vendor_faults = case_sum rt_faults (case_sum rt_faults (case_sum rt_faults (case_sum rt_faults rt_faults)))"

interpretation vc: two_devices vector_device vector_ok rt_initialized rt_held rt_faults vector_dll
  canalyst_device canalyst_ok rt_initialized rt_held rt_faults canalyst_dll
  by unfold_locales

interpretation pvc: two_devices pcan_device pcan_ok rt_initialized rt_held rt_faults pcan_dll
  "sum_device vector_device canalyst_device" "case_sum vector_ok canalyst_ok"
  "case_sum rt_initialized rt_initialized" "case_sum rt_held rt_held" "case_sum rt_faults rt_faults"
  "\<lambda>e. vector_dll e \<and> canalyst_dll e"
  by unfold_locales

interpretation tpvc: two_devices tsmaster_device tsmaster_ok rt_initialized rt_held rt_faults tsmaster_dll
  "sum_device pcan_device (sum_device vector_device canalyst_device)"
  "case_sum pcan_ok (case_sum vector_ok canalyst_ok)"
  "case_sum rt_initialized (case_sum rt_initialized rt_initialized)"
  "case_sum rt_held (case_sum rt_held rt_held)" "case_sum rt_faults (case_sum rt_faults rt_faults)"
  "\<lambda>e. pcan_dll e \<and> vector_dll e \<and> canalyst_dll e"
  by unfold_locales

interpretation ttpvc: two_devices toomoss_device toomoss_ok rt_initialized rt_held rt_faults toomoss_dll
  "sum_device tsmaster_device (sum_device pcan_device (sum_device vector_device canalyst_device))"
  "case_sum tsmaster_ok (case_sum pcan_ok (case_sum vector_ok canalyst_ok))"
  "case_sum rt_initialized (case_sum rt_initialized (case_sum rt_initialized rt_initialized))"
  "case_sum rt_held (case_sum rt_held (case_sum rt_held rt_held))"
  "case_sum rt_faults (case_sum rt_faults (case_sum rt_faults rt_faults))"
  "\<lambda>e. tsmaster_dll e \<and> pcan_dll e \<and> vector_dll e \<and> canalyst_dll e"
  by unfold_locales

interpretation vendor: auto_candidates vendor_device vendor_ok vendor_live vendor_held vendor_faults
  dlls_documented
  unfolding auto_candidates_def vendor_device_def vendor_ok_def vendor_live_def vendor_held_def
    vendor_faults_def dlls_documented_def [abs_def]
  by (rule ttpvc.sum.bus_device_axioms)

interpretation both: two_devices vendor_device vendor_ok vendor_live vendor_held vendor_faults
  dlls_documented "auto_device vendor_device" vendor.auto_ok vendor.auto_live vendor.auto_held
  vendor.auto_faults dlls_documented
  by unfold_locales

definition backend_live :: "backend \<Rightarrow> bool" where
  "backend_live = case_sum vendor_live (\<lambda>a. ad_driver a \<noteq> None)"

definition backend_held :: "backend \<Rightarrow> res set" where
  "backend_held = case_sum vendor_held (\<lambda>a. case ad_driver a of None \<Rightarrow> {} | Some d \<Rightarrow> vendor_held d)"

definition backend_faults :: "backend \<Rightarrow> res set" where
  "backend_faults = case_sum vendor_faults (\<lambda>a. case ad_driver a of None \<Rightarrow> {} | Some d \<Rightarrow> vendor_faults d)"

definition backend_ok :: "backend \<Rightarrow> bool" where
  "backend_ok = case_sum vendor_ok vendor.auto_ok"

interpretation backend: bus_device backend_device backend_ok backend_live backend_held backend_faults
  dlls_documented
proof -
  have eq: "backend_live = case_sum vendor_live vendor.auto_live"
    "backend_held = case_sum vendor_held vendor.auto_held"
    "backend_faults = case_sum vendor_faults vendor.auto_faults"
    by (simp_all add: backend_live_def backend_held_def backend_faults_def fun_eq_iff
        vendor.auto_live_def vendor.auto_held_def vendor.auto_faults_def split: sum.splits)
  show "bus_device backend_device backend_ok backend_live backend_held backend_faults dlls_documented"
    using both.sum.bus_device_axioms by (simp add: backend_device_def backend_ok_def eq)
qed

lemma vendor_simps:
  "vendor_ok (Inl a) = toomoss_ok a" "vendor_ok (Inr (Inl b)) = tsmaster_ok b"
  "vendor_ok (Inr (Inr (Inl c))) = pcan_ok c" "vendor_ok (Inr (Inr (Inr (Inl d)))) = vector_ok d"
  "vendor_ok (Inr (Inr (Inr (Inr e)))) = canalyst_ok e"
  "vendor_live (Inl a) = rt_initialized a" "vendor_live (Inr (Inl b)) = rt_initialized b"
  "vendor_live (Inr (Inr (Inl c))) = rt_initialized c"
  "vendor_live (Inr (Inr (Inr (Inl d)))) = rt_initialized d"
  "vendor_live (Inr (Inr (Inr (Inr e)))) = rt_initialized e"
  by (simp_all add: vendor_ok_def vendor_live_def)

lemma backend_simps:
  "backend_ok (Inl v) = vendor_ok v" "backend_ok (Inr a) = vendor.auto_ok a"
  "backend_live (Inl v) = vendor_live v" "backend_live (Inr a) = (ad_driver a \<noteq> None)"
  by (simp_all add: backend_ok_def backend_live_def)

lemma new_auto_ok: "vendor.auto_ok (newAutoDevice cfg defaultAutoCandidates [])"
  by (auto simp: newAutoDevice_def vendor.auto_ok_def vendor.fresh_candidates_def
      defaultAutoCandidates_def vendor_simps newToomoss_ok newTSMaster_ok newPCAN_ok newVector_ok)

lemma new_driver_ok:
  assumes "new_driver b"
  shows "\<exists>d. b = newBus d \<and> backend_ok d \<and> \<not> backend_live d"
proof -
  have auto: "ad_driver (newAutoDevice cfg defaultAutoCandidates []) = None" for cfg
    by (simp add: newAutoDevice_def)
  note ok = backend_simps vendor_simps newToomoss_ok newTSMaster_ok newPCAN_ok newVector_ok
    newCanalystII_ok new_auto_ok auto
  show ?thesis
    using assms
    by cases (unfold auto_New_def toomoss_New_def tsmaster_New_def pcan_New_def vector_New_def
        canalystii_New_def AutoBus_def ToomossBus_def TSMasterBus_def PCANBus_def VectorBus_def
        CanalystIIBus_def, (rule exI, rule conjI, assumption, simp add: ok)+)
qed

section \<open>Concrete runs\<close>

lemma bus_enabled_relax: "bus_enabled True a b \<Longrightarrow> bus_enabled serial a b"
  by (cases a) auto

lemma run_relax: "bus_run D good True b acts b' \<Longrightarrow> bus_run D good serial b acts b'"
  by (induction rule: bus_run.induct) (auto intro: bus_run.intros bus_enabled_relax)

lemma replay_append:
  assumes "bus_run D good serial b0 acts0 b" "bus_replay D serial acts b = Some (rs, b')"
    "list_all (action_env good) acts"
  shows "bus_run D good serial b0 (acts0 @ zip acts rs) b'"
  using assms
proof (induction acts arbitrary: acts0 b rs)
  case (Cons a acts)
  then obtain r b1 rs' where step: "bus_enabled serial a b" "bus_do D a b = Some (r, b1)"
      "bus_replay D serial acts b1 = Some (rs', b')" "rs = r # rs'"
    by (auto split: if_splits simp: bind_eq_Some_conv)
  then have "bus_run D good serial b0 (acts0 @ [(a, r)]) b1"
    using Cons.prems(1,3) by (auto intro: run_step)
  from Cons.IH [OF this step(3)] Cons.prems(3) show ?case by (simp add: step(4))
qed simp

lemma replay_run:
  "bus_replay D serial acts b = Some (rs, b') \<Longrightarrow> list_all (action_env good) acts \<Longrightarrow>
   bus_run D good serial b (zip acts rs) b'"
  using replay_append [OF run_nil] by fastforce

text \<open>A machine on which every call works, and the PCAN bus opened and closed on it.\<close>

definition working :: dll_env where
  "working = \<lparr>de_loads = (\<lambda>_. True), de_exports = (\<lambda>_. True), de_ok = (\<lambda>_. True),
     de_value = (\<lambda>_. 1), de_mask = 2, de_session_free = True, de_accepts = True\<rparr>"

lemma working_documented: "dlls_documented working"
  by (simp add: working_def dlls_documented_def toomoss_dll_def tsmaster_dll_def pcan_dll_def
      vector_dll_def canalyst_dll_def list_all_iff)

definition opened_pcan :: "backend bus" where
  "opened_pcan = snd (the (bus_replay backend_device True [OpenBegin CtxLive working, OpenStart]
     (pcan_New (DefaultConfig Classic 0))))"

lemma opened_pcan_replay: "\<exists>rs. bus_replay backend_device True [OpenBegin CtxLive working, OpenStart]
   (pcan_New (DefaultConfig Classic 0)) = Some (rs, opened_pcan)"
proof -
  have "bus_replay backend_device True [OpenBegin CtxLive working, OpenStart]
      (pcan_New (DefaultConfig Classic 0)) \<noteq> None"
    by code_simp
  then show ?thesis unfolding opened_pcan_def by (metis option.collapse prod.collapse)
qed

lemma opened_pcan_run:
  "\<exists>acts. bus_run backend_device dlls_documented True (pcan_New (DefaultConfig Classic 0)) acts opened_pcan"
  using opened_pcan_replay replay_run working_documented by fastforce

lemma opened_pcan_open: "bu_open opened_pcan"
  by code_simp

lemma opened_pcan_config: "cfg_Mode (dv_config backend_device (bu_device opened_pcan)) = Classic"
  by code_simp

section \<open>Opening and closing\<close>



text \<open>C15: as long as no Open begins while a Close is still stopping the device, an open bus has a live
  device: Subscribe on it succeeds, Send never fails because the device is closed, and an Open whose
  initialisation succeeded succeeds.\<close>
theorem open_bus_is_live:
  assumes "new_driver b0" "bus_run backend_device dlls_documented True b0 acts b"
  shows "(bu_open b \<longrightarrow> backend_live (bu_device b)) \<and>
    bus_do backend_device SubscribeTo b = Some (Subscribed (bu_open b), b) \<and>
    (bu_open b \<longrightarrow> (\<forall>c c' e f b'. bus_do backend_device (SendFrame c c' e f) b \<noteq>
      Some (Replied (Some (WriteFailed DriverNotOpen)), b'))) \<and>
    (bu_opening b = DeviceInitialized \<longrightarrow>
      returns (bus_do backend_device OpenStart b) (\<lambda>(r, b'). r = Replied None \<and> bu_open b'))"
proof -
  obtain d where d: "b0 = newBus d" "backend_ok d" "\<not> backend_live d" using new_driver_ok [OF assms(1)] by auto
  have serial: "backend.bus_serial b" using backend.run_serial [OF assms(2) [unfolded d(1)] d(2,3)] .
  have start: "bu_opening b = DeviceInitialized \<Longrightarrow>
      returns (bus_do backend_device OpenStart b) (\<lambda>(r, b'). r = Replied None \<and> bu_open b')"
    using serial backend.start_law [of "bu_device b"]
    by (auto simp: open_start_def backend.bus_serial_def backend.bus_ok_def elim!: returns_mono)
  show ?thesis
    using backend.serial_send [OF serial] backend.serial_subscribe [OF serial] start serial
    by (simp add: backend.bus_serial_def)
qed

lemma open_bus_is_live_witness:
  "backend_live (bu_device opened_pcan) \<and>
   bus_do backend_device SubscribeTo opened_pcan = Some (Subscribed True, opened_pcan)"
proof -
  obtain acts where "bus_run backend_device dlls_documented True (pcan_New (DefaultConfig Classic 0)) acts opened_pcan"
    using opened_pcan_run by auto
  from open_bus_is_live [OF new_driver.intros(4) this] show ?thesis
    using opened_pcan_open by (simp del: bus_do.simps)
qed

text \<open>C16: the hazard that the previous theorem excludes, on every driver. When a Close of an open bus has
  marked it closed and an Open runs before the device is stopped, the Open reports success; then the
  device stops. The bus stays marked open: a frame is refused by the closed device, Subscribe fails,
  and Open answers that the bus is already open.\<close>
theorem overtaking_open_leaves_dead_bus:
  assumes "new_driver b0" "bus_run backend_device dlls_documented True b0 acts b" "bu_open b"
    "dlls_documented e"
  shows "\<exists>b'. bus_replay backend_device False [CloseBegin, OpenBegin CtxLive e, OpenStart, CloseStop] b =
      Some ([Pending, Pending, Replied None, Replied None], b') \<and>
    bu_open b' \<and> \<not> backend_live (bu_device b') \<and>
    (\<forall>c f. bus_send_checks CtxLive f = Inr () \<longrightarrow> (\<exists>b''. bus_do backend_device (SendFrame CtxLive c e f) b' =
      Some (Replied (Some (WriteFailed DriverNotOpen)), b''))) \<and>
    bus_do backend_device (OpenBegin CtxLive e) b' = Some (Replied (Some (BusErr ErrAlreadyOpen)), b') \<and>
    bus_do backend_device SubscribeTo b' = Some (Subscribed False, b')"
proof -
  obtain d where d: "b0 = newBus d" "backend_ok d" "\<not> backend_live d" using new_driver_ok [OF assms(1)] by auto
  have serial: "backend.bus_serial b" using backend.run_serial [OF assms(2) [unfolded d(1)] d(2,3)] .
  obtain b' where b': "bus_replay backend_device False [CloseBegin, OpenBegin CtxLive e, OpenStart, CloseStop] b =
      Some ([Pending, Pending, Replied None, Replied None], b')"
      "backend.bus_ok b'" "bu_open b'" "\<not> backend_live (bu_device b')"
    using backend.overtaken_close [OF serial assms(3,4)] by blast
  then have "backend_ok (bu_device b')" by (simp add: backend.bus_ok_def)
  note dead = backend.dead_bus_refuses [OF this b'(3,4)]
  show ?thesis
    using b' dead(1) [of _ _ e] dead(2) [of e] dead(3) by (intro exI [of _ b']) auto
qed

lemma overtaking_open_leaves_dead_bus_witness:
  "\<exists>b'. bus_replay backend_device False [CloseBegin, OpenBegin CtxLive working, OpenStart, CloseStop]
      opened_pcan = Some ([Pending, Pending, Replied None, Replied None], b') \<and>
    bu_open b' \<and> \<not> backend_live (bu_device b')"
proof -
  obtain acts where "bus_run backend_device dlls_documented True (pcan_New (DefaultConfig Classic 0)) acts opened_pcan"
    using opened_pcan_run by auto
  from overtaking_open_leaves_dead_bus [OF new_driver.intros(4) this opened_pcan_open working_documented]
  show ?thesis by blast
qed


definition brs_frame :: Frame where
  "brs_frame = \<lparr>f_Direction = Transmit, f_ID = 0x123, f_DLC = 9, f_Data = replicate 64 0, f_FD = True,
     f_BRS = True, f_Extended = False, f_TimestampUS = 0\<rparr>"

definition locked_pcan :: "(bus_reply list \<times> backend bus) option" where
  "locked_pcan = bus_replay backend_device True
     [SendFrame CtxLive CtxLive working brs_frame, CloseBegin, CloseStop] opened_pcan"

definition reopened_pcan :: "(bus_reply list \<times> backend bus) option" where
  "reopened_pcan = bus_replay backend_device True [OpenBegin CtxLive working, OpenFail] (snd (the locked_pcan))"


section \<open>Automatic selection\<close>

text \<open>C18: automatic selection takes the first of Toomoss, TSMaster, PCAN and Vector that initialises in the
  mode of the configuration, tries no further one, and reports exactly those before it. The one
  selected is live; each one rejected has been stopped and holds nothing.\<close>
theorem auto_selects_first_available:
  assumes "dlls_documented e"
  shows "\<exists>sel errs. auto_try vendor_device e cfg defaultAutoCandidates = Some (sel, errs) \<and>
    map_option fst sel = map_option ac_Name (List.find (candidate_opens vendor_device e cfg) defaultAutoCandidates) \<and>
    map fst errs = map ac_Name (takeWhile (\<lambda>c. \<not> candidate_opens vendor_device e cfg c) defaultAutoCandidates) \<and>
    (\<forall>name d. sel = Some (name, d) \<longrightarrow> vendor_live d \<and> dv_isFD vendor_device d = (cfg_Mode cfg = FD)) \<and>
    (\<forall>name d. (name, Some d) \<in> set errs \<longrightarrow> \<not> vendor_live d \<and> vendor_held d = {})"
proof -
  have "vendor.fresh_candidates defaultAutoCandidates"
    using new_auto_ok [of cfg] by (simp add: vendor.auto_ok_def newAutoDevice_def defaultAutoCandidates_def)
  then obtain sel errs where "auto_try vendor_device e cfg defaultAutoCandidates = Some (sel, errs)"
      "vendor.auto_result cfg (sel, errs)"
    using vendor.auto_try_ok [OF assms, of defaultAutoCandidates cfg] by (auto simp: returns_def)
  then show ?thesis
    using auto_try_find [of vendor_device e cfg defaultAutoCandidates sel errs]
    by (auto simp: vendor.auto_result_def)
qed

lemma auto_selects_first_available_witness:
  "\<exists>sel errs. auto_try vendor_device working (DefaultConfig FD 0) defaultAutoCandidates = Some (sel, errs) \<and>
    map_option fst sel = map_option ac_Name
      (List.find (candidate_opens vendor_device working (DefaultConfig FD 0)) defaultAutoCandidates)"
  using auto_selects_first_available [OF working_documented] by blast

section \<open>Incomplete DLLs\<close>


end
