(* ===== verification/Driver_Wire.thy ===== *)
theory Driver_Wire
  imports Pcan_Driver Canalyst_Driver Toomoss_Driver Tsmaster_Driver Vector_Driver
begin

text \<open>
  What the five drivers promise together: a frame that \<open>bus.Send\<close> lets through comes back unchanged
  when the device confirms its transmission, and what the drivers hand to the subscribers is a
  standard frame of the package \<open>can\<close>. The confirmation a device gives is the documented one: the
  message as it was passed, with the vendor's transmit flag and a time stamp.
\<close>

section \<open>Words\<close>

lemma std_id_bits: "(i :: u32) \<le> 0x7FF \<Longrightarrow> take_bit 11 i = i"
proof -
  assume "i \<le> 0x7FF"
  then have "i < 2 ^ 11" by (rule le_less_trans) simp
  then show ?thesis by (simp only: take_bit_eq_mask less_mask_eq)
qed

lemma std_id_mask: "(i :: u32) \<le> 0x7FF \<Longrightarrow> i AND 0x1FFFFFFF = i"
  and std_id_mask11: "(i :: u32) \<le> 0x7FF \<Longrightarrow> i AND 0x7FF = i"
proof -
  assume i: "i \<le> 0x7FF"
  have m: "(0x1FFFFFFF :: u32) = mask 29" "(0x7FF :: u32) = mask 11" by (simp_all add: mask_eq_exp_minus_1)
  have "i < 2 ^ 29" "i < 2 ^ 11" by (rule le_less_trans [OF i], simp)+
  then show "i AND 0x1FFFFFFF = i" "i AND 0x7FF = i" by (simp_all only: m less_mask_eq)
qed

lemma std_id_high: "(i :: u32) \<le> 0x7FF \<Longrightarrow> 11 \<le> n \<Longrightarrow> n < 32 \<Longrightarrow> i AND push_bit n 1 = 0"
proof (rule bit_word_eqI)
  fix k
  assume i: "i \<le> 0x7FF" and n: "11 \<le> n" "n < 32"
  have "bit i k \<Longrightarrow> k < 11" using std_id_bits [OF i] bit_take_bit_iff [of 11 i k] by metis
  then show "bit (i AND push_bit n 1) k = bit (0 :: u32) k" using n by (auto simp: bit_simps)
qed

lemma std_id_sint: "(i :: u32) \<le> 0x7FF \<Longrightarrow> sint i = uint i \<and> uint i \<le> 0x7FF"
proof -
  assume i: "i \<le> 0x7FF"
  have u: "uint i \<le> 0x7FF"
    using i by (simp add: word_le_def)
  have "0 \<le> uint i" by simp
  with u have b: "- 2147483648 \<le> uint i" "uint i < 2147483648" by linarith+
  have "sint i = signed_take_bit 31 (uint i)" by (simp add: sint_uint)
  also have "\<dots> = uint i" using b by (intro signed_take_bit_int_eq_self) auto
  finally show ?thesis using u by simp
qed

lemma bit31: "(0x80000000 :: u32) = push_bit 31 1"
  by simp

section \<open>Confirmed frames come back\<close>

text \<open>\<open>setBRS\<close>: \<open>bus.Send\<close> sets the option of the device to the flag of the frame before \<open>write\<close>.\<close>

definition setBRS :: "Frame \<Rightarrow> Config \<Rightarrow> Config" where
  "setBRS f cfg = cfg\<lparr>cfg_BRS := f_BRS f\<rparr>"

fun pcan_confirms :: "pcanTimestamp \<Rightarrow> u64 \<Rightarrow> pcan_wire \<Rightarrow> pcan_reply" where
  "pcan_confirms t ts (WireClassic m) =
     ReadClassic pcanErrorOK (m\<lparr>pm_MsgType := pm_MsgType m OR pcanMessageEcho\<rparr>) t"
| "pcan_confirms t ts (WireFD m) =
     ReadFD pcanErrorOK (m\<lparr>pf_MsgType := pf_MsgType m OR pcanMessageEcho\<rparr>) ts"

fun toomoss_confirms :: "u8 \<Rightarrow> u32 \<Rightarrow> toomoss_wire \<Rightarrow> toomoss_wire" where
  "toomoss_confirms h l (WireLegacy m) =
     WireLegacy (m\<lparr>tc_RemoteFlag := tc_RemoteFlag m OR toomossClassicFlagTx,
                   tc_TimeStamp := l, tc_TimeStampHigh := h\<rparr>)"
| "toomoss_confirms h l (WireCANFD m) =
     WireCANFD (m\<lparr>tf_Flags := tf_Flags m OR toomossCANFDFlagTx,
                  tf_TimeStamp := l, tf_TimeStampHigh := h\<rparr>)"

fun toomoss_receive :: "Config \<Rightarrow> toomoss_wire \<Rightarrow> disposal" where
  "toomoss_receive cfg (WireLegacy m) = toomoss_receive_classic cfg m"
| "toomoss_receive cfg (WireCANFD m) = toomoss_receive_fd cfg m"

fun vector_confirms :: "u64 \<Rightarrow> vector_wire \<Rightarrow> xlEvent + xlCanRxEvent" where
  "vector_confirms ts (WireEvent e) =
     Inl (e\<lparr>xe_Tag := vectorEventTagReceiveMsg, xe_TimeStamp := ts,
            xe_Msg := (xe_Msg e)\<lparr>xm_Flags := vectorCanMsgFlagTXCompleted\<rparr>\<rparr>)"
| "vector_confirms ts (WireTxEvent e) =
     Inr \<lparr>xr_Size = 128, xr_Tag = vectorCanFdTagTxOK, xr_ChanIndex = 0, xr_Reserved = 0,
          xr_UserHandle = 0, xr_FlagsChip = 0, xr_Reserved0 = 0, xr_Reserved1 = 0, xr_TimeStamp = ts,
          xr_Msg = \<lparr>xr_CanID = xt_CanID (xt_Msg e), xr_MsgFlags = xt_MsgFlags (xt_Msg e), xr_CRC = 0,
            xr_MsgReserved1 = replicate 12 0, xr_TotalBitCnt = 0, xr_DLC = xt_DLC (xt_Msg e),
            xr_MsgReserved = replicate 5 0, xr_Data = xt_Data (xt_Msg e)\<rparr>\<rparr>"

fun vector_receive :: "Config \<Rightarrow> xlEvent + xlCanRxEvent \<Rightarrow> disposal" where
  "vector_receive cfg (Inl e) = vector_event_classic cfg e"
| "vector_receive cfg (Inr e) = vector_event_fd cfg e"

lemma w_message_transmit [simp]: "w_message (transmit ok m f) = Some m"
  by (simp add: transmit_def)

lemma padded_64 [simp]: "length xs \<le> 64 \<Longrightarrow> go_copy (replicate 64 0) (xs @ replicate (64 - length xs) 0) =
    xs @ replicate (64 - length xs) (0 :: u8)"
  using copy_padded [of xs 64 64] by simp

lemma padded_8 [simp]: "length xs \<le> 8 \<Longrightarrow> go_copy (replicate 64 0) (xs @ replicate (8 - length xs) 0) =
    xs @ replicate (64 - length xs) (0 :: u8)"
  using copy_padded [of xs 8 64] by simp

lemma confirmation_fields:
  "confirmation f ts = \<lparr>f_Direction = Transmit, f_ID = f_ID f, f_DLC = f_DLC f,
     f_Data = frame_data f @ replicate (64 - length (frame_data f)) 0, f_FD = f_FD f,
     f_BRS = f_BRS f, f_Extended = f_Extended f, f_TimestampUS = ts\<rparr>"
  by (cases f) (simp add: confirmation_def)

lemma sent_length_word: "sendable f \<Longrightarrow> \<not> f_FD f \<Longrightarrow> word_of_nat (length (frame_data f)) = f_DLC f"
  using classic_length [of f] length_frame_data [of f] by (metis of_int_of_nat_eq word_of_int_uint)

lemma pad_join [simp]:
  "length xs \<le> 8 \<Longrightarrow>
   replicate (8 - length xs) (0 :: u8) @ replicate 56 0 = replicate (64 - length xs) 0"
  by (simp flip: replicate_add)

lemma pcan_comes_back:
  assumes f: "sendable f" and p: "pc_initialized p" "pc_cfg p = setBRS f cfg"
    and mode: "pc_canType p = FD \<or> pc_canType p = Classic \<and> \<not> f_FD f"
  shows "\<exists>m. w_message (pcan_write dll p f) = Some m \<and>
    enqueue_reply cfg (pcan_confirms t ts m) =
      dispose cfg (confirmation f (if pc_canType p = FD then ts else pcanClassicTimestampUS t))"
proof -
  note l = frame_data_le [OF f] sendable_roundtrip_dlc [OF f] sendable_flags [OF f]
  have i: "\<not> f_ID f > 0x7FF" using sendable_id [OF f] by simp
  show ?thesis
    using p mode l i sent_length_word [OF f] classic_data_le [OF f]
    by (cases "f_FD f"; cases "f_BRS f"; cases "pc_canType p = FD")
      (auto simp: pcan_write_def Let_def enqueueMessage_def pcan_messages setBRS_def confirmation_fields
        copy_into_zeros FD_def Classic_def)
qed

lemma tsmaster_copy_loop:
  "i + length data \<le> length d \<Longrightarrow> length data \<le> k \<Longrightarrow>
   ts_copy_loop i k data d = take i d @ data @ drop (i + length data) d"
proof (induction i k data d rule: ts_copy_loop.induct)
  case (3 i k x data d)
  then show ?case by (simp add: take_Suc_conv_app_nth)
qed simp_all

lemma sendable_dlcLen: "sendable f \<Longrightarrow> dlcLen (f_DLC f) = int (length (frame_data f))"
  using length_frame_data [of f] by (simp add: dlcLen_def DataLength_def)

lemma tsmaster_comes_back:
  assumes f: "sendable f" and t: "ts_initialized t" "ts_cfg t = setBRS f cfg"
    and us: "0 \<le> sint us"
  shows "\<exists>m. w_message (tsmaster_write dll t f) = Some m \<and>
    tsmaster_receive cfg (m\<lparr>tl_FTimeUs := us\<rparr>) = dispose cfg (confirmation f us)"
proof -
  note l = frame_data_le [OF f] sendable_roundtrip_dlc [OF f] sendable_flags [OF f]
    sendable_dlcLen [OF f] sendable_dlc [OF f] std_id_sint [OF sendable_id [OF f]]
  have d: "\<not> f_DLC f > 15" using sendable_dlc [OF f] by (simp add: not_less)
  have c: "ts_copy_loop 0 (length (frame_data f)) (frame_data f) (replicate 64 0) =
      frame_data f @ replicate (64 - length (frame_data f)) 0"
    using l(1) by (subst tsmaster_copy_loop) simp_all
  show ?thesis
    using t us l d c
    by (cases "f_FD f"; cases "f_BRS f")
      (auto simp: tsmaster_write_def Let_def tsmaster_receive_def ts_properties setBRS_def
        confirmation_fields tsmasterTimestampUS_def)
qed

lemma flag_channel_apart:
  "(push_bit 5 c AND 0x60) AND (0x01 :: u8) = 0" "(push_bit 5 c AND 0x60 OR 0x80) AND (0x01 :: u8) = 0"
  "(push_bit 5 c AND 0x60 OR 0x80) AND (0x80 :: u8) = 0x80"
  by (simp_all add: bit.conj_disj_distrib2 and.assoc)

lemma toomoss_legacy_comes_back:
  assumes f: "sendable f" and t: "to_initialized t" "to_legacyCAN t" "to_canSend t" and c: "\<not> f_FD f"
  shows "\<exists>m. w_message (toomoss_write dll t f) = Some m \<and>
    toomoss_receive cfg (toomoss_confirms h l m) =
      dispose cfg (confirmation f (toomossTimestampUS h l 100))"
proof -
  note l = sendable_roundtrip_dlc [OF f] sendable_flags [OF f] sent_length_word [OF f c]
    classic_data_le [OF f c] std_id_mask11 [OF sendable_id [OF f]]
  have u: "unat (f_DLC f) = length (frame_data f)"
    using classic_length [OF f c] length_frame_data [OF f] by (metis nat_int nat_uint_eq)
  have "uint (f_DLC f) = int (length (frame_data f))"
    using classic_length [OF f c] length_frame_data [OF f] by simp
  then show ?thesis
    using t c l u
    by (auto simp: toomoss_write_def writeClassicCAN_def Let_def toomoss_receive_classic_def
        decodeToomossClassicFlags_def encodeToomossClassicFlags_def toomoss_flags
        confirmation_fields flag_channel_apart copy_into_zeros)
qed

lemma toomoss_fd_comes_back:
  assumes f: "sendable f" and t: "to_initialized t" "\<not> to_legacyCAN t" "to_cfg t = setBRS f cfg"
  shows "\<exists>m. w_message (toomoss_write dll t f) = Some m \<and>
    toomoss_receive cfg (toomoss_confirms h l m) =
      dispose cfg (confirmation f (toomossTimestampUS h l 10))"
proof -
  note i = sendable_id [OF f]
  note l = frame_data_le [OF f] sendable_roundtrip_dlc [OF f] sendable_flags [OF f]
    sendable_dlcLen [OF f] std_id_mask [OF i] std_id_high [OF i, of 30] std_id_high [OF i, of 31]
  have n: "\<not> f_ID f > 0x7FF" using i by simp
  have w: "uint (word_of_nat (length (frame_data f)) :: u8) = int (length (frame_data f))"
    using l(1) by (simp add: unsigned_of_nat take_bit_nat_eq_self)
  have s: "\<not> f_FD f \<Longrightarrow> length (frame_data f) \<le> 8" using classic_data_le [OF f] by simp
  show ?thesis
    using t l n w s
    by (cases "f_FD f"; cases "f_BRS f")
      (auto simp: toomoss_write_def Let_def toomoss_receive_fd_def decodeToomossCANFDID_def
        decodeToomossCANFDFlags_def toomossDLCToDataLen_def toomoss_flags setBRS_def
        confirmation_fields copy_into_zeros)
qed

lemma vector_comes_back:
  assumes f: "sendable f" and v: "ve_initialized v" "ve_cfg v = setBRS f cfg"
    and mode: "ve_canType v = FD \<or> ve_canType v = Classic \<and> \<not> f_FD f"
  shows "\<exists>m. w_message (vector_write dll v f) = Some m \<and>
    vector_receive cfg (vector_confirms ts m) = dispose cfg (confirmation f (ts div 1000))"
proof -
  note i = sendable_id [OF f]
  note l = frame_data_le [OF f] sendable_roundtrip_dlc [OF f] sendable_flags [OF f]
    sendable_dlcLen [OF f] std_id_mask [OF i] std_id_high [OF i, of 31]
  have n: "\<not> f_ID f > 0x7FF" using i by simp
  have w: "(ucast (word_of_nat (length (frame_data f)) :: u16) :: u8) = f_DLC f \<and> \<not> f_DLC f > 8"
    if "\<not> f_FD f"
  proof -
    have "(ucast (word_of_nat (length (frame_data f)) :: u16) :: u8) = word_of_nat (length (frame_data f))"
      using classic_data_le [OF f that] by (simp add: unsigned_of_nat take_bit_nat_eq_self)
    then show ?thesis using sent_length_word [OF f that] sendable_dlc [OF f] that by auto
  qed
  show ?thesis
    using v mode l n w classic_data_le [OF f]
    by (cases "f_FD f"; cases "f_BRS f"; cases "ve_canType v = FD")
      (auto simp: vector_write_def Let_def vector_event_fd_def vector_event_classic_def vector_flags
        vector_tags setBRS_def confirmation_fields copy_into_zeros FD_def Classic_def)
qed

lemma canalyst_comes_back:
  assumes f: "sendable f" and c: "ca_initialized c" "ca_opened c" and classic: "\<not> f_FD f"
  shows "\<exists>m. w_message (canalyst_write dll c f) = Some m \<and>
    canalyst_receive (m\<lparr>vo_TimeStamp := ts, vo_TimeFlag := flag\<rparr>) =
      Published ((confirmation f (canalystTimestampUS ts flag))\<lparr>f_Direction := Receive\<rparr>)"
proof -
  have d: "\<not> f_DLC f > 8" "\<not> f_ID f > 0x7FF"
    using sendable_dlc [OF f] sendable_id [OF f] classic by (auto simp: not_less)
  have u: "unat (f_DLC f) = length (frame_data f)"
    using classic_length [OF f classic] length_frame_data [OF f] by (metis nat_int nat_uint_eq)
  show ?thesis
    using c classic d u sent_length_word [OF f classic] classic_data_le [OF f classic]
      sendable_flags [OF f]
    by (auto simp: canalyst_write_def Let_def canalyst_receive_def confirmation_fields copy_into_zeros)
qed

text \<open>
  C34: Every frame that passes the checks of \<open>bus.Send\<close> is put on the wire so that its confirmation is
  read back as the same frame, marked as transmitted and with the time of the device: identifier,
  length code, payload and flags survive the PCAN, TSMaster, Toomoss (classic and FD) and Vector
  formats. CANalyst-II, which confirms nothing, gives the same frame to a receiver.
\<close>

theorem sent_frames_come_back:
  assumes "sendable f"
  shows
    "(pc_initialized p \<and> pc_cfg p = setBRS f cfg \<and>
       (pc_canType p = FD \<or> pc_canType p = Classic \<and> \<not> f_FD f) \<longrightarrow>
      (\<exists>m. w_message (pcan_write pcan_dll p f) = Some m \<and>
        enqueue_reply cfg (pcan_confirms t ts m) =
          dispose cfg (confirmation f (if pc_canType p = FD then ts else pcanClassicTimestampUS t)))) \<and>
     (ts_initialized tm \<and> ts_cfg tm = setBRS f cfg \<and> 0 \<le> sint us \<longrightarrow>
      (\<exists>m. w_message (tsmaster_write ts_dll tm f) = Some m \<and>
        tsmaster_receive cfg (m\<lparr>tl_FTimeUs := us\<rparr>) = dispose cfg (confirmation f us))) \<and>
     (to_initialized tmo \<and> to_cfg tmo = setBRS f cfg \<and> (to_legacyCAN tmo \<longrightarrow> to_canSend tmo \<and> \<not> f_FD f) \<longrightarrow>
      (\<exists>m. w_message (toomoss_write to_dll tmo f) = Some m \<and>
        toomoss_receive cfg (toomoss_confirms h l m) =
          dispose cfg (confirmation f (toomossTimestampUS h l (if to_legacyCAN tmo then 100 else 10))))) \<and>
     (ve_initialized v \<and> ve_cfg v = setBRS f cfg \<and>
       (ve_canType v = FD \<or> ve_canType v = Classic \<and> \<not> f_FD f) \<longrightarrow>
      (\<exists>m. w_message (vector_write ve_dll v f) = Some m \<and>
        vector_receive cfg (vector_confirms ts m) = dispose cfg (confirmation f (ts div 1000)))) \<and>
     (ca_initialized c \<and> ca_opened c \<and> \<not> f_FD f \<longrightarrow>
      (\<exists>m. w_message (canalyst_write ca_dll c f) = Some m \<and>
        canalyst_receive (m\<lparr>vo_TimeStamp := cts, vo_TimeFlag := flag\<rparr>) =
          Published ((confirmation f (canalystTimestampUS cts flag))\<lparr>f_Direction := Receive\<rparr>)))"
proof (intro conjI impI; elim conjE)
  assume "pc_initialized p" "pc_cfg p = setBRS f cfg"
    "pc_canType p = FD \<or> pc_canType p = Classic \<and> \<not> f_FD f"
  then show "\<exists>m. w_message (pcan_write pcan_dll p f) = Some m \<and>
      enqueue_reply cfg (pcan_confirms t ts m) =
        dispose cfg (confirmation f (if pc_canType p = FD then ts else pcanClassicTimestampUS t))"
    by (rule pcan_comes_back [OF assms])
next
  assume "to_initialized tmo" "to_cfg tmo = setBRS f cfg" "to_legacyCAN tmo \<longrightarrow> to_canSend tmo \<and> \<not> f_FD f"
  then show "\<exists>m. w_message (toomoss_write to_dll tmo f) = Some m \<and>
      toomoss_receive cfg (toomoss_confirms h l m) =
        dispose cfg (confirmation f (toomossTimestampUS h l (if to_legacyCAN tmo then 100 else 10)))"
    using toomoss_legacy_comes_back [OF assms, of tmo to_dll cfg h l]
      toomoss_fd_comes_back [OF assms, of tmo cfg to_dll h l]
    by (cases "to_legacyCAN tmo") simp_all
qed (use tsmaster_comes_back [OF assms] vector_comes_back [OF assms] canalyst_comes_back [OF assms] in blast)+

definition tester_frame :: Frame where
  "tester_frame = \<lparr>f_Direction = Transmit, f_ID = 0x7E0, f_DLC = 2, f_Data = 0x3E # replicate 63 0,
     f_FD = False, f_BRS = False, f_Extended = False, f_TimestampUS = 0\<rparr>"

lemma tester_sendable: "sendable tester_frame"
  by (simp add: sendable_def tester_frame_def bus_send_checks_def Frame_Validate_def
      ValidDataLength_def DLCToLength_def validateFrame_def)

lemma sent_frames_come_back_witness:
  "\<exists>m. w_message (vector_write (\<lambda>_. True)
         \<lparr>ve_initialized = True, ve_canType = Classic, ve_cfg = DefaultConfig Classic 0\<rparr> tester_frame)
       = Some m \<and>
     vector_receive (DefaultConfig Classic 0) (vector_confirms 5000 m) =
       Observed (confirmation tester_frame 5)"
  using sent_frames_come_back [OF tester_sendable,
    where v = "\<lparr>ve_initialized = True, ve_canType = Classic, ve_cfg = DefaultConfig Classic 0\<rparr>"
      and cfg = "DefaultConfig Classic 0" and ts = 5000 and ve_dll = "\<lambda>_. True"]
  by (simp add: setBRS_def DefaultConfig_def tester_frame_def dispose_def confirmation_fields)

section \<open>What the subscribers receive\<close>

lemma valid_iff:
  assumes "\<not> f_Extended f" "f_ID f \<le> 0x7FF"
  shows "Frame_Validate f = Inr () \<longleftrightarrow>
    f_DLC f \<le> (if f_FD f then 15 else 8) \<and> (f_BRS f \<longrightarrow> f_FD f)"
proof -
  have i: "\<not> f_ID f > 0x7FF" using assms by simp
  have le: "(8 :: u8) \<le> 15" by simp
  have c: "\<not> f_DLC f > 8 \<Longrightarrow> DLCToLength (f_DLC f) = (uint (f_DLC f), True) \<and> uint (f_DLC f) \<le> 8"
    by (simp add: DLCToLength_def word_less_def not_less word_le_def)
  have d: "\<not> f_DLC f > 15 \<Longrightarrow> snd (DLCToLength (f_DLC f)) \<and> fst (DLCToLength (f_DLC f)) \<le> 64 \<and>
      0 \<le> fst (DLCToLength (f_DLC f))"
    using DataLength_range [of f] by (auto simp: DataLength_def DLCToLength_def)
  show ?thesis
    using assms i c d
    by (auto simp: Frame_Validate_def ValidDataLength_def validateFrame_def Let_def not_less
        split: prod.splits if_splits)
qed

lemma masked_std: "\<not> (i AND 0x1FFFFFFF :: u32) > 0x7FF \<Longrightarrow> i AND 0x1FFFFFFF \<le> 0x7FF"
  by (simp add: not_less)

lemma word_and_le_right: "(i AND m :: 'a::len word) \<le> m"
  by (simp add: word_and_le1)

lemma canalyst_published:
  "disposed_frame (canalyst_receive msg) = Some fr \<Longrightarrow> length (vo_Data msg) = 8 \<Longrightarrow>
   \<not> f_Extended fr \<and> f_ID fr \<le> 0x7FF \<and> length (f_Data fr) = 64 \<and> f_DLC fr \<le> 8 \<and> \<not> f_BRS fr \<and> \<not> f_FD fr"
  by (auto simp: canalyst_receive_def not_less split: if_splits)

lemma pcan_published:
  "disposed_frame (enqueueMessage cfg i dlc d mt ts) = Some fr \<Longrightarrow>
   \<not> f_Extended fr \<and> f_ID fr \<le> 0x7FF \<and> length (f_Data fr) = 64 \<and> f_DLC fr = dlc \<and>
   (f_BRS fr \<longrightarrow> f_FD fr) \<and> f_FD fr = (mt AND pcanMessageFD \<noteq> 0)"
  by (auto simp: enqueueMessage_def Let_def not_less split: if_splits)

lemma tsmaster_published:
  "disposed_frame (tsmaster_receive cfg msg) = Some fr \<Longrightarrow> length (tl_FData msg) = 64 \<Longrightarrow>
   \<not> f_Extended fr \<and> f_ID fr \<le> 0x7FF \<and> length (f_Data fr) = 64 \<and> f_DLC fr \<le> 15 \<and>
   f_FD fr = (tl_FFDProperties msg AND tsCANFDPropertyEDL \<noteq> 0) \<and>
   f_BRS fr = (tl_FFDProperties msg AND tsCANFDPropertyBRS \<noteq> 0) \<and> f_DLC fr = tl_FDLC msg"
proof -
  assume *: "disposed_frame (tsmaster_receive cfg msg) = Some fr" "length (tl_FData msg) = 64"
  let ?i = "tl_FIdentifier msg"
  have i: "0 \<le> sint ?i" "sint ?i \<le> 0x7FF" using * by (auto simp: tsmaster_receive_def split: if_splits)
  then have "uint ?i = sint ?i" by (simp add: uint_sint take_bit_int_eq_self)
  then have "?i \<le> 0x7FF" using i by (simp add: word_le_def)
  then show ?thesis using * by (auto simp: tsmaster_receive_def not_less split: if_splits)
qed

lemma toomoss_fd_published:
  "disposed_frame (toomoss_receive_fd cfg msg) = Some fr \<Longrightarrow> length (tf_Data msg) = 64 \<Longrightarrow>
   \<not> f_Extended fr \<and> f_ID fr \<le> 0x7FF \<and> length (f_Data fr) = 64 \<and>
   f_DLC fr \<le> (if f_FD fr then 15 else 8) \<and> (f_BRS fr \<longrightarrow> f_FD fr)"
  using LengthToDLC_le_15 [of "toomossDLCToDataLen (tf_DLC msg) (f_FD fr)"]
    small_length_word(1) [of "toomossDLCToDataLen (tf_DLC msg) False"]
  by (auto simp: toomoss_receive_fd_def decodeToomossCANFDID_def decodeToomossCANFDFlags_def not_less
      toomossCANFDIDMaskStandard_def toomossDLCToDataLen_def LengthToDLC_def Let_def
      split: if_splits)

lemma toomoss_classic_published:
  "disposed_frame (toomoss_receive_classic cfg msg) = Some fr \<Longrightarrow> length (tc_Data msg) = 8 \<Longrightarrow>
   \<not> f_Extended fr \<and> f_ID fr \<le> 0x7FF \<and> length (f_Data fr) = 64 \<and> f_DLC fr \<le> 8 \<and> \<not> f_BRS fr \<and> \<not> f_FD fr"
  using small_length_word(1) [of "min (uint (tc_DataLen msg)) 8"]
    word_and_le_right [of "tc_ID msg" toomossCANFDIDMaskStandard]
  by (auto simp: toomoss_receive_classic_def decodeToomossClassicFlags_def Let_def LengthToDLC_def
      toomossCANFDIDMaskStandard_def min_def split: if_splits)

lemma vector_classic_published:
  "disposed_frame (vector_event_classic cfg event) = Some fr \<Longrightarrow>
   \<not> f_Extended fr \<and> f_ID fr \<le> 0x7FF \<and> length (f_Data fr) = 64 \<and> f_DLC fr \<le> 8 \<and> \<not> f_BRS fr \<and> \<not> f_FD fr"
  by (auto simp: vector_event_classic_def Let_def not_less split: if_splits)

lemma vector_fd_published:
  "disposed_frame (vector_event_fd cfg event) = Some fr \<Longrightarrow>
   \<not> f_Extended fr \<and> f_ID fr \<le> 0x7FF \<and> length (f_Data fr) = 64 \<and> (f_BRS fr \<longrightarrow> f_FD fr) \<and>
   f_DLC fr = xr_DLC (xr_Msg event) \<and>
   f_FD fr = (xr_MsgFlags (xr_Msg event) AND vectorCanFdRxFlagEDL \<noteq> 0)"
  by (auto simp: vector_event_fd_def Let_def not_less split: if_splits)

text \<open>
  C35: Whatever a DLL delivers, the CANalyst-II and Toomoss drivers and the classic Vector driver pass
  on only frames that \<open>Validate\<close> accepts. The PCAN and the Vector FD driver pass on an invalid frame
  exactly when the length code of the message is above 15, or above 8 in a message without the FD
  flag, and the TSMaster driver exactly when a message without the FD flag has a length code above 8
  or the bit-rate-switch flag.
\<close>

theorem published_frames_valid:
  assumes "length (vo_Data cm) = 8" and "length (tc_Data tc) = 8" and "length (tf_Data tf) = 64"
    and "length (tl_FData tm) = 64"
  shows
    "(\<forall>fr. disposed_frame (canalyst_receive cm) = Some fr \<longrightarrow> Frame_Validate fr = Inr ()) \<and>
     (\<forall>fr. disposed_frame (toomoss_receive_classic cfg tc) = Some fr \<longrightarrow> Frame_Validate fr = Inr ()) \<and>
     (\<forall>fr. disposed_frame (toomoss_receive_fd cfg tf) = Some fr \<longrightarrow> Frame_Validate fr = Inr ()) \<and>
     (\<forall>fr. disposed_frame (vector_event_classic cfg ve) = Some fr \<longrightarrow> Frame_Validate fr = Inr ()) \<and>
     (\<forall>fr. disposed_frame (enqueueMessage cfg i dlc d mt ts) = Some fr \<longrightarrow>
        (Frame_Validate fr = Inr () \<longleftrightarrow> dlc \<le> (if mt AND pcanMessageFD \<noteq> 0 then 15 else 8))) \<and>
     (\<forall>fr. disposed_frame (vector_event_fd cfg vf) = Some fr \<longrightarrow>
        (Frame_Validate fr = Inr () \<longleftrightarrow>
         xr_DLC (xr_Msg vf) \<le> (if xr_MsgFlags (xr_Msg vf) AND vectorCanFdRxFlagEDL \<noteq> 0 then 15 else 8))) \<and>
     (\<forall>fr. disposed_frame (tsmaster_receive cfg tm) = Some fr \<longrightarrow>
        (Frame_Validate fr = Inr () \<longleftrightarrow>
         tl_FFDProperties tm AND tsCANFDPropertyEDL \<noteq> 0 \<or>
         tl_FDLC tm \<le> 8 \<and> tl_FFDProperties tm AND tsCANFDPropertyBRS = 0))"
proof (intro conjI allI impI)
  fix fr
  show "disposed_frame (canalyst_receive cm) = Some fr \<Longrightarrow> Frame_Validate fr = Inr ()"
    using canalyst_published [of cm fr] assms(1) by (simp add: valid_iff)
  show "disposed_frame (toomoss_receive_classic cfg tc) = Some fr \<Longrightarrow> Frame_Validate fr = Inr ()"
    using toomoss_classic_published [of cfg tc fr] assms(2) by (simp add: valid_iff)
  show "disposed_frame (toomoss_receive_fd cfg tf) = Some fr \<Longrightarrow> Frame_Validate fr = Inr ()"
    using toomoss_fd_published [of cfg tf fr] assms(3) by (simp add: valid_iff)
  show "disposed_frame (vector_event_classic cfg ve) = Some fr \<Longrightarrow> Frame_Validate fr = Inr ()"
    using vector_classic_published [of cfg ve fr] by (simp add: valid_iff)
  show "disposed_frame (enqueueMessage cfg i dlc d mt ts) = Some fr \<Longrightarrow>
      (Frame_Validate fr = Inr () \<longleftrightarrow> dlc \<le> (if mt AND pcanMessageFD \<noteq> 0 then 15 else 8))"
    using pcan_published [of cfg i dlc d mt ts fr] by (auto simp: valid_iff)
  show "disposed_frame (vector_event_fd cfg vf) = Some fr \<Longrightarrow>
      (Frame_Validate fr = Inr () \<longleftrightarrow>
       xr_DLC (xr_Msg vf) \<le> (if xr_MsgFlags (xr_Msg vf) AND vectorCanFdRxFlagEDL \<noteq> 0 then 15 else 8))"
    using vector_fd_published [of cfg vf fr] by (auto simp: valid_iff)
  show "disposed_frame (tsmaster_receive cfg tm) = Some fr \<Longrightarrow>
      (Frame_Validate fr = Inr () \<longleftrightarrow> tl_FFDProperties tm AND tsCANFDPropertyEDL \<noteq> 0 \<or>
         tl_FDLC tm \<le> 8 \<and> tl_FFDProperties tm AND tsCANFDPropertyBRS = 0)"
    using tsmaster_published [of cfg tm fr] assms(4) by (auto simp: valid_iff)
qed

text \<open>A classic frame with the raw length code 9, legal on the bus, reaches the subscribers of PCAN.\<close>

lemma published_frames_valid_witness:
  "\<exists>fr. disposed_frame (enqueueMessage (DefaultConfig FD 0) 0x123 9 (replicate 64 0) 0 0) = Some fr \<and>
     Frame_Validate fr \<noteq> Inr ()"
proof -
  let ?r = "enqueueMessage (DefaultConfig FD 0) 0x123 9 (replicate 64 0) 0 0"
  obtain fr where fr: "disposed_frame ?r = Some fr"
    by (cases ?r) (simp_all add: enqueueMessage_def pcan_messages dispose_def)
  have "Frame_Validate fr \<noteq> Inr ()"
    using published_frames_valid
      [of "\<lparr>vo_ID = 0, vo_TimeStamp = 0, vo_TimeFlag = 0, vo_SendType = 0, vo_RemoteFlag = 0,
            vo_ExternFlag = 0, vo_DataLen = 0, vo_Data = replicate 8 0, vo_Reserved = replicate 3 0\<rparr>"
          "\<lparr>tc_ID = 0, tc_TimeStamp = 0, tc_RemoteFlag = 0, tc_ExternFlag = 0, tc_DataLen = 0,
            tc_Data = replicate 8 0, tc_TimeStampHigh = 0\<rparr>"
          "\<lparr>tf_ID = 0, tf_DLC = 0, tf_Flags = 0, tf_Res0 = 0, tf_TimeStampHigh = 0, tf_TimeStamp = 0,
            tf_Data = replicate 64 0\<rparr>"
          "\<lparr>tl_FIdxChn = 0, tl_FProperties = 0, tl_FDLC = 0, tl_FFDProperties = 0, tl_FIdentifier = 0,
            tl_FTimeUs = 0, tl_FData = replicate 64 0\<rparr>"
          "DefaultConfig FD 0" _ "0x123" 9 "replicate 64 0" 0 0] fr
    by (simp add: pcanMessageFD_def)
  with fr show ?thesis by blast
qed

end
