(* ===== verification/Bus_Bits.thy ===== *)
theory Bus_Bits
  imports Can_Frame
begin

text \<open>
  How long a frame occupies the bus (driver/internal/backend/busload.go, the functions from
  \<open>busFrameKey\<close> to the end of the file): bit counts of classic and FD frames with their dynamic
  stuff bits, the CRC-15 register, occupancy in nanoseconds and the key that matches an echo to
  a transmission.

  The counters are compared with bit strings: \<open>stuff\<close> is the stuffing of ISO 11898-1 on a list
  of bits, characterised by its inverse \<open>destuff\<close> and by the absence of six equal bits in a row.
\<close>

section \<open>The counters\<close>

record canFDStuffCounter =
  fc_nominal :: int
  fc_data :: int
  fc_run :: int
  fc_prev :: u8
  fc_set :: bool

definition fd_increment :: "bool \<Rightarrow> canFDStuffCounter \<Rightarrow> canFDStuffCounter" where
  "fd_increment dataPhase c =
     (if dataPhase then c\<lparr>fc_data := fc_data c + 1\<rparr> else c\<lparr>fc_nominal := fc_nominal c + 1\<rparr>)"

definition fd_count :: "u8 \<Rightarrow> bool \<Rightarrow> canFDStuffCounter \<Rightarrow> canFDStuffCounter" where
  "fd_count b0 dataPhase c0 =
     (let b = b0 AND 1;
          c1 = fd_increment dataPhase c0;
          c2 = (if fc_set c1 \<and> b = fc_prev c1 then c1\<lparr>fc_run := fc_run c1 + 1\<rparr>
                else c1\<lparr>fc_run := 1, fc_prev := b, fc_set := True\<rparr>)
      in if fc_run c2 = 5
         then let c3 = fd_increment dataPhase c2
              in c3\<lparr>fc_run := 1, fc_prev := fc_prev c3 XOR 1\<rparr>
         else c2)"

text \<open>\<open>for i := n - 1; i >= 0; i--\<close>\<close>

fun fd_add :: "u32 \<Rightarrow> nat \<Rightarrow> bool \<Rightarrow> canFDStuffCounter \<Rightarrow> canFDStuffCounter" where
  "fd_add v 0 dataPhase c = c"
| "fd_add v (Suc i) dataPhase c =
     fd_add v i dataPhase (fd_count (ucast (drop_bit i v AND 1)) dataPhase c)"

record canBitCounter =
  bc_crc :: u16
  bc_total :: int
  bc_run :: int
  bc_prev :: u8
  bc_set :: bool

definition bc_count :: "u8 \<Rightarrow> canBitCounter \<Rightarrow> canBitCounter" where
  "bc_count b0 c0 =
     (let b = b0 AND 1;
          c1 = c0\<lparr>bc_total := bc_total c0 + 1\<rparr>;
          c2 = (if bc_set c1 \<and> b = bc_prev c1 then c1\<lparr>bc_run := bc_run c1 + 1\<rparr>
                else c1\<lparr>bc_run := 1, bc_prev := b, bc_set := True\<rparr>)
      in if bc_run c2 = 5
         then c2\<lparr>bc_total := bc_total c2 + 1, bc_run := 1, bc_prev := bc_prev c2 XOR 1\<rparr>
         else c2)"

fun bc_add :: "u32 \<Rightarrow> nat \<Rightarrow> canBitCounter \<Rightarrow> canBitCounter" where
  "bc_add v 0 c = c"
| "bc_add v (Suc i) c = bc_add v i (bc_count (ucast (drop_bit i v AND 1)) c)"

definition crc_step :: "u8 \<Rightarrow> u16 \<Rightarrow> u16" where
  "crc_step b crc =
     (let msb = ucast (drop_bit 14 crc AND 1) :: u8;
          crc1 = push_bit 1 crc AND 0x7fff
      in if msb XOR b = 1 then crc1 XOR 0x4599 else crc1)"

fun bc_addCRC :: "u32 \<Rightarrow> nat \<Rightarrow> canBitCounter \<Rightarrow> canBitCounter" where
  "bc_addCRC v 0 c = c"
| "bc_addCRC v (Suc i) c =
     (let b = ucast (drop_bit i v AND 1) :: u8
      in bc_addCRC v i (bc_count b (c\<lparr>bc_crc := crc_step b (bc_crc c)\<rparr>)))"

section \<open>Frame lengths\<close>

text \<open>The loops over the payload: \<open>Data\<close> is an array of 64 bytes and at most 64 are read.\<close>

fun bc_addBytes :: "bytes \<Rightarrow> canBitCounter \<Rightarrow> canBitCounter" where
  "bc_addBytes [] c = c"
| "bc_addBytes (x # xs) c = bc_addBytes xs (bc_addCRC (ucast x) 8 c)"

fun fd_addBytes :: "bytes \<Rightarrow> bool \<Rightarrow> canFDStuffCounter \<Rightarrow> canFDStuffCounter" where
  "fd_addBytes [] dataPhase c = c"
| "fd_addBytes (x # xs) dataPhase c = fd_addBytes xs dataPhase (fd_add (ucast x) 8 dataPhase c)"

definition classicCANFrameBits :: "Frame \<Rightarrow> int" where
  "classicCANFrameBits frame =
     (let payload = (if DataLength frame > 8 then 8 else DataLength frame);
          c0 = \<lparr>bc_crc = 0, bc_total = 0, bc_run = 0, bc_prev = 0, bc_set = False\<rparr>;
          c1 = bc_addCRC 0 1 c0;
          c2 = bc_addCRC (f_ID frame) 11 c1;
          c3 = bc_addCRC 0 1 c2;
          c4 = bc_addCRC 0 1 c3;
          c5 = bc_addCRC 0 1 c4;
          c6 = bc_addCRC (ucast (f_DLC frame AND 0xF)) 4 c5;
          c7 = bc_addBytes (take (nat payload) (f_Data frame)) c6;
          c8 = bc_add (ucast (bc_crc c7)) 15 c7
      in bc_total c8 + 1 + 1 + 1 + 7 + 3)"

definition canFDCrc17FieldBits :: int where "canFDCrc17FieldBits = 4 + 17 + 6 + 1"
definition canFDCrc21FieldBits :: int where "canFDCrc21FieldBits = 4 + 21 + 7 + 1"
definition canFDAckTrailerBits :: int where "canFDAckTrailerBits = 1 + 1 + 7 + 3"

definition canFDFrameBits :: "Frame \<Rightarrow> int \<times> int" where
  "canFDFrameBits frame =
     (let payload = (if DataLength frame > 64 then 64 else DataLength frame);
          c0 = \<lparr>fc_nominal = 0, fc_data = 0, fc_run = 0, fc_prev = 0, fc_set = False\<rparr>;
          c1 = fd_add 0 1 False c0;
          c2 = fd_add (f_ID frame) 11 False c1;
          c3 = fd_add 0 1 False c2;
          c4 = fd_add 0 1 False c3;
          c5 = fd_add 1 1 False c4;
          c6 = fd_add 0 1 False c5;
          c7 = (if f_BRS frame then fd_add 1 1 False c6 else fd_add 0 1 False c6);
          dataPhase = f_BRS frame;
          c8 = fd_add 0 1 dataPhase c7;
          c9 = fd_add (ucast (f_DLC frame AND 0xF)) 4 dataPhase c8;
          c10 = fd_addBytes (take (nat payload) (f_Data frame)) dataPhase c9;
          crcFieldBits = (if payload > 16 then canFDCrc21FieldBits else canFDCrc17FieldBits);
          (arbBits, dataBits) =
            (if f_BRS frame then (fc_nominal c10, fc_data c10 + crcFieldBits)
             else (fc_nominal c10 + crcFieldBits, fc_data c10))
      in (arbBits + canFDAckTrailerBits, dataBits))"

definition frameBitCounts :: "Frame \<Rightarrow> int \<times> int" where
  "frameBitCounts frame =
     (if f_FD frame then canFDFrameBits frame else (classicCANFrameBits frame, 0))"

section \<open>Occupancy\<close>

text \<open>
  Bit counts are positive and below \<open>2 ^ 17\<close>, so the 64-bit products of the code do not
  overflow and Go's division is \<open>div\<close>.
\<close>

definition bitsToDuration :: "int \<Rightarrow> u32 \<Rightarrow> duration" where
  "bitsToDuration bits bitrate =
     (if bits \<le> 0 \<or> bitrate = 0 then 0 else bits * Second div uint bitrate)"

definition frameOccupancy :: "Frame \<Rightarrow> u32 \<Rightarrow> u32 \<Rightarrow> duration" where
  "frameOccupancy frame nominalBitrate dataBitrate =
     (if nominalBitrate = 0 then 0
      else let (arbBits, dataBits) = frameBitCounts frame;
               occupied = bitsToDuration arbBits nominalBitrate
           in if dataBits > 0 \<and> dataBitrate > 0
              then occupied + bitsToDuration dataBits dataBitrate else occupied)"

definition frameOccupancyFromBitCount :: "Frame \<Rightarrow> int \<Rightarrow> u32 \<Rightarrow> u32 \<Rightarrow> duration" where
  "frameOccupancyFromBitCount frame totalBits nominalBitrate dataBitrate =
     (if totalBits \<le> 0 \<or> nominalBitrate = 0 then 0
      else if \<not> f_FD frame \<or> \<not> f_BRS frame \<or> dataBitrate = 0
      then bitsToDuration totalBits nominalBitrate
      else let (estimatedArb, estimatedData) = frameBitCounts frame;
               estimatedTotal = estimatedArb + estimatedData
           in if estimatedTotal \<le> 0 \<or> estimatedData \<le> 0
              then bitsToDuration totalBits nominalBitrate
              else let a0 = (totalBits * estimatedArb + estimatedTotal div 2) div estimatedTotal;
                       a1 = (if a0 < 1 then 1 else a0);
                       arbitrationBits = (if a1 > totalBits then totalBits else a1);
                       dataBits = totalBits - arbitrationBits
                   in bitsToDuration arbitrationBits nominalBitrate
                      + bitsToDuration dataBits dataBitrate)"

section \<open>The key of a frame\<close>

fun key_hash :: "bytes \<Rightarrow> u64 \<Rightarrow> u64" where
  "key_hash [] h = h"
| "key_hash (x # xs) h = key_hash xs (h * 131 + ucast x)"

definition busFrameKey :: "Frame \<Rightarrow> u64" where
  "busFrameKey frame =
     (let n = (if DataLength frame > 64 then 64 else DataLength frame);
          hash = key_hash (take (nat n) (f_Data frame)) 0;
          key0 = ucast (f_ID frame) AND 0x7FF :: u64;
          key1 = key0 OR push_bit 11 (ucast (f_DLC frame));
          key2 = (if f_FD frame then key1 OR push_bit 15 1 else key1)
      in key2 OR push_bit 16 hash)"


section \<open>Bit stuffing\<close>

text \<open>The state of a stuffer: the length of the current run of equal bits and their value.\<close>

type_synonym run_state = "nat \<times> bool"

definition stuff_bit :: "run_state \<Rightarrow> bool \<Rightarrow> bool list \<times> run_state" where
  "stuff_bit s b =
     (let r = (if b = snd s then fst s + 1 else 1)
      in if r = 5 then ([b, \<not> b], (1, \<not> b)) else ([b], (r, b)))"

fun stuff_run :: "run_state \<Rightarrow> bool list \<Rightarrow> bool list" where
  "stuff_run s [] = []"
| "stuff_run s (b # bs) = fst (stuff_bit s b) @ stuff_run (snd (stuff_bit s b)) bs"

fun stuff_end :: "run_state \<Rightarrow> bool list \<Rightarrow> run_state" where
  "stuff_end s [] = s"
| "stuff_end s (b # bs) = stuff_end (snd (stuff_bit s b)) bs"

definition stuff :: "bool list \<Rightarrow> bool list" where "stuff bs = stuff_run (0, False) bs"

text \<open>The receiver: the bit after five equal ones is dropped and starts the next run.\<close>

fun destuff_run :: "run_state \<Rightarrow> bool list \<Rightarrow> bool list" where
  "destuff_run s [] = []"
| "destuff_run s (b # bs) =
     (if fst s = 5 then destuff_run (1, b) bs
      else b # destuff_run (if b = snd s then fst s + 1 else 1, b) bs)"

definition destuff :: "bool list \<Rightarrow> bool list" where "destuff bs = destuff_run (0, False) bs"

lemma destuff_stuff_run: "fst s < 5 \<Longrightarrow> destuff_run s (stuff_run s bs) = bs"
proof (induction bs arbitrary: s)
  case Nil
  then show ?case by simp
next
  case (Cons b bs)
  have "fst (snd (stuff_bit s b)) < 5"
    using Cons.prems by (auto simp: stuff_bit_def Let_def)
  from Cons.IH [OF this] Cons.prems show ?case
    by (auto simp: stuff_bit_def Let_def)
qed

lemma destuff_stuff: "destuff (stuff bs) = bs"
  by (simp add: destuff_def stuff_def destuff_stuff_run)

text \<open>No six equal bits in a row: after a run of length \<open>r\<close> at most \<open>5 - r\<close> more follow.\<close>

fun runs_below :: "nat \<Rightarrow> run_state \<Rightarrow> bool list \<Rightarrow> bool" where
  "runs_below n s [] = True"
| "runs_below n s (b # bs) =
     (let r = (if b = snd s then fst s + 1 else 1) in r < n \<and> runs_below n (r, b) bs)"

lemma runs_below_replicate:
  "runs_below n (r, b) (replicate k b @ ys) \<Longrightarrow> k = 0 \<or> r + k < n"
  by (induction k arbitrary: r) fastforce+

lemma runs_below_suffix: "runs_below n s (xs @ ys) \<Longrightarrow> \<exists>s'. runs_below n s' ys"
  by (induction xs arbitrary: s) (auto simp: Let_def)

lemma runs_below_no_run:
  assumes "runs_below 6 s (xs @ replicate 6 b @ ys)"
  shows False
proof -
  obtain s' where "runs_below 6 s' (b # replicate 5 b @ ys)"
    using runs_below_suffix [OF assms] by (auto simp: numeral_eq_Suc)
  then have "runs_below 6 (if b = snd s' then fst s' + 1 else 1, b) (replicate 5 b @ ys)"
    by (simp add: Let_def)
  from runs_below_replicate [OF this] show False by (simp split: if_splits)
qed

lemma runs_below_stuff_run: "fst s < 5 \<Longrightarrow> runs_below 6 s (stuff_run s bs)"
proof (induction bs arbitrary: s)
  case (Cons b bs)
  have "fst (snd (stuff_bit s b)) < 5"
    using Cons.prems by (auto simp: stuff_bit_def Let_def)
  from Cons.IH [OF this] Cons.prems show ?case
    by (auto simp: stuff_bit_def Let_def)
qed simp

lemma stuff_no_six: "stuff bs \<noteq> xs @ replicate 6 b @ ys"
  using runs_below_no_run [of "(0, False)" xs b ys] runs_below_stuff_run [of "(0, False)" bs]
  by (auto simp: stuff_def)

lemma stuff_run_append: "stuff_run s (xs @ ys) = stuff_run s xs @ stuff_run (stuff_end s xs) ys"
  by (induction xs arbitrary: s) simp_all

text \<open>At most one stuff bit for every four bits after the first.\<close>

lemma stuff_run_length_le:
  "1 \<le> fst s \<Longrightarrow> fst s < 5 \<Longrightarrow>
   4 * length (stuff_run s bs) + fst (stuff_end s bs) \<le> 5 * length bs + fst s"
proof (induction bs arbitrary: s)
  case (Cons b bs)
  have *: "1 \<le> fst (snd (stuff_bit s b))" "fst (snd (stuff_bit s b)) < 5"
    using Cons.prems by (auto simp: stuff_bit_def Let_def)
  have "4 * length (fst (stuff_bit s b)) + fst (snd (stuff_bit s b)) \<le> 5 + fst s"
    using Cons.prems by (auto simp: stuff_bit_def Let_def)
  with Cons.IH [OF *] show ?case by simp
qed simp

lemma stuff_run_length_ge: "length bs \<le> length (stuff_run s bs)"
proof (induction bs arbitrary: s)
  case (Cons b bs)
  have "1 \<le> length (fst (stuff_bit s b))" by (simp add: stuff_bit_def Let_def)
  with Cons.IH [of "snd (stuff_bit s b)"] show ?case by simp
qed simp

lemma stuff_end_pos: "1 \<le> fst s \<Longrightarrow> fst s < 5 \<Longrightarrow> 1 \<le> fst (stuff_end s bs)"
proof (induction bs arbitrary: s)
  case (Cons b bs)
  have *: "1 \<le> fst (snd (stuff_bit s b))" "fst (snd (stuff_bit s b)) < 5"
    using Cons.prems by (auto simp: stuff_bit_def Let_def)
  from Cons.IH [OF *] show ?case by simp
qed simp

lemma stuff_length_bounds:
  "length bs \<le> length (stuff bs) \<and> length (stuff bs) \<le> length bs + (length bs - 1) div 4"
proof (cases bs)
  case Nil
  then show ?thesis by (simp add: stuff_def)
next
  case (Cons b cs)
  let ?s = "(1::nat, b)"
  have eq: "stuff (b # cs) = b # stuff_run ?s cs"
    by (simp add: stuff_def stuff_bit_def Let_def)
  have "4 * length (stuff_run ?s cs) + 1 \<le> 5 * length cs + 1"
    using stuff_run_length_le [of ?s cs] stuff_end_pos [of ?s cs] by simp
  then have "length (stuff_run ?s cs) \<le> length cs + length cs div 4" by linarith
  moreover have "length cs \<le> length (stuff_run ?s cs)" by (rule stuff_run_length_ge)
  ultimately show ?thesis by (simp add: Cons eq)
qed

section \<open>The counters count stuffed bits\<close>

text \<open>The bits of a word, the most significant first.\<close>

fun bits_of :: "'a::len word \<Rightarrow> nat \<Rightarrow> bool list" where
  "bits_of v 0 = []"
| "bits_of v (Suc i) = bit v i # bits_of v i"

lemma length_bits_of [simp]: "length (bits_of v n) = n"
  by (induction n) simp_all

lemma byte_of_bit: "(ucast (drop_bit i v AND 1) :: u8) = of_bool (bit v i)" for v :: "'a::len word"
proof -
  have "drop_bit i v AND 1 = of_bool (bit v i)"
    by (rule bit_eqI) (auto simp: bit_simps bit_1_iff)
  then show ?thesis by (cases "bit v i") simp_all
qed

lemma of_bool_and_1 [simp]: "(of_bool b AND 1 :: u8) = of_bool b"
  by (cases b) simp_all

text \<open>
  The contract of a counter: from a state that stands for a run, one bit adds the bits that the
  stuffer emits for it. Whatever satisfies it counts the stuffed length of a bit string.
\<close>

locale stuffing_counter =
  fixes step :: "bool \<Rightarrow> 'c \<Rightarrow> 'c"
    and len :: "'c \<Rightarrow> int"
    and st :: "'c \<Rightarrow> run_state"
    and ok :: "'c \<Rightarrow> bool"
  assumes ok_step: "ok c \<Longrightarrow> ok (step b c)"
    and st_step: "ok c \<Longrightarrow> st (step b c) = snd (stuff_bit (st c) b)"
    and len_step: "ok c \<Longrightarrow> len (step b c) = len c + int (length (fst (stuff_bit (st c) b)))"
begin

lemma count_all:
  "ok c \<Longrightarrow> ok (fold step bs c) \<and> st (fold step bs c) = stuff_end (st c) bs \<and>
     len (fold step bs c) = len c + int (length (stuff_run (st c) bs))"
proof (induction bs arbitrary: c)
  case (Cons b bs)
  show ?case
    using Cons.IH [OF ok_step [OF Cons.prems, of b]] Cons.prems by (simp add: st_step len_step)
qed simp

end

definition fd_ok :: "canFDStuffCounter \<Rightarrow> bool" where
  "fd_ok c \<longleftrightarrow> fc_prev c \<in> {0, 1} \<and> (if fc_set c then 1 \<le> fc_run c \<and> fc_run c < 5 else fc_run c = 0)"

definition fd_state :: "canFDStuffCounter \<Rightarrow> run_state" where
  "fd_state c = (nat (fc_run c), fc_prev c = 1)"

definition bc_ok :: "canBitCounter \<Rightarrow> bool" where
  "bc_ok c \<longleftrightarrow> bc_prev c \<in> {0, 1} \<and> (if bc_set c then 1 \<le> bc_run c \<and> bc_run c < 5 else bc_run c = 0)"

definition bc_state :: "canBitCounter \<Rightarrow> run_state" where
  "bc_state c = (nat (bc_run c), bc_prev c = 1)"

lemmas counter_defs = fd_count_def fd_increment_def fd_ok_def fd_state_def
  bc_count_def bc_ok_def bc_state_def stuff_bit_def Let_def

lemma bit_of_prev: "p \<in> {0, 1} \<Longrightarrow> (of_bool b = (p::u8)) = (b = (p = 1))"
  by (cases b) auto

interpretation nominal_phase: stuffing_counter "\<lambda>b. fd_count (of_bool b) False" fc_nominal fd_state fd_ok
  by unfold_locales (auto simp: counter_defs bit_of_prev split: if_splits)

interpretation data_phase: stuffing_counter "\<lambda>b. fd_count (of_bool b) True" fc_data fd_state fd_ok
  by unfold_locales (auto simp: counter_defs bit_of_prev split: if_splits)

interpretation classic: stuffing_counter "\<lambda>b. bc_count (of_bool b)" bc_total bc_state bc_ok
  by unfold_locales (auto simp: counter_defs bit_of_prev split: if_splits)


text \<open>One bit through the CRC register and the counter, as \<open>addCRC\<close> does it.\<close>

definition crc_count :: "bool \<Rightarrow> canBitCounter \<Rightarrow> canBitCounter" where
  "crc_count b c = bc_count (of_bool b) (c\<lparr>bc_crc := crc_step (of_bool b) (bc_crc c)\<rparr>)"

interpretation classic_crc: stuffing_counter crc_count bc_total bc_state bc_ok
  by unfold_locales (auto simp: crc_count_def counter_defs bit_of_prev split: if_splits)

lemma fd_add_fold: "fd_add v n dp c = fold (\<lambda>b. fd_count (of_bool b) dp) (bits_of v n) c"
  by (induction n arbitrary: c) (simp_all add: byte_of_bit)

lemma bc_add_fold: "bc_add v n c = fold (\<lambda>b. bc_count (of_bool b)) (bits_of v n) c"
  by (induction n arbitrary: c) (simp_all add: byte_of_bit)

lemma bc_addCRC_fold: "bc_addCRC v n c = fold crc_count (bits_of v n) c"
  by (induction n arbitrary: c) (simp_all add: byte_of_bit crc_count_def Let_def)

lemma bits_of_cong: "(\<And>i. i < n \<Longrightarrow> bit v i = bit w i) \<Longrightarrow> bits_of v n = bits_of w n"
  by (induction n) simp_all

lemma bits_of_byte: "bits_of (ucast x :: u32) 8 = bits_of x 8" for x :: u8
  by (rule bits_of_cong) (simp add: bit_simps)

lemma bits_of_dlc: "bits_of (ucast (x AND 0xF) :: u32) 4 = bits_of x 4" for x :: u8
proof (rule bits_of_cong)
  fix i :: nat
  assume "i < 4"
  then have "i \<in> {0, 1, 2, 3}" by auto
  then show "bit (ucast (x AND 0xF) :: u32) i = bit x i"
    by (auto simp: bit_simps)
qed

definition payload_bits :: "bytes \<Rightarrow> bool list" where
  "payload_bits xs = concat (map (\<lambda>x. bits_of x 8) xs)"

lemma payload_bits_simps [simp]:
  "payload_bits [] = []" "payload_bits (x # xs) = bits_of x 8 @ payload_bits xs"
  by (simp_all add: payload_bits_def)

lemma length_payload_bits [simp]: "length (payload_bits xs) = 8 * length xs"
  by (induction xs) simp_all

lemma bc_addBytes_fold: "bc_addBytes xs c = fold crc_count (payload_bits xs) c"
  by (induction xs arbitrary: c) (simp_all add: bc_addCRC_fold bits_of_byte)

lemma fd_addBytes_fold:
  "fd_addBytes xs dp c = fold (\<lambda>b. fd_count (of_bool b) dp) (payload_bits xs) c"
  by (induction xs arbitrary: c) (simp_all add: fd_add_fold bits_of_byte)

section \<open>The CRC\<close>

definition crc15 :: "bool list \<Rightarrow> u16" where
  "crc15 bs = fold (\<lambda>b. crc_step (of_bool b)) bs 0"

lemma crc_count_crc: "bc_crc (fold crc_count bs c) = fold (\<lambda>b. crc_step (of_bool b)) bs (bc_crc c)"
proof (induction bs arbitrary: c)
  case (Cons b bs)
  have "bc_crc (crc_count b c) = crc_step (of_bool b) (bc_crc c)"
    by (simp add: crc_count_def bc_count_def Let_def)
  with Cons show ?case by simp
qed simp

lemma crc_step_bool:
  "crc_step (of_bool b) crc =
     (if bit crc 14 \<noteq> b then (push_bit 1 crc AND 0x7fff) XOR 0x4599 else push_bit 1 crc AND 0x7fff)"
  by (cases b; cases "bit crc 14") (simp_all add: crc_step_def byte_of_bit)

lemma mask15: "(0x7fff :: u16) = mask 15"
  by (simp add: mask_eq_exp_minus_1)

lemma and_mask_xor: "((p AND m) XOR c) AND m = (p AND m) XOR (c AND m)" for p :: "'a::len word"
  by (rule bit_eqI) (auto simp: bit_simps)

lemma push_bit_mask:
  "push_bit j (push_bit k r AND mask n) AND mask n = push_bit (j + k) r AND mask n"
  for r :: "'a::len word"
  by (rule bit_eqI) (auto simp: bit_simps diff_diff_left add.commute)

lemma crc_step_range: "crc_step (of_bool b) crc AND 0x7fff = crc_step (of_bool b) crc"
  by (simp add: crc_step_bool and_mask_xor and.assoc)

lemma crc15_range: "crc15 bs AND 0x7fff = crc15 bs"
proof (cases bs rule: rev_cases)
  case (snoc xs x)
  then show ?thesis using crc_step_range [of x "crc15 xs"] by (simp add: crc15_def)
qed (simp add: crc15_def)

text \<open>The register cancels against its own bits, so the receiver's register ends at zero.\<close>

lemma crc_shift_out:
  "i \<le> 15 \<Longrightarrow>
   fold (\<lambda>b. crc_step (of_bool b)) (bits_of r i) (push_bit (15 - i) r AND 0x7fff) = 0" for r :: u16
proof (induction i)
  case 0
  show ?case unfolding mask15 by (rule bit_eqI) (auto simp: bit_simps)
next
  case (Suc i)
  let ?s = "push_bit (15 - Suc i) r AND 0x7fff :: u16"
  have msb: "bit ?s 14 = bit r i"
    unfolding mask15 using Suc.prems by (auto simp: bit_simps)
  have "1 + (15 - Suc i) = 15 - i" using Suc.prems by simp
  then have shift: "push_bit 1 ?s AND 0x7fff = push_bit (15 - i) r AND 0x7fff"
    unfolding mask15 push_bit_mask by (simp only:)
  have "crc_step (of_bool (bit r i)) ?s = push_bit (15 - i) r AND 0x7fff"
    unfolding crc_step_bool msb shift by simp
  then show ?case using Suc.IH Suc.prems by simp
qed

lemma crc15_check: "crc15 (bs @ bits_of (crc15 bs) 15) = 0"
  using crc_shift_out [of 15 "crc15 bs"] crc15_range [of bs] by (simp add: crc15_def)


section \<open>What the frame lengths are\<close>

text \<open>
  The wire format of a data frame with an 11-bit identifier: start of frame, identifier, RTR,
  IDE, r0, data length code and payload, followed by the CRC; and of an FD frame up to its BRS
  bit (the arbitration phase) and from there to the payload.
\<close>

definition wire_payload :: "Frame \<Rightarrow> bytes" where
  "wire_payload f = take (nat (if f_FD f then min 64 (DataLength f) else min 8 (DataLength f))) (f_Data f)"

definition classic_message :: "Frame \<Rightarrow> bool list" where
  "classic_message f = [False] @ bits_of (f_ID f) 11 @ [False, False, False] @ bits_of (f_DLC f) 4 @
     payload_bits (wire_payload f)"

definition classic_wire :: "Frame \<Rightarrow> bool list" where
  "classic_wire f = classic_message f @ bits_of (crc15 (classic_message f)) 15"

definition fd_arbitration :: "Frame \<Rightarrow> bool list" where
  "fd_arbitration f = [False] @ bits_of (f_ID f) 11 @ [False, False, True, False, f_BRS f]"

definition fd_tail :: "Frame \<Rightarrow> bool list" where
  "fd_tail f = [False] @ bits_of (f_DLC f) 4 @ payload_bits (wire_payload f)"

lemma bits_of_0_1: "bits_of (0::'a::len word) (Suc 0) = [False]" "bits_of (1::'a::len word) (Suc 0) = [True]"
  by simp_all

lemma bits_of_u16: "bits_of (ucast x :: u32) n = bits_of x n" if "n \<le> 16" for x :: u16
  using that by (intro bits_of_cong) (simp add: bit_simps)

lemma classic_counter_start:
  "bc_ok \<lparr>bc_crc = 0, bc_total = 0, bc_run = 0, bc_prev = 0, bc_set = False\<rparr>"
  "bc_state \<lparr>bc_crc = 0, bc_total = 0, bc_run = 0, bc_prev = 0, bc_set = False\<rparr> = (0, False)"
  by (simp_all add: bc_ok_def bc_state_def)

lemma fd_counter_start:
  "fd_ok \<lparr>fc_nominal = 0, fc_data = 0, fc_run = 0, fc_prev = 0, fc_set = False\<rparr>"
  "fd_state \<lparr>fc_nominal = 0, fc_data = 0, fc_run = 0, fc_prev = 0, fc_set = False\<rparr> = (0, False)"
  by (simp_all add: fd_ok_def fd_state_def)

lemma classic_bits_exact_aux:
  assumes "\<not> f_FD f"
  shows "classicCANFrameBits f = int (length (stuff (classic_wire f))) + 13"
proof -
  let ?c0 = "\<lparr>bc_crc = 0, bc_total = 0, bc_run = 0, bc_prev = 0, bc_set = False\<rparr>"
  let ?c7 = "fold crc_count (classic_message f) ?c0"
  have c7: "bc_ok ?c7" "bc_state ?c7 = stuff_end (0, False) (classic_message f)"
    "bc_total ?c7 = int (length (stuff_run (0, False) (classic_message f)))"
    using classic_crc.count_all [OF classic_counter_start(1), of "classic_message f"]
    by (simp_all add: classic_counter_start)
  have crc: "bc_crc ?c7 = crc15 (classic_message f)"
    by (simp add: crc_count_crc crc15_def)
  have len: "(if DataLength f > 8 then 8 else DataLength f) = min 8 (DataLength f)" by simp
  have "classicCANFrameBits f
      = bc_total (bc_add (ucast (crc15 (classic_message f))) 15 ?c7) + 13"
    unfolding crc [symmetric] classicCANFrameBits_def Let_def len
    using assms
    by (simp add: bc_addCRC_fold bc_addBytes_fold bits_of_dlc classic_message_def wire_payload_def
        bits_of_0_1 del: bits_of.simps)
  also have "\<dots> = int (length (stuff (classic_wire f))) + 13"
    using classic.count_all [OF c7(1), of "bits_of (crc15 (classic_message f)) 15"]
    by (simp add: bc_add_fold bits_of_u16 c7 stuff_def classic_wire_def stuff_run_append
        del: bits_of.simps)
  finally show ?thesis .
qed


lemma fd_count_other:
  "fc_data (fold (\<lambda>b. fd_count (of_bool b) False) bs c) = fc_data c"
  "fc_nominal (fold (\<lambda>b. fd_count (of_bool b) True) bs c) = fc_nominal c"
proof -
  have "fc_data (fd_count b False c) = fc_data c" "fc_nominal (fd_count b True c) = fc_nominal c" for b c
    by (simp_all add: fd_count_def fd_increment_def Let_def)
  then show "fc_data (fold (\<lambda>b. fd_count (of_bool b) False) bs c) = fc_data c"
    "fc_nominal (fold (\<lambda>b. fd_count (of_bool b) True) bs c) = fc_nominal c"
    by (induction bs arbitrary: c) simp_all
qed

definition fd_crc_bits :: "Frame \<Rightarrow> int" where
  "fd_crc_bits f = (if DataLength f > 16 then 33 else 28)"

lemma fd_bits_exact_aux:
  assumes "f_FD f"
  shows "canFDFrameBits f =
    (let a = int (length (stuff (fd_arbitration f)));
         n = int (length (stuff (fd_arbitration f @ fd_tail f)))
     in if f_BRS f then (a + 12, n - a + fd_crc_bits f) else (n + fd_crc_bits f + 12, 0))"
proof -
  let ?c0 = "\<lparr>fc_nominal = 0, fc_data = 0, fc_run = 0, fc_prev = 0, fc_set = False\<rparr>"
  let ?step = "\<lambda>dp b. fd_count (of_bool b) dp"
  let ?c7 = "fold (?step False) (fd_arbitration f) ?c0"
  let ?c10 = "fold (?step (f_BRS f)) (fd_tail f) ?c7"
  have c7: "fd_ok ?c7" "fd_state ?c7 = stuff_end (0, False) (fd_arbitration f)"
    "fc_nominal ?c7 = int (length (stuff_run (0, False) (fd_arbitration f)))" "fc_data ?c7 = 0"
    using nominal_phase.count_all [OF fd_counter_start(1), of "fd_arbitration f"]
    by (simp_all add: fd_counter_start fd_count_other)
  have len: "(if DataLength f > 64 then 64 else DataLength f) = min 64 (DataLength f)" by simp
  have crc: "(if min 64 (DataLength f) > 16 then canFDCrc21FieldBits else canFDCrc17FieldBits) = fd_crc_bits f"
    by (simp add: fd_crc_bits_def canFDCrc21FieldBits_def canFDCrc17FieldBits_def)
  have main: "canFDFrameBits f =
      (if f_BRS f then (fc_nominal ?c10 + 12, fc_data ?c10 + fd_crc_bits f)
       else (fc_nominal ?c10 + fd_crc_bits f + 12, fc_data ?c10))"
    unfolding canFDFrameBits_def Let_def len crc
    using assms
    by (cases "f_BRS f")
      (simp_all add: fd_add_fold fd_addBytes_fold bits_of_dlc fd_arbitration_def fd_tail_def
        wire_payload_def canFDAckTrailerBits_def bits_of_0_1 del: bits_of.simps)
  show ?thesis
  proof (cases "f_BRS f")
    case True
    have "fc_nominal ?c10 = fc_nominal ?c7"
      using fd_count_other(2) [of "fd_tail f" ?c7] True by simp
    moreover have "fc_data ?c10 = int (length (stuff_run (fd_state ?c7) (fd_tail f)))"
      using data_phase.count_all [OF c7(1), of "fd_tail f"] True c7(4) by simp
    ultimately show ?thesis
      using main True by (simp add: c7 stuff_def stuff_run_append Let_def)
  next
    case False
    have "fc_data ?c10 = 0"
      using fd_count_other(1) [of "fd_tail f" ?c7] False c7(4) by simp
    moreover have "fc_nominal ?c10 = fc_nominal ?c7 + int (length (stuff_run (fd_state ?c7) (fd_tail f)))"
      using nominal_phase.count_all [OF c7(1), of "fd_tail f"] False by simp
    ultimately show ?thesis
      using main False by (simp add: c7 stuff_def stuff_run_append Let_def)
  qed
qed


section \<open>Bounds\<close>

lemma length_wire_payload:
  assumes "frame_wf f"
  shows "int (length (wire_payload f)) = (if f_FD f then DataLength f else min 8 (DataLength f))"
  using assms DataLength_range [of f] by (auto simp: wire_payload_def frame_wf_def min_def)

lemma length_classic_wire: "length (classic_wire f) = 34 + 8 * length (wire_payload f)"
  by (simp add: classic_wire_def classic_message_def del: bits_of.simps)

lemma length_fd_wire:
  "length (fd_arbitration f) = 17" "length (fd_tail f) = 5 + 8 * length (wire_payload f)"
  by (simp_all add: fd_arbitration_def fd_tail_def del: bits_of.simps)

lemma classic_bits_bounds:
  assumes "frame_wf f" "\<not> f_FD f"
  shows "let p = min 8 (DataLength f) in
     47 + 8 * p \<le> classicCANFrameBits f \<and>
     classicCANFrameBits f \<le> 47 + 8 * p + (33 + 8 * p) div 4"
proof -
  let ?n = "length (classic_wire f)"
  have "?n \<le> length (stuff (classic_wire f))" "length (stuff (classic_wire f)) \<le> ?n + (?n - 1) div 4"
    using stuff_length_bounds by blast+
  moreover have "int ?n = 34 + 8 * min 8 (DataLength f)"
    using assms by (simp add: length_classic_wire length_wire_payload)
  moreover have "int ((?n - 1) div 4) = (int ?n - 1) div 4"
    by (simp add: length_classic_wire zdiv_int)
  ultimately show ?thesis
    using classic_bits_exact_aux [OF assms(2)] by (simp add: Let_def)
qed

lemma fd_bits_bounds:
  assumes "frame_wf f" "f_FD f"
  shows "let (arb, dat) = canFDFrameBits f; p = DataLength f; total = 34 + 8 * p + fd_crc_bits f in
     (if f_BRS f then 29 \<le> arb \<and> arb \<le> 33 \<and> 5 + 8 * p + fd_crc_bits f \<le> dat else dat = 0) \<and>
     total \<le> arb + dat \<and> arb + dat \<le> total + (21 + 8 * p) div 4"
proof -
  let ?a = "fd_arbitration f" and ?w = "fd_arbitration f @ fd_tail f"
  have a: "17 \<le> length (stuff ?a)" "length (stuff ?a) \<le> 21"
    using stuff_length_bounds [of ?a] by (simp_all add: length_fd_wire)
  have w: "length ?w \<le> length (stuff ?w)" "length (stuff ?w) \<le> length ?w + (length ?w - 1) div 4"
    using stuff_length_bounds by blast+
  have lw: "int (length ?w) = 22 + 8 * DataLength f"
    using assms by (simp add: length_fd_wire length_wire_payload)
  have dv: "int ((length ?w - 1) div 4) = (int (length ?w) - 1) div 4"
    by (simp add: length_fd_wire zdiv_int)
  have lt: "int (length (fd_tail f)) = 5 + 8 * DataLength f"
    using assms by (simp add: length_fd_wire length_wire_payload)
  have "length (stuff ?a) + length (fd_tail f) \<le> length (stuff ?w)"
    using stuff_run_length_ge [of "fd_tail f" "stuff_end (0, False) ?a"]
    by (simp add: stuff_def stuff_run_append)
  then show ?thesis
    using fd_bits_exact_aux [OF assms(2)] a w lw lt dv by (auto simp: Let_def)
qed

lemma frameBitCounts_bounds:
  assumes "frame_wf f"
  shows "29 \<le> fst (frameBitCounts f) \<and> 0 \<le> snd (frameBitCounts f) \<and>
     fst (frameBitCounts f) + snd (frameBitCounts f) \<le> 800"
proof (cases "f_FD f")
  case True
  have "fd_crc_bits f \<in> {28, 33}" by (simp add: fd_crc_bits_def)
  then show ?thesis
    using fd_bits_bounds [OF assms True] DataLength_range [of f] True
    by (auto simp: frameBitCounts_def Let_def split: prod.splits if_splits)
next
  case False
  then show ?thesis
    using classic_bits_bounds [OF assms False] DataLength_range [of f]
    by (auto simp: frameBitCounts_def Let_def)
qed

lemma Second_eq: "Second = 1000000000"
  by (simp add: Second_def Millisecond_def Microsecond_def)

lemma rate_pos: "r \<noteq> 0 \<Longrightarrow> 0 < uint r" for r :: u32
  using uint_0_iff [of r] uint_ge_0 [of r] by linarith

lemma rate_small: "uint r < 2 ^ 32" for r :: u32
  using uint_lt2p [of r] by simp

lemma bitsToDuration_nonneg [simp]: "0 \<le> bitsToDuration b r"
proof (cases "r = 0")
  case False
  then show ?thesis
    using rate_pos [OF False] by (simp add: bitsToDuration_def Second_eq pos_imp_zdiv_nonneg_iff)
qed (simp add: bitsToDuration_def)

lemma bitsToDuration_pos:
  assumes "5 \<le> b" "r \<noteq> 0"
  shows "0 < bitsToDuration b r"
proof -
  have "uint r \<le> b * Second" using assms rate_small [of r] by (simp add: Second_eq)
  then have "1 \<le> b * Second div uint r"
    using rate_pos [OF assms(2)] by (simp add: int_one_le_iff_zero_less pos_imp_zdiv_pos_iff)
  then show ?thesis using assms by (simp add: bitsToDuration_def)
qed

lemma frameOccupancy_pos:
  assumes "frame_wf f" "nominal \<noteq> 0"
  shows "0 < frameOccupancy f nominal data"
proof -
  have "0 < bitsToDuration (fst (frameBitCounts f)) nominal"
    using frameBitCounts_bounds [OF assms(1)] assms(2) by (intro bitsToDuration_pos) simp_all
  then show ?thesis
    using assms(2)
    by (cases "frameBitCounts f") (auto simp: frameOccupancy_def Let_def intro: add_pos_nonneg)
qed


lemma frameOccupancy_le:
  assumes "frame_wf f"
  shows "frameOccupancy f nominal data \<le> 1600 * Second"
proof -
  have le: "bitsToDuration b r \<le> 800 * Second" if "b \<le> 800" for b r
  proof (cases "b \<le> 0 \<or> r = 0")
    case False
    then have "b * Second div uint r \<le> b * Second"
      using rate_pos [of r] zdiv_mono2 [of "b * Second" 1 "uint r"] by (simp add: Second_eq)
    also have "\<dots> \<le> 800 * Second" using that by (simp add: Second_eq)
    finally show ?thesis using False by (simp add: bitsToDuration_def)
  qed (auto simp: bitsToDuration_def Second_eq)
  obtain a d where ad: "frameBitCounts f = (a, d)" by fastforce
  then have "a \<le> 800" "d \<le> 800" using frameBitCounts_bounds [OF assms] by auto
  then show ?thesis
    using le [of a nominal] le [of d data] by (auto simp: frameOccupancy_def Let_def ad Second_eq)
qed

lemma carry_le_1: "0 < m \<Longrightarrow> (x mod m + y mod m) div m \<le> 1" for m :: int
proof (rule ccontr)
  let ?s = "x mod m + y mod m"
  assume m: "0 < m" and "\<not> ?s div m \<le> 1"
  then have "m * 2 \<le> m * (?s div m)" by (intro mult_left_mono) simp_all
  moreover have "m * (?s div m) + ?s mod m = ?s" by simp
  ultimately show False
    using pos_mod_bound [OF m, of x] pos_mod_bound [OF m, of y] pos_mod_sign [OF m, of ?s] by linarith
qed

lemma bitsToDuration_add:
  assumes "0 \<le> a" "0 \<le> b" "r \<noteq> 0"
  shows "bitsToDuration a r + bitsToDuration b r \<le> bitsToDuration (a + b) r"
    and "bitsToDuration (a + b) r \<le> bitsToDuration a r + bitsToDuration b r + 1"
proof -
  have eq: "bitsToDuration x r = x * Second div uint r" if "0 \<le> x" for x
    using that assms(3) by (cases "x = 0") (simp_all add: bitsToDuration_def)
  let ?x = "a * Second" and ?y = "b * Second" and ?m = "uint r"
  have m: "0 < ?m" using rate_pos [OF assms(3)] .
  have s: "(?x + ?y) div ?m = ?x div ?m + ?y div ?m + (?x mod ?m + ?y mod ?m) div ?m"
    by (rule div_add1_eq)
  have "0 \<le> (?x mod ?m + ?y mod ?m) div ?m" "(?x mod ?m + ?y mod ?m) div ?m \<le> 1"
    using carry_le_1 [OF m] m by (simp_all add: pos_imp_zdiv_nonneg_iff)
  then show "bitsToDuration a r + bitsToDuration b r \<le> bitsToDuration (a + b) r"
    "bitsToDuration (a + b) r \<le> bitsToDuration a r + bitsToDuration b r + 1"
    using assms s by (simp_all add: eq distrib_right)
qed

lemma bitsToDuration_faster:
  assumes "r \<noteq> 0" "r \<le> s"
  shows "bitsToDuration b s \<le> bitsToDuration b r"
proof (cases "b \<le> 0")
  case False
  have "0 < uint r" "uint r \<le> uint s" using rate_pos assms by (auto simp: word_le_def)
  moreover from this have "s \<noteq> 0" by auto
  ultimately show ?thesis
    using False assms by (simp add: bitsToDuration_def Second_eq zdiv_mono2)
qed (simp add: bitsToDuration_def)

section \<open>The key\<close>

lemma bit_32768: "bit (32768 :: int) n \<longleftrightarrow> n = 15"
  using bit_exp_iff [of 15 n, where ?'a = int] by auto

lemma bit_busFrameKey:
  assumes "Frame_Validate f = Inr ()" "\<not> f_Extended f"
  shows "i < 11 \<Longrightarrow> bit (busFrameKey f) i = bit (f_ID f) i"
    and "i < 4 \<Longrightarrow> bit (busFrameKey f) (11 + i) = bit (f_DLC f) i"
    and "bit (busFrameKey f) 15 = f_FD f"
    and "f_ID f \<le> 0x7FF" and "f_DLC f \<le> 15"
proof -
  show dlc: "f_DLC f \<le> 15" and id: "f_ID f \<le> 0x7FF"
    using assms
    by (auto simp: Frame_Validate_def ValidDataLength_def DLCToLength_def validateFrame_def Let_def
        word_le_def word_less_def split: if_splits)
  have dlc4: "f_DLC f = take_bit 4 (f_DLC f)"
    using dlc by (simp add: word_uint_eq_iff unsigned_take_bit_eq take_bit_eq_mod word_le_def uint_mod)
  have nb: "\<not> bit (f_DLC f) j" if "4 \<le> j" for j
    by (subst dlc4) (use that in \<open>simp add: bit_simps\<close>)
  have m: "(0x7FF :: u64) = mask 11" by (simp add: mask_eq_exp_minus_1)
  show "i < 11 \<Longrightarrow> bit (busFrameKey f) i = bit (f_ID f) i"
    and "i < 4 \<Longrightarrow> bit (busFrameKey f) (11 + i) = bit (f_DLC f) i"
    and "bit (busFrameKey f) 15 = f_FD f"
    by (auto simp: busFrameKey_def Let_def m bit_simps nb bit_32768)
qed


lemma key_low_bits:
  assumes f: "Frame_Validate f = Inr ()" "\<not> f_Extended f"
    and g: "Frame_Validate g = Inr ()" "\<not> f_Extended g"
    and eq: "busFrameKey f = busFrameKey g"
  shows "f_ID f = f_ID g \<and> f_DLC f = f_DLC g \<and> f_FD f = f_FD g"
proof -
  have idb: "take_bit 11 (f_ID h) = f_ID h" "take_bit 4 (f_DLC h) = f_DLC h"
    if "Frame_Validate h = Inr ()" "\<not> f_Extended h" for h
    using bit_busFrameKey(4,5) [OF that]
    by (simp_all add: word_uint_eq_iff unsigned_take_bit_eq take_bit_eq_mod word_le_def uint_mod)
  have "take_bit 11 (f_ID f) = take_bit 11 (f_ID g)"
    by (rule bit_eqI) (use bit_busFrameKey(1) [OF f] bit_busFrameKey(1) [OF g] eq in \<open>auto simp: bit_simps\<close>)
  moreover have "take_bit 4 (f_DLC f) = take_bit 4 (f_DLC g)"
    by (rule bit_eqI) (use bit_busFrameKey(2) [OF f] bit_busFrameKey(2) [OF g] eq in \<open>auto simp: bit_simps\<close>)
  ultimately show ?thesis
    using idb [OF f] idb [OF g] bit_busFrameKey(3) [OF f] bit_busFrameKey(3) [OF g] eq by simp
qed

section \<open>Properties\<close>

text \<open>C29: The bit count of a classic frame is exactly the length of what is sent: the wire
  format with its CRC-15 (a receiver's register ends at zero), stuffed so that no six equal
  bits follow each other and the receiver recovers it, plus the thirteen unstuffed bits.\<close>

theorem classic_frame_length:
  assumes "\<not> f_FD f"
  shows "classicCANFrameBits f = int (length (stuff (classic_wire f))) + 13 \<and>
     destuff (stuff (classic_wire f)) = classic_wire f \<and> crc15 (classic_wire f) = 0 \<and>
     (\<nexists>xs b ys. stuff (classic_wire f) = xs @ replicate 6 b @ ys)"
  using assms by (simp add: classic_bits_exact_aux destuff_stuff stuff_no_six crc15_check classic_wire_def)

definition sample_frame :: Frame where
  "sample_frame = zero_frame\<lparr>f_ID := 0x123, f_DLC := 2, f_Data := [0xAA, 0] @ replicate 62 0\<rparr>"

theorem classic_frame_length_witness:
  "classicCANFrameBits sample_frame = int (length (stuff (classic_wire sample_frame))) + 13 \<and>
   classicCANFrameBits sample_frame = 66"
proof
  show "classicCANFrameBits sample_frame = int (length (stuff (classic_wire sample_frame))) + 13"
    using classic_frame_length [of sample_frame] by (simp add: sample_frame_def zero_frame_def)
  show "classicCANFrameBits sample_frame = 66" by code_simp
qed

text \<open>C30: The two bit counts of an FD frame are exact: with bit rate switching the arbitration
  count is the stuffed header up to BRS plus the twelve trailer bits, and the data count is the
  rest of the stuffed frame, whose run of equal bits continues across the switch, plus the CRC
  field; without it everything is counted at the nominal rate.\<close>

theorem fd_frame_length:
  assumes "f_FD f"
  shows "canFDFrameBits f =
    (let a = int (length (stuff (fd_arbitration f)));
         n = int (length (stuff (fd_arbitration f @ fd_tail f)))
     in if f_BRS f then (a + 12, n - a + fd_crc_bits f) else (n + fd_crc_bits f + 12, 0))"
  using assms by (rule fd_bits_exact_aux)

definition sample_fd_frame :: Frame where
  "sample_fd_frame = sample_frame\<lparr>f_FD := True, f_BRS := True\<rparr>"

theorem fd_frame_length_witness:
  "canFDFrameBits sample_fd_frame =
     (int (length (stuff (fd_arbitration sample_fd_frame))) + 12,
      int (length (stuff (fd_arbitration sample_fd_frame @ fd_tail sample_fd_frame))) -
      int (length (stuff (fd_arbitration sample_fd_frame))) + 28)"
  using fd_frame_length [of sample_fd_frame]
  by (simp add: sample_fd_frame_def sample_frame_def zero_frame_def Let_def fd_crc_bits_def
      DataLength_def DLCToLength_def)

text \<open>Every frame occupies the bus for a positive time, of at least 47 bits plus the payload
  and at most one stuff bit for four in a classic frame, and of an arbitration phase between 29
  and 33 bits in a frame with bit rate switching; no occupancy overflows 64 bits.\<close>

theorem frame_time_bounds:
  assumes "frame_wf f" "nominal \<noteq> 0"
  shows "0 < frameOccupancy f nominal data \<and> frameOccupancy f nominal data \<le> 1600 * Second \<and>
    (if f_FD f then f_BRS f \<longrightarrow> fst (canFDFrameBits f) \<in> {29..33}
     else 47 + 8 * min 8 (DataLength f) \<le> classicCANFrameBits f \<and>
          classicCANFrameBits f \<le> 47 + 8 * min 8 (DataLength f) + (33 + 8 * min 8 (DataLength f)) div 4)"
  using frameOccupancy_pos [OF assms] frameOccupancy_le [OF assms(1)]
    classic_bits_bounds [OF assms(1)] fd_bits_bounds [OF assms(1)]
  by (auto simp: Let_def split: prod.splits)

theorem frame_time_bounds_witness:
  "0 < frameOccupancy sample_frame 500000 0 \<and> 63 \<le> classicCANFrameBits sample_frame \<and>
   classicCANFrameBits sample_frame \<le> 75"
  using frame_time_bounds [of sample_frame 500000 0]
  by (simp add: sample_frame_def zero_frame_def frame_wf_def DataLength_def DLCToLength_def)


text \<open>A bus time computed from a bit count measured by the hardware lies between the time at
  the data rate (less one nanosecond of rounding) and the time at the nominal rate, however the
  measured bits are split over the two phases.\<close>

theorem measured_time_bounds:
  assumes "nominal \<noteq> 0" "nominal \<le> data" "0 < bits"
  shows "bitsToDuration bits data - 1 \<le> frameOccupancyFromBitCount f bits nominal data \<and>
     frameOccupancyFromBitCount f bits nominal data \<le> bitsToDuration bits nominal"
proof -
  have d: "data \<noteq> 0" using assms(1,2) by (auto simp: word_le_def word_uint_eq_iff)
  have fast: "bitsToDuration bits data \<le> bitsToDuration bits nominal"
    using bitsToDuration_faster [OF assms(1,2)] .
  have split: "bitsToDuration bits data - 1 \<le> bitsToDuration x nominal + bitsToDuration (bits - x) data \<and>
      bitsToDuration x nominal + bitsToDuration (bits - x) data \<le> bitsToDuration bits nominal"
    if "0 \<le> x" "x \<le> bits" for x
    using bitsToDuration_add(1) [of x "bits - x" nominal] bitsToDuration_add(2) [of x "bits - x" data]
      bitsToDuration_faster [OF assms(1,2), of x] bitsToDuration_faster [OF assms(1,2), of "bits - x"]
      that assms(1) d by simp
  show ?thesis
    using fast assms split
    by (auto simp: frameOccupancyFromBitCount_def Let_def d split: prod.splits)
qed

theorem measured_time_bounds_witness:
  "bitsToDuration 130 2000000 - 1 \<le> frameOccupancyFromBitCount sample_fd_frame 130 500000 2000000 \<and>
   frameOccupancyFromBitCount sample_fd_frame 130 500000 2000000 \<le> 260000"
  using measured_time_bounds [of 500000 2000000 130 sample_fd_frame]
  by (simp add: bitsToDuration_def [of 130 500000] Second_eq)



text \<open>
  The payload is only hashed, with a multiplier below 256, so payloads that differ in two
  neighbouring bytes already share a key.
\<close>

lemma key_collision:
  "busFrameKey (sample_frame\<lparr>f_Data := [1, 0] @ replicate 62 0\<rparr>) =
   busFrameKey (sample_frame\<lparr>f_Data := [0, 131] @ replicate 62 0\<rparr>)"
  by code_simp

end
