(* ===== verification/Bus_Load.thy ===== *)
theory Bus_Load
  imports Bus_Bits Memory_Bus
begin

text \<open>
  The bus-load meter (driver/internal/backend/busload.go, \<open>busLoadMeter\<close> and its methods): a
  rolling window of 1000 slots of one millisecond for frames timed by the host, a second one for
  frames timed by the hardware, and the lists that pair a transmission with its echo.

  A \<open>time.Time\<close> is its distance from the zero time in nanoseconds, so \<open>IsZero\<close> is equality
  with 0. \<open>Sub\<close> saturates, division truncates towards zero, counters are 64-bit words. None is
  a run-time panic: a division by zero, an index or a slice bound out of range.
\<close>

section \<open>Time\<close>

type_synonym gotime = int

definition time_Sub :: "gotime \<Rightarrow> gotime \<Rightarrow> duration" where
  "time_Sub t u = max (- (2 ^ 63)) (min (2 ^ 63 - 1) (t - u))"

definition go_quot :: "int \<Rightarrow> int \<Rightarrow> int" where
  "go_quot a b = sgn a * sgn b * (\<bar>a\<bar> div \<bar>b\<bar>)"

definition go_div :: "int \<Rightarrow> int \<Rightarrow> int option" where
  "go_div a b = (if b = 0 then None else Some (go_quot a b))"

definition defaultBusLoadWindow :: duration where "defaultBusLoadWindow = Second"
definition busLoadSlotCount :: nat where "busLoadSlotCount = 1000"
definition pendingTxTTL :: duration where "pendingTxTTL = 100 * Millisecond"
definition pendingTxEchoTTL :: duration where "pendingTxEchoTTL = Second"
definition maxPendingTx :: nat where "maxPendingTx = 256"

section \<open>State\<close>

record busLoadSlot =
  sl_occupiedNs :: u64
  sl_frames :: u64

definition zero_slot :: busLoadSlot where "zero_slot = \<lparr>sl_occupiedNs = 0, sl_frames = 0\<rparr>"

record pendingTx =
  p_key :: u64
  p_at :: gotime
  p_occupiedNs :: u64
  p_confirmed :: bool

record earlyTxEcho =
  e_frame :: Frame
  e_at :: gotime
  e_wrapPeriodUS :: u64
  e_occupiedNs :: u64

record busLoadMeter =
  nominalBitrate :: u32
  dataBitrate :: u32
  window :: duration
  slotlen :: duration
  origin :: gotime
  started :: gotime
  slots :: "busLoadSlot list"
  hwSlots :: "busLoadSlot list"
  hwOriginUS :: u64
  hwLastRawUS :: u64
  hwLastUS :: u64
  hwFirstUS :: u64
  hwLastHost :: gotime
  hwInitialized :: bool
  pending :: "pendingTx list"
  earlyTx :: "earlyTxEcho list"

definition zero_meter :: busLoadMeter where
  "zero_meter = \<lparr>nominalBitrate = 0, dataBitrate = 0, window = 0, slotlen = 0, origin = 0,
     started = 0, slots = replicate busLoadSlotCount zero_slot,
     hwSlots = replicate busLoadSlotCount zero_slot, hwOriginUS = 0, hwLastRawUS = 0, hwLastUS = 0,
     hwFirstUS = 0, hwLastHost = 0, hwInitialized = False, pending = [], earlyTx = []\<rparr>"

definition configure :: "Config \<Rightarrow> busLoadMeter \<Rightarrow> busLoadMeter" where
  "configure cfg m =
     (let nominal = (if cfg_NominalBitrate cfg = 0 then 500000 else cfg_NominalBitrate cfg);
          data = (if cfg_DataBitrate cfg = 0 then 2000000 else cfg_DataBitrate cfg)
      in m\<lparr>nominalBitrate := nominal, dataBitrate := data, window := defaultBusLoadWindow,
           slotlen := defaultBusLoadWindow div int busLoadSlotCount, origin := 0, started := 0,
           slots := replicate busLoadSlotCount zero_slot,
           hwSlots := replicate busLoadSlotCount zero_slot, hwOriginUS := 0, hwLastRawUS := 0,
           hwLastUS := 0, hwFirstUS := 0, hwLastHost := 0, hwInitialized := False,
           pending := [], earlyTx := []\<rparr>)"

section \<open>The rolling windows\<close>

text \<open>\<open>m.slots[idx].occupiedNs += occupiedNs; m.slots[idx].frames++\<close>\<close>

definition add_at :: "int \<Rightarrow> u64 \<Rightarrow> busLoadSlot list \<Rightarrow> busLoadSlot list option" where
  "add_at idx occupied xs = do {
     s \<leftarrow> index_at xs idx;
     Some (xs[nat idx := \<lparr>sl_occupiedNs = sl_occupiedNs s + occupied, sl_frames = sl_frames s + 1\<rparr>])
   }"

text \<open>\<open>copy(xs, xs[shift:])\<close>, and zero slots from \<open>len(xs) - shift\<close> on.\<close>

definition shift_slots :: "int \<Rightarrow> busLoadSlot list \<Rightarrow> busLoadSlot list option" where
  "shift_slots shift xs = do {
     tail \<leftarrow> slice_from xs shift;
     Some (take (nat (int (length xs) - shift)) (go_copy xs tail) @ replicate (nat shift) zero_slot)
   }"

definition rotate_meter :: "gotime \<Rightarrow> busLoadMeter \<Rightarrow> busLoadMeter option" where
  "rotate_meter now m =
     (if origin m = 0 then Some (m\<lparr>origin := now, started := now\<rparr>)
      else if now < origin m then Some m
      else let elapsed = time_Sub now (origin m)
           in if elapsed \<le> window m then Some m
              else do {
                q \<leftarrow> go_div (elapsed - window m + slotlen m - 1) (slotlen m);
                let shift = (if q < 1 then 1 else q);
                if shift \<ge> int (length (slots m))
                then Some (m\<lparr>slots := replicate (length (slots m)) zero_slot, origin := now\<rparr>)
                else do {
                  xs \<leftarrow> shift_slots shift (slots m);
                  Some (m\<lparr>slots := xs, origin := origin m + shift * slotlen m\<rparr>)
                }
              })"

definition addDurationLocked :: "u64 \<Rightarrow> gotime \<Rightarrow> busLoadMeter \<Rightarrow> busLoadMeter option" where
  "addDurationLocked occupiedNs now m0 =
     (if sint occupiedNs \<le> 0 then Some m0
      else do {
        m \<leftarrow> rotate_meter now m0;
        q \<leftarrow> go_div (time_Sub now (origin m)) (slotlen m);
        let idx = (if q \<ge> int (length (slots m)) then int (length (slots m)) - 1 else q);
        if idx < 0 then Some m
        else do {
          xs \<leftarrow> add_at idx occupiedNs (slots m);
          Some (m\<lparr>slots := xs\<rparr>)
        }
      })"

definition addLocked :: "Frame \<Rightarrow> gotime \<Rightarrow> busLoadMeter \<Rightarrow> busLoadMeter option" where
  "addLocked frame now m =
     addDurationLocked (word_of_int (frameOccupancy frame (nominalBitrate m) (dataBitrate m))) now m"

definition removeHostLocked :: "pendingTx \<Rightarrow> busLoadMeter \<Rightarrow> busLoadMeter option" where
  "removeHostLocked p m0 = do {
     m \<leftarrow> rotate_meter (p_at p) m0;
     if p_at p < origin m then Some m
     else do {
       q \<leftarrow> go_div (time_Sub (p_at p) (origin m)) (slotlen m);
       let idx = (if q \<ge> int (length (slots m)) then int (length (slots m)) - 1 else q);
       if idx < 0 then Some m
       else do {
         s \<leftarrow> index_at (slots m) idx;
         if sl_frames s = 0 \<or> sl_occupiedNs s < p_occupiedNs p then Some m
         else Some (m\<lparr>slots := (slots m)[nat idx :=
                \<lparr>sl_occupiedNs = sl_occupiedNs s - p_occupiedNs p, sl_frames = sl_frames s - 1\<rparr>]\<rparr>)
       }
     }
   }"

text \<open>\<open>uint64(d / time.Microsecond)\<close>\<close>

definition in_us :: "duration \<Rightarrow> u64" where
  "in_us d = word_of_int (go_quot d Microsecond)"

definition hardwareNow :: "gotime \<Rightarrow> busLoadMeter \<Rightarrow> u64" where
  "hardwareNow now m =
     (let elapsed = time_Sub now (hwLastHost m)
      in if elapsed > 0 then hwLastUS m + in_us elapsed else hwLastUS m)"

definition hardwareTimestamp :: "u64 \<Rightarrow> gotime \<Rightarrow> u64 \<Rightarrow> busLoadMeter \<Rightarrow> u64 \<times> busLoadMeter" where
  "hardwareTimestamp rawUS now wrapPeriodUS m =
     (if \<not> hwInitialized m
      then (rawUS, m\<lparr>hwInitialized := True, hwLastRawUS := rawUS, hwLastUS := rawUS,
                     hwFirstUS := rawUS, hwLastHost := now\<rparr>)
      else
        let finish = (\<lambda>m. (hwLastUS m, m\<lparr>hwLastRawUS := rawUS, hwLastHost := now\<rparr>))
        in if rawUS < hwLastRawUS m
           then let backward = hwLastRawUS m - rawUS
                in if wrapPeriodUS > 0 \<and> backward > wrapPeriodUS div 2 \<and> hwLastRawUS m < wrapPeriodUS
                   then finish (m\<lparr>hwLastUS := hwLastUS m + (wrapPeriodUS - hwLastRawUS m + rawUS)\<rparr>)
                   else if backward \<le> in_us (window m) \<and> backward \<le> hwLastUS m
                   then (hwLastUS m - backward, m)
                   else finish (m\<lparr>hwSlots := replicate (length (hwSlots m)) zero_slot, hwOriginUS := 0,
                                  hwLastUS := rawUS, hwFirstUS := rawUS\<rparr>)
           else finish (m\<lparr>hwLastUS := hwLastUS m + (rawUS - hwLastRawUS m)\<rparr>))"

definition udiv :: "u64 \<Rightarrow> u64 \<Rightarrow> u64 option" where
  "udiv a b = (if b = 0 then None else Some (a div b))"

definition rotateHardware :: "u64 \<Rightarrow> busLoadMeter \<Rightarrow> busLoadMeter option" where
  "rotateHardware atUS m =
     (if hwOriginUS m = 0 then Some (m\<lparr>hwOriginUS := atUS\<rparr>)
      else if atUS \<le> hwOriginUS m then Some m
      else let windowUS = in_us (window m);
               elapsed = atUS - hwOriginUS m
           in if elapsed \<le> windowUS then Some m
              else let slotUS = in_us (slotlen m)
                   in do {
                     shift \<leftarrow> udiv (elapsed - windowUS + slotUS - 1) slotUS;
                     if shift \<ge> word_of_nat (length (hwSlots m))
                     then Some (m\<lparr>hwSlots := replicate (length (hwSlots m)) zero_slot, hwOriginUS := atUS\<rparr>)
                     else do {
                       xs \<leftarrow> shift_slots (sint shift) (hwSlots m);
                       Some (m\<lparr>hwSlots := xs, hwOriginUS := hwOriginUS m + shift * slotUS\<rparr>)
                     }
                   })"

text \<open>The end of \<open>addHardwareLocked\<close>, once the origin is settled.\<close>

definition add_hardware_slot :: "u64 \<Rightarrow> gotime \<Rightarrow> u64 \<Rightarrow> busLoadMeter \<Rightarrow> busLoadMeter option" where
  "add_hardware_slot atUS now occupiedNs m = do {
     q \<leftarrow> udiv (atUS - hwOriginUS m) (in_us (slotlen m));
     let idx = (if sint q \<ge> int (length (hwSlots m)) then int (length (hwSlots m)) - 1 else sint q);
     xs \<leftarrow> add_at idx occupiedNs (hwSlots m);
     let m1 = m\<lparr>hwSlots := xs\<rparr>;
     Some (if started m1 = 0 then m1\<lparr>started := now\<rparr> else m1)
   }"

definition addHardwareLocked :: "Frame \<Rightarrow> gotime \<Rightarrow> u64 \<Rightarrow> u64 \<Rightarrow> busLoadMeter \<Rightarrow> busLoadMeter option" where
  "addHardwareLocked frame now wrapPeriodUS occupiedNs m0 =
     (if occupiedNs = 0 then Some m0
      else do {
        m1 \<leftarrow> (if hwInitialized m0 then rotateHardware (hardwareNow now m0) m0 else Some m0);
        let (atUS, m2) = hardwareTimestamp (f_TimestampUS frame) now wrapPeriodUS m1;
        m3 \<leftarrow> rotateHardware atUS m2;
        if atUS < hwOriginUS m3
        then if \<exists>s \<in> set (hwSlots m3). sl_frames s \<noteq> 0 then Some m3
             else add_hardware_slot atUS now occupiedNs (m3\<lparr>hwOriginUS := atUS\<rparr>)
        else add_hardware_slot atUS now occupiedNs m3
      })"

definition relocatePending :: "pendingTx \<Rightarrow> Frame \<Rightarrow> gotime \<Rightarrow> u64 \<Rightarrow> u64 \<Rightarrow> busLoadMeter
    \<Rightarrow> busLoadMeter option" where
  "relocatePending p frame now wrapPeriodUS occupiedNs m =
     (if f_TimestampUS frame = 0 then Some m
      else do {
        m1 \<leftarrow> removeHostLocked p m;
        addHardwareLocked frame now wrapPeriodUS occupiedNs m1
      })"

section \<open>Transmissions and their echoes\<close>

definition expirePending :: "gotime \<Rightarrow> busLoadMeter \<Rightarrow> busLoadMeter" where
  "expirePending now m =
     m\<lparr>pending := filter (\<lambda>p. time_Sub now (p_at p) \<le> pendingTxEchoTTL) (pending m)\<rparr>"

definition expireEarlyTx :: "gotime \<Rightarrow> busLoadMeter \<Rightarrow> busLoadMeter" where
  "expireEarlyTx now m =
     m\<lparr>earlyTx := filter (\<lambda>e. time_Sub now (e_at e) \<le> pendingTxTTL) (earlyTx m)\<rparr>"

definition pushPending :: "Frame \<Rightarrow> gotime \<Rightarrow> busLoadMeter \<Rightarrow> busLoadMeter" where
  "pushPending frame now m0 =
     (let m = expirePending now m0;
          kept = (if length (pending m) \<ge> maxPendingTx then tl (pending m) else pending m)
      in m\<lparr>pending := kept @
          [\<lparr>p_key = busFrameKey frame, p_at = now,
            p_occupiedNs = word_of_int (frameOccupancy frame (nominalBitrate m) (dataBitrate m)),
            p_confirmed = False\<rparr>]\<rparr>)"

text \<open>\<open>findPending\<close>: the loop from index \<open>i\<close> on; -1 when there is none.\<close>

fun find_pending_from :: "int \<Rightarrow> u64 \<Rightarrow> bool \<Rightarrow> gotime \<Rightarrow> pendingTx list \<Rightarrow> int" where
  "find_pending_from i key unconfirmedOnly now [] = -1"
| "find_pending_from i key unconfirmedOnly now (p # ps) =
     (if p_key p \<noteq> key \<or> (unconfirmedOnly \<and> p_confirmed p) \<or>
         (\<not> unconfirmedOnly \<and> time_Sub now (p_at p) > pendingTxTTL)
      then find_pending_from (i + 1) key unconfirmedOnly now ps else i)"

definition findPending :: "Frame \<Rightarrow> bool \<Rightarrow> gotime \<Rightarrow> busLoadMeter \<Rightarrow> int" where
  "findPending frame unconfirmedOnly now m =
     find_pending_from 0 (busFrameKey frame) unconfirmedOnly now (pending m)"

text \<open>The first early echo of a frame: its index.\<close>

fun find_echo_from :: "nat \<Rightarrow> Frame \<Rightarrow> earlyTxEcho list \<Rightarrow> (nat \<times> earlyTxEcho) option" where
  "find_echo_from i frame [] = None"
| "find_echo_from i frame (e # es) =
     (if busFrameKey (e_frame e) \<noteq> busFrameKey frame then find_echo_from (i + 1) frame es
      else Some (i, e))"

definition recordTx :: "Frame \<Rightarrow> gotime \<Rightarrow> busLoadMeter \<Rightarrow> busLoadMeter option" where
  "recordTx frame0 now m0 =
     (let frame = frame0\<lparr>f_Direction := Transmit\<rparr>
      in if window m0 = 0 then Some m0
         else do {
           m1 \<leftarrow> addLocked frame now m0;
           let m = expireEarlyTx now (pushPending frame now m1);
           case find_echo_from 0 frame (earlyTx m) of
             None \<Rightarrow> Some m
           | Some (i, echo) \<Rightarrow> do {
               let m2 = m\<lparr>earlyTx := take i (earlyTx m) @ drop (i + 1) (earlyTx m)\<rparr>;
               p \<leftarrow> index_at (pending m2) (int (length (pending m2)) - 1);
               let p' = p\<lparr>p_confirmed := True\<rparr>;
               let m3 = m2\<lparr>pending := (pending m2)[length (pending m2) - 1 := p']\<rparr>;
               relocatePending p' (e_frame echo) (e_at echo) (e_wrapPeriodUS echo) (e_occupiedNs echo) m3
             }
         })"

definition observeWithBitCount :: "Frame \<Rightarrow> u16 \<Rightarrow> gotime \<Rightarrow> u64 \<Rightarrow> busLoadMeter \<Rightarrow> busLoadMeter option" where
  "observeWithBitCount frame totalBitCount now wrapPeriodUS m0 =
     (if window m0 = 0 then Some m0
      else
        let occupied =
              (if totalBitCount \<noteq> 0
               then frameOccupancyFromBitCount frame (uint totalBitCount + 3) (nominalBitrate m0) (dataBitrate m0)
               else frameOccupancy frame (nominalBitrate m0) (dataBitrate m0));
            ns = word_of_int occupied :: u64;
            m = expireEarlyTx now (expirePending now m0)
        in if f_Direction frame = Transmit
           then let i = findPending frame True now m
                in if i \<ge> 0
                   then do {
                     p \<leftarrow> index_at (pending m) i;
                     if \<not> p_confirmed p
                     then let p' = p\<lparr>p_confirmed := True\<rparr>
                          in relocatePending p' frame now wrapPeriodUS ns
                               (m\<lparr>pending := (pending m)[nat i := p']\<rparr>)
                     else Some m
                   }
                   else if f_TimestampUS frame \<noteq> 0
                   then let kept = (if length (earlyTx m) \<ge> maxPendingTx then tl (earlyTx m) else earlyTx m)
                        in Some (m\<lparr>earlyTx := kept @ [\<lparr>e_frame = frame, e_at = now,
                                     e_wrapPeriodUS = wrapPeriodUS, e_occupiedNs = ns\<rparr>]\<rparr>)
                   else Some m
           else let i = findPending frame False now m
                in if i \<ge> 0
                   then do {
                     p \<leftarrow> index_at (pending m) i;
                     let m1 = m\<lparr>pending := take (nat i) (pending m) @ drop (nat i + 1) (pending m)\<rparr>;
                     if \<not> p_confirmed p then relocatePending p frame now wrapPeriodUS ns m1 else Some m1
                   }
                   else if f_TimestampUS frame \<noteq> 0
                   then addHardwareLocked frame now wrapPeriodUS ns m
                   else addDurationLocked ns now m)"

definition observeWithWrap :: "Frame \<Rightarrow> gotime \<Rightarrow> u64 \<Rightarrow> busLoadMeter \<Rightarrow> busLoadMeter option" where
  "observeWithWrap frame now wrapPeriodUS m = observeWithBitCount frame 0 now wrapPeriodUS m"

definition observe :: "Frame \<Rightarrow> gotime \<Rightarrow> busLoadMeter \<Rightarrow> busLoadMeter option" where
  "observe frame now m = observeWithWrap frame now 0 m"

section \<open>The snapshot\<close>

text \<open>The sums of the loop over both windows; the load is the quotient, at most one.\<close>

definition total_occupied :: "busLoadMeter \<Rightarrow> u64" where
  "total_occupied m = sum_list (map sl_occupiedNs (slots m)) + sum_list (map sl_occupiedNs (hwSlots m))"

definition total_frames :: "busLoadMeter \<Rightarrow> u64" where
  "total_frames m = sum_list (map sl_frames (slots m)) + sum_list (map sl_frames (hwSlots m))"

definition snapshot :: "gotime \<Rightarrow> busLoadMeter \<Rightarrow> (BusLoad \<times> busLoadMeter) option" where
  "snapshot now m0 =
     (if window m0 = 0 \<or> nominalBitrate m0 = 0
      then Some (\<lparr>bl_Load = 0, bl_Window = 0, bl_NominalBitrate = 0, bl_DataBitrate = 0, bl_FrameCount = 0\<rparr>, m0)
      else do {
        m1 \<leftarrow> rotate_meter now m0;
        m2 \<leftarrow> (if hwInitialized m1 then rotateHardware (hardwareNow now m1) m1 else Some m1);
        let m = expireEarlyTx now (expirePending now m2);
        if started m = 0
        then Some (\<lparr>bl_Load = 0, bl_Window = window m, bl_NominalBitrate = nominalBitrate m,
                     bl_DataBitrate = dataBitrate m, bl_FrameCount = 0\<rparr>, m)
        else
          let age0 = time_Sub now (started m);
              age = (if hwInitialized m
                     then let hardwareAgeUS = hardwareNow now m - hwFirstUS m
                          in if hardwareAgeUS \<ge> in_us (window m) then window m
                             else let hardwareAge = uint hardwareAgeUS * Microsecond
                                  in if hardwareAge > age0 then hardwareAge else age0
                     else age0);
              denom = (if age > 0 \<and> age < window m then age else window m);
              load = of_int (uint (total_occupied m)) / of_int denom
          in Some (\<lparr>bl_Load = (if load > 1 then 1 else load), bl_Window = denom,
                     bl_NominalBitrate = nominalBitrate m, bl_DataBitrate = dataBitrate m,
                     bl_FrameCount = total_frames m\<rparr>, m)
      })"


section \<open>No operation of the meter panics\<close>

text \<open>What \<open>configure\<close> establishes and every operation keeps; a meter never configured has no window.\<close>

definition dims :: "busLoadMeter \<Rightarrow> bool" where
  "dims m \<longleftrightarrow> window m = Second \<and> slotlen m = Millisecond \<and> nominalBitrate m \<noteq> 0 \<and>
     length (slots m) = 1000 \<and> length (hwSlots m) = 1000"

definition lists_ok :: "busLoadMeter \<Rightarrow> bool" where
  "lists_ok m \<longleftrightarrow> length (pending m) \<le> 256 \<and> length (earlyTx m) \<le> 256"

definition meter_inv :: "busLoadMeter \<Rightarrow> bool" where
  "meter_inv m \<longleftrightarrow> m = zero_meter \<or> dims m \<and> lists_ok m"

named_theorems meter_consts \<open>the constants of the meter, evaluated\<close>

lemma Millisecond_eq [meter_consts]: "Millisecond = 1000000"
  by (simp add: Millisecond_def Microsecond_def)

lemma Microsecond_eq [meter_consts]: "Microsecond = 1000"
  by (simp add: Microsecond_def)

lemmas [meter_consts] = Second_eq

lemma go_quot_nonneg: "0 \<le> a \<Longrightarrow> 0 < b \<Longrightarrow> go_quot a b = a div b"
  by (cases "a = 0") (simp_all add: go_quot_def)

lemma go_quot_neg: "a < 0 \<Longrightarrow> 0 < b \<Longrightarrow> go_quot a b \<le> 0"
  by (simp add: go_quot_def pos_imp_zdiv_nonneg_iff)

lemma in_us_window [meter_consts]: "in_us Second = 1000000" "in_us Millisecond = 1000"
  by (simp_all add: in_us_def go_quot_nonneg meter_consts)

lemma index_at_Some: "0 \<le> i \<Longrightarrow> i < int (length xs) \<Longrightarrow> index_at xs i = Some (xs ! nat i)"
  by (simp add: index_at_def)

lemma add_at_total:
  assumes "0 \<le> i" "i < int (length xs)"
  shows "add_at i occ xs = Some (xs[nat i := \<lparr>sl_occupiedNs = sl_occupiedNs (xs ! nat i) + occ,
           sl_frames = sl_frames (xs ! nat i) + 1\<rparr>])"
  using assms by (simp add: add_at_def index_at_Some)

lemma shift_slots_total:
  assumes "0 \<le> k" "k \<le> int (length xs)"
  shows "shift_slots k xs = Some (drop (nat k) xs @ replicate (nat k) zero_slot)"
proof -
  have "nat (int (length xs) - k) = length xs - nat k" using assms by simp
  then show ?thesis
    using assms by (simp add: shift_slots_def slice_from_def go_copy_def)
qed

text \<open>The slots after a rotation, as a function.\<close>

definition rotated :: "gotime \<Rightarrow> busLoadMeter \<Rightarrow> busLoadMeter" where
  "rotated now m =
     (if origin m = 0 then m\<lparr>origin := now, started := now\<rparr>
      else let elapsed = time_Sub now (origin m) in
        if elapsed \<le> Second then m
        else let k = (elapsed - Second + Millisecond - 1) div Millisecond in
          if 1000 \<le> k then m\<lparr>slots := replicate 1000 zero_slot, origin := now\<rparr>
          else m\<lparr>slots := drop (nat k) (slots m) @ replicate (nat k) zero_slot,
                 origin := origin m + k * Millisecond\<rparr>)"

lemma shift_pos: "Second < e \<Longrightarrow> 1 \<le> (e - Second + Millisecond - 1) div Millisecond"
  by (simp add: meter_consts)

lemma rotate_meter_eq:
  assumes "dims m"
  shows "rotate_meter now m = Some (rotated now m)"
proof -
  let ?e = "time_Sub now (origin m)"
  let ?k = "(?e - Second + Millisecond - 1) div Millisecond"
  have before: "?e \<le> Second" if "now < origin m"
    using that by (simp add: time_Sub_def meter_consts)
  have q: "go_div (?e - Second + Millisecond - 1) Millisecond = Some ?k" if "Second < ?e"
    using that by (simp add: go_div_def go_quot_nonneg meter_consts)
  show ?thesis
    using assms before q shift_pos [of ?e]
    by (auto simp: rotate_meter_def rotated_def Let_def dims_def shift_slots_total not_le)
qed

lemma rotated_dims: "dims m \<Longrightarrow> dims (rotated now m)"
  using shift_pos [of "time_Sub now (origin m)"]
  by (auto simp: rotated_def dims_def Let_def not_le)

lemma rotated_frame:
  "pending (rotated now m) = pending m" "earlyTx (rotated now m) = earlyTx m"
  "hwSlots (rotated now m) = hwSlots m" "hwInitialized (rotated now m) = hwInitialized m"
  "nominalBitrate (rotated now m) = nominalBitrate m" "dataBitrate (rotated now m) = dataBitrate m"
  by (simp_all add: rotated_def Let_def)

text \<open>The slot of a time, clipped to the last one.\<close>

definition slot_index :: "gotime \<Rightarrow> busLoadMeter \<Rightarrow> int" where
  "slot_index now m =
     (let q = go_quot (time_Sub now (origin m)) Millisecond in if 1000 \<le> q then 999 else q)"

lemma slot_index_le: "slot_index now m \<le> 999"
  by (simp add: slot_index_def Let_def)

lemma addDurationLocked_eq:
  assumes "dims m" "0 < sint occ"
  shows "addDurationLocked occ now m =
    (let r = rotated now m; i = slot_index now r in
     Some (if i < 0 then r
           else r\<lparr>slots := (slots r)[nat i := \<lparr>sl_occupiedNs = sl_occupiedNs (slots r ! nat i) + occ,
                    sl_frames = sl_frames (slots r ! nat i) + 1\<rparr>]\<rparr>))"
proof -
  let ?r = "rotated now m"
  have d: "slotlen ?r = Millisecond" "length (slots ?r) = 1000"
    using rotated_dims [OF assms(1)] by (auto simp: dims_def)
  show ?thesis
    using assms d
    by (simp add: addDurationLocked_def rotate_meter_eq go_div_def Let_def slot_index_def add_at_total)
      (auto simp: meter_consts)
qed


text \<open>An operation on the windows succeeds and leaves the two lists alone.\<close>

definition windows_only :: "busLoadMeter \<Rightarrow> busLoadMeter option \<Rightarrow> bool" where
  "windows_only m r \<longleftrightarrow> (\<exists>m'. r = Some m' \<and> dims m' \<and> pending m' = pending m \<and> earlyTx m' = earlyTx m)"

lemma windows_only_bind:
  assumes "windows_only m r" and "\<And>m1. dims m1 \<Longrightarrow> windows_only m1 (f m1)"
  shows "windows_only m (Option.bind r f)"
  using assms unfolding windows_only_def by fastforce

lemma windows_only_Some:
  "dims m' \<Longrightarrow> pending m' = pending m \<Longrightarrow> earlyTx m' = earlyTx m \<Longrightarrow> windows_only m (Some m')"
  by (simp add: windows_only_def)

lemma rotate_meter_ok: "dims m \<Longrightarrow> windows_only m (rotate_meter now m)"
  by (simp add: rotate_meter_eq rotated_dims rotated_frame windows_only_Some)

lemma dims_update_slots:
  "dims m \<Longrightarrow> dims (m\<lparr>slots := (slots m)[i := x]\<rparr>)" "dims m \<Longrightarrow> dims (m\<lparr>hwSlots := (hwSlots m)[i := x]\<rparr>)"
  by (simp_all add: dims_def)

lemma addDurationLocked_ok: "dims m \<Longrightarrow> windows_only m (addDurationLocked occ now m)"
proof (cases "0 < sint occ")
  case True
  assume "dims m"
  then show ?thesis
    using True by (auto simp: addDurationLocked_eq Let_def rotated_dims rotated_frame
        intro!: windows_only_Some dims_update_slots)
qed (simp add: addDurationLocked_def windows_only_Some)

lemma removeHostLocked_ok: "dims m \<Longrightarrow> windows_only m (removeHostLocked p m)"
proof -
  assume d: "dims m"
  let ?r = "rotated (p_at p) m"
  have r: "dims ?r" using d by (rule rotated_dims)
  then have s: "slotlen ?r = Millisecond" "length (slots ?r) = 1000" by (simp_all add: dims_def)
  have "index_at (slots ?r) (slot_index (p_at p) ?r) = Some (slots ?r ! nat (slot_index (p_at p) ?r))"
    if "0 \<le> slot_index (p_at p) ?r"
    using that slot_index_le [of "p_at p" ?r] s by (simp add: index_at_Some)
  then show ?thesis
    using d r s
    by (auto simp: removeHostLocked_def rotate_meter_eq go_div_def Let_def slot_index_def rotated_frame
        Millisecond_eq intro!: windows_only_Some dims_update_slots split: if_splits)
qed

lemma sint_small: "uint x < 2 ^ 63 \<Longrightarrow> sint x = uint x" for x :: u64
  using signed_take_bit_int_eq_self [of 63 "uint x"] uint_ge_0 [of x] by (simp add: sint_uint)

lemma sint_div_1000: "sint (x div 1000) = uint x div 1000" for x :: u64
proof -
  have "uint x < 2 ^ 64" using uint_lt2p [of x] by simp
  then show ?thesis by (simp add: sint_small uint_div)
qed

lemma rotateHardware_ok:
  assumes "dims m"
  shows "windows_only m (rotateHardware atUS m)"
proof -
  have d: "window m = Second" "slotlen m = Millisecond" "length (hwSlots m) = 1000" "dims m"
    using assms by (auto simp: dims_def)
  have sh: "sint x \<ge> 0 \<and> sint x \<le> 1000" if "\<not> 1000 \<le> x" for x :: u64
    using that sint_small [of x] uint_ge_0 [of x] by (simp add: word_le_def)
  have "dims (m\<lparr>hwOriginUS := o'\<rparr>)" for o' using d by (simp add: dims_def)
  moreover have "dims (m\<lparr>hwSlots := replicate 1000 zero_slot, hwOriginUS := o'\<rparr>)" for o'
    using d by (simp add: dims_def)
  moreover have "dims (m\<lparr>hwSlots := drop (nat (sint x)) (hwSlots m) @ replicate (nat (sint x)) zero_slot,
      hwOriginUS := o'\<rparr>)" if "\<not> 1000 \<le> x" for x :: u64 and o'
    using d sh [OF that] by (simp add: dims_def nat_le_iff)
  ultimately show ?thesis
    using d sh
    by (auto simp: rotateHardware_def Let_def udiv_def in_us_window shift_slots_total
        intro!: windows_only_Some)
qed

lemma hardwareTimestamp_ok:
  assumes "dims m" "hardwareTimestamp raw now wrap m = (atUS, m')"
  shows "dims m' \<and> pending m' = pending m \<and> earlyTx m' = earlyTx m \<and> hwInitialized m'"
  using assms by (auto simp: hardwareTimestamp_def Let_def dims_def split: if_splits)

lemma add_hardware_slot_ok: "dims m \<Longrightarrow> windows_only m (add_hardware_slot atUS now occ m)"
proof -
  assume d: "dims m"
  let ?q = "sint ((atUS - hwOriginUS m) div 1000)"
  have "0 \<le> ?q" by (simp add: sint_div_1000 pos_imp_zdiv_nonneg_iff)
  then have "add_at (if ?q \<ge> 1000 then 1000 - 1 else ?q) occ (hwSlots m) \<noteq> None"
    using d by (simp add: dims_def add_at_total)
  then show ?thesis
    using d by (auto simp: add_hardware_slot_def udiv_def dims_def in_us_window Let_def add_at_def
        Option.bind_eq_Some_conv intro!: windows_only_Some split: if_splits option.splits)
qed

lemma addHardwareLocked_ok:
  assumes "dims m"
  shows "windows_only m (addHardwareLocked frame now wrap occ m)"
proof (cases "occ = 0")
  case False
  have first: "windows_only m (if hwInitialized m then rotateHardware (hardwareNow now m) m else Some m)"
    using assms by (simp add: rotateHardware_ok windows_only_Some)
  have second: "windows_only m1 (let (atUS, m2) = hardwareTimestamp (f_TimestampUS frame) now wrap m1 in
      do { m3 \<leftarrow> rotateHardware atUS m2;
           if atUS < hwOriginUS m3
           then if \<exists>s \<in> set (hwSlots m3). sl_frames s \<noteq> 0 then Some m3
                else add_hardware_slot atUS now occ (m3\<lparr>hwOriginUS := atUS\<rparr>)
           else add_hardware_slot atUS now occ m3 })" if "dims m1" for m1
  proof -
    obtain atUS m2 where t: "hardwareTimestamp (f_TimestampUS frame) now wrap m1 = (atUS, m2)" by fastforce
    from hardwareTimestamp_ok [OF that t]
    have m2: "dims m2" "pending m2 = pending m1" "earlyTx m2 = earlyTx m1" by simp_all
    have "windows_only m2 (do { m3 \<leftarrow> rotateHardware atUS m2;
           if atUS < hwOriginUS m3
           then if \<exists>s \<in> set (hwSlots m3). sl_frames s \<noteq> 0 then Some m3
                else add_hardware_slot atUS now occ (m3\<lparr>hwOriginUS := atUS\<rparr>)
           else add_hardware_slot atUS now occ m3 })"
    proof (rule windows_only_bind [OF rotateHardware_ok [OF m2(1)]])
      fix m3 assume d3: "dims m3"
      then have "dims (m3\<lparr>hwOriginUS := atUS\<rparr>)" by (simp add: dims_def)
      from add_hardware_slot_ok [OF this, of atUS now occ] add_hardware_slot_ok [OF d3, of atUS now occ] d3
      show "windows_only m3 (if atUS < hwOriginUS m3
           then if \<exists>s \<in> set (hwSlots m3). sl_frames s \<noteq> 0 then Some m3
                else add_hardware_slot atUS now occ (m3\<lparr>hwOriginUS := atUS\<rparr>)
           else add_hardware_slot atUS now occ m3)"
        by (auto simp: windows_only_def)
    qed
    then show ?thesis using m2 by (simp add: t windows_only_def)
  qed
  show ?thesis
    using windows_only_bind [OF first second] False by (simp add: addHardwareLocked_def)
qed (use assms in \<open>simp add: addHardwareLocked_def windows_only_Some\<close>)

lemma relocatePending_ok: "dims m \<Longrightarrow> windows_only m (relocatePending p frame now wrap occ m)"
  by (auto simp: relocatePending_def intro!: windows_only_Some windows_only_bind
      removeHostLocked_ok addHardwareLocked_ok)


lemma find_pending_from_range:
  "find_pending_from i key u now ps = -1 \<or>
   (i \<le> find_pending_from i key u now ps \<and> find_pending_from i key u now ps < i + int (length ps))"
proof (induction ps arbitrary: i)
  case (Cons p ps)
  show ?case using Cons.IH [of "i + 1"] by (simp, linarith)
qed simp

lemma findPending_range: "0 \<le> findPending f u now m \<Longrightarrow> findPending f u now m < int (length (pending m))"
  using find_pending_from_range [of 0 "busFrameKey f" u now "pending m"]
  by (auto simp: findPending_def)

lemma find_echo_from_range: "find_echo_from i f es = Some (j, e) \<Longrightarrow> i \<le> j \<and> j < i + length es"
proof (induction es arbitrary: i)
  case (Cons e' es)
  show ?case using Cons.IH [of "i + 1"] Cons.prems by (auto split: if_splits)
qed simp

text \<open>A change of the two lists only, within their bound.\<close>

definition lists_only :: "busLoadMeter \<Rightarrow> busLoadMeter option \<Rightarrow> bool" where
  "lists_only m r \<longleftrightarrow> (\<exists>m'. r = Some m' \<and> dims m' \<and> lists_ok m')"

lemma lists_only_windows:
  "windows_only m1 r \<Longrightarrow> lists_ok m1 \<Longrightarrow> lists_only m r"
  by (auto simp: windows_only_def lists_only_def lists_ok_def)

lemma lists_only_Some: "dims m' \<Longrightarrow> lists_ok m' \<Longrightarrow> lists_only m (Some m')"
  by (simp add: lists_only_def)

lemma dims_lists [simp]:
  "dims (m\<lparr>pending := ps\<rparr>) = dims m" "dims (m\<lparr>earlyTx := es\<rparr>) = dims m"
  "dims (expirePending now m) = dims m" "dims (expireEarlyTx now m) = dims m"
  "dims (pushPending f now m) = dims m"
  by (simp_all add: dims_def expirePending_def expireEarlyTx_def pushPending_def Let_def)

lemma lists_ok_expire:
  "lists_ok m \<Longrightarrow> lists_ok (expireEarlyTx now (expirePending now m))"
  by (auto simp: lists_ok_def expirePending_def expireEarlyTx_def intro: le_trans [OF length_filter_le])

lemma lists_ok_push:
  assumes "lists_ok m"
  shows "lists_ok (expireEarlyTx now (pushPending f now m)) \<and>
     pending (expireEarlyTx now (pushPending f now m)) \<noteq> []"
proof -
  let ?ps = "filter (\<lambda>p. time_Sub now (p_at p) \<le> pendingTxEchoTTL) (pending m)"
  have "length ?ps \<le> 256"
    using assms unfolding lists_ok_def by (intro le_trans [OF length_filter_le]) simp
  then have "length (if 256 \<le> length ?ps then tl ?ps else ?ps) \<le> 255" by auto
  then show ?thesis
    using assms
    by (auto simp: lists_ok_def expirePending_def expireEarlyTx_def pushPending_def Let_def
        maxPendingTx_def intro: le_trans [OF length_filter_le])
qed

lemma recordTx_ok:
  assumes "dims m" "lists_ok m"
  shows "lists_only m (recordTx frame now m)"
proof -
  let ?f = "frame\<lparr>f_Direction := Transmit\<rparr>"
  have w: "window m \<noteq> 0" using assms by (simp add: dims_def meter_consts)
  obtain m1 where m1: "addLocked ?f now m = Some m1" "dims m1" "lists_ok m1"
    using addDurationLocked_ok [OF assms(1), of "word_of_int (frameOccupancy ?f (nominalBitrate m)
        (dataBitrate m))" now] assms(2)
    by (auto simp: addLocked_def windows_only_def lists_ok_def)
  let ?m = "expireEarlyTx now (pushPending ?f now m1)"
  have m: "dims ?m" "lists_ok ?m" "pending ?m \<noteq> []"
    using m1 lists_ok_push [OF m1(3), of now ?f] by simp_all
  show ?thesis
  proof (cases "find_echo_from 0 ?f (earlyTx ?m)")
    case None
    then show ?thesis using w m m1 by (simp add: recordTx_def Let_def lists_only_Some)
  next
    case (Some ie)
    obtain i e where ie: "ie = (i, e)" by fastforce
    have "i < length (earlyTx ?m)" using find_echo_from_range [of 0] Some ie by fastforce
    then have "lists_ok (?m\<lparr>earlyTx := take i (earlyTx ?m) @ drop (i + 1) (earlyTx ?m),
        pending := (pending ?m)[length (pending ?m) - 1 := x]\<rparr>)" for x
      using m by (auto simp: lists_ok_def)
    then show ?thesis
      using w m m1 Some ie
      by (simp add: recordTx_def Let_def index_at_Some)
        (rule lists_only_windows [OF relocatePending_ok], simp_all)
  qed
qed

lemma observe_ok:
  assumes "dims m" "lists_ok m"
  shows "lists_only m (observeWithBitCount frame n now wrap m)"
proof -
  let ?m = "expireEarlyTx now (expirePending now m)"
  have w: "window m \<noteq> 0" using assms by (simp add: dims_def meter_consts)
  have m: "dims ?m" "lists_ok ?m" using assms lists_ok_expire by auto
  note range = findPending_range [of frame True now ?m] findPending_range [of frame False now ?m]
  have upd: "lists_ok (?m\<lparr>pending := (pending ?m)[i := x]\<rparr>)" for i x
    using m by (simp add: lists_ok_def)
  have cut: "lists_ok (?m\<lparr>pending := take i (pending ?m) @ drop (i + 1) (pending ?m)\<rparr>)" for i
    using m by (auto simp: lists_ok_def)
  have early: "lists_ok (?m\<lparr>earlyTx := (if length (earlyTx ?m) \<ge> maxPendingTx then tl (earlyTx ?m)
      else earlyTx ?m) @ [x]\<rparr>)" for x
    using m by (auto simp: lists_ok_def maxPendingTx_def)
  define ns where "ns = (word_of_int (if n \<noteq> 0
      then frameOccupancyFromBitCount frame (uint n + 3) (nominalBitrate m) (dataBitrate m)
      else frameOccupancy frame (nominalBitrate m) (dataBitrate m)) :: u64)"
  let ?i = "findPending frame True now ?m" and ?j = "findPending frame False now ?m"
  have eq: "observeWithBitCount frame n now wrap m =
     (if f_Direction frame = Transmit
      then if 0 \<le> ?i
           then do { p \<leftarrow> index_at (pending ?m) ?i;
                     if \<not> p_confirmed p
                     then relocatePending (p\<lparr>p_confirmed := True\<rparr>) frame now wrap ns
                            (?m\<lparr>pending := (pending ?m)[nat ?i := p\<lparr>p_confirmed := True\<rparr>]\<rparr>)
                     else Some ?m }
           else if f_TimestampUS frame \<noteq> 0
           then Some (?m\<lparr>earlyTx := (if length (earlyTx ?m) \<ge> maxPendingTx then tl (earlyTx ?m)
                  else earlyTx ?m) @ [\<lparr>e_frame = frame, e_at = now, e_wrapPeriodUS = wrap, e_occupiedNs = ns\<rparr>]\<rparr>)
           else Some ?m
      else if 0 \<le> ?j
      then do { p \<leftarrow> index_at (pending ?m) ?j;
                if \<not> p_confirmed p
                then relocatePending p frame now wrap ns
                       (?m\<lparr>pending := take (nat ?j) (pending ?m) @ drop (nat ?j + 1) (pending ?m)\<rparr>)
                else Some (?m\<lparr>pending := take (nat ?j) (pending ?m) @ drop (nat ?j + 1) (pending ?m)\<rparr>) }
      else if f_TimestampUS frame \<noteq> 0 then addHardwareLocked frame now wrap ns ?m
      else addDurationLocked ns now ?m)"
    using w by (simp only: observeWithBitCount_def Let_def ns_def if_False)
  have i: "0 \<le> ?i \<Longrightarrow> index_at (pending ?m) ?i = Some (pending ?m ! nat ?i)"
    and j: "0 \<le> ?j \<Longrightarrow> index_at (pending ?m) ?j = Some (pending ?m ! nat ?j)"
    using range by (simp_all add: index_at_Some)
  have tx: "lists_only m (do { p \<leftarrow> index_at (pending ?m) ?i;
                     if \<not> p_confirmed p
                     then relocatePending (p\<lparr>p_confirmed := True\<rparr>) frame now wrap ns
                            (?m\<lparr>pending := (pending ?m)[nat ?i := p\<lparr>p_confirmed := True\<rparr>]\<rparr>)
                     else Some ?m })" if "0 \<le> ?i"
    using i [OF that] m upd
    by (auto intro!: lists_only_Some lists_only_windows [OF relocatePending_ok])
  have rx: "lists_only m (do { p \<leftarrow> index_at (pending ?m) ?j;
                if \<not> p_confirmed p
                then relocatePending p frame now wrap ns
                       (?m\<lparr>pending := take (nat ?j) (pending ?m) @ drop (nat ?j + 1) (pending ?m)\<rparr>)
                else Some (?m\<lparr>pending := take (nat ?j) (pending ?m) @ drop (nat ?j + 1) (pending ?m)\<rparr>) })"
    if "0 \<le> ?j"
    using j [OF that] m cut
    by (auto intro!: lists_only_Some lists_only_windows [OF relocatePending_ok])
  have hw: "lists_only m (addHardwareLocked frame now wrap ns ?m)"
    and host: "lists_only m (addDurationLocked ns now ?m)"
    using m by (auto intro: lists_only_windows [OF addHardwareLocked_ok] lists_only_windows [OF addDurationLocked_ok])
  have keep: "lists_only m (Some ?m)" using m by (rule lists_only_Some)
  have early': "lists_only m (Some (?m\<lparr>earlyTx := (if length (earlyTx ?m) \<ge> maxPendingTx
      then tl (earlyTx ?m) else earlyTx ?m) @ [x]\<rparr>))" for x
    using m(1) early by (intro lists_only_Some) simp_all
  show ?thesis
    unfolding eq using tx rx hw host keep early' by presburger
qed

lemma if_Some_pair: "\<exists>b. (if c then Some (x, y) else Some (z, y)) = Some (b, y)"
  by simp

lemma snapshot_ok:
  assumes "dims m" "lists_ok m"
  shows "\<exists>b m'. snapshot now m = Some (b, m') \<and> dims m' \<and> lists_ok m'"
proof -
  have on: "\<not> (window m = 0 \<or> nominalBitrate m = 0)" using assms by (simp add: dims_def meter_consts)
  obtain m1 where m1: "rotate_meter now m = Some m1" "dims m1" "lists_ok m1"
    using rotate_meter_ok [OF assms(1), of now] assms(2) by (auto simp: windows_only_def lists_ok_def)
  obtain m2 where m2: "(if hwInitialized m1 then rotateHardware (hardwareNow now m1) m1 else Some m1) = Some m2"
    "dims m2" "lists_ok m2"
    using rotateHardware_ok [OF m1(2), of "hardwareNow now m1"] m1 by (cases "hwInitialized m1") (auto simp: windows_only_def lists_ok_def)
  let ?m = "expireEarlyTx now (expirePending now m2)"
  have m: "dims ?m" "lists_ok ?m" using m2 lists_ok_expire by auto
  have "\<exists>b. snapshot now m = Some (b, ?m)"
    unfolding snapshot_def if_not_P [OF on] m1(1) bind.bind_lunit m2(1) Let_def by (rule if_Some_pair)
  with m show ?thesis by blast
qed

section \<open>The meter as a machine\<close>

datatype meter_op =
    MConfigure Config
  | MRecordTx Frame gotime
  | MObserve Frame u16 gotime u64
  | MSnapshot gotime

fun meter_step :: "meter_op \<Rightarrow> busLoadMeter \<Rightarrow> busLoadMeter option" where
  "meter_step (MConfigure cfg) m = Some (configure cfg m)"
| "meter_step (MRecordTx frame now) m = recordTx frame now m"
| "meter_step (MObserve frame n now wrap) m = observeWithBitCount frame n now wrap m"
| "meter_step (MSnapshot now) m = map_option snd (snapshot now m)"

fun meter_run :: "meter_op list \<Rightarrow> busLoadMeter \<Rightarrow> busLoadMeter option" where
  "meter_run [] m = Some m"
| "meter_run (x # xs) m = Option.bind (meter_step x m) (meter_run xs)"

lemma configure_ok: "dims (configure cfg m) \<and> lists_ok (configure cfg m)"
  by (simp add: configure_def dims_def lists_ok_def Let_def busLoadSlotCount_def defaultBusLoadWindow_def
      meter_consts)

lemma zero_meter_off: "meter_step x zero_meter = Some m' \<Longrightarrow> meter_inv m'"
  by (cases x) (auto simp: meter_inv_def configure_ok recordTx_def observeWithBitCount_def
      snapshot_def Let_def zero_meter_def)

lemma meter_step_inv:
  assumes "meter_inv m"
  shows "\<exists>m'. meter_step x m = Some m' \<and> meter_inv m'"
proof (cases "m = zero_meter")
  case True
  have "meter_step x zero_meter \<noteq> None"
    by (cases x) (simp_all add: recordTx_def observeWithBitCount_def snapshot_def zero_meter_def Let_def)
  with True zero_meter_off [of x] show ?thesis by auto
next
  case False
  then have m: "dims m" "lists_ok m" using assms by (auto simp: meter_inv_def)
  show ?thesis
    using recordTx_ok [OF m] observe_ok [OF m] snapshot_ok [OF m] configure_ok
    by (cases x) (fastforce simp: lists_only_def meter_inv_def)+
qed

lemma meter_run_inv: "meter_inv m \<Longrightarrow> \<exists>m'. meter_run xs m = Some m' \<and> meter_inv m'"
proof (induction xs arbitrary: m)
  case (Cons x xs)
  then show ?case using meter_step_inv [OF Cons.prems, of x] by auto
qed simp


section \<open>Properties\<close>

text \<open>C32: No sequence of configurations, transmissions, observations and snapshots, at any times
  and with any timestamps, makes the meter panic, and it never keeps more than 256 pending
  transmissions or 256 early echoes.\<close>

theorem meter_never_panics:
  "\<exists>m'. meter_run xs zero_meter = Some m' \<and> length (pending m') \<le> 256 \<and> length (earlyTx m') \<le> 256 \<and>
     length (slots m') = 1000 \<and> length (hwSlots m') = 1000"
proof -
  obtain m' where "meter_run xs zero_meter = Some m'" "meter_inv m'"
    using meter_run_inv [of zero_meter xs] by (auto simp: meter_inv_def)
  then show ?thesis
    by (auto simp: meter_inv_def zero_meter_def busLoadSlotCount_def dims_def lists_ok_def)
qed

end
