(* ===== verification/Log_Clock.thy ===== *)
theory Log_Clock
  imports Go_Prelude
begin

text \<open>
  The clock behind the relative times in the frame log (timestamp.go): the time since the first frame
  and since the preceding one, from timestamps that may roll over at a known period. Its property is
  that it recovers the real times as long as no gap reaches the period.
\<close>

record relativeLogClock =
  lc_initialized :: bool
  lc_previousUS :: u64
  lc_elapsedUS :: u64

definition clock_reset :: relativeLogClock where
  "clock_reset = \<lparr>lc_initialized = False, lc_previousUS = 0, lc_elapsedUS = 0\<rparr>"

definition clock_observe :: "u64 \<Rightarrow> u64 \<Rightarrow> relativeLogClock \<Rightarrow> (u64 \<times> u64) \<times> relativeLogClock" where
  "clock_observe timestampUS wrapPeriodUS c =
     (if \<not> lc_initialized c
      then ((0, 0), c\<lparr>lc_initialized := True, lc_previousUS := timestampUS\<rparr>)
      else let deltaUS = (if timestampUS \<ge> lc_previousUS c then timestampUS - lc_previousUS c
                          else if wrapPeriodUS > lc_previousUS c
                          then wrapPeriodUS - lc_previousUS c + timestampUS else 0);
               elapsedUS = lc_elapsedUS c + deltaUS
           in ((elapsedUS, deltaUS), c\<lparr>lc_previousUS := timestampUS, lc_elapsedUS := elapsedUS\<rparr>))"

fun clock_run :: "u64 \<Rightarrow> u64 list \<Rightarrow> relativeLogClock \<Rightarrow> (u64 \<times> u64) list" where
  "clock_run wrap [] c = []"
| "clock_run wrap (t # ts) c = (case clock_observe t wrap c of (out, c) \<Rightarrow> out # clock_run wrap ts c)"

section \<open>Real times\<close>

text \<open>
  The counter of the hardware at a real time: the time itself when the period is 0, which stands for
  none, and the remainder otherwise.
\<close>

definition counter :: "u64 \<Rightarrow> nat \<Rightarrow> u64" where
  "counter wrap t = (if wrap = 0 then word_of_nat t else word_of_nat (t mod unat wrap))"

text \<open>Times that never go back and whose gaps stay below the period.\<close>

fun steady :: "u64 \<Rightarrow> nat \<Rightarrow> nat list \<Rightarrow> bool" where
  "steady wrap t [] = True"
| "steady wrap t (t' # ts) =
     (t \<le> t' \<and> (if wrap = 0 then t' < 2 ^ 64 else t' - t < unat wrap) \<and> steady wrap t' ts)"

fun gaps :: "nat \<Rightarrow> nat \<Rightarrow> nat list \<Rightarrow> (nat \<times> nat) list" where
  "gaps t0 t [] = []"
| "gaps t0 t (t' # ts) = (t' - t0, t' - t) # gaps t0 t' ts"

lemma wrapped_gap:
  fixes t g w :: nat
  assumes "g < w"
  shows "(t + g) mod w \<ge> t mod w \<Longrightarrow> (t + g) mod w - t mod w = g"
    and "\<not> (t + g) mod w \<ge> t mod w \<Longrightarrow> w - t mod w + (t + g) mod w = g"
proof -
  have r: "t mod w < w" using assms by simp
  have *: "(t + g) mod w = (t mod w + g) mod w" by (simp add: mod_add_left_eq)
  define r where "r = t mod w"
  have m: "(t + g) mod w = (if r + g < w then r + g else r + g - w)"
  proof (cases "r + g < w")
    case False
    then have "(r + g) mod w = (r + g - w) mod w" by (simp add: le_mod_geq)
    moreover have "r + g - w < w" using assms r unfolding r_def by linarith
    ultimately show ?thesis using False * by (simp add: r_def)
  qed (simp add: * flip: r_def)
  have "r < w" using r by (simp add: r_def)
  then show "(t + g) mod w \<ge> t mod w \<Longrightarrow> (t + g) mod w - t mod w = g"
    and "\<not> (t + g) mod w \<ge> t mod w \<Longrightarrow> w - t mod w + (t + g) mod w = g"
    unfolding m r_def [symmetric] using assms by (auto split: if_splits)
qed

lemma unat_small: "a < 2 ^ 64 \<Longrightarrow> unat (word_of_nat a :: u64) = a"
  by (simp add: unsigned_of_nat take_bit_nat_eq_self)

lemma word_of_nat_le64: "a < 2 ^ 64 \<Longrightarrow> b < 2 ^ 64 \<Longrightarrow> (word_of_nat a :: u64) \<le> word_of_nat b \<longleftrightarrow> a \<le> b"
  using unat_small [of a] unat_small [of b] by (simp only: word_le_nat_alt)

lemma word_of_nat_less64: "a < 2 ^ 64 \<Longrightarrow> b < 2 ^ 64 \<Longrightarrow> (word_of_nat a :: u64) < word_of_nat b \<longleftrightarrow> a < b"
  using unat_small [of a] unat_small [of b] by (simp only: word_less_nat_alt)

text \<open>One step, from the counter of a real time.\<close>

lemma observe_step:
  assumes "t \<le> t'" "if wrap = 0 then t' < 2 ^ 64 else t' - t < unat wrap"
    and c: "lc_initialized c" "lc_previousUS c = counter wrap t"
  shows "clock_observe (counter wrap t') wrap c =
    ((lc_elapsedUS c + word_of_nat (t' - t), word_of_nat (t' - t)),
     c\<lparr>lc_previousUS := counter wrap t', lc_elapsedUS := lc_elapsedUS c + word_of_nat (t' - t)\<rparr>)"
proof (cases "wrap = 0")
  case True
  then show ?thesis
    using assms by (simp add: clock_observe_def counter_def word_of_nat_le64 Let_def)
next
  case False
  let ?w = "unat wrap" and ?r = "t mod unat wrap" and ?r' = "t' mod unat wrap"
  have w: "?w < 2 ^ 64" using unsigned_less [of wrap] by simp
  have g: "t' - t < ?w" "t + (t' - t) = t'" using assms False by simp_all
  have r: "?r < ?w" "?r' < ?w" using g(1) by simp_all
  have small: "?r < 2 ^ 64" "?r' < 2 ^ 64" using r w by linarith+
  have le: "counter wrap t \<le> counter wrap t' \<longleftrightarrow> ?r \<le> ?r'"
    using False small by (simp add: counter_def word_of_nat_le64)
  have wrap: "wrap = word_of_nat ?w" by simp
  have less: "wrap > counter wrap t"
    using False word_of_nat_less64 [OF small(1) w] r(1) by (simp add: counter_def)
  have "(if counter wrap t \<le> counter wrap t' then counter wrap t' - counter wrap t
      else wrap - counter wrap t + counter wrap t') = word_of_nat (t' - t)"
  proof (cases "?r \<le> ?r'")
    case True
    then have "?r' - ?r = t' - t" using wrapped_gap(1) [OF g(1), of t] g(2) by simp
    then show ?thesis using True False le by (simp add: counter_def flip: of_nat_diff)
  next
    case ge: False
    then have *: "?w - ?r + ?r' = t' - t" using wrapped_gap(2) [OF g(1), of t] g(2) by simp
    have "wrap - counter wrap t + counter wrap t' = word_of_nat (?w - ?r + ?r')"
      using False r(1) by (simp add: counter_def of_nat_diff)
    then show ?thesis using ge le * by simp
  qed
  then show ?thesis using c less by (auto simp: clock_observe_def Let_def split: if_splits)
qed

lemma clock_run_from:
  assumes "steady wrap t ts" "lc_initialized c" "lc_previousUS c = counter wrap t"
    "lc_elapsedUS c = word_of_nat (t - t0)" "t0 \<le> t"
  shows "clock_run wrap (map (counter wrap) ts) c =
    map (\<lambda>(elapsed, delta). (word_of_nat elapsed, word_of_nat delta)) (gaps t0 t ts)"
  using assms
proof (induction ts arbitrary: t c)
  case (Cons t' ts)
  let ?c = "c\<lparr>lc_previousUS := counter wrap t', lc_elapsedUS := lc_elapsedUS c + word_of_nat (t' - t)\<rparr>"
  have "lc_elapsedUS c + word_of_nat (t' - t) = (word_of_nat (t' - t0) :: u64)"
    using Cons.prems by (simp flip: of_nat_add)
  moreover from this have "clock_run wrap (map (counter wrap) ts) ?c =
      map (\<lambda>(elapsed, delta). (word_of_nat elapsed, word_of_nat delta)) (gaps t0 t' ts)"
    using Cons.prems by (intro Cons.IH) simp_all
  moreover have "clock_observe (counter wrap t') wrap c =
      ((lc_elapsedUS c + word_of_nat (t' - t), word_of_nat (t' - t)), ?c)"
    using Cons.prems by (intro observe_step) (auto split: if_splits)
  ultimately show ?case by simp
qed simp

section \<open>Property\<close>

text \<open>C22: for frames at real times that never go back, whose gaps stay below the roll-over period of the
  hardware counter (or that fit 64 bits when the counter has none), the log shows for every frame the
  real time since the first frame and since the frame before it, however often the counter rolls over
  in between.\<close>
theorem log_times_unwrap:
  assumes "steady wrap t ts"
  shows "clock_run wrap (map (counter wrap) (t # ts)) clock_reset =
    (0, 0) # map (\<lambda>(elapsed, delta). (word_of_nat elapsed, word_of_nat delta)) (gaps t t ts)"
  using clock_run_from [OF assms, of "\<lparr>lc_initialized = True, lc_previousUS = counter wrap t, lc_elapsedUS = 0\<rparr>" t]
  by (simp add: clock_observe_def clock_reset_def)

lemma log_times_unwrap_witness:
  "clock_run 1000 (map (counter 1000) [990, 1005, 1998, 2001]) clock_reset =
    [(0, 0), (15, 15), (1008, 993), (1011, 3)]"
proof -
  have "steady 1000 990 [1005, 1998, 2001]" by simp
  from log_times_unwrap [OF this] show ?thesis by simp
qed

end
