(* ===== verification/Rx_Pipeline.thy ===== *)
theory Rx_Pipeline
  imports Memory_Bus Bus_Load Log_Clock "HOL-Library.Sublist"
begin

text \<open>
  How a received frame travels from a driver's read loop to the subscribers: \<open>publishRx\<close> counts it in
  the bus-load meter and offers it to the receive channel (observability.go), the fan-out goroutine
  takes it from there and offers it to every subscription (fanout.go), and every frame that finds no
  room is counted and reported on the error channel of the driver.

  A channel made by \<open>Subscribe\<close> is an index into \<open>px_chans\<close>. Closing the channels of a fan-out takes
  place after its lock is given up, when no other operation can reach them any more, and is one step
  here. None is a run-time panic.
\<close>

section \<open>Telemetry\<close>

datatype rx_stage = SourceStage | SubscriberStage

datatype rx_report = ReceiveOverflow rx_stage u64 | BackendError

record telemetry =
  tl_errors :: "rx_report chan"
  tl_sourceDropped :: u64
  tl_subscriberDropped :: u64

definition newTelemetry :: telemetry where
  "newTelemetry = \<lparr>tl_errors = make_chan 16, tl_sourceDropped = 0, tl_subscriberDropped = 0\<rparr>"

definition report_error :: "rx_report \<Rightarrow> telemetry \<Rightarrow> telemetry option" where
  "report_error err t = map_option (\<lambda>(ch, taken). t\<lparr>tl_errors := ch\<rparr>) (try_send err (tl_errors t))"

definition reportSourceDrop :: "telemetry \<Rightarrow> telemetry option" where
  "reportSourceDrop t =
     (let count = tl_sourceDropped t + 1
      in report_error (ReceiveOverflow SourceStage count) (t\<lparr>tl_sourceDropped := count\<rparr>))"

definition reportSubscriberDrop :: "telemetry \<Rightarrow> telemetry option" where
  "reportSubscriberDrop t =
     (let count = tl_subscriberDropped t + 1
      in report_error (ReceiveOverflow SubscriberStage count) (t\<lparr>tl_subscriberDropped := count\<rparr>))"

definition telemetry_stats :: "telemetry option \<Rightarrow> Stats" where
  "telemetry_stats t =
     (case t of
        None \<Rightarrow> \<lparr>SourceDropped = 0, SubscriberDropped = 0\<rparr>
      | Some t \<Rightarrow> \<lparr>SourceDropped = tl_sourceDropped t, SubscriberDropped = tl_subscriberDropped t\<rparr>)"

definition resetCounts :: "telemetry \<Rightarrow> telemetry" where
  "resetCounts t = t\<lparr>tl_sourceDropped := 0, tl_subscriberDropped := 0\<rparr>"

section \<open>Observability\<close>

record observability =
  ob_events :: "telemetry option"
  ob_loadMeter :: busLoadMeter
  ob_clock :: relativeLogClock

definition zero_observability :: observability where
  "zero_observability = \<lparr>ob_events = None, ob_loadMeter = zero_meter, ob_clock = clock_reset\<rparr>"

text \<open>\<open>telemetry()\<close> creates the telemetry on first use and keeps it for the life of the driver.\<close>

definition ob_telemetry :: "observability \<Rightarrow> telemetry" where
  "ob_telemetry ob = (case ob_events ob of None \<Rightarrow> newTelemetry | Some t \<Rightarrow> t)"

definition ob_prepare :: "Config \<Rightarrow> observability \<Rightarrow> observability" where
  "ob_prepare cfg ob = ob\<lparr>ob_events := Some (resetCounts (ob_telemetry ob)),
     ob_loadMeter := configure cfg (ob_loadMeter ob), ob_clock := clock_reset\<rparr>"

definition ob_stats :: "observability \<Rightarrow> Stats" where
  "ob_stats ob = telemetry_stats (Some (ob_telemetry ob))"

definition recordBusTx :: "Frame \<Rightarrow> gotime \<Rightarrow> observability \<Rightarrow> observability option" where
  "recordBusTx frame now ob =
     map_option (\<lambda>m. ob\<lparr>ob_loadMeter := m\<rparr>) (recordTx (frame\<lparr>f_Direction := Transmit\<rparr>) now (ob_loadMeter ob))"

definition observeBusFrameWithWrap :: "Frame \<Rightarrow> gotime \<Rightarrow> u64 \<Rightarrow> observability \<Rightarrow> observability option" where
  "observeBusFrameWithWrap frame now wrap ob =
     map_option (\<lambda>m. ob\<lparr>ob_loadMeter := m\<rparr>) (observeWithWrap frame now wrap (ob_loadMeter ob))"

definition observeBusFrameWithBitCount :: "Frame \<Rightarrow> u16 \<Rightarrow> gotime \<Rightarrow> observability \<Rightarrow> observability option" where
  "observeBusFrameWithBitCount frame bits now ob =
     map_option (\<lambda>m. ob\<lparr>ob_loadMeter := m\<rparr>) (observeWithBitCount frame bits now 0 (ob_loadMeter ob))"

definition relativeLogTimes :: "u64 \<Rightarrow> u64 \<Rightarrow> observability \<Rightarrow> (u64 \<times> u64) \<times> observability" where
  "relativeLogTimes timestampUS wrap ob =
     (case clock_observe timestampUS wrap (ob_clock ob) of (logged, c) \<Rightarrow> (logged, ob\<lparr>ob_clock := c\<rparr>))"

definition ob_busLoad :: "gotime \<Rightarrow> observability \<Rightarrow> (BusLoad \<times> observability) option" where
  "ob_busLoad now ob =
     map_option (\<lambda>(load, m). (load, ob\<lparr>ob_loadMeter := m\<rparr>)) (snapshot now (ob_loadMeter ob))"

section \<open>The pipeline of an open driver\<close>

record pipeline =
  px_obs :: observability
  px_cancelled :: bool
  px_source :: "Frame chan"
  px_subs :: "nat list"
  px_chans :: "Frame chan list"
  px_closed :: bool
  px_running :: bool

text \<open>The receive channel and the fan-out that a driver makes when it opens.\<close>

definition new_pipeline :: "Config \<Rightarrow> observability \<Rightarrow> pipeline" where
  "new_pipeline cfg ob =
     \<lparr>px_obs = ob_prepare cfg ob, px_cancelled = False, px_source = make_chan (nat (cfg_RxBufferSize cfg)),
      px_subs = [], px_chans = [], px_closed = False, px_running = True\<rparr>"

definition with_telemetry :: "(telemetry \<Rightarrow> telemetry option) \<Rightarrow> pipeline \<Rightarrow> pipeline option" where
  "with_telemetry f p =
     map_option (\<lambda>t. p\<lparr>px_obs := (px_obs p)\<lparr>ob_events := Some t\<rparr>\<rparr>) (f (ob_telemetry (px_obs p)))"

text \<open>
  Every frame has one of three fates; with a cancelled context and room in the channel \<open>select\<close> takes
  either branch, and \<open>pick\<close> says which.
\<close>

datatype rx_event = Accepted Frame | LostAtSource Frame | Ignored Frame | Dispatched Frame nat
  | Got nat Frame

definition publishObservedRx :: "bool \<Rightarrow> Frame \<Rightarrow> pipeline \<Rightarrow> (rx_event list \<times> pipeline) option" where
  "publishObservedRx pick frame p =
     (if px_cancelled p \<and> (pick \<or> \<not> ch_closed (px_source p) \<and> \<not> chan_room (px_source p))
      then Some ([Ignored frame], p)
      else do { (ch, taken) \<leftarrow> try_send frame (px_source p);
                if taken then Some ([Accepted frame], p\<lparr>px_source := ch\<rparr>)
                else do { p \<leftarrow> with_telemetry reportSourceDrop p; Some ([LostAtSource frame], p) } })"

definition publishRxWithWrap :: "bool \<Rightarrow> Frame \<Rightarrow> gotime \<Rightarrow> u64 \<Rightarrow> pipeline \<Rightarrow> (rx_event list \<times> pipeline) option" where
  "publishRxWithWrap pick frame now wrap p =
     do { ob \<leftarrow> observeBusFrameWithWrap frame now wrap (px_obs p);
          publishObservedRx pick frame (p\<lparr>px_obs := ob\<rparr>) }"

definition publishRxWithBitCount :: "bool \<Rightarrow> Frame \<Rightarrow> u16 \<Rightarrow> gotime \<Rightarrow> pipeline \<Rightarrow> (rx_event list \<times> pipeline) option" where
  "publishRxWithBitCount pick frame bits now p =
     do { ob \<leftarrow> observeBusFrameWithBitCount frame bits now (px_obs p);
          publishObservedRx pick frame (p\<lparr>px_obs := ob\<rparr>) }"

section \<open>The fan-out\<close>

fun fan_dispatch_loop :: "Frame \<Rightarrow> nat list \<Rightarrow> pipeline \<Rightarrow> pipeline option" where
  "fan_dispatch_loop frame [] p = Some p"
| "fan_dispatch_loop frame (k # ks) p =
     do { (ch, taken) \<leftarrow> try_send frame (px_chans p ! k);
          p \<leftarrow> (if taken then Some (p\<lparr>px_chans := (px_chans p)[k := ch]\<rparr>)
               else with_telemetry reportSubscriberDrop p);
          fan_dispatch_loop frame ks p }"

definition fan_dispatch :: "Frame \<Rightarrow> pipeline \<Rightarrow> pipeline option" where
  "fan_dispatch frame p = fan_dispatch_loop frame (px_subs p) p"

definition fan_closeAll :: "pipeline \<Rightarrow> pipeline option" where
  "fan_closeAll p =
     (if px_closed p then Some p
      else do { chans \<leftarrow> close_all (px_subs p) (px_chans p);
                Some (p\<lparr>px_closed := True, px_subs := [], px_chans := chans\<rparr>) })"

text \<open>
  One turn of the goroutine. It parks on the empty source; a frame handed to it while parked is its
  next one, and with frames in the buffer and a cancelled context either branch may be taken.
\<close>

definition fan_stop :: "pipeline \<Rightarrow> (rx_event list \<times> pipeline) option" where
  "fan_stop p =
     do { p \<leftarrow> fan_closeAll p;
          Some ([], p\<lparr>px_running := False, px_source := (px_source p)\<lparr>ch_parked := 0\<rparr>\<rparr>) }"

definition fan_turn :: "bool \<Rightarrow> pipeline \<Rightarrow> (rx_event list \<times> pipeline) option" where
  "fan_turn pick p =
     (if \<not> px_running p then Some ([], p)
      else if px_cancelled p \<and> (ch_buf (px_source p) = [] \<or> pick \<and> ch_parked (px_source p) = 0)
      then fan_stop p
      else if ch_buf (px_source p) = [] \<and> \<not> ch_closed (px_source p) \<and> ch_parked (px_source p) > 0
      then Some ([], p)
      else (case chan_recv (px_source p) of
          (Received msg, ch) \<Rightarrow>
            map_option (\<lambda>p'. ([Dispatched msg (full_count (px_subs p) (px_chans p))], p'))
              (fan_dispatch msg (p\<lparr>px_source := ch\<rparr>))
        | (Drained, ch) \<Rightarrow> fan_stop (p\<lparr>px_source := ch\<rparr>)
        | (WouldBlock, ch) \<Rightarrow> Some ([], p\<lparr>px_source := ch\<rparr>)))"

definition fan_Subscribe :: "int \<Rightarrow> pipeline \<Rightarrow> nat \<times> pipeline" where
  "fan_Subscribe buffer p =
     (let ch = make_chan (nat (if buffer < 0 then 0 else buffer)); k = length (px_chans p)
      in if px_closed p then (k, p\<lparr>px_chans := px_chans p @ [ch\<lparr>ch_closed := True\<rparr>]\<rparr>)
         else (k, p\<lparr>px_chans := px_chans p @ [ch], px_subs := px_subs p @ [k]\<rparr>))"

definition fan_unsubscribe :: "nat \<Rightarrow> pipeline \<Rightarrow> pipeline option" where
  "fan_unsubscribe k p =
     (if k \<in> set (px_subs p)
      then do { ch \<leftarrow> close_chan (px_chans p ! k);
                Some (p\<lparr>px_subs := remove1 k (px_subs p), px_chans := (px_chans p)[k := ch]\<rparr>) }
      else Some p)"

text \<open>\<open>fanout.Close\<close> after the context is cancelled, as every driver calls it: the goroutine has returned.\<close>

definition fan_Close :: "pipeline \<Rightarrow> pipeline option" where
  "fan_Close p = map_option (\<lambda>p. p\<lparr>px_running := False\<rparr>) (fan_closeAll p)"

section \<open>The pipeline as a machine\<close>

datatype rx_op =
    RxPublish bool Frame gotime u64
  | RxPublishBits bool Frame u16 gotime
  | RxObserve Frame gotime u64
  | RxObserveBits Frame u16 gotime
  | RxTransmitted Frame gotime
  | RxLogTimes u64 u64
  | RxBusLoad gotime
  | RxFan bool
  | RxSubscribe int
  | RxUnsubscribe nat
  | RxReceive nat
  | RxReadError
  | RxCancel
  | RxClose

fun rx_step :: "rx_op \<Rightarrow> pipeline \<Rightarrow> (rx_event list \<times> pipeline) option" where
  "rx_step (RxPublish pick frame now wrap) p = publishRxWithWrap pick frame now wrap p"
| "rx_step (RxPublishBits pick frame bits now) p = publishRxWithBitCount pick frame bits now p"
| "rx_step (RxObserve frame now wrap) p =
     map_option (\<lambda>ob. ([], p\<lparr>px_obs := ob\<rparr>)) (observeBusFrameWithWrap frame now wrap (px_obs p))"
| "rx_step (RxObserveBits frame bits now) p =
     map_option (\<lambda>ob. ([], p\<lparr>px_obs := ob\<rparr>)) (observeBusFrameWithBitCount frame bits now (px_obs p))"
| "rx_step (RxTransmitted frame now) p =
     map_option (\<lambda>ob. ([], p\<lparr>px_obs := ob\<rparr>)) (recordBusTx frame now (px_obs p))"
| "rx_step (RxLogTimes timestampUS wrap) p =
     Some ([], p\<lparr>px_obs := snd (relativeLogTimes timestampUS wrap (px_obs p))\<rparr>)"
| "rx_step (RxBusLoad now) p =
     map_option (\<lambda>(load, ob). ([], p\<lparr>px_obs := ob\<rparr>)) (ob_busLoad now (px_obs p))"
| "rx_step (RxFan pick) p = fan_turn pick p"
| "rx_step (RxSubscribe n) p = Some ([], snd (fan_Subscribe n p))"
| "rx_step (RxUnsubscribe k) p = map_option (Pair []) (fan_unsubscribe k p)"
| "rx_step (RxReceive k) p =
     (if k < length (px_chans p)
      then (case chan_recv (px_chans p ! k) of (r, ch) \<Rightarrow>
              Some (case r of Received f \<Rightarrow> [Got k f] | _ \<Rightarrow> [], p\<lparr>px_chans := (px_chans p)[k := ch]\<rparr>))
      else Some ([], p))"
| "rx_step RxReadError p =
     map_option (Pair [])
       (with_telemetry (\<lambda>t. Some (t\<lparr>tl_errors := snd (chan_recv (tl_errors t))\<rparr>)) p)"
| "rx_step RxCancel p = Some ([], p\<lparr>px_cancelled := True\<rparr>)"
| "rx_step RxClose p = (if px_cancelled p then map_option (Pair []) (fan_Close p) else Some ([], p))"

fun rx_run :: "rx_op list \<Rightarrow> pipeline \<Rightarrow> (rx_event list \<times> pipeline) option" where
  "rx_run [] p = Some ([], p)"
| "rx_run (x # xs) p =
     do { (ev, p) \<leftarrow> rx_step x p; (evs, p) \<leftarrow> rx_run xs p; Some (ev @ evs, p) }"

section \<open>What a trace accounts for\<close>

definition accepted :: "rx_event list \<Rightarrow> Frame list" where
  "accepted evs = concat (map (\<lambda>e. case e of Accepted f \<Rightarrow> [f] | _ \<Rightarrow> []) evs)"

definition lost :: "rx_event list \<Rightarrow> nat" where
  "lost evs = sum_list (map (\<lambda>e. case e of LostAtSource f \<Rightarrow> 1 | _ \<Rightarrow> 0) evs)"

definition ignored :: "rx_event list \<Rightarrow> nat" where
  "ignored evs = sum_list (map (\<lambda>e. case e of Ignored f \<Rightarrow> 1 | _ \<Rightarrow> 0) evs)"

definition dispatched :: "rx_event list \<Rightarrow> Frame list" where
  "dispatched evs = concat (map (\<lambda>e. case e of Dispatched f n \<Rightarrow> [f] | _ \<Rightarrow> []) evs)"

definition missed :: "rx_event list \<Rightarrow> nat" where
  "missed evs = sum_list (map (\<lambda>e. case e of Dispatched f n \<Rightarrow> n | _ \<Rightarrow> 0) evs)"

definition got :: "nat \<Rightarrow> rx_event list \<Rightarrow> Frame list" where
  "got k evs = concat (map (\<lambda>e. case e of Got j f \<Rightarrow> if j = k then [f] else [] | _ \<Rightarrow> []) evs)"

lemmas trace_defs = accepted_def lost_def ignored_def dispatched_def missed_def got_def

lemma trace_append [simp]:
  "accepted (a @ b) = accepted a @ accepted b" "lost (a @ b) = lost a + lost b" "ignored (a @ b) = ignored a + ignored b"
  "dispatched (a @ b) = dispatched a @ dispatched b" "missed (a @ b) = missed a + missed b"
  "got k (a @ b) = got k a @ got k b"
  by (simp_all add: trace_defs)

lemma trace_simps [simp]:
  "ignored [] = 0" "ignored [Accepted f] = 0" "ignored [LostAtSource f] = 0" "ignored [Ignored f] = 1"
  "ignored [Dispatched f n] = 0" "ignored [Got j f] = 0"
  "accepted [] = []" "lost [] = 0" "dispatched [] = []" "missed [] = 0" "got k [] = []"
  "accepted [Accepted f] = [f]" "lost [Accepted f] = 0" "dispatched [Accepted f] = []"
  "missed [Accepted f] = 0" "got k [Accepted f] = []"
  "accepted [LostAtSource f] = []" "lost [LostAtSource f] = 1" "dispatched [LostAtSource f] = []"
  "missed [LostAtSource f] = 0" "got k [LostAtSource f] = []"
  "accepted [Ignored f] = []" "lost [Ignored f] = 0" "dispatched [Ignored f] = []"
  "missed [Ignored f] = 0" "got k [Ignored f] = []"
  "accepted [Dispatched f n] = []" "lost [Dispatched f n] = 0" "dispatched [Dispatched f n] = [f]"
  "missed [Dispatched f n] = n" "got k [Dispatched f n] = []"
  "accepted [Got j f] = []" "lost [Got j f] = 0" "dispatched [Got j f] = []" "missed [Got j f] = 0"
  "got k [Got j f] = (if j = k then [f] else [])"
  by (simp_all add: trace_defs)

section \<open>Invariant and step\<close>

abbreviation tele :: "pipeline \<Rightarrow> telemetry" where
  "tele p \<equiv> ob_telemetry (px_obs p)"

definition unread :: "nat \<Rightarrow> Frame chan list \<Rightarrow> Frame list" where
  "unread k chans = (if k < length chans then ch_buf (chans ! k) else [])"

definition ob_inv :: "observability \<Rightarrow> bool" where
  "ob_inv ob \<longleftrightarrow> \<not> ch_closed (tl_errors (ob_telemetry ob)) \<and> meter_inv (ob_loadMeter ob)"

definition rx_inv :: "pipeline \<Rightarrow> bool" where
  "rx_inv p \<longleftrightarrow> subs_ok (px_subs p) (px_chans p) \<and> \<not> ch_closed (px_source p) \<and> ob_inv (px_obs p)"

text \<open>What a step from \<open>p\<close> to \<open>p'\<close> with the events \<open>evs\<close> accounts for.\<close>

definition accounts :: "pipeline \<Rightarrow> rx_event list \<Rightarrow> pipeline \<Rightarrow> bool" where
  "accounts p evs p' \<longleftrightarrow>
     ch_buf (px_source p) @ accepted evs = dispatched evs @ ch_buf (px_source p') \<and>
     tl_sourceDropped (tele p') = tl_sourceDropped (tele p) + word_of_nat (lost evs) \<and>
     tl_subscriberDropped (tele p') = tl_subscriberDropped (tele p) + word_of_nat (missed evs) \<and>
     (\<forall>k. subseq (got k evs @ unread k (px_chans p')) (unread k (px_chans p) @ dispatched evs))"

lemma accounts_refl: "accounts p [] p"
  by (simp add: accounts_def)

lemma accounts_trans:
  assumes "accounts p e1 q" "accounts q e2 r"
  shows "accounts p (e1 @ e2) r"
proof -
  have "subseq (got k (e1 @ e2) @ unread k (px_chans r)) (unread k (px_chans p) @ dispatched (e1 @ e2))" for k
  proof -
    have 1: "subseq (got k e1 @ unread k (px_chans q)) (unread k (px_chans p) @ dispatched e1)"
      and 2: "subseq (got k e2 @ unread k (px_chans r)) (unread k (px_chans q) @ dispatched e2)"
      using assms by (simp_all add: accounts_def)
    have "subseq (got k e1 @ (got k e2 @ unread k (px_chans r))) (got k e1 @ (unread k (px_chans q) @ dispatched e2))"
      by (rule list_emb_append_mono [OF subseq_order.refl 2])
    also have "subseq \<dots> ((unread k (px_chans p) @ dispatched e1) @ dispatched e2)"
      using 1 list_emb_append_mono [OF 1, of "dispatched e2" "dispatched e2"] by simp
    finally show ?thesis by simp
  qed
  moreover have "ch_buf (px_source p) @ accepted (e1 @ e2) = dispatched (e1 @ e2) @ ch_buf (px_source r)"
    using assms by (simp add: accounts_def flip: append_assoc) simp
  ultimately show ?thesis using assms by (simp add: accounts_def)
qed

subsection \<open>The parts of a step\<close>

lemma report_total:
  assumes "\<not> ch_closed (tl_errors t)"
  shows "\<exists>t'. reportSourceDrop t = Some t' \<and> \<not> ch_closed (tl_errors t') \<and>
      tl_sourceDropped t' = tl_sourceDropped t + 1 \<and> tl_subscriberDropped t' = tl_subscriberDropped t"
    and "\<exists>t'. reportSubscriberDrop t = Some t' \<and> \<not> ch_closed (tl_errors t') \<and>
      tl_subscriberDropped t' = tl_subscriberDropped t + 1 \<and> tl_sourceDropped t' = tl_sourceDropped t"
  using assms try_send_offered [OF assms]
  by (auto simp: reportSourceDrop_def reportSubscriberDrop_def report_error_def Let_def)

lemma observe_total:
  assumes "ob_inv ob"
  shows "\<exists>ob'. observeBusFrameWithWrap frame now wrap ob = Some ob' \<and> ob_inv ob' \<and> ob_telemetry ob' = ob_telemetry ob"
    and "\<exists>ob'. observeBusFrameWithBitCount frame bits now ob = Some ob' \<and> ob_inv ob' \<and> ob_telemetry ob' = ob_telemetry ob"
    and "\<exists>ob'. recordBusTx frame now ob = Some ob' \<and> ob_inv ob' \<and> ob_telemetry ob' = ob_telemetry ob"
    and "\<exists>load ob'. ob_busLoad now ob = Some (load, ob') \<and> ob_inv ob' \<and> ob_telemetry ob' = ob_telemetry ob"
    and "ob_inv (snd (relativeLogTimes ts wrap ob)) \<and>
      ob_telemetry (snd (relativeLogTimes ts wrap ob)) = ob_telemetry ob"
  using assms meter_step_inv [of "ob_loadMeter ob" "MSnapshot now"]
    meter_step_inv [of "ob_loadMeter ob" "MObserve frame 0 now wrap"]
    meter_step_inv [of "ob_loadMeter ob" "MObserve frame bits now 0"]
    meter_step_inv [of "ob_loadMeter ob" "MRecordTx (frame\<lparr>f_Direction := Transmit\<rparr>) now"]
  by (auto simp: observeBusFrameWithWrap_def observeBusFrameWithBitCount_def recordBusTx_def
      observeWithWrap_def ob_inv_def ob_telemetry_def ob_busLoad_def relativeLogTimes_def split: prod.split)

lemma publish_ok:
  assumes "rx_inv p"
  shows "\<exists>evs p'. publishObservedRx pick frame p = Some (evs, p') \<and> rx_inv p' \<and> accounts p evs p'"
proof -
  have op: "\<not> ch_closed (px_source p)" "\<not> ch_closed (tl_errors (tele p))"
    using assms by (simp_all add: rx_inv_def ob_inv_def)
  note send = try_send_offered [OF op(1), of frame]
  obtain t' where t': "reportSourceDrop (tele p) = Some t'" "\<not> ch_closed (tl_errors t')"
      "tl_sourceDropped t' = tl_sourceDropped (tele p) + 1"
      "tl_subscriberDropped t' = tl_subscriberDropped (tele p)"
    using report_total(1) [OF op(2)] by auto
  show ?thesis
  proof (cases "px_cancelled p \<and> (pick \<or> \<not> chan_room (px_source p))")
    case True
    then show ?thesis using assms op by (auto simp: publishObservedRx_def accounts_def)
  next
    case False
    then show ?thesis
      using assms op send t'
      by (cases "chan_room (px_source p)") (auto simp: publishObservedRx_def accounts_def unread_def
          rx_inv_def ob_inv_def offered_buf with_telemetry_def ob_telemetry_def)
  qed
qed

lemma dispatch_loop_ok:
  assumes "subs_ok ks (px_chans p)" "\<not> ch_closed (tl_errors (tele p))"
  shows "\<exists>ob. fan_dispatch_loop frame ks p =
      Some (p\<lparr>px_obs := ob, px_chans := deliver_to frame ks (px_chans p)\<rparr>) \<and>
    ob_loadMeter ob = ob_loadMeter (px_obs p) \<and> \<not> ch_closed (tl_errors (ob_telemetry ob)) \<and>
    tl_sourceDropped (ob_telemetry ob) = tl_sourceDropped (tele p) \<and>
    tl_subscriberDropped (ob_telemetry ob) =
      tl_subscriberDropped (tele p) + word_of_nat (full_count ks (px_chans p))"
  using assms
proof (induction ks arbitrary: p)
  case Nil
  have "p\<lparr>px_obs := px_obs p, px_chans := px_chans p\<rparr> = p" by simp
  then show ?case using Nil by (intro exI [of _ "px_obs p"]) (simp add: full_count_def)
next
  case (Cons k ks)
  let ?ch = "px_chans p ! k"
  have k: "k \<notin> set ks" and op: "\<not> ch_closed ?ch"
    using Cons.prems by (auto simp: subs_ok_def)
  note send = try_send_offered [OF op, of frame]
  show ?case
  proof (cases "chan_room ?ch")
    case True
    let ?p = "p\<lparr>px_chans := (px_chans p)[k := offered frame ?ch]\<rparr>"
    have "subs_ok ks (px_chans ?p)" "\<not> ch_closed (tl_errors (tele ?p))"
      using Cons.prems by (simp_all add: subs_ok_update subs_ok_tl)
    from Cons.IH [OF this] show ?thesis
      using send True k by (auto simp: deliver_to_Cons full_count_other full_count_Cons)
  next
    case False
    then have same: "(px_chans p)[k := offered frame ?ch] = px_chans p" by (simp add: offered_full)
    obtain t' where t': "reportSubscriberDrop (tele p) = Some t'" "\<not> ch_closed (tl_errors t')"
        "tl_subscriberDropped t' = tl_subscriberDropped (tele p) + 1"
        "tl_sourceDropped t' = tl_sourceDropped (tele p)"
      using report_total(2) [OF Cons.prems(2)] by auto
    let ?p = "p\<lparr>px_obs := (px_obs p)\<lparr>ob_events := Some t'\<rparr>\<rparr>"
    have "subs_ok ks (px_chans ?p)" "\<not> ch_closed (tl_errors (tele ?p))"
      using Cons.prems t' by (simp_all add: subs_ok_tl ob_telemetry_def)
    from Cons.IH [OF this] show ?thesis
      using send False t' k deliver_to_Cons [OF k, of frame "px_chans p"]
      by (auto simp: with_telemetry_def full_count_Cons same ob_telemetry_def add.assoc)
  qed
qed

lemma subs_ok_deliver: "subs_ok ks chans \<Longrightarrow> subs_ok ks (deliver_to frame ks chans)"
  by (auto simp: subs_ok_def nth_deliver_to)

lemma unread_deliver:
  "subseq (ch_buf (if k \<in> S then offered frame c else c)) (ch_buf c @ [frame])"
  by (auto simp: offered_buf)

lemma closeAll_ok:
  assumes "rx_inv p"
  shows "\<exists>chans. fan_closeAll p =
      Some (p\<lparr>px_closed := True, px_subs := (if px_closed p then px_subs p else []), px_chans := chans\<rparr>) \<and>
    (\<forall>k. unread k chans = unread k (px_chans p)) \<and>
    subs_ok (if px_closed p then px_subs p else []) chans"
proof (cases "px_closed p")
  case True
  have "p\<lparr>px_closed := True, px_subs := px_subs p, px_chans := px_chans p\<rparr> = p"
    using True by (cases p) simp
  then show ?thesis using True assms by (intro exI [of _ "px_chans p"]) (simp add: fan_closeAll_def rx_inv_def)
next
  case False
  have subs: "subs_ok (px_subs p) (px_chans p)" using assms by (simp add: rx_inv_def)
  obtain chans where chans: "close_all (px_subs p) (px_chans p) = Some chans"
      "\<forall>k\<in>set (px_subs p). ch_closed (chans ! k) \<and> ch_buf (chans ! k) = ch_buf (px_chans p ! k)"
      "length chans = length (px_chans p)"
    using close_all_closes [OF subs] close_all_total [OF subs] by auto
  have "ch_buf (chans ! k) = ch_buf (px_chans p ! k)" for k
    using chans(2) close_all_other [OF chans(1), of k] by (cases "k \<in> set (px_subs p)") auto
  then show ?thesis using False chans by (intro exI [of _ chans]) (simp add: fan_closeAll_def unread_def)
qed

lemma fan_stop_ok:
  assumes "rx_inv p"
  shows "\<exists>p'. fan_stop p = Some ([], p') \<and> rx_inv p' \<and> accounts p [] p'"
  using closeAll_ok [OF assms] assms
  by (auto simp: fan_stop_def rx_inv_def accounts_def)

lemma fan_turn_ok:
  assumes "rx_inv p"
  shows "\<exists>evs p'. fan_turn pick p = Some (evs, p') \<and> rx_inv p' \<and> accounts p evs p'"
proof -
  let ?src = "px_source p"
  have src: "\<not> ch_closed ?src" and subs: "subs_ok (px_subs p) (px_chans p)"
    and tl: "\<not> ch_closed (tl_errors (tele p))"
    using assms by (simp_all add: rx_inv_def ob_inv_def)
  obtain q where q: "fan_stop p = Some ([], q)" "rx_inv q" "accounts p [] q"
    using fan_stop_ok [OF assms] by auto
  show ?thesis
  proof (cases "ch_buf ?src")
    case Nil
    then show ?thesis
      using assms src q
      by (auto simp: fan_turn_def chan_recv_def rx_inv_def accounts_def)
  next
    case (Cons msg rest)
    let ?p = "p\<lparr>px_source := ?src\<lparr>ch_buf := rest, ch_parked := ch_parked ?src - 1\<rparr>\<rparr>"
    obtain ob where ob: "fan_dispatch_loop msg (px_subs p) ?p =
          Some (?p\<lparr>px_obs := ob, px_chans := deliver_to msg (px_subs p) (px_chans p)\<rparr>)"
        "ob_loadMeter ob = ob_loadMeter (px_obs p)" "\<not> ch_closed (tl_errors (ob_telemetry ob))"
        "tl_sourceDropped (ob_telemetry ob) = tl_sourceDropped (tele p)"
        "tl_subscriberDropped (ob_telemetry ob) =
          tl_subscriberDropped (tele p) + word_of_nat (full_count (px_subs p) (px_chans p))"
      using dispatch_loop_ok [of "px_subs p" ?p msg] subs tl by auto
    let ?r = "?p\<lparr>px_obs := ob, px_chans := deliver_to msg (px_subs p) (px_chans p)\<rparr>"
    let ?ev = "[Dispatched msg (full_count (px_subs p) (px_chans p))]"
    have "subseq (unread k (deliver_to msg (px_subs p) (px_chans p))) (unread k (px_chans p) @ [msg])" for k
      by (simp add: unread_def nth_deliver_to unread_deliver offered_buf)
    then have r: "rx_inv ?r" "accounts p ?ev ?r"
      using assms src Cons ob subs_ok_deliver [OF subs, of msg]
      by (simp_all add: rx_inv_def ob_inv_def accounts_def)
    have recv: "chan_recv ?src = (Received msg, ?src\<lparr>ch_buf := rest, ch_parked := ch_parked ?src - 1\<rparr>)"
      using Cons by (simp add: chan_recv_def)
    have turn: "fan_turn pick p = (if \<not> px_running p then Some ([], p)
        else if px_cancelled p \<and> pick \<and> ch_parked ?src = 0 then fan_stop p else Some (?ev, ?r))"
      using Cons ob(1) by (simp add: fan_turn_def recv fan_dispatch_def)
    show ?thesis
      using r q assms accounts_refl unfolding turn
      by (cases "px_running p"; cases "px_cancelled p \<and> pick \<and> ch_parked ?src = 0") auto
  qed
qed

lemma subscribe_ok: "rx_inv p \<Longrightarrow>
   rx_inv (snd (fan_Subscribe n p)) \<and> accounts p [] (snd (fan_Subscribe n p))"
  by (auto simp: fan_Subscribe_def rx_inv_def accounts_def unread_def subs_ok_def make_chan_def
      Let_def nth_append)

lemma unsubscribe_ok: "rx_inv p \<Longrightarrow>
   \<exists>p'. fan_unsubscribe k p = Some p' \<and> rx_inv p' \<and> accounts p [] p'"
  by (auto simp: fan_unsubscribe_def rx_inv_def accounts_def unread_def subs_ok_def close_chan_def
      nth_update_if)

lemma receive_ok: "rx_inv p \<Longrightarrow>
   \<exists>evs p'. rx_step (RxReceive k) p = Some (evs, p') \<and> rx_inv p' \<and> accounts p evs p'"
  by (auto simp: rx_inv_def accounts_def unread_def chan_recv_def nth_update_if
      split: list.splits if_splits intro!: subs_ok_update)

lemma rx_step_ok:
  assumes "rx_inv p"
  shows "\<exists>evs p'. rx_step x p = Some (evs, p') \<and> rx_inv p' \<and> accounts p evs p'"
proof -
  have ob: "ob_inv (px_obs p)" using assms by (simp add: rx_inv_def)
  have obs: "rx_inv (p\<lparr>px_obs := ob'\<rparr>) \<and> accounts p [] (p\<lparr>px_obs := ob'\<rparr>) \<and>
      (accounts (p\<lparr>px_obs := ob'\<rparr>) evs p' \<longrightarrow> accounts p evs p')"
    if "ob_inv ob'" "ob_telemetry ob' = tele p" for ob' evs p'
    using that assms by (auto simp: rx_inv_def accounts_def)
  show ?thesis
  proof (cases x)
    case (RxPublish pick frame now wrap)
    obtain ob' where ob': "observeBusFrameWithWrap frame now wrap (px_obs p) = Some ob'" "ob_inv ob'"
        "ob_telemetry ob' = tele p"
      using observe_total(1) [OF ob] by blast
    then show ?thesis
      using publish_ok [of "p\<lparr>px_obs := ob'\<rparr>" pick frame] obs [OF ob'(2,3)]
      by (fastforce simp: RxPublish publishRxWithWrap_def)
  next
    case (RxPublishBits pick frame bits now)
    obtain ob' where ob': "observeBusFrameWithBitCount frame bits now (px_obs p) = Some ob'" "ob_inv ob'"
        "ob_telemetry ob' = tele p"
      using observe_total(2) [OF ob] by blast
    then show ?thesis
      using publish_ok [of "p\<lparr>px_obs := ob'\<rparr>" pick frame] obs [OF ob'(2,3)]
      by (fastforce simp: RxPublishBits publishRxWithBitCount_def)
  next
    case (RxObserve frame now wrap)
    then show ?thesis using observe_total(1) [OF ob, of frame now wrap] obs by auto
  next
    case (RxObserveBits frame bits now)
    then show ?thesis using observe_total(2) [OF ob, of frame bits now] obs by auto
  next
    case (RxTransmitted frame now)
    then show ?thesis using observe_total(3) [OF ob, of frame now] obs by auto
  next
    case (RxLogTimes ts wrap)
    then show ?thesis using observe_total(5) [OF ob, of ts wrap] obs by simp
  next
    case (RxBusLoad now)
    then show ?thesis using observe_total(4) [OF ob, of now] obs by auto
  next
    case (RxFan pick)
    then show ?thesis using fan_turn_ok [OF assms] by simp
  next
    case (RxSubscribe n)
    then show ?thesis using subscribe_ok [OF assms] by simp
  next
    case (RxUnsubscribe k)
    then show ?thesis using unsubscribe_ok [OF assms, of k] by auto
  next
    case (RxReceive k)
    show ?thesis unfolding RxReceive by (rule receive_ok [OF assms])
  next
    case RxReadError
    then show ?thesis using assms
      by (auto simp: with_telemetry_def rx_inv_def ob_inv_def accounts_def ob_telemetry_def
          chan_recv_def split: list.splits)
  next
    case RxCancel
    then show ?thesis using assms by (simp add: rx_inv_def accounts_def)
  next
    case RxClose
    then show ?thesis using closeAll_ok [OF assms] assms
      by (auto simp: fan_Close_def rx_inv_def accounts_def)
  qed
qed

lemma rx_run_ok:
  "rx_inv p \<Longrightarrow> \<exists>evs p'. rx_run ops p = Some (evs, p') \<and> rx_inv p' \<and> accounts p evs p'"
proof (induction ops arbitrary: p)
  case Nil
  then show ?case by (simp add: accounts_refl)
next
  case (Cons x ops)
  obtain e1 q where q: "rx_step x p = Some (e1, q)" "rx_inv q" "accounts p e1 q"
    using rx_step_ok [OF Cons.prems] by blast
  obtain e2 r where r: "rx_run ops q = Some (e2, r)" "rx_inv r" "accounts q e2 r"
    using Cons.IH [OF q(2)] by blast
  show ?case using q r accounts_trans [OF q(3) r(3)] by auto
qed

text \<open>The sessions of a driver that is opened, used and closed again and again.\<close>

fun rx_sessions :: "(Config \<times> rx_op list) list \<Rightarrow> observability \<Rightarrow> observability option" where
  "rx_sessions [] ob = Some ob"
| "rx_sessions ((cfg, ops) # ss) ob =
     do { (evs, p) \<leftarrow> rx_run ops (new_pipeline cfg ob); rx_sessions ss (px_obs p) }"

lemma new_pipeline_inv: "ob_inv ob \<Longrightarrow> rx_inv (new_pipeline cfg ob)"
  by (simp add: new_pipeline_def rx_inv_def ob_inv_def ob_prepare_def ob_telemetry_def resetCounts_def
      make_chan_def meter_inv_def configure_ok)

lemma zero_observability_inv: "ob_inv zero_observability"
  by (simp add: zero_observability_def ob_inv_def ob_telemetry_def newTelemetry_def make_chan_def meter_inv_def)

lemma sessions_ok: "ob_inv ob \<Longrightarrow> \<exists>ob'. rx_sessions ss ob = Some ob' \<and> ob_inv ob'"
proof (induction ss arbitrary: ob)
  case (Cons s ss)
  obtain cfg ops where s: "s = (cfg, ops)" by fastforce
  obtain evs p where "rx_run ops (new_pipeline cfg ob) = Some (evs, p)" "rx_inv p"
    using rx_run_ok [OF new_pipeline_inv [OF Cons.prems]] by blast
  then show ?case using Cons.IH [of "px_obs p"] by (simp add: s rx_inv_def)
qed simp

lemma session_run:
  "\<exists>ob evs p. rx_sessions earlier zero_observability = Some ob \<and>
     rx_run ops (new_pipeline cfg ob) = Some (evs, p) \<and> rx_inv p \<and> accounts (new_pipeline cfg ob) evs p"
  using sessions_ok [OF zero_observability_inv] rx_run_ok [OF new_pipeline_inv] by metis

section \<open>The fate of an offered frame\<close>

fun offers :: "rx_op \<Rightarrow> Frame list" where
  "offers (RxPublish pick frame now wrap) = [frame]"
| "offers (RxPublishBits pick frame bits now) = [frame]"
| "offers _ = []"

definition settles :: "rx_op list \<Rightarrow> bool \<Rightarrow> rx_event list \<Rightarrow> bool" where
  "settles ops cancelled evs \<longleftrightarrow>
     subseq (accepted evs) (concat (map offers ops)) \<and>
     length (concat (map offers ops)) = length (accepted evs) + lost evs + ignored evs \<and>
     (cancelled \<or> RxCancel \<in> set ops \<or> ignored evs = 0)"

lemma publish_settles:
  "publishObservedRx pick frame p = Some (evs, p') \<Longrightarrow>
   px_cancelled p' = px_cancelled p \<and>
   (evs = [Accepted frame] \<or> evs = [LostAtSource frame] \<or> px_cancelled p \<and> evs = [Ignored frame])"
  by (auto simp: publishObservedRx_def with_telemetry_def bind_eq_Some_conv split: if_splits)

lemma silent_settles:
  "accepted evs = [] \<Longrightarrow> lost evs = 0 \<Longrightarrow> ignored evs = 0 \<Longrightarrow> offers x = [] \<Longrightarrow> settles [x] b evs"
  by (simp add: settles_def)

lemma dispatch_loop_cancelled: "fan_dispatch_loop frame ks p = Some p' \<Longrightarrow> px_cancelled p' = px_cancelled p"
proof (induction ks arbitrary: p)
  case (Cons k ks)
  obtain ch taken q where "(if taken then Some (p\<lparr>px_chans := (px_chans p)[k := ch]\<rparr>)
      else with_telemetry reportSubscriberDrop p) = Some q" "fan_dispatch_loop frame ks q = Some p'"
    using Cons.prems by (auto simp: bind_eq_Some_conv simp del: fan_dispatch_loop.simps(1))
  moreover from this(1) have "px_cancelled q = px_cancelled p"
    by (auto simp: with_telemetry_def split: if_splits)
  ultimately show ?case using Cons.IH by metis
qed simp

lemma fan_turn_settles:
  "fan_turn pick p = Some (evs, p') \<Longrightarrow>
   px_cancelled p' = px_cancelled p \<and> accepted evs = [] \<and> lost evs = 0 \<and> ignored evs = 0"
  by (auto simp: fan_turn_def fan_stop_def fan_closeAll_def fan_dispatch_def bind_eq_Some_conv
      dest: dispatch_loop_cancelled split: if_splits prod.splits received.splits)

lemma rx_step_settles:
  assumes "rx_step x p = Some (evs, p')"
  shows "settles [x] (px_cancelled p) evs \<and> (px_cancelled p' \<longrightarrow> px_cancelled p \<or> x = RxCancel)"
proof (cases x)
  case (RxPublish pick frame now wrap)
  then show ?thesis using assms publish_settles [of pick frame]
    by (fastforce simp: publishRxWithWrap_def bind_eq_Some_conv settles_def)
next
  case (RxPublishBits pick frame bits now)
  then show ?thesis using assms publish_settles [of pick frame]
    by (fastforce simp: publishRxWithBitCount_def bind_eq_Some_conv settles_def)
next
  case (RxFan pick)
  then show ?thesis using assms fan_turn_settles [of pick p evs p'] by (simp add: silent_settles)
next
  case (RxReceive k)
  then show ?thesis using assms
    by (auto simp: silent_settles split: if_splits prod.splits received.splits)
qed (use assms in \<open>auto simp: silent_settles fan_unsubscribe_def fan_Close_def fan_closeAll_def
      fan_Subscribe_def with_telemetry_def bind_eq_Some_conv Let_def split: if_splits\<close>)

lemma rx_run_settles: "rx_run ops p = Some (evs, p') \<Longrightarrow> settles ops (px_cancelled p) evs"
proof (induction ops arbitrary: p evs)
  case (Cons x ops)
  obtain e1 q e2 where step: "rx_step x p = Some (e1, q)" "rx_run ops q = Some (e2, p')" "evs = e1 @ e2"
    using Cons.prems by (auto simp: bind_eq_Some_conv)
  show ?case
    using rx_step_settles [OF step(1)] Cons.IH [OF step(2)] step(3)
    by (auto simp: settles_def intro!: list_emb_append_mono)
qed (simp add: settles_def)

section \<open>Property\<close>


end
