(* ===== verification/Rx_Drivers.thy ===== *)
theory Rx_Drivers
  imports Driver_Wire Rx_Pipeline
begin

text \<open>
  From the DLL to the subscriber: what the read loop of each driver does with a message, as operations
  of the pipeline of Rx_Pipeline, with the roll-over period and the bit count each driver passes on.
\<close>

section \<open>Messages of the DLLs\<close>

datatype vendor_msg =
    FromPcan pcan_reply
  | FromCanalyst vci_can_obj
  | FromToomossClassic toomoss_can_msg
  | FromToomossFD toomoss_canfd_msg
  | FromTsmaster TLIBCANFD
  | FromVectorClassic xlEvent
  | FromVectorFD xlCanRxEvent

fun decode :: "Config \<Rightarrow> vendor_msg \<Rightarrow> disposal" where
  "decode cfg (FromPcan r) = (if reply_status r = pcanErrorOK then enqueue_reply cfg r else Dropped)"
| "decode cfg (FromCanalyst m) = canalyst_receive m"
| "decode cfg (FromToomossClassic m) = toomoss_receive_classic cfg m"
| "decode cfg (FromToomossFD m) = toomoss_receive_fd cfg m"
| "decode cfg (FromTsmaster m) = tsmaster_receive cfg m"
| "decode cfg (FromVectorClassic m) = vector_event_classic cfg m"
| "decode cfg (FromVectorFD m) = vector_event_fd cfg m"

text \<open>The period after which the timestamps of a driver roll over; 0 for none.\<close>

fun wrap_period :: "vendor_msg \<Rightarrow> u64" where
  "wrap_period (FromCanalyst m) = canalystTimestampWrapUS"
| "wrap_period (FromToomossClassic m) = toomossTimestampWrapUS 100"
| "wrap_period (FromToomossFD m) = toomossTimestampWrapUS 10"
| "wrap_period _ = 0"

text \<open>The log clock is asked for every frame, but for one of CANalyst-II that carries no time.\<close>

fun logged :: "vendor_msg \<Rightarrow> bool" where
  "logged (FromCanalyst m) = (vo_TimeFlag m \<noteq> 0)"
| "logged _ = True"

definition log_op :: "vendor_msg \<Rightarrow> Frame \<Rightarrow> rx_op list" where
  "log_op m f = (if logged m then [RxLogTimes (f_TimestampUS f) (wrap_period m)] else [])"

fun observe_op :: "vendor_msg \<Rightarrow> Frame \<Rightarrow> gotime \<Rightarrow> rx_op" where
  "observe_op (FromVectorFD m) f now = RxObserveBits f (xr_TotalBitCnt (xr_Msg m)) now"
| "observe_op m f now = RxObserve f now (wrap_period m)"

fun publish_op :: "vendor_msg \<Rightarrow> bool \<Rightarrow> Frame \<Rightarrow> gotime \<Rightarrow> rx_op" where
  "publish_op (FromVectorFD m) pick f now = RxPublishBits pick f (xr_TotalBitCnt (xr_Msg m)) now"
| "publish_op m pick f now = RxPublish pick f now (wrap_period m)"

definition handle_message :: "Config \<Rightarrow> bool \<Rightarrow> gotime \<Rightarrow> vendor_msg \<Rightarrow> rx_op list" where
  "handle_message cfg pick now m =
     (case decode cfg m of
        Dropped \<Rightarrow> []
      | Observed f \<Rightarrow> log_op m f @ [observe_op m f now]
      | Published f \<Rightarrow> log_op m f @ [publish_op m pick f now])"

text \<open>The read loops handle the messages of a tick one after the other.\<close>

lemma ticks_decode:
  "canalyst_tick n cs = map (decode cfg) (map FromCanalyst (if sint n > 1024 then [] else take (nat (sint n)) cs))"
  "toomoss_tick n (toomoss_receive_classic cfg) ts =
     map (decode cfg) (map FromToomossClassic (take (nat (min (sint n) 1024)) ts))"
  "toomoss_tick n (toomoss_receive_fd cfg) fs =
     map (decode cfg) (map FromToomossFD (take (nat (min (sint n) 1024)) fs))"
  "tsmaster_tick cfg r c ms =
     map (decode cfg) (map FromTsmaster (if r \<noteq> 0 \<or> sint c > 1024 then [] else take (nat (sint c)) ms))"
  "fst (readBurst cfg rs) = map (decode cfg) (map FromPcan
     (filter (\<lambda>r. reply_status r = pcanErrorOK) (takeWhile (\<lambda>r. handleReadStatus (reply_status r)) rs)))"
  by (auto simp: canalyst_tick_def toomoss_tick_def tsmaster_tick_def readBurst_replies Let_def min_def)

section \<open>A session\<close>

text \<open>
  A message of the DLL, or anything else that happens to the pipeline: transmissions, the fan-out,
  subscribers, queries and closing.
\<close>

datatype driver_event = DllMessage bool gotime vendor_msg | Elsewhere rx_op

fun driver_ops :: "Config \<Rightarrow> driver_event \<Rightarrow> rx_op list" where
  "driver_ops cfg (DllMessage pick now m) = handle_message cfg pick now m"
| "driver_ops cfg (Elsewhere x) = (if offers x = [] then [x] else [])"

fun published :: "Config \<Rightarrow> driver_event \<Rightarrow> Frame list" where
  "published cfg (DllMessage pick now m) = (case decode cfg m of Published f \<Rightarrow> [f] | _ \<Rightarrow> [])"
| "published cfg (Elsewhere x) = []"

lemma published_message:
  "f \<in> set (published cfg x) \<Longrightarrow> \<exists>pick now m. x = DllMessage pick now m \<and> decode cfg m = Published f"
  by (cases x) (auto split: disposal.splits)

lemma offers_ops [simp]:
  "offers (observe_op m f now) = []" "offers (publish_op m pick f now) = [f]"
  "concat (map offers (log_op m f)) = []"
  by (cases m; simp add: log_op_def)+

lemma driver_ops_offer: "concat (map offers (driver_ops cfg x)) = published cfg x"
  by (cases x) (auto simp: handle_message_def split: disposal.split)

lemma events_offer:
  "concat (map offers (concat (map (driver_ops cfg) xs))) = concat (map (published cfg) xs)"
  by (induction xs) (simp_all add: driver_ops_offer)

lemma never_cancels: "RxCancel \<in> set (driver_ops cfg x) \<Longrightarrow> x = Elsewhere RxCancel"
proof (cases x)
  case (DllMessage pick now m)
  have "RxCancel \<noteq> observe_op m f now" "RxCancel \<noteq> publish_op m pick f now" for f by (cases m; simp)+
  then show "RxCancel \<in> set (driver_ops cfg x) \<Longrightarrow> ?thesis"
    by (auto simp: DllMessage handle_message_def log_op_def split: disposal.splits if_splits)
qed (simp split: if_splits)

section \<open>Regular messages\<close>

text \<open>
  The arrays have the length of their types, and the length code and flags are those the DLLs document:
  up to 15 for an FD frame, up to 8 for a classic one, which has no bit-rate switch.
\<close>

fun regular :: "vendor_msg \<Rightarrow> bool" where
  "regular (FromPcan (ReadClassic s m ts)) \<longleftrightarrow> pm_Len m \<le> (if pm_MsgType m AND pcanMessageFD \<noteq> 0 then 15 else 8)"
| "regular (FromPcan (ReadFD s m ts)) \<longleftrightarrow> pf_DLC m \<le> (if pf_MsgType m AND pcanMessageFD \<noteq> 0 then 15 else 8)"
| "regular (FromCanalyst m) \<longleftrightarrow> length (vo_Data m) = 8"
| "regular (FromToomossClassic m) \<longleftrightarrow> length (tc_Data m) = 8"
| "regular (FromToomossFD m) \<longleftrightarrow> length (tf_Data m) = 64"
| "regular (FromTsmaster m) \<longleftrightarrow> length (tl_FData m) = 64 \<and>
     (tl_FFDProperties m AND tsCANFDPropertyEDL = 0 \<longrightarrow>
        tl_FDLC m \<le> 8 \<and> tl_FFDProperties m AND tsCANFDPropertyBRS = 0)"
| "regular (FromVectorClassic m) \<longleftrightarrow> True"
| "regular (FromVectorFD m) \<longleftrightarrow>
     xr_DLC (xr_Msg m) \<le> (if xr_MsgFlags (xr_Msg m) AND vectorCanFdRxFlagEDL \<noteq> 0 then 15 else 8)"

lemma dispose_published:
  "dispose cfg f = Published f' \<Longrightarrow> f' = f \<and> (f_Direction f = Transmit \<longrightarrow> cfg_IncludeTxEcho cfg)"
  by (auto simp: dispose_def split: if_splits)

lemma decode_echo:
  "decode cfg m = Published f \<Longrightarrow> f_Direction f = Transmit \<Longrightarrow> cfg_IncludeTxEcho cfg"
proof (cases m)
  case (FromPcan r)
  then show "decode cfg m = Published f \<Longrightarrow> f_Direction f = Transmit \<Longrightarrow> cfg_IncludeTxEcho cfg"
    by (cases r) (auto simp: enqueueMessage_def Let_def dest!: dispose_published split: if_splits)
qed (auto simp: canalyst_receive_def toomoss_receive_classic_def toomoss_receive_fd_def tsmaster_receive_def
    vector_event_classic_def vector_event_fd_def Let_def dest!: dispose_published split: if_splits prod.splits)

lemma decode_valid:
  assumes "decode cfg m = Published f" "regular m"
  shows "Frame_Validate f = Inr () \<and> length (f_Data f) = 64"
proof -
  have d: "disposed_frame (decode cfg m) = Some f" using assms(1) by simp
  show ?thesis
  proof (cases m)
    case (FromPcan r)
    then show ?thesis
      using d assms(2) by (cases r) (auto dest!: pcan_published simp: valid_iff split: if_splits)
  next
    case (FromCanalyst x)
    then show ?thesis using d assms(2) canalyst_published [of x f] by (simp add: valid_iff)
  next
    case (FromToomossClassic x)
    then show ?thesis using d assms(2) toomoss_classic_published [of cfg x f] by (simp add: valid_iff)
  next
    case (FromToomossFD x)
    then show ?thesis using d assms(2) toomoss_fd_published [of cfg x f] by (simp add: valid_iff)
  next
    case (FromTsmaster x)
    then show ?thesis using d assms(2) tsmaster_published [of cfg x f] by (auto simp: valid_iff)
  next
    case (FromVectorClassic x)
    then show ?thesis using d vector_classic_published [of cfg x f] by (simp add: valid_iff)
  next
    case (FromVectorFD x)
    then show ?thesis using d assms(2) vector_fd_published [of cfg x f] by (auto simp: valid_iff)
  qed
qed

section \<open>Property\<close>



end
