(* ===== verification/Hdr_Tsmaster.thy ===== *)
theory Hdr_Tsmaster
  imports C_Abi
begin

text \<open>
  TSMaster.h, the interface of libTSMaster: channel numbers, the scalar types, the memory layout of the
  frame types, enumerations, signal and mapping structures, and the prototypes. The methods of the
  frame types are in Tsmaster_Frames.
\<close>

unbundle bit_operations_syntax

definition TS_channels :: macro_table where
  "TS_channels =
     [(''CH1'', Lit 0),
      (''CH2'', Lit 1),
      (''CH3'', Lit 2),
      (''CH4'', Lit 3),
      (''CH5'', Lit 4),
      (''CH6'', Lit 5),
      (''CH7'', Lit 6),
      (''CH8'', Lit 7),
      (''CH9'', Lit 8),
      (''CH10'', Lit 9),
      (''CH11'', Lit 10),
      (''CH12'', Lit 11),
      (''CH13'', Lit 12),
      (''CH14'', Lit 13),
      (''CH15'', Lit 14),
      (''CH16'', Lit 15),
      (''CH17'', Lit 16),
      (''CH18'', Lit 17),
      (''CH19'', Lit 18),
      (''CH20'', Lit 19),
      (''CH21'', Lit 20),
      (''CH22'', Lit 21),
      (''CH23'', Lit 22),
      (''CH24'', Lit 23),
      (''CH25'', Lit 24),
      (''CH26'', Lit 25),
      (''CH27'', Lit 26),
      (''CH28'', Lit 27),
      (''CH29'', Lit 28),
      (''CH30'', Lit 29),
      (''CH31'', Lit 30),
      (''CH32'', Lit 31),
      (''MASK_CANProp_DIR_TX'', Lit 0x01),
      (''MASK_CANProp_REMOTE'', Lit 0x02),
      (''MASK_CANProp_EXTEND'', Lit 0x04),
      (''MASK_CANProp_ERROR'', Lit 0x80),
      (''MASK_CANProp_LOGGED'', Lit 0x60),
      (''MASK_CANFDProp_IS_FD'', Lit 0x01),
      (''MASK_CANFDProp_IS_EDL'', Sym ''MASK_CANFDProp_IS_FD''),
      (''MASK_CANFDProp_IS_BRS'', Lit 0x02),
      (''MASK_CANFDProp_IS_ESI'', Lit 0x04),
      (''MASK_LINProp_DIR_TX'', Lit 0x01),
      (''MASK_LINProp_SEND_BREAK'', Lit 0x02),
      (''MASK_LINProp_RECEIVED_BREAK'', Lit 0x04),
      (''MASK_LINProp_SEND_SYNC'', Lit 0x80),
      (''MASK_LINProp_RECEIVED_SYNC'', Lit 0x10)]"

definition TLogLevel_values :: enumerators where
  "TLogLevel_values =
     [(''lvlError'', Some (Lit 1)), (''lvlWarning'', Some (Lit 2)), (''lvlOK'', Some (Lit 3)),
     (''lvlHint'', Some (Lit 4)), (''lvlInfo'', Some (Lit 5)), (''lvlVerbose'', Some (Lit 6))]"

definition u8 :: ctype where [hdr_types]: "u8 = CInt False 1"

definition s8 :: ctype where [hdr_types]: "s8 = CInt True 1"

definition u16 :: ctype where [hdr_types]: "u16 = CInt False 2"

definition s16 :: ctype where [hdr_types]: "s16 = CInt True 2"

definition u32 :: ctype where [hdr_types]: "u32 = CInt False 4"

definition s32 :: ctype where [hdr_types]: "s32 = CInt True 4"

definition u64 :: ctype where [hdr_types]: "u64 = CInt False 8"

definition s64 :: ctype where [hdr_types]: "s64 = CInt True 8"

definition pu8 :: ctype where [hdr_types]: "pu8 = CPtr ''uchar''"

definition ps8 :: ctype where [hdr_types]: "ps8 = CPtr ''char''"

definition pu16 :: ctype where [hdr_types]: "pu16 = CPtr ''ushort''"

definition ps16 :: ctype where [hdr_types]: "ps16 = CPtr ''short''"

definition pu32 :: ctype where [hdr_types]: "pu32 = CPtr ''uint''"

definition ps32 :: ctype where [hdr_types]: "ps32 = CPtr ''int''"

definition pu64 :: ctype where [hdr_types]: "pu64 = CPtr ''uint64''"

definition ps64 :: ctype where [hdr_types]: "ps64 = CPtr ''int64''"

definition pfloat :: ctype where [hdr_types]: "pfloat = CPtr ''float''"

definition pdouble :: ctype where [hdr_types]: "pdouble = CPtr ''double''"

definition TCAN_type :: ctype where [hdr_types]:
  "TCAN_type =
     CStruct 1 [(''FIdxChn'', u8), (''FProperties'', u8), (''FDLC'', u8), (''FReserved'', u8),
     (''FIdentifier'', s32), (''FTimeUs'', s64), (''FData'', CArr (u8) 8)]"

definition TCANFD_type :: ctype where [hdr_types]:
  "TCANFD_type =
     CStruct 1 [(''FIdxChn'', u8), (''FProperties'', u8), (''FDLC'', u8), (''FFDProperties'',
     u8), (''FIdentifier'', s32), (''FTimeUs'', s64), (''FData'', CArr (u8) 64)]"

definition TLIN_type :: ctype where [hdr_types]:
  "TLIN_type =
     CStruct 1 [(''FIdxChn'', u8), (''FErrStatus'', u8), (''FProperties'', u8), (''FDLC'', u8),
     (''FIdentifier'', u8), (''FChecksum'', u8), (''FStatus'', u8), (''FTimeUs'', s64),
     (''FData'', CArr (u8) 8)]"

definition TFlexRay_type :: ctype where [hdr_types]:
  "TFlexRay_type =
     CStruct 1 [(''FIdxChn'', u8), (''FChannelMask'', u8), (''FDir'', u8), (''FPayloadLength'',
     u8), (''FActualPayloadLength'', u8), (''FCycleNumber'', u8), (''FCCType'', u8),
     (''FFrameType'', u8), (''FHeaderCRCA'', u16), (''FHeaderCRCB'', u16), (''FFrameStateInfo'',
     u16), (''FSlotId'', u16), (''FFrameFlags'', u32), (''FFrameCRC'', u32), (''FReserved1'',
     u64), (''FReserved2'', u64), (''FTimeUs'', u64), (''FData'', CArr (u8) 254)]"

definition TProcedure :: ctype where [hdr_types]: "TProcedure = CFnPtr (CVoid) [CPtr ''void'']"

definition TProcedureSetInt :: ctype where [hdr_types]: "TProcedureSetInt = CFnPtr (CVoid) [CPtr ''void'', s32]"

definition TIntFunction :: ctype where [hdr_types]: "TIntFunction = CFnPtr (s32) [CPtr ''void'']"

definition TProcedureSetDouble :: ctype where [hdr_types]: "TProcedureSetDouble = CFnPtr (CVoid) [CPtr ''void'', CFloat 8]"

definition TDoubleFunction :: ctype where [hdr_types]: "TDoubleFunction = CFnPtr (CFloat 8) [CPtr ''void'']"

definition TProcedureSetString :: ctype where [hdr_types]: "TProcedureSetString = CFnPtr (CVoid) [CPtr ''void'', CPtr ''char'']"

definition TStringFunction :: ctype where [hdr_types]: "TStringFunction = CFnPtr (CPtr ''char'') [CPtr ''void'']"

definition TProcedureSetCAN :: ctype where [hdr_types]: "TProcedureSetCAN = CFnPtr (CVoid) [CPtr ''void'', (CPtr ''TCAN'')]"

definition TTCANFunction :: ctype where [hdr_types]: "TTCANFunction = CFnPtr (TCAN_type) [CPtr ''void'']"

definition TProcedureSetCANFD :: ctype where [hdr_types]: "TProcedureSetCANFD = CFnPtr (CVoid) [CPtr ''void'', (CPtr ''TCANFD'')]"

definition TTCANFDFunction :: ctype where [hdr_types]: "TTCANFDFunction = CFnPtr (TCANFD_type) [CPtr ''void'']"

definition TProcedureSetLIN :: ctype where [hdr_types]: "TProcedureSetLIN = CFnPtr (CVoid) [CPtr ''void'', (CPtr ''TLIN'')]"

definition TTLINFunction :: ctype where [hdr_types]: "TTLINFunction = CFnPtr (TLIN_type) [CPtr ''void'']"

definition TS_device_name_length :: macro_table where
  "TS_device_name_length =
     [(''APP_DEVICE_NAME_LENGTH'', Lit 32)]"

definition TLIBBusToolDeviceType_values :: enumerators where
  "TLIBBusToolDeviceType_values =
     [(''BUS_UNKNOWN_TYPE'', Some (Lit 0)), (''TS_TCP_DEVICE'', Some (Lit 1)),
     (''XL_USB_DEVICE'', Some (Lit 2)), (''TS_USB_DEVICE'', Some (Lit 3)), (''PEAK_USB_DEVICE'',
     Some (Lit 4)), (''KVASER_USB_DEVICE'', Some (Lit 5)), (''ZLG_USB_DEVICE'', Some (Lit 6)),
     (''ICS_USB_DEVICE'', Some (Lit 7)), (''TS_TC1005_DEVICE'', Some (Lit 8))]"

definition TLINNodeType_values :: enumerators where
  "TLINNodeType_values =
     [(''T_MasterNode'', Some (Lit 0)), (''T_SlaveNode'', Some (Lit 1)), (''T_MonitorNode'', Some
     (Lit 2))]"

definition TLINProtocol_values :: enumerators where
  "TLINProtocol_values =
     [(''LIN_PROTOCL_13'', Some (Lit 0)), (''LIN_PROTOCL_20'', Some (Lit 1)),
     (''LIN_PROTOCL_21'', Some (Lit 2)), (''LIN_PROTOCL_J2602'', Some (Lit 3))]"

definition TLIBApplicationChannelType_values :: enumerators where
  "TLIBApplicationChannelType_values =
     [(''APP_CAN'', Some (Lit 0)), (''APP_LIN'', Some (Lit 1))]"

definition TLIBCANBusStatistics_values :: enumerators where
  "TLIBCANBusStatistics_values =
     [(''cbsBusLoad'', Some (Lit 0)), (''cbsPeakLoad'', None), (''cbsFpsStdData'', None),
     (''cbsAllStdData'', None), (''cbsFpsExtData'', None), (''cbsAllExtData'', None),
     (''cbsFpsStdRemote'', None), (''cbsAllStdRemote'', None), (''cbsFpsExtRemote'', None),
     (''cbsAllExtRemote'', None), (''cbsFpsErrorFrame'', None), (''cbsAllErrorFrame'', None)]"

definition TSignalType_values :: enumerators where
  "TSignalType_values =
     [(''stCANSignal'', Some (Lit 0)), (''stLINSignal'', None), (''stSystemVar'', None),
     (''stFlexRay'', None)]"

definition TFlexRayCompuMethod_values :: enumerators where
  "TFlexRayCompuMethod_values =
     [(''fcmIdentical'', Some (Lit 0)), (''fcmLinear'', None), (''fcmScaleLinear'', None),
     (''fcmTextTable'', None), (''fcmTABNoIntp'', None), (''fcmFormula'', None)]"

definition TS_text_lengths :: macro_table where
  "TS_text_lengths =
     [(''VENDOR_NAME_LENGTH'', Lit 32),
      (''DEVICE_SERIAL_STRING_LENGTH'', Lit 64)]"

definition TLIBHWInfo :: ctype where [hdr_types]:
  "TLIBHWInfo =
     CStruct 1 [(''FDeviceType'', CInt True 4), (''FDeviceIndex'', s32), (''FVendorName'', CArr
     (CInt True 1) 32), (''FDeviceName'', CArr (CInt True 1) 32), (''FSerialString'', CArr (CInt
     True 1) 64)]"

definition TLIBTSMapping_type :: ctype where [hdr_types]:
  "TLIBTSMapping_type =
     CStruct 1 [(''FAppName'', CArr (CInt True 1) 32), (''FAppChannelIndex'', s32),
     (''FAppChannelType'', CInt True 4), (''FHWDeviceType'', CInt True 4), (''FHWIndex'', s32),
     (''FHWChannelIndex'', s32), (''FHWDeviceSubType'', s32), (''FHWDeviceName'', CArr (CInt True
     1) 32), (''FMappingDisabled'', CInt False 1)]"

definition TLIBSystemVarType_values :: enumerators where
  "TLIBSystemVarType_values =
     [(''svtInt32'', Some (Lit 0)), (''svtUInt32'', None), (''svtInt64'', None), (''svtUInt64'',
     None), (''svtUInt8Array'', None), (''svtInt32Array'', None), (''svtInt64Array'', None),
     (''svtDouble'', None), (''svtDoubleArray'', None), (''svtString'', None)]"

definition TLIBSystemVarDef :: ctype where [hdr_types]:
  "TLIBSystemVarDef =
     CStruct 1 [(''FName'', CArr (CInt True 1) 32), (''FCategory'', CArr (CInt True 1) 32),
     (''FComment'', CArr (CInt True 1) 32), (''FDataType'', CInt True 4), (''FIsReadOnly'', CInt
     False 1), (''FValueMin'', CFloat 8), (''FValueMax'', CFloat 8)]"

definition TCANFDControllerType_values :: enumerators where
  "TCANFDControllerType_values =
     [(''fdtCAN'', Some (Lit 0)), (''fdtISOCANFD'', Some (Lit 1)), (''fdtNonISOCANFD'', Some (Lit
     2))]"

definition TCANFDControllerMode_values :: enumerators where
  "TCANFDControllerMode_values =
     [(''fdmNormal'', Some (Lit 0)), (''fdmACKOff'', Some (Lit 1)), (''fdmRestricted'', Some (Lit
     2))]"

definition TLIBOnlineReplayTimingMode_values :: enumerators where
  "TLIBOnlineReplayTimingMode_values =
     [(''ortImmediately'', Some (Lit 0)), (''ortAsLog'', Some (Lit 1)), (''ortDelayed'', Some
     (Lit 2))]"

definition TLIBOnlineReplayStatus_values :: enumerators where
  "TLIBOnlineReplayStatus_values =
     [(''orsNotStarted'', Some (Lit 0)), (''orsRunning'', Some (Lit 1)), (''orsPaused'', Some
     (Lit 2)), (''orsCompleted'', Some (Lit 3)), (''orsTerminated'', Some (Lit 4))]"

definition TCANSignal :: ctype where [hdr_types]:
  "TCANSignal =
     CStruct 1 [(''FCANSgnType'', u8), (''FIsIntel'', CInt False 1), (''FStartBit'', s32),
     (''FLength'', s32), (''FFactor'', CFloat 8), (''FOffset'', CFloat 8)]"

definition TFlexRaySignal :: ctype where [hdr_types]:
  "TFlexRaySignal =
     CStruct 1 [(''FFRSgnType'', u8), (''FCompuMethod'', u8), (''FReserved'', u8), (''FIsIntel'',
     CInt False 1), (''FStartBit'', s32), (''FUpdateBit'', s32), (''FLength'', s32),
     (''FFactor'', CFloat 8), (''FOffset'', CFloat 8)]"

definition Trealtime_comment_t :: ctype where [hdr_types]:
  "Trealtime_comment_t =
     CStruct 1 [(''FTimeUs'', s64), (''FEventType'', s32), (''FCapacity'', u32), (''FComment'',
     CPtr ''char'')]"

definition TLIBRBSInitValueOptions_values :: enumerators where
  "TLIBRBSInitValueOptions_values =
     [(''rivUseDB'', Some (Lit 0)), (''rivUseLast'', None), (''rivUse0'', None)]"

definition TGetCANSignalValue :: ctype where [hdr_types]: "TGetCANSignalValue = CFnPtr (CFloat 8) [(CPtr ''TCANSignal''), pu8]"

definition TSetCANSignalValue :: ctype where [hdr_types]: "TSetCANSignalValue = CFnPtr (CVoid) [(CPtr ''TCANSignal''), pu8, CFloat 8]"

definition TCANEvent :: ctype where [hdr_types]: "TCANEvent = CFnPtr (CVoid) [ps32, (CPtr ''TCAN'')]"

definition TCANFDEvent :: ctype where [hdr_types]: "TCANFDEvent = CFnPtr (CVoid) [ps32, (CPtr ''TCANFD'')]"

definition TLINEvent :: ctype where [hdr_types]: "TLINEvent = CFnPtr (CVoid) [ps32, (CPtr ''TLIN'')]"

definition TLogger :: ctype where [hdr_types]: "TLogger = CFnPtr (CVoid) [CPtr ''char'', s32]"

definition TFlexRayEvent :: ctype where [hdr_types]: "TFlexRayEvent = CFnPtr (CVoid) [ps32, (CPtr ''TFlexRay'')]"

definition TS_prototypes_1 :: "cproto list" where
  "TS_prototypes_1 =
     [CProto ''finalize_lib_tsmaster'' (CVoid) [],
      CProto ''initialize_lib_tsmaster'' (s32) [(''AAppName'', CPtr ''char'')],
      CProto ''tsapp_add_application'' (s32) [(''AAppName'', CPtr ''char'')],
      CProto ''tsapp_add_cyclic_msg_can'' (s32) [(''ACAN'', (CPtr ''TCAN'')), (''APeriodMS'',
      CFloat 4)],
      CProto ''tsapp_add_cyclic_msg_canfd'' (s32) [(''ACANFD'', (CPtr ''TCANFD'')),
      (''APeriodMS'', CFloat 4)],
      CProto ''tsapp_clear_bus_statistics'' (s32) [],
      CProto ''tsapp_configure_baudrate_lin'' (s32) [(''AIdxChn'', s32), (''ABaudrateKbps'',
      CFloat 4), (''AProtocol'', CInt True 4)],
      CProto ''tsapp_configure_can_regs'' (s32) [(''channel'', s32), (''AArbBaudrate'', CFloat
      4), (''ASEG1'', s32), (''ASEG2'', s32), (''APrescaler'', s32), (''ASJW'', s32),
      (''AOnlyListen'', s32), (''A120OhmConnected'', s32)],
      CProto ''tsapp_configure_canfd_regs'' (s32) [(''channel'', s32), (''AArbBaudrate'', CFloat
      4), (''ASEG1'', s32), (''ASEG2'', s32), (''APrescaler'', s32), (''ASJW'', s32),
      (''AdataBaudrate'', CFloat 4), (''AdataSEG1'', s32), (''AdataSEG2'', s32),
      (''AdataPrescaler'', s32), (''AdataSJW'', s32), (''AControllerType'', CInt True 4),
      (''AControllerMode'', CInt True 4), (''A120OhmConnected'', s32)],
      CProto ''tsapp_configure_baudrate_can'' (s32) [(''AIdxChn'', s32), (''ABaudrateKbps'',
      CFloat 4), (''AListenOnly'', CInt False 1), (''AInstallTermResistor120Ohm'', CInt False 1)],
      CProto ''tsapp_configure_baudrate_canfd'' (s32) [(''AIdxChn'', s32), (''ABaudrateArbKbps'',
      CFloat 4), (''ABaudrateDataKbps'', CFloat 4), (''AControllerType'', CInt True 4),
      (''AControllerMode'', CInt True 4), (''AInstallTermResistor120Ohm'', CInt False 1)],
      CProto ''tsapp_connect'' (s32) [],
      CProto ''tsapp_del_application'' (s32) [(''AAppName'', CPtr ''char'')],
      CProto ''tsapp_del_mapping'' (s32) [(''AMapping'', (CPtr ''TLIBTSMapping''))],
      CProto ''tsapp_del_mapping_verbose'' (s32) [(''AAppName'', CPtr ''char''),
      (''AAppChannelType'', CInt True 4), (''AAppChannel'', s32)],
      CProto ''tsapp_delete_cyclic_msg_can'' (s32) [(''ACAN'', (CPtr ''TCAN''))],
      CProto ''tsapp_delete_cyclic_msg_canfd'' (s32) [(''ACANFD'', (CPtr ''TCANFD''))],
      CProto ''tsapp_delete_cyclic_msgs'' (s32) [],
      CProto ''tsapp_disconnect'' (s32) [],
      CProto ''tsapp_enable_bus_statistics'' (s32) [(''AEnable'', CInt False 1)],
      CProto ''tsapp_enumerate_hw_devices'' (s32) [(''ACount'', ps32)],
      CProto ''tsapp_execute_python_string'' (s32) [(''AString'', CPtr ''char''), (''AIsSync'',
      CInt False 1), (''AIsX64'', CInt False 1), (''AResultLog'', CPtr ''char_ptr'')],
      CProto ''tsapp_execute_python_script'' (s32) [(''AFilePath'', CPtr ''char''), (''AIsSync'',
      CInt False 1), (''AIsX64'', CInt False 1), (''AResultLog'', CPtr ''char_ptr'')],
      CProto ''tsapp_get_application_list'' (s32) [(''AAppNameList'', CPtr ''char_ptr'')],
      CProto ''tsapp_get_bus_statistics'' (s32) [(''ABusType'', CInt True 4), (''AIdxChn'', s32),
      (''AIdxStat'', CInt True 4), (''AStat'', pdouble)],
      CProto ''tsapp_get_can_channel_count'' (s32) [(''ACount'', ps32)],
      CProto ''tsapp_get_current_application'' (s32) [(''AAppName'', CPtr ''char_ptr'')],
      CProto ''tsapp_get_error_description'' (s32) [(''ACode'', s32), (''ADesc'', CPtr
      ''char_ptr'')],
      CProto ''tsapp_get_fps_can'' (s32) [(''AIdxChn'', s32), (''AIdentifier'', s32), (''AFPS'',
      ps32)],
      CProto ''tsapp_get_fps_canfd'' (s32) [(''AIdxChn'', s32), (''AIdentifier'', s32),
      (''AFPS'', ps32)]]"

definition TS_prototypes_2 :: "cproto list" where
  "TS_prototypes_2 =
     [CProto ''tsapp_get_fps_lin'' (s32) [(''AIdxChn'', s32), (''AIdentifier'', s32), (''AFPS'',
      ps32)],
      CProto ''tsapp_get_hw_info_by_index'' (s32) [(''AIndex'', s32), (''AHWInfo'', (CPtr
      ''TLIBHWInfo''))],
      CProto ''tsapp_get_hw_info_by_index_verbose'' (s32) [(''AIndex'', s32), (''ADeviceType'',
      (CPtr ''TLIBBusToolDeviceType'')), (''AVendorNameBuffer'', CPtr ''char''),
      (''AVendorNameBufferSize'', s32), (''ADeviceNameBuffer'', CPtr ''char''),
      (''ADeviceNameBufferSize'', s32), (''ASerialStringBuffer'', CPtr ''char''),
      (''ASerialStringBufferSize'', s32)],
      CProto ''tsapp_get_lin_channel_count'' (s32) [(''ACount'', ps32)],
      CProto ''tsapp_get_mapping'' (s32) [(''AMapping'', (CPtr ''TLIBTSMapping''))],
      CProto ''tsapp_get_mapping_verbose'' (s32) [(''AAppName'', CPtr ''char''),
      (''AAppChannelType'', CInt True 4), (''AAppChannel'', s32), (''AMapping'', (CPtr
      ''TLIBTSMapping''))],
      CProto ''tslin_set_node_funtiontype'' (s32) [(''AIndex'', s32), (''ATLINNodeType'', CInt
      True 4)],
      CProto ''tsapp_get_timestamp'' (s32) [(''ATimestamp'', CPtr ''s64'')],
      CProto ''tsapp_get_turbo_mode'' (s32) [(''AEnable'', CPtr ''uchar'')],
      CProto ''tsapp_log'' (CVoid) [(''AStr'', CPtr ''char''), (''ALevel'', CInt True 4)],
      CProto ''tsfifo_enable_receive_error_frames'' (CVoid) [],
      CProto ''tsfifo_enable_receive_fifo'' (CVoid) [],
      CProto ''tsfifo_disable_receive_error_frames'' (CVoid) [],
      CProto ''tsfifo_disable_receive_fifo'' (CVoid) [],
      CProto ''tsfifo_read_can_buffer_frame_count'' (s32) [(''AIdxChn'', s32), (''ACount'',
      ps32)],
      CProto ''tsfifo_read_can_rx_buffer_frame_count'' (s32) [(''AIdxChn'', s32), (''ACount'',
      ps32)],
      CProto ''tsfifo_read_can_tx_buffer_frame_count'' (s32) [(''AIdxChn'', s32), (''ACount'',
      ps32)],
      CProto ''tsfifo_read_canfd_buffer_frame_count'' (s32) [(''AIdxChn'', s32), (''ACount'',
      ps32)],
      CProto ''tsfifo_read_canfd_rx_buffer_frame_count'' (s32) [(''AIdxChn'', s32), (''ACount'',
      ps32)],
      CProto ''tsfifo_read_canfd_tx_buffer_frame_count'' (s32) [(''AIdxChn'', s32), (''ACount'',
      ps32)],
      CProto ''tsfifo_read_fastlin_buffer_frame_count'' (s32) [(''AIdxChn'', s32), (''ACount'',
      ps32)],
      CProto ''tsfifo_read_fastlin_rx_buffer_frame_count'' (s32) [(''AIdxChn'', s32),
      (''ACount'', ps32)],
      CProto ''tsfifo_read_fastlin_tx_buffer_frame_count'' (s32) [(''AIdxChn'', s32),
      (''ACount'', ps32)],
      CProto ''tsfifo_read_lin_buffer_frame_count'' (s32) [(''AIdxChn'', s32), (''ACount'',
      ps32)],
      CProto ''tsfifo_read_lin_rx_buffer_frame_count'' (s32) [(''AIdxChn'', s32), (''ACount'',
      ps32)],
      CProto ''tsfifo_read_lin_tx_buffer_frame_count'' (s32) [(''AIdxChn'', s32), (''ACount'',
      ps32)],
      CProto ''tsfifo_receive_can_msgs'' (s32) [(''ACANBuffers'', (CPtr ''TCAN'')),
      (''ACANBufferSize'', ps32), (''AIdxChn'', s32), (''AIncludeTx'', CInt False 1)],
      CProto ''tsfifo_receive_canfd_msgs'' (s32) [(''ACANFDBuffers'', (CPtr ''TCANFD'')),
      (''ACANFDBufferSize'', ps32), (''AIdxChn'', s32), (''AIncludeTx'', CInt False 1)],
      CProto ''tsfifo_receive_fastlin_msgs'' (s32) [(''ALINBuffers'', (CPtr ''TLIN'')),
      (''ALINBufferSize'', ps32), (''AIdxChn'', s32), (''AIncludeTx'', CInt False 1)],
      CProto ''tsfifo_receive_lin_msgs'' (s32) [(''ALINBuffers'', (CPtr ''TLIN'')),
      (''ALINBufferSize'', ps32), (''AIdxChn'', s32), (''AIncludeTx'', CInt False 1)]]"

definition TS_prototypes_3 :: "cproto list" where
  "TS_prototypes_3 =
     [CProto ''tsfifo_clear_can_receive_buffers'' (s32) [(''AIdxChn'', s32)],
      CProto ''tsfifo_clear_canfd_receive_buffers'' (s32) [(''AIdxChn'', s32)],
      CProto ''tsfifo_clear_fastlin_receive_buffers'' (s32) [(''AIdxChn'', s32)],
      CProto ''tsfifo_clear_lin_receive_buffers'' (s32) [(''AIdxChn'', s32)],
      CProto ''tsapp_register_event_can'' (s32) [(''AObj'', ps32), (''AEvent'', TCANEvent)],
      CProto ''tsapp_register_event_canfd'' (s32) [(''AObj'', ps32), (''AEvent'', TCANFDEvent)],
      CProto ''tsapp_register_event_lin'' (s32) [(''AObj'', ps32), (''AEvent'', TLINEvent)],
      CProto ''tsapp_register_pretx_event_can'' (s32) [(''AObj'', ps32), (''AEvent'', TCANEvent)],
      CProto ''tsapp_register_pretx_event_canfd'' (s32) [(''AObj'', ps32), (''AEvent'',
      TCANFDEvent)],
      CProto ''tsapp_register_pretx_event_lin'' (s32) [(''AObj'', ps32), (''AEvent'', TLINEvent)],
      CProto ''tsapp_set_can_channel_count'' (s32) [(''ACount'', s32)],
      CProto ''tsapp_set_current_application'' (s32) [(''AAppName'', CPtr ''char'')],
      CProto ''tsapp_set_lin_channel_count'' (s32) [(''ACount'', s32)],
      CProto ''tsapp_set_logger'' (s32) [(''ALogger'', TLogger)],
      CProto ''tsapp_set_mapping'' (s32) [(''AMapping'', (CPtr ''TLIBTSMapping''))],
      CProto ''tsapp_set_mapping_verbose'' (s32) [(''AAppName'', CPtr ''char''),
      (''AAppChannelType'', CInt True 4), (''AAppChannel'', s32), (''AHardwareName'', CPtr
      ''char''), (''AHardwareType'', CInt True 4), (''AHardwareSubType'', s32),
      (''AHardwareIndex'', s32), (''AHardwareChannel'', s32), (''AEnableMapping'', CInt False 1)],
      CProto ''tsapp_set_turbo_mode'' (s32) [(''AEnable'', CInt False 1)],
      CProto ''tsapp_set_vendor_detect_preferences'' (s32) [(''AScanTOSUN'', CInt False 1),
      (''AScanVector'', CInt False 1), (''AScanPeak'', CInt False 1), (''AScanKvaser'', CInt
      False 1), (''AScanZLG'', CInt False 1), (''AScanIntrepidcs'', CInt False 1)],
      CProto ''tsapp_show_tsmaster_window'' (s32) [(''AWindowName'', CPtr ''char''),
      (''AWaitClose'', CInt False 1)],
      CProto ''tsapp_start_logging'' (s32) [(''AFullFileName'', CPtr ''char'')],
      CProto ''tsapp_stop_logging'' (s32) [],
      CProto ''tsapp_transmit_can_async'' (s32) [(''ACAN'', (CPtr ''TCAN''))],
      CProto ''tsapp_transmit_canfd_async'' (s32) [(''ACANFD'', (CPtr ''TCANFD''))],
      CProto ''tsapp_transmit_lin_async'' (s32) [(''ALIN'', (CPtr ''TLIN''))],
      CProto ''tsapp_transmit_can_sync'' (s32) [(''ACAN'', (CPtr ''TCAN'')), (''ATimeoutMS'',
      s32)],
      CProto ''tsapp_transmit_canfd_sync'' (s32) [(''ACANFD'', (CPtr ''TCANFD'')),
      (''ATimeoutMS'', s32)],
      CProto ''tsapp_transmit_lin_sync'' (s32) [(''ALIN'', (CPtr ''TLIN'')), (''ATimeoutMS'',
      s32)],
      CProto ''tsapp_unregister_event_can'' (s32) [(''AObj'', ps32), (''AEvent'', TCANEvent)],
      CProto ''tsapp_unregister_event_canfd'' (s32) [(''AObj'', ps32), (''AEvent'', TCANFDEvent)],
      CProto ''tsapp_unregister_event_lin'' (s32) [(''AObj'', ps32), (''AEvent'', TLINEvent)]]"

definition TS_prototypes_4 :: "cproto list" where
  "TS_prototypes_4 =
     [CProto ''tsapp_unregister_events_can'' (s32) [(''AObj'', ps32)],
      CProto ''tsapp_unregister_events_lin'' (s32) [(''AObj'', ps32)],
      CProto ''tsapp_unregister_events_canfd'' (s32) [(''AObj'', ps32)],
      CProto ''tsapp_unregister_events_all'' (s32) [(''AObj'', ps32)],
      CProto ''tsapp_unregister_pretx_event_can'' (s32) [(''AObj'', ps32), (''AEvent'',
      TCANEvent)],
      CProto ''tsapp_unregister_pretx_event_canfd'' (s32) [(''AObj'', ps32), (''AEvent'',
      TCANFDEvent)],
      CProto ''tsapp_unregister_pretx_event_lin'' (s32) [(''AObj'', ps32), (''AEvent'',
      TLINEvent)],
      CProto ''tsapp_unregister_pretx_events_can'' (s32) [(''AObj'', ps32)],
      CProto ''tsapp_unregister_pretx_events_lin'' (s32) [(''AObj'', ps32)],
      CProto ''tsapp_unregister_pretx_events_canfd'' (s32) [(''AObj'', ps32)],
      CProto ''tsapp_unregister_pretx_events_all'' (s32) [(''AObj'', ps32)],
      CProto ''tscom_can_rbs_start'' (s32) [],
      CProto ''tscom_can_rbs_stop'' (s32) [],
      CProto ''tscom_can_rbs_is_running'' (s32) [(''AIsRunning'', CPtr ''uchar'')],
      CProto ''tscom_can_rbs_configure'' (s32) [(''AAutoStart'', CInt False 1),
      (''AAutoSendOnModification'', CInt False 1), (''AActivateNodeSimulation'', CInt False 1),
      (''AInitValueOptions'', CInt True 4)],
      CProto ''tscom_can_rbs_activate_all_networks'' (s32) [(''AEnable'', CInt False 1),
      (''AIncludingChildren'', CInt False 1)],
      CProto ''tscom_can_rbs_activate_network_by_name'' (s32) [(''AIdxChn'', s32), (''AEnable'',
      CInt False 1), (''ANetworkName'', CPtr ''char''), (''AIncludingChildren'', CInt False 1)],
      CProto ''tscom_can_rbs_activate_node_by_name'' (s32) [(''AIdxChn'', s32), (''AEnable'',
      CInt False 1), (''ANetworkName'', CPtr ''char''), (''ANodeName'', CPtr ''char''),
      (''AIncludingChildren'', CInt False 1)],
      CProto ''tscom_can_rbs_activate_message_by_name'' (s32) [(''AIdxChn'', s32), (''AEnable'',
      CInt False 1), (''ANetworkName'', CPtr ''char''), (''ANodeName'', CPtr ''char''),
      (''AMsgName'', CPtr ''char'')],
      CProto ''tscom_can_rbs_get_signal_value_by_element'' (s32) [(''AIdxChn'', s32),
      (''ANetworkName'', CPtr ''char''), (''ANodeName'', CPtr ''char''), (''AMsgName'', CPtr
      ''char''), (''ASignalName'', CPtr ''char''), (''AValue'', CPtr ''double'')],
      CProto ''tscom_can_rbs_get_signal_value_by_address'' (s32) [(''ASymbolAddress'', CPtr
      ''char''), (''AValue'', CPtr ''double'')],
      CProto ''tscom_can_rbs_set_signal_value_by_element'' (s32) [(''AIdxChn'', s32),
      (''ANetworkName'', CPtr ''char''), (''ANodeName'', CPtr ''char''), (''AMsgName'', CPtr
      ''char''), (''ASignalName'', CPtr ''char''), (''AValue'', CFloat 8)],
      CProto ''tscom_can_rbs_set_signal_value_by_address'' (s32) [(''ASymbolAddress'', CPtr
      ''char''), (''AValue'', CFloat 8)],
      CProto ''tsdb_get_signal_value_can'' (s32) [(''ACAN'', (CPtr ''TCAN'')), (''AMsgName'',
      CPtr ''char''), (''ASgnName'', CPtr ''char''), (''AValue'', CPtr ''double'')],
      CProto ''tsdb_get_signal_value_canfd'' (s32) [(''ACANFD'', (CPtr ''TCANFD'')),
      (''AMsgName'', CPtr ''char''), (''ASgnName'', CPtr ''char''), (''AValue'', CPtr
      ''double'')],
      CProto ''tsdb_set_signal_value_can'' (s32) [(''ACAN'', (CPtr ''TCAN'')), (''AMsgName'',
      CPtr ''char''), (''ASgnName'', CPtr ''char''), (''AValue'', CFloat 8)],
      CProto ''tsdb_set_signal_value_canfd'' (s32) [(''ACANFD'', (CPtr ''TCANFD'')),
      (''AMsgName'', CPtr ''char''), (''ASgnName'', CPtr ''char''), (''AValue'', CFloat 8)],
      CProto ''tsdb_load_can_db'' (s32) [(''ADBC'', CPtr ''char''),
      (''ASupportedChannelsBased0'', CPtr ''char''), (''AId'', CPtr ''u32'')],
      CProto ''tsdb_unload_can_db'' (s32) [(''AId'', u32)],
      CProto ''tsdb_unload_can_dbs'' (s32) []]"

definition TS_prototypes_5 :: "cproto list" where
  "TS_prototypes_5 =
     [CProto ''tsdb_get_can_db_count'' (s32) [(''ACount'', CPtr ''s32'')],
      CProto ''tsdb_get_can_db_id'' (s32) [(''AIndex'', s32), (''AId'', CPtr ''u32'')],
      CProto ''tsdb_get_can_db_info'' (s32) [(''ADatabaseId'', u32), (''AType'', s32),
      (''AIndex'', s32), (''ASubIndex'', s32), (''AValue'', CPtr ''char_ptr'')],
      CProto ''tslog_add_online_replay_config'' (s32) [(''AFileName'', CPtr ''char''),
      (''AIndex'', CPtr ''s32'')],
      CProto ''tslog_set_online_replay_config'' (s32) [(''AIndex'', s32), (''AName'', CPtr
      ''char''), (''AFileName'', CPtr ''char''), (''AAutoStart'', CInt False 1),
      (''AIsRepetitiveMode'', CInt False 1), (''AStartTimingMode'', CInt True 4),
      (''AStartDelayTimeMs'', s32), (''ASendTx'', CInt False 1), (''ASendRx'', CInt False 1),
      (''AMappings'', CPtr ''char'')],
      CProto ''tslog_get_online_replay_count'' (s32) [(''ACount'', CPtr ''s32'')],
      CProto ''tslog_get_online_replay_config'' (s32) [(''AIndex'', s32), (''AName'', CPtr
      ''char_ptr''), (''AFileName'', CPtr ''char_ptr''), (''AAutoStart'', CPtr ''uchar''),
      (''AIsRepetitiveMode'', CPtr ''uchar''), (''AStartTimingMode'', CPtr ''int''),
      (''AStartDelayTimeMs'', CPtr ''s32''), (''ASendTx'', CPtr ''uchar''), (''ASendRx'', CPtr
      ''uchar''), (''AMappings'', CPtr ''char_ptr'')],
      CProto ''tslog_del_online_replay_config'' (s32) [(''AIndex'', s32)],
      CProto ''tslog_del_online_replay_configs'' (s32) [],
      CProto ''tslog_start_online_replay'' (s32) [(''AIndex'', s32)],
      CProto ''tslog_start_online_replays'' (s32) [],
      CProto ''tslog_pause_online_replay'' (s32) [(''AIndex'', s32)],
      CProto ''tslog_pause_online_replays'' (s32) [],
      CProto ''tslog_stop_online_replay'' (s32) [(''AIndex'', s32)],
      CProto ''tslog_stop_online_replays'' (s32) [],
      CProto ''tslog_get_online_replay_status'' (s32) [(''AIndex'', s32), (''AStatus'', CPtr
      ''int''), (''AProgressPercent100'', CPtr ''float'')],
      CProto ''tslog_blf_write_start'' (s32) [(''AFileName'', CPtr ''char''), (''AHandle'', CPtr
      ''int'')],
      CProto ''tslog_blf_write_can'' (s32) [(''AHandle'', CInt True 4), (''ACAN'', (CPtr
      ''TCAN''))],
      CProto ''tslog_blf_write_can_fd'' (s32) [(''AHandle'', CInt True 4), (''ACANFD'', (CPtr
      ''TCANFD''))],
      CProto ''tslog_blf_write_lin'' (s32) [(''AHandle'', CInt True 4), (''ALIN'', (CPtr
      ''TLIN''))],
      CProto ''tslog_blf_write_realtime_comment'' (s32) [(''AHandle'', CInt True 4),
      (''ATimeUs'', s64), (''AComment'', CPtr ''char'')],
      CProto ''tslog_blf_write_end'' (s32) [(''AHandle'', CInt True 4)],
      CProto ''tslog_blf_read_start'' (s32) [(''AFileName'', CPtr ''char''), (''AHandle'', CPtr
      ''int''), (''AObjCount'', CPtr ''int'')],
      CProto ''tsLog_blf_read_start_verbose'' (s32) [(''AFileName'', CPtr ''char''),
      (''AHandle'', CPtr ''int''), (''AObjCount'', CPtr ''int''), (''AYear'', CPtr ''u16''),
      (''AMonth'', CPtr ''u16''), (''ADayOfWeek'', CPtr ''u16''), (''ADay'', CPtr ''u16''),
      (''AHour'', CPtr ''u16''), (''AMinute'', CPtr ''u16''), (''ASecond'', CPtr ''u16''),
      (''AMilliseconds'', CPtr ''u16'')],
      CProto ''tslog_blf_read_status'' (s32) [(''AHandle'', CInt True 4), (''AObjReadCount'',
      CPtr ''int'')],
      CProto ''tslog_blf_read_object'' (s32) [(''AHandle'', CInt True 4), (''AProgressedCnt'',
      CPtr ''int''), (''AType'', CPtr ''int''), (''ACAN'', (CPtr ''TCAN'')), (''ALIN'', (CPtr
      ''TLIN'')), (''ACANFD'', (CPtr ''TCANFD''))],
      CProto ''tslog_blf_read_object_w_comment'' (s32) [(''AHandle'', CInt True 4),
      (''AProgressedCnt'', CPtr ''int''), (''AType'', CPtr ''int''), (''ACAN'', (CPtr ''TCAN'')),
      (''ALIN'', (CPtr ''TLIN'')), (''ACANFD'', (CPtr ''TCANFD'')), (''AComment'', (CPtr
      ''Trealtime_comment_t''))],
      CProto ''tslog_blf_read_end'' (s32) [(''AHandle'', CInt True 4)],
      CProto ''tslog_blf_seek_object_time'' (s32) [(''AHandle'', CInt True 4), (''AProg100'',
      CFloat 8), (''ATime'', CPtr ''s64''), (''AProgressedCnt'', CPtr ''int'')],
      CProto ''tsapp_register_event_flexray'' (s32) [(''obj'', ps32), (''FlexrayEvent'',
      TFlexRayEvent)]]"

definition TS_prototypes_6 :: "cproto list" where
  "TS_prototypes_6 =
     [CProto ''tsapp_register_pretx_event_flexray'' (s32) [(''obj'', ps32), (''FlexrayEvent'',
      TFlexRayEvent)],
      CProto ''tsapp_unregister_event_flexray'' (s32) [(''obj'', ps32), (''FlexrayEvent'',
      TFlexRayEvent)],
      CProto ''tsapp_unregister_pretx_event_flexray'' (s32) [(''obj'', ps32), (''FlexrayEvent'',
      TFlexRayEvent)],
      CProto ''tsapp_unregister_events_flexray'' (s32) [(''obj'', ps32)],
      CProto ''tsapp_unregister_pretx_events_flexray'' (s32) [(''obj'', ps32)],
      CProto ''tsapp_transmit_flexray_async'' (s32) [(''AFlexray'', (CPtr ''TFlexRay''))],
      CProto ''tscom_flexray_rbs_set_signal_value_by_address'' (s32) [(''AAdrr'', CPtr ''char''),
      (''value'', CFloat 8)],
      CProto ''tscom_flexray_rbs_get_signal_value_by_address'' (s32) [(''AAdrr'', CPtr ''char''),
      (''value'', pdouble)],
      CProto ''tscom_flexray_rbs_set_signal_value_by_element'' (s32) [(''AClusterName'', CPtr
      ''char''), (''AECUName'', CPtr ''char''), (''AFrameName'', CPtr ''char''),
      (''ASignalName'', CPtr ''char''), (''value'', CFloat 8)],
      CProto ''tscom_flexray_rbs_get_signal_value_by_element'' (s32) [(''AClusterName'', CPtr
      ''char''), (''AECUName'', CPtr ''char''), (''AFrameName'', CPtr ''char''),
      (''ASignalName'', CPtr ''char''), (''value'', pdouble)],
      CProto ''tscom_flexray_rbs_start'' (s32) [],
      CProto ''tscom_flexray_rbs_stop'' (s32) [],
      CProto ''tscom_flexray_rbs_is_running'' (s32) [(''AIsRunning'', CPtr ''uchar'')],
      CProto ''tscom_flexray_rbs_configure'' (s32) [(''AAutoStart'', CInt False 1),
      (''AAutoSendOnModification'', CInt False 1), (''AActivateECUSimulation'', CInt False 1),
      (''AInitValueOptions'', CInt True 4)],
      CProto ''tscom_flexray_rbs_activate_all_clusters'' (s32) [(''AEnable'', CInt False 1),
      (''AIncludingChildren'', CInt False 1)],
      CProto ''tscom_flexray_rbs_activate_cluster_by_name'' (s32) [(''AIdxChn'', s32),
      (''AEnable'', CInt False 1), (''AClusterName'', CPtr ''char''), (''AIncludingChildren'',
      CInt False 1)],
      CProto ''tscom_flexray_rbs_activate_ecu_by_name'' (s32) [(''AIdxChn'', s32), (''AEnable'',
      CInt False 1), (''AClusterName'', CPtr ''char''), (''AECUName'', CPtr ''char''),
      (''AIncludingChildren'', CInt False 1)],
      CProto ''tscom_flexray_rbs_activate_frame_by_name'' (s32) [(''AIdxChn'', s32),
      (''AEnable'', CInt False 1), (''AClusterName'', CPtr ''char''), (''AECUName'', CPtr
      ''char''), (''AFrameName'', CPtr ''char'')],
      CProto ''tscom_flexray_rbs_enable'' (s32) [(''AEnable'', CInt False 1)],
      CProto ''tsdb_unload_flexray_dbs'' (s32) [],
      CProto ''tscom_flexray_get_signal_definition'' (s32) [(''ASignalAddress'', CPtr ''char''),
      (''ASignalDef'', (CPtr ''TFlexRaySignal''))],
      CProto ''tscom_flexray_get_signal_value_in_raw_frame'' (CFloat 8) [(''ASignal'', (CPtr
      ''TFlexRaySignal'')), (''data'', pu8)],
      CProto ''tscom_flexray_set_signal_value_in_raw_frame'' (s32) [(''ASignal'', (CPtr
      ''TFlexRaySignal'')), (''data'', pu8), (''AValue'', CFloat 8)],
      CProto ''tsdb_load_flexray_db'' (s32) [(''AFRFile'', CPtr ''char''),
      (''ASupportedChannels'', CPtr ''char''), (''AId'', ps32)],
      CProto ''tsdb_unload_flexray_db'' (s32) [(''AId'', s32)],
      CProto ''tsdb_unload_flexray_dbs'' (s32) [],
      CProto ''tsdb_get_flexray_db_count'' (s32) [(''AId'', ps32)],
      CProto ''tsdb_get_flexray_db_properties_by_address_verbose'' (s32) [(''AAddr'', CPtr
      ''char''), (''ADBIndex'', ps32), (''ASignalCount'', ps32), (''AFrameCount'', ps32),
      (''AECUCount'', ps32), (''ASupportedChannelMask'', ps64), (''AName'', CPtr ''char_ptr''),
      (''AComment'', CPtr ''char_ptr'')],
      CProto ''tsdb_get_flexray_db_properties_by_index_verbose'' (s32) [(''ADBIndex'', s32),
      (''ASignalCount'', ps32), (''AFrameCount'', ps32), (''AECUCount'', ps32),
      (''ASupportedChannelMask'', ps64), (''AName'', CPtr ''char_ptr''), (''AComment'', CPtr
      ''char_ptr'')],
      CProto ''tsdb_get_flexray_ecu_properties_by_address_verbose'' (s32) [(''AAddr'', CPtr
      ''char''), (''ADBIndex'', ps32), (''AECUIndex'', ps32), (''ATxFrameCount'', ps32),
      (''ARxFrameCount'', ps32), (''AName'', CPtr ''char_ptr''), (''AComment'', CPtr
      ''char_ptr'')]]"

definition TS_prototypes_7 :: "cproto list" where
  "TS_prototypes_7 =
     [CProto ''tsdb_get_flexray_ecu_properties_by_index_verbose'' (s32) [(''ADBIndex'', s32),
      (''AECUIndex'', s32), (''ATxFrameCount'', ps32), (''ARxFrameCount'', ps32), (''AName'',
      CPtr ''char_ptr''), (''AComment'', CPtr ''char_ptr'')],
      CProto ''tsdb_get_flexray_frame_properties_by_address_verbose'' (s32) [(''AAddr'', CPtr
      ''char''), (''ADBIndex'', ps32), (''AECUIndex'', ps32), (''AFrameIndex'', ps32),
      (''AIsTx'', CPtr ''uchar''), (''AFRChannelMask'', ps32), (''AFRBaseCycle'', ps32),
      (''AFRCycleRepetition'', ps32), (''AFRIsStartupFrame'', CPtr ''uchar''), (''AFRSlotId'',
      ps32), (''AFRCycleMask'', ps64), (''ASignalCount'', ps32), (''AName'', CPtr ''char_ptr''),
      (''AComment'', CPtr ''char_ptr'')],
      CProto ''tsdb_get_flexray_frame_properties_by_index_verbose'' (s32) [(''ADBIndex'', s32),
      (''AECUIndex'', s32), (''AFrameIndex'', s32), (''AIsTx'', CInt False 1),
      (''AFRChannelMask'', ps32), (''AFRBaseCycle'', ps32), (''AFRCycleRepetition'', ps32),
      (''AFRIsStartupFrame'', CPtr ''uchar''), (''AFRSlotId'', ps32), (''AFRCycleMask'', ps64),
      (''ASignalCount'', ps32), (''AName'', CPtr ''char_ptr''), (''AComment'', CPtr
      ''char_ptr'')],
      CProto ''tsdb_get_flexray_signal_properties_by_address_verbose'' (s32) [(''AAddr'', CPtr
      ''char''), (''ADBIndex'', ps32), (''AECUIndex'', ps32), (''AFrameIndex'', ps32),
      (''ASignalIndex'', ps32), (''AIsTx'', CPtr ''uchar''), (''ASignalType'', (CPtr
      ''TSignalType'')), (''ACompuMethod'', (CPtr ''TFlexRayCompuMethod'')), (''AIsIntel'', CPtr
      ''uchar''), (''AStartBit'', ps32), (''AUpdateBit'', ps32), (''ALength'', ps32),
      (''AFactor'', pdouble), (''AOffset'', pdouble), (''AInitValue'', pdouble), (''AName'', CPtr
      ''char_ptr''), (''AComment'', CPtr ''char_ptr'')],
      CProto ''tsdb_get_flexray_signal_properties_by_index_verbose'' (s32) [(''ADBIndex'', s32),
      (''AECUIndex'', s32), (''AFrameIndex'', s32), (''ASignalIndex'', s32), (''AIsTx'', CInt
      False 1), (''ASignalType'', (CPtr ''TSignalType'')), (''ACompuMethod'', (CPtr
      ''TFlexRayCompuMethod'')), (''AIsIntel'', CPtr ''uchar''), (''AStartBit'', ps32),
      (''AUpdateBit'', ps32), (''ALength'', ps32), (''AFactor'', pdouble), (''AOffset'',
      pdouble), (''AInitValue'', pdouble), (''AName'', CPtr ''char_ptr''), (''AComment'', CPtr
      ''char_ptr'')],
      CProto ''tsdb_get_flexray_db_id'' (s32) [(''AIndex'', s32), (''AId'', ps32)]]"

text \<open>Every structure, macro table and prototype of the header.\<close>

definition TS_structs :: "ctype list" where
  "TS_structs =
     [TCAN_type, TCANFD_type, TLIN_type, TFlexRay_type, TLIBHWInfo, TLIBTSMapping_type,
     TLIBSystemVarDef, TCANSignal, TFlexRaySignal, Trealtime_comment_t]"

definition TS_tables :: "macro_table list" where
  "TS_tables =
     [TS_channels, TS_device_name_length, TS_text_lengths]"

definition TS_functions :: "cproto list" where
  "TS_functions = TS_prototypes_1 @
     TS_prototypes_2 @
     TS_prototypes_3 @
     TS_prototypes_4 @
     TS_prototypes_5 @
     TS_prototypes_6 @
     TS_prototypes_7"

end
