(* ===== verification/Hdr_Vector.thy ===== *)
theory Hdr_Vector
  imports C_Abi
begin

text \<open>
  vxlapi.h, the interface of vxlapi64.dll (Vector XL driver library): the constants of every bus, the
  event structures with the packing each block declares, and the prototypes of all functions.
\<close>

unbundle bit_operations_syntax

definition XL_bus_types :: macro_table where
  "XL_bus_types =
     [(''XL_BUS_TYPE_NONE'', Lit 0x00000000),
      (''XL_BUS_TYPE_CAN'', Lit 0x00000001),
      (''XL_BUS_TYPE_LIN'', Lit 0x00000002),
      (''XL_BUS_TYPE_FLEXRAY'', Lit 0x00000004),
      (''XL_BUS_TYPE_AFDX'', Lit 0x00000008),
      (''XL_BUS_TYPE_MOST'', Lit 0x00000010),
      (''XL_BUS_TYPE_DAIO'', Lit 0x00000040),
      (''XL_BUS_TYPE_J1708'', Lit 0x00000100),
      (''XL_BUS_TYPE_KLINE'', Lit 0x00000800),
      (''XL_BUS_TYPE_ETHERNET'', Lit 0x00001000),
      (''XL_BUS_TYPE_A429'', Lit 0x00002000),
      (''XL_BUS_TYPE_STATUS'', Lit 0x00020000)]"

definition XL_transceivers_cab :: macro_table where
  "XL_transceivers_cab =
     [(''XL_TRANSCEIVER_TYPE_NONE'', Lit 0x0000),
      (''XL_TRANSCEIVER_TYPE_CAN_251'', Lit 0x0001),
      (''XL_TRANSCEIVER_TYPE_CAN_252'', Lit 0x0002),
      (''XL_TRANSCEIVER_TYPE_CAN_DNOPTO'', Lit 0x0003),
      (''XL_TRANSCEIVER_TYPE_CAN_SWC_PROTO'', Lit 0x0005),
      (''XL_TRANSCEIVER_TYPE_CAN_SWC'', Lit 0x0006),
      (''XL_TRANSCEIVER_TYPE_CAN_EVA'', Lit 0x0007),
      (''XL_TRANSCEIVER_TYPE_CAN_FIBER'', Lit 0x0008),
      (''XL_TRANSCEIVER_TYPE_CAN_1054_OPTO'', Lit 0x000b),
      (''XL_TRANSCEIVER_TYPE_CAN_SWC_OPTO'', Lit 0x000c),
      (''XL_TRANSCEIVER_TYPE_CAN_B10011S'', Lit 0x000d),
      (''XL_TRANSCEIVER_TYPE_CAN_1050'', Lit 0x000e),
      (''XL_TRANSCEIVER_TYPE_CAN_1050_OPTO'', Lit 0x000f),
      (''XL_TRANSCEIVER_TYPE_CAN_1041'', Lit 0x0010),
      (''XL_TRANSCEIVER_TYPE_CAN_1041_OPTO'', Lit 0x0011),
      (''XL_TRANSCEIVER_TYPE_CAN_VIRTUAL'', Lit 0x0016),
      (''XL_TRANSCEIVER_TYPE_LIN_6258_OPTO'', Lit 0x0017),
      (''XL_TRANSCEIVER_TYPE_LIN_6259_OPTO'', Lit 0x0019),
      (''XL_TRANSCEIVER_TYPE_DAIO_8444_OPTO'', Lit 0x001d),
      (''XL_TRANSCEIVER_TYPE_CAN_1041A_OPTO'', Lit 0x0021),
      (''XL_TRANSCEIVER_TYPE_LIN_6259_MAG'', Lit 0x0023),
      (''XL_TRANSCEIVER_TYPE_LIN_7259_MAG'', Lit 0x0025),
      (''XL_TRANSCEIVER_TYPE_LIN_7269_MAG'', Lit 0x0027),
      (''XL_TRANSCEIVER_TYPE_CAN_1054_MAG'', Lit 0x0033),
      (''XL_TRANSCEIVER_TYPE_CAN_251_MAG'', Lit 0x0035),
      (''XL_TRANSCEIVER_TYPE_CAN_1050_MAG'', Lit 0x0037),
      (''XL_TRANSCEIVER_TYPE_CAN_1040_MAG'', Lit 0x0039),
      (''XL_TRANSCEIVER_TYPE_CAN_1041A_MAG'', Lit 0x003b),
      (''XL_TRANSCEIVER_TYPE_TWIN_CAN_1041A_MAG'', Lit 0x0080),
      (''XL_TRANSCEIVER_TYPE_TWIN_LIN_7269_MAG'', Lit 0x0081),
      (''XL_TRANSCEIVER_TYPE_TWIN_CAN_1041AV2_MAG'', Lit 0x0082),
      (''XL_TRANSCEIVER_TYPE_TWIN_CAN_1054_1041A_MAG'', Lit 0x0083)]"

definition XL_transceivers_piggy :: macro_table where
  "XL_transceivers_piggy =
     [(''XL_TRANSCEIVER_TYPE_PB_CAN_251'', Lit 0x0101),
      (''XL_TRANSCEIVER_TYPE_PB_CAN_1054'', Lit 0x0103),
      (''XL_TRANSCEIVER_TYPE_PB_CAN_251_OPTO'', Lit 0x0105),
      (''XL_TRANSCEIVER_TYPE_PB_CAN_SWC'', Lit 0x010b),
      (''XL_TRANSCEIVER_TYPE_PB_CAN_1054_OPTO'', Lit 0x0115),
      (''XL_TRANSCEIVER_TYPE_PB_CAN_SWC_OPTO'', Lit 0x0117),
      (''XL_TRANSCEIVER_TYPE_PB_CAN_TT_OPTO'', Lit 0x0119),
      (''XL_TRANSCEIVER_TYPE_PB_CAN_1050'', Lit 0x011b),
      (''XL_TRANSCEIVER_TYPE_PB_CAN_1050_OPTO'', Lit 0x011d),
      (''XL_TRANSCEIVER_TYPE_PB_CAN_1041'', Lit 0x011f),
      (''XL_TRANSCEIVER_TYPE_PB_CAN_1041_OPTO'', Lit 0x0121),
      (''XL_TRANSCEIVER_TYPE_PB_LIN_6258_OPTO'', Lit 0x0129),
      (''XL_TRANSCEIVER_TYPE_PB_LIN_6259_OPTO'', Lit 0x012b),
      (''XL_TRANSCEIVER_TYPE_PB_LIN_6259_MAG'', Lit 0x012d),
      (''XL_TRANSCEIVER_TYPE_PB_CAN_1041A_OPTO'', Lit 0x012f),
      (''XL_TRANSCEIVER_TYPE_PB_LIN_7259_MAG'', Lit 0x0131),
      (''XL_TRANSCEIVER_TYPE_PB_LIN_7269_MAG'', Lit 0x0133),
      (''XL_TRANSCEIVER_TYPE_PB_CAN_251_MAG'', Lit 0x0135),
      (''XL_TRANSCEIVER_TYPE_PB_CAN_1050_MAG'', Lit 0x0136),
      (''XL_TRANSCEIVER_TYPE_PB_CAN_1040_MAG'', Lit 0x0137),
      (''XL_TRANSCEIVER_TYPE_PB_CAN_1041A_MAG'', Lit 0x0138),
      (''XL_TRANSCEIVER_TYPE_PB_DAIO_8444_OPTO'', Lit 0x0139),
      (''XL_TRANSCEIVER_TYPE_PB_CAN_1054_MAG'', Lit 0x013b),
      (''XL_TRANSCEIVER_TYPE_CAN_1051_CAP_FIX'', Lit 0x013c),
      (''XL_TRANSCEIVER_TYPE_DAIO_1021_FIX'', Lit 0x013d),
      (''XL_TRANSCEIVER_TYPE_LIN_7269_CAP_FIX'', Lit 0x013e),
      (''XL_TRANSCEIVER_TYPE_PB_CAN_1051_CAP'', Lit 0x013f),
      (''XL_TRANSCEIVER_TYPE_PB_CAN_SWC_7356_CAP'', Lit 0x0140),
      (''XL_TRANSCEIVER_TYPE_PB_CAN_1055_CAP'', Lit 0x0141),
      (''XL_TRANSCEIVER_TYPE_PB_CAN_1057_CAP'', Lit 0x0142),
      (''XL_TRANSCEIVER_TYPE_A429_HOLT8596_FIX'', Lit 0x0143),
      (''XL_TRANSCEIVER_TYPE_A429_HOLT8455_FIX'', Lit 0x0144),
      (''XL_TRANSCEIVER_TYPE_PB_CAN_1051HG_CAP'', Lit 0x0145),
      (''XL_TRANSCEIVER_TYPE_CAN_1057_FIX'', Lit 0x0146),
      (''XL_TRANSCEIVER_TYPE_LIN_7269_FIX'', Lit 0x0147),
      (''XL_TRANSCEIVER_TYPE_PB_CAN_1462BT'', Lit 0x0149),
      (''XL_TRANSCEIVER_TYPE_PB_LIN_7259'', Lit 0x014a),
      (''XL_TRANSCEIVER_TYPE_CAN_1057B_FIX'', Lit 0x014e),
      (''XL_TRANSCEIVER_TYPE_CAN_1462BT_FIX'', Lit 0x014f),
      (''XL_TRANSCEIVER_TYPE_LIN_7259_FIX'', Lit 0x0159),
      (''XL_TRANSCEIVER_TYPE_LIN_7259_FIX_NS'', Lit 0x015a)]"

definition XL_transceivers_modules :: macro_table where
  "XL_transceivers_modules =
     [(''XL_TRANSCEIVER_TYPE_PB_FR_1080'', Lit 0x0201),
      (''XL_TRANSCEIVER_TYPE_PB_FR_1080_MAG'', Lit 0x0202),
      (''XL_TRANSCEIVER_TYPE_PB_FR_1080A_MAG'', Lit 0x0203),
      (''XL_TRANSCEIVER_TYPE_PB_FR_1082_CAP'', Lit 0x0204),
      (''XL_TRANSCEIVER_TYPE_PB_FRC_1082_CAP'', Lit 0x0205),
      (''XL_TRANSCEIVER_TYPE_FR_1082_CAP_FIX'', Lit 0x0206),
      (''XL_TRANSCEIVER_TYPE_MOST150_ONBOARD'', Lit 0x0220),
      (''XL_TRANSCEIVER_TYPE_ETH_BCM54810_FIX'', Lit 0x0230),
      (''XL_TRANSCEIVER_TYPE_ETH_AR8031_FIX'', Lit 0x0231),
      (''XL_TRANSCEIVER_TYPE_ETH_BCM89810_FIX'', Lit 0x0232),
      (''XL_TRANSCEIVER_TYPE_ETH_TJA1100_FIX'', Lit 0x0233),
      (''XL_TRANSCEIVER_TYPE_ETH_BCM54810_89811_FIX'', Lit 0x0234),
      (''XL_TRANSCEIVER_TYPE_ETH_DP83XG710Q1_FIX'', Lit 0x0235),
      (''XL_TRANSCEIVER_TYPE_ETH_BCM54811S_FIX'', Lit 0x0236),
      (''XL_TRANSCEIVER_TYPE_ETH_RTL9000AA_FIX'', Lit 0x0237),
      (''XL_TRANSCEIVER_TYPE_ETH_BCM89811_FIX'', Lit 0x0238),
      (''XL_TRANSCEIVER_TYPE_ETH_BCM54210_FIX'', Lit 0x0239),
      (''XL_TRANSCEIVER_TYPE_ETH_88Q2112_FIX'', Lit 0x023a),
      (''XL_TRANSCEIVER_TYPE_ETH_BCM84891_FIX'', Lit 0x023b),
      (''XL_TRANSCEIVER_TYPE_ETH_BCM89883_FIX'', Lit 0x023c),
      (''XL_TRANSCEIVER_TYPE_ETH_88Q2220M_FIX'', Lit 0x023d),
      (''XL_TRANSCEIVER_TYPE_ETH_GPY215_FIX'', Lit 0x023e),
      (''XL_TRANSCEIVER_TYPE_PB_DAIO_8642'', Lit 0x0280),
      (''XL_TRANSCEIVER_TYPE_DAIO_AL_ONLY'', Lit 0x028f),
      (''XL_TRANSCEIVER_TYPE_DAIO_1021_FIX_WITH_AL'', Lit 0x0290),
      (''XL_TRANSCEIVER_TYPE_DAIO_AL_WU'', Lit 0x0291),
      (''XL_TRANSCEIVER_TYPE_DAIO_1021_FIX_WITH_5V'', Lit 0x0292),
      (''XL_TRANSCEIVER_TYPE_PB_DAIO_8644'', Lit 0x0281),
      (''XL_TRANSCEIVER_TYPE_ETH_MOD_BR_BCM89810'', Lit 0x0300),
      (''XL_TRANSCEIVER_TYPE_ETH_MOD_IEEE_RGMII_AR8031'', Lit 0x0301),
      (''XL_TRANSCEIVER_TYPE_ETH_MOD_IEEE_SGMII_AR8031'', Lit 0x0302),
      (''XL_TRANSCEIVER_TYPE_ETH_MOD_BR_TJA1100'', Lit 0x0303),
      (''XL_TRANSCEIVER_TYPE_ETH_MOD_BR_RTL9000AA'', Lit 0x0304),
      (''XL_TRANSCEIVER_TYPE_ETH_MOD_BR_SGMII_DP83XG710Q1'', Lit 0x0305),
      (''XL_TRANSCEIVER_TYPE_ETH_MOD_BR_88Q2112'', Lit 0x0306),
      (''XL_TRANSCEIVER_TYPE_ETH_MOD_BR_BCM89811'', Lit 0x0307),
      (''XL_TRANSCEIVER_TYPE_ETH_MOD_BR_TJA1101'', Lit 0x0308),
      (''XL_TRANSCEIVER_TYPE_AE_MOD_BR_88Q2112'', Lit 0x0400),
      (''XL_TRANSCEIVER_TYPE_AE_MOD_BR_BCM89883'', Lit 0x0401),
      (''XL_TRANSCEIVER_TYPE_AE_MOD_BR_BCM89890'', Lit 0x0402),
      (''XL_TRANSCEIVER_TYPE_ETH_MOD_BCM84891'', Lit 0x0403),
      (''XL_TRANSCEIVER_TYPE_AE_MOD_1AE10MLAN8670_LAN8670'', Lit 0x0405),
      (''XL_TRANSCEIVER_TYPE_AE_MOD_1AE10MLAN8670_BCM89883'', Lit 0x0406),
      (''XL_TRANSCEIVER_TYPE_AE_MOD_BR_RTL9010AA'', Lit 0x0407),
      (''XL_TRANSCEIVER_TYPE_AE_MOD_BR_88Q2221M'', Lit 0x0408),
      (''XL_TRANSCEIVER_TYPE_AE_MOD_BR_MVQ3244'', Lit 0x040a),
      (''XL_TRANSCEIVER_TYPE_AE_MOD_1AE10MLAN8670_LAN8670_V2'', Lit 0x040b),
      (''XL_TRANSCEIVER_TYPE_AE_MOD_4AE10M_LAN8680'', Lit 0x040c),
      (''XL_TRANSCEIVER_TYPE_AE_MOD_BR_MVQ3244_V2'', Lit 0x040e),
      (''XL_TRANSCEIVER_TYPE_AE_MOD_2AE1G_M88Q2221M'', Lit 0x0440),
      (''XL_TRANSCEIVER_TYPE_AE_MOD_2AE2G5_BCM89892'', Lit 0x0441),
      (''XL_TRANSCEIVER_TYPE_AE_MOD_2AE10M_LAN8680'', Lit 0x0442),
      (''XL_TRANSCEIVER_TYPE_CAN_MOD_1057BT'', Lit 0x0443),
      (''XL_TRANSCEIVER_TYPE_ETH_MOD_AQR115C'', Lit 0x0480),
      (''XL_TRANSCEIVER_TYPE_AE_MOD_BR_BCM89883_2CH'', Lit 0x0481),
      (''XL_TRANSCEIVER_TYPE_ETH_MOD_BCM54210'', Lit 0x0482),
      (''XL_TRANSCEIVER_TYPE_AE_MOD_LAN8670_V2_2CH'', Lit 0x0483),
      (''XL_TRANSCEIVER_TYPE_PB_ETH_100BASET1_TJA1101'', Lit 0x1f82),
      (''XL_TRANSCEIVER_TYPE_PB_ETH_1000BASET1_88Q2112'', Lit 0x1f83),
      (''XL_TRANSCEIVER_TYPE_PB_ETH_1000BASET1_88Q2221M'', Lit 0x1f84)]"

definition XL_transceiver_modes :: macro_table where
  "XL_transceiver_modes =
     [(''XL_TRANSCEIVER_LINEMODE_NA'', Cast False 4 (Lit 0x0000)),
      (''XL_TRANSCEIVER_LINEMODE_TWO_LINE'', Cast False 4 (Lit 0x0001)),
      (''XL_TRANSCEIVER_LINEMODE_CAN_H'', Cast False 4 (Lit 0x0002)),
      (''XL_TRANSCEIVER_LINEMODE_CAN_L'', Cast False 4 (Lit 0x0003)),
      (''XL_TRANSCEIVER_LINEMODE_SWC_SLEEP'', Cast False 4 (Lit 0x0004)),
      (''XL_TRANSCEIVER_LINEMODE_SWC_NORMAL'', Cast False 4 (Lit 0x0005)),
      (''XL_TRANSCEIVER_LINEMODE_SWC_FAST'', Cast False 4 (Lit 0x0006)),
      (''XL_TRANSCEIVER_LINEMODE_SWC_WAKEUP'', Cast False 4 (Lit 0x0007)),
      (''XL_TRANSCEIVER_LINEMODE_SLEEP'', Cast False 4 (Lit 0x0008)),
      (''XL_TRANSCEIVER_LINEMODE_NORMAL'', Cast False 4 (Lit 0x0009)),
      (''XL_TRANSCEIVER_LINEMODE_STDBY'', Cast False 4 (Lit 0x000a)),
      (''XL_TRANSCEIVER_LINEMODE_TT_CAN_H'', Cast False 4 (Lit 0x000b)),
      (''XL_TRANSCEIVER_LINEMODE_TT_CAN_L'', Cast False 4 (Lit 0x000c)),
      (''XL_TRANSCEIVER_LINEMODE_EVA_00'', Cast False 4 (Lit 0x000d)),
      (''XL_TRANSCEIVER_LINEMODE_EVA_01'', Cast False 4 (Lit 0x000e)),
      (''XL_TRANSCEIVER_LINEMODE_EVA_10'', Cast False 4 (Lit 0x000f)),
      (''XL_TRANSCEIVER_LINEMODE_EVA_11'', Cast False 4 (Lit 0x0010)),
      (''XL_TRANSCEIVER_STATUS_PRESENT'', Cast False 4 (Lit 0x0001)),
      (''XL_TRANSCEIVER_STATUS_POWER_GOOD'', Cast False 4 (Lit 0x0010)),
      (''XL_TRANSCEIVER_STATUS_EXT_POWER_GOOD'', Cast False 4 (Lit 0x0020)),
      (''XL_TRANSCEIVER_STATUS_NOT_SUPPORTED'', Cast False 4 (Lit 0x0040))]"

definition XL_driver_status :: macro_table where
  "XL_driver_status =
     [(''XL_SUCCESS'', Lit 0),
      (''XL_PENDING'', Lit 1),
      (''XL_ERR_QUEUE_IS_EMPTY'', Lit 10),
      (''XL_ERR_QUEUE_IS_FULL'', Lit 11),
      (''XL_ERR_TX_NOT_POSSIBLE'', Lit 12),
      (''XL_ERR_NO_LICENSE'', Lit 14),
      (''XL_ERR_WRONG_PARAMETER'', Lit 101),
      (''XL_ERR_TWICE_REGISTER'', Lit 110),
      (''XL_ERR_INVALID_CHAN_INDEX'', Lit 111),
      (''XL_ERR_INVALID_ACCESS'', Lit 112),
      (''XL_ERR_PORT_IS_OFFLINE'', Lit 113),
      (''XL_ERR_CHAN_IS_ONLINE'', Lit 116),
      (''XL_ERR_NOT_IMPLEMENTED'', Lit 117),
      (''XL_ERR_INVALID_PORT'', Lit 118),
      (''XL_ERR_HW_NOT_READY'', Lit 120),
      (''XL_ERR_CMD_TIMEOUT'', Lit 121),
      (''XL_ERR_CMD_HANDLING'', Lit 122),
      (''XL_ERR_HW_NOT_PRESENT'', Lit 129),
      (''XL_ERR_NOTIFY_ALREADY_ACTIVE'', Lit 131),
      (''XL_ERR_INVALID_TAG'', Lit 132),
      (''XL_ERR_INVALID_RESERVED_FLD'', Lit 133),
      (''XL_ERR_INVALID_SIZE'', Lit 134),
      (''XL_ERR_INSUFFICIENT_BUFFER'', Lit 135),
      (''XL_ERR_ERROR_CRC'', Lit 136),
      (''XL_ERR_BAD_EXE_FORMAT'', Lit 137),
      (''XL_ERR_NO_SYSTEM_RESOURCES'', Lit 138),
      (''XL_ERR_NOT_FOUND'', Lit 139),
      (''XL_ERR_INVALID_ADDRESS'', Lit 140),
      (''XL_ERR_REQ_NOT_ACCEP'', Lit 141),
      (''XL_ERR_INVALID_LEVEL'', Lit 142),
      (''XL_ERR_NO_DATA_DETECTED'', Lit 143),
      (''XL_ERR_INTERNAL_ERROR'', Lit 144),
      (''XL_ERR_UNEXP_NET_ERR'', Lit 145),
      (''XL_ERR_INVALID_USER_BUFFER'', Lit 146),
      (''XL_ERR_INVALID_PORT_ACCESS_TYPE'', Lit 147),
      (''XL_ERR_NO_RESOURCES'', Lit 152),
      (''XL_ERR_WRONG_CHIP_TYPE'', Lit 153),
      (''XL_ERR_WRONG_COMMAND'', Lit 154),
      (''XL_ERR_INVALID_HANDLE'', Lit 155),
      (''XL_ERR_RESERVED_NOT_ZERO'', Lit 157),
      (''XL_ERR_INIT_ACCESS_MISSING'', Lit 158),
      (''XL_ERR_WRONG_VERSION'', Lit 160),
      (''XL_ERR_ALREADY_EXISTS'', Lit 183),
      (''XL_ERR_CANNOT_OPEN_DRIVER'', Lit 201),
      (''XL_ERR_WRONG_BUS_TYPE'', Lit 202),
      (''XL_ERR_DLL_NOT_FOUND'', Lit 203),
      (''XL_ERR_INVALID_CHANNEL_MASK'', Lit 204),
      (''XL_ERR_NOT_SUPPORTED'', Lit 205),
      (''XL_ERR_CONNECTION_BROKEN'', Lit 210),
      (''XL_ERR_CONNECTION_CLOSED'', Lit 211),
      (''XL_ERR_INVALID_STREAM_NAME'', Lit 212),
      (''XL_ERR_CONNECTION_FAILED'', Lit 213),
      (''XL_ERR_STREAM_NOT_FOUND'', Lit 214),
      (''XL_ERR_STREAM_NOT_CONNECTED'', Lit 215),
      (''XL_ERR_QUEUE_OVERRUN'', Lit 216),
      (''XL_ERROR'', Lit 255)]"

definition XL_extended_errors :: macro_table where
  "XL_extended_errors =
     [(''XL_ERR_PDU_OUT_OF_MEMORY'', Lit 0x0104),
      (''XL_ERR_FR_CLUSTERCONFIG_MISSING'', Lit 0x0105),
      (''XL_ERR_PDU_OFFSET_REPET_INVALID'', Lit 0x0106),
      (''XL_ERR_PDU_PAYLOAD_SIZE_INVALID'', Lit 0x0107),
      (''XL_ERR_FR_NBR_FRAMES_OVERFLOW'', Lit 0x0109),
      (''XL_ERR_FR_SLOT_ID_INVALID'', Lit 0x010b),
      (''XL_ERR_FR_SLOT_ALREADY_OCCUPIED_BY_ERAY'', Lit 0x010c),
      (''XL_ERR_FR_SLOT_ALREADY_OCCUPIED_BY_COLDC'', Lit 0x010d),
      (''XL_ERR_FR_SLOT_OCCUPIED_BY_OTHER_APP'', Lit 0x010e),
      (''XL_ERR_FR_SLOT_IN_WRONG_SEGMENT'', Lit 0x010f),
      (''XL_ERR_FR_FRAME_CYCLE_MULTIPLEX_ERROR'', Lit 0x0110),
      (''XL_ERR_PDU_NO_UNMAP_OF_SYNCFRAME'', Lit 0x0116),
      (''XL_ERR_SYNC_FRAME_MODE'', Lit 0x0123),
      (''XL_ERR_INVALID_DLC'', Lit 0x0201),
      (''XL_ERR_INVALID_CANID'', Lit 0x0202),
      (''XL_ERR_INVALID_FDFLAG_MODE20'', Lit 0x0203),
      (''XL_ERR_EDL_RTR'', Lit 0x0204),
      (''XL_ERR_EDL_NOT_SET'', Lit 0x0205),
      (''XL_ERR_UNKNOWN_FLAG'', Lit 0x0206),
      (''XL_ERR_TS_DOMAIN_NOT_SYNC'', Lit 0x0502),
      (''XL_ERR_TS_INVALID_CLUSTER_MASTER'', Lit 0x0503),
      (''XL_ERR_TS_CLOCK_NOT_FOUND'', Lit 0x0504),
      (''XL_ERR_TS_AGGREGATE_STATUS'', Lit 0x0505),
      (''XL_ERR_TS_RESET_CLOCK'', Lit 0x050c),
      (''XL_ERR_TS_SET_CLOCK_OFFSET'', Lit 0x050d),
      (''XL_ERR_TS_MIN_OFFSET_SET'', Lit 0x050f),
      (''XL_ERR_TS_SYNC_TO_LOCAL'', Lit 0x0510),
      (''XL_ERR_TS_SYNC_OFF'', Lit 0x0511),
      (''XL_ERR_TS_CLOCK_NOT_SYNC'', Lit 0x0512),
      (''XL_ERR_ETH_PHY_ACTIVATION_FAILED'', Lit 0x1100),
      (''XL_ERR_ETH_PHY_CONFIG_ABORTED'', Lit 0x1103),
      (''XL_ERR_ETH_RESET_FAILED'', Lit 0x1104),
      (''XL_ERR_ETH_SET_CONFIG_DELAYED'', Lit 0x1105),
      (''XL_ERR_ETH_UNSUPPORTED_FEATURE'', Lit 0x1106),
      (''XL_ERR_ETH_MAC_ACTIVATION_FAILED'', Lit 0x1107),
      (''XL_ERR_NET_ETH_SWITCH_IS_ONLINE'', Lit 0x110c),
      (''XL_ERR_ETH_PLCA_CAPTURE_ONLY_MODE_ACTIVE'', Lit 0x110e)]"

definition e_XLevent_type_values :: enumerators where
  "e_XLevent_type_values =
     [(''XL_NO_COMMAND'', Some (Lit 0)), (''XL_RECEIVE_MSG'', Some (Lit 1)), (''XL_CHIP_STATE'',
     Some (Lit 4)), (''XL_TRANSCEIVER'', Some (Lit 6)), (''XL_TIMER'', Some (Lit 8)),
     (''XL_TRANSMIT_MSG'', Some (Lit 10)), (''XL_SYNC_PULSE'', Some (Lit 11)),
     (''XL_APPLICATION_NOTIFICATION'', Some (Lit 15)), (''XL_LIN_MSG'', Some (Lit 20)),
     (''XL_LIN_ERRMSG'', Some (Lit 21)), (''XL_LIN_SYNCERR'', Some (Lit 22)), (''XL_LIN_NOANS'',
     Some (Lit 23)), (''XL_LIN_WAKEUP'', Some (Lit 24)), (''XL_LIN_SLEEP'', Some (Lit 25)),
     (''XL_LIN_CRCINFO'', Some (Lit 26)), (''XL_RECEIVE_DAIO_DATA'', Some (Lit 32)),
     (''XL_RECEIVE_DAIO_PIGGY'', Some (Lit 34)), (''XL_KLINE_MSG'', Some (Lit 36))]"

definition XL_event_tags :: macro_table where
  "XL_event_tags =
     [(''XL_RECEIVE_MSG'', Cast False 2 (Lit 0x0001)),
      (''XL_CHIP_STATE'', Cast False 2 (Lit 0x0004)),
      (''XL_TRANSCEIVER_INFO'', Cast False 2 (Lit 0x0006)),
      (''XL_TRANSCEIVER'', Sym ''XL_TRANSCEIVER_INFO''),
      (''XL_TIMER_EVENT'', Cast False 2 (Lit 0x0008)),
      (''XL_TIMER'', Sym ''XL_TIMER_EVENT''),
      (''XL_TRANSMIT_MSG'', Cast False 2 (Lit 0x000a)),
      (''XL_SYNC_PULSE'', Cast False 2 (Lit 0x000b)),
      (''XL_APPLICATION_NOTIFICATION'', Cast False 2 (Lit 0x000f)),
      (''LIN_MSG'', Cast False 2 (Lit 0x0014)),
      (''LIN_ERRMSG'', Cast False 2 (Lit 0x0015)),
      (''LIN_SYNCERR'', Cast False 2 (Lit 0x0016)),
      (''LIN_NOANS'', Cast False 2 (Lit 0x0017)),
      (''LIN_WAKEUP'', Cast False 2 (Lit 0x0018)),
      (''LIN_SLEEP'', Cast False 2 (Lit 0x0019)),
      (''LIN_CRCINFO'', Cast False 2 (Lit 0x001a)),
      (''RECEIVE_DAIO_DATA'', Cast False 2 (Lit 0x0020)),
      (''KLINE_MSG'', Cast False 2 (Lit 0x0024)),
      (''XL_FR_START_CYCLE'', Cast False 2 (Lit 0x0080)),
      (''XL_FR_RX_FRAME'', Cast False 2 (Lit 0x0081)),
      (''XL_FR_TX_FRAME'', Cast False 2 (Lit 0x0082)),
      (''XL_FR_TXACK_FRAME'', Cast False 2 (Lit 0x0083)),
      (''XL_FR_INVALID_FRAME'', Cast False 2 (Lit 0x0084)),
      (''XL_FR_WAKEUP'', Cast False 2 (Lit 0x0085)),
      (''XL_FR_SYMBOL_WINDOW'', Cast False 2 (Lit 0x0086)),
      (''XL_FR_ERROR'', Cast False 2 (Lit 0x0087)),
      (''XL_FR_ERROR_POC_MODE'', Cast False 1 (Lit 0x01)),
      (''XL_FR_ERROR_SYNC_FRAMES_BELOWMIN'', Cast False 1 (Lit 0x02)),
      (''XL_FR_ERROR_SYNC_FRAMES_OVERLOAD'', Cast False 1 (Lit 0x03)),
      (''XL_FR_ERROR_CLOCK_CORR_FAILURE'', Cast False 1 (Lit 0x04)),
      (''XL_FR_ERROR_NIT_FAILURE'', Cast False 1 (Lit 0x05)),
      (''XL_FR_ERROR_CC_ERROR'', Cast False 1 (Lit 0x06)),
      (''XL_FR_STATUS'', Cast False 2 (Lit 0x0088)),
      (''XL_FR_NM_VECTOR'', Cast False 2 (Lit 0x008a)),
      (''XL_FR_TRANCEIVER_STATUS'', Cast False 2 (Lit 0x008b)),
      (''XL_FR_SPY_FRAME'', Cast False 2 (Lit 0x008e)),
      (''XL_FR_SPY_SYMBOL'', Cast False 2 (Lit 0x008f)),
      (''XL_CAN_EV_TAG_RX_OK'', Cast False 2 (Lit 0x0400)),
      (''XL_CAN_EV_TAG_RX_ERROR'', Cast False 2 (Lit 0x0401)),
      (''XL_CAN_EV_TAG_TX_ERROR'', Cast False 2 (Lit 0x0402)),
      (''XL_CAN_EV_TAG_TX_REQUEST'', Cast False 2 (Lit 0x0403)),
      (''XL_CAN_EV_TAG_TX_OK'', Cast False 2 (Lit 0x0404)),
      (''XL_CAN_EV_TAG_CHIP_STATE'', Cast False 2 (Lit 0x0409)),
      (''XL_CAN_EV_TAG_TX_MSG'', Cast False 2 (Lit 0x0440)),
      (''XL_ETH_EVENT_TAG_FRAMERX'', Cast False 2 (Lit 0x0500)),
      (''XL_ETH_EVENT_TAG_FRAMERX_ERROR'', Cast False 2 (Lit 0x0501)),
      (''XL_ETH_EVENT_TAG_FRAMETX_ERROR'', Cast False 2 (Lit 0x0506)),
      (''XL_ETH_EVENT_TAG_FRAMETX_ERROR_SWITCH'', Cast False 2 (Lit 0x0507)),
      (''XL_ETH_EVENT_TAG_FRAMETX_ACK'', Cast False 2 (Lit 0x0510)),
      (''XL_ETH_EVENT_TAG_FRAMETX_ACK_SWITCH'', Cast False 2 (Lit 0x0511)),
      (''XL_ETH_EVENT_TAG_FRAMETX_ACK_OTHER_APP'', Cast False 2 (Lit 0x0513)),
      (''XL_ETH_EVENT_TAG_FRAMETX_ERROR_OTHER_APP'', Cast False 2 (Lit 0x0514)),
      (''XL_ETH_EVENT_TAG_CHANNEL_STATUS'', Cast False 2 (Lit 0x0520)),
      (''XL_ETH_EVENT_TAG_CONFIGRESULT'', Cast False 2 (Lit 0x0530)),
      (''XL_ETH_EVENT_TAG_FRAMERX_SIMULATION'', Cast False 2 (Lit 0x0550)),
      (''XL_ETH_EVENT_TAG_FRAMERX_ERROR_SIMULATION'', Cast False 2 (Lit 0x0551)),
      (''XL_ETH_EVENT_TAG_FRAMETX_ACK_SIMULATION'', Cast False 2 (Lit 0x0552)),
      (''XL_ETH_EVENT_TAG_FRAMETX_ERROR_SIMULATION'', Cast False 2 (Lit 0x0553)),
      (''XL_ETH_EVENT_TAG_FRAMERX_MEASUREMENT'', Cast False 2 (Lit 0x0560)),
      (''XL_ETH_EVENT_TAG_FRAMERX_ERROR_MEASUREMENT'', Cast False 2 (Lit 0x0561)),
      (''XL_ETH_EVENT_TAG_FRAMETX_MEASUREMENT'', Cast False 2 (Lit 0x0562)),
      (''XL_ETH_EVENT_TAG_FRAMETX_ERROR_MEASUREMENT'', Cast False 2 (Lit 0x0563)),
      (''XL_ETH_EVENT_TAG_LOSTEVENT'', Cast False 2 (Lit 0x05fe)),
      (''XL_ETH_EVENT_TAG_ERROR'', Cast False 2 (Lit 0x05ff)),
      (''XL_A429_EV_TAG_TX_OK'', Cast False 2 (Lit 0x0600)),
      (''XL_A429_EV_TAG_TX_ERR'', Cast False 2 (Lit 0x0601)),
      (''XL_A429_EV_TAG_RX_OK'', Cast False 2 (Lit 0x0608)),
      (''XL_A429_EV_TAG_RX_ERR'', Cast False 2 (Lit 0x0609)),
      (''XL_A429_EV_TAG_BUS_STATISTIC'', Cast False 2 (Lit 0x060f))]"

definition XLuint64 :: ctype where [hdr_types]: "XLuint64 = CInt False 8"

definition XLint64 :: ctype where [hdr_types]: "XLint64 = CInt True 8"

definition XLlong :: ctype where [hdr_types]: "XLlong = CInt True 4"

definition XLulong :: ctype where [hdr_types]: "XLulong = CInt False 4"

definition XL_default_timedomain :: text_table where
  "XL_default_timedomain =
     [(''XL_TS_DEFAULT_TIMEDOMAIN_NAME'', ''xlDefaultTimeDomain'')]"

definition XL_timedomain_flags :: macro_table where
  "XL_timedomain_flags =
     [(''XL_TS_LEAP_SECONDS_FLAGS_VALID'', Lit 0x01),
      (''XL_TS_DOMAIN_STAT_APP_IN_SYNC'', Lit 0x01),
      (''XL_TS_DOMAIN_STAT_DOMAIN_IN_SYNC'', Lit 0x04)]"

definition T_XL_TIMESYNC_CLK_UUID_FORMAT_values :: enumerators where
  "T_XL_TIMESYNC_CLK_UUID_FORMAT_values =
     [(''XL_TS_CLK_UUID_FORMAT_UNDEFINED'', None), (''XL_TS_CLK_UUID_FORMAT_VECTOR_DEV'', None),
     (''XL_TS_CLK_UUID_FORMAT_EUI64'', None), (''XL_TS_CLK_UUID_FORMAT_LOCAL_PC'', None),
     (''XL_TS_CLK_UUID_FORMAT_VECTOR_PC'', None), (''XL_TS_CLK_UUID_FORMAT_STANDARD_PC'', None),
     (''XL_TS_CLK_UUID_FORMAT_PERFORMANCE_CNT'', None), (''XL_TS_CLK_UUID_FORMAT_EXTERNAL'',
     None), (''XL_TS_CLK_UUID_FORMAT_GPTP'', None)]"

definition XLtsClkUuidFormat :: ctype where [hdr_types]: "XLtsClkUuidFormat = CInt True 4"

definition XLtsTimeScale_values :: enumerators where
  "XLtsTimeScale_values =
     [(''XL_TS_TIMESCALE_UNDEFINED'', None), (''XL_TS_TIMESCALE_UTC'', None),
     (''XL_TS_TIMESCALE_TAI'', None), (''XL_TS_TIMESCALE_PERFORMANCE_COUNTER'', None),
     (''XL_TS_TIMESCALE_ARBITRARY'', None), (''XL_TS_TIMESCALE_RTC'', None)]"

definition XLtsClkExternalType_values :: enumerators where
  "XLtsClkExternalType_values =
     [(''XL_TS_CLK_EXTTYPE_NONE'', Some (Lit 0)), (''XL_TS_CLK_EXTTYPE_DOMAIN'', Some (Lit 4))]"

definition XLtsLeapSeconds :: ctype where [hdr_types]:
  "XLtsLeapSeconds =
     CStruct 4 [(''leapSecondsFlags'', CInt False 4), (''leapSecondsValue'', CInt True 4)]"

definition XLtsClkUuid :: ctype where [hdr_types]:
  "XLtsClkUuid =
     CStruct 4 [(''uuidFormat'', XLtsClkUuidFormat), (''uuid'', CUnion 4 [(''vectorDevUuid'',
     CStruct 4 [(''articleNumber'', CInt False 4), (''serialNumber'', CInt False 4), (''clkId'',
     CInt False 4)]), (''eui64Uuid'', CStruct 4 [(''oui'', CArr (CInt False 1) 3),
     (''extensionId'', CArr (CInt False 1) 5)]), (''raw'', CArr (CInt False 4) 6)]),
     (''reserved'', CArr (CInt False 4) 4)]"

definition XLtsDomainTime :: ctype where [hdr_types]:
  "XLtsDomainTime =
     CStruct 4 [(''domainTime'', XLuint64), (''timeScale'', CInt True 4), (''leapSeconds'',
     XLtsLeapSeconds), (''clusterMaster'', XLtsClkUuid), (''syncStatus'', CInt False 4)]"

definition XLtsClockHandle :: ctype where [hdr_types]: "XLtsClockHandle = CInt True 4"

definition XLtsInterfaceVersion_values :: enumerators where
  "XLtsInterfaceVersion_values =
     [(''XL_TS_INTERFACE_VERSION_INVL'', Some (Lit 0)), (''XL_TS_INTERFACE_VERSION_1'', Some (Lit
     1))]"

definition XL_notify_reasons :: macro_table where
  "XL_notify_reasons =
     [(''XL_NOTIFY_REASON_CHANNEL_ACTIVATION'', Lit 1),
      (''XL_NOTIFY_REASON_CHANNEL_DEACTIVATION'', Lit 2),
      (''XL_NOTIFY_REASON_PORT_CLOSED'', Lit 3)]"

definition XL_APPLICATION_NOTIFICATION_EV :: ctype where [hdr_types]:
  "XL_APPLICATION_NOTIFICATION_EV =
     CStruct 8 [(''notifyReason'', CInt False 4), (''reserved'', CArr (CInt False 4) 7)]"

definition XL_sync_pulse_sources :: macro_table where
  "XL_sync_pulse_sources =
     [(''XL_SYNC_PULSE_EXTERNAL'', Lit 0x00),
      (''XL_SYNC_PULSE_OUR'', Lit 0x01),
      (''XL_SYNC_PULSE_OUR_SHARED'', Lit 0x02)]"

definition XL_SYNC_PULSE_EV :: ctype where [hdr_types]:
  "XL_SYNC_PULSE_EV =
     CStruct 8 [(''triggerSource'', CInt False 4), (''reserved'', CInt False 4), (''time'',
     XLuint64)]"

definition s_xl_sync_pulse :: ctype where [hdr_types]:
  "s_xl_sync_pulse =
     CStruct 1 [(''pulseCode'', CInt False 1), (''time'', XLuint64)]"

definition XL_hardware_types :: macro_table where
  "XL_hardware_types =
     [(''XL_HWTYPE_NONE'', Lit 0),
      (''XL_HWTYPE_VIRTUAL'', Lit 1),
      (''XL_HWTYPE_CANCARDX'', Lit 2),
      (''XL_HWTYPE_CANAC2PCI'', Lit 6),
      (''XL_HWTYPE_CANCARDY'', Lit 12),
      (''XL_HWTYPE_CANCARDXL'', Lit 15),
      (''XL_HWTYPE_CANCASEXL'', Lit 21),
      (''XL_HWTYPE_CANCASEXL_LOG_OBSOLETE'', Lit 23),
      (''XL_HWTYPE_CANBOARDXL'', Lit 25),
      (''XL_HWTYPE_CANBOARDXL_PXI'', Lit 27),
      (''XL_HWTYPE_VN2600'', Lit 29),
      (''XL_HWTYPE_VN2610'', Sym ''XL_HWTYPE_VN2600''),
      (''XL_HWTYPE_VN1150'', Lit 31),
      (''XL_HWTYPE_VN3300'', Lit 37),
      (''XL_HWTYPE_VN3600'', Lit 39),
      (''XL_HWTYPE_VN7600'', Lit 41),
      (''XL_HWTYPE_CANCARDXLE'', Lit 43),
      (''XL_HWTYPE_VN8900'', Lit 45),
      (''XL_HWTYPE_VN8950'', Lit 47),
      (''XL_HWTYPE_VN2640'', Lit 53),
      (''XL_HWTYPE_VN1610'', Lit 55),
      (''XL_HWTYPE_VN1614'', Lit 56),
      (''XL_HWTYPE_VN1630'', Lit 57),
      (''XL_HWTYPE_VN1615'', Lit 58),
      (''XL_HWTYPE_VN1640'', Lit 59),
      (''XL_HWTYPE_VN8970'', Lit 61),
      (''XL_HWTYPE_VN1611'', Lit 63),
      (''XL_HWTYPE_VN5240'', Lit 64),
      (''XL_HWTYPE_VN5610'', Lit 65),
      (''XL_HWTYPE_VN5620'', Lit 66),
      (''XL_HWTYPE_VN7570'', Lit 67),
      (''XL_HWTYPE_VN5650'', Lit 68),
      (''XL_HWTYPE_IPCLIENT'', Lit 69),
      (''XL_HWTYPE_VN5611'', Lit 70),
      (''XL_HWTYPE_IPSERVER'', Lit 71),
      (''XL_HWTYPE_VN5612'', Lit 72),
      (''XL_HWTYPE_VX1121'', Lit 73),
      (''XL_HWTYPE_VX1131'', Lit 75),
      (''XL_HWTYPE_VT6204'', Lit 77),
      (''XL_HWTYPE_VN5614'', Lit 78),
      (''XL_HWTYPE_VN1630_LOG'', Lit 79),
      (''XL_HWTYPE_VN7610'', Lit 81),
      (''XL_HWTYPE_VN7572'', Lit 83),
      (''XL_HWTYPE_VN8972'', Lit 85),
      (''XL_HWTYPE_VN1641'', Lit 86),
      (''XL_HWTYPE_VN0601'', Lit 87),
      (''XL_HWTYPE_VT6104B'', Lit 88),
      (''XL_HWTYPE_VN5640'', Lit 89),
      (''XL_HWTYPE_VT6204B'', Lit 90),
      (''XL_HWTYPE_VX0312'', Lit 91),
      (''XL_HWTYPE_VH6501'', Lit 94),
      (''XL_HWTYPE_VN8800'', Lit 95),
      (''XL_HWTYPE_IPCL8800'', Lit 96),
      (''XL_HWTYPE_IPSRV8800'', Lit 97),
      (''XL_HWTYPE_CSMCAN'', Lit 98),
      (''XL_HWTYPE_VN5610A'', Lit 101),
      (''XL_HWTYPE_VN7640'', Lit 102),
      (''XL_HWTYPE_VX1135'', Lit 104),
      (''XL_HWTYPE_VN4610'', Lit 105),
      (''XL_HWTYPE_VT6306'', Lit 107),
      (''XL_HWTYPE_VT6104A'', Lit 108),
      (''XL_HWTYPE_VN5430'', Lit 109),
      (''XL_HWTYPE_VTSSERVICE'', Lit 110),
      (''XL_HWTYPE_VN1530'', Lit 112),
      (''XL_HWTYPE_VN1531'', Lit 113),
      (''XL_HWTYPE_VX1161A'', Lit 114),
      (''XL_HWTYPE_VX1161B'', Lit 115),
      (''XL_HWTYPE_VN1670'', Lit 120),
      (''XL_HWTYPE_VN5620A'', Lit 121),
      (''XL_HWTYPE_VN5631'', Lit 122),
      (''XL_HWTYPE_VN5632'', Lit 123),
      (''XL_MAX_HWTYPE'', Lit 123),
      (''XL_DAIO_IGNORE_CHANNEL'', Cast False 4 (Neg (Lit 1)))]"

definition XLstringType :: ctype where [hdr_types]: "XLstringType = CPtr ''char''"

definition XLaccess :: ctype where [hdr_types]: "XLaccess = XLuint64"

definition XLindex :: ctype where [hdr_types]: "XLindex = XLuint64"

definition XL_invalid_indices :: macro_table where
  "XL_invalid_indices =
     [(''XL_USE_ALL_CHANNELS'', Cast False 8 (Lit 0xffffffffffffffff)),
      (''XL_INVALID_CHANNEL_INDEX'', Cast False 4 (Lit 0xffffffff)),
      (''XL_INVALID_DEVICE_INDEX'', Cast False 4 (Lit 0xffffffff))]"

definition XLhandle :: ctype where [hdr_types]: "XLhandle = CPtr ''void''"

definition XL_lin_constants :: macro_table where
  "XL_lin_constants =
     [(''XL_LIN_MASTER'', Cast False 4 (Lit 1)),
      (''XL_LIN_SLAVE'', Cast False 4 (Lit 2)),
      (''XL_LIN_VERSION_1_3'', Cast False 4 (Lit 0x01)),
      (''XL_LIN_VERSION_2_0'', Cast False 4 (Lit 0x02)),
      (''XL_LIN_VERSION_2_1'', Cast False 4 (Lit 0x03)),
      (''XL_LIN_CALC_CHECKSUM'', Cast False 2 (Lit 0x100)),
      (''XL_LIN_CALC_CHECKSUM_ENHANCED'', Cast False 2 (Lit 0x200)),
      (''XL_LIN_FLAG_NO_SLEEP_MODE_EVENT'', Cast False 1 (Lit 0x01)),
      (''XL_LIN_FLAG_USE_ID_AS_WAKEUPID'', Cast False 1 (Lit 0x02)),
      (''XL_LIN_SET_SILENT'', Cast False 1 (Sym ''XL_LIN_FLAG_NO_SLEEP_MODE_EVENT'')),
      (''XL_LIN_SET_WAKEUPID'', Cast False 1 (BOr (Sym ''XL_LIN_FLAG_NO_SLEEP_MODE_EVENT'') (Sym ''XL_LIN_FLAG_USE_ID_AS_WAKEUPID''))),
      (''XL_LIN_CHECKSUM_CLASSIC'', Cast False 1 (Lit 0x00)),
      (''XL_LIN_CHECKSUM_ENHANCED'', Cast False 1 (Lit 0x01)),
      (''XL_LIN_CHECKSUM_UNDEFINED'', Cast False 1 (Lit 0xff)),
      (''XL_LIN_STAYALIVE'', Cast False 1 (Lit 0x00)),
      (''XL_LIN_SET_SLEEPMODE'', Cast False 1 (Lit 0x01)),
      (''XL_LIN_COMESFROM_SLEEPMODE'', Cast False 1 (Lit 0x02)),
      (''XL_LIN_WAKUP_INTERNAL'', Cast False 1 (Lit 0x01)),
      (''XL_LIN_UNDEFINED_DLC'', Cast False 1 (Lit 0xff)),
      (''XL_LIN_SLAVE_ON'', Cast False 1 (Lit 0xff)),
      (''XL_LIN_SLAVE_OFF'', Cast False 1 (Lit 0x00))]"

definition XLlinStatPar :: ctype where [hdr_types]:
  "XLlinStatPar =
     CStruct 1 [(''LINMode'', CInt False 4), (''baudrate'', CInt True 4), (''LINVersion'', CInt
     False 4), (''reserved'', CInt False 4)]"

definition XL_message_flags :: macro_table where
  "XL_message_flags =
     [(''MAX_MSG_LEN'', Lit 8),
      (''XL_INTERFACE_VERSION_V2'', Lit 2),
      (''XL_INTERFACE_VERSION_V3'', Lit 3),
      (''XL_INTERFACE_VERSION_V4'', Lit 4),
      (''XL_INTERFACE_VERSION'', Sym ''XL_INTERFACE_VERSION_V3''),
      (''XL_CAN_EXT_MSG_ID'', Lit 0x80000000),
      (''XL_CAN_MSG_FLAG_ERROR_FRAME'', Lit 0x01),
      (''XL_CAN_MSG_FLAG_OVERRUN'', Lit 0x02),
      (''XL_CAN_MSG_FLAG_NERR'', Lit 0x04),
      (''XL_CAN_MSG_FLAG_WAKEUP'', Lit 0x08),
      (''XL_CAN_MSG_FLAG_REMOTE_FRAME'', Lit 0x10),
      (''XL_CAN_MSG_FLAG_RESERVED_1'', Lit 0x20),
      (''XL_CAN_MSG_FLAG_TX_COMPLETED'', Lit 0x40),
      (''XL_CAN_MSG_FLAG_TX_REQUEST'', Lit 0x80),
      (''XL_CAN_MSG_FLAG_SRR_BIT_DOM'', Lit 0x0200),
      (''XL_EVENT_FLAG_OVERRUN'', Lit 0x01),
      (''XL_LIN_MSGFLAG_TX'', Sym ''XL_CAN_MSG_FLAG_TX_COMPLETED''),
      (''XL_LIN_MSGFLAG_CRCERROR'', Lit 0x81)]"

definition s_xl_can_msg :: ctype where [hdr_types]:
  "s_xl_can_msg =
     CStruct 1 [(''id'', CInt False 4), (''flags'', CInt False 2), (''dlc'', CInt False 2),
     (''res1'', XLuint64), (''data'', CArr (CInt False 1) 8), (''res2'', XLuint64)]"

definition XL_daio_get_modes :: macro_table where
  "XL_daio_get_modes =
     [(''XL_DAIO_DATA_GET'', Lit 0x8000),
      (''XL_DAIO_DATA_VALUE_DIGITAL'', Lit 0x0001),
      (''XL_DAIO_DATA_VALUE_ANALOG'', Lit 0x0002),
      (''XL_DAIO_DATA_PWM'', Lit 0x0010),
      (''XL_DAIO_MODE_PULSE'', Lit 0x0020)]"

definition s_xl_daio_data :: ctype where [hdr_types]:
  "s_xl_daio_data =
     CStruct 1 [(''flags'', CInt False 2), (''timestamp_correction'', CInt False 4),
     (''mask_digital'', CInt False 1), (''value_digital'', CInt False 1), (''mask_analog'', CInt
     False 1), (''reserved0'', CInt False 1), (''value_analog'', CArr (CInt False 2) 4),
     (''pwm_frequency'', CInt False 4), (''pwm_value'', CInt False 2), (''reserved1'', CInt False
     4), (''reserved2'', CInt False 4)]"

definition XL_IO_DIGITAL_DATA :: ctype where [hdr_types]:
  "XL_IO_DIGITAL_DATA =
     CStruct 1 [(''digitalInputData'', CInt False 4)]"

definition XL_IO_ANALOG_DATA :: ctype where [hdr_types]:
  "XL_IO_ANALOG_DATA =
     CStruct 1 [(''measuredAnalogData0'', CInt False 4), (''measuredAnalogData1'', CInt False 4),
     (''measuredAnalogData2'', CInt False 4), (''measuredAnalogData3'', CInt False 4)]"

definition s_xl_daio_piggy_data :: ctype where [hdr_types]:
  "s_xl_daio_piggy_data =
     CStruct 1 [(''daioEvtTag'', CInt False 4), (''triggerType'', CInt False 4), (''data'',
     CUnion 1 [(''digital'', XL_IO_DIGITAL_DATA), (''analog'', XL_IO_ANALOG_DATA)])]"

definition XL_chipstat :: macro_table where
  "XL_chipstat =
     [(''XL_CHIPSTAT_BUSOFF'', Lit 0x01),
      (''XL_CHIPSTAT_ERROR_PASSIVE'', Lit 0x02),
      (''XL_CHIPSTAT_ERROR_WARNING'', Lit 0x04),
      (''XL_CHIPSTAT_ERROR_ACTIVE'', Lit 0x08)]"

definition s_xl_chip_state :: ctype where [hdr_types]:
  "s_xl_chip_state =
     CStruct 1 [(''busStatus'', CInt False 1), (''txErrorCounter'', CInt False 1),
     (''rxErrorCounter'', CInt False 1)]"

definition XL_transceiver_reasons :: macro_table where
  "XL_transceiver_reasons =
     [(''XL_TRANSCEIVER_EVENT_NONE'', Lit 0),
      (''XL_TRANSCEIVER_EVENT_INSERTED'', Lit 1),
      (''XL_TRANSCEIVER_EVENT_REMOVED'', Lit 2),
      (''XL_TRANSCEIVER_EVENT_STATE_CHANGE'', Lit 3)]"

definition s_xl_transceiver :: ctype where [hdr_types]:
  "s_xl_transceiver =
     CStruct 1 [(''event_reason'', CInt False 1), (''is_present'', CInt False 1)]"

definition XL_output_modes :: macro_table where
  "XL_output_modes =
     [(''XL_OUTPUT_MODE_SILENT'', Lit 0),
      (''XL_OUTPUT_MODE_NORMAL'', Lit 1),
      (''XL_OUTPUT_MODE_TX_OFF'', Lit 2),
      (''XL_OUTPUT_MODE_SJA_1000_SILENT'', Lit 3),
      (''XL_TRANSCEIVER_EVENT_ERROR'', Lit 1),
      (''XL_TRANSCEIVER_EVENT_CHANGED'', Lit 2)]"

definition s_xl_lin_msg :: ctype where [hdr_types]:
  "s_xl_lin_msg =
     CStruct 1 [(''id'', CInt False 1), (''dlc'', CInt False 1), (''flags'', CInt False 2),
     (''data'', CArr (CInt False 1) 8), (''crc'', CInt False 1)]"

definition s_xl_lin_sleep :: ctype where [hdr_types]:
  "s_xl_lin_sleep =
     CStruct 1 [(''flag'', CInt False 1)]"

definition s_xl_lin_no_ans :: ctype where [hdr_types]:
  "s_xl_lin_no_ans =
     CStruct 1 [(''id'', CInt False 1)]"

definition s_xl_lin_wake_up :: ctype where [hdr_types]:
  "s_xl_lin_wake_up =
     CStruct 1 [(''flag'', CInt False 1), (''unused'', CArr (CInt False 1) 3), (''startOffs'',
     CInt False 4), (''width'', CInt False 4)]"

definition s_xl_lin_crc_info :: ctype where [hdr_types]:
  "s_xl_lin_crc_info =
     CStruct 1 [(''id'', CInt False 1), (''flags'', CInt False 1)]"

definition s_xl_lin_msg_api :: ctype where [hdr_types]:
  "s_xl_lin_msg_api =
     CUnion 1 [(''linMsg'', s_xl_lin_msg), (''linNoAns'', s_xl_lin_no_ans), (''linWakeUp'',
     s_xl_lin_wake_up), (''linSleep'', s_xl_lin_sleep), (''linCRCinfo'', s_xl_lin_crc_info)]"

definition XL_KLINE_RX_DATA :: ctype where [hdr_types]:
  "XL_KLINE_RX_DATA =
     CStruct 1 [(''timeDiff'', CInt False 4), (''data'', CInt False 4), (''error'', CInt False
     4)]"

definition XL_KLINE_TX_DATA :: ctype where [hdr_types]:
  "XL_KLINE_TX_DATA =
     CStruct 1 [(''timeDiff'', CInt False 4), (''data'', CInt False 4), (''error'', CInt False
     4)]"

definition XL_KLINE_TESTER_5BD :: ctype where [hdr_types]:
  "XL_KLINE_TESTER_5BD =
     CStruct 1 [(''tag5bd'', CInt False 4), (''timeDiff'', CInt False 4), (''data'', CInt False
     4)]"

definition XL_KLINE_ECU_5BD :: ctype where [hdr_types]:
  "XL_KLINE_ECU_5BD =
     CStruct 1 [(''tag5bd'', CInt False 4), (''timeDiff'', CInt False 4), (''data'', CInt False
     4)]"

definition XL_KLINE_TESTER_FI_WU_PATTERN :: ctype where [hdr_types]:
  "XL_KLINE_TESTER_FI_WU_PATTERN =
     CStruct 1 [(''timeDiff'', CInt False 4), (''fastInitEdgeTimeDiff'', CInt False 4)]"

definition XL_KLINE_ECU_FI_WU_PATTERN :: ctype where [hdr_types]:
  "XL_KLINE_ECU_FI_WU_PATTERN =
     CStruct 1 [(''timeDiff'', CInt False 4), (''fastInitEdgeTimeDiff'', CInt False 4)]"

definition XL_KLINE_CONFIRMATION :: ctype where [hdr_types]:
  "XL_KLINE_CONFIRMATION =
     CStruct 1 [(''channel'', CInt False 4), (''confTag'', CInt False 4), (''result'', CInt False
     4)]"

definition XL_KLINE_ERROR_RXTX :: ctype where [hdr_types]:
  "XL_KLINE_ERROR_RXTX =
     CStruct 1 [(''rxtxErrData'', CInt False 4)]"

definition XL_KLINE_ERROR_TESTER_5BD :: ctype where [hdr_types]:
  "XL_KLINE_ERROR_TESTER_5BD =
     CStruct 1 [(''tester5BdErr'', CInt False 4)]"

definition XL_KLINE_ERROR_ECU_5BD :: ctype where [hdr_types]:
  "XL_KLINE_ERROR_ECU_5BD =
     CStruct 1 [(''ecu5BdErr'', CInt False 4)]"

definition XL_KLINE_ERROR_IBS :: ctype where [hdr_types]:
  "XL_KLINE_ERROR_IBS =
     CStruct 1 [(''ibsErr'', CInt False 4), (''rxtxErrData'', CInt False 4)]"

definition XL_KLINE_ERROR :: ctype where [hdr_types]:
  "XL_KLINE_ERROR =
     CStruct 1 [(''klineErrorTag'', CInt False 4), (''reserved'', CInt False 4), (''data'',
     CUnion 1 [(''rxtxErr'', XL_KLINE_ERROR_RXTX), (''tester5BdErr'', XL_KLINE_ERROR_TESTER_5BD),
     (''ecu5BdErr'', XL_KLINE_ERROR_ECU_5BD), (''ibsErr'', XL_KLINE_ERROR_IBS), (''reserved'',
     CArr (CInt False 4) 4)])]"

definition XL_KLINE_DATA :: ctype where [hdr_types]:
  "XL_KLINE_DATA =
     CStruct 1 [(''klineEvtTag'', CInt False 4), (''reserved'', CInt False 4), (''data'', CUnion
     1 [(''klineRx'', XL_KLINE_RX_DATA), (''klineTx'', XL_KLINE_TX_DATA), (''klineTester5Bd'',
     XL_KLINE_TESTER_5BD), (''klineEcu5Bd'', XL_KLINE_ECU_5BD), (''klineTesterFiWu'',
     XL_KLINE_TESTER_FI_WU_PATTERN), (''klineEcuFiWu'', XL_KLINE_ECU_FI_WU_PATTERN),
     (''klineConfirmation'', XL_KLINE_CONFIRMATION), (''klineError'', XL_KLINE_ERROR)])]"

definition s_xl_tag_data :: ctype where [hdr_types]:
  "s_xl_tag_data =
     CUnion 1 [(''msg'', s_xl_can_msg), (''chipState'', s_xl_chip_state), (''linMsgApi'',
     s_xl_lin_msg_api), (''syncPulse'', s_xl_sync_pulse), (''daioData'', s_xl_daio_data),
     (''transceiver'', s_xl_transceiver), (''daioPiggyData'', s_xl_daio_piggy_data),
     (''klineData'', XL_KLINE_DATA)]"

definition XLeventTag :: ctype where [hdr_types]: "XLeventTag = CInt False 1"

definition s_xl_event :: ctype where [hdr_types]:
  "s_xl_event =
     CStruct 1 [(''tag'', XLeventTag), (''chanIndex'', CInt False 1), (''transId'', CInt False
     2), (''portHandle'', CInt False 2), (''flags'', CInt False 1), (''reserved'', CInt False 1),
     (''timeStamp'', XLuint64), (''tagData'', s_xl_tag_data)]"

definition XLevent :: ctype where [hdr_types]: "XLevent = s_xl_event"

definition XL_notify_message :: text_table where
  "XL_notify_message =
     [(''DriverNotifyMessageName'', ''VectorCanDriverChangeNotifyMessage'')]"

definition XL_app_name_limit :: macro_table where
  "XL_app_name_limit =
     [(''XL_MAX_APPNAME'', Lit 32)]"

definition XLstatus :: ctype where [hdr_types]: "XLstatus = CInt True 2"

definition XL_bus_capabilities :: macro_table where
  "XL_bus_capabilities =
     [(''XL_MAX_LENGTH'', Lit 31),
      (''XL_CONFIG_MAX_CHANNELS'', Lit 64),
      (''XL_MAX_NAME_LENGTH'', Lit 48),
      (''XL_APPLCONFIG_MAX_CHANNELS'', Lit 256),
      (''XL_ACTIVATE_NONE'', Lit 0),
      (''XL_ACTIVATE_RESET_CLOCK'', Lit 8),
      (''XL_BUS_COMPATIBLE_CAN'', Sym ''XL_BUS_TYPE_CAN''),
      (''XL_BUS_COMPATIBLE_LIN'', Sym ''XL_BUS_TYPE_LIN''),
      (''XL_BUS_COMPATIBLE_FLEXRAY'', Sym ''XL_BUS_TYPE_FLEXRAY''),
      (''XL_BUS_COMPATIBLE_MOST'', Sym ''XL_BUS_TYPE_MOST''),
      (''XL_BUS_COMPATIBLE_DAIO'', Sym ''XL_BUS_TYPE_DAIO''),
      (''XL_BUS_COMPATIBLE_J1708'', Sym ''XL_BUS_TYPE_J1708''),
      (''XL_BUS_COMPATIBLE_KLINE'', Sym ''XL_BUS_TYPE_KLINE''),
      (''XL_BUS_COMPATIBLE_ETHERNET'', Sym ''XL_BUS_TYPE_ETHERNET''),
      (''XL_BUS_COMPATIBLE_A429'', Sym ''XL_BUS_TYPE_A429''),
      (''XL_BUS_ACTIVE_CAP_CAN'', Shl (Sym ''XL_BUS_COMPATIBLE_CAN'') (Lit 16)),
      (''XL_BUS_ACTIVE_CAP_LIN'', Shl (Sym ''XL_BUS_COMPATIBLE_LIN'') (Lit 16)),
      (''XL_BUS_ACTIVE_CAP_FLEXRAY'', Shl (Sym ''XL_BUS_COMPATIBLE_FLEXRAY'') (Lit 16)),
      (''XL_BUS_ACTIVE_CAP_MOST'', Shl (Sym ''XL_BUS_COMPATIBLE_MOST'') (Lit 16)),
      (''XL_BUS_ACTIVE_CAP_DAIO'', Shl (Sym ''XL_BUS_COMPATIBLE_DAIO'') (Lit 16)),
      (''XL_BUS_ACTIVE_CAP_J1708'', Shl (Sym ''XL_BUS_COMPATIBLE_J1708'') (Lit 16)),
      (''XL_BUS_ACTIVE_CAP_KLINE'', Shl (Sym ''XL_BUS_COMPATIBLE_KLINE'') (Lit 16)),
      (''XL_BUS_ACTIVE_CAP_ETHERNET'', Shl (Sym ''XL_BUS_COMPATIBLE_ETHERNET'') (Lit 16)),
      (''XL_BUS_ACTIVE_CAP_A429'', Shl (Sym ''XL_BUS_COMPATIBLE_A429'') (Lit 16))]"

definition XL_bus_names :: text_table where
  "XL_bus_names =
     [(''XL_BUS_NAME_NONE'', ''''),
      (''XL_BUS_NAME_CAN'', ''CAN''),
      (''XL_BUS_NAME_LIN'', ''LIN''),
      (''XL_BUS_NAME_FLEXRAY'', ''FlexRay''),
      (''XL_BUS_NAME_STREAM'', ''Stream''),
      (''XL_BUS_NAME_MOST'', ''MOST''),
      (''XL_BUS_NAME_DAIO'', ''DAIO''),
      (''XL_BUS_NAME_HWSYNC_KEYPAD'', ''HWSYNC_KEYPAD''),
      (''XL_BUS_NAME_J1708'', ''J1708''),
      (''XL_BUS_NAME_KLINE'', ''K-Line''),
      (''XL_BUS_NAME_ETHERNET'', ''Ethernet''),
      (''XL_BUS_NAME_AFDX'', ''AFDX''),
      (''XL_BUS_NAME_A429'', ''ARINC429'')]"

definition XL_canfd_options :: macro_table where
  "XL_canfd_options =
     [(''XL_CAN_STD'', Lit 1),
      (''XL_CAN_EXT'', Lit 2),
      (''CANFD_CONFOPT_NO_ISO'', Lit 0x08)]"

definition XLcanFdConf :: ctype where [hdr_types]:
  "XLcanFdConf =
     CStruct 1 [(''arbitrationBitRate'', CInt False 4), (''sjwAbr'', CInt False 4),
     (''tseg1Abr'', CInt False 4), (''tseg2Abr'', CInt False 4), (''dataBitRate'', CInt False 4),
     (''sjwDbr'', CInt False 4), (''tseg1Dbr'', CInt False 4), (''tseg2Dbr'', CInt False 4),
     (''reserved'', CInt False 1), (''options'', CInt False 1), (''reserved1'', CArr (CInt False
     1) 2), (''reserved2'', CInt False 4)]"

definition XLchipParams :: ctype where [hdr_types]:
  "XLchipParams =
     CStruct 1 [(''bitRate'', CInt False 4), (''sjw'', CInt False 1), (''tseg1'', CInt False 1),
     (''tseg2'', CInt False 1), (''sam'', CInt False 1)]"

definition XL_can_op_modes :: macro_table where
  "XL_can_op_modes =
     [(''XL_BUS_PARAMS_CANOPMODE_CAN20'', Lit 0x01),
      (''XL_BUS_PARAMS_CANOPMODE_CANFD'', Lit 0x02),
      (''XL_BUS_PARAMS_CANOPMODE_CANFD_NO_ISO'', Lit 0x08)]"

definition XLbusParams :: ctype where [hdr_types]:
  "XLbusParams =
     CStruct 1 [(''busType'', CInt False 4), (''data'', CUnion 1 [(''can'', CStruct 1
     [(''bitRate'', CInt False 4), (''sjw'', CInt False 1), (''tseg1'', CInt False 1),
     (''tseg2'', CInt False 1), (''sam'', CInt False 1), (''outputMode'', CInt False 1),
     (''reserved1'', CArr (CInt False 1) 7), (''canOpMode'', CInt False 1)]), (''canFD'', CStruct
     1 [(''arbitrationBitRate'', CInt False 4), (''sjwAbr'', CInt False 1), (''tseg1Abr'', CInt
     False 1), (''tseg2Abr'', CInt False 1), (''samAbr'', CInt False 1), (''outputMode'', CInt
     False 1), (''sjwDbr'', CInt False 1), (''tseg1Dbr'', CInt False 1), (''tseg2Dbr'', CInt
     False 1), (''dataBitRate'', CInt False 4), (''canOpMode'', CInt False 1)]), (''flexray'',
     CStruct 1 [(''status'', CInt False 4), (''cfgMode'', CInt False 4), (''baudrate'', CInt
     False 4)]), (''ethernet'', CStruct 1 [(''macAddr'', CArr (CInt False 1) 6), (''connector'',
     CInt False 1), (''phy'', CInt False 1), (''link'', CInt False 1), (''speed'', CInt False 1),
     (''clockMode'', CInt False 1), (''bypass'', CInt False 1)]), (''a429'', CStruct 1
     [(''channelDirection'', CInt False 2), (''res1'', CInt False 2), (''dir'', CUnion 1
     [(''tx'', CStruct 1 [(''bitrate'', CInt False 4), (''parity'', CInt False 4), (''minGap'',
     CInt False 4)]), (''rx'', CStruct 1 [(''bitrate'', CInt False 4), (''minBitrate'', CInt
     False 4), (''maxBitrate'', CInt False 4), (''parity'', CInt False 4), (''minGap'', CInt
     False 4), (''autoBaudrate'', CInt False 4)]), (''raw'', CArr (CInt False 1) 24)])]),
     (''raw'', CArr (CInt False 1) 28)])]"

definition XL_invalid_port :: macro_table where
  "XL_invalid_port =
     [(''XL_INVALID_PORTHANDLE'', Neg (Lit 1))]"

definition XLportHandle :: ctype where [hdr_types]: "XLportHandle = XLlong"

definition pXLportHandle :: ctype where [hdr_types]: "pXLportHandle = CPtr ''XLlong''"

definition XL_connection_info :: macro_table where
  "XL_connection_info =
     [(''XL_CONNECTION_INFO_FAMILY_MASK'', Cast False 4 (Lit 0xff000000)),
      (''XL_CONNECTION_INFO_DETAIL_MASK'', Cast False 4 (Lit 0x00ffffff)),
      (''XL_CONNECTION_INFO_FAMILY_USB'', Shl (Lit 0) (Lit 24)),
      (''XL_CONNECTION_INFO_FAMILY_NETWORK'', Shl (Lit 1) (Lit 24)),
      (''XL_CONNECTION_INFO_FAMILY_PCIE'', Shl (Lit 2) (Lit 24)),
      (''XL_CONNECTION_INFO_USB_UNKNOWN'', Lit 0),
      (''XL_CONNECTION_INFO_USB_FULLSPEED'', Lit 1),
      (''XL_CONNECTION_INFO_USB_HIGHSPEED'', Lit 2),
      (''XL_CONNECTION_INFO_USB_SUPERSPEED'', Lit 3),
      (''XL_FPGA_CORE_TYPE_NONE'', Lit 0),
      (''XL_FPGA_CORE_TYPE_CAN'', Lit 1),
      (''XL_FPGA_CORE_TYPE_LIN'', Lit 2),
      (''XL_FPGA_CORE_TYPE_LIN_RX'', Lit 3),
      (''XL_SPECIAL_DEVICE_STAT_FPGA_UPDATE_DONE'', Lit 0x01)]"

definition XL_LICENSE_INFO :: ctype where [hdr_types]:
  "XL_LICENSE_INFO =
     CStruct 1 [(''bAvailable'', CInt False 1), (''licName'', CArr (CInt True 1) 65)]"

definition XL_license_name_length :: macro_table where
  "XL_license_name_length =
     [(''XL_LICENSE_INFO_NAME_LENGTH'', Lit 65)]"

definition XLlicenseInfo :: ctype where [hdr_types]: "XLlicenseInfo = XL_LICENSE_INFO"

definition XL_CHANNEL_CONFIG :: ctype where [hdr_types]:
  "XL_CHANNEL_CONFIG =
     CStruct 1 [(''name'', CArr (CInt True 1) 32), (''hwType'', CInt False 1), (''hwIndex'', CInt
     False 1), (''hwChannel'', CInt False 1), (''transceiverType'', CInt False 2),
     (''transceiverState'', CInt False 2), (''configError'', CInt False 2), (''channelIndex'',
     CInt False 1), (''channelMask'', XLuint64), (''channelCapabilities'', CInt False 4),
     (''channelBusCapabilities'', CInt False 4), (''isOnBus'', CInt False 1),
     (''connectedBusType'', CInt False 4), (''busParams'', XLbusParams), (''_doNotUse'', CInt
     False 4), (''driverVersion'', CInt False 4), (''interfaceVersion'', CInt False 4),
     (''raw_data'', CArr (CInt False 4) 10), (''serialNumber'', CInt False 4),
     (''articleNumber'', CInt False 4), (''transceiverName'', CArr (CInt True 1) 32),
     (''specialCabFlags'', CInt False 4), (''dominantTimeout'', CInt False 4),
     (''dominantRecessiveDelay'', CInt False 1), (''recessiveDominantDelay'', CInt False 1),
     (''connectionInfo'', CInt False 1), (''currentlyAvailableTimestamps'', CInt False 1),
     (''minimalSupplyVoltage'', CInt False 2), (''maximalSupplyVoltage'', CInt False 2),
     (''maximalBaudrate'', CInt False 4), (''fpgaCoreCapabilities'', CInt False 1),
     (''specialDeviceStatus'', CInt False 1), (''channelBusActiveCapabilities'', CInt False 2),
     (''breakOffset'', CInt False 2), (''delimiterOffset'', CInt False 2), (''reserved'', CArr
     (CInt False 4) 3)]"

definition XLchannelConfig :: ctype where [hdr_types]: "XLchannelConfig = XL_CHANNEL_CONFIG"

definition pXLchannelConfig :: ctype where [hdr_types]: "pXLchannelConfig = CPtr ''XL_CHANNEL_CONFIG''"

definition XL_DRIVER_CONFIG :: ctype where [hdr_types]:
  "XL_DRIVER_CONFIG =
     CStruct 1 [(''dllVersion'', CInt False 4), (''channelCount'', CInt False 4), (''reserved'',
     CArr (CInt False 4) 10), (''channel'', CArr (XLchannelConfig) 64)]"

definition XLdriverConfig :: ctype where [hdr_types]: "XLdriverConfig = XL_DRIVER_CONFIG"

definition pXLdriverConfig :: ctype where [hdr_types]: "pXLdriverConfig = CPtr ''XL_DRIVER_CONFIG''"

definition XL_daio_modes :: macro_table where
  "XL_daio_modes =
     [(''XL_DAIO_DIGITAL_ENABLED'', Lit 0x00000001),
      (''XL_DAIO_DIGITAL_INPUT'', Lit 0x00000002),
      (''XL_DAIO_DIGITAL_TRIGGER'', Lit 0x00000004),
      (''XL_DAIO_ANALOG_ENABLED'', Lit 0x00000001),
      (''XL_DAIO_ANALOG_INPUT'', Lit 0x00000002),
      (''XL_DAIO_ANALOG_TRIGGER'', Lit 0x00000004),
      (''XL_DAIO_ANALOG_RANGE_32V'', Lit 0x00000008),
      (''XL_DAIO_TRIGGER_MODE_NONE'', Lit 0x00000000),
      (''XL_DAIO_TRIGGER_MODE_DIGITAL'', Lit 0x00000001),
      (''XL_DAIO_TRIGGER_MODE_ANALOG_ASCENDING'', Lit 0x00000002),
      (''XL_DAIO_TRIGGER_MODE_ANALOG_DESCENDING'', Lit 0x00000004),
      (''XL_DAIO_TRIGGER_MODE_ANALOG'', BOr (Sym ''XL_DAIO_TRIGGER_MODE_ANALOG_ASCENDING'') (Sym ''XL_DAIO_TRIGGER_MODE_ANALOG_DESCENDING'')),
      (''XL_DAIO_TRIGGER_LEVEL_NONE'', Lit 0),
      (''XL_DAIO_POLLING_NONE'', Lit 0)]"

definition XLacc_filt :: ctype where [hdr_types]:
  "XLacc_filt =
     CStruct 1 [(''isSet'', CInt False 1), (''code'', CInt False 4), (''mask'', CInt False 4)]"

definition XLaccFilt :: ctype where [hdr_types]: "XLaccFilt = XLacc_filt"

definition XLacceptance :: ctype where [hdr_types]:
  "XLacceptance =
     CStruct 1 [(''std'', XLaccFilt), (''xtd'', XLaccFilt)]"

definition XL_timesync_modes :: macro_table where
  "XL_timesync_modes =
     [(''XL_SET_TIMESYNC_NO_CHANGE'', Cast False 4 (Lit 0)),
      (''XL_SET_TIMESYNC_ON'', Cast False 4 (Lit 1)),
      (''XL_SET_TIMESYNC_OFF'', Cast False 4 (Lit 2))]"

definition XLuserHandle :: ctype where [hdr_types]: "XLuserHandle = CInt False 2"

definition XL_remote_constants :: macro_table where
  "XL_remote_constants =
     [(''XL_IPv4'', Lit 4),
      (''XL_IPv6'', Lit 6),
      (''XL_MAX_REMOTE_DEVICE_INFO'', Lit 16),
      (''XL_ALL_REMOTE_DEVICES'', Lit 0xffffffff),
      (''XL_MAX_REMOTE_ALIAS_SIZE'', Lit 64),
      (''XL_REMOTE_OFFLINE'', Lit 1),
      (''XL_REMOTE_ONLINE'', Lit 2),
      (''XL_REMOTE_BUSY'', Lit 3),
      (''XL_REMOTE_CONNECION_REFUSED'', Lit 4),
      (''XL_REMOTE_ADD_PERMANENT'', Lit 0x0),
      (''XL_REMOTE_ADD_TEMPORARY'', Lit 0x1),
      (''XL_REMOTE_REGISTER_NONE'', Lit 0x0),
      (''XL_REMOTE_REGISTER_CONNECT'', Lit 0x1),
      (''XL_REMOTE_REGISTER_TEMP_CONNECT'', Lit 0x2),
      (''XL_REMOTE_DISCONNECT_NONE'', Lit 0x0),
      (''XL_REMOTE_DISCONNECT_REMOVE_ENTRY'', Lit 0x1),
      (''XL_REMOTE_DEVICE_AVAILABLE'', Lit 0x00000001),
      (''XL_REMOTE_DEVICE_CONFIGURED'', Lit 0x00000002),
      (''XL_REMOTE_DEVICE_CONNECTED'', Lit 0x00000004),
      (''XL_REMOTE_DEVICE_ENABLED'', Lit 0x00000008),
      (''XL_REMOTE_DEVICE_BUSY'', Lit 0x00000010),
      (''XL_REMOTE_DEVICE_TEMP_CONFIGURED'', Lit 0x00000020),
      (''XL_REMOTE_DEVICE_STATUS_MASK'', Lit 0x0000003f),
      (''XL_REMOTE_NO_NET_SEARCH'', Lit 0),
      (''XL_REMOTE_NET_SEARCH'', Lit 1),
      (''XL_REMOTE_DEVICE_TYPE_UNKNOWN'', Lit 0),
      (''XL_REMOTE_DEVICE_TYPE_VN8900'', Lit 1),
      (''XL_REMOTE_DEVICE_TYPE_STANDARD_PC'', Lit 2),
      (''XL_REMOTE_DEVICE_TYPE_VX'', Lit 3),
      (''XL_REMOTE_DEVICE_TYPE_VN8800'', Lit 4),
      (''XL_REMOTE_DEVICE_TYPE_VN'', Lit 5),
      (''XL_REMOTE_DEVICE_TYPE_VT'', Lit 6)]"

definition XLremoteHandle :: ctype where [hdr_types]: "XLremoteHandle = CInt False 4"

definition XLdeviceAccess :: ctype where [hdr_types]: "XLdeviceAccess = CInt False 4"

definition XLremoteStatus :: ctype where [hdr_types]: "XLremoteStatus = CInt False 4"

definition XLipAddress :: ctype where [hdr_types]:
  "XLipAddress =
     CStruct 8 [(''ip'', CUnion 8 [(''v4'', CInt False 4), (''v6'', CArr (CInt False 4) 4)]),
     (''prefixLength'', CInt False 4), (''ipVersion'', CInt False 4), (''configPort'', CInt False
     4), (''eventPort'', CInt False 4)]"

definition XLremoteLocationConfig :: ctype where [hdr_types]:
  "XLremoteLocationConfig =
     CStruct 8 [(''hostName'', CArr (CInt True 1) 64), (''alias'', CArr (CInt True 1) 64),
     (''ipAddress'', XLipAddress), (''userIpAddress'', XLipAddress), (''deviceType'', CInt False
     4), (''serialNumber'', CInt False 4), (''articleNumber'', CInt False 4), (''remoteHandle'',
     XLremoteHandle)]"

definition XLremoteDevice :: ctype where [hdr_types]:
  "XLremoteDevice =
     CStruct 8 [(''deviceName'', CArr (CInt True 1) 32), (''hwType'', CInt False 4),
     (''articleNumber'', CInt False 4), (''serialNumber'', CInt False 4), (''reserved'', CInt
     False 4)]"

definition XLremoteDeviceInfo :: ctype where [hdr_types]:
  "XLremoteDeviceInfo =
     CStruct 8 [(''locationConfig'', XLremoteLocationConfig), (''flags'', CInt False 4),
     (''reserved'', CInt False 4), (''nbrOfDevices'', CInt False 4), (''deviceInfo'', CArr
     (XLremoteDevice) 16)]"

definition XL_channel_flags :: macro_table where
  "XL_channel_flags =
     [(''XL_CHANNEL_FLAG_TIME_SYNC_RUNNING'', Lit 0x00000001),
      (''XL_CHANNEL_FLAG_NO_HWSYNC_SUPPORT'', Lit 0x00000400),
      (''XL_CHANNEL_FLAG_SPDIF_CAPABLE'', Lit 0x00004000),
      (''XL_CHANNEL_FLAG_CANFD_BOSCH_SUPPORT'', Lit 0x20000000),
      (''XL_CHANNEL_FLAG_CMACTLICENSE_SUPPORT'', Lit 0x40000000),
      (''XL_CHANNEL_FLAG_CANFD_ISO_SUPPORT'', Lit 0x80000000),
      (''XL_CHANNEL_FLAG_EX1_TIME_SYNC_RUNNING'', App ''XL_CHANNEL_FLAG_EX_MASK'' (Lit 0)),
      (''XL_CHANNEL_FLAG_EX1_HWSYNC_SUPPORT'', App ''XL_CHANNEL_FLAG_EX_MASK'' (Lit 4)),
      (''XL_CHANNEL_FLAG_EX1_CANFD_ISO_SUPPORT'', App ''XL_CHANNEL_FLAG_EX_MASK'' (Lit 10)),
      (''XL_CHANNEL_FLAG_EX1_SPDIF_CAPABLE'', App ''XL_CHANNEL_FLAG_EX_MASK'' (Lit 20)),
      (''XL_CHANNEL_FLAG_EX1_CANFD_BOSCH_SUPPORT'', App ''XL_CHANNEL_FLAG_EX_MASK'' (Lit 35)),
      (''XL_CHANNEL_FLAG_EX1_NET_ETH_SUPPORT'', App ''XL_CHANNEL_FLAG_EX_MASK'' (Lit 36)),
      (''XL_CHANNEL_FLAG_EX1_TIME_SYNC_SERVICE_PROTOCOL_RUNNING'', App ''XL_CHANNEL_FLAG_EX_MASK'' (Lit 51))]"

definition XL_fr_limits :: macro_table where
  "XL_fr_limits =
     [(''XL_FR_MAX_DATA_LENGTH'', Lit 254)]"

definition XLfrClusterConfig :: ctype where [hdr_types]:
  "XLfrClusterConfig =
     CStruct 4 [(''busGuardianEnable'', CInt False 4), (''baudrate'', CInt False 4),
     (''busGuardianTick'', CInt False 4), (''externalClockCorrectionMode'', CInt False 4),
     (''gColdStartAttempts'', CInt False 4), (''gListenNoise'', CInt False 4),
     (''gMacroPerCycle'', CInt False 4), (''gMaxWithoutClockCorrectionFatal'', CInt False 4),
     (''gMaxWithoutClockCorrectionPassive'', CInt False 4), (''gNetworkManagementVectorLength'',
     CInt False 4), (''gNumberOfMinislots'', CInt False 4), (''gNumberOfStaticSlots'', CInt False
     4), (''gOffsetCorrectionStart'', CInt False 4), (''gPayloadLengthStatic'', CInt False 4),
     (''gSyncNodeMax'', CInt False 4), (''gdActionPointOffset'', CInt False 4),
     (''gdDynamicSlotIdlePhase'', CInt False 4), (''gdMacrotick'', CInt False 4),
     (''gdMinislot'', CInt False 4), (''gdMiniSlotActionPointOffset'', CInt False 4), (''gdNIT'',
     CInt False 4), (''gdStaticSlot'', CInt False 4), (''gdSymbolWindow'', CInt False 4),
     (''gdTSSTransmitter'', CInt False 4), (''gdWakeupSymbolRxIdle'', CInt False 4),
     (''gdWakeupSymbolRxLow'', CInt False 4), (''gdWakeupSymbolRxWindow'', CInt False 4),
     (''gdWakeupSymbolTxIdle'', CInt False 4), (''gdWakeupSymbolTxLow'', CInt False 4),
     (''pAllowHaltDueToClock'', CInt False 4), (''pAllowPassiveToActive'', CInt False 4),
     (''pChannels'', CInt False 4), (''pClusterDriftDamping'', CInt False 4),
     (''pDecodingCorrection'', CInt False 4), (''pDelayCompensationA'', CInt False 4),
     (''pDelayCompensationB'', CInt False 4), (''pExternOffsetCorrection'', CInt False 4),
     (''pExternRateCorrection'', CInt False 4), (''pKeySlotUsedForStartup'', CInt False 4),
     (''pKeySlotUsedForSync'', CInt False 4), (''pLatestTx'', CInt False 4),
     (''pMacroInitialOffsetA'', CInt False 4), (''pMacroInitialOffsetB'', CInt False 4),
     (''pMaxPayloadLengthDynamic'', CInt False 4), (''pMicroInitialOffsetA'', CInt False 4),
     (''pMicroInitialOffsetB'', CInt False 4), (''pMicroPerCycle'', CInt False 4),
     (''pMicroPerMacroNom'', CInt False 4), (''pOffsetCorrectionOut'', CInt False 4),
     (''pRateCorrectionOut'', CInt False 4), (''pSamplesPerMicrotick'', CInt False 4),
     (''pSingleSlotEnabled'', CInt False 4), (''pWakeupChannel'', CInt False 4),
     (''pWakeupPattern'', CInt False 4), (''pdAcceptedStartupRange'', CInt False 4),
     (''pdListenTimeout'', CInt False 4), (''pdMaxDrift'', CInt False 4), (''pdMicrotick'', CInt
     False 4), (''gdCASRxLowMax'', CInt False 4), (''gChannels'', CInt False 4),
     (''vExternOffsetControl'', CInt False 4), (''vExternRateControl'', CInt False 4),
     (''pChannelsMTS'', CInt False 4), (''framePresetData'', CInt False 4), (''reserved'', CArr
     (CInt False 4) 15)]"

definition XLfrChannelConfig :: ctype where [hdr_types]:
  "XLfrChannelConfig =
     CStruct 4 [(''status'', CInt False 4), (''cfgMode'', CInt False 4), (''reserved'', CArr
     (CInt False 4) 6), (''xlFrClusterConfig'', XLfrClusterConfig)]"

definition XL_fr_channel_modes :: macro_table where
  "XL_fr_channel_modes =
     [(''XL_FR_CHANNEL_CFG_STATUS_INIT_APP_PRESENT'', Cast False 4 (Lit 0x01)),
      (''XL_FR_CHANNEL_CFG_STATUS_CHANNEL_ACTIVATED'', Cast False 4 (Lit 0x02)),
      (''XL_FR_CHANNEL_CFG_STATUS_VALID_CLUSTER_CFG'', Cast False 4 (Lit 0x04)),
      (''XL_FR_CHANNEL_CFG_STATUS_VALID_CFG_MODE'', Cast False 4 (Lit 0x08)),
      (''XL_FR_CHANNEL_CFG_MODE_SYNCHRONOUS'', Lit 1),
      (''XL_FR_CHANNEL_CFG_MODE_COMBINED'', Lit 2),
      (''XL_FR_CHANNEL_CFG_MODE_ASYNCHRONOUS'', Lit 3),
      (''XL_FR_MODE_NORMAL'', Lit 0x00),
      (''XL_FR_MODE_COLD_NORMAL'', Lit 0x04),
      (''XL_FR_MODE_BUS_HALT'', Lit 0x06),
      (''XL_FR_MODE_NONE'', Lit 0x00),
      (''XL_FR_MODE_WAKEUP'', Lit 0x01),
      (''XL_FR_MODE_COLDSTART_LEADING'', Lit 0x02),
      (''XL_FR_MODE_COLDSTART_FOLLOWING'', Lit 0x03),
      (''XL_FR_MODE_WAKEUP_AND_COLDSTART_LEADING'', Lit 0x04),
      (''XL_FR_MODE_WAKEUP_AND_COLDSTART_FOLLOWING'', Lit 0x05)]"

definition XLfrMode :: ctype where [hdr_types]:
  "XLfrMode =
     CStruct 4 [(''frMode'', CInt False 4), (''frStartupAttributes'', CInt False 4),
     (''useSelCycle'', CInt False 2), (''selCycle'', CInt False 2), (''reserved'', CArr (CInt
     False 4) 29)]"

definition XL_fr_symbols_filters :: macro_table where
  "XL_fr_symbols_filters =
     [(''XL_FR_SYMBOL_MTS'', Lit 0x01),
      (''XL_FR_SYMBOL_CAS'', Lit 0x02),
      (''XL_FR_TRANSCEIVER_MODE_SLEEP'', Lit 0x01),
      (''XL_FR_TRANSCEIVER_MODE_NORMAL'', Lit 0x02),
      (''XL_FR_TRANSCEIVER_MODE_RECEIVE_ONLY'', Lit 0x03),
      (''XL_FR_TRANSCEIVER_MODE_STANDBY'', Lit 0x04),
      (''XL_FR_SYNC_PULSE_EXTERNAL'', Sym ''XL_SYNC_PULSE_EXTERNAL''),
      (''XL_FR_SYNC_PULSE_OUR'', Sym ''XL_SYNC_PULSE_OUR''),
      (''XL_FR_SYNC_PULSE_OUR_SHARED'', Sym ''XL_SYNC_PULSE_OUR_SHARED''),
      (''XL_FR_SPY_MODE_ASYNCHRONOUS'', Lit 0x01),
      (''XL_FR_FILTER_PASS'', Lit 0x00000000),
      (''XL_FR_FILTER_BLOCK'', Lit 0x00000001),
      (''XL_FR_FILTER_TYPE_DATA'', Lit 0x00000001),
      (''XL_FR_FILTER_TYPE_NF'', Lit 0x00000002),
      (''XL_FR_FILTER_TYPE_FILLUP_NF'', Lit 0x00000004),
      (''XL_FR_FILTER_CHANNEL_A'', Lit 0x00000001),
      (''XL_FR_FILTER_CHANNEL_B'', Lit 0x00000002)]"

definition XLfrAcceptanceFilter :: ctype where [hdr_types]:
  "XLfrAcceptanceFilter =
     CStruct 8 [(''filterStatus'', CInt False 4), (''filterTypeMask'', CInt False 4),
     (''filterFirstSlot'', CInt False 4), (''filterLastSlot'', CInt False 4),
     (''filterChannelMask'', CInt False 4)]"

definition XL_fr_flags_errors :: macro_table where
  "XL_fr_flags_errors =
     [(''XL_FR_CHANNEL_A'', Cast False 2 (Lit 0x01)),
      (''XL_FR_CHANNEL_B'', Cast False 2 (Lit 0x02)),
      (''XL_FR_CHANNEL_AB'', Cast False 2 (BOr (Sym ''XL_FR_CHANNEL_A'') (Sym ''XL_FR_CHANNEL_B''))),
      (''XL_FR_CC_COLD_A'', Cast False 2 (Lit 0x04)),
      (''XL_FR_CC_COLD_B'', Cast False 2 (Lit 0x08)),
      (''XL_FR_CC_COLD_AB'', Cast False 2 (BOr (Sym ''XL_FR_CC_COLD_A'') (Sym ''XL_FR_CC_COLD_B''))),
      (''XL_FR_SPY_CHANNEL_A'', Cast False 2 (Lit 0x10)),
      (''XL_FR_SPY_CHANNEL_B'', Cast False 2 (Lit 0x20)),
      (''XL_FR_QUEUE_OVERFLOW'', Cast False 2 (Lit 0x0100)),
      (''XL_FR_FRAMEFLAG_STARTUP'', Cast False 2 (Lit 0x0001)),
      (''XL_FR_FRAMEFLAG_SYNC'', Cast False 2 (Lit 0x0002)),
      (''XL_FR_FRAMEFLAG_NULLFRAME'', Cast False 2 (Lit 0x0004)),
      (''XL_FR_FRAMEFLAG_PAYLOAD_PREAMBLE'', Cast False 2 (Lit 0x0008)),
      (''XL_FR_FRAMEFLAG_FR_RESERVED'', Cast False 2 (Lit 0x0010)),
      (''XL_FR_FRAMEFLAG_REQ_TXACK'', Cast False 2 (Lit 0x0020)),
      (''XL_FR_FRAMEFLAG_TXACK_SS'', Sym ''XL_FR_FRAMEFLAG_REQ_TXACK''),
      (''XL_FR_FRAMEFLAG_RX_UNEXPECTED'', Sym ''XL_FR_FRAMEFLAG_REQ_TXACK''),
      (''XL_FR_FRAMEFLAG_NEW_DATA_TX'', Cast False 2 (Lit 0x0040)),
      (''XL_FR_FRAMEFLAG_DATA_UPDATE_LOST'', Cast False 2 (Lit 0x0080)),
      (''XL_FR_FRAMEFLAG_SYNTAX_ERROR'', Cast False 2 (Lit 0x0200)),
      (''XL_FR_FRAMEFLAG_CONTENT_ERROR'', Cast False 2 (Lit 0x0400)),
      (''XL_FR_FRAMEFLAG_SLOT_BOUNDARY_VIOLATION'', Cast False 2 (Lit 0x0800)),
      (''XL_FR_FRAMEFLAG_TX_CONFLICT'', Cast False 2 (Lit 0x1000)),
      (''XL_FR_FRAMEFLAG_EMPTY_SLOT'', Cast False 2 (Lit 0x2000)),
      (''XL_FR_FRAMEFLAG_FRAME_TRANSMITTED'', Cast False 2 (Lit 0x8000)),
      (''XL_FR_SPY_FRAMEFLAG_FRAMING_ERROR'', Cast False 1 (Lit 0x01)),
      (''XL_FR_SPY_FRAMEFLAG_HEADER_CRC_ERROR'', Cast False 1 (Lit 0x02)),
      (''XL_FR_SPY_FRAMEFLAG_FRAME_CRC_ERROR'', Cast False 1 (Lit 0x04)),
      (''XL_FR_SPY_FRAMEFLAG_BUS_ERROR'', Cast False 1 (Lit 0x08)),
      (''XL_FR_SPY_FRAMEFLAG_FRAME_CRC_NEW_LAYOUT'', Cast False 4 (Lit 0x80000000)),
      (''XL_FR_SPY_FRAMEFLAG_STATIC_FRAME'', Cast False 1 (Lit 0x01)),
      (''XL_FR_TX_MODE_CYCLIC'', Cast False 1 (Lit 0x01)),
      (''XL_FR_TX_MODE_SINGLE_SHOT'', Cast False 1 (Lit 0x02)),
      (''XL_FR_TX_MODE_NONE'', Cast False 1 (Lit 0xff)),
      (''XL_FR_PAYLOAD_INCREMENT_8BIT'', Cast False 1 (Lit 8)),
      (''XL_FR_PAYLOAD_INCREMENT_16BIT'', Cast False 1 (Lit 16)),
      (''XL_FR_PAYLOAD_INCREMENT_32BIT'', Cast False 1 (Lit 32)),
      (''XL_FR_PAYLOAD_INCREMENT_NONE'', Cast False 1 (Lit 0)),
      (''XL_FR_STATUS_DEFAULT_CONFIG'', Lit 0x00),
      (''XL_FR_STATUS_READY'', Lit 0x01),
      (''XL_FR_STATUS_NORMAL_ACTIVE'', Lit 0x02),
      (''XL_FR_STATUS_NORMAL_PASSIVE'', Lit 0x03),
      (''XL_FR_STATUS_HALT'', Lit 0x04),
      (''XL_FR_STATUS_MONITOR_MODE'', Lit 0x05),
      (''XL_FR_STATUS_CONFIG'', Lit 0x0f),
      (''XL_FR_STATUS_WAKEUP_STANDBY'', Lit 0x10),
      (''XL_FR_STATUS_WAKEUP_LISTEN'', Lit 0x11),
      (''XL_FR_STATUS_WAKEUP_SEND'', Lit 0x12),
      (''XL_FR_STATUS_WAKEUP_DETECT'', Lit 0x13),
      (''XL_FR_STATUS_STARTUP_PREPARE'', Lit 0x20),
      (''XL_FR_STATUS_COLDSTART_LISTEN'', Lit 0x21),
      (''XL_FR_STATUS_COLDSTART_COLLISION_RESOLUTION'', Lit 0x22),
      (''XL_FR_STATUS_COLDSTART_CONSISTENCY_CHECK'', Lit 0x23),
      (''XL_FR_STATUS_COLDSTART_GAP'', Lit 0x24),
      (''XL_FR_STATUS_COLDSTART_JOIN'', Lit 0x25),
      (''XL_FR_STATUS_INTEGRATION_COLDSTART_CHECK'', Lit 0x26),
      (''XL_FR_STATUS_INTEGRATION_LISTEN'', Lit 0x27),
      (''XL_FR_STATUS_INTEGRATION_CONSISTENCY_CHECK'', Lit 0x28),
      (''XL_FR_STATUS_INITIALIZE_SCHEDULE'', Lit 0x29),
      (''XL_FR_STATUS_ABORT_STARTUP'', Lit 0x2a),
      (''XL_FR_STATUS_STARTUP_SUCCESS'', Lit 0x2b),
      (''XL_FR_ERROR_POC_ACTIVE'', Lit 0x00),
      (''XL_FR_ERROR_POC_PASSIVE'', Lit 0x01),
      (''XL_FR_ERROR_POC_COMM_HALT'', Lit 0x02),
      (''XL_FR_ERROR_NIT_SENA'', Lit 0x100),
      (''XL_FR_ERROR_NIT_SBNA'', Lit 0x200),
      (''XL_FR_ERROR_NIT_SENB'', Lit 0x400),
      (''XL_FR_ERROR_NIT_SBNB'', Lit 0x800),
      (''XL_FR_ERROR_MISSING_OFFSET_CORRECTION'', Lit 0x00000001),
      (''XL_FR_ERROR_MAX_OFFSET_CORRECTION_REACHED'', Lit 0x00000002),
      (''XL_FR_ERROR_MISSING_RATE_CORRECTION'', Lit 0x00000004),
      (''XL_FR_ERROR_MAX_RATE_CORRECTION_REACHED'', Lit 0x00000008),
      (''XL_FR_ERROR_CC_PERR'', Lit 0x00000040),
      (''XL_FR_ERROR_CC_IIBA'', Lit 0x00000200),
      (''XL_FR_ERROR_CC_IOBA'', Lit 0x00000400),
      (''XL_FR_ERROR_CC_MHF'', Lit 0x00000800),
      (''XL_FR_ERROR_CC_EDA'', Lit 0x00010000),
      (''XL_FR_ERROR_CC_LTVA'', Lit 0x00020000),
      (''XL_FR_ERROR_CC_TABA'', Lit 0x00040000),
      (''XL_FR_ERROR_CC_EDB'', Lit 0x01000000),
      (''XL_FR_ERROR_CC_LTVB'', Lit 0x02000000),
      (''XL_FR_ERROR_CC_TABB'', Lit 0x04000000),
      (''XL_FR_WAKEUP_UNDEFINED'', Lit 0x00),
      (''XL_FR_WAKEUP_RECEIVED_HEADER'', Lit 0x01),
      (''XL_FR_WAKEUP_RECEIVED_WUP'', Lit 0x02),
      (''XL_FR_WAKEUP_COLLISION_HEADER'', Lit 0x03),
      (''XL_FR_WAKEUP_COLLISION_WUP'', Lit 0x04),
      (''XL_FR_WAKEUP_COLLISION_UNKNOWN'', Lit 0x05),
      (''XL_FR_WAKEUP_TRANSMITTED'', Lit 0x06),
      (''XL_FR_WAKEUP_EXTERNAL_WAKEUP'', Lit 0x07),
      (''XL_FR_WAKEUP_WUP_RECEIVED_WITHOUT_WUS_TX'', Lit 0x10),
      (''XL_FR_WAKEUP_RESERVED'', Lit 0xff),
      (''XL_FR_SYMBOL_STATUS_SESA'', Lit 0x01),
      (''XL_FR_SYMBOL_STATUS_SBSA'', Lit 0x02),
      (''XL_FR_SYMBOL_STATUS_TCSA'', Lit 0x04),
      (''XL_FR_SYMBOL_STATUS_SESB'', Lit 0x08),
      (''XL_FR_SYMBOL_STATUS_SBSB'', Lit 0x10),
      (''XL_FR_SYMBOL_STATUS_TCSB'', Lit 0x20),
      (''XL_FR_SYMBOL_STATUS_MTSA'', Lit 0x40),
      (''XL_FR_SYMBOL_STATUS_MTSB'', Lit 0x80),
      (''XL_FR_RX_EVENT_HEADER_SIZE'', Lit 32),
      (''XL_FR_MAX_EVENT_SIZE'', Lit 512)]"

definition XL_FR_START_CYCLE_EV :: ctype where [hdr_types]:
  "XL_FR_START_CYCLE_EV =
     CStruct 8 [(''cycleCount'', CInt False 4), (''vRateCorrection'', CInt True 4),
     (''vOffsetCorrection'', CInt True 4), (''vClockCorrectionFailed'', CInt False 4),
     (''vAllowPassivToActive'', CInt False 4), (''reserved'', CArr (CInt False 4) 3)]"

definition XL_FR_RX_FRAME_EV :: ctype where [hdr_types]:
  "XL_FR_RX_FRAME_EV =
     CStruct 8 [(''flags'', CInt False 2), (''headerCRC'', CInt False 2), (''slotID'', CInt False
     2), (''cycleCount'', CInt False 1), (''payloadLength'', CInt False 1), (''data'', CArr (CInt
     False 1) 254)]"

definition XL_FR_TX_FRAME_EV :: ctype where [hdr_types]:
  "XL_FR_TX_FRAME_EV =
     CStruct 8 [(''flags'', CInt False 2), (''slotID'', CInt False 2), (''offset'', CInt False
     1), (''repetition'', CInt False 1), (''payloadLength'', CInt False 1), (''txMode'', CInt
     False 1), (''incrementSize'', CInt False 1), (''incrementOffset'', CInt False 1),
     (''reserved0'', CInt False 1), (''reserved1'', CInt False 1), (''data'', CArr (CInt False 1)
     254)]"

definition XL_FR_WAKEUP_EV :: ctype where [hdr_types]:
  "XL_FR_WAKEUP_EV =
     CStruct 8 [(''cycleCount'', CInt False 1), (''wakeupStatus'', CInt False 1), (''reserved'',
     CArr (CInt False 1) 6)]"

definition XL_FR_SYMBOL_WINDOW_EV :: ctype where [hdr_types]:
  "XL_FR_SYMBOL_WINDOW_EV =
     CStruct 8 [(''symbol'', CInt False 4), (''flags'', CInt False 4), (''cycleCount'', CInt
     False 1), (''reserved'', CArr (CInt False 1) 7)]"

definition XL_FR_STATUS_EV :: ctype where [hdr_types]:
  "XL_FR_STATUS_EV =
     CStruct 8 [(''statusType'', CInt False 4), (''reserved'', CInt False 4)]"

definition XL_FR_NM_VECTOR_EV :: ctype where [hdr_types]:
  "XL_FR_NM_VECTOR_EV =
     CStruct 8 [(''nmVector'', CArr (CInt False 1) 12), (''cycleCount'', CInt False 1),
     (''reserved'', CArr (CInt False 1) 3)]"

definition XL_FR_SYNC_PULSE_EV :: ctype where [hdr_types]: "XL_FR_SYNC_PULSE_EV = XL_SYNC_PULSE_EV"

definition XL_FR_ERROR_POC_MODE_EV :: ctype where [hdr_types]:
  "XL_FR_ERROR_POC_MODE_EV =
     CStruct 8 [(''errorMode'', CInt False 1), (''reserved'', CArr (CInt False 1) 3)]"

definition XL_FR_ERROR_SYNC_FRAMES_EV :: ctype where [hdr_types]:
  "XL_FR_ERROR_SYNC_FRAMES_EV =
     CStruct 8 [(''evenSyncFramesA'', CInt False 2), (''oddSyncFramesA'', CInt False 2),
     (''evenSyncFramesB'', CInt False 2), (''oddSyncFramesB'', CInt False 2), (''reserved'', CInt
     False 4)]"

definition XL_FR_ERROR_CLOCK_CORR_FAILURE_EV :: ctype where [hdr_types]:
  "XL_FR_ERROR_CLOCK_CORR_FAILURE_EV =
     CStruct 8 [(''evenSyncFramesA'', CInt False 2), (''oddSyncFramesA'', CInt False 2),
     (''evenSyncFramesB'', CInt False 2), (''oddSyncFramesB'', CInt False 2), (''flags'', CInt
     False 4), (''clockCorrFailedCounter'', CInt False 4), (''reserved'', CInt False 4)]"

definition XL_FR_ERROR_NIT_FAILURE_EV :: ctype where [hdr_types]:
  "XL_FR_ERROR_NIT_FAILURE_EV =
     CStruct 8 [(''flags'', CInt False 4), (''reserved'', CInt False 4)]"

definition XL_FR_ERROR_CC_ERROR_EV :: ctype where [hdr_types]:
  "XL_FR_ERROR_CC_ERROR_EV =
     CStruct 8 [(''ccError'', CInt False 4), (''reserved'', CInt False 4)]"

definition s_xl_fr_error_info :: ctype where [hdr_types]:
  "s_xl_fr_error_info =
     CUnion 8 [(''frPocMode'', XL_FR_ERROR_POC_MODE_EV), (''frSyncFramesBelowMin'',
     XL_FR_ERROR_SYNC_FRAMES_EV), (''frSyncFramesOverload'', XL_FR_ERROR_SYNC_FRAMES_EV),
     (''frClockCorrectionFailure'', XL_FR_ERROR_CLOCK_CORR_FAILURE_EV), (''frNitFailure'',
     XL_FR_ERROR_NIT_FAILURE_EV), (''frCCError'', XL_FR_ERROR_CC_ERROR_EV)]"

definition XL_FR_ERROR_EV :: ctype where [hdr_types]:
  "XL_FR_ERROR_EV =
     CStruct 8 [(''tag'', CInt False 1), (''cycleCount'', CInt False 1), (''reserved'', CArr
     (CInt False 1) 6), (''errorInfo'', s_xl_fr_error_info)]"

definition XL_FR_SPY_FRAME_EV :: ctype where [hdr_types]:
  "XL_FR_SPY_FRAME_EV =
     CStruct 8 [(''frameLength'', CInt False 4), (''frameError'', CInt False 1), (''tssLength'',
     CInt False 1), (''headerFlags'', CInt False 2), (''slotID'', CInt False 2), (''headerCRC'',
     CInt False 2), (''payloadLength'', CInt False 1), (''cycleCount'', CInt False 1),
     (''frameFlags'', CInt False 1), (''reserved'', CInt False 1), (''frameCRC'', CInt False 4),
     (''data'', CArr (CInt False 1) 254)]"

definition XL_FR_SPY_SYMBOL_EV :: ctype where [hdr_types]:
  "XL_FR_SPY_SYMBOL_EV =
     CStruct 8 [(''lowLength'', CInt False 2), (''reserved'', CInt False 2)]"

definition s_xl_fr_tag_data :: ctype where [hdr_types]:
  "s_xl_fr_tag_data =
     CUnion 8 [(''frStartCycle'', XL_FR_START_CYCLE_EV), (''frRxFrame'', XL_FR_RX_FRAME_EV),
     (''frTxFrame'', XL_FR_TX_FRAME_EV), (''frWakeup'', XL_FR_WAKEUP_EV), (''frSymbolWindow'',
     XL_FR_SYMBOL_WINDOW_EV), (''frError'', XL_FR_ERROR_EV), (''frStatus'', XL_FR_STATUS_EV),
     (''frNmVector'', XL_FR_NM_VECTOR_EV), (''frSyncPulse'', XL_FR_SYNC_PULSE_EV),
     (''frSpyFrame'', XL_FR_SPY_FRAME_EV), (''frSpySymbol'', XL_FR_SPY_SYMBOL_EV),
     (''applicationNotification'', XL_APPLICATION_NOTIFICATION_EV), (''raw'', CArr (CInt False 1)
     480)]"

definition XLfrEventTag :: ctype where [hdr_types]: "XLfrEventTag = CInt False 2"

definition s_xl_fr_event :: ctype where [hdr_types]:
  "s_xl_fr_event =
     CStruct 8 [(''size'', CInt False 4), (''tag'', XLfrEventTag), (''channelIndex'', CInt False
     2), (''userHandle'', CInt False 4), (''flagsChip'', CInt False 2), (''reserved'', CInt False
     2), (''timeStamp'', XLuint64), (''timeStampSync'', XLuint64), (''tagData'',
     s_xl_fr_tag_data)]"

definition XLfrEvent :: ctype where [hdr_types]: "XLfrEvent = s_xl_fr_event"

definition XL_daio_port_types :: macro_table where
  "XL_daio_port_types =
     [(''XL_DAIO_PORT_TYPE_MASK_DIGITAL'', Lit 0x01),
      (''XL_DAIO_PORT_TYPE_MASK_ANALOG'', Lit 0x02),
      (''XL_DAIO_TRIGGER_TYPE_CYCLIC'', Lit 0x01),
      (''XL_DAIO_TRIGGER_TYPE_PORT'', Lit 0x02)]"

definition XLdaioTriggerMode :: ctype where [hdr_types]:
  "XLdaioTriggerMode =
     CStruct 8 [(''portTypeMask'', CInt False 4), (''triggerType'', CInt False 4), (''param'',
     CUnion 8 [(''cycleTime'', CInt False 4), (''digital'', CStruct 8 [(''portMask'', CInt False
     4), (''type'', CInt False 4)])])]"

definition XL_daio_triggers :: macro_table where
  "XL_daio_triggers =
     [(''XL_DAIO_TRIGGER_TYPE_RISING'', Lit 0x01),
      (''XL_DAIO_TRIGGER_TYPE_FALLING'', Lit 0x02),
      (''XL_DAIO_TRIGGER_TYPE_BOTH'', Lit 0x03)]"

definition XLdaioSetPort :: ctype where [hdr_types]:
  "XLdaioSetPort =
     CStruct 8 [(''portType'', CInt False 4), (''portMask'', CInt False 4), (''portFunction'',
     CArr (CInt False 4) 8), (''reserved'', CArr (CInt False 4) 8)]"

definition XL_daio_port_functions :: macro_table where
  "XL_daio_port_functions =
     [(''XL_DAIO_PORT_DIGITAL_IN'', Lit 0x00),
      (''XL_DAIO_PORT_DIGITAL_PUSHPULL'', Lit 0x01),
      (''XL_DAIO_PORT_DIGITAL_OPENDRAIN'', Lit 0x02),
      (''XL_DAIO_PORT_DIGITAL_SWITCH'', Lit 0x05),
      (''XL_DAIO_PORT_DIGITAL_IN_OUT'', Lit 0x06),
      (''XL_DAIO_PORT_ANALOG_IN'', Lit 0x00),
      (''XL_DAIO_PORT_ANALOG_OUT'', Lit 0x01),
      (''XL_DAIO_PORT_ANALOG_DIFF'', Lit 0x02),
      (''XL_DAIO_PORT_ANALOG_OFF'', Lit 0x03),
      (''XL_DAIO_DO_LEVEL_0V'', Lit 0),
      (''XL_DAIO_DO_LEVEL_5V'', Lit 5),
      (''XL_DAIO_DO_LEVEL_12V'', Lit 12)]"

definition XLdaioDigitalParams :: ctype where [hdr_types]:
  "XLdaioDigitalParams =
     CStruct 8 [(''portMask'', CInt False 4), (''valueMask'', CInt False 4)]"

definition XL_daio_digital_masks :: macro_table where
  "XL_daio_digital_masks =
     [(''XL_DAIO_PORT_MASK_DIGITAL_D0'', Lit 0x01),
      (''XL_DAIO_PORT_MASK_DIGITAL_D1'', Lit 0x02),
      (''XL_DAIO_PORT_MASK_DIGITAL_D2'', Lit 0x04),
      (''XL_DAIO_PORT_MASK_DIGITAL_D3'', Lit 0x08),
      (''XL_DAIO_PORT_MASK_DIGITAL_D4'', Lit 0x10),
      (''XL_DAIO_PORT_MASK_DIGITAL_D5'', Lit 0x20),
      (''XL_DAIO_PORT_MASK_DIGITAL_D6'', Lit 0x40),
      (''XL_DAIO_PORT_MASK_DIGITAL_D7'', Lit 0x80)]"

definition XLdaioAnalogParams :: ctype where [hdr_types]:
  "XLdaioAnalogParams =
     CStruct 8 [(''portMask'', CInt False 4), (''value'', CArr (CInt False 4) 8)]"

definition XL_daio_analog_masks :: macro_table where
  "XL_daio_analog_masks =
     [(''XL_DAIO_PORT_MASK_ANALOG_A0'', Lit 0x01),
      (''XL_DAIO_PORT_MASK_ANALOG_A1'', Lit 0x02),
      (''XL_DAIO_PORT_MASK_ANALOG_A2'', Lit 0x04),
      (''XL_DAIO_PORT_MASK_ANALOG_A3'', Lit 0x08),
      (''XL_DAIO_EVT_ID_DIGITAL'', Sym ''XL_DAIO_PORT_TYPE_MASK_DIGITAL''),
      (''XL_DAIO_EVT_ID_ANALOG'', Sym ''XL_DAIO_PORT_TYPE_MASK_ANALOG'')]"

definition XL_kline_events :: macro_table where
  "XL_kline_events =
     [(''XL_KLINE_EVT_RX_DATA'', Lit 1),
      (''XL_KLINE_EVT_TX_DATA'', Lit 2),
      (''XL_KLINE_EVT_TESTER_5BD'', Lit 3),
      (''XL_KLINE_EVT_ECU_5BD'', Lit 5),
      (''XL_KLINE_EVT_TESTER_FI_WU_PATTERN'', Lit 7),
      (''XL_KLINE_EVT_ECU_FI_WU_PATTERN'', Lit 8),
      (''XL_KLINE_EVT_ERROR'', Lit 9),
      (''XL_KLINE_EVT_CONFIRMATION'', Lit 10)]"

definition XLklineUartParameter :: ctype where [hdr_types]:
  "XLklineUartParameter =
     CStruct 8 [(''databits'', CInt False 4), (''stopbits'', CInt False 4), (''parity'', CInt
     False 4)]"

definition XLklineInitTester :: ctype where [hdr_types]:
  "XLklineInitTester =
     CStruct 8 [(''TiniL'', CInt False 4), (''Twup'', CInt False 4), (''reserved'', CInt False
     4)]"

definition XLkline5BdTester :: ctype where [hdr_types]:
  "XLkline5BdTester =
     CStruct 8 [(''addr'', CInt False 4), (''rate5bd'', CInt False 4), (''W1min'', CInt False 4),
     (''W1max'', CInt False 4), (''W2min'', CInt False 4), (''W2max'', CInt False 4), (''W3min'',
     CInt False 4), (''W3max'', CInt False 4), (''W4'', CInt False 4), (''W4min'', CInt False 4),
     (''W4max'', CInt False 4), (''kb2Not'', CInt False 4), (''reserved'', CInt False 4)]"

definition XLkline5BdEcu :: ctype where [hdr_types]:
  "XLkline5BdEcu =
     CStruct 8 [(''configure'', CInt False 4), (''addr'', CInt False 4), (''rate5bd'', CInt False
     4), (''syncPattern'', CInt False 4), (''W1'', CInt False 4), (''W2'', CInt False 4),
     (''W3'', CInt False 4), (''W4'', CInt False 4), (''W4min'', CInt False 4), (''W4max'', CInt
     False 4), (''kb1'', CInt False 4), (''kb2'', CInt False 4), (''addrNot'', CInt False 4),
     (''reserved'', CInt False 4)]"

definition XLklineSetComTester :: ctype where [hdr_types]:
  "XLklineSetComTester =
     CStruct 8 [(''P1min'', CInt False 4), (''P4'', CInt False 4), (''reserved'', CInt False 4)]"

definition XLklineSetComEcu :: ctype where [hdr_types]:
  "XLklineSetComEcu =
     CStruct 8 [(''P1'', CInt False 4), (''P4min'', CInt False 4), (''TinilMin'', CInt False 4),
     (''TinilMax'', CInt False 4), (''TwupMin'', CInt False 4), (''TwupMax'', CInt False 4),
     (''reserved'', CInt False 4)]"

definition XL_kline_constants :: macro_table where
  "XL_kline_constants =
     [(''XL_KLINE_UART_PARITY_NONE'', Lit 0),
      (''XL_KLINE_UART_PARITY_EVEN'', Lit 1),
      (''XL_KLINE_UART_PARITY_ODD'', Lit 2),
      (''XL_KLINE_UART_PARITY_MARK'', Lit 3),
      (''XL_KLINE_UART_PARITY_SPACE'', Lit 4),
      (''XL_KLINE_TRXMODE_NORMAL'', Lit 0),
      (''XL_KLINE_TRXMODE_HIGHSPEED'', Lit 1),
      (''XL_KLINE_TESTERRESISTOR_OFF'', Lit 0),
      (''XL_KLINE_TESTERRESISTOR_ON'', Lit 1),
      (''XL_KLINE_UNCONFIGURE_ECU'', Lit 0),
      (''XL_KLINE_CONFIGURE_ECU'', Lit 1),
      (''XL_KLINE_EVT_TAG_5BD_ADDR'', Lit 1),
      (''XL_KLINE_EVT_TAG_5BD_BAUDRATE'', Lit 2),
      (''XL_KLINE_EVT_TAG_5BD_KB1'', Lit 3),
      (''XL_KLINE_EVT_TAG_5BD_KB2'', Lit 4),
      (''XL_KLINE_EVT_TAG_5BD_KB2NOT'', Lit 5),
      (''XL_KLINE_EVT_TAG_5BD_ADDRNOT'', Lit 6),
      (''XL_KLINE_BYTE_FRAMING_ERROR_MASK'', Lit 0x1),
      (''XL_KLINE_BYTE_PARITY_ERROR_MASK'', Lit 0x2),
      (''XL_KLINE_EVT_TAG_SET_COMM_PARAM_TESTER'', Lit 1),
      (''XL_KLINE_EVT_TAG_COMM_PARAM_ECU'', Lit 2),
      (''XL_KLINE_EVT_TAG_SWITCH_HIGHSPEED'', Lit 3),
      (''XL_KLINE_FLAG_TAKE_KB2NOT'', Lit 0x80000000),
      (''XL_KLINE_FLAG_TAKE_ADDRNOT'', Lit 0x80000000),
      (''XL_KLINE_ERROR_TYPE_RXTX_ERROR'', Lit 1),
      (''XL_KLINE_ERROR_TYPE_5BD_TESTER'', Lit 2),
      (''XL_KLINE_ERROR_TYPE_5BD_ECU'', Lit 3),
      (''XL_KLINE_ERROR_TYPE_IBS'', Lit 4),
      (''XL_KLINE_ERROR_TYPE_FI'', Lit 5),
      (''XL_KLINE_ERR_RXTX_UA'', Lit 0x04),
      (''XL_KLINE_ERR_RXTX_MA'', Lit 0x02),
      (''XL_KLINE_ERR_RXTX_ISB'', Lit 0x01),
      (''XL_KLINE_ERR_TESTER_W1MIN'', Lit 1),
      (''XL_KLINE_ERR_TESTER_W1MAX'', Lit 2),
      (''XL_KLINE_ERR_TESTER_W2MIN'', Lit 3),
      (''XL_KLINE_ERR_TESTER_W2MAX'', Lit 4),
      (''XL_KLINE_ERR_TESTER_W3MIN'', Lit 5),
      (''XL_KLINE_ERR_TESTER_W3MAX'', Lit 6),
      (''XL_KLINE_ERR_TESTER_W4MIN'', Lit 7),
      (''XL_KLINE_ERR_TESTER_W4MAX'', Lit 8),
      (''XL_KLINE_ERR_ECU_W4MIN'', Lit 1),
      (''XL_KLINE_ERR_ECU_W4MAX'', Lit 2),
      (''XL_KLINE_ERR_IBS_P1'', Lit 1),
      (''XL_KLINE_ERR_IBS_P4'', Lit 2)]"

definition XL_eth_limits_capabilities :: macro_table where
  "XL_eth_limits_capabilities =
     [(''XL_ETH_EVENT_SIZE_HEADER'', Cast False 2 (Lit 32)),
      (''XL_ETH_EVENT_SIZE_MAX'', Cast False 4 (Lit 2048)),
      (''XL_ETH_RX_FIFO_QUEUE_SIZE_MAX'', Cast False 4 (Mul (Mul (Lit 64) (Lit 1024)) (Lit 1024))),
      (''XL_ETH_RX_FIFO_QUEUE_SIZE_MIN'', Cast False 4 (Mul (Lit 64) (Lit 1024))),
      (''XL_ETH_PAYLOAD_SIZE_MAX'', Cast False 4 (Lit 1500)),
      (''XL_ETH_PAYLOAD_SIZE_MIN'', Cast False 4 (Lit 46)),
      (''XL_ETH_RAW_FRAME_SIZE_MAX'', Cast False 4 (Lit 1600)),
      (''XL_ETH_RAW_FRAME_SIZE_MIN'', Cast False 4 (Lit 24)),
      (''XL_ETH_RAW_JUMBO_FRAME_SIZE_MAX'', Cast False 4 (Lit 16384)),
      (''XL_ETH_MACADDR_OCTETS'', Lit 6),
      (''XL_ETH_ETHERTYPE_OCTETS'', Lit 2),
      (''XL_ETH_VLANTAG_OCTETS'', Lit 4),
      (''XL_ETH_CHANNEL_CAP_IEEE100T1'', Lit 0x0001),
      (''XL_ETH_CHANNEL_CAP_IEEE100TX'', Lit 0x0002),
      (''XL_ETH_CHANNEL_CAP_IEEE1000T'', Lit 0x0004),
      (''XL_ETH_CHANNEL_CAP_IEEE1000T1'', Lit 0x0008),
      (''XL_ETH_CHANNEL_CAP_IEEE10T1S'', Lit 0x0010),
      (''XL_NET_ETH_SWITCH_CAP_REALSWITCH'', Lit 0x00000000),
      (''XL_NET_ETH_SWITCH_CAP_DIRECTCONN'', Lit 0x00000001),
      (''XL_NET_ETH_SWITCH_CAP_TAP_LINK'', Lit 0x00000002),
      (''XL_NET_ETH_SWITCH_CAP_MULTIDROP'', Lit 0x00000004),
      (''XL_ETH_CONNECTOR_RJ45'', Cast False 2 (Lit 0x0001)),
      (''XL_ETH_CONNECTOR_DSUB'', Cast False 2 (Lit 0x0002)),
      (''XL_ETH_PHY_IEEE'', Cast False 2 (Lit 0x0004)),
      (''XL_ETH_PHY_BROADR'', Cast False 2 (Lit 0x0008)),
      (''XL_ETH_FRAME_BYPASSED'', Cast False 2 (Lit 0x0010)),
      (''XL_ETH_QUEUE_OVERFLOW'', Cast False 2 (Lit 0x0100)),
      (''XL_ETH_BYPASS_QUEUE_OVERFLOW'', Cast False 2 (Lit 0x8000))]"

definition XL_eth_config_values :: macro_table where
  "XL_eth_config_values =
     [(''XL_ETH_MODE_SPEED_AUTO_100'', Lit 2),
      (''XL_ETH_MODE_SPEED_AUTO_1000'', Lit 4),
      (''XL_ETH_MODE_SPEED_AUTO_100_1000'', Lit 5),
      (''XL_ETH_MODE_SPEED_FIXED_10'', Lit 7),
      (''XL_ETH_MODE_SPEED_FIXED_100'', Lit 8),
      (''XL_ETH_MODE_SPEED_FIXED_1000'', Lit 9),
      (''XL_ETH_MODE_DUPLEX_DONT_CARE'', Lit 0),
      (''XL_ETH_MODE_DUPLEX_AUTO'', Lit 1),
      (''XL_ETH_MODE_DUPLEX_HALF'', Lit 2),
      (''XL_ETH_MODE_DUPLEX_FULL'', Lit 3),
      (''XL_ETH_MODE_CONNECTOR_DONT_CARE'', Lit 0),
      (''XL_ETH_MODE_CONNECTOR_RJ45'', Lit 1),
      (''XL_ETH_MODE_CONNECTOR_DSUB'', Lit 2),
      (''XL_ETH_MODE_PHY_DONT_CARE'', Lit 0),
      (''XL_ETH_MODE_PHY_IEEE_802_3'', Lit 1),
      (''XL_ETH_MODE_PHY_BROADR_REACH'', Lit 2),
      (''XL_ETH_MODE_CLOCK_DONT_CARE'', Lit 0),
      (''XL_ETH_MODE_CLOCK_AUTO'', Lit 1),
      (''XL_ETH_MODE_CLOCK_MASTER'', Lit 2),
      (''XL_ETH_MODE_CLOCK_SLAVE'', Lit 3),
      (''XL_ETH_MODE_MDI_AUTO'', Lit 1),
      (''XL_ETH_MODE_MDI_STRAIGHT'', Lit 2),
      (''XL_ETH_MODE_MDI_CROSSOVER'', Lit 3),
      (''XL_ETH_MODE_BR_PAIR_DONT_CARE'', Lit 0),
      (''XL_ETH_MODE_BR_PAIR_1PAIR'', Lit 1)]"

definition XL_eth_status_values :: macro_table where
  "XL_eth_status_values =
     [(''XL_ETH_STATUS_LINK_UNKNOWN'', Lit 0),
      (''XL_ETH_STATUS_LINK_DOWN'', Lit 1),
      (''XL_ETH_STATUS_LINK_UP'', Lit 2),
      (''XL_ETH_STATUS_LINK_ERROR'', Lit 4),
      (''XL_ETH_STATUS_SPEED_UNKNOWN'', Lit 0),
      (''XL_ETH_STATUS_SPEED_10'', Lit 1),
      (''XL_ETH_STATUS_SPEED_100'', Lit 2),
      (''XL_ETH_STATUS_SPEED_1000'', Lit 3),
      (''XL_ETH_STATUS_SPEED_2500'', Lit 4),
      (''XL_ETH_STATUS_SPEED_5000'', Lit 5),
      (''XL_ETH_STATUS_SPEED_10000'', Lit 6),
      (''XL_ETH_STATUS_DUPLEX_UNKNOWN'', Lit 0),
      (''XL_ETH_STATUS_DUPLEX_HALF'', Lit 1),
      (''XL_ETH_STATUS_DUPLEX_FULL'', Lit 2),
      (''XL_ETH_STATUS_MDI_UNKNOWN'', Lit 0),
      (''XL_ETH_STATUS_MDI_STRAIGHT'', Lit 1),
      (''XL_ETH_STATUS_MDI_CROSSOVER'', Lit 2),
      (''XL_ETH_STATUS_CONNECTOR_DEFAULT'', Lit 0),
      (''XL_ETH_STATUS_CONNECTOR_RJ45'', Lit 1),
      (''XL_ETH_STATUS_CONNECTOR_DSUB'', Lit 2),
      (''XL_ETH_STATUS_PHY_UNKNOWN'', Lit 0),
      (''XL_ETH_STATUS_PHY_IEEE_802_3'', Lit 1),
      (''XL_ETH_STATUS_PHY_BROADR_REACH'', Lit 2),
      (''XL_ETH_STATUS_PHY_100BASE_T1'', Lit 2),
      (''XL_ETH_STATUS_PHY_1000BASE_T1'', Lit 4),
      (''XL_ETH_STATUS_PHY_2500BASE_T1'', Lit 5),
      (''XL_ETH_STATUS_PHY_5000BASE_T1'', Lit 6),
      (''XL_ETH_STATUS_PHY_10000BASE_T1'', Lit 7),
      (''XL_ETH_STATUS_PHY_10BASE_T1S'', Lit 8),
      (''XL_ETH_STATUS_CLOCK_DONT_CARE'', Lit 0),
      (''XL_ETH_STATUS_CLOCK_MASTER'', Lit 1),
      (''XL_ETH_STATUS_CLOCK_SLAVE'', Lit 2),
      (''XL_ETH_STATUS_BR_PAIR_DONT_CARE'', Lit 0),
      (''XL_ETH_STATUS_BR_PAIR_1PAIR'', Lit 1)]"

definition XL_eth_error_flags :: macro_table where
  "XL_eth_error_flags =
     [(''XL_ETH_RX_ERROR_INVALID_LENGTH'', Cast False 4 (Lit 0x00000001)),
      (''XL_ETH_RX_ERROR_INVALID_CRC'', Cast False 4 (Lit 0x00000002)),
      (''XL_ETH_RX_ERROR_PHY_ERROR'', Cast False 4 (Lit 0x00000004)),
      (''XL_ETH_DATAFRAME_FLAGS_USE_SOURCE_MAC'', Cast False 4 (Lit 0x00000001)),
      (''XL_ETH_BYPASS_INACTIVE'', Lit 0),
      (''XL_ETH_BYPASS_PHY'', Lit 1),
      (''XL_ETH_BYPASS_MACCORE'', Lit 2),
      (''XL_ETH_TX_ERROR_BYPASS_ENABLED'', Lit 1),
      (''XL_ETH_TX_ERROR_NO_LINK'', Lit 2),
      (''XL_ETH_TX_ERROR_PHY_NOT_CONFIGURED'', Lit 3),
      (''XL_ETH_TX_ERROR_INVALID_LENGTH'', Lit 7),
      (''XL_ETH_NETWORK_TX_ERROR_NO_LINK'', Cast False 4 (Lit 0x00000001)),
      (''XL_ETH_NETWORK_TX_ERROR_PHY_NOT_CONFIGURED'', Cast False 4 (Lit 0x00000002)),
      (''XL_ETH_NETWORK_TX_ERROR_PHY_BRIDGE_ENABLED'', Cast False 4 (Lit 0x00000004)),
      (''XL_ETH_NETWORK_TX_ERROR_CONVERTER_RESET'', Cast False 4 (Lit 0x00000008)),
      (''XL_ETH_NETWORK_TX_ERROR_INVALID_LENGTH'', Cast False 4 (Lit 0x00000010)),
      (''XL_ETH_NETWORK_TX_ERROR_INVALID_CRC'', Cast False 4 (Lit 0x00000020)),
      (''XL_ETH_NETWORK_TX_ERROR_MACADDR_ERROR'', Cast False 4 (Lit 0x00000040)),
      (''XL_ETH_NETWORK_RX_ERROR_INVALID_LENGTH'', Cast False 4 (Lit 0x00000001)),
      (''XL_ETH_NETWORK_RX_ERROR_INVALID_CRC'', Cast False 4 (Lit 0x00000002)),
      (''XL_ETH_NETWORK_RX_ERROR_PHY_ERROR'', Cast False 4 (Lit 0x00000004)),
      (''XL_ETH_NETWORK_RX_ERROR_MACADDR_ERROR'', Cast False 4 (Lit 0x00000008))]"

definition XL_net_constants :: macro_table where
  "XL_net_constants =
     [(''XL_NET_MAX_NAME_LENGTH'', Lit 32),
      (''XL_ACCESS_TYPE_UNRELIABLE'', Cast False 4 (Lit 0x00000000)),
      (''XL_ACCESS_TYPE_RELIABLE'', Cast False 4 (Lit 0x00000001)),
      (''XL_INVALID_NETWORKID'', Neg (Lit 1))]"

definition XLnetworkId :: ctype where [hdr_types]: "XLnetworkId = CInt True 4"

definition pXLnetworkId :: ctype where [hdr_types]: "pXLnetworkId = CPtr ''int''"

definition XL_invalid_switch :: macro_table where
  "XL_invalid_switch =
     [(''XL_INVALID_SWITCHID'', Neg (Lit 1))]"

definition XLswitchId :: ctype where [hdr_types]: "XLswitchId = CInt True 4"

definition pXLswitchId :: ctype where [hdr_types]: "pXLswitchId = CPtr ''int''"

definition XL_invalid_network_handle :: macro_table where
  "XL_invalid_network_handle =
     [(''XL_INVALID_NETWORKHANDLE'', Neg (Lit 1))]"

definition XLnetworkHandle :: ctype where [hdr_types]: "XLnetworkHandle = XLlong"

definition pXLnetworkHandle :: ctype where [hdr_types]: "pXLnetworkHandle = CPtr ''XLlong''"

definition XL_invalid_eth_port :: macro_table where
  "XL_invalid_eth_port =
     [(''XL_INVALID_ETHPORTHANDLE'', Neg (Lit 1))]"

definition XLethPortHandle :: ctype where [hdr_types]: "XLethPortHandle = XLlong"

definition pXLethPortHandle :: ctype where [hdr_types]: "pXLethPortHandle = CPtr ''XLlong''"

definition XL_invalid_rx_handle :: macro_table where
  "XL_invalid_rx_handle =
     [(''XL_INVALID_RXHANDLE'', Neg (Lit 1))]"

definition XLrxHandle :: ctype where [hdr_types]: "XLrxHandle = XLlong"

definition pXLrxHandle :: ctype where [hdr_types]: "pXLrxHandle = CPtr ''XLlong''"

definition XL_net_config_status :: macro_table where
  "XL_net_config_status =
     [(''XL_NET_CFG_STAT_OK'', Lit 0x00),
      (''XL_NET_CFG_DUPLICATE_SEGMENT_NAME'', Lit 0x01),
      (''XL_NET_CFG_DUPLICATE_VP_NAME'', Lit 0x02),
      (''XL_NET_CFG_DUPLICATE_MP_NAME'', Lit 0x03)]"

definition XLethEventTag :: ctype where [hdr_types]: "XLethEventTag = CInt False 2"

definition T_XL_ETH_FRAME :: ctype where [hdr_types]:
  "T_XL_ETH_FRAME =
     CStruct 1 [(''etherType'', CInt False 2), (''payload'', CArr (CInt False 1) 1500)]"

definition T_XL_ETH_FRAMEDATA :: ctype where [hdr_types]:
  "T_XL_ETH_FRAMEDATA =
     CUnion 1 [(''rawData'', CArr (CInt False 1) 1600), (''ethFrame'', T_XL_ETH_FRAME)]"

definition T_XL_ETH_DATAFRAME_RX :: ctype where [hdr_types]:
  "T_XL_ETH_DATAFRAME_RX =
     CStruct 1 [(''frameIdentifier'', CInt False 4), (''frameDuration'', CInt False 4),
     (''dataLen'', CInt False 2), (''reserved'', CInt False 2), (''reserved2'', CArr (CInt False
     4) 3), (''fcs'', CInt False 4), (''destMAC'', CArr (CInt False 1) 6), (''sourceMAC'', CArr
     (CInt False 1) 6), (''frameData'', T_XL_ETH_FRAMEDATA)]"

definition T_XL_ETH_DATAFRAME_RX_ERROR :: ctype where [hdr_types]:
  "T_XL_ETH_DATAFRAME_RX_ERROR =
     CStruct 1 [(''frameIdentifier'', CInt False 4), (''frameDuration'', CInt False 4),
     (''errorFlags'', CInt False 4), (''dataLen'', CInt False 2), (''reserved'', CInt False 2),
     (''reserved2'', CArr (CInt False 4) 3), (''fcs'', CInt False 4), (''destMAC'', CArr (CInt
     False 1) 6), (''sourceMAC'', CArr (CInt False 1) 6), (''frameData'', T_XL_ETH_FRAMEDATA)]"

definition T_XL_ETH_DATAFRAME_TX :: ctype where [hdr_types]:
  "T_XL_ETH_DATAFRAME_TX =
     CStruct 1 [(''frameIdentifier'', CInt False 4), (''flags'', CInt False 4), (''dataLen'',
     CInt False 2), (''reserved'', CInt False 2), (''reserved2'', CArr (CInt False 4) 4),
     (''destMAC'', CArr (CInt False 1) 6), (''sourceMAC'', CArr (CInt False 1) 6),
     (''frameData'', T_XL_ETH_FRAMEDATA)]"

definition T_XL_ETH_DATAFRAME_TX_EVENT :: ctype where [hdr_types]:
  "T_XL_ETH_DATAFRAME_TX_EVENT =
     CStruct 1 [(''frameIdentifier'', CInt False 4), (''flags'', CInt False 4), (''dataLen'',
     CInt False 2), (''reserved'', CInt False 2), (''frameDuration'', CInt False 4),
     (''reserved2'', CArr (CInt False 4) 2), (''fcs'', CInt False 4), (''destMAC'', CArr (CInt
     False 1) 6), (''sourceMAC'', CArr (CInt False 1) 6), (''frameData'', T_XL_ETH_FRAMEDATA)]"

definition T_XL_ETH_DATAFRAME_TXACK :: ctype where [hdr_types]: "T_XL_ETH_DATAFRAME_TXACK = T_XL_ETH_DATAFRAME_TX_EVENT"

definition T_XL_ETH_DATAFRAME_TXACK_SW :: ctype where [hdr_types]: "T_XL_ETH_DATAFRAME_TXACK_SW = T_XL_ETH_DATAFRAME_TX_EVENT"

definition T_XL_ETH_DATAFRAME_TXACK_OTHERAPP :: ctype where [hdr_types]: "T_XL_ETH_DATAFRAME_TXACK_OTHERAPP = T_XL_ETH_DATAFRAME_TX_EVENT"

definition T_XL_ETH_DATAFRAME_TX_ERROR :: ctype where [hdr_types]:
  "T_XL_ETH_DATAFRAME_TX_ERROR =
     CStruct 1 [(''errorType'', CInt False 4), (''txFrame'', T_XL_ETH_DATAFRAME_TX_EVENT)]"

definition T_XL_ETH_DATAFRAME_TX_ERR_SW :: ctype where [hdr_types]: "T_XL_ETH_DATAFRAME_TX_ERR_SW = T_XL_ETH_DATAFRAME_TX_ERROR"

definition T_XL_ETH_DATAFRAME_TX_ERR_OTHERAPP :: ctype where [hdr_types]: "T_XL_ETH_DATAFRAME_TX_ERR_OTHERAPP = T_XL_ETH_DATAFRAME_TX_ERROR"

definition T_XL_ETH_CONFIG_RESULT :: ctype where [hdr_types]:
  "T_XL_ETH_CONFIG_RESULT =
     CStruct 4 [(''result'', CInt False 4)]"

definition T_XL_ETH_CHANNEL_STATUS :: ctype where [hdr_types]:
  "T_XL_ETH_CHANNEL_STATUS =
     CStruct 4 [(''link'', CInt False 4), (''speed'', CInt False 4), (''duplex'', CInt False 4),
     (''mdiType'', CInt False 4), (''activeConnector'', CInt False 4), (''activePhy'', CInt False
     4), (''clockMode'', CInt False 4), (''brPairs'', CInt False 4)]"

definition T_XL_ETH_LOSTEVENT :: ctype where [hdr_types]:
  "T_XL_ETH_LOSTEVENT =
     CStruct 4 [(''eventTypeLost'', XLethEventTag), (''reserved'', CInt False 2), (''reason'',
     CInt False 4), (''eventInfo'', CUnion 4 [(''txAck'', CStruct 4 [(''frameIdentifier'', CInt
     False 4), (''fcs'', CInt False 4), (''sourceMAC'', CArr (CInt False 1) 6), (''reserved'',
     CArr (CInt False 1) 2)]), (''txAckSw'', CStruct 4 [(''frameIdentifier'', CInt False 4),
     (''fcs'', CInt False 4), (''sourceMAC'', CArr (CInt False 1) 6), (''reserved'', CArr (CInt
     False 1) 2)]), (''txError'', CStruct 4 [(''errorType'', CInt False 4), (''frameIdentifier'',
     CInt False 4), (''fcs'', CInt False 4), (''sourceMAC'', CArr (CInt False 1) 6),
     (''reserved'', CArr (CInt False 1) 2)]), (''txErrorSw'', CStruct 4 [(''errorType'', CInt
     False 4), (''frameIdentifier'', CInt False 4), (''fcs'', CInt False 4), (''sourceMAC'', CArr
     (CInt False 1) 6), (''reserved'', CArr (CInt False 1) 2)]), (''reserved'', CArr (CInt False
     4) 20)])]"

definition T_XL_ETH_EVENT :: ctype where [hdr_types]:
  "T_XL_ETH_EVENT =
     CStruct 4 [(''size'', CInt False 4), (''tag'', XLethEventTag), (''channelIndex'', CInt False
     2), (''userHandle'', CInt False 4), (''flagsChip'', CInt False 2), (''reserved'', CInt False
     2), (''reserved1'', XLuint64), (''timeStampSync'', XLuint64), (''tagData'', CUnion 4
     [(''rawData'', CArr (CInt False 1) 2048), (''frameRxOk'', T_XL_ETH_DATAFRAME_RX),
     (''frameRxError'', T_XL_ETH_DATAFRAME_RX_ERROR), (''frameTxAck'', T_XL_ETH_DATAFRAME_TXACK),
     (''frameTxAckSw'', T_XL_ETH_DATAFRAME_TXACK_SW), (''frameTxAckOtherApp'',
     T_XL_ETH_DATAFRAME_TXACK_OTHERAPP), (''frameTxError'', T_XL_ETH_DATAFRAME_TX_ERROR),
     (''frameTxErrorSw'', T_XL_ETH_DATAFRAME_TX_ERR_SW), (''frameTxErrorOtherApp'',
     T_XL_ETH_DATAFRAME_TX_ERR_OTHERAPP), (''configResult'', T_XL_ETH_CONFIG_RESULT),
     (''channelStatus'', T_XL_ETH_CHANNEL_STATUS), (''syncPulse'', XL_SYNC_PULSE_EV),
     (''lostEvent'', T_XL_ETH_LOSTEVENT)])]"

definition T_XL_NET_ETH_DATAFRAME_RX :: ctype where [hdr_types]:
  "T_XL_NET_ETH_DATAFRAME_RX =
     CStruct 4 [(''frameDuration'', CInt False 4), (''dataLen'', CInt False 2), (''reserved1'',
     CInt False 1), (''reserved2'', CInt False 1), (''errorFlags'', CInt False 4),
     (''originalDataLen'', CInt False 2), (''reserved3'', CInt False 2), (''fcs'', CInt False 4),
     (''destMAC'', CArr (CInt False 1) 6), (''sourceMAC'', CArr (CInt False 1) 6),
     (''frameData'', T_XL_ETH_FRAMEDATA)]"

definition T_XL_NET_ETH_DATAFRAME_RX_ERROR :: ctype where [hdr_types]:
  "T_XL_NET_ETH_DATAFRAME_RX_ERROR =
     CStruct 4 [(''frameDuration'', CInt False 4), (''errorFlags'', CInt False 4), (''dataLen'',
     CInt False 2), (''reserved1'', CInt False 1), (''reserved2'', CInt False 1),
     (''originalDataLen'', CInt False 2), (''reserved3'', CInt False 2), (''reserved4'', CInt
     False 4), (''fcs'', CInt False 4), (''destMAC'', CArr (CInt False 1) 6), (''sourceMAC'',
     CArr (CInt False 1) 6), (''frameData'', T_XL_ETH_FRAMEDATA)]"

definition T_XL_NET_ETH_DATAFRAME_SIMULATION_TX_ACK :: ctype where [hdr_types]: "T_XL_NET_ETH_DATAFRAME_SIMULATION_TX_ACK = T_XL_NET_ETH_DATAFRAME_RX"

definition T_XL_NET_ETH_DATAFRAME_SIMULATION_TX_ERROR :: ctype where [hdr_types]: "T_XL_NET_ETH_DATAFRAME_SIMULATION_TX_ERROR = T_XL_NET_ETH_DATAFRAME_RX_ERROR"

definition T_XL_NET_ETH_DATAFRAME_MEASUREMENT_RX :: ctype where [hdr_types]: "T_XL_NET_ETH_DATAFRAME_MEASUREMENT_RX = T_XL_NET_ETH_DATAFRAME_RX"

definition T_XL_NET_ETH_DATAFRAME_MEASUREMENT_RX_ERROR :: ctype where [hdr_types]: "T_XL_NET_ETH_DATAFRAME_MEASUREMENT_RX_ERROR = T_XL_NET_ETH_DATAFRAME_RX_ERROR"

definition T_XL_NET_ETH_DATAFRAME_MEASUREMENT_TX :: ctype where [hdr_types]: "T_XL_NET_ETH_DATAFRAME_MEASUREMENT_TX = T_XL_NET_ETH_DATAFRAME_RX"

definition T_XL_NET_ETH_DATAFRAME_MEASUREMENT_TX_ERROR :: ctype where [hdr_types]: "T_XL_NET_ETH_DATAFRAME_MEASUREMENT_TX_ERROR = T_XL_NET_ETH_DATAFRAME_RX_ERROR"

definition T_XL_NET_ETH_DATAFRAME_TX :: ctype where [hdr_types]: "T_XL_NET_ETH_DATAFRAME_TX = T_XL_ETH_DATAFRAME_TX"

definition T_XL_NET_ETH_CHANNEL_STATUS :: ctype where [hdr_types]: "T_XL_NET_ETH_CHANNEL_STATUS = T_XL_ETH_CHANNEL_STATUS"

definition T_XL_NET_ETH_EVENT :: ctype where [hdr_types]:
  "T_XL_NET_ETH_EVENT =
     CStruct 4 [(''size'', CInt False 4), (''tag'', XLethEventTag), (''channelIndex'', CInt False
     2), (''userHandle'', CInt False 4), (''flagsChip'', CInt False 2), (''reserved'', CInt False
     2), (''reserved1'', XLuint64), (''timeStampSync'', XLuint64), (''tagData'', CUnion 4
     [(''rawData'', CArr (CInt False 1) 2048), (''frameSimRx'', T_XL_NET_ETH_DATAFRAME_RX),
     (''frameSimRxError'', T_XL_NET_ETH_DATAFRAME_RX_ERROR), (''frameSimTxAck'',
     T_XL_NET_ETH_DATAFRAME_SIMULATION_TX_ACK), (''frameSimTxError'',
     T_XL_NET_ETH_DATAFRAME_SIMULATION_TX_ERROR), (''frameMeasureRx'',
     T_XL_NET_ETH_DATAFRAME_MEASUREMENT_RX), (''frameMeasureRxError'',
     T_XL_NET_ETH_DATAFRAME_MEASUREMENT_RX_ERROR), (''frameMeasureTx'',
     T_XL_NET_ETH_DATAFRAME_MEASUREMENT_TX), (''frameMeasureTxError'',
     T_XL_NET_ETH_DATAFRAME_MEASUREMENT_TX_ERROR), (''channelStatus'',
     T_XL_NET_ETH_CHANNEL_STATUS)])]"

definition T_XL_ETH_CONFIG :: ctype where [hdr_types]:
  "T_XL_ETH_CONFIG =
     CStruct 4 [(''speed'', CInt False 4), (''duplex'', CInt False 4), (''connector'', CInt False
     4), (''phy'', CInt False 4), (''clockMode'', CInt False 4), (''mdiMode'', CInt False 4),
     (''brPairs'', CInt False 4)]"

definition T_XL_ETH_MAC_ADDRESS :: ctype where [hdr_types]:
  "T_XL_ETH_MAC_ADDRESS =
     CStruct 4 [(''address'', CArr (CInt False 1) 6)]"

definition XL_can_limits_flags :: macro_table where
  "XL_can_limits_flags =
     [(''XL_CAN_MAX_DATA_LEN'', Lit 64),
      (''XL_CANFD_RX_EVENT_HEADER_SIZE'', Lit 32),
      (''XL_CANFD_MAX_EVENT_SIZE'', Lit 128),
      (''XL_CAN_TXMSG_FLAG_EDL'', Lit 0x0001),
      (''XL_CAN_TXMSG_FLAG_BRS'', Lit 0x0002),
      (''XL_CAN_TXMSG_FLAG_RTR'', Lit 0x0010),
      (''XL_CAN_TXMSG_FLAG_HIGHPRIO'', Lit 0x0080),
      (''XL_CAN_TXMSG_FLAG_WAKEUP'', Lit 0x0200),
      (''XL_CAN_RXMSG_FLAG_EDL'', Lit 0x0001),
      (''XL_CAN_RXMSG_FLAG_BRS'', Lit 0x0002),
      (''XL_CAN_RXMSG_FLAG_ESI'', Lit 0x0004),
      (''XL_CAN_RXMSG_FLAG_RTR'', Lit 0x0010),
      (''XL_CAN_RXMSG_FLAG_EF'', Lit 0x0200),
      (''XL_CAN_RXMSG_FLAG_ARB_LOST'', Lit 0x0400),
      (''XL_CAN_RXMSG_FLAG_WAKEUP'', Lit 0x2000),
      (''XL_CAN_RXMSG_FLAG_TE'', Lit 0x4000)]"

definition XL_CAN_TX_MSG :: ctype where [hdr_types]:
  "XL_CAN_TX_MSG =
     CStruct 8 [(''canId'', CInt False 4), (''msgFlags'', CInt False 4), (''dlc'', CInt False 1),
     (''reserved'', CArr (CInt False 1) 7), (''data'', CArr (CInt False 1) 64)]"

definition XLcanTxEvent :: ctype where [hdr_types]:
  "XLcanTxEvent =
     CStruct 8 [(''tag'', CInt False 2), (''transId'', CInt False 2), (''channelIndex'', CInt
     False 1), (''reserved'', CArr (CInt False 1) 3), (''tagData'', CUnion 8 [(''canMsg'',
     XL_CAN_TX_MSG)])]"

definition XL_CAN_EV_RX_MSG :: ctype where [hdr_types]:
  "XL_CAN_EV_RX_MSG =
     CStruct 8 [(''canId'', CInt False 4), (''msgFlags'', CInt False 4), (''crc'', CInt False 4),
     (''reserved1'', CArr (CInt False 1) 12), (''totalBitCnt'', CInt False 2), (''dlc'', CInt
     False 1), (''reserved'', CArr (CInt False 1) 5), (''data'', CArr (CInt False 1) 64)]"

definition XL_CAN_EV_TX_REQUEST :: ctype where [hdr_types]:
  "XL_CAN_EV_TX_REQUEST =
     CStruct 8 [(''canId'', CInt False 4), (''msgFlags'', CInt False 4), (''dlc'', CInt False 1),
     (''reserved1'', CInt False 1), (''reserved'', CInt False 2), (''data'', CArr (CInt False 1)
     64)]"

definition XL_CAN_EV_CHIP_STATE :: ctype where [hdr_types]:
  "XL_CAN_EV_CHIP_STATE =
     CStruct 8 [(''busStatus'', CInt False 1), (''txErrorCounter'', CInt False 1),
     (''rxErrorCounter'', CInt False 1), (''reserved'', CInt False 1), (''reserved0'', CInt False
     4)]"

definition XL_CAN_EV_SYNC_PULSE :: ctype where [hdr_types]: "XL_CAN_EV_SYNC_PULSE = XL_SYNC_PULSE_EV"

definition XL_can_error_codes :: macro_table where
  "XL_can_error_codes =
     [(''XL_CAN_ERRC_BIT_ERROR'', Lit 1),
      (''XL_CAN_ERRC_FORM_ERROR'', Lit 2),
      (''XL_CAN_ERRC_STUFF_ERROR'', Lit 3),
      (''XL_CAN_ERRC_OTHER_ERROR'', Lit 4),
      (''XL_CAN_ERRC_CRC_ERROR'', Lit 5),
      (''XL_CAN_ERRC_ACK_ERROR'', Lit 6),
      (''XL_CAN_ERRC_NACK_ERROR'', Lit 7),
      (''XL_CAN_ERRC_OVLD_ERROR'', Lit 8),
      (''XL_CAN_ERRC_EXCPT_ERROR'', Lit 9)]"

definition XL_CAN_EV_ERROR :: ctype where [hdr_types]:
  "XL_CAN_EV_ERROR =
     CStruct 8 [(''errorCode'', CInt False 1), (''reserved'', CArr (CInt False 1) 95)]"

definition XL_can_queue_limits :: macro_table where
  "XL_can_queue_limits =
     [(''XL_CAN_QUEUE_OVERFLOW'', Lit 0x100),
      (''RX_FIFO_CANFD_QUEUE_SIZE_MAX'', Lit 524288),
      (''RX_FIFO_CANFD_QUEUE_SIZE_MIN'', Lit 8192)]"

definition XLcanRxEvent :: ctype where [hdr_types]:
  "XLcanRxEvent =
     CStruct 8 [(''size'', CInt False 4), (''tag'', CInt False 2), (''channelIndex'', CInt False
     2), (''userHandle'', CInt False 4), (''flagsChip'', CInt False 2), (''reserved0'', CInt
     False 2), (''reserved1'', XLuint64), (''timeStampSync'', XLuint64), (''tagData'', CUnion 8
     [(''raw'', CArr (CInt False 1) 96), (''canRxOkMsg'', XL_CAN_EV_RX_MSG), (''canTxOkMsg'',
     XL_CAN_EV_RX_MSG), (''canTxRequest'', XL_CAN_EV_TX_REQUEST), (''canError'',
     XL_CAN_EV_ERROR), (''canChipState'', XL_CAN_EV_CHIP_STATE), (''canSyncPulse'',
     XL_CAN_EV_SYNC_PULSE)])]"

definition XL_a429_constants :: macro_table where
  "XL_a429_constants =
     [(''XL_A429_MSG_CHANNEL_DIR_TX'', Lit 0x01),
      (''XL_A429_MSG_CHANNEL_DIR_RX'', Lit 0x02),
      (''XL_A429_MSG_BITRATE_SLOW_MIN'', Lit 10500),
      (''XL_A429_MSG_BITRATE_SLOW_MAX'', Lit 16000),
      (''XL_A429_MSG_BITRATE_FAST_MIN'', Lit 90000),
      (''XL_A429_MSG_BITRATE_FAST_MAX'', Lit 110000),
      (''XL_A429_MSG_GAP_4BIT'', Lit 32),
      (''XL_A429_MSG_BITRATE_RX_MIN'', Lit 10000),
      (''XL_A429_MSG_BITRATE_RX_MAX'', Lit 120000),
      (''XL_A429_MSG_AUTO_BAUDRATE_DISABLED'', Lit 0),
      (''XL_A429_MSG_AUTO_BAUDRATE_ENABLED'', Lit 1),
      (''XL_A429_MSG_FLAG_ON_REQUEST'', Lit 0x00000001),
      (''XL_A429_MSG_FLAG_CYCLIC'', Lit 0x00000002),
      (''XL_A429_MSG_FLAG_DELETE_CYCLIC'', Lit 0x00000004),
      (''XL_A429_MSG_CYCLE_MAX'', Lit 0x3fffffff),
      (''XL_A429_MSG_GAP_DEFAULT'', Lit 0),
      (''XL_A429_MSG_GAP_MAX'', Lit 0x000fffff),
      (''XL_A429_MSG_PARITY_DEFAULT'', Lit 0),
      (''XL_A429_MSG_PARITY_DISABLED'', Lit 1),
      (''XL_A429_MSG_PARITY_ODD'', Lit 2),
      (''XL_A429_MSG_PARITY_EVEN'', Lit 3),
      (''XL_A429_EV_TX_MSG_CTRL_ON_REQUEST'', Lit 0),
      (''XL_A429_EV_TX_MSG_CTRL_CYCLIC'', Lit 1),
      (''XL_A429_EV_TX_ERROR_ACCESS_DENIED'', Lit 0),
      (''XL_A429_EV_TX_ERROR_TRANSMISSION_ERROR'', Lit 1),
      (''XL_A429_EV_RX_ERROR_GAP_VIOLATION'', Lit 0),
      (''XL_A429_EV_RX_ERROR_PARITY'', Lit 1),
      (''XL_A429_EV_RX_ERROR_BITRATE_LOW'', Lit 2),
      (''XL_A429_EV_RX_ERROR_BITRATE_HIGH'', Lit 3),
      (''XL_A429_EV_RX_ERROR_FRAME_FORMAT'', Lit 4),
      (''XL_A429_EV_RX_ERROR_CODING_RZ'', Lit 5),
      (''XL_A429_EV_RX_ERROR_DUTY_FACTOR'', Lit 6),
      (''XL_A429_EV_RX_ERROR_AVG_BIT_LENGTH'', Lit 7),
      (''XL_A429_QUEUE_OVERFLOW'', Lit 0x100),
      (''XL_A429_RX_FIFO_QUEUE_SIZE_MAX'', Lit 524288),
      (''XL_A429_RX_FIFO_QUEUE_SIZE_MIN'', Lit 8192)]"

definition XL_A429_PARAMS :: ctype where [hdr_types]:
  "XL_A429_PARAMS =
     CStruct 8 [(''channelDirection'', CInt False 2), (''res1'', CInt False 2), (''data'', CUnion
     8 [(''tx'', CStruct 8 [(''bitrate'', CInt False 4), (''parity'', CInt False 4), (''minGap'',
     CInt False 4)]), (''rx'', CStruct 8 [(''bitrate'', CInt False 4), (''minBitrate'', CInt
     False 4), (''maxBitrate'', CInt False 4), (''parity'', CInt False 4), (''minGap'', CInt
     False 4), (''autoBaudrate'', CInt False 4)]), (''raw'', CArr (CInt False 1) 28)])]"

definition XL_A429_MSG_TX :: ctype where [hdr_types]:
  "XL_A429_MSG_TX =
     CStruct 8 [(''userHandle'', CInt False 2), (''res1'', CInt False 2), (''flags'', CInt False
     4), (''cycleTime'', CInt False 4), (''gap'', CInt False 4), (''label'', CInt False 1),
     (''parity'', CInt False 1), (''res2'', CInt False 2), (''data'', CInt False 4)]"

definition XL_A429_EV_TX_OK :: ctype where [hdr_types]:
  "XL_A429_EV_TX_OK =
     CStruct 8 [(''frameLength'', CInt False 4), (''bitrate'', CInt False 4), (''label'', CInt
     False 1), (''msgCtrl'', CInt False 1), (''res1'', CInt False 2), (''data'', CInt False 4)]"

definition XL_A429_EV_TX_ERR :: ctype where [hdr_types]:
  "XL_A429_EV_TX_ERR =
     CStruct 8 [(''frameLength'', CInt False 4), (''bitrate'', CInt False 4), (''errorPosition'',
     CInt False 1), (''errorReason'', CInt False 1), (''label'', CInt False 1), (''res1'', CInt
     False 1), (''data'', CInt False 4)]"

definition XL_A429_EV_RX_OK :: ctype where [hdr_types]:
  "XL_A429_EV_RX_OK =
     CStruct 8 [(''frameLength'', CInt False 4), (''bitrate'', CInt False 4), (''label'', CInt
     False 1), (''res1'', CArr (CInt False 1) 3), (''data'', CInt False 4)]"

definition XL_A429_EV_RX_ERR :: ctype where [hdr_types]:
  "XL_A429_EV_RX_ERR =
     CStruct 8 [(''frameLength'', CInt False 4), (''bitrate'', CInt False 4),
     (''bitLengthOfLastBit'', CInt False 4), (''errorPosition'', CInt False 1), (''errorReason'',
     CInt False 1), (''label'', CInt False 1), (''res1'', CInt False 1), (''data'', CInt False
     4)]"

definition XL_A429_EV_BUS_STATISTIC :: ctype where [hdr_types]:
  "XL_A429_EV_BUS_STATISTIC =
     CStruct 8 [(''busLoad'', CInt False 4), (''res1'', CArr (CInt False 4) 3)]"

definition XL_A429_EV_SYNC_PULSE :: ctype where [hdr_types]: "XL_A429_EV_SYNC_PULSE = XL_SYNC_PULSE_EV"

definition XLa429RxEvent :: ctype where [hdr_types]:
  "XLa429RxEvent =
     CStruct 8 [(''size'', CInt False 4), (''tag'', CInt False 2), (''channelIndex'', CInt False
     1), (''reserved'', CInt False 1), (''userHandle'', CInt False 4), (''flagsChip'', CInt False
     2), (''reserved0'', CInt False 2), (''timeStamp'', XLuint64), (''timeStampSync'', XLuint64),
     (''tagData'', CUnion 8 [(''a429TxOkMsg'', XL_A429_EV_TX_OK), (''a429TxErrMsg'',
     XL_A429_EV_TX_ERR), (''a429RxOkMsg'', XL_A429_EV_RX_OK), (''a429RxErrMsg'',
     XL_A429_EV_RX_ERR), (''a429BusStatistic'', XL_A429_EV_BUS_STATISTIC), (''a429SyncPulse'',
     XL_A429_EV_SYNC_PULSE)])]"

definition XLdrvConfigHandle :: ctype where [hdr_types]: "XLdrvConfigHandle = CPtr ''_XLdriverConfig''"

definition XL_invalid_config :: macro_table where
  "XL_invalid_config =
     [(''XL_INVALID_CONFIG_HANDLE'', Lit 0)]"

definition XLchannelDrvConfigV1 :: ctype where [hdr_types]:
  "XLchannelDrvConfigV1 =
     CStruct 8 [(''hwChannel'', CInt False 4), (''channelIndex'', CInt False 4),
     (''deviceIndex'', CInt False 4), (''interfaceVersion'', CInt False 4), (''isOnBus'', CInt
     False 4), (''channelCapabilities'', XLuint64), (''channelCapabilities2'', XLuint64),
     (''channelBusCapabilities'', XLuint64), (''channelBusActiveCapabilities'', XLuint64),
     (''connectedBusType'', XLuint64), (''currentlyAvailableTimestamps'', CInt False 4),
     (''busParams'', XLbusParams), (''transceiver'', CStruct 8 [(''name'', CPtr ''char''),
     (''type'', CInt False 4), (''configError'', CInt False 4)]), (''remoteChannel'', CPtr
     ''s_xl_channel_drv_config_v1'')]"

definition XLchannelDrvConfigListV1 :: ctype where [hdr_types]:
  "XLchannelDrvConfigListV1 =
     CStruct 8 [(''item'', CPtr ''XLchannelDrvConfigV1''), (''count'', CInt False 4)]"

definition TP_FCT_XLAPI_GET_CHANNEL_CONFIG_V1 :: ctype where [hdr_types]:
  "TP_FCT_XLAPI_GET_CHANNEL_CONFIG_V1 =
     CFnPtr (XLstatus) [XLdrvConfigHandle, CPtr ''XLchannelDrvConfigListV1'']"

definition XLdeviceDrvConfigV1 :: ctype where [hdr_types]:
  "XLdeviceDrvConfigV1 =
     CStruct 8 [(''name'', CPtr ''char''), (''hwType'', CInt False 4), (''hwIndex'', CInt False
     4), (''serialNumber'', CInt False 4), (''articleNumber'', CInt False 4), (''driverVersion'',
     XLuint64), (''connectionInfo'', CInt False 4), (''isRemoteDevice'', CInt False 4),
     (''remoteDeviceList'', CStruct 8 [(''item'', CPtr ''s_xl_device_drv_config_v1''),
     (''count'', CInt False 4)]), (''channelList'', XLchannelDrvConfigListV1)]"

definition XLdeviceDrvConfigListV1 :: ctype where [hdr_types]:
  "XLdeviceDrvConfigListV1 =
     CStruct 8 [(''item'', CPtr ''XLdeviceDrvConfigV1''), (''count'', CInt False 4)]"

definition TP_FCT_XLAPI_GET_DEVICE_CONFIG_V1 :: ctype where [hdr_types]:
  "TP_FCT_XLAPI_GET_DEVICE_CONFIG_V1 =
     CFnPtr (XLstatus) [XLdrvConfigHandle, CPtr ''XLdeviceDrvConfigListV1'']"

definition XLvirtualportDrvConfigV1 :: ctype where [hdr_types]:
  "XLvirtualportDrvConfigV1 =
     CStruct 8 [(''virtualPortName'', CPtr ''char''), (''networkIdx'', CInt False 4),
     (''switchId'', XLswitchId)]"

definition XLvirtualportDrvConfigListV1 :: ctype where [hdr_types]:
  "XLvirtualportDrvConfigListV1 =
     CStruct 8 [(''item'', CPtr ''XLvirtualportDrvConfigV1''), (''count'', CInt False 4)]"

definition TP_FCT_XLAPI_GET_VIRTUAL_PORT_CONFIG_V1 :: ctype where [hdr_types]:
  "TP_FCT_XLAPI_GET_VIRTUAL_PORT_CONFIG_V1 =
     CFnPtr (XLstatus) [XLdrvConfigHandle, CPtr ''XLvirtualportDrvConfigListV1'']"

definition XLmeasurementpointDrvConfigV1 :: ctype where [hdr_types]:
  "XLmeasurementpointDrvConfigV1 =
     CStruct 8 [(''measurementPointName'', CPtr ''char''), (''networkIdx'', CInt False 4),
     (''switchId'', XLswitchId), (''channel'', CPtr ''XLchannelDrvConfigV1'')]"

definition XLmeasurementpointDrvConfigListV1 :: ctype where [hdr_types]:
  "XLmeasurementpointDrvConfigListV1 =
     CStruct 8 [(''item'', CPtr ''XLmeasurementpointDrvConfigV1''), (''count'', CInt False 4)]"

definition TP_FCT_XLAPI_GET_MEASUREMENT_POINT_CONFIG_V1 :: ctype where [hdr_types]:
  "TP_FCT_XLAPI_GET_MEASUREMENT_POINT_CONFIG_V1 =
     CFnPtr (XLstatus) [XLdrvConfigHandle, CPtr ''XLmeasurementpointDrvConfigListV1'']"

definition XLswitchDrvConfigV1 :: ctype where [hdr_types]:
  "XLswitchDrvConfigV1 =
     CStruct 8 [(''switchName'', CPtr ''char''), (''switchId'', XLswitchId), (''networkIdx'',
     CInt False 4), (''device'', CPtr ''XLdeviceDrvConfigV1''), (''switchCapability'', CInt False
     4), (''vpList'', XLvirtualportDrvConfigListV1), (''mpList'',
     XLmeasurementpointDrvConfigListV1)]"

definition XLswitchDrvConfigListV1 :: ctype where [hdr_types]:
  "XLswitchDrvConfigListV1 =
     CStruct 8 [(''item'', CPtr ''XLswitchDrvConfigV1''), (''count'', CInt False 4)]"

definition TP_FCT_XLAPI_GET_SWITCH_CONFIG_V1 :: ctype where [hdr_types]:
  "TP_FCT_XLAPI_GET_SWITCH_CONFIG_V1 =
     CFnPtr (XLstatus) [XLdrvConfigHandle, CPtr ''XLswitchDrvConfigListV1'']"

definition XLnetworkType_values :: enumerators where
  "XLnetworkType_values =
     [(''XL_ETH_NETWORK'', Some (Lit 1))]"

definition XLnetworkDrvConfigV1 :: ctype where [hdr_types]:
  "XLnetworkDrvConfigV1 =
     CStruct 8 [(''networkName'', CPtr ''char''), (''statusCode'', CInt False 4),
     (''statusErrorString'', CPtr ''char''), (''networkType'', CInt True 4), (''switchList'',
     XLswitchDrvConfigListV1)]"

definition XLnetworkDrvConfigListV1 :: ctype where [hdr_types]:
  "XLnetworkDrvConfigListV1 =
     CStruct 8 [(''item'', CPtr ''XLnetworkDrvConfigV1''), (''count'', CInt False 4)]"

definition TP_FCT_XLAPI_GET_NETWORK_CONFIG_V1 :: ctype where [hdr_types]:
  "TP_FCT_XLAPI_GET_NETWORK_CONFIG_V1 =
     CFnPtr (XLstatus) [XLdrvConfigHandle, CPtr ''XLnetworkDrvConfigListV1'']"

definition XLdllDrvConfigV1 :: ctype where [hdr_types]:
  "XLdllDrvConfigV1 =
     CStruct 8 [(''dllVersion'', XLuint64)]"

definition TP_FCT_XLAPI_GET_DLL_CONFIG_V1 :: ctype where [hdr_types]:
  "TP_FCT_XLAPI_GET_DLL_CONFIG_V1 =
     CFnPtr (XLstatus) [XLdrvConfigHandle, CPtr ''XLdllDrvConfigV1'']"

definition XLIdriverConfigVersion_values :: enumerators where
  "XLIdriverConfigVersion_values =
     [(''XL_IDRIVER_CONFIG_VERSION_1'', Some (Lit 0x8001))]"

definition XLapiIDriverConfigV1 :: ctype where [hdr_types]:
  "XLapiIDriverConfigV1 =
     CStruct 8 [(''configHandle'', XLdrvConfigHandle), (''fctGetDeviceConfig'',
     TP_FCT_XLAPI_GET_DEVICE_CONFIG_V1), (''fctGetChannelConfig'',
     TP_FCT_XLAPI_GET_CHANNEL_CONFIG_V1), (''fctGetNetworkConfig'',
     TP_FCT_XLAPI_GET_NETWORK_CONFIG_V1), (''fctGetSwitchConfig'',
     TP_FCT_XLAPI_GET_SWITCH_CONFIG_V1), (''fctGetVirtualPortConfig'',
     TP_FCT_XLAPI_GET_VIRTUAL_PORT_CONFIG_V1), (''fctGetMeasurementPointConfig'',
     TP_FCT_XLAPI_GET_MEASUREMENT_POINT_CONFIG_V1), (''fctGetDllConfig'',
     TP_FCT_XLAPI_GET_DLL_CONFIG_V1)]"

definition XL_prototypes_1 :: "cproto list" where
  "XL_prototypes_1 =
     [CProto ''xlGetErrorString'' (XLstringType) [(''err'', XLstatus)],
      CProto ''xlOpenDriver'' (XLstatus) [],
      CProto ''xlCloseDriver'' (XLstatus) [],
      CProto ''xlGetApplConfig'' (XLstatus) [(''appName'', CPtr ''char''), (''appChannel'', CInt
      False 4), (''pHwType'', CPtr ''uint''), (''pHwIndex'', CPtr ''uint''), (''pHwChannel'',
      CPtr ''uint''), (''busType'', CInt False 4)],
      CProto ''xlSetApplConfig'' (XLstatus) [(''appName'', CPtr ''char''), (''appChannel'', CInt
      False 4), (''hwType'', CInt False 4), (''hwIndex'', CInt False 4), (''hwChannel'', CInt
      False 4), (''busType'', CInt False 4)],
      CProto ''xlGetDriverConfig'' (XLstatus) [(''pDriverConfig'', CPtr ''XLdriverConfig'')],
      CProto ''xlCreateDriverConfig'' (XLstatus) [(''version'', CInt True 4),
      (''pConfigInterface'', CPtr ''XLIDriverConfig'')],
      CProto ''xlDestroyDriverConfig'' (XLstatus) [(''configHandle'', XLdrvConfigHandle)],
      CProto ''xlGetChannelIndex'' (CInt True 4) [(''hwType'', CInt True 4), (''hwIndex'', CInt
      True 4), (''hwChannel'', CInt True 4)],
      CProto ''xlGetChannelMask'' (XLaccess) [(''hwType'', CInt True 4), (''hwIndex'', CInt True
      4), (''hwChannel'', CInt True 4)],
      CProto ''xlOpenPort'' (XLstatus) [(''pPortHandle'', CPtr ''XLportHandle''), (''userName'',
      CPtr ''char''), (''accessMask'', XLaccess), (''pPermissionMask'', CPtr ''XLaccess''),
      (''rxQueueSize'', CInt False 4), (''xlInterfaceVersion'', CInt False 4), (''busType'', CInt
      False 4)],
      CProto ''xlCreatePort'' (XLstatus) [(''pPortHandle'', CPtr ''XLportHandle''), (''appName'',
      CPtr ''char''), (''rxQueueSize'', CInt False 4), (''xlInterfaceVersion'', CInt False 4),
      (''busType'', XLuint64)]]"

definition XL_prototypes_2 :: "cproto list" where
  "XL_prototypes_2 =
     [CProto ''xlAddChannelToPort'' (XLstatus) [(''portHandle'', XLportHandle),
      (''channelIndex'', XLaccess), (''initAccess'', CInt False 4), (''permission'', CPtr
      ''uint''), (''busType'', XLuint64)],
      CProto ''xlFinalizePort'' (XLstatus) [(''portHandle'', XLportHandle)],
      CProto ''xlSetTimerRate'' (XLstatus) [(''portHandle'', XLportHandle), (''timerRate'',
      XLulong)],
      CProto ''xlSetTimerRateAndChannel'' (XLstatus) [(''portHandle'', XLportHandle),
      (''timerChannelMask'', CPtr ''XLaccess''), (''timerRate'', CPtr ''XLulong'')],
      CProto ''xlResetClock'' (XLstatus) [(''portHandle'', XLportHandle)],
      CProto ''xlTsResetClocks'' (XLstatus) [(''portHandle'', XLportHandle), (''timescale'', CPtr
      ''int''), (''leapSeconds'', CPtr ''XLtsLeapSeconds''), (''gmUuid'', CPtr ''XLtsClkUuid''),
      (''timeOffset'', CPtr ''XLuint64'')],
      CProto ''xlNetTsResetClocks'' (XLstatus) [(''networkHandle'', XLnetworkHandle),
      (''timescale'', CPtr ''int''), (''leapSeconds'', CPtr ''XLtsLeapSeconds''), (''gmUuid'',
      CPtr ''XLtsClkUuid''), (''timeOffset'', CPtr ''XLuint64'')]]"

definition XL_prototypes_3 :: "cproto list" where
  "XL_prototypes_3 =
     [CProto ''xlTsGetStatus'' (XLstatus) [(''portHandle'', XLportHandle), (''accessMask'',
      XLaccess), (''timescale'', CPtr ''int''), (''leapSeconds'', CPtr ''XLtsLeapSeconds''),
      (''gmUuid'', CPtr ''XLtsClkUuid''), (''localUuid'', CPtr ''XLtsClkUuid'')],
      CProto ''xlNetTsGetStatus'' (XLstatus) [(''networkHandle'', XLnetworkHandle),
      (''ethPortHandle'', XLethPortHandle), (''timescale'', CPtr ''int''), (''leapSeconds'', CPtr
      ''XLtsLeapSeconds''), (''gmUuid'', CPtr ''XLtsClkUuid''), (''localUuid'', CPtr
      ''XLtsClkUuid'')],
      CProto ''xlSetNotification'' (XLstatus) [(''portHandle'', XLportHandle), (''pHandle'', CPtr
      ''XLhandle''), (''queueLevel'', CInt True 4)],
      CProto ''xlSetTimerBasedNotify'' (XLstatus) [(''portHandle'', XLportHandle), (''pHandle'',
      CPtr ''XLhandle'')],
      CProto ''xlFlushReceiveQueue'' (XLstatus) [(''portHandle'', XLportHandle)],
      CProto ''xlGetReceiveQueueLevel'' (XLstatus) [(''portHandle'', XLportHandle), (''level'',
      CPtr ''int'')],
      CProto ''xlActivateChannel'' (XLstatus) [(''portHandle'', XLportHandle), (''accessMask'',
      XLaccess), (''busType'', CInt False 4), (''flags'', CInt False 4)],
      CProto ''xlReceive'' (XLstatus) [(''portHandle'', XLportHandle), (''pEventCount'', CPtr
      ''uint''), (''pEvents'', CPtr ''XLevent'')],
      CProto ''xlGetEventString'' (XLstringType) [(''pEv'', CPtr ''XLevent'')],
      CProto ''xlCanGetEventString'' (XLstringType) [(''pEv'', CPtr ''XLcanRxEvent'')],
      CProto ''xlOemContact'' (XLstatus) [(''portHandle'', XLportHandle), (''Channel'', XLulong),
      (''context1'', XLuint64), (''context2'', CPtr ''XLuint64'')],
      CProto ''xlGetSyncTime'' (XLstatus) [(''portHandle'', XLportHandle), (''pTime'', CPtr
      ''XLuint64'')],
      CProto ''xlGetChannelTime'' (XLstatus) [(''portHandle'', XLportHandle), (''accessMask'',
      XLaccess), (''pChannelTime'', CPtr ''XLuint64'')]]"

definition XL_prototypes_4 :: "cproto list" where
  "XL_prototypes_4 =
     [CProto ''xlGenerateSyncPulse'' (XLstatus) [(''portHandle'', XLportHandle), (''accessMask'',
      XLaccess)],
      CProto ''xlPopupHwConfig'' (XLstatus) [(''callSign'', CPtr ''char''), (''waitForFinish'',
      CInt False 4)],
      CProto ''xlDeactivateChannel'' (XLstatus) [(''portHandle'', XLportHandle), (''accessMask'',
      XLaccess)],
      CProto ''xlClosePort'' (XLstatus) [(''portHandle'', XLportHandle)],
      CProto ''xlCanFlushTransmitQueue'' (XLstatus) [(''portHandle'', XLportHandle),
      (''accessMask'', XLaccess)],
      CProto ''xlCanSetChannelOutput'' (XLstatus) [(''portHandle'', XLportHandle),
      (''accessMask'', XLaccess), (''mode'', CInt True 4)],
      CProto ''xlCanSetChannelMode'' (XLstatus) [(''portHandle'', XLportHandle), (''accessMask'',
      XLaccess), (''tx'', CInt True 4), (''txrq'', CInt True 4)],
      CProto ''xlCanSetReceiveMode'' (XLstatus) [(''Port'', XLportHandle), (''ErrorFrame'', CInt
      False 1), (''ChipState'', CInt False 1)],
      CProto ''xlCanSetChannelTransceiver'' (XLstatus) [(''portHandle'', XLportHandle),
      (''accessMask'', XLaccess), (''type'', CInt True 4), (''lineMode'', CInt True 4),
      (''resNet'', CInt True 4)],
      CProto ''xlCanSetChannelParams'' (XLstatus) [(''portHandle'', XLportHandle),
      (''accessMask'', XLaccess), (''pChipParams'', CPtr ''XLchipParams'')],
      CProto ''xlCanSetChannelParamsC200'' (XLstatus) [(''portHandle'', XLportHandle),
      (''accessMask'', XLaccess), (''btr0'', CInt False 1), (''btr1'', CInt False 1)],
      CProto ''xlCanSetChannelBitrate'' (XLstatus) [(''portHandle'', XLportHandle),
      (''accessMask'', XLaccess), (''bitrate'', XLulong)],
      CProto ''xlCanFdSetConfiguration'' (XLstatus) [(''portHandle'', XLportHandle),
      (''accessMask'', XLaccess), (''pCanFdConf'', CPtr ''XLcanFdConf'')],
      CProto ''xlCanReceive'' (XLstatus) [(''portHandle'', XLportHandle), (''pXlCanRxEvt'', CPtr
      ''XLcanRxEvent'')]]"

definition XL_prototypes_5 :: "cproto list" where
  "XL_prototypes_5 =
     [CProto ''xlCanTransmitEx'' (XLstatus) [(''portHandle'', XLportHandle), (''accessMask'',
      XLaccess), (''msgCnt'', CInt False 4), (''pMsgCntSent'', CPtr ''uint''), (''pXlCanTxEvt'',
      CPtr ''XLcanTxEvent'')],
      CProto ''xlCanSetChannelAcceptance'' (XLstatus) [(''portHandle'', XLportHandle),
      (''accessMask'', XLaccess), (''code'', XLulong), (''mask'', XLulong), (''idRange'', CInt
      False 4)],
      CProto ''xlCanAddAcceptanceRange'' (XLstatus) [(''portHandle'', XLportHandle),
      (''accessMask'', XLaccess), (''first_id'', XLulong), (''last_id'', XLulong)],
      CProto ''xlCanRemoveAcceptanceRange'' (XLstatus) [(''portHandle'', XLportHandle),
      (''accessMask'', XLaccess), (''first_id'', XLulong), (''last_id'', XLulong)],
      CProto ''xlCanResetAcceptance'' (XLstatus) [(''portHandle'', XLportHandle),
      (''accessMask'', XLaccess), (''idRange'', CInt False 4)],
      CProto ''xlCanRequestChipState'' (XLstatus) [(''portHandle'', XLportHandle),
      (''accessMask'', XLaccess)],
      CProto ''xlCanTransmit'' (XLstatus) [(''portHandle'', XLportHandle), (''accessMask'',
      XLaccess), (''pEventCount'', CPtr ''uint''), (''pEvents'', CPtr ''void'')],
      CProto ''xlSetGlobalTimeSync'' (XLstatus) [(''newValue'', XLulong), (''previousValue'',
      CPtr ''XLulong'')],
      CProto ''xlCheckLicense'' (XLstatus) [(''portHandle'', XLportHandle), (''accessMask'',
      XLaccess), (''protectionCode'', XLulong)],
      CProto ''xlGetLicenseInfo'' (XLstatus) [(''channelMask'', XLaccess), (''pLicInfoArray'',
      CPtr ''XLlicenseInfo''), (''licInfoArraySize'', CInt False 4)],
      CProto ''xlLinSetChannelParams'' (XLstatus) [(''portHandle'', XLportHandle),
      (''accessMask'', XLaccess), (''vStatPar'', XLlinStatPar)],
      CProto ''xlLinSetDLC'' (XLstatus) [(''portHandle'', XLportHandle), (''accessMask'',
      XLaccess), (''dlc'', CPtr ''uchar'')],
      CProto ''xlLinSetSlave'' (XLstatus) [(''portHandle'', XLportHandle), (''accessMask'',
      XLaccess), (''linId'', CInt False 1), (''data'', CPtr ''uchar''), (''dlc'', CInt False 1),
      (''checksum'', CInt False 2)],
      CProto ''xlLinSendRequest'' (XLstatus) [(''portHandle'', XLportHandle), (''accessMask'',
      XLaccess), (''linId'', CInt False 1), (''flags'', CInt False 4)],
      CProto ''xlLinSetSleepMode'' (XLstatus) [(''portHandle'', XLportHandle), (''accessMask'',
      XLaccess), (''flags'', CInt False 4), (''linId'', CInt False 1)],
      CProto ''xlLinWakeUp'' (XLstatus) [(''portHandle'', XLportHandle), (''accessMask'',
      XLaccess)],
      CProto ''xlLinSetChecksum'' (XLstatus) [(''portHandle'', XLportHandle), (''accessMask'',
      XLaccess), (''checksum'', CPtr ''uchar'')],
      CProto ''xlLinSwitchSlave'' (XLstatus) [(''portHandle'', XLportHandle), (''accessMask'',
      XLaccess), (''linID'', CInt False 1), (''mode'', CInt False 1)],
      CProto ''xlDAIOSetPWMOutput'' (XLstatus) [(''portHandle'', XLportHandle), (''accessMask'',
      XLaccess), (''frequency'', CInt False 4), (''value'', CInt False 4)],
      CProto ''xlDAIOSetDigitalOutput'' (XLstatus) [(''portHandle'', XLportHandle),
      (''accessMask'', XLaccess), (''outputMask'', CInt False 4), (''valuePattern'', CInt False
      4)],
      CProto ''xlDAIOSetAnalogOutput'' (XLstatus) [(''portHandle'', XLportHandle),
      (''accessMask'', XLaccess), (''analogLine1'', CInt False 4), (''analogLine2'', CInt False
      4), (''analogLine3'', CInt False 4), (''analogLine4'', CInt False 4)],
      CProto ''xlDAIORequestMeasurement'' (XLstatus) [(''portHandle'', XLportHandle),
      (''accessMask'', XLaccess)],
      CProto ''xlDAIOSetDigitalParameters'' (XLstatus) [(''portHandle'', XLportHandle),
      (''accessMask'', XLaccess), (''inputMask'', CInt False 4), (''outputMask'', CInt False 4)],
      CProto ''xlDAIOSetAnalogParameters'' (XLstatus) [(''portHandle'', XLportHandle),
      (''accessMask'', XLaccess), (''inputMask'', CInt False 4), (''outputMask'', CInt False 4),
      (''highRangeMask'', CInt False 4)],
      CProto ''xlDAIOSetAnalogTrigger'' (XLstatus) [(''portHandle'', XLportHandle),
      (''accessMask'', XLaccess), (''triggerMask'', CInt False 4), (''triggerLevel'', CInt False
      4), (''triggerEventMode'', CInt False 4)],
      CProto ''xlDAIOSetMeasurementFrequency'' (XLstatus) [(''portHandle'', XLportHandle),
      (''accessMask'', XLaccess), (''measurementInterval'', CInt False 4)],
      CProto ''xlDAIOSetDigitalTrigger'' (XLstatus) [(''portHandle'', XLportHandle),
      (''accessMask'', XLaccess), (''triggerMask'', CInt False 4)],
      CProto ''xlKlineTransmit'' (XLstatus) [(''portHandle'', XLportHandle), (''accessMask'',
      XLaccess), (''length'', CInt False 4), (''data'', CPtr ''uchar'')],
      CProto ''xlKlineSetUartParams'' (XLstatus) [(''portHandle'', XLportHandle),
      (''accessMask'', XLaccess), (''pxlKlineUartParams'', CPtr ''XLklineUartParameter'')],
      CProto ''xlKlineSwitchHighspeedMode'' (XLstatus) [(''portHandle'', XLportHandle),
      (''accessMask'', XLaccess), (''trxMode'', CInt False 4)],
      CProto ''xlKlineSwitchTesterResistor'' (XLstatus) [(''portHandle'', XLportHandle),
      (''accessMask'', XLaccess), (''testerR'', CInt False 4)]]"

definition XL_prototypes_6 :: "cproto list" where
  "XL_prototypes_6 =
     [CProto ''xlKlineSetBaudrate'' (XLstatus) [(''portHandle'', XLportHandle), (''accessMask'',
      XLaccess), (''baudrate'', CInt False 4)],
      CProto ''xlKlineFastInitTester'' (XLstatus) [(''portHandle'', XLportHandle),
      (''accessMask'', XLaccess), (''length'', CInt False 4), (''data'', CPtr ''uchar''),
      (''pxlKlineInitTester'', CPtr ''XLklineInitTester'')],
      CProto ''xlKlineInit5BdTester'' (XLstatus) [(''portHandle'', XLportHandle),
      (''accessMask'', XLaccess), (''pxlKline5BdTester'', CPtr ''XLkline5BdTester'')],
      CProto ''xlKlineInit5BdEcu'' (XLstatus) [(''portHandle'', XLportHandle), (''accessMask'',
      XLaccess), (''pxlKline5BdEcu'', CPtr ''XLkline5BdEcu'')],
      CProto ''xlKlineSetCommunicationTimingTester'' (XLstatus) [(''portHandle'', XLportHandle),
      (''accessMask'', XLaccess), (''pxlKlineSetComTester'', CPtr ''XLklineSetComTester'')],
      CProto ''xlKlineSetCommunicationTimingEcu'' (XLstatus) [(''portHandle'', XLportHandle),
      (''accessMask'', XLaccess), (''pxlKlineSetComEcu'', CPtr ''XLklineSetComEcu'')],
      CProto ''xlFrSetConfiguration'' (XLstatus) [(''portHandle'', XLportHandle),
      (''accessMask'', XLaccess), (''pxlClusterConfig'', CPtr ''XLfrClusterConfig'')],
      CProto ''xlFrGetChannelConfiguration'' (XLstatus) [(''portHandle'', XLportHandle),
      (''accessMask'', XLaccess), (''pxlFrChannelConfig'', CPtr ''XLfrChannelConfig'')],
      CProto ''xlFrSetMode'' (XLstatus) [(''portHandle'', XLportHandle), (''accessMask'',
      XLaccess), (''pxlFrMode'', CPtr ''XLfrMode'')],
      CProto ''xlFrInitStartupAndSync'' (XLstatus) [(''portHandle'', XLportHandle),
      (''accessMask'', XLaccess), (''pEventBuffer'', CPtr ''XLfrEvent'')],
      CProto ''xlFrSetupSymbolWindow'' (XLstatus) [(''portHandle'', XLportHandle),
      (''accessMask'', XLaccess), (''frChannel'', CInt False 4), (''symbolWindowMask'', CInt
      False 4)],
      CProto ''xlFrReceive'' (XLstatus) [(''portHandle'', XLportHandle), (''pEventBuffer'', CPtr
      ''XLfrEvent'')],
      CProto ''xlFrTransmit'' (XLstatus) [(''portHandle'', XLportHandle), (''accessMask'',
      XLaccess), (''pEventBuffer'', CPtr ''XLfrEvent'')],
      CProto ''xlFrSetTransceiverMode'' (XLstatus) [(''portHandle'', XLportHandle),
      (''accessMask'', XLaccess), (''frChannel'', CInt False 4), (''mode'', CInt False 4)],
      CProto ''xlFrSendSymbolWindow'' (XLstatus) [(''portHandle'', XLportHandle),
      (''accessMask'', XLaccess), (''symbolWindow'', CInt False 4)],
      CProto ''xlFrActivateSpy'' (XLstatus) [(''portHandle'', XLportHandle), (''accessMask'',
      XLaccess), (''mode'', CInt False 4)]]"

definition XL_prototypes_7 :: "cproto list" where
  "XL_prototypes_7 =
     [CProto ''xlFrSetAcceptanceFilter'' (XLstatus) [(''portHandle'', XLportHandle),
      (''accessMask'', XLaccess), (''pAcceptanceFilter'', CPtr ''XLfrAcceptanceFilter'')],
      CProto ''xlGetRemoteDriverConfig'' (XLstatus) [(''pDriverConfig'', CPtr
      ''XLdriverConfig'')],
      CProto ''xlGetRemoteDeviceInfo'' (XLstatus) [(''deviceList'', CPtr
      ''XLremoteDeviceInfo_ptr''), (''nbrOfRemoteDevices'', CPtr ''uint''), (''netSearch'', CInt
      False 4)],
      CProto ''xlReleaseRemoteDeviceInfo'' (XLstatus) [(''deviceList'', CPtr
      ''XLremoteDeviceInfo_ptr'')],
      CProto ''xlAddRemoteDevice'' (XLstatus) [(''remoteHandle'', XLremoteHandle),
      (''deviceMask'', XLdeviceAccess), (''flags'', CInt False 4)],
      CProto ''xlRemoveRemoteDevice'' (XLstatus) [(''remoteHandle'', XLremoteHandle),
      (''deviceMask'', XLdeviceAccess), (''flags'', CInt False 4)],
      CProto ''xlUpdateRemoteDeviceInfo'' (XLstatus) [(''deviceList'', CPtr
      ''XLremoteDeviceInfo''), (''nbrOfRemoteDevices'', CInt False 4)],
      CProto ''xlGetRemoteHwInfo'' (XLstatus) [(''remoteHandle'', XLremoteHandle), (''hwType'',
      CPtr ''int''), (''hwIndex'', CPtr ''int''), (''isPresent'', CPtr ''int'')],
      CProto ''xlRegisterRemoteDevice'' (XLstatus) [(''hwType'', CInt True 4), (''ipAddress'',
      CPtr ''XLipAddress''), (''flags'', CInt False 4)],
      CProto ''xlIoSetTriggerMode'' (XLstatus) [(''portHandle'', XLportHandle), (''accessMask'',
      XLaccess), (''pxlDaioTriggerMode'', CPtr ''XLdaioTriggerMode'')],
      CProto ''xlIoSetDigitalOutput'' (XLstatus) [(''portHandle'', XLportHandle),
      (''accessMask'', XLaccess), (''pxlDaioDigitalParams'', CPtr ''XLdaioDigitalParams'')],
      CProto ''xlIoConfigurePorts'' (XLstatus) [(''portHandle'', XLportHandle), (''accessMask'',
      XLaccess), (''pxlDaioSetPort'', CPtr ''XLdaioSetPort'')],
      CProto ''xlIoSetDigInThreshold'' (XLstatus) [(''portHandle'', XLportHandle),
      (''accessMask'', XLaccess), (''level'', CInt False 4)],
      CProto ''xlIoSetDigOutLevel'' (XLstatus) [(''portHandle'', XLportHandle), (''accessMask'',
      XLaccess), (''level'', CInt False 4)],
      CProto ''xlIoSetAnalogOutput'' (XLstatus) [(''portHandle'', XLportHandle), (''accessMask'',
      XLaccess), (''pxlDaioAnalogParams'', CPtr ''XLdaioAnalogParams'')],
      CProto ''xlIoStartSampling'' (XLstatus) [(''portHandle'', XLportHandle), (''accessMask'',
      XLaccess), (''portTypeMask'', CInt False 4)]]"

definition XL_prototypes_8 :: "cproto list" where
  "XL_prototypes_8 =
     [CProto ''xlEthSetConfig'' (XLstatus) [(''portHandle'', XLportHandle), (''accessMask'',
      XLaccess), (''userHandle'', XLuserHandle), (''config'', CPtr ''T_XL_ETH_CONFIG'')],
      CProto ''xlEthGetConfig'' (XLstatus) [(''portHandle'', XLportHandle), (''accessMask'',
      XLaccess), (''userHandle'', XLuserHandle), (''config'', CPtr ''T_XL_ETH_CONFIG'')],
      CProto ''xlEthReceive'' (XLstatus) [(''portHandle'', XLportHandle), (''ethEventBuffer'',
      CPtr ''T_XL_ETH_EVENT'')],
      CProto ''xlEthSetBypass'' (XLstatus) [(''portHandle'', XLportHandle), (''accessMask'',
      XLaccess), (''userHandle'', XLuserHandle), (''mode'', CInt False 4)],
      CProto ''xlEthTwinkleStatusLed'' (XLstatus) [(''portHandle'', XLportHandle),
      (''accessMask'', XLaccess), (''userHandle'', XLuserHandle)],
      CProto ''xlEthTransmit'' (XLstatus) [(''portHandle'', XLportHandle), (''accessMask'',
      XLaccess), (''userHandle'', XLuserHandle), (''data'', CPtr ''T_XL_ETH_DATAFRAME_TX'')],
      CProto ''xlNetEthOpenNetwork'' (XLstatus) [(''pNetworkName'', CPtr ''char''),
      (''pNetworkHandle'', CPtr ''XLnetworkHandle''), (''pAppName'', CPtr ''char''),
      (''accessType'', CInt False 4), (''queueSize'', CInt False 4)],
      CProto ''xlNetCloseNetwork'' (XLstatus) [(''networkHandle'', XLnetworkHandle)],
      CProto ''xlNetOpenVirtualPort'' (XLstatus) [(''networkHandle'', XLnetworkHandle),
      (''pVPortName'', CPtr ''char''), (''pEthPortHandle'', CPtr ''XLethPortHandle''),
      (''rxHandle'', XLrxHandle)],
      CProto ''xlNetAddVirtualPort'' (XLstatus) [(''networkHandle'', XLnetworkHandle),
      (''pSwitchName'', CPtr ''char''), (''pVPortName'', CPtr ''char''), (''pEthPortHandle'',
      CPtr ''XLethPortHandle''), (''rxHandle'', XLrxHandle)],
      CProto ''xlNetConnectMeasurementPoint'' (XLstatus) [(''networkHandle'', XLnetworkHandle),
      (''pPortName'', CPtr ''char''), (''pEthPortHandle'', CPtr ''XLethPortHandle''),
      (''rxHandle'', XLrxHandle)],
      CProto ''xlNetActivateNetwork'' (XLstatus) [(''networkHandle'', XLnetworkHandle)],
      CProto ''xlNetDeactivateNetwork'' (XLstatus) [(''networkHandle'', XLnetworkHandle)]]"

definition XL_prototypes_9 :: "cproto list" where
  "XL_prototypes_9 =
     [CProto ''xlNetEthSend'' (XLstatus) [(''networkHandle'', XLnetworkHandle),
      (''ethPortHandle'', XLethPortHandle), (''userHandle'', XLuserHandle), (''pEthTxFrame'',
      CPtr ''T_XL_NET_ETH_DATAFRAME_TX'')],
      CProto ''xlNetEthReceive'' (XLstatus) [(''networkHandle'', XLnetworkHandle),
      (''pEventBuffer'', CPtr ''T_XL_NET_ETH_EVENT''), (''pRxHandleCount'', CPtr ''uint''),
      (''pRxHandle'', CPtr ''XLrxHandle'')],
      CProto ''xlNetEthRequestChannelStatus'' (XLstatus) [(''networkHandle'', XLnetworkHandle)],
      CProto ''xlNetSetNotification'' (XLstatus) [(''networkHandle'', XLnetworkHandle),
      (''pHandle'', CPtr ''XLhandle''), (''queueLevel'', CInt True 4)],
      CProto ''xlNetRequestMACAddress'' (XLstatus) [(''networkHandle'', XLnetworkHandle),
      (''pMACAddress'', CPtr ''T_XL_ETH_MAC_ADDRESS'')],
      CProto ''xlNetReleaseMACAddress'' (XLstatus) [(''networkHandle'', XLnetworkHandle),
      (''pMACAddress'', CPtr ''T_XL_ETH_MAC_ADDRESS'')],
      CProto ''xlNetFlushReceiveQueue'' (XLstatus) [(''networkHandle'', XLnetworkHandle)],
      CProto ''xlNetEthTc10WakeUpCmd'' (XLstatus) [(''networkHandle'', XLnetworkHandle),
      (''ethPortHandle'', XLethPortHandle)],
      CProto ''xlA429Receive'' (XLstatus) [(''portHandle'', XLportHandle), (''pXlA429RxEvt'',
      CPtr ''XLa429RxEvent'')],
      CProto ''xlA429SetChannelParams'' (XLstatus) [(''portHandle'', XLportHandle),
      (''accessMask'', XLaccess), (''pXlA429Params'', CPtr ''XL_A429_PARAMS'')],
      CProto ''xlA429Transmit'' (XLstatus) [(''portHandle'', XLportHandle), (''accessMask'',
      XLaccess), (''msgCnt'', CInt False 4), (''pMsgCntSent'', CPtr ''uint''), (''pXlA429MsgTx'',
      CPtr ''XL_A429_MSG_TX'')]]"

definition XL_prototypes_10 :: "cproto list" where
  "XL_prototypes_10 =
     [CProto ''xlGetKeymanBoxes'' (XLstatus) [(''boxCount'', CPtr ''uint'')],
      CProto ''xlGetKeymanInfo'' (XLstatus) [(''boxIndex'', CInt False 4), (''boxMask'', CPtr
      ''uint''), (''boxSerial'', CPtr ''uint''), (''licInfo'', CPtr ''XLuint64'')],
      CProto ''xlTsCreateClock'' (XLstatus) [(''pClockHandle'', CPtr ''XLtsClockHandle''),
      (''timeDomainName'', CPtr ''char''), (''clkType'', CInt True 4), (''apiVersion'', CInt True
      4)],
      CProto ''xlTsDestroyClock'' (XLstatus) [(''clockHandle'', XLtsClockHandle)],
      CProto ''xlTsGetDomainTime'' (XLstatus) [(''clockHandle'', XLtsClockHandle),
      (''domainTime'', CPtr ''XLtsDomainTime''), (''slaveTime'', CPtr ''XLuint64'')],
      CProto ''xlTsSetNotification'' (XLstatus) [(''statusPortHandle'', XLportHandle),
      (''portHandle'', XLportHandle), (''pHandle'', CPtr ''XLhandle'')],
      CProto ''xlNetTsSetNotification'' (XLstatus) [(''statusPortHandle'', XLportHandle),
      (''networkHandle'', XLnetworkHandle), (''pHandle'', CPtr ''XLhandle'')]]"

text \<open>The macros with arguments.\<close>

definition XL_CHANNEL_MASK :: "nat \<Rightarrow> u64" where
  "XL_CHANNEL_MASK x = push_bit x 1"

definition XL_CHANNEL_FLAG_EX_MASK :: "int \<Rightarrow> int" where
  "XL_CHANNEL_FLAG_EX_MASK n = convert False 8 (push_bit (nat n) 1)"

definition CANFD_GET_NUM_DATABYTES :: "int \<Rightarrow> bool \<Rightarrow> bool \<Rightarrow> int" where
  "CANFD_GET_NUM_DATABYTES dlc edl rtr =
     (if rtr then 0
      else if dlc < 9 then dlc
      else if \<not> edl then 8
      else if dlc = 9 then 12
      else if dlc = 10 then 16
      else if dlc = 11 then 20
      else if dlc = 12 then 24
      else if dlc = 13 then 32
      else if dlc = 14 then 48
      else 64)"

definition xl_macros :: macros where
  "xl_macros = [''XL_CHANNEL_FLAG_EX_MASK'' \<mapsto> XL_CHANNEL_FLAG_EX_MASK]"

text \<open>Every structure, macro table and prototype of the header.\<close>

definition XL_structs :: "ctype list" where
  "XL_structs =
     [XLtsLeapSeconds, XLtsClkUuid, XLtsDomainTime, XL_APPLICATION_NOTIFICATION_EV,
     XL_SYNC_PULSE_EV, s_xl_sync_pulse, XLlinStatPar, s_xl_can_msg, s_xl_daio_data,
     XL_IO_DIGITAL_DATA, XL_IO_ANALOG_DATA, s_xl_daio_piggy_data, s_xl_chip_state,
     s_xl_transceiver, s_xl_lin_msg, s_xl_lin_sleep, s_xl_lin_no_ans, s_xl_lin_wake_up,
     s_xl_lin_crc_info, s_xl_lin_msg_api, XL_KLINE_RX_DATA, XL_KLINE_TX_DATA,
     XL_KLINE_TESTER_5BD, XL_KLINE_ECU_5BD, XL_KLINE_TESTER_FI_WU_PATTERN,
     XL_KLINE_ECU_FI_WU_PATTERN, XL_KLINE_CONFIRMATION, XL_KLINE_ERROR_RXTX,
     XL_KLINE_ERROR_TESTER_5BD, XL_KLINE_ERROR_ECU_5BD, XL_KLINE_ERROR_IBS, XL_KLINE_ERROR,
     XL_KLINE_DATA, s_xl_tag_data, s_xl_event, XLcanFdConf, XLchipParams, XLbusParams,
     XL_LICENSE_INFO, XL_CHANNEL_CONFIG, XL_DRIVER_CONFIG, XLacc_filt, XLacceptance, XLipAddress,
     XLremoteLocationConfig, XLremoteDevice, XLremoteDeviceInfo, XLfrClusterConfig,
     XLfrChannelConfig, XLfrMode, XLfrAcceptanceFilter, XL_FR_START_CYCLE_EV, XL_FR_RX_FRAME_EV,
     XL_FR_TX_FRAME_EV, XL_FR_WAKEUP_EV, XL_FR_SYMBOL_WINDOW_EV, XL_FR_STATUS_EV,
     XL_FR_NM_VECTOR_EV, XL_FR_ERROR_POC_MODE_EV, XL_FR_ERROR_SYNC_FRAMES_EV,
     XL_FR_ERROR_CLOCK_CORR_FAILURE_EV, XL_FR_ERROR_NIT_FAILURE_EV, XL_FR_ERROR_CC_ERROR_EV,
     s_xl_fr_error_info, XL_FR_ERROR_EV, XL_FR_SPY_FRAME_EV, XL_FR_SPY_SYMBOL_EV,
     s_xl_fr_tag_data, s_xl_fr_event, XLdaioTriggerMode, XLdaioSetPort, XLdaioDigitalParams,
     XLdaioAnalogParams, XLklineUartParameter, XLklineInitTester, XLkline5BdTester,
     XLkline5BdEcu, XLklineSetComTester, XLklineSetComEcu, T_XL_ETH_FRAME, T_XL_ETH_FRAMEDATA,
     T_XL_ETH_DATAFRAME_RX, T_XL_ETH_DATAFRAME_RX_ERROR, T_XL_ETH_DATAFRAME_TX,
     T_XL_ETH_DATAFRAME_TX_EVENT, T_XL_ETH_DATAFRAME_TX_ERROR, T_XL_ETH_CONFIG_RESULT,
     T_XL_ETH_CHANNEL_STATUS, T_XL_ETH_LOSTEVENT, T_XL_ETH_EVENT, T_XL_NET_ETH_DATAFRAME_RX,
     T_XL_NET_ETH_DATAFRAME_RX_ERROR, T_XL_NET_ETH_EVENT, T_XL_ETH_CONFIG, T_XL_ETH_MAC_ADDRESS,
     XL_CAN_TX_MSG, XLcanTxEvent, XL_CAN_EV_RX_MSG, XL_CAN_EV_TX_REQUEST, XL_CAN_EV_CHIP_STATE,
     XL_CAN_EV_ERROR, XLcanRxEvent, XL_A429_PARAMS, XL_A429_MSG_TX, XL_A429_EV_TX_OK,
     XL_A429_EV_TX_ERR, XL_A429_EV_RX_OK, XL_A429_EV_RX_ERR, XL_A429_EV_BUS_STATISTIC,
     XLa429RxEvent, XLchannelDrvConfigV1, XLchannelDrvConfigListV1, XLdeviceDrvConfigV1,
     XLdeviceDrvConfigListV1, XLvirtualportDrvConfigV1, XLvirtualportDrvConfigListV1,
     XLmeasurementpointDrvConfigV1, XLmeasurementpointDrvConfigListV1, XLswitchDrvConfigV1,
     XLswitchDrvConfigListV1, XLnetworkDrvConfigV1, XLnetworkDrvConfigListV1, XLdllDrvConfigV1,
     XLapiIDriverConfigV1]"

definition XL_tables :: "macro_table list" where
  "XL_tables =
     [XL_bus_types, XL_transceivers_cab, XL_transceivers_piggy, XL_transceivers_modules,
     XL_transceiver_modes, XL_driver_status, XL_extended_errors, XL_event_tags,
     XL_timedomain_flags, XL_notify_reasons, XL_sync_pulse_sources, XL_hardware_types,
     XL_invalid_indices, XL_lin_constants, XL_message_flags, XL_daio_get_modes, XL_chipstat,
     XL_transceiver_reasons, XL_output_modes, XL_app_name_limit, XL_bus_capabilities,
     XL_canfd_options, XL_can_op_modes, XL_invalid_port, XL_connection_info,
     XL_license_name_length, XL_daio_modes, XL_timesync_modes, XL_remote_constants,
     XL_channel_flags, XL_fr_limits, XL_fr_channel_modes, XL_fr_symbols_filters,
     XL_fr_flags_errors, XL_daio_port_types, XL_daio_triggers, XL_daio_port_functions,
     XL_daio_digital_masks, XL_daio_analog_masks, XL_kline_events, XL_kline_constants,
     XL_eth_limits_capabilities, XL_eth_config_values, XL_eth_status_values, XL_eth_error_flags,
     XL_net_constants, XL_invalid_switch, XL_invalid_network_handle, XL_invalid_eth_port,
     XL_invalid_rx_handle, XL_net_config_status, XL_can_limits_flags, XL_can_error_codes,
     XL_can_queue_limits, XL_a429_constants, XL_invalid_config]"

definition XL_functions :: "cproto list" where
  "XL_functions = XL_prototypes_1 @
     XL_prototypes_2 @
     XL_prototypes_3 @
     XL_prototypes_4 @
     XL_prototypes_5 @
     XL_prototypes_6 @
     XL_prototypes_7 @
     XL_prototypes_8 @
     XL_prototypes_9 @
     XL_prototypes_10"

end
