(* ===== verification/Hdr_Toomoss.thy ===== *)
theory Hdr_Toomoss
  imports C_Abi
begin

text \<open>
  toomoss_usb2can.h, the classic CAN interface of USB2XXX.dll (Toomoss adapters): return codes, modes,
  the message, configuration, filter and status structures and the prototypes.
\<close>

unbundle bit_operations_syntax

definition CAN_MSG :: ctype where [hdr_types]:
  "CAN_MSG =
     CStruct 8 [(''ID'', CInt False 4), (''TimeStamp'', CInt False 4), (''RemoteFlag'', CInt
     False 1), (''ExternFlag'', CInt False 1), (''DataLen'', CInt False 1), (''Data'', CArr (CInt
     False 1) 8), (''TimeStampHigh'', CInt False 1)]"

definition CAN_INIT_CONFIG :: ctype where [hdr_types]:
  "CAN_INIT_CONFIG =
     CStruct 8 [(''CAN_BRP'', CInt False 4), (''CAN_SJW'', CInt False 1), (''CAN_BS1'', CInt
     False 1), (''CAN_BS2'', CInt False 1), (''CAN_Mode'', CInt False 1), (''CAN_ABOM'', CInt
     False 1), (''CAN_NART'', CInt False 1), (''CAN_RFLM'', CInt False 1), (''CAN_TXFP'', CInt
     False 1)]"

definition CAN_FILTER_CONFIG :: ctype where [hdr_types]:
  "CAN_FILTER_CONFIG =
     CStruct 8 [(''Enable'', CInt False 1), (''FilterIndex'', CInt False 1), (''FilterMode'',
     CInt False 1), (''ExtFrame'', CInt False 1), (''ID_Std_Ext'', CInt False 4), (''ID_IDE'',
     CInt False 4), (''ID_RTR'', CInt False 4), (''MASK_Std_Ext'', CInt False 4), (''MASK_IDE'',
     CInt False 4), (''MASK_RTR'', CInt False 4)]"

definition CAN_STATUS :: ctype where [hdr_types]:
  "CAN_STATUS =
     CStruct 8 [(''TSR'', CInt False 4), (''ESR'', CInt False 4), (''RECounter'', CInt False 1),
     (''TECounter'', CInt False 1), (''LECode'', CInt False 1), (''ErrFlag'', CInt False 1)]"

definition CBL_CMD_LIST :: ctype where [hdr_types]:
  "CBL_CMD_LIST =
     CStruct 8 [(''Erase'', CInt False 1), (''WriteInfo'', CInt False 1), (''Write'', CInt False
     1), (''Check'', CInt False 1), (''SetBaudRate'', CInt False 1), (''Excute'', CInt False 1),
     (''CmdSuccess'', CInt False 1), (''CmdFaild'', CInt False 1)]"

definition CAN_return_codes :: macro_table where
  "CAN_return_codes =
     [(''CAN_SUCCESS'', Lit 0),
      (''CAN_ERR_NOT_SUPPORT'', Neg (Lit 1)),
      (''CAN_ERR_USB_WRITE_FAIL'', Neg (Lit 2)),
      (''CAN_ERR_USB_READ_FAIL'', Neg (Lit 3)),
      (''CAN_ERR_CMD_FAIL'', Neg (Lit 4)),
      (''CAN_BL_ERR_CONFIG'', Neg (Lit 20)),
      (''CAN_BL_ERR_SEND'', Neg (Lit 21)),
      (''CAN_BL_ERR_TIME_OUT'', Neg (Lit 22)),
      (''CAN_BL_ERR_CMD'', Neg (Lit 23))]"

definition CAN_boot_errors :: macro_table where
  "CAN_boot_errors =
     [(''CAN_BOOT_ERR_CONFIG'', Neg (Lit 30)),
      (''CAN_BOOT_ERR_SEND'', Neg (Lit 31)),
      (''CAN_BOOT_ERR_TIME_OUT'', Neg (Lit 32)),
      (''CAN_BOOT_ERR_CMD'', Neg (Lit 33)),
      (''CAN_BOOT_ERR_BAUD'', Neg (Lit 34)),
      (''CAN_BOOT_ERR_BUFFER'', Neg (Lit 35))]"

definition CAN_boot_firmware :: macro_table where
  "CAN_boot_firmware =
     [(''CAN_BL_BOOT'', Lit 0x55555555),
      (''CAN_BL_APP'', Lit 0xaaaaaaaa)]"

definition CAN_relay_modes :: macro_table where
  "CAN_relay_modes =
     [(''CAN_RELAY_NONE'', Lit 0x00),
      (''CAN_RELAY_CAN1TO2'', Lit 0x01),
      (''CAN_RELAY_CAN2TO1'', Lit 0x10),
      (''CAN_RELAY_CANALL'', Lit 0x11),
      (''CAN_RELAY_ONLINE'', Lit 0x88)]"

definition CAN_bus_errors :: macro_table where
  "CAN_bus_errors =
     [(''CAN_BUS_ERROR_FLAG_TX_RX_WARNING'', Lit 0x01),
      (''CAN_BUS_ERROR_FLAG_BUS_PASSIVE'', Lit 0x02),
      (''CAN_BUS_ERROR_FLAG_TX_BUS_OFF'', Lit 0x04)]"

definition CAN_modes :: macro_table where
  "CAN_modes =
     [(''CAN_MODE_NORMAL'', Lit 0),
      (''CAN_MODE_LOOP_BACK'', Lit 1),
      (''CAN_MODE_EN_RESISTOR'', Lit 0x80),
      (''CAN_MODE_REV_ERROR'', Lit 0x40)]"

definition USB2CAN_prototypes_1 :: "cproto list" where
  "USB2CAN_prototypes_1 =
     [CProto ''CAN_GetCANSpeedArg'' (CInt True 4) [(''DevHandle'', CInt True 4), (''pCanConfig'',
      CPtr ''CAN_INIT_CONFIG''), (''BaudRateBps'', CInt False 4)],
      CProto ''CAN_Init'' (CInt True 4) [(''DevHandle'', CInt True 4), (''CANIndex'', CInt False
      1), (''pCanConfig'', CPtr ''CAN_INIT_CONFIG'')],
      CProto ''CAN_Init2'' (CInt True 4) [(''DevHandle'', CInt True 4), (''CANIndex'', CInt False
      1), (''BaudRateBps'', CInt True 4), (''EnResistor'', CInt False 1)],
      CProto ''CAN_Filter_Init'' (CInt True 4) [(''DevHandle'', CInt True 4), (''CANIndex'', CInt
      False 1), (''pFilterConfig'', CPtr ''CAN_FILTER_CONFIG'')],
      CProto ''CAN_FilterList_Init'' (CInt True 4) [(''DevHandle'', CInt True 4), (''CANIndex'',
      CInt False 1), (''pIDList'', CPtr ''uint''), (''IDListLen'', CInt False 1)],
      CProto ''CAN_StartGetMsg'' (CInt True 4) [(''DevHandle'', CInt True 4), (''CANIndex'', CInt
      False 1)],
      CProto ''CAN_StopGetMsg'' (CInt True 4) [(''DevHandle'', CInt True 4), (''CANIndex'', CInt
      False 1)],
      CProto ''CAN_SendMsg'' (CInt True 4) [(''DevHandle'', CInt True 4), (''CANIndex'', CInt
      False 1), (''pCanSendMsg'', CPtr ''CAN_MSG''), (''SendMsgNum'', CInt False 4)],
      CProto ''CAN_SendMsgSynch'' (CInt True 4) [(''DevHandle'', CInt True 4), (''CANIndex'',
      CInt False 1), (''pCanSendMsg'', CPtr ''CAN_MSG''), (''SendMsgNum'', CInt False 4)],
      CProto ''CAN_SendMsgWithTime'' (CInt True 4) [(''DevHandle'', CInt True 4), (''CANIndex'',
      CInt False 1), (''pCanSendMsg'', CPtr ''CAN_MSG''), (''SendMsgNum'', CInt False 4)],
      CProto ''CAN_GetMsg'' (CInt True 4) [(''DevHandle'', CInt True 4), (''CANIndex'', CInt
      False 1), (''pCanGetMsg'', CPtr ''CAN_MSG'')],
      CProto ''CAN_GetMsgWithSize'' (CInt True 4) [(''DevHandle'', CInt True 4), (''CANIndex'',
      CInt False 1), (''pCanGetMsg'', CPtr ''CAN_MSG''), (''BufferSize'', CInt True 4)],
      CProto ''CAN_ClearMsg'' (CInt True 4) [(''DevHandle'', CInt True 4), (''CANIndex'', CInt
      False 1)]]"

definition USB2CAN_prototypes_2 :: "cproto list" where
  "USB2CAN_prototypes_2 =
     [CProto ''CAN_GetStatus'' (CInt True 4) [(''DevHandle'', CInt True 4), (''CANIndex'', CInt
      False 1), (''pCANStatus'', CPtr ''CAN_STATUS'')],
      CProto ''CAN_SetSchedule'' (CInt True 4) [(''DevHandle'', CInt True 4), (''CANIndex'', CInt
      False 1), (''pCanMsgTab'', CPtr ''CAN_MSG''), (''pMsgNum'', CPtr ''uchar''),
      (''pSendTimes'', CPtr ''ushort''), (''MsgTabNum'', CInt False 1)],
      CProto ''CAN_StartSchedule'' (CInt True 4) [(''DevHandle'', CInt True 4), (''CANIndex'',
      CInt False 1), (''MsgTabIndex'', CInt False 1), (''TimePrecMs'', CInt False 1),
      (''OrderSend'', CInt False 1)],
      CProto ''CAN_UpdateSchedule'' (CInt True 4) [(''DevHandle'', CInt True 4), (''CANIndex'',
      CInt False 1), (''MsgTabIndex'', CInt False 1), (''MsgIndex'', CInt False 1), (''pCanMsg'',
      CPtr ''CAN_MSG''), (''MsgNum'', CInt False 1)],
      CProto ''CAN_StopSchedule'' (CInt True 4) [(''DevHandle'', CInt True 4), (''CANIndex'',
      CInt False 1)],
      CProto ''CAN_SetRelayData'' (CInt True 4) [(''DevHandle'', CInt True 4),
      (''pCANRelayHead'', CPtr ''CAN_RELAY_HEAD''), (''pCANRelayData'', CPtr ''CAN_RELAY_DATA'')],
      CProto ''CAN_GetRelayData'' (CInt True 4) [(''DevHandle'', CInt True 4),
      (''pCANRelayHead'', CPtr ''CAN_RELAY_HEAD''), (''pCANRelayData'', CPtr ''CAN_RELAY_DATA'')],
      CProto ''CAN_SetRelay'' (CInt True 4) [(''DevHandle'', CInt True 4), (''RelayState'', CInt
      False 1)],
      CProto ''CAN_Stop'' (CInt True 4) [(''DevHandle'', CInt True 4), (''CANIndex'', CInt False
      1)],
      CProto ''CAN_GetMsgSendTimeUs'' (CInt True 4) [(''pMsg'', CPtr ''CAN_MSG''), (''SpeedBps'',
      CInt True 4)],
      CProto ''CAN_BL_Init'' (CInt True 4) [(''DevHandle'', CInt True 4), (''CANIndex'', CInt
      True 4), (''pInitConfig'', CPtr ''CAN_INIT_CONFIG''), (''pCmdList'', CPtr
      ''CBL_CMD_LIST'')],
      CProto ''CAN_BL_NodeCheck'' (CInt True 4) [(''DevHandle'', CInt True 4), (''CANIndex'',
      CInt True 4), (''NodeAddr'', CInt False 2), (''pVersion'', CPtr ''uint''), (''pType'', CPtr
      ''uint''), (''TimeOut'', CInt False 4)]]"

definition USB2CAN_prototypes_3 :: "cproto list" where
  "USB2CAN_prototypes_3 =
     [CProto ''CAN_BL_Erase'' (CInt True 4) [(''DevHandle'', CInt True 4), (''CANIndex'', CInt
      True 4), (''NodeAddr'', CInt False 2), (''FlashSize'', CInt False 4), (''TimeOut'', CInt
      False 4)],
      CProto ''CAN_BL_Write'' (CInt True 4) [(''DevHandle'', CInt True 4), (''CANIndex'', CInt
      True 4), (''NodeAddr'', CInt False 2), (''AddrOffset'', CInt False 4), (''pData'', CPtr
      ''uchar''), (''DataNum'', CInt False 4), (''TimeOut'', CInt False 4)],
      CProto ''CAN_BL_Excute'' (CInt True 4) [(''DevHandle'', CInt True 4), (''CANIndex'', CInt
      True 4), (''NodeAddr'', CInt False 2), (''Type'', CInt False 4)],
      CProto ''CAN_BL_SetNewBaudRate'' (CInt True 4) [(''DevHandle'', CInt True 4),
      (''CANIndex'', CInt True 4), (''NodeAddr'', CInt False 2), (''pInitConfig'', CPtr
      ''CAN_INIT_CONFIG''), (''NewBaudRate'', CInt False 4), (''TimeOut'', CInt False 4)],
      CProto ''CAN_DecodeListFile'' (CInt True 4) [(''pFileName'', CPtr ''char''),
      (''pIgnoreIDList'', CPtr ''uint''), (''IgnoreIDListLen'', CInt True 4)],
      CProto ''CAN_GetListFileMsg'' (CInt True 4) [(''MsgIndex'', CInt True 4), (''MsgLen'', CInt
      True 4), (''pCANMsg'', CPtr ''CAN_MSG'')],
      CProto ''CAN_GetStartTime'' (CInt True 8) [(''DevHandle'', CInt True 4), (''CANIndex'',
      CInt False 1)],
      CProto ''CAN_ResetStartTime'' (CInt True 4) [(''DevHandle'', CInt True 4), (''CANIndex'',
      CInt False 1)],
      CProto ''CAN_SetStartTime'' (CInt True 4) [(''DevHandle'', CInt True 4), (''CANIndex'',
      CInt False 1), (''StartTimeMs'', CInt True 8)]]"

text \<open>Every structure, macro table and prototype of the header.\<close>

definition USB2CAN_structs :: "ctype list" where
  "USB2CAN_structs =
     [CAN_MSG, CAN_INIT_CONFIG, CAN_FILTER_CONFIG, CAN_STATUS, CBL_CMD_LIST]"

definition USB2CAN_tables :: "macro_table list" where
  "USB2CAN_tables =
     [CAN_return_codes, CAN_boot_errors, CAN_boot_firmware, CAN_relay_modes, CAN_bus_errors,
     CAN_modes]"

definition USB2CAN_functions :: "cproto list" where
  "USB2CAN_functions = USB2CAN_prototypes_1 @
     USB2CAN_prototypes_2 @
     USB2CAN_prototypes_3"

end
