(* ===== verification/Hdr_Canalyst.thy ===== *)
theory Hdr_Canalyst
  imports C_Abi
begin

text \<open>
  canalystii_cantrolcan.h, the interface of ControlCAN.dll (CANalyst-II adapters): device types and
  status codes, the structures the calls exchange and the prototypes.
\<close>

unbundle bit_operations_syntax

definition VCI_device_types :: macro_table where
  "VCI_device_types =
     [(''VCI_USBCAN1'', Lit 3),
      (''VCI_USBCAN2'', Lit 4),
      (''ERR_CAN_OVERFLOW'', Lit 0x0001),
      (''ERR_CAN_ERRALARM'', Lit 0x0002),
      (''ERR_CAN_PASSIVE'', Lit 0x0004),
      (''ERR_CAN_LOSE'', Lit 0x0008),
      (''ERR_CAN_BUSERR'', Lit 0x0010),
      (''ERR_CAN_BUSOFF'', Lit 0x0020),
      (''ERR_DEVICEOPENED'', Lit 0x0100),
      (''ERR_DEVICEOPEN'', Lit 0x0200),
      (''ERR_DEVICENOTOPEN'', Lit 0x0400),
      (''ERR_BUFFEROVERFLOW'', Lit 0x0800),
      (''ERR_DEVICENOTEXIST'', Lit 0x1000),
      (''ERR_LOADKERNELDLL'', Lit 0x2000),
      (''ERR_CMDFAILED'', Lit 0x4000),
      (''ERR_BUFFERCREATE'', Lit 0x8000)]"

definition VCI_status_codes :: macro_table where
  "VCI_status_codes =
     [(''STATUS_OK'', Lit 1),
      (''STATUS_ERR'', Lit 0)]"

definition VCI_BOARD_INFO :: ctype where [hdr_types]:
  "VCI_BOARD_INFO =
     CStruct 8 [(''hw_Version'', CInt False 2), (''fw_Version'', CInt False 2), (''dr_Version'',
     CInt False 2), (''in_Version'', CInt False 2), (''irq_Num'', CInt False 2), (''can_Num'',
     CInt False 1), (''str_Serial_Num'', CArr (CInt False 1) 20), (''str_hw_Type'', CArr (CInt
     False 1) 40), (''Reserved'', CArr (CInt False 2) 4)]"

definition VCI_BOARD_INFO_EX :: ctype where [hdr_types]:
  "VCI_BOARD_INFO_EX =
     CStruct 8 [(''ProductName'', CArr (CInt False 1) 32), (''FirmwareVersion'', CArr (CInt False
     1) 4), (''HardwareVersion'', CArr (CInt False 1) 4), (''SerialNumber'', CArr (CInt False 1)
     12)]"

definition VCI_CAN_OBJ :: ctype where [hdr_types]:
  "VCI_CAN_OBJ =
     CStruct 8 [(''ID'', CInt False 4), (''TimeStamp'', CInt False 4), (''TimeFlag'', CInt False
     1), (''SendType'', CInt False 1), (''RemoteFlag'', CInt False 1), (''ExternFlag'', CInt
     False 1), (''DataLen'', CInt False 1), (''Data'', CArr (CInt False 1) 8), (''Reserved'',
     CArr (CInt False 1) 3)]"

definition VCI_CAN_STATUS :: ctype where [hdr_types]:
  "VCI_CAN_STATUS =
     CStruct 8 [(''ErrInterrupt'', CInt False 1), (''regMode'', CInt False 1), (''regStatus'',
     CInt False 1), (''regALCapture'', CInt False 1), (''regECCapture'', CInt False 1),
     (''regEWLimit'', CInt False 1), (''regRECounter'', CInt False 1), (''regTECounter'', CInt
     False 1), (''regESR'', CInt False 4), (''regTSR'', CInt False 4), (''BufferSize'', CInt
     False 4), (''Reserved'', CInt False 4)]"

definition VCI_ERR_INFO :: ctype where [hdr_types]:
  "VCI_ERR_INFO =
     CStruct 8 [(''ErrCode'', CInt False 4), (''Passive_ErrData'', CArr (CInt False 1) 3),
     (''ArLost_ErrData'', CInt False 1)]"

definition VCI_INIT_CONFIG :: ctype where [hdr_types]:
  "VCI_INIT_CONFIG =
     CStruct 8 [(''AccCode'', CInt False 4), (''AccMask'', CInt False 4), (''Reserved'', CInt
     False 4), (''Filter'', CInt False 1), (''Timing0'', CInt False 1), (''Timing1'', CInt False
     1), (''Mode'', CInt False 1)]"

definition VCI_FILTER_CONFIG :: ctype where [hdr_types]:
  "VCI_FILTER_CONFIG =
     CStruct 8 [(''Enable'', CInt False 1), (''FilterIndex'', CInt False 1), (''FilterMode'',
     CInt False 1), (''ExtFrame'', CInt False 1), (''ID_Std_Ext'', CInt False 4), (''ID_IDE'',
     CInt False 4), (''ID_RTR'', CInt False 4), (''MASK_Std_Ext'', CInt False 4), (''MASK_IDE'',
     CInt False 4), (''MASK_RTR'', CInt False 4), (''Reserved'', CInt False 4)]"

definition VCI_prototypes :: "cproto list" where
  "VCI_prototypes =
     [CProto ''VCI_ScanDevice'' (CInt False 4) [(''NeedInit'', CInt False 1)],
      CProto ''VCI_OpenDevice'' (CInt False 4) [(''DevType'', CInt False 4), (''DevIndex'', CInt
      False 4), (''Reserved'', CInt False 4)],
      CProto ''VCI_CloseDevice'' (CInt False 4) [(''DevType'', CInt False 4), (''DevIndex'', CInt
      False 4)],
      CProto ''VCI_InitCAN'' (CInt False 4) [(''DevType'', CInt False 4), (''DevIndex'', CInt
      False 4), (''CANIndex'', CInt False 4), (''pInitConfig'', (CPtr ''VCI_INIT_CONFIG''))],
      CProto ''VCI_ReadBoardInfo'' (CInt False 4) [(''DevType'', CInt False 4), (''DevIndex'',
      CInt False 4), (''pInfo'', (CPtr ''VCI_BOARD_INFO''))],
      CProto ''VCI_ReadErrInfo'' (CInt False 4) [(''DevType'', CInt False 4), (''DevIndex'', CInt
      False 4), (''CANIndex'', CInt False 4), (''pErrInfo'', (CPtr ''VCI_ERR_INFO''))],
      CProto ''VCI_ReadCANStatus'' (CInt False 4) [(''DevType'', CInt False 4), (''DevIndex'',
      CInt False 4), (''CANIndex'', CInt False 4), (''pCANStatus'', (CPtr ''VCI_CAN_STATUS''))],
      CProto ''VCI_GetReference'' (CInt False 4) [(''DevType'', CInt False 4), (''DevIndex'',
      CInt False 4), (''CANIndex'', CInt False 4), (''RefType'', CInt False 4), (''pData'', CPtr
      ''void'')],
      CProto ''VCI_SetReference'' (CInt False 4) [(''DevType'', CInt False 4), (''DevIndex'',
      CInt False 4), (''CANIndex'', CInt False 4), (''RefType'', CInt False 4), (''pData'', CPtr
      ''void'')],
      CProto ''VCI_SetFilter'' (CInt False 4) [(''DevType'', CInt False 4), (''DevIndex'', CInt
      False 4), (''CANIndex'', CInt False 4), (''pFilter'', (CPtr ''VCI_FILTER_CONFIG''))],
      CProto ''VCI_GetReceiveNum'' (CInt False 4) [(''DevType'', CInt False 4), (''DevIndex'',
      CInt False 4), (''CANIndex'', CInt False 4)],
      CProto ''VCI_ClearBuffer'' (CInt False 4) [(''DevType'', CInt False 4), (''DevIndex'', CInt
      False 4), (''CANIndex'', CInt False 4)],
      CProto ''VCI_StartCAN'' (CInt False 4) [(''DevType'', CInt False 4), (''DevIndex'', CInt
      False 4), (''CANIndex'', CInt False 4)],
      CProto ''VCI_ResetCAN'' (CInt False 4) [(''DevType'', CInt False 4), (''DevIndex'', CInt
      False 4), (''CANIndex'', CInt False 4)],
      CProto ''VCI_Transmit'' (CInt False 4) [(''DevType'', CInt False 4), (''DevIndex'', CInt
      False 4), (''CANIndex'', CInt False 4), (''pSend'', (CPtr ''VCI_CAN_OBJ'')), (''Len'', CInt
      False 4)],
      CProto ''VCI_Receive'' (CInt False 4) [(''DevType'', CInt False 4), (''DevIndex'', CInt
      False 4), (''CANIndex'', CInt False 4), (''pReceive'', (CPtr ''VCI_CAN_OBJ'')), (''Len'',
      CInt False 4), (''WaitTime'', CInt True 4)]]"

text \<open>Every structure, macro table and prototype of the header.\<close>

definition VCI_structs :: "ctype list" where
  "VCI_structs =
     [VCI_BOARD_INFO, VCI_BOARD_INFO_EX, VCI_CAN_OBJ, VCI_CAN_STATUS, VCI_ERR_INFO,
     VCI_INIT_CONFIG, VCI_FILTER_CONFIG]"

definition VCI_tables :: "macro_table list" where
  "VCI_tables =
     [VCI_device_types, VCI_status_codes]"

definition VCI_functions :: "cproto list" where
  "VCI_functions = VCI_prototypes"

end
