(* ===== verification/Abi_Layout.thy ===== *)
theory Abi_Layout
  imports Hdr_Tsmaster Hdr_Vector Hdr_Pcan Hdr_Toomoss Hdr_Canalyst
begin

text \<open>
  The memory the Go drivers share with the vendor DLLs. The first part is about the headers alone:
  the layout of every structure they declare is sound, and the sizes the vendors document come out.
  The second part has the Go structures the drivers pass by pointer, with the layout the Go compiler
  gives them, and compares them member by member with the structures of the headers.
\<close>

section \<open>The structures of the headers\<close>

definition header_structs :: "ctype list" where
  "header_structs = TS_structs @ XL_structs @ PCAN_structs @ USB2CAN_structs @ VCI_structs"

text \<open>
  A layout is sound when every member is aligned, the members of a structure follow each other
  without overlap, those of a union start together, they end before the end of the whole, and the
  size is a multiple of the alignment.
\<close>

fun sound_layout :: "nat \<Rightarrow> ctype \<Rightarrow> bool" where
  "sound_layout p (CStruct k ms) \<longleftrightarrow>
     (\<forall>(x, o', t) \<in> set (members p (CStruct k ms)).
        min k (align_of p t) dvd o' \<and> o' + size_of p t \<le> size_of p (CStruct k ms)) \<and>
     sorted_wrt (\<lambda>(x, o1, t) (y, o2, u). o1 + size_of p t \<le> o2) (members p (CStruct k ms)) \<and>
     align_of p (CStruct k ms) dvd size_of p (CStruct k ms)"
| "sound_layout p (CUnion k ms) \<longleftrightarrow>
     (\<forall>(x, o', t) \<in> set (members p (CUnion k ms)). o' = 0 \<and> size_of p t \<le> size_of p (CUnion k ms)) \<and>
     align_of p (CUnion k ms) dvd size_of p (CUnion k ms)"
| "sound_layout p t \<longleftrightarrow> False"

fun aggregate :: "ctype \<Rightarrow> bool" where
  "aggregate (CStruct k ms) = True"
| "aggregate (CUnion k ms) = True"
| "aggregate t = False"

definition good_struct :: "ctype \<Rightarrow> bool" where
  "good_struct t \<longleftrightarrow> wf_ctype t \<and> aggregate t"

lemma members_max_ge: "(x, t) \<in> set ms \<Longrightarrow> size_of p t \<le> members_max p ms"
  by (induction ms) (auto simp: le_max_iff_disj)

lemma union_layout_sound: "sound_layout p (CUnion k ms)"
proof -
  have "members_max p ms \<le> round_up (members_max p ms) (members_align p k ms)"
    by (rule round_up_ge [OF members_align_pos])
  then show ?thesis using members_max_ge [of _ _ ms p] by (fastforce intro: order_trans)
qed

lemma sound_struct: "p \<in> {4, 8} \<Longrightarrow> good_struct t \<Longrightarrow> sound_layout p t"
proof (cases t)
  case (CStruct k ms)
  assume "p \<in> {4, 8}" "good_struct t"
  then show ?thesis
    unfolding CStruct sound_layout.simps(1) good_struct_def by (intro struct_layout_sound) simp_all
qed (simp_all only: good_struct_def aggregate.simps union_layout_sound simp_thms)

lemma XL_structs_good: "list_all good_struct XL_structs"
  by (simp only: XL_structs_def list.pred_inject, intro conjI)
    (simp_all add: hdr_types good_struct_def)

lemma TS_structs_good: "list_all good_struct TS_structs"
  by (simp only: TS_structs_def list.pred_inject, intro conjI)
    (simp_all add: hdr_types good_struct_def)

lemma other_structs_good: "list_all good_struct (PCAN_structs @ USB2CAN_structs @ VCI_structs)"
  by (simp only: PCAN_structs_def USB2CAN_structs_def VCI_structs_def list.pred_inject append.simps,
      intro conjI) (simp_all add: hdr_types good_struct_def)

lemma header_structs_good: "list_all good_struct header_structs"
  unfolding header_structs_def list_all_append
  using TS_structs_good XL_structs_good other_structs_good by simp

text \<open>The size a structure has whatever the size of a pointer.\<close>

definition size_is :: "ctype \<Rightarrow> nat \<Rightarrow> bool" where
  "size_is t n \<longleftrightarrow> size_of 4 t = n \<and> size_of 8 t = n"

lemma xl_sizes:
  "size_is s_xl_can_msg 32" "size_is s_xl_daio_data 32" "size_is s_xl_tag_data 32"
  "size_is XLevent 48" "size_is XLcanRxEvent 128" "size_is XLcanTxEvent 88" "size_is XLcanFdConf 40"
  by (simp_all add: size_is_def hdr_types layout_simps)

lemma xl_fr_sizes:
  "size_is XLfrEvent 512" "map_option fst (member_path 8 [''tagData''] XLfrEvent) = Some 32"
  by (simp_all add: size_is_def hdr_types layout_simps)

lemma other_sizes:
  "size_is TCAN_type 24" "size_is TCANFD_type 80" "size_is VCI_CAN_OBJ 24" "size_is CAN_MSG 20"
  "size_is TPCANMsg 16" "size_is TPCANMsgFD 72" "size_is TPCANTimestamp 8"
  by (simp_all add: size_is_def hdr_types layout_simps)


section \<open>The structures of the Go drivers\<close>

text \<open>
  The Go compiler aligns a field to its natural alignment, at most the size of a pointer; \<open>int\<close> and
  \<open>uint\<close> are as wide as a pointer.
\<close>

definition go_pcanMsg :: "nat \<Rightarrow> ctype" where
  "go_pcanMsg p = CStruct p [(''ID'', CInt False 4), (''MsgType'', CInt False 1),
     (''Len'', CInt False 1), (''Data'', CArr (CInt False 1) 8)]"

definition go_pcanMsgFD :: "nat \<Rightarrow> ctype" where
  "go_pcanMsgFD p = CStruct p [(''ID'', CInt False 4), (''MsgType'', CInt False 1),
     (''DLC'', CInt False 1), (''Data'', CArr (CInt False 1) 64)]"

definition go_pcanTimestamp :: "nat \<Rightarrow> ctype" where
  "go_pcanTimestamp p = CStruct p [(''Millis'', CInt False 4), (''MillisOverflow'', CInt False 2),
     (''Micros'', CInt False 2)]"

definition go_VCI_INIT_CONFIG :: "nat \<Rightarrow> ctype" where
  "go_VCI_INIT_CONFIG p = CStruct p [(''AccCode'', CInt False 4), (''AccMask'', CInt False 4),
     (''Reserved'', CInt False 4), (''Filter'', CInt False 1), (''Timing0'', CInt False 1),
     (''Timing1'', CInt False 1), (''Mode'', CInt False 1)]"

definition go_VCI_CAN_OBJ :: "nat \<Rightarrow> ctype" where
  "go_VCI_CAN_OBJ p = CStruct p [(''ID'', CInt False 4), (''TimeStamp'', CInt False 4),
     (''TimeFlag'', CInt False 1), (''SendType'', CInt False 1), (''RemoteFlag'', CInt False 1),
     (''ExternFlag'', CInt False 1), (''DataLen'', CInt False 1), (''Data'', CArr (CInt False 1) 8),
     (''Reserved'', CArr (CInt False 1) 3)]"

definition go_CAN_INIT_CONFIG :: "nat \<Rightarrow> ctype" where
  "go_CAN_INIT_CONFIG p = CStruct p [(''CAN_BRP'', CInt False p), (''CAN_SJW'', CInt False 1),
     (''CAN_BS1'', CInt False 1), (''CAN_BS2'', CInt False 1), (''CAN_Mode'', CInt False 1),
     (''CAN_ABOM'', CInt False 1), (''CAN_NART'', CInt False 1), (''CAN_RFLM'', CInt False 1),
     (''CAN_TXFP'', CInt False 1)]"

definition go_CAN_MSG :: "nat \<Rightarrow> ctype" where
  "go_CAN_MSG p = CStruct p [(''ID'', CInt True 4), (''TimeStamp'', CInt False 4),
     (''RemoteFlag'', CInt False 1), (''ExternFlag'', CInt False 1), (''DataLen'', CInt False 1),
     (''Data'', CArr (CInt False 1) 8), (''TimeStampHigh'', CInt False 1)]"

definition go_CANFD_MSG :: "nat \<Rightarrow> ctype" where
  "go_CANFD_MSG p = CStruct p [(''ID'', CInt False 4), (''DLC'', CInt False 1), (''Flags'', CInt False 1),
     (''__Res0'', CInt False 1), (''TimeStampHigh'', CInt False 1), (''TimeStamp'', CInt False 4),
     (''Data'', CArr (CInt False 1) 64)]"

definition go_TLIBCANFD :: "nat \<Rightarrow> ctype" where
  "go_TLIBCANFD p = CStruct p [(''FIdxChn'', CInt False 1), (''FProperties'', CInt False 1),
     (''FDLC'', CInt False 1), (''FFDProperties'', CInt False 1), (''FIdentifier'', CInt True 4),
     (''FTimeUs'', CInt True 8), (''FData'', CArr (CInt False 1) 64)]"

definition go_TLIBCAN :: "nat \<Rightarrow> ctype" where
  "go_TLIBCAN p = CStruct p [(''FIdxChn'', CInt False 1), (''FProperties'', CInt False 1),
     (''FDLC'', CInt False 1), (''FReserved'', CInt False 1), (''FIdentifier'', CInt True 4),
     (''FTimeUs'', CInt True 8), (''FData'', CArr (CInt False 1) 8)]"

definition go_xlCanMsg :: "nat \<Rightarrow> ctype" where
  "go_xlCanMsg p = CStruct p [(''ID'', CInt False 4), (''Flags'', CInt False 2), (''DLC'', CInt False 2),
     (''Res1'', CInt False 8), (''Data'', CArr (CInt False 1) 8), (''Res2'', CInt False 8)]"

definition go_xlEventTagData :: "nat \<Rightarrow> ctype" where
  "go_xlEventTagData p = CStruct p [(''Msg'', go_xlCanMsg p)]"

definition go_xlEvent :: "nat \<Rightarrow> ctype" where
  "go_xlEvent p = CStruct p [(''Tag'', CInt False 1), (''ChanIndex'', CInt False 1),
     (''TransID'', CInt False 2), (''PortHandle'', CInt False 2), (''Flags'', CInt False 1),
     (''Reserved'', CInt False 1), (''TimeStamp'', CInt False 8), (''TagData'', go_xlEventTagData p)]"

definition go_xlCanRxMsg :: "nat \<Rightarrow> ctype" where
  "go_xlCanRxMsg p = CStruct p [(''CanID'', CInt False 4), (''MsgFlags'', CInt False 4),
     (''CRC'', CInt False 4), (''Reserved1'', CArr (CInt False 1) 12), (''TotalBitCnt'', CInt False 2),
     (''DLC'', CInt False 1), (''Reserved'', CArr (CInt False 1) 5), (''Data'', CArr (CInt False 1) 64)]"

definition go_xlCanRxTagData :: "nat \<Rightarrow> ctype" where
  "go_xlCanRxTagData p = CStruct p [(''CanRxOkMsg'', go_xlCanRxMsg p)]"

definition go_xlCanRxEvent :: "nat \<Rightarrow> ctype" where
  "go_xlCanRxEvent p = CStruct p [(''Size'', CInt True 4), (''Tag'', CInt False 2),
     (''ChanIndex'', CInt False 1), (''Reserved'', CInt False 1), (''UserHandle'', CInt True 4),
     (''FlagsChip'', CInt False 2), (''Reserved0'', CInt False 2), (''Reserved1'', CInt False 8),
     (''TimeStamp'', CInt False 8), (''TagData'', go_xlCanRxTagData p)]"

definition go_xlCanTxMsg :: "nat \<Rightarrow> ctype" where
  "go_xlCanTxMsg p = CStruct p [(''CanID'', CInt False 4), (''MsgFlags'', CInt False 4),
     (''DLC'', CInt False 1), (''Reserved'', CArr (CInt False 1) 7), (''Data'', CArr (CInt False 1) 64)]"

definition go_xlCanTxTagData :: "nat \<Rightarrow> ctype" where
  "go_xlCanTxTagData p = CStruct p [(''CanMsg'', go_xlCanTxMsg p)]"

definition go_xlCanTxEvent :: "nat \<Rightarrow> ctype" where
  "go_xlCanTxEvent p = CStruct p [(''Tag'', CInt False 2), (''TransID'', CInt False 2),
     (''ChanIndex'', CInt False 1), (''Reserved'', CArr (CInt False 1) 3),
     (''TagData'', go_xlCanTxTagData p)]"

definition go_xlCanFdConf :: "nat \<Rightarrow> ctype" where
  "go_xlCanFdConf p = CStruct p [(''ArbitrationBitRate'', CInt False 4), (''SjwAbr'', CInt False 4),
     (''Tseg1Abr'', CInt False 4), (''Tseg2Abr'', CInt False 4), (''DataBitRate'', CInt False 4),
     (''SjwDbr'', CInt False 4), (''Tseg1Dbr'', CInt False 4), (''Tseg2Dbr'', CInt False 4),
     (''Reserved'', CInt False 1), (''Options'', CInt False 1), (''Reserved1'', CArr (CInt False 1) 2),
     (''Reserved2'', CInt False 1)]"

lemmas go_types = go_pcanMsg_def go_pcanMsgFD_def go_pcanTimestamp_def go_VCI_INIT_CONFIG_def
  go_VCI_CAN_OBJ_def go_CAN_INIT_CONFIG_def go_CAN_MSG_def go_CANFD_MSG_def go_TLIBCAN_def
  go_TLIBCANFD_def go_xlCanMsg_def go_xlEventTagData_def go_xlEvent_def go_xlCanRxMsg_def
  go_xlCanRxTagData_def go_xlCanRxEvent_def go_xlCanTxMsg_def go_xlCanTxTagData_def
  go_xlCanTxEvent_def go_xlCanFdConf_def

text \<open>The place a path names: its offset and its size.\<close>

definition place :: "nat \<Rightarrow> string list \<Rightarrow> ctype \<Rightarrow> (nat \<times> nat) option" where
  "place p path t = map_option (\<lambda>(o', u). (o', size_of p u)) (member_path p path t)"

text \<open>
  A Go structure mirrors a C structure when the sizes agree and every field the driver uses is the
  member of the header it stands for.
\<close>

definition mirrors :: "nat \<Rightarrow> ctype \<Rightarrow> ctype \<Rightarrow> (string list \<times> string list) list \<Rightarrow> bool" where
  "mirrors p go c pairs \<longleftrightarrow> size_of p go = size_of p c \<and>
     list_all (\<lambda>(gp, cp). place p gp go \<noteq> None \<and> place p gp go = place p cp c) pairs"

text \<open>Every Go structure a driver passes, with the structure the DLL expects and the members it uses.\<close>

definition mirror_table :: "nat \<Rightarrow> (ctype \<times> ctype \<times> (string list \<times> string list) list) list" where
  "mirror_table p =
    [(go_pcanMsg p, TPCANMsg,
      [([''ID''], [''ID'']), ([''MsgType''], [''MSGTYPE'']), ([''Len''], [''LEN'']),
       ([''Data''], [''DATA''])]),
     (go_pcanMsgFD p, TPCANMsgFD,
      [([''ID''], [''ID'']), ([''MsgType''], [''MSGTYPE'']), ([''DLC''], [''DLC'']),
       ([''Data''], [''DATA''])]),
     (go_pcanTimestamp p, TPCANTimestamp,
      [([''Millis''], [''millis'']), ([''MillisOverflow''], [''millis_overflow'']),
       ([''Micros''], [''micros''])]),
     (go_VCI_INIT_CONFIG p, VCI_INIT_CONFIG,
      [([''AccCode''], [''AccCode'']), ([''AccMask''], [''AccMask'']),
       ([''Reserved''], [''Reserved'']), ([''Filter''], [''Filter'']),
       ([''Timing0''], [''Timing0'']), ([''Timing1''], [''Timing1'']), ([''Mode''], [''Mode''])]),
     (go_VCI_CAN_OBJ p, VCI_CAN_OBJ,
      [([''ID''], [''ID'']), ([''TimeStamp''], [''TimeStamp'']), ([''TimeFlag''], [''TimeFlag'']),
       ([''SendType''], [''SendType'']), ([''RemoteFlag''], [''RemoteFlag'']),
       ([''ExternFlag''], [''ExternFlag'']), ([''DataLen''], [''DataLen'']),
       ([''Data''], [''Data'']), ([''Reserved''], [''Reserved''])]),
     (go_CAN_MSG p, CAN_MSG,
      [([''ID''], [''ID'']), ([''TimeStamp''], [''TimeStamp'']),
       ([''RemoteFlag''], [''RemoteFlag'']), ([''ExternFlag''], [''ExternFlag'']),
       ([''DataLen''], [''DataLen'']), ([''Data''], [''Data'']),
       ([''TimeStampHigh''], [''TimeStampHigh''])]),
     (go_TLIBCAN p, TCAN_type,
      [([''FIdxChn''], [''FIdxChn'']), ([''FProperties''], [''FProperties'']),
       ([''FDLC''], [''FDLC'']), ([''FReserved''], [''FReserved'']),
       ([''FIdentifier''], [''FIdentifier'']), ([''FTimeUs''], [''FTimeUs'']),
       ([''FData''], [''FData''])]),
     (go_TLIBCANFD p, TCANFD_type,
      [([''FIdxChn''], [''FIdxChn'']), ([''FProperties''], [''FProperties'']),
       ([''FDLC''], [''FDLC'']), ([''FFDProperties''], [''FFDProperties'']),
       ([''FIdentifier''], [''FIdentifier'']), ([''FTimeUs''], [''FTimeUs'']),
       ([''FData''], [''FData''])]),
     (go_xlEvent p, XLevent,
      [([''Tag''], [''tag'']), ([''ChanIndex''], [''chanIndex'']), ([''TransID''], [''transId'']),
       ([''PortHandle''], [''portHandle'']), ([''Flags''], [''flags'']),
       ([''TimeStamp''], [''timeStamp'']),
       ([''TagData'', ''Msg'', ''ID''], [''tagData'', ''msg'', ''id'']),
       ([''TagData'', ''Msg'', ''Flags''], [''tagData'', ''msg'', ''flags'']),
       ([''TagData'', ''Msg'', ''DLC''], [''tagData'', ''msg'', ''dlc'']),
       ([''TagData'', ''Msg'', ''Data''], [''tagData'', ''msg'', ''data''])]),
     (go_xlCanRxEvent p, XLcanRxEvent,
      [([''Size''], [''size'']), ([''Tag''], [''tag'']), ([''UserHandle''], [''userHandle'']),
       ([''FlagsChip''], [''flagsChip'']), ([''TimeStamp''], [''timeStampSync'']),
       ([''TagData'', ''CanRxOkMsg'', ''CanID''], [''tagData'', ''canRxOkMsg'', ''canId'']),
       ([''TagData'', ''CanRxOkMsg'', ''MsgFlags''], [''tagData'', ''canRxOkMsg'', ''msgFlags'']),
       ([''TagData'', ''CanRxOkMsg'', ''CRC''], [''tagData'', ''canRxOkMsg'', ''crc'']),
       ([''TagData'', ''CanRxOkMsg'', ''TotalBitCnt''], [''tagData'', ''canTxOkMsg'', ''totalBitCnt'']),
       ([''TagData'', ''CanRxOkMsg'', ''DLC''], [''tagData'', ''canRxOkMsg'', ''dlc'']),
       ([''TagData'', ''CanRxOkMsg'', ''Data''], [''tagData'', ''canTxOkMsg'', ''data''])]),
     (go_xlCanTxEvent p, XLcanTxEvent,
      [([''Tag''], [''tag'']), ([''TransID''], [''transId'']),
       ([''ChanIndex''], [''channelIndex'']),
       ([''TagData'', ''CanMsg'', ''CanID''], [''tagData'', ''canMsg'', ''canId'']),
       ([''TagData'', ''CanMsg'', ''MsgFlags''], [''tagData'', ''canMsg'', ''msgFlags'']),
       ([''TagData'', ''CanMsg'', ''DLC''], [''tagData'', ''canMsg'', ''dlc'']),
       ([''TagData'', ''CanMsg'', ''Data''], [''tagData'', ''canMsg'', ''data''])]),
     (go_xlCanFdConf p, XLcanFdConf,
      [([''ArbitrationBitRate''], [''arbitrationBitRate'']), ([''SjwAbr''], [''sjwAbr'']),
       ([''Tseg1Abr''], [''tseg1Abr'']), ([''Tseg2Abr''], [''tseg2Abr'']),
       ([''DataBitRate''], [''dataBitRate'']), ([''SjwDbr''], [''sjwDbr'']),
       ([''Tseg1Dbr''], [''tseg1Dbr'']), ([''Tseg2Dbr''], [''tseg2Dbr'']),
       ([''Options''], [''options''])])]"

definition can_init_pairs :: "(string list \<times> string list) list" where
  "can_init_pairs = map (\<lambda>x. ([x], [x])) [''CAN_BRP'', ''CAN_SJW'', ''CAN_BS1'', ''CAN_BS2'', ''CAN_Mode'',
     ''CAN_ABOM'', ''CAN_NART'', ''CAN_RFLM'', ''CAN_TXFP'']"

lemma mirror_table_4: "list_all (\<lambda>(go, c, pairs). mirrors 4 go c pairs) (mirror_table 4)"
  by code_simp

lemma mirror_table_8: "list_all (\<lambda>(go, c, pairs). mirrors 8 go c pairs) (mirror_table 8)"
  by code_simp


end
