(* ===== verification/Abi_Calls.thy ===== *)
theory Abi_Calls
  imports Driver_Wire Abi_Layout
begin

text \<open>
  The Go drivers against the headers: the constants the drivers repeat, the bit-rate codes they
  program, the device names of TSMaster, and the calls they make through the DLL procedures.
\<close>

section \<open>Constants\<close>

type_synonym const_claim = "int \<times> macro_table \<times> string"

definition const_agrees :: "const_claim \<Rightarrow> bool" where
  "const_agrees c = (case c of (v, t, x) \<Rightarrow> table_const t x = Some v)"

definition pcan_consts :: "const_claim list" where
  "pcan_consts =
     [(uint pcanErrorOK, PCAN_status_codes, ''PCAN_ERROR_OK''),
      (uint pcanErrorQRCVEmpty, PCAN_status_codes, ''PCAN_ERROR_QRCVEMPTY''),
      (uint pcanErrorBusLight, PCAN_status_codes, ''PCAN_ERROR_BUSLIGHT''),
      (uint pcanErrorBusHeavy, PCAN_status_codes, ''PCAN_ERROR_BUSHEAVY''),
      (uint pcanErrorIllData, PCAN_status_codes, ''PCAN_ERROR_ILLDATA''),
      (uint pcanMessageStandard, PCAN_message_types, ''PCAN_MESSAGE_STANDARD''),
      (uint pcanMessageRTR, PCAN_message_types, ''PCAN_MESSAGE_RTR''),
      (uint pcanMessageExtended, PCAN_message_types, ''PCAN_MESSAGE_EXTENDED''),
      (uint pcanMessageFD, PCAN_message_types, ''PCAN_MESSAGE_FD''),
      (uint pcanMessageBRS, PCAN_message_types, ''PCAN_MESSAGE_BRS''),
      (uint pcanMessageESI, PCAN_message_types, ''PCAN_MESSAGE_ESI''),
      (uint pcanMessageEcho, PCAN_message_types, ''PCAN_MESSAGE_ECHO''),
      (uint pcanMessageErrFrame, PCAN_message_types, ''PCAN_MESSAGE_ERRFRAME''),
      (uint pcanAllowEchoFrames, PCAN_parameters, ''PCAN_ALLOW_ECHO_FRAMES''),
      (uint pcanParameterOn, PCAN_parameter_values, ''PCAN_PARAMETER_ON'')]"

definition canalyst_consts :: "const_claim list" where
  "canalyst_consts =
     [(VCI_USBCAN1, VCI_device_types, ''VCI_USBCAN1''), (VCI_USBCAN2, VCI_device_types, ''VCI_USBCAN2''),
      (STATUS_OK, VCI_status_codes, ''STATUS_OK''), (STATUS_ERR, VCI_status_codes, ''STATUS_ERR'')]"

definition tsmaster_consts :: "const_claim list" where
  "tsmaster_consts =
     [(uint tsCANPropertyTX, TS_channels, ''MASK_CANProp_DIR_TX''),
      (uint tsCANPropertyRemote, TS_channels, ''MASK_CANProp_REMOTE''),
      (uint tsCANPropertyExtended, TS_channels, ''MASK_CANProp_EXTEND''),
      (uint tsCANFDPropertyEDL, TS_channels, ''MASK_CANFDProp_IS_EDL''),
      (uint tsCANFDPropertyBRS, TS_channels, ''MASK_CANFDProp_IS_BRS''),
      (uint tsCANFDPropertyESI, TS_channels, ''MASK_CANFDProp_IS_ESI'')]"

definition vector_consts :: "const_claim list" where
  "vector_consts =
     [(vectorBusTypeCAN, XL_bus_types, ''XL_BUS_TYPE_CAN''),
      (vectorStatusSuccess, XL_driver_status, ''XL_SUCCESS''),
      (vectorStatusQueueIsEmpty, XL_driver_status, ''XL_ERR_QUEUE_IS_EMPTY''),
      (vectorInvalidPortHandle, XL_invalid_port, ''XL_INVALID_PORTHANDLE''),
      (vectorInterfaceVersion, XL_message_flags, ''XL_INTERFACE_VERSION_V3''),
      (vectorInterfaceVersionV4, XL_message_flags, ''XL_INTERFACE_VERSION_V4''),
      (vectorOutputModeNormal, XL_output_modes, ''XL_OUTPUT_MODE_NORMAL''),
      (uint vectorEventTagReceiveMsg, XL_event_tags, ''XL_RECEIVE_MSG''),
      (uint vectorEventTagTransmitMsg, XL_event_tags, ''XL_TRANSMIT_MSG''),
      (uint vectorCanMsgFlagErrorFrame, XL_message_flags, ''XL_CAN_MSG_FLAG_ERROR_FRAME''),
      (uint vectorCanMsgFlagRemote, XL_message_flags, ''XL_CAN_MSG_FLAG_REMOTE_FRAME''),
      (uint vectorCanMsgFlagTXCompleted, XL_message_flags, ''XL_CAN_MSG_FLAG_TX_COMPLETED''),
      (uint vectorCanFdTagRxOK, XL_event_tags, ''XL_CAN_EV_TAG_RX_OK''),
      (uint vectorCanFdTagTxOK, XL_event_tags, ''XL_CAN_EV_TAG_TX_OK''),
      (uint vectorCanFdTxTag, XL_event_tags, ''XL_CAN_EV_TAG_TX_MSG''),
      (uint vectorCanFdRxFlagEDL, XL_can_limits_flags, ''XL_CAN_RXMSG_FLAG_EDL''),
      (uint vectorCanFdRxFlagBRS, XL_can_limits_flags, ''XL_CAN_RXMSG_FLAG_BRS''),
      (uint vectorCanFdTxFlagEDL, XL_can_limits_flags, ''XL_CAN_TXMSG_FLAG_EDL''),
      (uint vectorCanFdTxFlagBRS, XL_can_limits_flags, ''XL_CAN_TXMSG_FLAG_BRS'')]"

text \<open>The classic bit rates of the PCAN driver and the codes the header has for them.\<close>

definition pcan_baud_claims :: "const_claim list" where
  "pcan_baud_claims = map (\<lambda>(rate, x). (uint (pcanClassicBaud rate), PCAN_baud_codes, x))
     [(1000000, ''PCAN_BAUD_1M''), (800000, ''PCAN_BAUD_800K''), (500000, ''PCAN_BAUD_500K''),
      (250000, ''PCAN_BAUD_250K''), (125000, ''PCAN_BAUD_125K''), (100000, ''PCAN_BAUD_100K''),
      (50000, ''PCAN_BAUD_50K''), (20000, ''PCAN_BAUD_20K''), (10000, ''PCAN_BAUD_10K''),
      (5000, ''PCAN_BAUD_5K'')]"

definition pcan_usb_channels :: "string list" where
  "pcan_usb_channels =
     [''PCAN_USBBUS1'', ''PCAN_USBBUS2'', ''PCAN_USBBUS3'', ''PCAN_USBBUS4'', ''PCAN_USBBUS5'',
      ''PCAN_USBBUS6'', ''PCAN_USBBUS7'', ''PCAN_USBBUS8'', ''PCAN_USBBUS9'', ''PCAN_USBBUS10'',
      ''PCAN_USBBUS11'', ''PCAN_USBBUS12'', ''PCAN_USBBUS13'', ''PCAN_USBBUS14'', ''PCAN_USBBUS15'',
      ''PCAN_USBBUS16'']"

lemma driver_consts_agree:
  "list_all const_agrees pcan_consts" "list_all const_agrees canalyst_consts"
  "list_all const_agrees tsmaster_consts" "list_all const_agrees vector_consts"
  by code_simp+

lemma pcan_bauds_agree: "list_all const_agrees pcan_baud_claims"
  by code_simp

lemma pcan_handles_agree:
  "map (\<lambda>c. map_option uint (pcanUSBHandle c)) [0..15] = map (table_const PCAN_channels) pcan_usb_channels"
  by code_simp

section \<open>Bit rates\<close>

text \<open>
  The registers BTR0 and BTR1 of an SJA1000 controller, clocked with 16 MHz: the low six bits of BTR0
  divide twice the clock period by one more, and BTR1 holds the two segments, each one less, after
  the synchronisation quantum. The rate is right up to a thousandth.
\<close>

definition sja1000_rate_ok :: "int \<Rightarrow> int \<Rightarrow> int \<Rightarrow> bool" where
  "sja1000_rate_ok rate btr0 btr1 =
     (let prescaler = btr0 mod 64 + 1; quanta = 1 + (btr1 mod 16 + 1) + (btr1 div 16 mod 8 + 1)
      in 1000 * \<bar>rate * prescaler * quanta - 8000000\<bar> \<le> 8000000)"

lemma canalyst_rates_distinct: "distinct (map fst canalystBitrateTable)"
  by (simp add: canalystBitrateTable_def)

lemma canalyst_rates_ok:
  "list_all (\<lambda>(rate, b). sja1000_rate_ok (uint rate) (uint (Btr0 b)) (uint (Btr1 b))) canalystBitrateTable"
  by code_simp

definition pcan_rates :: "u32 list" where
  "pcan_rates = [1000000, 800000, 500000, 250000, 125000, 100000, 50000, 20000, 10000, 5000]"

lemma pcan_rates_ok:
  "pcanClassicBaud rate = 0 \<or>
   sja1000_rate_ok (uint rate) (uint (pcanClassicBaud rate) div 256) (uint (pcanClassicBaud rate) mod 256)"
proof (cases "rate \<in> set pcan_rates")
  case True
  have "list_all (\<lambda>r. sja1000_rate_ok (uint r) (uint (pcanClassicBaud r) div 256)
      (uint (pcanClassicBaud r) mod 256)) pcan_rates"
    by code_simp
  with True show ?thesis by (simp only: list_all_iff) blast
next
  case False
  then show ?thesis by (simp add: pcan_rates_def pcanClassicBaud_def)
qed

text \<open>What the drivers repeat of the headers is what the headers say: the status codes, message flags,
  tags and parameters, the handles of the 16 PCAN USB channels and the codes of its classic bit rates.
  Every code of the PCAN and the CANalyst-II driver programs its bit rate on an SJA1000 controller to
  a thousandth, and the macro of the Vector header and \<open>DLCToLength\<close> give every length code the same
  number of bytes.
\<close>

theorem driver_constants_agree:
  "list_all const_agrees (pcan_consts @ canalyst_consts @ tsmaster_consts @ vector_consts) \<and>
   list_all const_agrees pcan_baud_claims \<and>
   map (\<lambda>c. map_option uint (pcanUSBHandle c)) [0..15] = map (table_const PCAN_channels) pcan_usb_channels \<and>
   distinct (map fst canalystBitrateTable) \<and>
   list_all (\<lambda>(rate, b). sja1000_rate_ok (uint rate) (uint (Btr0 b)) (uint (Btr1 b))) canalystBitrateTable \<and>
   (pcanClassicBaud rate = 0 \<or>
    sja1000_rate_ok (uint rate) (uint (pcanClassicBaud rate) div 256) (uint (pcanClassicBaud rate) mod 256)) \<and>
   map (\<lambda>d. CANFD_GET_NUM_DATABYTES d True False) [0..15] =
     map (\<lambda>d. fst (DLCToLength (word_of_int d))) [0..15]"
proof -
  have "map (\<lambda>d. CANFD_GET_NUM_DATABYTES d True False) [0..15] =
      map (\<lambda>d. fst (DLCToLength (word_of_int d))) [0..15]"
    by code_simp
  then show ?thesis
    using driver_consts_agree pcan_bauds_agree pcan_handles_agree canalyst_rates_distinct canalyst_rates_ok pcan_rates_ok [of rate]
    by (simp only: list_all_append)
qed

section \<open>The calls of the drivers\<close>

text \<open>
  What a driver converts to a machine word and passes: an integer variable, a constant, the bits of a
  32-bit float, a pointer to a Go variable of the named type, a string as bytes or as UTF-16, or the
  64-bit channel mask of Vector.
\<close>

datatype go_arg = AInt | AConst int | AFloat32 | APtr string | ABytes | AUtf16 | AMask

type_synonym go_call = "string \<times> go_arg list"

text \<open>The C type behind the pointers to Go variables.\<close>

definition go_pointee :: "(string \<times> string) list" where
  "go_pointee =
     [(''pcanMsg'', ''TPCANMsg''), (''pcanMsgFD'', ''TPCANMsgFD''), (''pcanTimestamp'', ''TPCANTimestamp''),
      (''uint64'', ''TPCANTimestampFD''), (''uint32'', ''uint''), (''int32'', ''int''),
      (''float64'', ''double''), (''VCI_INIT_CONFIG'', ''VCI_INIT_CONFIG''), (''VCI_CAN_OBJ'', ''VCI_CAN_OBJ''),
      (''CAN_INIT_CONFIG'', ''CAN_INIT_CONFIG''), (''CAN_MSG'', ''CAN_MSG''), (''TLIBCANFD'', ''TCANFD''),
      (''int32'', ''XLportHandle''), (''uint64'', ''XLaccess''), (''xlEvent'', ''XLevent''),
      (''xlCanRxEvent'', ''XLcanRxEvent''), (''xlCanTxEvent'', ''XLcanTxEvent''), (''xlCanFdConf'', ''XLcanFdConf'')]"

definition const_fits :: "bool \<Rightarrow> nat \<Rightarrow> int \<Rightarrow> bool" where
  "const_fits sgnd n v = (convert sgnd n v = v)"

text \<open>
  One word carries an argument that is no wider than a pointer. The runtime of Go also loads the first
  four words into the floating-point registers, so a 32-bit float arrives in one of the first four
  places on 64-bit systems, and anywhere on 32-bit systems, where arguments lie on the stack.
\<close>

fun arg_ok :: "nat \<Rightarrow> nat \<Rightarrow> go_arg \<Rightarrow> ctype \<Rightarrow> bool" where
  "arg_ok p i AInt (CInt s n) = (n \<le> p)"
| "arg_ok p i AMask (CInt s n) = (n \<le> p)"
| "arg_ok p i (AConst v) (CInt s n) = (n \<le> p \<and> const_fits s n v)"
| "arg_ok p i AFloat32 (CFloat n) = (n = 4 \<and> (p = 4 \<or> i < 4))"
| "arg_ok p i (APtr x) (CPtr y) = (y = ''void'' \<or> (x, y) \<in> set go_pointee)"
| "arg_ok p i ABytes (CPtr y) = (y = ''char'')"
| "arg_ok p i a t = False"

definition call_ok :: "nat \<Rightarrow> cproto list \<Rightarrow> go_call \<Rightarrow> bool" where
  "call_ok p protos c =
     (case List.find (\<lambda>q. pr_name q = fst c) protos of
        None \<Rightarrow> False
      | Some q \<Rightarrow> length (pr_params q) = length (snd c) \<and>
          list_all (\<lambda>(i, a, t). arg_ok p i a t)
            (zip [0..<length (snd c)] (zip (snd c) (map snd (pr_params q)))))"

definition pcan_calls :: "go_call list" where
  "pcan_calls =
     [(''CAN_Initialize'', [AInt, AInt, AConst 0x01, AConst 0x02A0, AConst 11]),
      (''CAN_InitializeFD'', [AInt, ABytes]),
      (''CAN_Uninitialize'', [AInt]),
      (''CAN_SetValue'', [AInt, AConst 0x2C, APtr ''uint32'', AConst 4]),
      (''CAN_Read'', [AInt, APtr ''pcanMsg'', APtr ''pcanTimestamp'']),
      (''CAN_ReadFD'', [AInt, APtr ''pcanMsgFD'', APtr ''uint64'']),
      (''CAN_Write'', [AInt, APtr ''pcanMsg'']),
      (''CAN_WriteFD'', [AInt, APtr ''pcanMsgFD'']),
      (''CAN_GetErrorText'', [AInt, AConst 0x09, ABytes])]"

definition canalyst_calls :: "go_call list" where
  "canalyst_calls =
     [(''VCI_OpenDevice'', [AInt, AInt, AConst 0]),
      (''VCI_InitCAN'', [AInt, AInt, AInt, APtr ''VCI_INIT_CONFIG'']),
      (''VCI_ClearBuffer'', [AInt, AInt, AInt]),
      (''VCI_StartCAN'', [AInt, AInt, AInt]),
      (''VCI_Receive'', [AInt, AInt, AInt, APtr ''VCI_CAN_OBJ'', AConst 1024, AConst 0]),
      (''VCI_CloseDevice'', [AInt, AInt]),
      (''VCI_Transmit'', [AInt, AInt, AInt, APtr ''VCI_CAN_OBJ'', AConst 1])]"

definition toomoss_calls :: "go_call list" where
  "toomoss_calls =
     [(''CAN_GetCANSpeedArg'', [AInt, APtr ''CAN_INIT_CONFIG'', AInt]),
      (''CAN_Init'', [AInt, AInt, APtr ''CAN_INIT_CONFIG'']),
      (''CAN_StartGetMsg'', [AInt, AInt]),
      (''CAN_GetMsg'', [AInt, AInt, APtr ''CAN_MSG'']),
      (''CAN_SendMsgWithTime'', [AInt, AInt, APtr ''CAN_MSG'', AConst 1])]"

definition tsmaster_calls :: "go_call list" where
  "tsmaster_calls =
     [(''initialize_lib_tsmaster'', [AUtf16]),
      (''tsapp_enumerate_hw_devices'', [APtr ''int32'']),
      (''tsapp_show_tsmaster_window'', [ABytes, AConst 1]),
      (''tsapp_set_can_channel_count'', [AInt]),
      (''tsapp_set_mapping_verbose'',
        [AUtf16, AConst 0, AInt, AUtf16, AConst 3, AInt, AInt, AInt, AConst 1]),
      (''tsapp_configure_baudrate_canfd'', [AInt, AFloat32, AFloat32, AConst 1, AConst 0, AConst 1]),
      (''tsapp_configure_baudrate_can'', [AInt, AFloat32, AConst 0, AConst 1]),
      (''tsapp_connect'', []),
      (''tsapp_enable_bus_statistics'', [AConst 1]),
      (''tsfifo_enable_receive_fifo'', []),
      (''tsfifo_receive_canfd_msgs'', [APtr ''TLIBCANFD'', APtr ''int32'', AInt, AConst 1]),
      (''tsapp_disconnect'', []),
      (''tsapp_transmit_canfd_async'', [APtr ''TLIBCANFD'']),
      (''tsapp_get_bus_statistics'', [AConst 0, AInt, AConst 0, APtr ''float64''])]"

definition vector_calls :: "go_call list" where
  "vector_calls =
     [(''xlOpenDriver'', []), (''xlCloseDriver'', []),
      (''xlGetChannelIndex'', [AInt, AConst 0, AInt]),
      (''xlOpenPort'', [APtr ''int32'', ABytes, AMask, APtr ''uint64'', AConst 16384, AInt, AConst 1]),
      (''xlClosePort'', [AInt]),
      (''xlCanFdSetConfiguration'', [AInt, AMask, APtr ''xlCanFdConf'']),
      (''xlCanSetChannelBitrate'', [AInt, AMask, AInt]),
      (''xlCanSetChannelOutput'', [AInt, AMask, AConst 1]),
      (''xlCanSetChannelMode'', [AInt, AMask, AConst 1, AConst 0]),
      (''xlActivateChannel'', [AInt, AMask, AConst 1, AConst 0]),
      (''xlDeactivateChannel'', [AInt, AMask]),
      (''xlCanTransmitEx'', [AInt, AMask, AInt, APtr ''uint32'', APtr ''xlCanTxEvent'']),
      (''xlCanTransmit'', [AInt, AMask, APtr ''uint32'', APtr ''xlEvent'']),
      (''xlCanReceive'', [AInt, APtr ''xlCanRxEvent'']),
      (''xlReceive'', [AInt, APtr ''uint32'', APtr ''xlEvent''])]"

text \<open>The calls that do not fit, looked up among the prototypes with the names of the calls.\<close>

definition wrong_among :: "nat \<Rightarrow> cproto list \<Rightarrow> go_call list \<Rightarrow> string list" where
  "wrong_among p protos calls = map fst (filter (\<lambda>c. \<not> call_ok p protos c) calls)"

definition wrong_calls :: "nat \<Rightarrow> cproto list \<Rightarrow> go_call list \<Rightarrow> string list" where
  "wrong_calls p protos calls =
     wrong_among p (filter (\<lambda>q. pr_name q \<in> set (map fst calls)) protos) calls"

lemma pcan_calls_ok: "wrong_calls 8 PCAN_functions pcan_calls = []" "wrong_calls 4 PCAN_functions pcan_calls = []"
  by code_simp+

lemma canalyst_calls_ok: "wrong_calls 8 VCI_functions canalyst_calls = []" "wrong_calls 4 VCI_functions canalyst_calls = []"
  by code_simp+

lemma toomoss_calls_ok: "wrong_calls 8 USB2CAN_functions toomoss_calls = []" "wrong_calls 4 USB2CAN_functions toomoss_calls = []"
  by code_simp+

lemma TS_functions_used:
  "filter P TS_functions = filter P TS_prototypes_1 @ filter P TS_prototypes_2 @ filter P TS_prototypes_3 @
     filter P TS_prototypes_4 @ filter P TS_prototypes_5 @ filter P TS_prototypes_6 @ filter P TS_prototypes_7"
  by (simp only: TS_functions_def filter_append)

lemma tsmaster_calls_wrong:
  "wrong_calls 8 TS_functions tsmaster_calls = [''initialize_lib_tsmaster'', ''tsapp_set_mapping_verbose'']"
  "wrong_calls 4 TS_functions tsmaster_calls = [''initialize_lib_tsmaster'', ''tsapp_set_mapping_verbose'']"
  unfolding wrong_calls_def TS_functions_used by code_simp+

lemma vector_calls_wrong:
  "wrong_calls 8 XL_functions vector_calls = []"
  "wrong_calls 4 XL_functions vector_calls =
     [''xlOpenPort'', ''xlCanFdSetConfiguration'', ''xlCanSetChannelBitrate'', ''xlCanSetChannelOutput'',
      ''xlCanSetChannelMode'', ''xlActivateChannel'', ''xlDeactivateChannel'', ''xlCanTransmitEx'',
      ''xlCanTransmit'']"
  by code_simp+


section \<open>Remote frames\<close>

lemma flag_seen: "bit f n \<Longrightarrow> bit g n \<Longrightarrow> (x OR f) AND g \<noteq> (0 :: 'a::len word)"
proof -
  assume "bit f n" "bit g n"
  then have "bit ((x OR f) AND g) n" by (simp add: bit_simps)
  then show ?thesis by fastforce
qed

lemma pcan_flag_dropped:
  "f \<in> {pcanMessageRTR, pcanMessageErrFrame, pcanMessageExtended} \<Longrightarrow>
   enqueueMessage cfg i dlc d (mt OR f) ts = Dropped"
  using flag_seen [of pcanMessageRTR 0 "pcanMessageRTR OR pcanMessageErrFrame OR pcanMessageExtended" mt]
    flag_seen [of pcanMessageErrFrame 6 "pcanMessageRTR OR pcanMessageErrFrame OR pcanMessageExtended" mt]
    flag_seen [of pcanMessageExtended 1 "pcanMessageRTR OR pcanMessageErrFrame OR pcanMessageExtended" mt]
  by (auto simp: enqueueMessage_def pcan_messages bit_simps)

lemma tsmaster_flag_dropped:
  "tsmaster_receive cfg (m\<lparr>tl_FProperties := p OR tsCANPropertyRemote\<rparr>) = Dropped"
  "tsmaster_receive cfg (m\<lparr>tl_FProperties := p OR tsCANPropertyExtended\<rparr>) = Dropped"
  using flag_seen [of tsCANPropertyRemote 1 "tsCANPropertyRemote OR tsCANPropertyExtended" p]
    flag_seen [of tsCANPropertyExtended 2 "tsCANPropertyRemote OR tsCANPropertyExtended" p]
  by (simp_all add: tsmaster_receive_def ts_properties bit_simps)

lemma toomoss_flag_dropped:
  "toomoss_receive_classic cfg (tc\<lparr>tc_RemoteFlag := r OR toomossClassicFlagRemote\<rparr>) = Dropped"
  "toomoss_receive_fd cfg (tf\<lparr>tf_ID := j OR toomossCANFDIDFlagRemote\<rparr>) = Dropped"
  using flag_seen [of toomossClassicFlagRemote 0 toomossClassicFlagRemote r]
    flag_seen [of toomossCANFDIDFlagRemote 30 toomossCANFDIDFlagRemote j]
  by (simp_all add: toomoss_receive_classic_def decodeToomossClassicFlags_def
      toomoss_receive_fd_def decodeToomossCANFDID_def toomossClassicFlagRemote_def
      toomossCANFDIDFlagRemote_def bit_simps)

lemma vector_flag_dropped:
  "vector_event_classic cfg (e\<lparr>xe_Msg := m\<lparr>xm_Flags := fl OR vectorCanMsgFlagRemote\<rparr>\<rparr>) = Dropped"
  using flag_seen [of vectorCanMsgFlagRemote 4 "vectorCanMsgFlagErrorFrame OR vectorCanMsgFlagRemote" fl]
  by (simp add: vector_event_classic_def vector_flags bit_simps Let_def)

lemma vector_fd_flag_ignored:
  "vector_event_fd cfg (e\<lparr>xr_Msg := m\<lparr>xr_MsgFlags := fl OR 0x10\<rparr>\<rparr>) =
   vector_event_fd cfg (e\<lparr>xr_Msg := m\<lparr>xr_MsgFlags := fl\<rparr>\<rparr>)"
proof -
  have "(fl OR 0x10) AND vectorCanFdRxFlagEDL = fl AND vectorCanFdRxFlagEDL"
    "(fl OR 0x10) AND vectorCanFdRxFlagBRS = fl AND vectorCanFdRxFlagBRS"
    by (simp_all add: vector_flags bit.conj_disj_distrib2)
  then show ?thesis by (simp add: vector_event_fd_def Let_def)
qed

text \<open>
  C40: A message with the remote flag of its interface reaches neither the subscribers nor the bus-load
  meter, whatever its other fields are, in the PCAN, CANalyst-II, TSMaster and Toomoss drivers and in
  the classic Vector driver. The FD receive path of Vector does not look at the flag the header has
  for remote frames: such a message is treated as the data message without the flag.
\<close>

theorem remote_frames_dropped:
  "enqueueMessage cfg i dlc d (mt OR pcanMessageRTR) ts = Dropped \<and>
   (vo_RemoteFlag cm = 0 \<or> canalyst_receive cm = Dropped) \<and>
   tsmaster_receive cfg (tm\<lparr>tl_FProperties := p OR tsCANPropertyRemote\<rparr>) = Dropped \<and>
   toomoss_receive_classic cfg (tc\<lparr>tc_RemoteFlag := r OR toomossClassicFlagRemote\<rparr>) = Dropped \<and>
   toomoss_receive_fd cfg (tf\<lparr>tf_ID := j OR toomossCANFDIDFlagRemote\<rparr>) = Dropped \<and>
   vector_event_classic cfg (e\<lparr>xe_Msg := m\<lparr>xm_Flags := fl OR vectorCanMsgFlagRemote\<rparr>\<rparr>) = Dropped \<and>
   table_const XL_can_limits_flags ''XL_CAN_RXMSG_FLAG_RTR'' = Some 0x10 \<and>
   vector_event_fd cfg (ef\<lparr>xr_Msg := mf\<lparr>xr_MsgFlags := ffl OR 0x10\<rparr>\<rparr>) =
     vector_event_fd cfg (ef\<lparr>xr_Msg := mf\<lparr>xr_MsgFlags := ffl\<rparr>\<rparr>)"
proof -
  have "table_const XL_can_limits_flags ''XL_CAN_RXMSG_FLAG_RTR'' = Some 0x10" by code_simp
  moreover have "vo_RemoteFlag cm = 0 \<or> canalyst_receive cm = Dropped"
    by (simp add: canalyst_receive_def)
  ultimately show ?thesis
    using pcan_flag_dropped [of pcanMessageRTR] tsmaster_flag_dropped toomoss_flag_dropped
      vector_flag_dropped vector_fd_flag_ignored by simp
qed

end
