(* ===== verification/Isotp_Framing.thy ===== *)
theory Isotp_Framing
  imports Can_Frame
begin

text \<open>
  The stateless part of the package \<open>isotp\<close>: addresses (address.go), session configuration
  (config.go), the frame encoders (framing.go) and the parser (pdu.go), with the round trips
  between the last two.
\<close>

section \<open>Errors\<close>

text \<open>One constructor per error of the package, in the order of the files.\<close>

datatype (plugins only: code size) isotp_error =
    \<comment> \<open>address.go\<close>
    NilAddress
  | IdExceedsStandardRange string u32
    \<comment> \<open>config.go\<close>
  | FlowControlTimeoutNotPositive int
  | ConsecutiveFrameTimeoutNotPositive int
  | BlockSizeOutOfRange int
  | STMinOutOfRange int
  | NegativeMaxPayloadSize int
    \<comment> \<open>framing.go\<close>
  | MessageLengthNotPositive int
  | MessageLengthExceeds32Bit int
  | MessageLengthNotAboveChunk int int
  | CfDataExceeds int int
  | InvalidFlowControlStatus u8
  | InvalidSTminEncoding u8
  | SingleFrameExceeds int int
  | FirstFrameExceeds int int
  | SequenceNumberOutOfRange
    \<comment> \<open>pdu.go\<close>
  | EmptyCanPayload
  | EscapedSfTooShort
  | EscapedSfIncomplete
  | SfIncomplete
  | FirstFrameTooShort
  | LongFirstFrameTooShort
  | LongFirstFrameNeeds12Bit int
  | FirstFrameNotLonger int int
  | FlowControlTooShort
  | UnknownPciType u8
    \<comment> \<open>rx_handler.go\<close>
  | ParseError isotp_error
  | SfInterruptedReception
  | RxQueueFullForSf
  | FfInterruptedReception
  | InvalidFirstFrameLength int int
  | PayloadExceedsConfigured int int
  | SequenceMismatch int int
  | RxQueueFullForPayload
    \<comment> \<open>tx_handler.go\<close>
  | ErrorCreatingSF isotp_error
  | ErrorCreatingFF isotp_error
  | ErrorCreatingCF isotp_error
  | TooManyWaitFrames int
  | RemoteOverflow
  | InvalidFlowStatus u8
    \<comment> \<open>stack.go\<close>
  | NilDriver
  | SubscribeFailed can_error
  | SendFrameFailed can_error
  | NilSendContext
  | SendCtxErr ctx_error
  | ErrSessionClosed
  | CfTimedOut
  | FcTimedOut

section \<open>Addresses\<close>

record Address =
  TxID :: u32
  RxID :: u32

definition maxStandardCANID :: u32 where "maxStandardCANID = 0x7FF"

definition validateStandardCANID :: "string \<Rightarrow> u32 \<Rightarrow> isotp_error + unit" where
  "validateStandardCANID name ident =
     (if ident > maxStandardCANID then Inl (IdExceedsStandardRange name ident) else Inr ())"

text \<open>None is the nil pointer.\<close>

definition Address_Validate :: "Address option \<Rightarrow> isotp_error + unit" where
  "Address_Validate a =
     (case a of
        None \<Rightarrow> Inl NilAddress
      | Some addr \<Rightarrow>
        (case validateStandardCANID ''TxID'' (TxID addr) of
           Inl e \<Rightarrow> Inl e
         | Inr _ \<Rightarrow> validateStandardCANID ''RxID'' (RxID addr)))"

definition NewAddress :: "u32 \<Rightarrow> u32 \<Rightarrow> isotp_error + Address" where
  "NewAddress txID rxID =
     (let addr = \<lparr>TxID = txID, RxID = rxID\<rparr>
      in case Address_Validate (Some addr) of Inl e \<Rightarrow> Inl e | Inr _ \<Rightarrow> Inr addr)"

definition Accepts :: "Address option \<Rightarrow> u32 \<Rightarrow> bool" where
  "Accepts a ident \<longleftrightarrow> (case a of None \<Rightarrow> False | Some addr \<Rightarrow> ident = RxID addr)"

section \<open>Session configuration\<close>

definition defaultMaxPayloadSize :: int where "defaultMaxPayloadSize = 16 * 1024 * 1024"
definition defaultMaxWaitFrames :: int where "defaultMaxWaitFrames = 8"

record TpConfig =
  ManualFlowControl :: bool
  PaddingByte :: "u8 option"
  FlowControlTimeout :: duration
  ConsecutiveFrameTimeout :: duration
  BlockSize :: int
  STMin :: int
  MaxPayloadSize :: int
  MaxWaitFrames :: int

definition Tp_DefaultConfig :: TpConfig where
  "Tp_DefaultConfig =
     \<lparr>ManualFlowControl = False, PaddingByte = None,
      FlowControlTimeout = 1000 * Millisecond, ConsecutiveFrameTimeout = 1000 * Millisecond,
      BlockSize = 0, STMin = 20,
      MaxPayloadSize = defaultMaxPayloadSize, MaxWaitFrames = defaultMaxWaitFrames\<rparr>"

definition TpConfig_Validate :: "TpConfig \<Rightarrow> isotp_error + unit" where
  "TpConfig_Validate cfg =
     (if FlowControlTimeout cfg \<le> 0
      then Inl (FlowControlTimeoutNotPositive (FlowControlTimeout cfg))
      else if ConsecutiveFrameTimeout cfg \<le> 0
      then Inl (ConsecutiveFrameTimeoutNotPositive (ConsecutiveFrameTimeout cfg))
      else if BlockSize cfg < 0 \<or> BlockSize cfg > 255 then Inl (BlockSizeOutOfRange (BlockSize cfg))
      else if STMin cfg < 0 \<or> STMin cfg > 127 then Inl (STMinOutOfRange (STMin cfg))
      else if MaxPayloadSize cfg < 0 then Inl (NegativeMaxPayloadSize (MaxPayloadSize cfg))
      else Inr ())"

definition normalizeTpConfig :: "TpConfig \<Rightarrow> TpConfig \<times> (isotp_error + unit)" where
  "normalizeTpConfig cfg0 =
     (let cfg1 = (if MaxPayloadSize cfg0 = 0
                  then cfg0\<lparr>MaxPayloadSize := defaultMaxPayloadSize\<rparr> else cfg0);
          cfg2 = (if MaxWaitFrames cfg1 = 0
                  then cfg1\<lparr>MaxWaitFrames := defaultMaxWaitFrames\<rparr> else cfg1)
      in (cfg2, TpConfig_Validate cfg2))"

section \<open>Encoding\<close>

type_synonym FlowStatus = u8

definition FlowStatusContinueToSend :: FlowStatus where "FlowStatusContinueToSend = 0"
definition FlowStatusWait :: FlowStatus where "FlowStatusWait = 1"
definition FlowStatusOverflow :: FlowStatus where "FlowStatusOverflow = 2"

definition pciTypeSingleFrame :: u8 where "pciTypeSingleFrame = 0x00"
definition pciTypeFirstFrame :: u8 where "pciTypeFirstFrame = 0x10"
definition pciTypeConsecutiveFrame :: u8 where "pciTypeConsecutiveFrame = 0x20"
definition pciTypeFlowControl :: u8 where "pciTypeFlowControl = 0x30"

lemmas pci_types = pciTypeSingleFrame_def pciTypeFirstFrame_def pciTypeConsecutiveFrame_def
  pciTypeFlowControl_def

lemmas flow_statuses = FlowStatusContinueToSend_def FlowStatusWait_def FlowStatusOverflow_def

definition frameDataLength :: "bool \<Rightarrow> int" where
  "frameDataLength isFD = (if isFD then 64 else 8)"

text \<open>\<open>binary.BigEndian.PutUint32\<close> and \<open>Uint32\<close> of the standard library.\<close>

definition PutUint32 :: "u32 \<Rightarrow> bytes" where
  "PutUint32 v = [ucast (drop_bit 24 v), ucast (drop_bit 16 v), ucast (drop_bit 8 v), ucast v]"

definition BigEndian_Uint32 :: "bytes \<Rightarrow> u32" where
  "BigEndian_Uint32 b =
     ucast (b ! 3) OR push_bit 8 (ucast (b ! 2)) OR push_bit 16 (ucast (b ! 1))
       OR push_bit 24 (ucast (b ! 0))"

definition createSingleFramePayload :: "bytes \<Rightarrow> int \<Rightarrow> isotp_error + bytes" where
  "createSingleFramePayload data maxDataLength =
     (let dataLen = int (length data);
          pci = (if dataLen = 0 \<and> maxDataLength > 8 then [pciTypeSingleFrame, 0]
                 else if dataLen \<le> 7 then [pciTypeSingleFrame OR word_of_int dataLen]
                 else [pciTypeSingleFrame, word_of_int dataLen]);
          totalLength = int (length pci) + dataLen
      in if totalLength > maxDataLength then Inl (SingleFrameExceeds totalLength maxDataLength)
         else Inr (pci @ data))"

definition createFirstFramePayload :: "bytes \<Rightarrow> int \<Rightarrow> int \<Rightarrow> isotp_error + bytes" where
  "createFirstFramePayload firstChunk totalMessageSize maxDataLength =
     (let pci = (if totalMessageSize \<le> 4095
                 then [pciTypeFirstFrame OR word_of_int (drop_bit 8 totalMessageSize AND 0x0F),
                       word_of_int (totalMessageSize AND 0xFF)]
                 else [pciTypeFirstFrame, 0x00] @ PutUint32 (word_of_int totalMessageSize));
          totalLength = int (length pci) + int (length firstChunk)
      in if totalLength > maxDataLength then Inl (FirstFrameExceeds totalLength maxDataLength)
         else Inr (pci @ firstChunk))"

definition createConsecutiveFramePayload :: "bytes \<Rightarrow> int \<Rightarrow> isotp_error + bytes" where
  "createConsecutiveFramePayload dataChunk sequenceNumber =
     (if sequenceNumber < 0 \<or> sequenceNumber > 15 then Inl SequenceNumberOutOfRange
      else Inr ([pciTypeConsecutiveFrame OR word_of_int sequenceNumber] @ dataChunk))"

definition createFlowControlPayloadRaw :: "FlowStatus \<Rightarrow> u8 \<Rightarrow> u8 \<Rightarrow> bytes" where
  "createFlowControlPayloadRaw status blockSize stMin =
     [pciTypeFlowControl OR status, blockSize, stMin]"

definition createFlowControlPayload :: "FlowStatus \<Rightarrow> int \<Rightarrow> int \<Rightarrow> bytes" where
  "createFlowControlPayload status blockSize stMinMs =
     (let stMinByte = (if 0 \<le> stMinMs \<and> stMinMs \<le> 127 then word_of_int stMinMs else 0x7F)
      in createFlowControlPayloadRaw status (word_of_int blockSize) stMinByte)"

definition EncodeSingleFrame :: "bytes \<Rightarrow> bool \<Rightarrow> isotp_error + bytes" where
  "EncodeSingleFrame data isFD = createSingleFramePayload data (frameDataLength isFD)"

definition EncodeFirstFrame :: "bytes \<Rightarrow> int \<Rightarrow> bool \<Rightarrow> isotp_error + bytes" where
  "EncodeFirstFrame firstChunk totalMessageSize isFD =
     (if totalMessageSize \<le> 0 then Inl (MessageLengthNotPositive totalMessageSize)
      else if totalMessageSize > 0xFFFFFFFF then Inl (MessageLengthExceeds32Bit totalMessageSize)
      else if totalMessageSize \<le> int (length firstChunk)
      then Inl (MessageLengthNotAboveChunk totalMessageSize (int (length firstChunk)))
      else createFirstFramePayload firstChunk totalMessageSize (frameDataLength isFD))"

definition EncodeConsecutiveFrame :: "bytes \<Rightarrow> int \<Rightarrow> bool \<Rightarrow> isotp_error + bytes" where
  "EncodeConsecutiveFrame dataChunk sequenceNumber isFD =
     (let maxChunkLength = frameDataLength isFD - 1
      in if int (length dataChunk) > maxChunkLength
         then Inl (CfDataExceeds (int (length dataChunk)) maxChunkLength)
         else createConsecutiveFramePayload dataChunk sequenceNumber)"

definition EncodeFlowControlFrame :: "FlowStatus \<Rightarrow> int \<Rightarrow> u8 \<Rightarrow> isotp_error + bytes" where
  "EncodeFlowControlFrame status blockSize stMin =
     (if status > FlowStatusOverflow then Inl (InvalidFlowControlStatus status)
      else if blockSize < 0 \<or> blockSize > 255 then Inl (BlockSizeOutOfRange blockSize)
      else if stMin > 0x7F \<and> (stMin < 0xF1 \<or> stMin > 0xF9) then Inl (InvalidSTminEncoding stMin)
      else Inr (createFlowControlPayloadRaw status (word_of_int blockSize) stMin))"

section \<open>Parsing\<close>

datatype PDU =
    SingleFrame bytes
  | FirstFrame int bytes
  | ConsecutiveFrame int bytes
  | FlowControlFrame FlowStatus int duration

definition decodeSTmin :: "u8 \<Rightarrow> duration" where
  "decodeSTmin stMinByte =
     (if stMinByte \<le> 0x7F then uint stMinByte * Millisecond
      else if 0xF1 \<le> stMinByte \<and> stMinByte \<le> 0xF9
      then uint (stMinByte - 0xF0) * 100 * Microsecond
      else 127 * Millisecond)"

text \<open>None is a run-time panic (an index or a slice out of range).\<close>

definition parseSingleFrame :: "bytes \<Rightarrow> (isotp_error + PDU) option" where
  "parseSingleFrame payload = do {
     b0 \<leftarrow> index_at payload 0;
     let len = uint (b0 AND 0x0F);
     (if len = 0 then
        (if length payload = 1 then Some (Inr (SingleFrame []))
         else if length payload < 2 then Some (Inl EscapedSfTooShort)
         else do {
           b1 \<leftarrow> index_at payload 1;
           let len = uint b1;
           (if int (length payload) - 2 < len then Some (Inl EscapedSfIncomplete)
            else do {
              data \<leftarrow> slice payload 2 (2 + len);
              Some (Inr (SingleFrame data))
            })
         })
      else if int (length payload) - 1 < len then Some (Inl SfIncomplete)
      else do {
        data \<leftarrow> slice payload 1 (1 + len);
        Some (Inr (SingleFrame data))
      })
   }"

definition parseFirstFrameTail :: "bytes \<Rightarrow> int \<Rightarrow> int \<Rightarrow> (isotp_error + PDU) option" where
  "parseFirstFrameTail payload totalSize dataStart =
     (if totalSize \<le> int (length payload) - dataStart
      then Some (Inl (FirstFrameNotLonger totalSize (int (length payload) - dataStart)))
      else do {
        data \<leftarrow> slice_from payload dataStart;
        Some (Inr (FirstFrame totalSize data))
      })"

definition parseFirstFrame :: "bytes \<Rightarrow> (isotp_error + PDU) option" where
  "parseFirstFrame payload =
     (if length payload < 2 then Some (Inl FirstFrameTooShort)
      else do {
        b0 \<leftarrow> index_at payload 0;
        b1 \<leftarrow> index_at payload 1;
        let totalSize = push_bit 8 (uint (b0 AND 0x0F)) OR uint b1;
        (if totalSize = 0 then
           (if length payload < 6 then Some (Inl LongFirstFrameTooShort)
            else do {
              len4 \<leftarrow> slice payload 2 6;
              let totalSize = uint (BigEndian_Uint32 len4);
              (if totalSize \<le> 4095 then Some (Inl (LongFirstFrameNeeds12Bit totalSize))
               else parseFirstFrameTail payload totalSize 6)
            })
         else parseFirstFrameTail payload totalSize 2)
      })"

definition parseConsecutiveFrame :: "bytes \<Rightarrow> (isotp_error + PDU) option" where
  "parseConsecutiveFrame payload = do {
     b0 \<leftarrow> index_at payload 0;
     data \<leftarrow> slice_from payload 1;
     Some (Inr (ConsecutiveFrame (uint (b0 AND 0x0F)) data))
   }"

definition parseFlowControl :: "bytes \<Rightarrow> (isotp_error + PDU) option" where
  "parseFlowControl payload =
     (if length payload < 3 then Some (Inl FlowControlTooShort)
      else do {
        b0 \<leftarrow> index_at payload 0;
        b1 \<leftarrow> index_at payload 1;
        b2 \<leftarrow> index_at payload 2;
        let status = b0 AND 0x0F;
        (if status > FlowStatusOverflow then Some (Inl (InvalidFlowControlStatus status))
         else Some (Inr (FlowControlFrame status (uint b1) (decodeSTmin b2))))
      })"

definition ParseFrame :: "bytes \<Rightarrow> (isotp_error + PDU) option" where
  "ParseFrame payload =
     (if length payload = 0 then Some (Inl EmptyCanPayload)
      else do {
        b0 \<leftarrow> index_at payload 0;
        let pciType = b0 AND 0xF0;
        (if pciType = 0x00 then parseSingleFrame payload
         else if pciType = 0x10 then parseFirstFrame payload
         else if pciType = 0x20 then parseConsecutiveFrame payload
         else if pciType = 0x30 then parseFlowControl payload
         else Some (Inl (UnknownPciType pciType)))
      })"

section \<open>Lemmas on bytes\<close>

lemma uint_word_of_int_u8: "0 \<le> n \<Longrightarrow> n < 256 \<Longrightarrow> uint (word_of_int n :: u8) = n"
  by (simp add: uint_word_of_int)

lemma u8_of_int_le_15: "0 \<le> n \<Longrightarrow> n \<le> 15 \<Longrightarrow> (word_of_int n :: u8) \<le> 15"
  by (simp add: word_le_def uint_word_of_int)

lemma pci_nibbles:
  assumes "(x :: u8) \<le> 15"
  shows "(0x10 OR x) AND 0xF0 = 0x10" "(0x10 OR x) AND 0x0F = x"
    "(0x20 OR x) AND 0xF0 = 0x20" "(0x20 OR x) AND 0x0F = x"
    "(0x30 OR x) AND 0xF0 = 0x30" "(0x30 OR x) AND 0x0F = x"
    "x AND 0xF0 = 0" "x AND 0x0F = x"
  using u8_le_15_cases [OF assms] by (elim insertE; simp)+

lemma low_nibble_le: "(x :: u8) AND 0x0F \<le> 15"
  by (rule word_and_le1)

lemma uint_low_nibble: "0 \<le> uint ((x :: u8) AND 0x0F) \<and> uint (x AND 0x0F) \<le> 15"
  using low_nibble_le [of x] by (simp add: word_le_def)

lemma int_and_15: "(n :: int) AND 15 = n mod 16"
proof -
  have "n AND 15 = take_bit 4 n" by (simp add: take_bit_eq_mask mask_eq_exp_minus_1)
  then show ?thesis by (simp add: take_bit_eq_mod)
qed

lemma int_and_255: "(n :: int) AND 255 = n mod 256"
proof -
  have "n AND 255 = take_bit 8 n" by (simp add: take_bit_eq_mask mask_eq_exp_minus_1)
  then show ?thesis by (simp add: take_bit_eq_mod)
qed

lemma push_bit_or:
  assumes "0 \<le> b" "b < 256"
  shows "push_bit 8 (a :: int) OR b = a * 256 + b"
proof -
  have "take_bit 8 b = b" using assms by (simp add: take_bit_eq_mod)
  then have "push_bit 8 a OR b = concat_bit 8 b a"
    by (simp add: concat_bit_def or.commute)
  also have "\<dots> = a * 256 + b"
    using \<open>take_bit 8 b = b\<close> by (simp add: concat_bit_eq push_bit_eq_mult)
  finally show ?thesis .
qed

lemma length_PutUint32 [simp]: "length (PutUint32 v) = 4"
  by (simp add: PutUint32_def)

lemma BigEndian_roundtrip: "BigEndian_Uint32 (PutUint32 v) = v"
proof (rule bit_word_eqI)
  fix n :: nat
  assume "n < LENGTH(32)"
  then consider "n < 8" | "8 \<le> n" "n < 16" | "16 \<le> n" "n < 24" | "24 \<le> n" "n < 32"
    by fastforce
  then show "bit (BigEndian_Uint32 (PutUint32 v)) n = bit v n"
    by cases (auto simp: BigEndian_Uint32_def PutUint32_def bit_or_iff bit_push_bit_iff
      bit_ucast_iff bit_drop_bit_eq)
qed

section \<open>The parser never panics\<close>

lemma parse_parts_total:
  assumes "p \<noteq> []"
  shows "parseSingleFrame p \<noteq> None" "parseFirstFrame p \<noteq> None"
    "parseConsecutiveFrame p \<noteq> None" "parseFlowControl p \<noteq> None"
proof -
  have len: "0 < length p" using assms by simp
  show "parseSingleFrame p \<noteq> None"
    using len uint_low_nibble [of "p ! 0"]
    by (auto simp: parseSingleFrame_def index_at_def slice_def Let_def split: if_splits)
  show "parseFirstFrame p \<noteq> None"
    using len
    by (auto simp: parseFirstFrame_def parseFirstFrameTail_def index_at_def slice_def
        slice_from_def Let_def split: if_splits)
  show "parseConsecutiveFrame p \<noteq> None"
    using len by (simp add: parseConsecutiveFrame_def index_at_def slice_from_def Suc_le_eq)
  show "parseFlowControl p \<noteq> None"
    by (auto simp: parseFlowControl_def index_at_def Let_def split: if_splits)
qed

lemma ParseFrame_total: "ParseFrame p \<noteq> None"
  using parse_parts_total [of p]
  by (cases "p = []") (auto simp: ParseFrame_def index_at_def Let_def split: if_splits)

section \<open>Round trips\<close>

text \<open>
  Each encoder is followed by the bytes the link may add: padding up to the frame's length.
\<close>

lemma parse_created_single:
  assumes "createSingleFramePayload data n = Inr p" "n \<le> 64"
    and "data \<noteq> [] \<or> n > 8 \<or> pad = []"
  shows "ParseFrame (p @ pad) = Some (Inr (SingleFrame data))"
proof -
  let ?L = "int (length data)"
  consider (empty) "data = []" "n > 8" | (bare) "data = []" "\<not> n > 8"
    | (short) "data \<noteq> []" "?L \<le> 7" | (esc) "\<not> ?L \<le> 7" by linarith
  then show ?thesis
  proof cases
    case empty
    then have "p = [0, 0]"
      using assms(1) by (auto simp: createSingleFramePayload_def pci_types split: if_splits)
    with empty show ?thesis
      by (simp add: ParseFrame_def parseSingleFrame_def slice_def Let_def)
  next
    case bare
    then have "p = [0]" "pad = []"
      using assms by (auto simp: createSingleFramePayload_def pci_types split: if_splits)
    with bare show ?thesis
      by (simp add: ParseFrame_def parseSingleFrame_def slice_def Let_def)
  next
    case short
    let ?b = "word_of_int ?L :: u8"
    have p: "p = ?b # data"
      using short assms(1)
      by (auto simp: createSingleFramePayload_def pci_types Let_def split: if_splits)
    have b: "?b \<le> 15" "uint ?b = ?L"
      using short u8_of_int_le_15 [of ?L] uint_word_of_int_u8 [of ?L] by simp_all
    have "slice (p @ pad) 1 (1 + ?L) = Some data"
      using slice_append [of 1 "[?b]" "1 + ?L" data pad] by (simp add: p)
    with short b show ?thesis
      by (simp add: ParseFrame_def parseSingleFrame_def p pci_nibbles Let_def)
  next
    case esc
    let ?b = "word_of_int ?L :: u8"
    have p: "p = 0 # ?b # data"
      using esc assms(1)
      by (auto simp: createSingleFramePayload_def pci_types Let_def split: if_splits)
    have "?L \<le> 62"
      using esc assms by (auto simp: createSingleFramePayload_def Let_def split: if_splits)
    then have b: "uint ?b = ?L"
      using uint_word_of_int_u8 [of ?L] by simp
    have "slice (p @ pad) 2 (2 + ?L) = Some data"
      using slice_append [of 2 "[0, ?b]" "2 + ?L" data pad] by (simp add: p)
    with esc b show ?thesis
      by (simp add: ParseFrame_def parseSingleFrame_def p Let_def)
  qed
qed

lemma parse_created_first:
  assumes "createFirstFramePayload chunk N n = Inr p"
    and "0 < N" "N \<le> 0xFFFFFFFF" "int (length chunk + length pad) < N"
  shows "ParseFrame (p @ pad) = Some (Inr (FirstFrame N (chunk @ pad)))"
proof (cases "N \<le> 4095")
  case True
  let ?h = "word_of_int (N div 256) :: u8" and ?l = "word_of_int (N mod 256) :: u8"
  have hi: "drop_bit 8 N AND 0x0F = N div 256"
    using True assms(2) by (simp add: drop_bit_eq_div int_and_15)
  have p: "p = (0x10 OR ?h) # ?l # chunk"
    using assms(1) True hi int_and_255 [of N]
    by (auto simp: createFirstFramePayload_def pci_types Let_def split: if_splits)
  have h: "?h \<le> 15" "uint ?h = N div 256" "uint ?l = N mod 256"
    using True assms(2) by (auto intro!: u8_of_int_le_15 uint_word_of_int_u8)
  have tot: "push_bit 8 (uint ((0x10 OR ?h) AND 0x0F)) OR uint ?l = N"
    using h by (simp add: pci_nibbles push_bit_or)
  show ?thesis
    using assms tot h
    by (simp add: ParseFrame_def parseFirstFrame_def parseFirstFrameTail_def p pci_nibbles
        slice_from_def Let_def)
next
  case False
  let ?len = "PutUint32 (word_of_int N)"
  have p: "p = [0x10, 0] @ ?len @ chunk"
    using assms(1) False by (auto simp: createFirstFramePayload_def pci_types Let_def split: if_splits)
  have len4: "slice (p @ pad) 2 6 = Some ?len"
    using slice_append [of 2 "[0x10, 0]" 6 ?len "chunk @ pad"] by (simp add: p)
  have tot: "uint (BigEndian_Uint32 ?len) = N"
    using assms(2,3) by (simp add: BigEndian_roundtrip uint_word_of_int)
  have tail: "slice_from (p @ pad) 6 = Some (chunk @ pad)"
    by (simp add: p slice_from_def)
  have head: "index_at (p @ pad) 0 = Some 0x10" "index_at (p @ pad) 1 = Some 0"
    and lp: "length (p @ pad) = 6 + length chunk + length pad" and ne: "p @ pad \<noteq> []"
    by (simp_all add: p)
  show ?thesis
    using assms False
    by (simp add: ParseFrame_def parseFirstFrame_def parseFirstFrameTail_def head len4 tot tail
        lp ne Let_def del: length_append append_is_Nil_conv)
qed

lemma parse_created_consecutive:
  assumes "createConsecutiveFramePayload chunk sn = Inr p"
  shows "ParseFrame (p @ pad) = Some (Inr (ConsecutiveFrame sn (chunk @ pad)))"
proof -
  let ?s = "word_of_int sn :: u8"
  have r: "0 \<le> sn" "sn \<le> 15" and p: "p = (0x20 OR ?s) # chunk"
    using assms by (auto simp: createConsecutiveFramePayload_def pci_types split: if_splits)
  then have "?s \<le> 15" "uint ?s = sn"
    by (simp_all add: u8_of_int_le_15 uint_word_of_int_u8)
  then show ?thesis
    by (simp add: ParseFrame_def parseConsecutiveFrame_def p pci_nibbles slice_from_def Let_def)
qed

lemma parse_created_flow_control:
  assumes "status \<le> FlowStatusOverflow"
  shows "ParseFrame (createFlowControlPayloadRaw status bs stmin @ pad)
       = Some (Inr (FlowControlFrame status (uint bs) (decodeSTmin stmin)))"
proof -
  have "status \<le> 15"
    using assms by (rule order_trans) (simp add: flow_statuses)
  then show ?thesis
    using assms
    by (simp add: ParseFrame_def parseFlowControl_def createFlowControlPayloadRaw_def pci_types
        pci_nibbles flow_statuses Let_def)
qed

lemma decodeSTmin_ms: "0 \<le> n \<Longrightarrow> n \<le> 127 \<Longrightarrow> decodeSTmin (word_of_int n) = n * Millisecond"
  by (simp add: decodeSTmin_def uint_word_of_int word_le_def)

lemma decodeSTmin_range: "0 \<le> decodeSTmin b \<and> decodeSTmin b \<le> 127 * Millisecond"
proof -
  have "uint (b - 0xF0) \<le> 9" if "0xF1 \<le> b" "b \<le> 0xF9"
    using that by (simp add: word_le_def uint_word_ariths)
  then show ?thesis
    by (auto simp: decodeSTmin_def word_le_def Millisecond_def Microsecond_def)
qed

section \<open>Properties\<close>

text \<open>Every payload that EncodeSingleFrame accepts is recovered by ParseFrame, also when the
  link pads the frame; on classic CAN the empty payload is the exception, which survives only
  without padding.\<close>

theorem single_frame_roundtrip:
  assumes "EncodeSingleFrame data isFD = Inr p" "data \<noteq> [] \<or> isFD \<or> pad = []"
  shows "ParseFrame (p @ pad) = Some (Inr (SingleFrame data))"
  using assms parse_created_single [of data "frameDataLength isFD" p pad]
  by (auto simp: EncodeSingleFrame_def frameDataLength_def split: if_splits)

theorem single_frame_roundtrip_witness:
  "ParseFrame ([2, 0x10, 0x03] @ [0xAA, 0xAA]) = Some (Inr (SingleFrame [0x10, 0x03]))"
  by (rule single_frame_roundtrip [of _ False])
     (simp_all add: EncodeSingleFrame_def createSingleFramePayload_def frameDataLength_def pci_types)

text \<open>On classic CAN a padded empty single frame does not come back as the empty payload. Up to
  padding byte 6 the receiver delivers that many bytes of padding, and above it reports an error.\<close>

theorem padded_empty_single_frame_misread:
  "EncodeSingleFrame [] False = Inr [0] \<and>
   ParseFrame ([0] @ replicate 7 b) =
     Some (if b \<le> 6 then Inr (SingleFrame (replicate (unat b) b)) else Inl EscapedSfIncomplete)"
proof -
  have e: "EncodeSingleFrame [] False = Inr [0]"
    by (simp add: EncodeSingleFrame_def createSingleFramePayload_def frameDataLength_def pci_types)
  have r: "replicate 7 b = [b, b, b, b, b, b, b]" "replicate 6 b = [b, b, b, b, b, b]"
    by (simp_all add: numeral_eq_Suc)
  have len: "(6 < uint b) = (\<not> b \<le> 6)" by (simp add: word_le_def not_le)
  have s: "slice ([0] @ replicate 7 b) 2 (2 + uint b) = Some (replicate (unat b) b)" if "b \<le> 6"
  proof -
    have n: "unat b \<le> 6" using that by (simp add: word_le_nat_alt)
    have "replicate 7 b = b # replicate (unat b) b @ replicate (6 - unat b) b"
      using n by (simp add: replicate_add [symmetric] numeral_eq_Suc del: replicate_add)
    then show ?thesis
      using slice_append [of 2 "[0, b]" "2 + uint b" "replicate (unat b) b" "replicate (6 - unat b) b"]
      by simp
  qed
  show ?thesis
    using e len s by (simp add: ParseFrame_def parseSingleFrame_def r(1) Let_def)
qed

text \<open>A first frame built by EncodeFirstFrame, with the 12-bit or the 32-bit length, is parsed
  back to the announced length and the chunk; padding the link adds ends up in the chunk, as long as
  the announced length still exceeds it.\<close>

theorem first_frame_roundtrip:
  assumes "EncodeFirstFrame chunk n isFD = Inr p" "int (length chunk + length pad) < n"
  shows "ParseFrame (p @ pad) = Some (Inr (FirstFrame n (chunk @ pad)))"
  using assms parse_created_first [of chunk n "frameDataLength isFD" p pad]
  by (auto simp: EncodeFirstFrame_def split: if_splits)

theorem first_frame_roundtrip_witness:
  "ParseFrame ([0x10, 20, 1, 2, 3, 4, 5, 6] @ []) = Some (Inr (FirstFrame 20 ([1, 2, 3, 4, 5, 6] @ [])))"
  by (rule first_frame_roundtrip [of _ _ False])
     (simp_all add: EncodeFirstFrame_def createFirstFramePayload_def frameDataLength_def pci_types
        drop_bit_eq_div int_and_15 int_and_255)

text \<open>A consecutive frame built by EncodeConsecutiveFrame is parsed back to its sequence number
  and its chunk, followed by the padding of the link.\<close>

theorem consecutive_frame_roundtrip:
  assumes "EncodeConsecutiveFrame chunk sn isFD = Inr p"
  shows "0 \<le> sn \<and> sn \<le> 15 \<and> ParseFrame (p @ pad) = Some (Inr (ConsecutiveFrame sn (chunk @ pad)))"
proof -
  have c: "createConsecutiveFramePayload chunk sn = Inr p"
    using assms by (simp add: EncodeConsecutiveFrame_def Let_def split: if_splits)
  then have "0 \<le> sn \<and> sn \<le> 15"
    by (simp add: createConsecutiveFramePayload_def split: if_splits)
  with parse_created_consecutive [OF c] show ?thesis by simp
qed

theorem consecutive_frame_roundtrip_witness:
  "ParseFrame ([0x2F, 9] @ [0]) = Some (Inr (ConsecutiveFrame 15 [9, 0]))"
  using consecutive_frame_roundtrip [of "[9]" 15 False "[0x2F, 9]" "[0]"]
  by (simp add: EncodeConsecutiveFrame_def createConsecutiveFramePayload_def frameDataLength_def pci_types)

text \<open>A flow-control frame built by EncodeFlowControlFrame is parsed back to its status, its
  block size and the separation time its STmin byte encodes, also when padded.\<close>

theorem flow_control_roundtrip:
  assumes "EncodeFlowControlFrame status bs stmin = Inr p"
  shows "ParseFrame (p @ pad) = Some (Inr (FlowControlFrame status bs (decodeSTmin stmin)))"
proof -
  have p: "status \<le> FlowStatusOverflow" "0 \<le> bs" "bs \<le> 255"
    "p = createFlowControlPayloadRaw status (word_of_int bs) stmin"
    using assms by (auto simp: EncodeFlowControlFrame_def split: if_splits)
  have u: "uint (word_of_int bs :: u8) = bs" using p(2,3) by (intro uint_word_of_int_u8) auto
  show ?thesis
    unfolding p(4) using parse_created_flow_control [OF p(1), of "word_of_int bs" stmin pad]
    by (simp only: u)
qed

theorem flow_control_roundtrip_witness:
  "ParseFrame ([0x31, 8, 0xF3] @ [0, 0, 0, 0, 0]) =
     Some (Inr (FlowControlFrame FlowStatusWait 8 (300 * Microsecond)))"
proof -
  have "decodeSTmin 0xF3 = 300 * Microsecond" by (simp add: decodeSTmin_def Microsecond_def)
  then show ?thesis
    using flow_control_roundtrip [of FlowStatusWait 8 "0xF3" "[0x31, 8, 0xF3]" "[0, 0, 0, 0, 0]"]
    by (simp add: EncodeFlowControlFrame_def createFlowControlPayloadRaw_def pci_types flow_statuses)
qed

text \<open>C25: every payload the four encoders accept is parsed back from the bytes they build, also when the
  link pads the frame: a single frame to its payload, a first frame (12-bit or 32-bit length) to the
  announced length and its chunk, a consecutive frame to its sequence number and its chunk, a
  flow-control frame to its status, block size and decoded separation time. Padding ends up in the
  chunk of a first or consecutive frame, and the empty single frame of classic CAN survives only
  without padding.\<close>

theorem encoded_frames_parse_back:
  "(EncodeSingleFrame data isFD = Inr p \<and> (data \<noteq> [] \<or> isFD \<or> pad = []) \<longrightarrow>
      ParseFrame (p @ pad) = Some (Inr (SingleFrame data))) \<and>
   (EncodeFirstFrame data n isFD = Inr p \<and> int (length data + length pad) < n \<longrightarrow>
      ParseFrame (p @ pad) = Some (Inr (FirstFrame n (data @ pad)))) \<and>
   (EncodeConsecutiveFrame data sn isFD = Inr p \<longrightarrow>
      0 \<le> sn \<and> sn \<le> 15 \<and> ParseFrame (p @ pad) = Some (Inr (ConsecutiveFrame sn (data @ pad)))) \<and>
   (EncodeFlowControlFrame status bs stmin = Inr p \<longrightarrow>
      ParseFrame (p @ pad) = Some (Inr (FlowControlFrame status bs (decodeSTmin stmin))))"
  by (intro conjI impI)
    (use single_frame_roundtrip first_frame_roundtrip consecutive_frame_roundtrip
       flow_control_roundtrip in blast)+

theorem encoded_frames_parse_back_witness:
  "ParseFrame ([2, 0x10, 0x03] @ [0xAA, 0xAA]) = Some (Inr (SingleFrame [0x10, 0x03])) \<and>
   ParseFrame ([0x2F, 9] @ [0]) = Some (Inr (ConsecutiveFrame 15 [9, 0]))"
proof
  show "ParseFrame ([2, 0x10, 0x03] @ [0xAA, 0xAA]) = Some (Inr (SingleFrame [0x10, 0x03]))"
    using encoded_frames_parse_back [of "[0x10, 0x03]" False "[2, 0x10, 0x03]" "[0xAA, 0xAA]"]
    by (simp add: EncodeSingleFrame_def createSingleFramePayload_def frameDataLength_def pci_types)
  show "ParseFrame ([0x2F, 9] @ [0]) = Some (Inr (ConsecutiveFrame 15 [9, 0]))"
    using encoded_frames_parse_back [of "[9]" False "[0x2F, 9]" "[0]" _ 15]
    by (simp add: EncodeConsecutiveFrame_def createConsecutiveFramePayload_def frameDataLength_def pci_types)
qed

definition pdu_wf :: "bytes \<Rightarrow> PDU \<Rightarrow> bool" where
  "pdu_wf p d \<longleftrightarrow>
     (case d of
        SingleFrame data \<Rightarrow> length data < length p
      | FirstFrame n data \<Rightarrow> int (length data) < n \<and> n \<le> 0xFFFFFFFF \<and> length data < length p
      | ConsecutiveFrame sn data \<Rightarrow> 0 \<le> sn \<and> sn \<le> 15 \<and> Suc (length data) = length p
      | FlowControlFrame st bs stmin \<Rightarrow> st \<le> FlowStatusOverflow \<and> 0 \<le> bs \<and> bs \<le> 255 \<and>
          0 \<le> stmin \<and> stmin \<le> 127 * Millisecond)"

lemma parse_parts_wf:
  "parseSingleFrame p = Some (Inr d) \<Longrightarrow> pdu_wf p d"
  "parseFirstFrame p = Some (Inr d) \<Longrightarrow> pdu_wf p d"
  "parseConsecutiveFrame p = Some (Inr d) \<Longrightarrow> pdu_wf p d"
  "parseFlowControl p = Some (Inr d) \<Longrightarrow> pdu_wf p d"
proof -
  show "parseSingleFrame p = Some (Inr d) \<Longrightarrow> pdu_wf p d"
    by (auto simp: parseSingleFrame_def pdu_wf_def index_at_def slice_def Let_def min_less_iff_disj
        split: if_splits)
  show "parseConsecutiveFrame p = Some (Inr d) \<Longrightarrow> pdu_wf p d"
    using uint_low_nibble
    by (auto simp: parseConsecutiveFrame_def pdu_wf_def index_at_def slice_from_def Let_def split: if_splits)
  show "parseFlowControl p = Some (Inr d) \<Longrightarrow> pdu_wf p d"
    using decodeSTmin_range uint_bounded [of "p ! 1"]
    by (auto simp: parseFlowControl_def pdu_wf_def index_at_def Let_def not_less split: if_splits)
  have tail: "pdu_wf p d" if "parseFirstFrameTail p n k = Some (Inr d)" "n \<le> 0xFFFFFFFF" "1 \<le> k" for n k
    using that by (auto simp: parseFirstFrameTail_def pdu_wf_def slice_from_def split: if_splits)
  have b12: "push_bit 8 (uint (x AND 0x0F)) OR uint y \<le> 0xFFFFFFFF" for x y :: u8
    using uint_low_nibble [of x] uint_bounded [of y] by (simp add: push_bit_or)
  have b32: "uint (x :: u32) \<le> 0xFFFFFFFF" for x
    using uint_bounded [of x] by simp
  show "parseFirstFrame p = Some (Inr d) \<Longrightarrow> pdu_wf p d"
    using tail [OF _ b12] tail [OF _ b32]
    by (auto simp: parseFirstFrame_def index_at_def slice_def Let_def split: if_splits)
qed

text \<open>C24: ParseFrame returns on every byte string without an out-of-range access, and what it
  accepts is well formed: a first frame announces more than it carries, sequence numbers have four
  bits, flow states are known, block sizes have eight bits, and STmin is at most 127 ms.\<close>

theorem ParseFrame_safe:
  "case ParseFrame p of None \<Rightarrow> False | Some (Inl e) \<Rightarrow> True | Some (Inr d) \<Rightarrow> pdu_wf p d"
proof -
  obtain r where r: "ParseFrame p = Some r" using ParseFrame_total by blast
  have "pdu_wf p d" if "ParseFrame p = Some (Inr d)" for d
    using that parse_parts_wf [of p d]
    by (auto simp: ParseFrame_def index_at_def Let_def split: if_splits)
  with r show ?thesis by (cases r) auto
qed

end
