(* ===== verification/Isotp_Session.thy ===== *)
theory Isotp_Session
  imports Isotp_Framing
begin

text \<open>
  The ISO-TP session (isotp/stack.go, rx_handler.go, tx_handler.go, message.go): its state and
  the handlers that receive and transmit frames.

  A timer is the duration it was last reset to, or None while stopped or after it fired; since
  Go 1.23 a stopped timer leaves no stale value in its channel. \<open>rxq\<close> and \<open>txq\<close> are the contents
  of the channels \<open>rxMessages\<close> and \<open>tx\<close> between the run loop and the two goroutines that receive
  and send CAN frames: a send that has to wait for room is the same send done later, as nothing
  else writes the channel. The last five fields say whether the session's context is cancelled,
  which of the three goroutines returned, and whether \<open>Close\<close> is over. Handlers have an option
  type, None is a run-time panic. A blocking \<open>select\<close> on \<open>tx\<close> and on the session's context takes
  the branch named by the argument \<open>sel\<close>.
\<close>

section \<open>State\<close>

datatype state = stateIdle | stateWaitFC | stateWaitCF | stateTransmit

record linkFrame =
  ArbitrationID :: u32
  lf_Data :: bytes
  lf_FD :: bool

record session =
  address :: Address
  txAddress :: "Address option"
  fd :: bool
  frameDataLen :: int
  rxState :: state
  txState :: state
  rxBuffer :: bytes
  txBuffer :: bytes
  rxDataChan :: "bytes chan"
  txDataChan :: "bytes chan"
  rxFrameLen :: int
  txFrameLen :: int
  rxSeqNum :: int
  txSeqNum :: int
  rxBlockCounter :: int
  txBlockCounter :: int
  remoteBlockSize :: int
  remoteSTmin :: duration
  txWaitFrames :: int
  timerRxCF :: "duration option"
  timerRxFC :: "duration option"
  timerTxSTmin :: "duration option"
  config :: TpConfig
  errorChan :: "isotp_error chan"
  rxq :: "linkFrame list"
  txq :: "linkFrame list"
  ctxDone :: bool
  pumpDone :: bool
  senderDone :: bool
  runDone :: bool
  sessionClosed :: bool

section \<open>Helpers\<close>

definition stopReceiving :: "session \<Rightarrow> session" where
  "stopReceiving t = t\<lparr>rxState := stateIdle, rxBuffer := [], rxFrameLen := 0, rxSeqNum := 0,
     rxBlockCounter := 0, timerRxCF := None\<rparr>"

definition stopSending :: "session \<Rightarrow> session" where
  "stopSending t = t\<lparr>txState := stateIdle, txBuffer := [], txFrameLen := 0, txSeqNum := 0,
     txBlockCounter := 0, txWaitFrames := 0, timerRxFC := None, timerTxSTmin := None\<rparr>"

definition resetRxTimer :: "session \<Rightarrow> session" where
  "resetRxTimer t = t\<lparr>timerRxCF := Some (ConsecutiveFrameTimeout (config t))\<rparr>"

definition resetTxFCTimer :: "session \<Rightarrow> session" where
  "resetTxFCTimer t = t\<lparr>timerRxFC := Some (FlowControlTimeout (config t))\<rparr>"

definition resetTxSTminTimer :: "duration \<Rightarrow> session \<Rightarrow> session" where
  "resetTxSTminTimer d t = t\<lparr>timerTxSTmin := Some d\<rparr>"

definition fireError :: "isotp_error \<Rightarrow> session \<Rightarrow> session option" where
  "fireError e t =
     (case try_send e (errorChan t) of
        None \<Rightarrow> None
      | Some (ch, _) \<Rightarrow> Some (t\<lparr>errorChan := ch\<rparr>))"

text \<open>The session after the select, and whether the frame was queued (no error).\<close>

definition sendMessage :: "bool \<Rightarrow> linkFrame \<Rightarrow> session \<Rightarrow> session \<times> bool" where
  "sendMessage sel msg t = (if sel then (t\<lparr>txq := txq t @ [msg]\<rparr>, True) else (t, False))"

definition nextFDTargetLength :: "int \<Rightarrow> int" where
  "nextFDTargetLength n =
     (if n \<le> 8 then 8 else if n \<le> 12 then 12 else if n \<le> 16 then 16 else if n \<le> 20 then 20
      else if n \<le> 24 then 24 else if n \<le> 32 then 32 else if n \<le> 48 then 48 else 64)"

definition makeTxMsgWithAddr :: "session \<Rightarrow> Address \<Rightarrow> bytes \<Rightarrow> linkFrame" where
  "makeTxMsgWithAddr t addr data =
     (let fullPayload =
            (case PaddingByte (config t) of
               None \<Rightarrow> data
             | Some pad \<Rightarrow>
               let targetLen = (if fd t then nextFDTargetLength (int (length data)) else 8)
               in if int (length data) < targetLen
                  then data @ replicate (nat targetLen - length data) pad
                  else data)
      in \<lparr>ArbitrationID = TxID addr, lf_Data = fullPayload, lf_FD = fd t\<rparr>)"

definition makeTxMsg :: "session \<Rightarrow> bytes \<Rightarrow> linkFrame" where
  "makeTxMsg t data =
     makeTxMsgWithAddr t (case txAddress t of None \<Rightarrow> address t | Some a \<Rightarrow> a) data"

definition makeFlowControlMsg :: "session \<Rightarrow> FlowStatus \<Rightarrow> linkFrame" where
  "makeFlowControlMsg t status =
     makeTxMsgWithAddr t (address t)
       (createFlowControlPayload status (BlockSize (config t)) (STMin (config t)))"

definition sendFlowControlContext :: "bool \<Rightarrow> FlowStatus \<Rightarrow> session \<Rightarrow> session \<times> bool" where
  "sendFlowControlContext sel status t =
     (if ManualFlowControl (config t) then (t, True)
      else sendMessage sel (makeFlowControlMsg t status) t)"

section \<open>Receiving\<close>

definition handleRxSingleFrame :: "bytes \<Rightarrow> session \<Rightarrow> session option" where
  "handleRxSingleFrame data t = do {
     t \<leftarrow> (if rxState t \<noteq> stateIdle then fireError SfInterruptedReception t else Some t);
     let t = stopReceiving t;
     (ch, taken) \<leftarrow> try_send data (rxDataChan t);
     (if taken then Some (t\<lparr>rxDataChan := ch\<rparr>) else fireError RxQueueFullForSf t)
   }"

definition handleRxFirstFrame :: "bool \<Rightarrow> int \<Rightarrow> bytes \<Rightarrow> session \<Rightarrow> session option" where
  "handleRxFirstFrame sel totalSize data t = do {
     t \<leftarrow> (if rxState t \<noteq> stateIdle then fireError FfInterruptedReception t else Some t);
     let t = stopReceiving t;
     (if totalSize \<le> int (length data)
      then fireError (InvalidFirstFrameLength totalSize (int (length data))) t
      else if totalSize > MaxPayloadSize (config t)
      then fireError (PayloadExceedsConfigured totalSize (MaxPayloadSize (config t))) t
      else
        let t = t\<lparr>rxFrameLen := totalSize, rxBuffer := data, rxState := stateWaitCF, rxSeqNum := 1\<rparr>;
            (t, queued) = sendFlowControlContext sel FlowStatusContinueToSend t
        in Some (if queued then resetRxTimer t else stopReceiving t))
   }"

definition handleRxConsecutiveFrame :: "bool \<Rightarrow> int \<Rightarrow> bytes \<Rightarrow> session \<Rightarrow> session option" where
  "handleRxConsecutiveFrame sel sequenceNumber data t =
     (if rxState t \<noteq> stateWaitCF then Some t
      else if sequenceNumber \<noteq> rxSeqNum t then do {
        t \<leftarrow> fireError (SequenceMismatch (rxSeqNum t) sequenceNumber) t;
        Some (stopReceiving t)
      }
      else do {
        let t = (resetRxTimer t)\<lparr>rxSeqNum := (rxSeqNum t + 1) mod 16\<rparr>;
        let bytesToReceive = rxFrameLen t - int (length (rxBuffer t));
        part \<leftarrow> (if int (length data) > bytesToReceive then slice_to data bytesToReceive
                else Some data);
        let t = t\<lparr>rxBuffer := rxBuffer t @ part\<rparr>;
        (if int (length (rxBuffer t)) \<ge> rxFrameLen t then do {
           (ch, taken) \<leftarrow> try_send (rxBuffer t) (rxDataChan t);
           t \<leftarrow> (if taken then Some (t\<lparr>rxDataChan := ch\<rparr>) else fireError RxQueueFullForPayload t);
           Some (stopReceiving t)
         }
         else
           let t = t\<lparr>rxBlockCounter := rxBlockCounter t + 1\<rparr>
           in if BlockSize (config t) > 0 \<and> rxBlockCounter t \<ge> BlockSize (config t)
              then let (t, queued) = sendFlowControlContext sel FlowStatusContinueToSend
                         (t\<lparr>rxBlockCounter := 0\<rparr>)
                   in Some (if queued then resetRxTimer t else stopReceiving t)
              else Some t)
      })"

section \<open>Transmitting\<close>

definition initiateTx :: "bool \<Rightarrow> bytes \<Rightarrow> session \<Rightarrow> session option" where
  "initiateTx sel payload t0 =
     (let t = t0\<lparr>txBuffer := payload, txFrameLen := int (length payload)\<rparr>;
          maxDataLength = frameDataLen t;
          sfPciSize = (if txFrameLen t > 7 then 2 else 1)
      in if txFrameLen t + sfPciSize \<le> maxDataLength
         then case createSingleFramePayload payload maxDataLength of
                Inl e \<Rightarrow> do { t \<leftarrow> fireError (ErrorCreatingSF e) t; Some (stopSending t) }
              | Inr data \<Rightarrow> Some (stopSending (fst (sendMessage sel (makeTxMsg t data) t)))
         else
           let ffPciSize = (if txFrameLen t > 4095 then 6 else 2);
               chunkSize = maxDataLength - ffPciSize
           in do {
             firstChunk \<leftarrow> slice_to (txBuffer t) chunkSize;
             rest \<leftarrow> slice_from (txBuffer t) chunkSize;
             let t = t\<lparr>txBuffer := rest\<rparr>;
             (case createFirstFramePayload firstChunk (txFrameLen t) maxDataLength of
                Inl e \<Rightarrow> do { t \<leftarrow> fireError (ErrorCreatingFF e) t; Some (stopSending t) }
              | Inr data \<Rightarrow>
                  let t = t\<lparr>txSeqNum := 1, txState := stateWaitFC\<rparr>;
                      (t, queued) = sendMessage sel (makeTxMsg t data) t
                  in Some (if queued then resetTxFCTimer t else stopSending t))
           })"

definition handleTxFlowControl :: "FlowStatus \<Rightarrow> int \<Rightarrow> duration \<Rightarrow> session \<Rightarrow> session option" where
  "handleTxFlowControl status blockSize stmin t =
     (if txState t \<noteq> stateWaitFC then Some t
      else if status = FlowStatusContinueToSend then
        Some (resetTxSTminTimer stmin
          (t\<lparr>timerRxFC := None, timerTxSTmin := None, remoteBlockSize := blockSize,
             remoteSTmin := stmin, txState := stateTransmit, txBlockCounter := 0,
             txWaitFrames := 0\<rparr>))
      else if status = FlowStatusWait then
        let t = t\<lparr>txWaitFrames := txWaitFrames t + 1\<rparr>
        in if MaxWaitFrames (config t) \<ge> 0 \<and> txWaitFrames t > MaxWaitFrames (config t)
           then do { t \<leftarrow> fireError (TooManyWaitFrames (txWaitFrames t)) t; Some (stopSending t) }
           else Some (resetTxFCTimer t)
      else if status = FlowStatusOverflow then do {
        t \<leftarrow> fireError RemoteOverflow (t\<lparr>timerRxFC := None, timerTxSTmin := None\<rparr>);
        Some (stopSending t)
      }
      else do { t \<leftarrow> fireError (InvalidFlowStatus status) t; Some (stopSending t) })"

definition handleTxTransmit :: "bool \<Rightarrow> session \<Rightarrow> session option" where
  "handleTxTransmit sel t =
     (if txBuffer t = [] then Some (stopSending t)
      else do {
        let chunkSize = frameDataLen t - 1;
        (chunk, rest) \<leftarrow> (if int (length (txBuffer t)) > chunkSize then do {
            c \<leftarrow> slice_to (txBuffer t) chunkSize;
            r \<leftarrow> slice_from (txBuffer t) chunkSize;
            Some (c, r)
          } else Some (txBuffer t, []));
        let t = t\<lparr>txBuffer := rest\<rparr>;
        (case createConsecutiveFramePayload chunk (txSeqNum t) of
           Inl e \<Rightarrow> do { t \<leftarrow> fireError (ErrorCreatingCF e) t; Some (stopSending t) }
         | Inr data \<Rightarrow>
             let t = t\<lparr>txSeqNum := (txSeqNum t + 1) mod 16, txBlockCounter := txBlockCounter t + 1\<rparr>;
                 (t, queued) = sendMessage sel (makeTxMsg t data) t
             in Some (if \<not> queued then stopSending t
                      else if txBuffer t = [] then stopSending t
                      else if remoteBlockSize t > 0 \<and> txBlockCounter t \<ge> remoteBlockSize t
                      then resetTxFCTimer (t\<lparr>txState := stateWaitFC\<rparr>)
                      else resetTxSTminTimer (remoteSTmin t) t))
      })"

section \<open>Dispatch of a received frame\<close>

definition processRx :: "bool \<Rightarrow> linkFrame \<Rightarrow> session \<Rightarrow> session option" where
  "processRx sel msg t =
     (if \<not> Accepts (Some (address t)) (ArbitrationID msg) then Some t
      else do {
        r \<leftarrow> ParseFrame (lf_Data msg);
        (case r of
           Inl e \<Rightarrow> fireError (ParseError e) t
         | Inr (FlowControlFrame status bs stmin) \<Rightarrow> handleTxFlowControl status bs stmin t
         | Inr (SingleFrame data) \<Rightarrow> handleRxSingleFrame data t
         | Inr (FirstFrame n data) \<Rightarrow> handleRxFirstFrame sel n data t
         | Inr (ConsecutiveFrame sn data) \<Rightarrow> handleRxConsecutiveFrame sel sn data t)
      })"

end
