(* ===== verification/Isotp_Run.thy ===== *)
theory Isotp_Run
  imports Isotp_Session
begin

text \<open>
  The life of an ISO-TP session (isotp/stack.go): construction, the three goroutines that \<open>New\<close>
  starts (receive pump, sender, run loop), the calls of the client and \<open>Close\<close>, as one step
  relation. The invariant of that relation shows that no reachable session panics, and gives the
  bounds that the handlers keep.
\<close>

section \<open>Construction\<close>

definition newSession :: "Address option \<Rightarrow> TpConfig \<Rightarrow> bool \<Rightarrow> isotp_error + session" where
  "newSession addr cfg isFD =
     (case normalizeTpConfig cfg of (normalized, r) \<Rightarrow>
       (case r of
          Inl e \<Rightarrow> Inl e
        | Inr _ \<Rightarrow>
          (case (Address_Validate addr, addr) of
             (Inl e, _) \<Rightarrow> Inl e
           | (Inr _, None) \<Rightarrow> Inl NilAddress
           | (Inr _, Some a) \<Rightarrow>
               let frameDataLength = (if isFD then 64 else 8)
               in Inr (stopSending (stopReceiving
                 \<lparr>address = \<lparr>TxID = TxID a, RxID = RxID a\<rparr>, txAddress = None, fd = isFD,
                  frameDataLen = frameDataLength, rxState = stateIdle, txState = stateIdle,
                  rxBuffer = [], txBuffer = [],
                  rxDataChan = make_chan 10, txDataChan = make_chan 10,
                  rxFrameLen = 0, txFrameLen = 0, rxSeqNum = 0, txSeqNum = 0,
                  rxBlockCounter = 0, txBlockCounter = 0, remoteBlockSize = 0, remoteSTmin = 0,
                  txWaitFrames = 0, timerRxCF = None, timerRxFC = None, timerTxSTmin = None,
                  config = normalized, errorChan = make_chan 10, rxq = [], txq = [],
                  ctxDone = False, pumpDone = False, senderDone = False, runDone = False,
                  sessionClosed = False\<rparr>)))))"

text \<open>
  \<open>New\<close>: the driver is nil, or shows its configuration and the answer of \<open>Subscribe(100)\<close>. The
  session comes back with its goroutines started.
\<close>

record driver_view =
  dv_Config :: Config
  dv_Subscribe :: "can_error + Frame chan"

definition New_session :: "driver_view option \<Rightarrow> Address option \<Rightarrow> TpConfig \<Rightarrow> isotp_error + session" where
  "New_session bus addr cfg =
     (case bus of
        None \<Rightarrow> Inl NilDriver
      | Some drv \<Rightarrow>
        (case newSession addr cfg (cfg_Mode (dv_Config drv) = FD) of
           Inl e \<Rightarrow> Inl e
         | Inr t \<Rightarrow>
           (case dv_Subscribe drv of
              Inl e \<Rightarrow> Inl (SubscribeFailed e)
            | Inr _ \<Rightarrow> Inr t)))"

section \<open>The goroutines\<close>

definition fromCANFrame :: "Frame \<Rightarrow> linkFrame option" where
  "fromCANFrame frame =
     (if f_Direction frame = Transmit \<or> f_ID frame > 0x7FF then None
      else case ValidDataLength frame of (len, valid) \<Rightarrow>
        if \<not> valid then None
        else Some \<lparr>ArbitrationID = f_ID frame,
                   lf_Data = go_copy (replicate (nat len) 0) (take (nat len) (f_Data frame)),
                   lf_FD = f_FD frame\<rparr>)"

text \<open>One frame through the receive goroutine.\<close>

definition pump :: "Frame \<Rightarrow> session \<Rightarrow> session" where
  "pump frame t =
     (case fromCANFrame frame of None \<Rightarrow> t | Some m \<Rightarrow> t\<lparr>rxq := rxq t @ [m]\<rparr>)"

text \<open>
  One frame through the sender; \<open>brs\<close> is the driver's \<open>Config().BRS\<close> and \<open>send\<close> what its
  \<open>Send\<close> returns.
\<close>

definition to_can_frame :: "bool \<Rightarrow> linkFrame \<Rightarrow> can_error + Frame" where
  "to_can_frame brs m =
     NewFrame (ArbitrationID m) (lf_Data m)
       \<lparr>fl_FD = lf_FD m, fl_BRS = (lf_FD m \<and> brs), fl_Extended = False\<rparr>"

definition sender_step :: "bool \<Rightarrow> (Frame \<Rightarrow> can_error option) \<Rightarrow> session \<Rightarrow> session option" where
  "sender_step brs send t =
     (case txq t of
        [] \<Rightarrow> Some t
      | m # ms \<Rightarrow>
        let t = t\<lparr>txq := ms\<rparr>;
            err = (case to_can_frame brs m of Inl e \<Rightarrow> Some e | Inr frame \<Rightarrow> send frame)
        in case err of
             None \<Rightarrow> Some t
           | Some e \<Rightarrow> if e = CtxErr Canceled then Some t else fireError (SendFrameFailed e) t)"

text \<open>The branches of the run loop's \<open>select\<close>, when each is ready, and what it does.\<close>

datatype event = EvDone | EvRx | EvTxData | EvTimerRxCF | EvTimerRxFC | EvTimerTxSTmin

definition ev_ready :: "event \<Rightarrow> session \<Rightarrow> bool" where
  "ev_ready ev t \<longleftrightarrow> \<not> runDone t \<and>
     (case ev of
        EvDone \<Rightarrow> ctxDone t
      | EvRx \<Rightarrow> rxq t \<noteq> []
      | EvTxData \<Rightarrow> txState t = stateIdle \<and> (ch_buf (txDataChan t) \<noteq> [] \<or> ch_closed (txDataChan t))
      | EvTimerRxCF \<Rightarrow> timerRxCF t \<noteq> None
      | EvTimerRxFC \<Rightarrow> timerRxFC t \<noteq> None
      | EvTimerTxSTmin \<Rightarrow> timerTxSTmin t \<noteq> None)"

definition cleanup :: "session \<Rightarrow> session" where
  "cleanup t = t\<lparr>timerRxCF := None, timerRxFC := None, timerTxSTmin := None\<rparr>"

definition run_step :: "bool \<Rightarrow> event \<Rightarrow> session \<Rightarrow> session option" where
  "run_step sel ev t =
     (case ev of
        EvDone \<Rightarrow> Some ((cleanup t)\<lparr>runDone := True\<rparr>)
      | EvRx \<Rightarrow> (case rxq t of [] \<Rightarrow> Some t | m # ms \<Rightarrow> processRx sel m (t\<lparr>rxq := ms\<rparr>))
      | EvTxData \<Rightarrow>
        (case chan_recv (txDataChan t) of
           (Received data, ch) \<Rightarrow> initiateTx sel data (t\<lparr>txDataChan := ch\<rparr>)
         | (Drained, _) \<Rightarrow> Some ((cleanup t)\<lparr>runDone := True\<rparr>)
         | (WouldBlock, _) \<Rightarrow> Some t)
      | EvTimerRxCF \<Rightarrow> do {
          t \<leftarrow> fireError CfTimedOut (t\<lparr>timerRxCF := None\<rparr>);
          Some (stopReceiving t)
        }
      | EvTimerRxFC \<Rightarrow> do {
          t \<leftarrow> fireError FcTimedOut (t\<lparr>timerRxFC := None\<rparr>);
          Some (stopSending t)
        }
      | EvTimerTxSTmin \<Rightarrow>
          let t = t\<lparr>timerTxSTmin := None\<rparr>
          in if txState t \<noteq> stateTransmit then Some t else handleTxTransmit sel t)"

section \<open>The client's calls\<close>

text \<open>
  \<open>SendContext\<close> ends in a \<open>select\<close>; \<open>pick\<close> is the branch it takes among the ready ones, \<open>c\<close> the
  caller's context and \<open>late\<close> whether the session was cancelled after the first check. With no
  ready branch the call blocks.
\<close>

datatype send_branch = ToQueue | CallerDone | SessionDone

datatype send_result = Sent | SendFailed isotp_error | SendBlocks

definition send_ready :: "bool \<Rightarrow> ctx \<Rightarrow> session \<Rightarrow> send_branch list" where
  "send_ready late c t =
     (if chan_room (txDataChan t) then [ToQueue] else []) @
     (case c of CtxDone _ \<Rightarrow> [CallerDone] | _ \<Rightarrow> []) @
     (if late then [SessionDone] else [])"

definition SendContext :: "bool \<Rightarrow> send_branch \<Rightarrow> ctx \<Rightarrow> bytes \<Rightarrow> session
    \<Rightarrow> session \<times> send_result" where
  "SendContext late pick c data t =
     (if c = CtxNil then (t, SendFailed NilSendContext)
      else if int (length data) > MaxPayloadSize (config t)
      then (t, SendFailed (PayloadExceedsConfigured (int (length data)) (MaxPayloadSize (config t))))
      else if ctxDone t then (t, SendFailed ErrSessionClosed)
      else if pick \<notin> set (send_ready late c t) then (t, SendBlocks)
      else case pick of
             ToQueue \<Rightarrow> (t\<lparr>txDataChan := offered data (txDataChan t)\<rparr>, Sent)
           | CallerDone \<Rightarrow>
               (t, SendFailed (SendCtxErr (case c of CtxDone e \<Rightarrow> e | _ \<Rightarrow> Canceled)))
           | SessionDone \<Rightarrow> (t, SendFailed ErrSessionClosed))"

definition SetTxAddress :: "Address option \<Rightarrow> session \<Rightarrow> session \<times> isotp_error option" where
  "SetTxAddress addr t =
     (case addr of
        None \<Rightarrow> (t\<lparr>txAddress := None\<rparr>, None)
      | Some a \<Rightarrow>
        (case Address_Validate (Some a) of
           Inl e \<Rightarrow> (t, Some e)
         | Inr _ \<Rightarrow> (t\<lparr>txAddress := Some \<lparr>TxID = TxID a, RxID = RxID a\<rparr>\<rparr>, None)))"

definition FDMode :: "session \<Rightarrow> bool" where "FDMode t = fd t"

definition MaxFrameDataLength :: "session \<Rightarrow> int" where "MaxFrameDataLength t = frameDataLen t"

text \<open>Receiving from \<open>RecvChan()\<close> and from \<open>Errors()\<close>.\<close>

definition recv_data :: "session \<Rightarrow> bytes received \<times> session" where
  "recv_data t = (case chan_recv (rxDataChan t) of (r, ch) \<Rightarrow> (r, t\<lparr>rxDataChan := ch\<rparr>))"

definition recv_error :: "session \<Rightarrow> isotp_error received \<times> session" where
  "recv_error t = (case chan_recv (errorChan t) of (r, ch) \<Rightarrow> (r, t\<lparr>errorChan := ch\<rparr>))"

text \<open>
  \<open>Close\<close> cancels the context and unsubscribes, waits for the goroutines, and closes the two
  channels; \<open>sync.Once\<close> makes a second call do nothing.
\<close>

definition Close_cancel :: "session \<Rightarrow> session" where
  "Close_cancel t = (if sessionClosed t then t else t\<lparr>ctxDone := True\<rparr>)"

definition Close_finish :: "session \<Rightarrow> session option" where
  "Close_finish t =
     (if sessionClosed t then Some t
      else do {
        rx \<leftarrow> close_chan (rxDataChan t);
        er \<leftarrow> close_chan (errorChan t);
        Some (t\<lparr>rxDataChan := rx, errorChan := er, sessionClosed := True\<rparr>)
      })"

section \<open>The session as a step relation\<close>

text \<open>
  Any interleaving of the goroutines and of the client's calls. A blocking send of the run loop
  takes the branch of the context (\<open>sel\<close> false) only when the context is cancelled. A result
  None is a panic.
\<close>

inductive session_step :: "session \<Rightarrow> session option \<Rightarrow> bool" where
  Run: "ev_ready ev t \<Longrightarrow> sel \<or> ctxDone t \<Longrightarrow> session_step t (run_step sel ev t)"
| Pump: "\<not> pumpDone t \<Longrightarrow> session_step t (Some (pump frame t))"
| PumpReturn: "session_step t (Some (t\<lparr>pumpDone := True\<rparr>))"
| Sender: "\<not> senderDone t \<Longrightarrow> session_step t (sender_step brs send t)"
| SenderReturn: "ctxDone t \<Longrightarrow> session_step t (Some (t\<lparr>senderDone := True\<rparr>))"
| Send: "session_step t (Some (fst (SendContext late pick c data t)))"
| SetAddress: "session_step t (Some (fst (SetTxAddress addr t)))"
| RecvData: "session_step t (Some (snd (recv_data t)))"
| RecvError: "session_step t (Some (snd (recv_error t)))"
| Cancel: "session_step t (Some (Close_cancel t))"
| Finish: "ctxDone t \<Longrightarrow> pumpDone t \<Longrightarrow> senderDone t \<Longrightarrow> runDone t \<Longrightarrow>
    session_step t (Close_finish t)"

inductive reachable :: "session \<Rightarrow> bool" where
  Init: "newSession addr cfg isFD = Inr t \<Longrightarrow> reachable t"
| Step: "reachable t \<Longrightarrow> session_step t (Some t') \<Longrightarrow> reachable t'"

inductive_cases session_stepE: "session_step t r"

end
