(* ===== verification/Isotp_Safety.thy ===== *)
theory Isotp_Safety
  imports Isotp_Run
begin

text \<open>
  The invariant of an ISO-TP session and its preservation by every handler and every step.

  It has five parts: the configuration is a valid one, the channels are open until \<open>Close\<close> ends,
  a reception in progress is bounded and has its timer armed, so is a transmission, and every
  frame queued for the sender is one that \<open>NewFrame\<close> accepts.
\<close>

section \<open>The invariant\<close>

definition cfg_ok :: "session \<Rightarrow> bool" where
  "cfg_ok t \<longleftrightarrow> TpConfig_Validate (config t) = Inr () \<and> 0 < MaxPayloadSize (config t) \<and>
     TxID (address t) \<le> 0x7FF \<and> (\<forall>a. txAddress t = Some a \<longrightarrow> TxID a \<le> 0x7FF) \<and>
     frameDataLen t = frameDataLength (fd t)"

definition chans_open :: "session \<Rightarrow> bool" where
  "chans_open t \<longleftrightarrow> \<not> ch_closed (errorChan t) \<and> \<not> ch_closed (rxDataChan t) \<and>
     \<not> ch_closed (txDataChan t)"

definition rx_idle :: "session \<Rightarrow> bool" where
  "rx_idle t \<longleftrightarrow> rxState t = stateIdle \<and> rxBuffer t = [] \<and> rxFrameLen t = 0 \<and> rxSeqNum t = 0 \<and>
     rxBlockCounter t = 0 \<and> timerRxCF t = None"

definition rx_wait :: "session \<Rightarrow> bool" where
  "rx_wait t \<longleftrightarrow> rxState t = stateWaitCF \<and> int (length (rxBuffer t)) < rxFrameLen t \<and>
     rxFrameLen t \<le> MaxPayloadSize (config t) \<and> 0 \<le> rxSeqNum t \<and> rxSeqNum t \<le> 15 \<and>
     0 \<le> rxBlockCounter t \<and>
     (BlockSize (config t) > 0 \<longrightarrow> rxBlockCounter t < BlockSize (config t)) \<and>
     timerRxCF t = Some (ConsecutiveFrameTimeout (config t))"

definition rx_ok :: "session \<Rightarrow> bool" where
  "rx_ok t \<longleftrightarrow> rx_idle t \<or> rx_wait t"

definition tx_idle :: "session \<Rightarrow> bool" where
  "tx_idle t \<longleftrightarrow> txState t = stateIdle \<and> txBuffer t = [] \<and> txFrameLen t = 0 \<and> txSeqNum t = 0 \<and>
     txBlockCounter t = 0 \<and> txWaitFrames t = 0 \<and> timerRxFC t = None \<and> timerTxSTmin t = None"

definition tx_busy :: "session \<Rightarrow> bool" where
  "tx_busy t \<longleftrightarrow> txBuffer t \<noteq> [] \<and> int (length (txBuffer t)) < txFrameLen t \<and>
     0 \<le> txSeqNum t \<and> txSeqNum t \<le> 15 \<and>
     (MaxWaitFrames (config t) \<ge> 0 \<longrightarrow> txWaitFrames t \<le> MaxWaitFrames (config t))"

definition tx_wait_fc :: "session \<Rightarrow> bool" where
  "tx_wait_fc t \<longleftrightarrow> txState t = stateWaitFC \<and> tx_busy t \<and>
     timerRxFC t = Some (FlowControlTimeout (config t)) \<and> timerTxSTmin t = None"

definition tx_transmit :: "session \<Rightarrow> bool" where
  "tx_transmit t \<longleftrightarrow> txState t = stateTransmit \<and> tx_busy t \<and> timerRxFC t = None \<and>
     timerTxSTmin t = Some (remoteSTmin t) \<and> 0 \<le> remoteSTmin t \<and>
     remoteSTmin t \<le> 127 * Millisecond \<and>
     (remoteBlockSize t > 0 \<longrightarrow> txBlockCounter t < remoteBlockSize t)"

definition tx_ok :: "session \<Rightarrow> bool" where
  "tx_ok t \<longleftrightarrow> tx_idle t \<or> tx_wait_fc t \<or> tx_transmit t"

definition frame_fits :: "session \<Rightarrow> linkFrame \<Rightarrow> bool" where
  "frame_fits t m \<longleftrightarrow> ArbitrationID m \<le> 0x7FF \<and> lf_FD m = fd t \<and> lf_Data m \<noteq> [] \<and>
     int (length (lf_Data m)) \<le> frameDataLength (fd t)"

definition txq_ok :: "session \<Rightarrow> bool" where
  "txq_ok t \<longleftrightarrow> (\<forall>m \<in> set (txq t). frame_fits t m)"

text \<open>What the run loop keeps while it is running, and what holds to the end.\<close>

definition core_ok :: "session \<Rightarrow> bool" where
  "core_ok t \<longleftrightarrow> cfg_ok t \<and> chans_open t \<and> rx_ok t \<and> tx_ok t \<and> txq_ok t"

definition session_inv :: "session \<Rightarrow> bool" where
  "session_inv t \<longleftrightarrow> cfg_ok t \<and> txq_ok t \<and> (\<not> runDone t \<longrightarrow> rx_ok t \<and> tx_ok t) \<and>
     (if sessionClosed t then runDone t \<and> senderDone t \<and> pumpDone t \<and> ctxDone t else chans_open t)"

lemmas inv_defs = cfg_ok_def chans_open_def rx_ok_def rx_idle_def rx_wait_def tx_ok_def tx_idle_def
  tx_busy_def tx_wait_fc_def tx_transmit_def txq_ok_def frame_fits_def

lemma core_inv: "core_ok t \<Longrightarrow> \<not> sessionClosed t \<Longrightarrow> session_inv t"
  by (simp add: core_ok_def session_inv_def)

lemma inv_core: "session_inv t \<Longrightarrow> \<not> runDone t \<Longrightarrow> core_ok t \<and> \<not> sessionClosed t"
  by (auto simp: core_ok_def session_inv_def split: if_splits)

section \<open>Helpers\<close>

text \<open>The session after \<open>fireError\<close> on an open channel.\<close>

definition note_error :: "isotp_error \<Rightarrow> session \<Rightarrow> session" where
  "note_error e t = t\<lparr>errorChan := offered e (errorChan t)\<rparr>"

lemma fireError_open: "\<not> ch_closed (errorChan t) \<Longrightarrow> fireError e t = Some (note_error e t)"
  by (simp add: fireError_def try_send_offered note_error_def)

lemma note_error_simps [simp]:
  "config (note_error e t) = config t" "rxState (note_error e t) = rxState t"
  "rxDataChan (note_error e t) = rxDataChan t" "sessionClosed (note_error e t) = sessionClosed t"
  "ch_closed (errorChan (note_error e t)) = ch_closed (errorChan t)"
  "rxSeqNum (note_error e t) = rxSeqNum t" "txq (note_error e t) = txq t"
  "rxq (note_error e t) = rxq t" "runDone (note_error e t) = runDone t"
  by (simp_all add: note_error_def)

lemma core_note_error [simp]: "core_ok (note_error e t) = core_ok t"
  by (simp add: core_ok_def note_error_def inv_defs)

lemma core_open: "core_ok t \<Longrightarrow> \<not> ch_closed (errorChan t) \<and> \<not> ch_closed (rxDataChan t)"
  by (simp add: core_ok_def chans_open_def)

lemma core_stopReceiving: "core_ok t \<Longrightarrow> core_ok (stopReceiving t)"
  by (auto simp: core_ok_def stopReceiving_def inv_defs)

lemma core_stopSending: "core_ok t \<Longrightarrow> core_ok (stopSending t)"
  by (auto simp: core_ok_def stopSending_def inv_defs)

text \<open>The four parts that the other half of a handler leaves alone.\<close>

definition base_ok :: "session \<Rightarrow> bool" where
  "base_ok t \<longleftrightarrow> cfg_ok t \<and> chans_open t \<and> txq_ok t"

lemma stopReceiving_ok: "base_ok t \<Longrightarrow> tx_ok t \<Longrightarrow> core_ok (stopReceiving t)"
  by (auto simp: base_ok_def core_ok_def stopReceiving_def inv_defs)

lemma stopSending_ok: "base_ok t \<Longrightarrow> rx_ok t \<Longrightarrow> core_ok (stopSending t)"
  by (auto simp: base_ok_def core_ok_def stopSending_def inv_defs)

lemma core_base: "core_ok t \<Longrightarrow> base_ok t \<and> rx_ok t \<and> tx_ok t"
  by (simp add: core_ok_def base_ok_def)

lemma base_core: "base_ok t \<Longrightarrow> rx_ok t \<Longrightarrow> tx_ok t \<Longrightarrow> core_ok t"
  by (simp add: core_ok_def base_ok_def)

subsection \<open>Frames built for the sender\<close>

lemma nextFDTargetLength_le: "nextFDTargetLength n \<le> 64"
  by (simp add: nextFDTargetLength_def)

lemma frame_fits_makeTxMsgWithAddr:
  assumes "TxID a \<le> 0x7FF" "data \<noteq> []" "int (length data) \<le> frameDataLength (fd t)"
  shows "frame_fits t (makeTxMsgWithAddr t a data)"
  using assms nextFDTargetLength_le [of "int (length data)"]
  by (auto simp: frame_fits_def makeTxMsgWithAddr_def Let_def frameDataLength_def split: option.splits)

lemma frame_fits_makeTxMsg:
  assumes "cfg_ok t" "data \<noteq> []" "int (length data) \<le> frameDataLen t"
  shows "frame_fits t (makeTxMsg t data)"
  unfolding makeTxMsg_def
  using assms by (intro frame_fits_makeTxMsgWithAddr) (auto simp: cfg_ok_def split: option.splits)

lemma frame_fits_makeFlowControlMsg: "cfg_ok t \<Longrightarrow> frame_fits t (makeFlowControlMsg t status)"
  unfolding makeFlowControlMsg_def
  by (intro frame_fits_makeTxMsgWithAddr)
     (auto simp: cfg_ok_def createFlowControlPayload_def createFlowControlPayloadRaw_def
        frameDataLength_def Let_def)

text \<open>What a queued frame changes.\<close>

lemma sendMessage_ok:
  assumes "base_ok t" "frame_fits t m"
  shows "base_ok (fst (sendMessage sel m t))"
  using assms by (auto simp: sendMessage_def base_ok_def inv_defs)

lemma sendMessage_rx_tx [simp]:
  "rx_ok (fst (sendMessage sel m t)) = rx_ok t" "tx_ok (fst (sendMessage sel m t)) = tx_ok t"
  "rx_idle (fst (sendMessage sel m t)) = rx_idle t" "tx_busy (fst (sendMessage sel m t)) = tx_busy t"
  "txBuffer (fst (sendMessage sel m t)) = txBuffer t"
  "sessionClosed (fst (sendMessage sel m t)) = sessionClosed t"
  by (auto simp: sendMessage_def inv_defs)

section \<open>Handlers\<close>

text \<open>The outcome of a handler: it does not panic, and the invariant holds after it.\<close>

definition safe :: "session \<Rightarrow> session option \<Rightarrow> bool" where
  "safe t r \<longleftrightarrow> (\<exists>t'. r = Some t' \<and> core_ok t' \<and> sessionClosed t' = sessionClosed t)"

lemma safe_Some [simp]: "safe t (Some t') \<longleftrightarrow> core_ok t' \<and> sessionClosed t' = sessionClosed t"
  by (simp add: safe_def)

lemma closed_simps [simp]:
  "sessionClosed (stopReceiving t) = sessionClosed t"
  "sessionClosed (stopSending t) = sessionClosed t"
  "sessionClosed (resetRxTimer t) = sessionClosed t"
  "sessionClosed (resetTxFCTimer t) = sessionClosed t"
  "sessionClosed (resetTxSTminTimer d t) = sessionClosed t"
  by (simp_all add: stopReceiving_def stopSending_def resetRxTimer_def resetTxFCTimer_def
      resetTxSTminTimer_def)

lemma chan_simps [simp]:
  "errorChan (stopReceiving t) = errorChan t" "rxDataChan (stopReceiving t) = rxDataChan t"
  "errorChan (stopSending t) = errorChan t" "config (stopReceiving t) = config t"
  "config (stopSending t) = config t"
  by (simp_all add: stopReceiving_def stopSending_def)

lemma safe_fireError: "core_ok t \<Longrightarrow> safe t (fireError e t)"
  by (simp add: core_open fireError_open)

lemma core_deliver: "core_ok t \<Longrightarrow> core_ok (t\<lparr>rxDataChan := offered x (rxDataChan t)\<rparr>)"
  by (simp add: core_ok_def inv_defs)

lemma interrupt_ok:
  assumes "core_ok t"
  obtains t1 where "(if rxState t \<noteq> stateIdle then fireError e t else Some t) = Some t1"
    "core_ok t1" "sessionClosed t1 = sessionClosed t"
  using assms core_open [OF assms] that by (cases "rxState t = stateIdle") (auto simp: fireError_open)

lemma safe_handleRxSingleFrame:
  assumes "core_ok t"
  shows "safe t (handleRxSingleFrame data t)"
proof -
  obtain t1 where t1: "(if rxState t \<noteq> stateIdle then fireError SfInterruptedReception t
      else Some t) = Some t1" "core_ok t1" "sessionClosed t1 = sessionClosed t"
    using interrupt_ok [OF assms] .
  have c: "core_ok (stopReceiving t1)" by (rule core_stopReceiving [OF t1(2)])
  show ?thesis
    unfolding handleRxSingleFrame_def t1(1)
    using core_open [OF c] c t1(3) core_deliver [OF c, of data]
    by (simp add: try_send_offered fireError_open Let_def)
qed

text \<open>A reception that was just set up, before its flow control is queued and its timer reset.\<close>

definition rx_ready :: "session \<Rightarrow> bool" where
  "rx_ready t \<longleftrightarrow> rx_wait (resetRxTimer t)"

lemma resetRxTimer_ok:
  assumes "base_ok t" "tx_ok t" "rx_ready t"
  shows "core_ok (resetRxTimer t)"
proof (rule base_core)
  show "base_ok (resetRxTimer t)" using assms(1) by (simp add: base_ok_def resetRxTimer_def inv_defs)
  show "rx_ok (resetRxTimer t)" using assms(3) by (simp add: rx_ok_def rx_ready_def)
  show "tx_ok (resetRxTimer t)" using assms(2) by (simp add: resetRxTimer_def inv_defs)
qed

lemma sendFlowControl_ok:
  assumes "base_ok t"
  shows "base_ok (fst (sendFlowControlContext sel st t))"
    "tx_ok (fst (sendFlowControlContext sel st t)) = tx_ok t"
    "rx_ready (fst (sendFlowControlContext sel st t)) = rx_ready t"
    "sessionClosed (fst (sendFlowControlContext sel st t)) = sessionClosed t"
proof -
  have "frame_fits t (makeFlowControlMsg t st)"
    using assms by (intro frame_fits_makeFlowControlMsg) (simp add: base_ok_def)
  then show "base_ok (fst (sendFlowControlContext sel st t))"
    using assms by (simp add: sendFlowControlContext_def sendMessage_ok)
  show "rx_ready (fst (sendFlowControlContext sel st t)) = rx_ready t"
    by (simp add: sendFlowControlContext_def sendMessage_def rx_ready_def rx_wait_def resetRxTimer_def)
qed (simp_all add: sendFlowControlContext_def)

lemma rx_ready_send:
  assumes "base_ok t" "tx_ok t" "rx_ready t"
  shows "safe t (case sendFlowControlContext sel st t of (t', queued) \<Rightarrow>
     Some (if queued then resetRxTimer t' else stopReceiving t'))"
  using sendFlowControl_ok [OF assms(1), of sel st] assms(2,3)
  by (simp add: case_prod_unfold resetRxTimer_ok stopReceiving_ok)

lemma safe_handleRxFirstFrame:
  assumes "core_ok t"
  shows "safe t (handleRxFirstFrame sel n data t)"
proof -
  obtain t1 where t1: "(if rxState t \<noteq> stateIdle then fireError FfInterruptedReception t
      else Some t) = Some t1" "core_ok t1" "sessionClosed t1 = sessionClosed t"
    using interrupt_ok [OF assms] .
  let ?s = "stopReceiving t1"
  let ?r = "?s\<lparr>rxFrameLen := n, rxBuffer := data, rxState := stateWaitCF, rxSeqNum := 1\<rparr>"
  have c: "core_ok ?s" by (rule core_stopReceiving [OF t1(2)])
  have b: "base_ok ?r" "tx_ok ?r"
    using c by (auto simp: core_ok_def base_ok_def inv_defs)
  have r: "rx_ready ?r" if "int (length data) < n" "n \<le> MaxPayloadSize (config ?s)"
    using that by (simp add: rx_ready_def rx_wait_def resetRxTimer_def stopReceiving_def)
  show ?thesis
    unfolding handleRxFirstFrame_def t1(1)
    using core_open [OF c] c t1(3) rx_ready_send [OF b r, of sel FlowStatusContinueToSend]
    by (auto simp: fireError_open Let_def safe_def)
qed

text \<open>The consecutive frame that is expected next, as one equation.\<close>

definition take_part :: "bytes \<Rightarrow> session \<Rightarrow> session" where
  "take_part data t = (resetRxTimer t)\<lparr>rxSeqNum := (rxSeqNum t + 1) mod 16,
     rxBuffer := rxBuffer t @ take (nat (rxFrameLen t - int (length (rxBuffer t)))) data\<rparr>"

lemma handleRxConsecutiveFrame_expected:
  assumes "rxState t = stateWaitCF" "int (length (rxBuffer t)) \<le> rxFrameLen t"
    "\<not> ch_closed (errorChan t)" "\<not> ch_closed (rxDataChan t)"
  shows "handleRxConsecutiveFrame sel (rxSeqNum t) data t =
    (let t2 = take_part data t in
     if int (length (rxBuffer t2)) \<ge> rxFrameLen t
     then if chan_room (rxDataChan t)
          then Some (stopReceiving (t2\<lparr>rxDataChan := offered (rxBuffer t2) (rxDataChan t)\<rparr>))
          else Some (stopReceiving (note_error RxQueueFullForPayload t2))
     else if BlockSize (config t) > 0 \<and> rxBlockCounter t + 1 \<ge> BlockSize (config t)
          then (case sendFlowControlContext sel FlowStatusContinueToSend (t2\<lparr>rxBlockCounter := 0\<rparr>) of
                  (t', queued) \<Rightarrow> Some (if queued then resetRxTimer t' else stopReceiving t'))
          else Some (t2\<lparr>rxBlockCounter := rxBlockCounter t + 1\<rparr>))"
proof -
  let ?t1 = "(resetRxTimer t)\<lparr>rxSeqNum := (rxSeqNum t + 1) mod 16\<rparr>"
  have clip: "(if rxFrameLen ?t1 - int (length (rxBuffer ?t1)) < int (length data)
      then slice_to data (rxFrameLen ?t1 - int (length (rxBuffer ?t1))) else Some data)
      = Some (take (nat (rxFrameLen t - int (length (rxBuffer t)))) data)"
    using assms(2) by (simp add: resetRxTimer_def slice_to_def)
  show ?thesis
    unfolding handleRxConsecutiveFrame_def Let_def clip
    using assms
    by (simp add: take_part_def resetRxTimer_def try_send_offered fireError_open del: length_take)
qed

lemma take_part_ok:
  assumes "core_ok t"
  shows "base_ok (take_part data t)" "tx_ok (take_part data t)"
    "base_ok ((take_part data t)\<lparr>rxBlockCounter := n\<rparr>)"
    "tx_ok ((take_part data t)\<lparr>rxBlockCounter := n\<rparr>)"
    "sessionClosed (take_part data t) = sessionClosed t"
  using core_base [OF assms]
  by (simp_all add: take_part_def resetRxTimer_def base_ok_def inv_defs)

lemma take_part_rx_wait:
  assumes "rx_wait t" "int (length (rxBuffer (take_part data t))) < rxFrameLen t"
    "0 \<le> n" "BlockSize (config t) > 0 \<longrightarrow> n < BlockSize (config t)"
  shows "rx_wait ((take_part data t)\<lparr>rxBlockCounter := n\<rparr>)"
proof -
  have "(rxSeqNum t + 1) mod 16 \<le> 15" using pos_mod_bound [of 16 "rxSeqNum t + 1"] by linarith
  then show ?thesis
    using assms by (simp add: take_part_def resetRxTimer_def rx_wait_def del: length_take)
qed

lemma stopReceiving_more:
  assumes "base_ok t" "tx_ok t" "ch_closed ch = ch_closed (rxDataChan t)"
  shows "core_ok (stopReceiving (t\<lparr>rxDataChan := ch\<rparr>))" "core_ok (stopReceiving (note_error e t))"
  using assms by (auto intro!: stopReceiving_ok simp: base_ok_def note_error_def inv_defs)

lemma safe_handleRxConsecutiveFrame:
  assumes "core_ok t"
  shows "safe t (handleRxConsecutiveFrame sel sn data t)"
proof -
  consider (ignored) "rxState t \<noteq> stateWaitCF"
    | (mismatch) "rxState t = stateWaitCF" "sn \<noteq> rxSeqNum t"
    | (accepted) "rxState t = stateWaitCF" "sn = rxSeqNum t" by blast
  then show ?thesis
  proof cases
    case ignored
    then show ?thesis using assms by (simp add: handleRxConsecutiveFrame_def)
  next
    case mismatch
    then show ?thesis
      using assms core_open [OF assms]
      by (simp add: handleRxConsecutiveFrame_def fireError_open core_stopReceiving)
  next
    case accepted
    let ?t2 = "take_part data t"
    have w: "rx_wait t" using assms accepted by (auto simp: core_ok_def rx_ok_def rx_idle_def)
    note ok = take_part_ok [OF assms, where data = data]
    have ch: "ch_closed (offered x (rxDataChan t)) = ch_closed (rxDataChan ?t2)" for x
      by (simp add: take_part_def resetRxTimer_def)
    have r4: "rx_ready (?t2\<lparr>rxBlockCounter := 0\<rparr>)"
      if "int (length (rxBuffer ?t2)) < rxFrameLen t"
      using take_part_rx_wait [OF w that, of 0] by (simp add: rx_ready_def rx_wait_def resetRxTimer_def)
    have c3: "core_ok (?t2\<lparr>rxBlockCounter := rxBlockCounter t + 1\<rparr>)"
      if "int (length (rxBuffer ?t2)) < rxFrameLen t"
        "\<not> (BlockSize (config t) > 0 \<and> rxBlockCounter t + 1 \<ge> BlockSize (config t))"
      using take_part_rx_wait [OF w that(1), of "rxBlockCounter t + 1"] that w ok
      by (intro base_core) (auto simp: rx_ok_def rx_wait_def)
    have eq: "handleRxConsecutiveFrame sel sn data t = handleRxConsecutiveFrame sel (rxSeqNum t) data t"
      using accepted by simp
    show ?thesis
      unfolding eq
      using handleRxConsecutiveFrame_expected [of t sel data] w core_open [OF assms]
        rx_ready_send [OF ok(3,4) r4, of sel FlowStatusContinueToSend] c3 ok
        stopReceiving_more [OF ok(1,2) ch]
      by (simp add: rx_wait_def Let_def safe_def)
  qed
qed

subsection \<open>Transmission\<close>

text \<open>The boundary between a single frame and a segmented message.\<close>

definition sf_fits :: "int \<Rightarrow> int \<Rightarrow> bool" where
  "sf_fits n maxLen \<longleftrightarrow> n + (if n > 7 then 2 else 1) \<le> maxLen"

definition first_chunk_size :: "int \<Rightarrow> int \<Rightarrow> int" where
  "first_chunk_size n maxLen = maxLen - (if n > 4095 then 6 else 2)"

lemma createSingleFramePayload_ok:
  assumes "sf_fits (int (length data)) maxLen" "8 \<le> maxLen"
  shows "\<exists>p. createSingleFramePayload data maxLen = Inr p \<and> p \<noteq> [] \<and> int (length p) \<le> maxLen"
  using assms by (auto simp: createSingleFramePayload_def sf_fits_def Let_def split: if_splits)

lemma first_chunk_size_bounds:
  assumes "\<not> sf_fits n maxLen" "maxLen = frameDataLength b"
  shows "0 \<le> first_chunk_size n maxLen" "first_chunk_size n maxLen < n"
  using assms by (auto simp: sf_fits_def first_chunk_size_def frameDataLength_def split: if_splits)

lemma createFirstFramePayload_ok:
  assumes "int (length chunk) = first_chunk_size n maxLen"
  shows "\<exists>p. createFirstFramePayload chunk n maxLen = Inr p \<and> p \<noteq> [] \<and> int (length p) = maxLen"
  using assms
  by (auto simp: createFirstFramePayload_def first_chunk_size_def Let_def split: if_splits)

lemma createConsecutiveFramePayload_ok:
  "0 \<le> sn \<Longrightarrow> sn \<le> 15 \<Longrightarrow>
   createConsecutiveFramePayload chunk sn = Inr ((pciTypeConsecutiveFrame OR word_of_int sn) # chunk)"
  by (simp add: createConsecutiveFramePayload_def)

text \<open>\<open>initiateTx\<close> on an idle session, as one equation for each of its two outcomes.\<close>

lemma initiateTx_single:
  assumes "sf_fits (int (length payload)) (frameDataLen t)"
    "createSingleFramePayload payload (frameDataLen t) = Inr p"
  shows "initiateTx sel payload t =
    (let t1 = t\<lparr>txBuffer := payload, txFrameLen := int (length payload)\<rparr>
     in Some (stopSending (fst (sendMessage sel (makeTxMsg t1 p) t1))))"
  using assms by (simp add: initiateTx_def sf_fits_def Let_def split: if_splits)

definition ff_state :: "bytes \<Rightarrow> session \<Rightarrow> session" where
  "ff_state payload t = t\<lparr>txFrameLen := int (length payload),
     txBuffer := drop (nat (first_chunk_size (int (length payload)) (frameDataLen t))) payload,
     txSeqNum := 1, txState := stateWaitFC\<rparr>"

lemma initiateTx_first:
  assumes "\<not> sf_fits (int (length payload)) (frameDataLen t)"
    "frameDataLen t = frameDataLength b"
    "createFirstFramePayload
       (take (nat (first_chunk_size (int (length payload)) (frameDataLen t))) payload)
       (int (length payload)) (frameDataLen t) = Inr p"
  shows "initiateTx sel payload t =
    (case sendMessage sel (makeTxMsg (ff_state payload t) p) (ff_state payload t) of
       (t', queued) \<Rightarrow> Some (if queued then resetTxFCTimer t' else stopSending t'))"
proof -
  let ?n = "int (length payload)"
  let ?c = "frameDataLen t - (if ?n > 4095 then 6 else 2)"
  have c: "0 \<le> ?c" "?c < ?n" "?c = first_chunk_size ?n (frameDataLen t)"
    using first_chunk_size_bounds [OF assms(1,2)] by (simp_all add: first_chunk_size_def)
  then have s: "slice_to payload ?c = Some (take (nat ?c) payload)"
    "slice_from payload ?c = Some (drop (nat ?c) payload)"
    by (simp_all add: slice_to_def slice_from_def)
  have "\<not> ?n + (if ?n > 7 then 2 else 1) \<le> frameDataLen t"
    using assms(1) by (simp add: sf_fits_def)
  then show ?thesis
    using s assms(3)
    by (cases "?n > 4095") (simp_all add: initiateTx_def ff_state_def first_chunk_size_def Let_def)
qed

lemma tx_busy_update [simp]:
  "tx_busy (t\<lparr>txState := s\<rparr>) = tx_busy t" "tx_busy (t\<lparr>timerTxSTmin := d\<rparr>) = tx_busy t"
  by (simp_all add: tx_busy_def)

lemma resetTxFCTimer_ok:
  assumes "base_ok t" "rx_ok t" "txState t = stateWaitFC" "tx_busy t" "timerTxSTmin t = None"
  shows "core_ok (resetTxFCTimer t)"
proof (rule base_core)
  show "base_ok (resetTxFCTimer t)" using assms(1) by (simp add: base_ok_def resetTxFCTimer_def inv_defs)
  show "rx_ok (resetTxFCTimer t)" using assms(2) by (simp add: resetTxFCTimer_def inv_defs)
  show "tx_ok (resetTxFCTimer t)"
    using assms(3-) by (simp add: tx_ok_def tx_wait_fc_def resetTxFCTimer_def tx_busy_def)
qed

lemma sendMessage_txState [simp]:
  "txState (fst (sendMessage sel m t)) = txState t"
  "timerTxSTmin (fst (sendMessage sel m t)) = timerTxSTmin t"
  "timerRxFC (fst (sendMessage sel m t)) = timerRxFC t"
  "remoteSTmin (fst (sendMessage sel m t)) = remoteSTmin t"
  "remoteBlockSize (fst (sendMessage sel m t)) = remoteBlockSize t"
  "txBlockCounter (fst (sendMessage sel m t)) = txBlockCounter t"
  "config (fst (sendMessage sel m t)) = config t"
  by (simp_all add: sendMessage_def)

lemma safe_initiateTx:
  assumes "core_ok t" "txState t = stateIdle"
  shows "safe t (initiateTx sel payload t)"
proof -
  have idle: "tx_idle t" and c: "cfg_ok t" and b: "base_ok t" and rx: "rx_ok t"
    using assms by (auto simp: core_ok_def base_ok_def tx_ok_def tx_wait_fc_def tx_transmit_def)
  have len: "frameDataLen t = frameDataLength (fd t)" using c by (simp add: cfg_ok_def)
  show ?thesis
  proof (cases "sf_fits (int (length payload)) (frameDataLen t)")
    case True
    let ?t1 = "t\<lparr>txBuffer := payload, txFrameLen := int (length payload)\<rparr>"
    have "8 \<le> frameDataLen t" using len by (simp add: frameDataLength_def)
    then obtain p where p: "createSingleFramePayload payload (frameDataLen t) = Inr p" "p \<noteq> []"
        "int (length p) \<le> frameDataLen t"
      using createSingleFramePayload_ok [OF True] by blast
    have b1: "base_ok ?t1" "rx_ok ?t1" using b rx by (simp_all add: base_ok_def inv_defs)
    then have "frame_fits ?t1 (makeTxMsg ?t1 p)"
      using p by (intro frame_fits_makeTxMsg) (simp_all add: base_ok_def)
    then show ?thesis
      using initiateTx_single [OF True p(1), of sel] b1
      by (simp add: stopSending_ok sendMessage_ok Let_def)
  next
    case False
    let ?c = "first_chunk_size (int (length payload)) (frameDataLen t)" and ?t1 = "ff_state payload t"
    note bounds = first_chunk_size_bounds [OF False len]
    have "int (length (take (nat ?c) payload)) = ?c" using bounds by simp
    then obtain p where p: "createFirstFramePayload (take (nat ?c) payload) (int (length payload))
        (frameDataLen t) = Inr p" "p \<noteq> []" "int (length p) = frameDataLen t"
      using createFirstFramePayload_ok by blast
    have b1: "base_ok ?t1" "rx_ok ?t1" using b rx by (simp_all add: base_ok_def ff_state_def inv_defs)
    have "0 < ?c" using len False by (simp add: first_chunk_size_def frameDataLength_def)
    then have busy: "tx_busy ?t1" and st: "timerTxSTmin ?t1 = None" "txState ?t1 = stateWaitFC"
      using bounds idle by (auto simp: tx_busy_def ff_state_def tx_idle_def)
    have "frame_fits ?t1 (makeTxMsg ?t1 p)"
      using b1 p by (intro frame_fits_makeTxMsg) (simp_all add: base_ok_def ff_state_def)
    then show ?thesis
      using initiateTx_first [OF False len p(1), of sel] b1 busy st
      by (simp add: case_prod_unfold resetTxFCTimer_ok stopSending_ok sendMessage_ok)
         (simp add: ff_state_def)
  qed
qed

lemma safe_handleTxFlowControl:
  assumes "core_ok t" "0 \<le> stmin" "stmin \<le> 127 * Millisecond"
  shows "safe t (handleTxFlowControl status bs stmin t)"
proof (cases "txState t = stateWaitFC")
  case False
  then show ?thesis using assms by (simp add: handleTxFlowControl_def)
next
  case True
  then have w: "tx_wait_fc t" and b: "base_ok t" and rx: "rx_ok t"
    using assms by (auto simp: core_ok_def base_ok_def tx_ok_def tx_idle_def tx_transmit_def)
  let ?cts = "resetTxSTminTimer stmin (t\<lparr>timerRxFC := None, timerTxSTmin := None,
    remoteBlockSize := bs, remoteSTmin := stmin, txState := stateTransmit, txBlockCounter := 0,
    txWaitFrames := 0\<rparr>)"
  let ?w = "t\<lparr>txWaitFrames := txWaitFrames t + 1\<rparr>"
  have "base_ok ?cts" "rx_ok ?cts" "tx_transmit ?cts"
    using b rx w assms by (simp_all add: base_ok_def resetTxSTminTimer_def inv_defs)
  then have cts: "core_ok ?cts" by (simp add: base_core tx_ok_def)
  have wb: "base_ok ?w" "rx_ok ?w" using b rx by (simp_all add: base_ok_def inv_defs)
  have wt: "core_ok (resetTxFCTimer ?w)"
    if "\<not> (MaxWaitFrames (config t) \<ge> 0 \<and> txWaitFrames t + 1 > MaxWaitFrames (config t))"
    using wb w that by (intro resetTxFCTimer_ok) (auto simp: tx_wait_fc_def tx_busy_def)
  have stop: "core_ok (stopSending (note_error e s))" if "base_ok s" "rx_ok s" for e s
    using that by (intro stopSending_ok) (simp_all add: base_ok_def note_error_def inv_defs)
  have ov: "base_ok (t\<lparr>timerRxFC := None, timerTxSTmin := None\<rparr>)"
    "rx_ok (t\<lparr>timerRxFC := None, timerTxSTmin := None\<rparr>)"
    using b rx by (simp_all add: base_ok_def inv_defs)
  show ?thesis
    using True core_open [OF assms(1)] cts wt stop [OF b rx] stop [OF wb] stop [OF ov]
    by (simp add: handleTxFlowControl_def fireError_open Let_def)
qed

text \<open>A transmission whose STmin timer has just fired, and the consecutive frame it sends.\<close>

definition tx_fired :: "session \<Rightarrow> bool" where
  "tx_fired t \<longleftrightarrow> tx_transmit (resetTxSTminTimer (remoteSTmin t) t) \<and> timerTxSTmin t = None"

definition cf_payload :: "session \<Rightarrow> bytes" where
  "cf_payload t = (pciTypeConsecutiveFrame OR word_of_int (txSeqNum t)) #
     take (nat (frameDataLen t - 1)) (txBuffer t)"

definition cf_state :: "session \<Rightarrow> session" where
  "cf_state t = t\<lparr>txBuffer := drop (nat (frameDataLen t - 1)) (txBuffer t),
     txSeqNum := (txSeqNum t + 1) mod 16, txBlockCounter := txBlockCounter t + 1\<rparr>"

lemma cf_state_simps [simp]:
  "txBuffer (cf_state t) = drop (nat (frameDataLen t - 1)) (txBuffer t)"
  "remoteBlockSize (cf_state t) = remoteBlockSize t" "remoteSTmin (cf_state t) = remoteSTmin t"
  "txBlockCounter (cf_state t) = txBlockCounter t + 1" "txSeqNum (cf_state t) = (txSeqNum t + 1) mod 16"
  "sessionClosed (cf_state t) = sessionClosed t"
  by (simp_all add: cf_state_def)

lemma handleTxTransmit_sends:
  assumes "txBuffer t \<noteq> []" "0 \<le> txSeqNum t" "txSeqNum t \<le> 15" "1 \<le> frameDataLen t"
  shows "handleTxTransmit sel t =
    (case sendMessage sel (makeTxMsg (cf_state t) (cf_payload t)) (cf_state t) of (t', queued) \<Rightarrow>
       Some (if \<not> queued then stopSending t'
             else if txBuffer t' = [] then stopSending t'
             else if remoteBlockSize t' > 0 \<and> txBlockCounter t' \<ge> remoteBlockSize t'
             then resetTxFCTimer (t'\<lparr>txState := stateWaitFC\<rparr>)
             else resetTxSTminTimer (remoteSTmin t') t'))"
proof -
  let ?c = "frameDataLen t - 1"
  have split: "(if ?c < int (length (txBuffer t)) then do {
      c \<leftarrow> slice_to (txBuffer t) ?c; r \<leftarrow> slice_from (txBuffer t) ?c; Some (c, r)
    } else Some (txBuffer t, [])) = Some (take (nat ?c) (txBuffer t), drop (nat ?c) (txBuffer t))"
    using assms(4) by (simp add: slice_to_def slice_from_def)
  show ?thesis
    unfolding handleTxTransmit_def Let_def split
    using assms(1-3)
    by (simp add: createConsecutiveFramePayload_ok cf_state_def cf_payload_def Let_def
        del: cf_state_simps)
qed

lemma cf_state_ok:
  assumes "base_ok t" "rx_ok t"
  shows "base_ok (cf_state t)" "rx_ok (cf_state t)"
    "base_ok ((cf_state t)\<lparr>txState := s\<rparr>)" "rx_ok ((cf_state t)\<lparr>txState := s\<rparr>)"
  using assms by (simp_all add: base_ok_def cf_state_def inv_defs)

lemma cf_state_busy:
  assumes "tx_busy t" "drop (nat (frameDataLen t - 1)) (txBuffer t) \<noteq> []"
  shows "tx_busy (cf_state t)"
proof -
  have "(txSeqNum t + 1) mod 16 \<le> 15" using pos_mod_bound [of 16 "txSeqNum t + 1"] by linarith
  then show ?thesis using assms by (auto simp: tx_busy_def cf_state_def)
qed

lemma frame_fits_cf:
  assumes "base_ok t" "rx_ok t"
  shows "frame_fits (cf_state t) (makeTxMsg (cf_state t) (cf_payload t))"
proof (rule frame_fits_makeTxMsg)
  show c: "cfg_ok (cf_state t)" using cf_state_ok [OF assms] by (simp add: base_ok_def)
  show "cf_payload t \<noteq> []" by (simp add: cf_payload_def)
  show "int (length (cf_payload t)) \<le> frameDataLen (cf_state t)"
    using c by (simp add: cf_payload_def cf_state_def cfg_ok_def frameDataLength_def split: if_splits)
qed

lemma resetTxSTminTimer_ok:
  assumes "base_ok t" "rx_ok t" "tx_transmit (resetTxSTminTimer d t)"
  shows "core_ok (resetTxSTminTimer d t)"
  using assms by (intro base_core) (simp_all add: base_ok_def resetTxSTminTimer_def inv_defs)

lemma safe_handleTxTransmit:
  assumes "base_ok t" "rx_ok t" "tx_fired t"
  shows "safe t (handleTxTransmit sel t)"
proof -
  let ?m = "makeTxMsg (cf_state t) (cf_payload t)" and ?s = "cf_state t"
  let ?t' = "fst (sendMessage sel ?m ?s)" and ?q = "snd (sendMessage sel ?m ?s)"
  have busy: "tx_busy t" and st: "txState t = stateTransmit" "timerRxFC t = None" "timerTxSTmin t = None"
    and min: "0 \<le> remoteSTmin t" "remoteSTmin t \<le> 127 * Millisecond"
    using assms(3) by (simp_all add: tx_fired_def tx_transmit_def tx_busy_def resetTxSTminTimer_def)
  have b: "base_ok ?t'" "rx_ok ?t'"
    using cf_state_ok [OF assms(1,2)] frame_fits_cf [OF assms(1,2)] by (simp_all add: sendMessage_ok)
  have b': "base_ok (?t'\<lparr>txState := stateWaitFC\<rparr>)" "rx_ok (?t'\<lparr>txState := stateWaitFC\<rparr>)"
    using b by (simp_all add: base_ok_def inv_defs)
  have wait: "core_ok (resetTxFCTimer (?t'\<lparr>txState := stateWaitFC\<rparr>))"
    if "drop (nat (frameDataLen t - 1)) (txBuffer t) \<noteq> []"
  proof (rule resetTxFCTimer_ok [OF b'])
    show "tx_busy (?t'\<lparr>txState := stateWaitFC\<rparr>)"
      using cf_state_busy [OF busy that] by simp
  qed (use st in \<open>simp_all add: cf_state_def\<close>)
  have go: "core_ok (resetTxSTminTimer (remoteSTmin ?t') ?t')"
    if "drop (nat (frameDataLen t - 1)) (txBuffer t) \<noteq> []"
      "\<not> (remoteBlockSize t > 0 \<and> txBlockCounter t + 1 \<ge> remoteBlockSize t)"
    using cf_state_busy [OF busy that(1)] that(2) st min
    by (intro resetTxSTminTimer_ok b)
       (auto simp: tx_transmit_def resetTxSTminTimer_def tx_busy_def sendMessage_def cf_state_def)
  have "1 \<le> frameDataLen t"
    using assms(1) by (simp add: base_ok_def cfg_ok_def frameDataLength_def)
  moreover have "txBuffer t \<noteq> []" "0 \<le> txSeqNum t" "txSeqNum t \<le> 15" using busy by (auto simp: tx_busy_def)
  ultimately show ?thesis
    using handleTxTransmit_sends [of t sel] wait go stopSending_ok [OF b]
    by (simp add: case_prod_unfold)
qed

section \<open>Steps\<close>

lemma parseFlowControl_stmin:
  "parseFlowControl p = Some (Inr (FlowControlFrame st bs d)) \<Longrightarrow> 0 \<le> d \<and> d \<le> 127 * Millisecond"
  using decodeSTmin_range
  by (auto simp: parseFlowControl_def Let_def split: if_splits bind_splits)

lemma parse_kinds:
  "parseSingleFrame p \<noteq> Some (Inr (FlowControlFrame st bs d))"
  "parseFirstFrame p \<noteq> Some (Inr (FlowControlFrame st bs d))"
  "parseConsecutiveFrame p \<noteq> Some (Inr (FlowControlFrame st bs d))"
  by (auto simp: parseSingleFrame_def parseFirstFrame_def parseFirstFrameTail_def
      parseConsecutiveFrame_def Let_def split: if_splits bind_splits)

lemma ParseFrame_stmin:
  "ParseFrame p = Some (Inr (FlowControlFrame st bs d)) \<Longrightarrow> 0 \<le> d \<and> d \<le> 127 * Millisecond"
  using parse_kinds [of p st bs d] parseFlowControl_stmin [of p st bs d]
  by (auto simp: ParseFrame_def Let_def split: if_splits bind_splits)

lemma safe_processRx:
  assumes "core_ok t"
  shows "safe t (processRx sel m t)"
proof -
  obtain r where r: "ParseFrame (lf_Data m) = Some r" using ParseFrame_total by blast
  show ?thesis
    using assms r ParseFrame_stmin [of "lf_Data m"]
    by (auto simp: processRx_def safe_fireError safe_handleRxSingleFrame safe_handleRxFirstFrame
        safe_handleRxConsecutiveFrame safe_handleTxFlowControl split: sum.splits PDU.splits)
qed

lemma core_rxq [simp]: "core_ok (t\<lparr>rxq := q\<rparr>) = core_ok t"
  by (simp add: core_ok_def inv_defs)

lemma core_txDataChan:
  "core_ok t \<Longrightarrow> ch_closed ch = ch_closed (txDataChan t) \<Longrightarrow> core_ok (t\<lparr>txDataChan := ch\<rparr>)"
  by (simp add: core_ok_def inv_defs)

lemma chan_recv_closed: "chan_recv c = (r, c') \<Longrightarrow> ch_closed c' = ch_closed c"
  by (auto simp: chan_recv_def split: list.splits if_splits)

text \<open>A fired timer leaves the other half and the base alone, and stopping repairs its own half.\<close>

lemma timeout_ok:
  assumes "core_ok t"
  shows "core_ok (stopReceiving (note_error e (t\<lparr>timerRxCF := None\<rparr>)))"
    "core_ok (stopSending (note_error e (t\<lparr>timerRxFC := None\<rparr>)))"
  using core_base [OF assms]
  by (auto intro!: stopReceiving_ok stopSending_ok simp: base_ok_def note_error_def inv_defs)

lemma stmin_fired:
  assumes "core_ok t" "timerTxSTmin t = Some d"
  shows "base_ok (t\<lparr>timerTxSTmin := None\<rparr>)" "rx_ok (t\<lparr>timerTxSTmin := None\<rparr>)"
    "tx_fired (t\<lparr>timerTxSTmin := None\<rparr>)" "txState t = stateTransmit"
  using core_base [OF assms(1)] assms(2)
  by (auto simp: base_ok_def tx_fired_def resetTxSTminTimer_def inv_defs)

lemma safe_run_step:
  assumes "core_ok t" "ev_ready ev t" "ev \<noteq> EvDone"
  shows "safe t (run_step sel ev t)"
proof (cases ev)
  case EvDone
  then show ?thesis using assms by simp
next
  case EvRx
  then show ?thesis
    using assms safe_processRx [of "t\<lparr>rxq := tl (rxq t)\<rparr>" sel "hd (rxq t)"]
    by (cases "rxq t") (simp_all add: run_step_def safe_def)
next
  case EvTxData
  obtain x xs where b: "ch_buf (txDataChan t) = x # xs"
    using assms EvTxData
    by (cases "ch_buf (txDataChan t)") (auto simp: ev_ready_def core_ok_def chans_open_def)
  let ?ch = "snd (chan_recv (txDataChan t))"
  have "core_ok (t\<lparr>txDataChan := ?ch\<rparr>)"
    using assms(1) by (intro core_txDataChan) (simp_all add: chan_recv_closed [of _ "fst (chan_recv (txDataChan t))"])
  moreover have "txState t = stateIdle" using assms EvTxData by (simp add: ev_ready_def)
  ultimately have "safe (t\<lparr>txDataChan := ?ch\<rparr>) (initiateTx sel x (t\<lparr>txDataChan := ?ch\<rparr>))"
    by (intro safe_initiateTx) simp_all
  then show ?thesis using EvTxData b by (simp add: run_step_def chan_recv_def safe_def)
next
  case EvTimerRxCF
  then show ?thesis
    using assms core_open [OF assms(1)] timeout_ok [OF assms(1)]
    by (simp add: run_step_def fireError_open)
next
  case EvTimerRxFC
  then show ?thesis
    using assms core_open [OF assms(1)] timeout_ok [OF assms(1)]
    by (simp add: run_step_def fireError_open)
next
  case EvTimerTxSTmin
  then obtain d where d: "timerTxSTmin t = Some d"
    using assms by (auto simp: ev_ready_def)
  show ?thesis
    using EvTimerTxSTmin stmin_fired [OF assms(1) d] safe_handleTxTransmit [of "t\<lparr>timerTxSTmin := None\<rparr>" sel]
    by (simp add: run_step_def Let_def safe_def)
qed

section \<open>Every step of a session keeps the invariant\<close>

lemma session_inv_update:
  "session_inv (t\<lparr>rxq := q\<rparr>) = session_inv t"
  "session_inv (t\<lparr>txDataChan := offered x (txDataChan t)\<rparr>) = session_inv t"
  "session_inv t \<Longrightarrow> session_inv (t\<lparr>pumpDone := True\<rparr>)"
  "session_inv t \<Longrightarrow> session_inv (t\<lparr>ctxDone := True\<rparr>)"
  "session_inv t \<Longrightarrow> session_inv (t\<lparr>senderDone := True\<rparr>)"
  "session_inv (note_error e t) = session_inv t"
  by (auto simp: session_inv_def note_error_def inv_defs split: if_splits)

lemma session_inv_recv:
  assumes "session_inv t"
  shows "session_inv (snd (recv_data t))" "session_inv (snd (recv_error t))"
  using assms chan_recv_closed [of "rxDataChan t"] chan_recv_closed [of "errorChan t"]
  by (auto simp: recv_data_def recv_error_def session_inv_def inv_defs split: prod.splits if_splits)

lemma Address_Validate_ok: "Address_Validate (Some a) = Inr u \<Longrightarrow> TxID a \<le> 0x7FF \<and> RxID a \<le> 0x7FF"
  by (auto simp: Address_Validate_def validateStandardCANID_def maxStandardCANID_def
      split: if_splits sum.splits)

lemma session_inv_SetTxAddress: "session_inv t \<Longrightarrow> session_inv (fst (SetTxAddress a t))"
  using Address_Validate_ok
  by (auto simp: SetTxAddress_def session_inv_def inv_defs split: option.splits sum.splits if_splits)

lemma session_inv_SendContext: "session_inv t \<Longrightarrow> session_inv (fst (SendContext late pick c data t))"
  by (cases pick) (simp_all add: SendContext_def session_inv_update)

lemma session_inv_pump: "session_inv t \<Longrightarrow> session_inv (pump frame t)"
  by (simp add: pump_def session_inv_update split: option.splits)

lemma session_inv_open: "session_inv t \<Longrightarrow> \<not> sessionClosed t \<Longrightarrow>
    \<not> ch_closed (errorChan t) \<and> \<not> ch_closed (rxDataChan t)"
  by (simp add: session_inv_def chans_open_def)

lemma session_inv_sender:
  assumes "session_inv t" "\<not> senderDone t"
  shows "\<exists>t'. sender_step brs send t = Some t' \<and> session_inv t'"
proof -
  have open': "\<not> ch_closed (errorChan t)"
    using assms by (auto simp: session_inv_def chans_open_def split: if_splits)
  have "session_inv (t\<lparr>txq := ms\<rparr>)" if "txq t = m # ms" for m ms
    using assms(1) that by (auto simp: session_inv_def inv_defs split: if_splits)
  then show ?thesis
    using assms(1) open'
    by (auto simp: sender_step_def Let_def fireError_open session_inv_update
        split: list.splits sum.splits option.splits)
qed

lemma session_inv_run:
  assumes "session_inv t" "ev_ready ev t"
  shows "\<exists>t'. run_step sel ev t = Some t' \<and> session_inv t'"
proof -
  have c: "core_ok t" "\<not> sessionClosed t"
    using inv_core [OF assms(1)] assms(2) by (simp_all add: ev_ready_def)
  show ?thesis
  proof (cases "ev = EvDone")
    case True
    then show ?thesis
      using c by (simp add: run_step_def cleanup_def session_inv_def core_ok_def inv_defs)
  next
    case False
    then show ?thesis
      using safe_run_step [OF c(1) assms(2) False, of sel] c(2) core_inv by (auto simp: safe_def)
  qed
qed

lemma session_inv_finish:
  assumes "session_inv t" "ctxDone t" "pumpDone t" "senderDone t" "runDone t"
  shows "\<exists>t'. Close_finish t = Some t' \<and> session_inv t'"
  using assms session_inv_open [OF assms(1)]
  by (auto simp: Close_finish_def close_chan_def session_inv_def inv_defs)

lemma session_step_inv:
  assumes "session_inv t" "session_step t r"
  shows "\<exists>t'. r = Some t' \<and> session_inv t'"
  using assms(2)
proof cases
  case (Run ev sel)
  then show ?thesis using session_inv_run [OF assms(1)] by simp
next
  case (Sender brs send)
  then show ?thesis using session_inv_sender [OF assms(1)] by simp
next
  case Finish
  then show ?thesis using session_inv_finish [OF assms(1)] by simp
next
  case Cancel
  then show ?thesis using assms(1) by (simp add: Close_cancel_def session_inv_update)
qed (use assms(1) in \<open>simp_all add: session_inv_pump session_inv_update session_inv_SendContext
       session_inv_SetTxAddress session_inv_recv\<close>)

lemma normalizeTpConfig_ok:
  "normalizeTpConfig cfg = (cfg', Inr u) \<Longrightarrow> TpConfig_Validate cfg' = Inr () \<and> 0 < MaxPayloadSize cfg'"
  by (auto simp: normalizeTpConfig_def TpConfig_Validate_def Let_def defaultMaxPayloadSize_def
      split: if_splits)

text \<open>The session that \<open>newSession\<close> returns.\<close>

definition fresh_session :: "Address \<Rightarrow> TpConfig \<Rightarrow> bool \<Rightarrow> session" where
  "fresh_session a cfg isFD =
     \<lparr>address = \<lparr>TxID = TxID a, RxID = RxID a\<rparr>, txAddress = None, fd = isFD,
      frameDataLen = frameDataLength isFD, rxState = stateIdle, txState = stateIdle,
      rxBuffer = [], txBuffer = [], rxDataChan = make_chan 10, txDataChan = make_chan 10,
      rxFrameLen = 0, txFrameLen = 0, rxSeqNum = 0, txSeqNum = 0, rxBlockCounter = 0,
      txBlockCounter = 0, remoteBlockSize = 0, remoteSTmin = 0, txWaitFrames = 0,
      timerRxCF = None, timerRxFC = None, timerTxSTmin = None, config = cfg,
      errorChan = make_chan 10, rxq = [], txq = [], ctxDone = False, pumpDone = False,
      senderDone = False, runDone = False, sessionClosed = False\<rparr>"

lemma newSession_Inr:
  "newSession addr cfg isFD = Inr t \<Longrightarrow>
     \<exists>a cfg'. addr = Some a \<and> normalizeTpConfig cfg = (cfg', Inr ()) \<and>
       Address_Validate (Some a) = Inr () \<and> t = fresh_session a cfg' isFD"
  by (auto simp: newSession_def fresh_session_def stopSending_def stopReceiving_def
      frameDataLength_def Let_def split: prod.splits sum.splits option.splits)

lemma newSession_Some:
  "normalizeTpConfig cfg = (cfg', Inr ()) \<Longrightarrow> Address_Validate (Some a) = Inr () \<Longrightarrow>
     newSession (Some a) cfg isFD = Inr (fresh_session a cfg' isFD)"
  by (simp add: newSession_def fresh_session_def stopSending_def stopReceiving_def
      frameDataLength_def Let_def)

lemma fresh_session_inv:
  assumes "TpConfig_Validate cfg = Inr ()" "0 < MaxPayloadSize cfg" "TxID a \<le> 0x7FF"
  shows "session_inv (fresh_session a cfg isFD)"
  using assms by (simp add: session_inv_def inv_defs fresh_session_def make_chan_def)

lemma newSession_inv: "newSession addr cfg isFD = Inr t \<Longrightarrow> session_inv t"
  using normalizeTpConfig_ok Address_Validate_ok newSession_Inr fresh_session_inv by blast

lemma reachable_inv: "reachable t \<Longrightarrow> session_inv t"
proof (induction rule: reachable.induct)
  case (Init addr cfg isFD t)
  then show ?case by (rule newSession_inv)
next
  case (Step t t')
  then show ?case using session_step_inv by blast
qed

section \<open>Properties\<close>

text \<open>The session of the witnesses.\<close>

definition demo :: session where
  "demo = fresh_session \<lparr>TxID = 0x7E0, RxID = 0x7E8\<rparr> Tp_DefaultConfig False"

lemma newSession_demo: "newSession (Some \<lparr>TxID = 0x7E0, RxID = 0x7E8\<rparr>) Tp_DefaultConfig False = Inr demo"
  unfolding demo_def
  by (rule newSession_Some)
     (simp_all add: normalizeTpConfig_def Tp_DefaultConfig_def TpConfig_Validate_def Let_def
        Address_Validate_def validateStandardCANID_def maxStandardCANID_def Millisecond_def
        Microsecond_def defaultMaxPayloadSize_def defaultMaxWaitFrames_def)

lemma reachable_demo: "reachable demo"
  by (rule reachable.Init [OF newSession_demo])

text \<open>It receives a first frame of a message of 10 bytes, and begins to send 9 bytes.\<close>

definition demo_frame :: Frame where
  "demo_frame = (built_frame 0x7E8 [0x10, 10, 1, 2, 3, 4, 5, 6]
     \<lparr>fl_FD = False, fl_BRS = False, fl_Extended = False\<rparr>)\<lparr>f_Direction := Receive\<rparr>"

lemma pump_demo:
  "pump demo_frame demo = demo\<lparr>rxq :=
     [\<lparr>ArbitrationID = 0x7E8, lf_Data = [0x10, 10, 1, 2, 3, 4, 5, 6], lf_FD = False\<rparr>]\<rparr>"
  by (simp add: pump_def fromCANFrame_def demo_frame_def built_frame_def ValidDataLength_def
      LengthToDLC_def DLCToLength_def go_copy_def demo_def fresh_session_def)

lemma demo_receives:
  "\<exists>t. reachable t \<and> \<not> runDone t \<and> rxState t = stateWaitCF \<and> txq t \<noteq> []"
proof -
  let ?t = "pump demo_frame demo"
  have "session_step demo (Some ?t)"
    by (rule session_step.Pump) (simp add: demo_def fresh_session_def)
  then have r: "reachable ?t" by (rule reachable.Step [OF reachable_demo])
  have p: "ParseFrame [0x10, 10, 1, 2, 3, 4, 5, 6] = Some (Inr (FirstFrame 10 [1, 2, 3, 4, 5, 6]))"
    by (simp add: ParseFrame_def parseFirstFrame_def parseFirstFrameTail_def slice_from_def Let_def)
  obtain t' where t': "run_step True EvRx ?t = Some t'" "\<not> runDone t'" "rxState t' = stateWaitCF" "txq t' \<noteq> []"
    unfolding pump_demo
    by (simp add: run_step_def processRx_def Accepts_def p handleRxFirstFrame_def Let_def
        sendFlowControlContext_def sendMessage_def resetRxTimer_def demo_def fresh_session_def
        stopReceiving_def Tp_DefaultConfig_def defaultMaxPayloadSize_def)
  have "session_step ?t (run_step True EvRx ?t)"
    unfolding pump_demo by (rule session_step.Run) (simp_all add: ev_ready_def demo_def fresh_session_def)
  then have "reachable t'" using r t'(1) reachable.Step by simp
  with t' show ?thesis by blast
qed

lemma demo_transmits:
  "\<exists>t. reachable t \<and> \<not> runDone t \<and> txState t = stateWaitFC"
proof -
  let ?d = "[1, 2, 3, 4, 5, 6, 7, 8, 9] :: bytes"
  let ?t = "fst (SendContext False ToQueue CtxLive ?d demo)"
  have r: "reachable ?t" by (rule reachable.Step [OF reachable_demo session_step.Send])
  have t: "?t = demo\<lparr>txDataChan := (make_chan 10)\<lparr>ch_buf := [?d]\<rparr>\<rparr>"
    by (simp add: SendContext_def send_ready_def offered_def chan_room_def make_chan_def demo_def
        fresh_session_def Tp_DefaultConfig_def defaultMaxPayloadSize_def)
  have nf: "\<not> sf_fits 9 8" by (simp add: sf_fits_def)
  have "first_chunk_size 9 8 = 6" by (simp add: first_chunk_size_def)
  then obtain p where p: "createFirstFramePayload [1, 2, 3, 4, 5, 6] 9 8 = Inr p"
    using createFirstFramePayload_ok [of "[1, 2, 3, 4, 5, 6]" 9 8] by auto
  let ?s = "demo\<lparr>txDataChan := make_chan 10\<rparr>"
  have i: "initiateTx True ?d ?s = (case sendMessage True (makeTxMsg (ff_state ?d ?s) p) (ff_state ?d ?s) of
       (t', queued) \<Rightarrow> Some (if queued then resetTxFCTimer t' else stopSending t'))"
    using p nf \<open>first_chunk_size 9 8 = 6\<close>
    by (intro initiateTx_first [where b = False]) (simp_all add: demo_def fresh_session_def frameDataLength_def)
  have "\<exists>t'. initiateTx True ?d ?s = Some t' \<and> \<not> runDone t' \<and> txState t' = stateWaitFC"
    unfolding i by (simp add: sendMessage_def resetTxFCTimer_def ff_state_def demo_def fresh_session_def)
  moreover have "run_step True EvTxData ?t = initiateTx True ?d ?s"
    unfolding t by (simp add: run_step_def chan_recv_def make_chan_def)
  ultimately obtain t' where t': "run_step True EvTxData ?t = Some t'" "\<not> runDone t'"
    "txState t' = stateWaitFC" by auto
  have "session_step ?t (run_step True EvTxData ?t)"
    unfolding t by (rule session_step.Run) (simp_all add: ev_ready_def demo_def fresh_session_def make_chan_def)
  then have "reachable t'" using r t'(1) reachable.Step by simp
  with t' show ?thesis by blast
qed

text \<open>C3: in every interleaving of its three goroutines, of the client's calls and of Close, a session
  made by newSession never panics: no index or slice is out of range, no closed channel is sent
  on or closed again.\<close>

theorem session_never_panics:
  assumes "reachable t" "session_step t r"
  shows "\<exists>t'. r = Some t' \<and> reachable t'"
  using assms session_step_inv [OF reachable_inv [OF assms(1)] assms(2)] reachable.Step by blast

theorem session_never_panics_witness:
  "\<exists>t'. Some (fst (SendContext False ToQueue CtxLive [1, 2, 3] demo)) = Some t' \<and> reachable t'"
  by (rule session_never_panics [OF reachable_demo session_step.Send])

text \<open>C4: while the run loop of a session runs, a multi-frame reception in progress holds fewer bytes
  than the first frame announced, which is at most MaxPayloadSize, its block counter is below the
  block size, and the consecutive-frame timer is armed, so that it cannot last for ever.\<close>

theorem reception_bounded:
  assumes "reachable t" "\<not> runDone t" "rxState t \<noteq> stateIdle"
  shows "rxState t = stateWaitCF \<and> int (length (rxBuffer t)) < rxFrameLen t \<and>
    rxFrameLen t \<le> MaxPayloadSize (config t) \<and> 0 \<le> rxSeqNum t \<and> rxSeqNum t \<le> 15 \<and>
    (BlockSize (config t) = 0 \<or> rxBlockCounter t < BlockSize (config t)) \<and>
    ev_ready EvTimerRxCF t \<and> timerRxCF t = Some (ConsecutiveFrameTimeout (config t))"
proof -
  have "core_ok t" using inv_core [OF reachable_inv [OF assms(1)] assms(2)] by blast
  then have w: "rx_wait t" and v: "TpConfig_Validate (config t) = Inr ()"
    using assms(3) by (auto simp: core_ok_def cfg_ok_def rx_ok_def rx_idle_def)
  then have "0 \<le> BlockSize (config t)" by (auto simp: TpConfig_Validate_def split: if_splits)
  with w assms(2) show ?thesis by (auto simp: rx_wait_def ev_ready_def)
qed

theorem reception_bounded_witness:
  "\<exists>t. reachable t \<and> rxState t = stateWaitCF \<and> int (length (rxBuffer t)) < rxFrameLen t \<and>
     ev_ready EvTimerRxCF t"
proof -
  obtain t where t: "reachable t" "\<not> runDone t" "rxState t = stateWaitCF" using demo_receives by blast
  then have "rxState t \<noteq> stateIdle" by simp
  with reception_bounded [OF t(1,2) this] t(1) show ?thesis by blast
qed

text \<open>C5: while the run loop runs, a transmission in progress still has bytes to send and its timer is
  armed: the flow-control timer while it waits, the STmin timer with a delay of at most 127 ms
  while it transmits. The WAIT frames accepted are bounded by MaxWaitFrames, and the frames sent
  in the block by the block size of the receiver.\<close>

theorem transmission_never_stuck:
  assumes "reachable t" "\<not> runDone t" "txState t \<noteq> stateIdle"
  shows "txBuffer t \<noteq> [] \<and> int (length (txBuffer t)) < txFrameLen t \<and>
    (MaxWaitFrames (config t) < 0 \<or> txWaitFrames t \<le> MaxWaitFrames (config t)) \<and>
    (if txState t = stateWaitFC
     then ev_ready EvTimerRxFC t \<and> timerRxFC t = Some (FlowControlTimeout (config t))
     else txState t = stateTransmit \<and> ev_ready EvTimerTxSTmin t \<and>
       timerTxSTmin t = Some (remoteSTmin t) \<and> 0 \<le> remoteSTmin t \<and>
       remoteSTmin t \<le> 127 * Millisecond \<and>
       (remoteBlockSize t \<le> 0 \<or> txBlockCounter t < remoteBlockSize t))"
proof -
  have "core_ok t" using inv_core [OF reachable_inv [OF assms(1)] assms(2)] by blast
  then have "tx_wait_fc t \<or> tx_transmit t"
    using assms(3) by (auto simp: core_ok_def tx_ok_def tx_idle_def)
  then show ?thesis
    using assms(2) by (auto simp: tx_wait_fc_def tx_transmit_def tx_busy_def ev_ready_def)
qed

theorem transmission_never_stuck_witness:
  "\<exists>t. reachable t \<and> txState t = stateWaitFC \<and> txBuffer t \<noteq> [] \<and> ev_ready EvTimerRxFC t"
proof -
  obtain t where t: "reachable t" "\<not> runDone t" "txState t = stateWaitFC" using demo_transmits by blast
  then have "txState t \<noteq> stateIdle" by simp
  with transmission_never_stuck [OF t(1,2) this] t(1,3) show ?thesis by auto
qed

text \<open>C6: every frame that the protocol queues for the sender is accepted by NewFrame, whatever the
  padding and the driver's bit-rate switching, and passes Validate with an 11-bit identifier.\<close>

theorem queued_frames_valid:
  assumes "reachable t" "m \<in> set (txq t)"
  shows "\<exists>f. to_can_frame brs m = Inr f \<and> Frame_Validate f = Inr () \<and> f_ID f \<le> 0x7FF \<and>
    \<not> f_Extended f \<and> f_FD f = fd t"
proof -
  have "frame_fits t m"
    using reachable_inv [OF assms(1)] assms(2) by (simp add: session_inv_def txq_ok_def)
  then have "frame_limits_ok (ArbitrationID m) (length (lf_Data m))
      \<lparr>fl_FD = lf_FD m, fl_BRS = (lf_FD m \<and> brs), fl_Extended = False\<rparr>" (is "frame_limits_ok _ _ ?fl")
    and "ArbitrationID m \<le> 0x7FF" "lf_FD m = fd t"
    by (auto simp: frame_fits_def frame_limits_ok_def frameDataLength_def split: if_splits)
  then show ?thesis
    by (simp add: to_can_frame_def NewFrame_ok built_frame_Validate) (simp add: built_frame_def)
qed

theorem queued_frames_valid_witness:
  "\<exists>t m f. reachable t \<and> m \<in> set (txq t) \<and> to_can_frame True m = Inr f"
proof -
  obtain t where t: "reachable t" "txq t \<noteq> []" using demo_receives by blast
  then have "hd (txq t) \<in> set (txq t)" by simp
  from queued_frames_valid [OF t(1) this, of True] this t(1) show ?thesis by blast
qed



end
