(* ===== verification/Isotp_Transfer.thy ===== *)
theory Isotp_Transfer
  imports Isotp_Safety
begin

text \<open>
  Two ISO-TP sessions joined by a link that loses nothing and keeps the order of the frames: what
  one client queues, the other one receives. The steps are those of the two run loops, of the
  senders and of the receive pumps, in any interleaving; the two time-outs are left out, as the
  frames they guard against losing all arrive.
\<close>

section \<open>The pair of sessions\<close>

text \<open>
  The frame that a driver delivers for a frame sent: the receiver sees the direction \<open>Receive\<close>.
\<close>

definition over_the_link :: "Frame \<Rightarrow> Frame" where
  "over_the_link f = f\<lparr>f_Direction := Receive\<rparr>"

inductive xfer_step :: "bool \<Rightarrow> session \<times> session \<Rightarrow> session \<times> session \<Rightarrow> bool" for brs where
  RunA: "ev \<in> {EvTxData, EvRx, EvTimerTxSTmin} \<Longrightarrow> ev_ready ev a \<Longrightarrow> run_step True ev a = Some a' \<Longrightarrow>
    xfer_step brs (a, b) (a', b)"
| RunB: "ev \<in> {EvTxData, EvRx, EvTimerTxSTmin} \<Longrightarrow> ev_ready ev b \<Longrightarrow> run_step True ev b = Some b' \<Longrightarrow>
    xfer_step brs (a, b) (a, b')"
| WireAB: "txq a = m # ms \<Longrightarrow> to_can_frame brs m = Inr f \<Longrightarrow>
    xfer_step brs (a, b) (a\<lparr>txq := ms\<rparr>, pump (over_the_link f) b)"
| WireBA: "txq b = m # ms \<Longrightarrow> to_can_frame brs m = Inr f \<Longrightarrow>
    xfer_step brs (a, b) (pump (over_the_link f) a, b\<lparr>txq := ms\<rparr>)"


section \<open>Frames on the link\<close>

text \<open>What arrives for a queued frame: the data, zero-filled up to the length of its code.\<close>

definition arrived :: "linkFrame \<Rightarrow> linkFrame" where
  "arrived m = m\<lparr>lf_Data := zero_pad (nat (dlc_len (int (length (lf_Data m))))) (lf_Data m)\<rparr>"

lemma zero_pad_take:
  "length xs \<le> n \<Longrightarrow> n \<le> 64 \<Longrightarrow> take n (xs @ replicate (64 - length xs) 0) = zero_pad n xs"
  by (simp add: zero_pad_def min_def)

lemma to_can_frame_fits:
  assumes "frame_fits t m"
  shows "to_can_frame brs m = Inr (built_frame (ArbitrationID m) (lf_Data m)
    \<lparr>fl_FD = lf_FD m, fl_BRS = (lf_FD m \<and> brs), fl_Extended = False\<rparr>)"
  unfolding to_can_frame_def
  using assms by (intro NewFrame_ok) (auto simp: frame_fits_def frame_limits_ok_def frameDataLength_def)

lemma fromCANFrame_built:
  assumes "frame_fits t m"
  shows "fromCANFrame (over_the_link (built_frame (ArbitrationID m) (lf_Data m)
    \<lparr>fl_FD = lf_FD m, fl_BRS = (lf_FD m \<and> brs), fl_Extended = False\<rparr>)) = Some (arrived m)"
    (is "fromCANFrame (over_the_link ?f) = _")
proof -
  let ?n = "int (length (lf_Data m))"
  have lim: "frame_limits_ok (ArbitrationID m) (length (lf_Data m))
      \<lparr>fl_FD = lf_FD m, fl_BRS = (lf_FD m \<and> brs), fl_Extended = False\<rparr>"
    using assms by (auto simp: frame_fits_def frame_limits_ok_def frameDataLength_def)
  have le: "?n \<le> 64" using assms by (auto simp: frame_fits_def frameDataLength_def split: if_splits)
  have d: "?n \<le> dlc_len ?n" "dlc_len ?n \<le> 64" using le by (simp_all add: dlc_len_ge dlc_len_le)
  have "ValidDataLength (over_the_link f) = ValidDataLength f" for f
    by (simp add: over_the_link_def ValidDataLength_def)
  with built_frame_ValidDataLength [OF lim] have v: "ValidDataLength (over_the_link ?f) = (dlc_len ?n, True)"
    by simp
  have t: "take (nat (dlc_len ?n)) (f_Data (over_the_link ?f)) = zero_pad (nat (dlc_len ?n)) (lf_Data m)"
    using zero_pad_take [of "lf_Data m" "nat (dlc_len ?n)"] d by (simp add: over_the_link_def built_frame_def)
  have "length (zero_pad (nat (dlc_len ?n)) (lf_Data m)) = nat (dlc_len ?n)"
    using d by (simp add: zero_pad_def)
  then have g: "go_copy (replicate (nat (dlc_len ?n)) 0) (zero_pad (nat (dlc_len ?n)) (lf_Data m)) =
      zero_pad (nat (dlc_len ?n)) (lf_Data m)"
    by (simp add: go_copy_def)
  have i: "f_Direction (over_the_link ?f) = Receive" "f_ID (over_the_link ?f) = ArbitrationID m"
    "f_FD (over_the_link ?f) = lf_FD m" "\<not> ArbitrationID m > 0x7FF"
    using assms by (simp_all add: over_the_link_def built_frame_def frame_fits_def not_less)
  have m: "m\<lparr>lf_Data := x\<rparr> = \<lparr>ArbitrationID = ArbitrationID m, lf_Data = x, lf_FD = lf_FD m\<rparr>" for x
    by (cases m) simp
  show ?thesis
    using i v t g m by (simp add: fromCANFrame_def arrived_def)
qed

text \<open>The frames under way from one session to the other, in order.\<close>

definition flight :: "session \<Rightarrow> session \<Rightarrow> linkFrame list" where
  "flight a b = rxq b @ map arrived (txq a)"

lemma wire_moves:
  assumes "txq_ok a" "txq a = m # ms" "to_can_frame brs m = Inr f"
  shows "pump (over_the_link f) b = b\<lparr>rxq := rxq b @ [arrived m]\<rparr>"
proof -
  have "frame_fits a m" using assms by (simp add: txq_ok_def)
  from to_can_frame_fits [OF this, of brs] fromCANFrame_built [OF this, of brs] assms(3)
  show ?thesis by (simp add: pump_def)
qed

text \<open>Padding, of the sender or of the link, only ever follows the data.\<close>

definition pad_target :: "session \<Rightarrow> bytes \<Rightarrow> int" where
  "pad_target t data = (if fd t then nextFDTargetLength (int (length data)) else 8)"

lemma makeTxMsg_padded:
  "lf_Data (makeTxMsgWithAddr t a data) = data @
     (case PaddingByte (config t) of
        None \<Rightarrow> [] | Some b \<Rightarrow> replicate (nat (pad_target t data) - length data) b)"
  by (cases "PaddingByte (config t)") (simp_all add: makeTxMsgWithAddr_def pad_target_def Let_def)

lemma arrived_padded:
  assumes "int (length data) \<le> frameDataLength (fd t)"
  shows "\<exists>pad. lf_Data (arrived (makeTxMsgWithAddr t a data)) = data @ pad \<and>
    (int (length data) = frameDataLength (fd t) \<or>
     PaddingByte (config t) = None \<and> length data \<le> 8 \<longrightarrow> pad = [])"
proof -
  let ?pad = "case PaddingByte (config t) of
    None \<Rightarrow> [] | Some b \<Rightarrow> replicate (nat (pad_target t data) - length data) b"
  let ?zero = "replicate (nat (dlc_len (int (length data + length ?pad))) - (length data + length ?pad)) (0 :: u8)"
  have "pad_target t data \<le> frameDataLength (fd t)"
    using nextFDTargetLength_le by (simp add: frameDataLength_def pad_target_def)
  then have p: "?pad = []" if "int (length data) = frameDataLength (fd t) \<or> PaddingByte (config t) = None"
    using that by (auto split: option.splits)
  have z: "?zero = []" if "?pad = []" "int (length data) = frameDataLength (fd t) \<or> length data \<le> 8"
    using that by (auto simp: frameDataLength_def split: if_splits)
  have "lf_Data (arrived (makeTxMsgWithAddr t a data)) = data @ ?pad @ ?zero"
    by (simp add: arrived_def makeTxMsg_padded zero_pad_def)
  with p z show ?thesis by (intro exI [of _ "?pad @ ?zero"]) blast
qed

lemma arrived_simps [simp]:
  "ArbitrationID (arrived m) = ArbitrationID m"
  "ArbitrationID (makeTxMsgWithAddr t a data) = TxID a"
  by (simp_all add: arrived_def makeTxMsgWithAddr_def Let_def)

section \<open>The course of a transfer\<close>

definition tx_addr :: "session \<Rightarrow> Address" where
  "tx_addr a = (case txAddress a of None \<Rightarrow> address a | Some x \<Rightarrow> x)"

text \<open>
  The two sessions fit together: same framing mode, crossed identifiers, a receiver that answers
  with flow control and has room for the payload.
\<close>

definition xfer_setup :: "bytes \<Rightarrow> session \<Rightarrow> session \<Rightarrow> bool" where
  "xfer_setup p a b \<longleftrightarrow> fd a = fd b \<and> TxID (tx_addr a) = RxID (address b) \<and>
     TxID (address b) = RxID (address a) \<and> \<not> ManualFlowControl (config b) \<and>
     int (length p) \<le> MaxPayloadSize (config b) \<and> int (length p) \<le> 0xFFFFFFFF \<and>
     (p \<noteq> [] \<or> fd a \<or> PaddingByte (config a) = None) \<and> chan_room (rxDataChan b)"

text \<open>What no step of a transfer changes.\<close>

definition static :: "session \<Rightarrow> (TpConfig \<times> Address \<times> Address option) \<times> (bool \<times> int \<times> bool \<times> bool) \<times> isotp_error chan" where
  "static t = ((config t, address t, txAddress t),
     (fd t, frameDataLen t, runDone t, sessionClosed t), errorChan t)"

lemma staticD:
  assumes "static t = static t'"
  shows "config t = config t'" "address t = address t'" "txAddress t = txAddress t'" "fd t = fd t'"
    "frameDataLen t = frameDataLen t'" "runDone t = runDone t'" "sessionClosed t = sessionClosed t'"
    "errorChan t = errorChan t'"
  using assms by (simp_all add: static_def)

lemma static_simps [simp]:
  "static (stopReceiving t) = static t" "static (stopSending t) = static t"
  "static (resetRxTimer t) = static t" "static (resetTxFCTimer t) = static t"
  "static (resetTxSTminTimer d t) = static t" "static (cf_state t) = static t"
  "static (ff_state p t) = static t" "static (take_part x t) = static t"
  "static (t\<lparr>txq := q\<rparr>) = static t" "static (t\<lparr>rxq := q\<rparr>) = static t"
  "static (t\<lparr>rxDataChan := ch\<rparr>) = static t" "static (t\<lparr>txDataChan := ch\<rparr>) = static t"
  "static (t\<lparr>txState := st\<rparr>) = static t" "static (t\<lparr>timerTxSTmin := w\<rparr>) = static t"
  "static (t\<lparr>rxBlockCounter := n\<rparr>) = static t"
  by (simp_all add: static_def stopReceiving_def stopSending_def resetRxTimer_def resetTxFCTimer_def
      resetTxSTminTimer_def cf_state_def ff_state_def take_part_def)

lemma makeTxMsg_static:
  assumes "static t = static t'"
  shows "makeTxMsg t d = makeTxMsg t' d" "makeFlowControlMsg t s = makeFlowControlMsg t' s"
  using staticD [OF assms]
  by (simp_all add: makeTxMsg_def makeFlowControlMsg_def makeTxMsgWithAddr_def split: option.split)

text \<open>Segmentation: the first frame carries \<open>fsz\<close> bytes, every consecutive frame \<open>csz\<close>; \<open>off k\<close> bytes
  have been sent after \<open>k\<close> consecutive frames.\<close>

definition csz :: "session \<Rightarrow> nat" where "csz a = nat (frameDataLen a - 1)"

definition off :: "bytes \<Rightarrow> session \<Rightarrow> nat \<Rightarrow> nat" where
  "off p a k = nat (first_chunk_size (int (length p)) (frameDataLen a)) + k * csz a"

definition sf_msg :: "bytes \<Rightarrow> session \<Rightarrow> linkFrame" where
  "sf_msg p a = makeTxMsg a
     (case createSingleFramePayload p (frameDataLen a) of Inr d \<Rightarrow> d | Inl _ \<Rightarrow> [])"

definition ff_msg :: "bytes \<Rightarrow> session \<Rightarrow> linkFrame" where
  "ff_msg p a = makeTxMsg a
     (case createFirstFramePayload (take (off p a 0) p) (int (length p)) (frameDataLen a) of
        Inr d \<Rightarrow> d | Inl _ \<Rightarrow> [])"

definition cf_msg :: "bytes \<Rightarrow> session \<Rightarrow> nat \<Rightarrow> linkFrame" where
  "cf_msg p a k = makeTxMsg a ((pciTypeConsecutiveFrame OR word_of_int (int (Suc k) mod 16)) #
     take (csz a) (drop (off p a k) p))"

definition fc_msg :: "session \<Rightarrow> linkFrame" where
  "fc_msg b = makeFlowControlMsg b FlowStatusContinueToSend"

lemma off_Suc: "off p a (Suc k) = off p a k + csz a"
  by (simp add: off_def)

lemma off_Suc': "off p a (Suc k) = csz a + off p a k"
  by (simp add: off_def)

lemma off_mono: "j \<le> k \<Longrightarrow> off p a j \<le> off p a k"
  by (simp add: off_def)

text \<open>The sender after \<open>k\<close> and the receiver after \<open>j\<close> consecutive frames.\<close>

definition tx_side :: "bytes \<Rightarrow> session \<Rightarrow> nat \<Rightarrow> session \<Rightarrow> bool" where
  "tx_side p a0 k a \<longleftrightarrow> off p a0 k < length p \<and> txBuffer a = drop (off p a0 k) p \<and>
     txSeqNum a = int (Suc k) mod 16"

definition rx_side :: "bytes \<Rightarrow> session \<Rightarrow> nat \<Rightarrow> session \<Rightarrow> bool" where
  "rx_side p a0 j b \<longleftrightarrow> off p a0 j < length p \<and> rxState b = stateWaitCF \<and>
     rxBuffer b = take (off p a0 j) p \<and> rxFrameLen b = int (length p) \<and>
     rxSeqNum b = int (Suc j) mod 16"

text \<open>
  The phases. In \<open>ph_data\<close>, \<open>s\<close> is the number of consecutive frames at the start of the current
  block; the sender waits for a flow control that is under way, or for the end of the block,
  transmits, or has sent everything.
\<close>

definition quiet :: "session \<Rightarrow> session \<Rightarrow> bool" where
  "quiet a b \<longleftrightarrow> txState a = stateIdle \<and> rxState b = stateIdle \<and> flight b a = []"

definition ph_start :: "bytes \<Rightarrow> session \<Rightarrow> session \<Rightarrow> session \<Rightarrow> session \<Rightarrow> bool" where
  "ph_start p a0 b0 a b \<longleftrightarrow> ch_buf (txDataChan a) = [p] \<and> quiet a b \<and> flight a b = [] \<and>
     rxDataChan b = rxDataChan b0"

definition ph_single :: "bytes \<Rightarrow> session \<Rightarrow> session \<Rightarrow> session \<Rightarrow> session \<Rightarrow> bool" where
  "ph_single p a0 b0 a b \<longleftrightarrow> ch_buf (txDataChan a) = [] \<and> quiet a b \<and>
     sf_fits (int (length p)) (frameDataLen a0) \<and> flight a b = [arrived (sf_msg p a0)] \<and>
     rxDataChan b = rxDataChan b0"

definition ph_first :: "bytes \<Rightarrow> session \<Rightarrow> session \<Rightarrow> session \<Rightarrow> session \<Rightarrow> bool" where
  "ph_first p a0 b0 a b \<longleftrightarrow> ch_buf (txDataChan a) = [] \<and> txState a = stateWaitFC \<and>
     tx_side p a0 0 a \<and> \<not> sf_fits (int (length p)) (frameDataLen a0) \<and> rxState b = stateIdle \<and>
     flight a b = [arrived (ff_msg p a0)] \<and> flight b a = [] \<and> rxDataChan b = rxDataChan b0"

definition sender_at :: "bytes \<Rightarrow> session \<Rightarrow> session \<Rightarrow> nat \<Rightarrow> nat \<Rightarrow> nat \<Rightarrow> session \<Rightarrow> session \<Rightarrow> bool" where
  "sender_at p a0 b0 s k j a b \<longleftrightarrow>
     (let bs = BlockSize (config b0) in
        (txState a = stateWaitFC \<and> tx_side p a0 k a \<and> j = k \<and> s = k \<and>
           flight b a = [arrived (fc_msg b0)]) \<or>
        (txState a = stateWaitFC \<and> tx_side p a0 k a \<and> j < k \<and> 0 < bs \<and> int k = int s + bs \<and>
           flight b a = []) \<or>
        (txState a = stateTransmit \<and> tx_side p a0 k a \<and> remoteBlockSize a = bs \<and>
           (bs > 0 \<longrightarrow> int k < int s + bs \<and> txBlockCounter a = int k - int s) \<and> flight b a = []) \<or>
        (txState a = stateIdle \<and> length p \<le> off p a0 k \<and> off p a0 (k - 1) < length p \<and>
           (bs > 0 \<longrightarrow> int k \<le> int s + bs) \<and> flight b a = []))"

definition ph_data :: "bytes \<Rightarrow> session \<Rightarrow> session \<Rightarrow> session \<Rightarrow> session \<Rightarrow> bool" where
  "ph_data p a0 b0 a b \<longleftrightarrow> (\<exists>s k j. ch_buf (txDataChan a) = [] \<and> rx_side p a0 j b \<and> j \<le> k \<and>
     (BlockSize (config b0) > 0 \<longrightarrow> s \<le> j \<and> rxBlockCounter b = int j - int s) \<and>
     flight a b = map (\<lambda>i. arrived (cf_msg p a0 i)) [j..<k] \<and> sender_at p a0 b0 s k j a b \<and>
     rxDataChan b = rxDataChan b0)"

definition ph_done :: "bytes \<Rightarrow> session \<Rightarrow> session \<Rightarrow> session \<Rightarrow> session \<Rightarrow> bool" where
  "ph_done p a0 b0 a b \<longleftrightarrow> ch_buf (txDataChan a) = [] \<and> quiet a b \<and> flight a b = [] \<and>
     rxDataChan b = offered p (rxDataChan b0)"

definition pair_ok :: "bytes \<Rightarrow> session \<Rightarrow> session \<Rightarrow> session \<Rightarrow> session \<Rightarrow> bool" where
  "pair_ok p a0 b0 a b \<longleftrightarrow> xfer_setup p a0 b0 \<and> core_ok a \<and> core_ok b \<and>
     \<not> sessionClosed a \<and> \<not> sessionClosed b \<and> static a = static a0 \<and> static b = static b0 \<and>
     rxState a = stateIdle \<and> rxDataChan a = rxDataChan a0 \<and>
     txState b = stateIdle \<and> ch_buf (txDataChan b) = []"

definition xinv :: "bytes \<Rightarrow> session \<Rightarrow> session \<Rightarrow> session \<Rightarrow> session \<Rightarrow> bool" where
  "xinv p a0 b0 a b \<longleftrightarrow> pair_ok p a0 b0 a b \<and>
     (ph_start p a0 b0 a b \<or> ph_single p a0 b0 a b \<or> ph_first p a0 b0 a b \<or> ph_data p a0 b0 a b \<or>
      ph_done p a0 b0 a b)"

text \<open>Moving a frame along the link changes no phase, as the frames under way stay the same.\<close>

lemma phase_congs:
  assumes "txDataChan a' = txDataChan a" "txState a' = txState a" "txBuffer a' = txBuffer a"
    "txSeqNum a' = txSeqNum a" "remoteBlockSize a' = remoteBlockSize a"
    "txBlockCounter a' = txBlockCounter a" "rxState b' = rxState b" "rxBuffer b' = rxBuffer b"
    "rxFrameLen b' = rxFrameLen b" "rxSeqNum b' = rxSeqNum b" "rxBlockCounter b' = rxBlockCounter b"
    "rxDataChan b' = rxDataChan b" "flight a' b' = flight a b" "flight b' a' = flight b a"
  shows "ph_start p a0 b0 a' b' = ph_start p a0 b0 a b"
    "ph_single p a0 b0 a' b' = ph_single p a0 b0 a b"
    "ph_first p a0 b0 a' b' = ph_first p a0 b0 a b"
    "ph_data p a0 b0 a' b' = ph_data p a0 b0 a b"
    "ph_done p a0 b0 a' b' = ph_done p a0 b0 a b"
  using assms
  by (simp_all add: ph_start_def ph_single_def ph_first_def ph_data_def ph_done_def quiet_def
      tx_side_def rx_side_def sender_at_def)

lemma core_txq_tl: "core_ok t \<Longrightarrow> txq t = m # ms \<Longrightarrow> core_ok (t\<lparr>txq := ms\<rparr>)"
  by (auto simp: core_ok_def inv_defs)

lemma xinv_wire:
  assumes "xinv p a0 b0 a b"
  shows "txq a = m # ms \<Longrightarrow> to_can_frame brs m = Inr f \<Longrightarrow>
      xinv p a0 b0 (a\<lparr>txq := ms\<rparr>) (pump (over_the_link f) b)"
    and "txq b = m # ms \<Longrightarrow> to_can_frame brs m = Inr f \<Longrightarrow>
      xinv p a0 b0 (pump (over_the_link f) a) (b\<lparr>txq := ms\<rparr>)"
proof -
  have po: "pair_ok p a0 b0 a b" using assms by (simp add: xinv_def)
  then have tq: "txq_ok a" "txq_ok b" by (simp_all add: pair_ok_def core_ok_def)
  {
    assume q: "txq a = m # ms" and f: "to_can_frame brs m = Inr f"
    let ?a = "a\<lparr>txq := ms\<rparr>" and ?b = "b\<lparr>rxq := rxq b @ [arrived m]\<rparr>"
    have w: "pump (over_the_link f) b = ?b" by (rule wire_moves [OF tq(1) q f])
    have fl: "flight ?a ?b = flight a b" "flight ?b ?a = flight b a" using q by (simp_all add: flight_def)
    have "pair_ok p a0 b0 ?a ?b" using po q by (simp add: pair_ok_def core_txq_tl)
    then show "xinv p a0 b0 ?a (pump (over_the_link f) b)"
      unfolding w using assms fl by (simp add: xinv_def phase_congs [of ?a a ?b b])
  }
  assume q: "txq b = m # ms" and f: "to_can_frame brs m = Inr f"
  let ?b = "b\<lparr>txq := ms\<rparr>" and ?a = "a\<lparr>rxq := rxq a @ [arrived m]\<rparr>"
  have w: "pump (over_the_link f) a = ?a" by (rule wire_moves [OF tq(2) q f])
  have fl: "flight ?a ?b = flight a b" "flight ?b ?a = flight b a" using q by (simp_all add: flight_def)
  have "pair_ok p a0 b0 ?a ?b" using po q by (simp add: pair_ok_def core_txq_tl)
  then show "xinv p a0 b0 (pump (over_the_link f) a) ?b"
    unfolding w using assms fl by (simp add: xinv_def phase_congs [of ?a a ?b b])
qed

section \<open>What the receiver does with each frame\<close>

lemma setup_len:
  assumes "cfg_ok a0"
  shows "frameDataLen a0 = frameDataLength (fd a0)" "8 \<le> frameDataLen a0" "frameDataLen a0 \<le> 64"
    "int (csz a0) = frameDataLen a0 - 1"
  using assms by (auto simp: cfg_ok_def csz_def frameDataLength_def)

lemma arrived_makeTxMsg:
  assumes "int (length data) \<le> frameDataLength (fd t)"
  shows "\<exists>pad. lf_Data (arrived (makeTxMsg t data)) = data @ pad \<and>
    (int (length data) = frameDataLength (fd t) \<or>
     PaddingByte (config t) = None \<and> length data \<le> 8 \<longrightarrow> pad = [])"
  unfolding makeTxMsg_def using assms by (rule arrived_padded)

lemma parse_cf:
  assumes "cfg_ok a0"
  shows "\<exists>pad. ParseFrame (lf_Data (arrived (cf_msg p a0 j))) =
      Some (Inr (ConsecutiveFrame (int (Suc j) mod 16) (take (csz a0) (drop (off p a0 j) p) @ pad))) \<and>
    (off p a0 (Suc j) \<le> length p \<longrightarrow> pad = [])"
proof -
  let ?chunk = "take (csz a0) (drop (off p a0 j) p)" and ?sn = "int (Suc j) mod 16"
  let ?d = "(pciTypeConsecutiveFrame OR word_of_int ?sn) # ?chunk"
  note len = setup_len [OF assms]
  have r: "0 \<le> ?sn" "?sn \<le> 15" using pos_mod_bound [of 16 "int (Suc j)"] by simp_all
  have "int (length ?d) \<le> frameDataLength (fd a0)" using len by (simp add: min_def)
  from arrived_makeTxMsg [OF this] obtain pad where pad:
    "lf_Data (arrived (cf_msg p a0 j)) = ?d @ pad" "int (length ?d) = frameDataLength (fd a0) \<longrightarrow> pad = []"
    unfolding cf_msg_def by blast
  have full: "int (length ?d) = frameDataLength (fd a0)" if "off p a0 (Suc j) \<le> length p"
    using that len by (simp add: off_Suc)
  have "ParseFrame (?d @ pad) = Some (Inr (ConsecutiveFrame ?sn (?chunk @ pad)))"
    by (rule parse_created_consecutive) (rule createConsecutiveFramePayload_ok [OF r])
  with pad full show ?thesis by metis
qed

lemma take_part_cf:
  assumes "rx_side p a0 j b" "off p a0 (Suc j) \<le> length p \<longrightarrow> pad = []"
  shows "rxBuffer (take_part (take (csz a0) (drop (off p a0 j) p) @ pad) b) = take (off p a0 (Suc j)) p"
proof -
  let ?o = "off p a0 j" and ?c = "csz a0"
  have b: "rxBuffer b = take ?o p" "rxFrameLen b = int (length p)" "?o < length p"
    using assms(1) by (simp_all add: rx_side_def)
  have need: "nat (rxFrameLen b - int (length (rxBuffer b))) = length p - ?o"
    using b by simp
  have "take (length p - ?o) (take ?c (drop ?o p) @ pad) = take ?c (drop ?o p)"
    using assms(2) by (cases "?o + ?c \<le> length p") (auto simp: off_Suc min_def)
  then show ?thesis
    unfolding take_part_def using b need by (simp add: off_Suc take_add del: take_append)
qed

text \<open>What a step of the receiver leaves alone.\<close>

definition rx_keeps :: "session \<Rightarrow> session \<Rightarrow> bool" where
  "rx_keeps b b' \<longleftrightarrow> static b' = static b \<and> txState b' = txState b \<and> txDataChan b' = txDataChan b \<and>
     core_ok b' \<and> sessionClosed b' = sessionClosed b"

lemma run_rx:
  assumes "core_ok b" "rxq b = m # q" "\<not> runDone b" "ArbitrationID m = RxID (address b)"
    "ParseFrame (lf_Data m) = Some (Inr d)"
  shows "run_step True EvRx b = (case d of
        FlowControlFrame st bs stmin \<Rightarrow> handleTxFlowControl st bs stmin (b\<lparr>rxq := q\<rparr>)
      | SingleFrame data \<Rightarrow> handleRxSingleFrame data (b\<lparr>rxq := q\<rparr>)
      | FirstFrame n data \<Rightarrow> handleRxFirstFrame True n data (b\<lparr>rxq := q\<rparr>)
      | ConsecutiveFrame sn data \<Rightarrow> handleRxConsecutiveFrame True sn data (b\<lparr>rxq := q\<rparr>))"
    and "safe b (run_step True EvRx b)"
proof -
  show "run_step True EvRx b = (case d of
        FlowControlFrame st bs stmin \<Rightarrow> handleTxFlowControl st bs stmin (b\<lparr>rxq := q\<rparr>)
      | SingleFrame data \<Rightarrow> handleRxSingleFrame data (b\<lparr>rxq := q\<rparr>)
      | FirstFrame n data \<Rightarrow> handleRxFirstFrame True n data (b\<lparr>rxq := q\<rparr>)
      | ConsecutiveFrame sn data \<Rightarrow> handleRxConsecutiveFrame True sn data (b\<lparr>rxq := q\<rparr>))"
    using assms by (simp add: run_step_def processRx_def Accepts_def)
  have "ev_ready EvRx b" using assms by (simp add: ev_ready_def)
  then show "safe b (run_step True EvRx b)" using safe_run_step [OF assms(1)] by simp
qed

lemma sendFlowControl_auto:
  assumes "\<not> ManualFlowControl (config t)"
  shows "sendFlowControlContext True st t = (t\<lparr>txq := txq t @ [makeFlowControlMsg t st]\<rparr>, True)"
  using assms by (simp add: sendFlowControlContext_def sendMessage_def)

lemma take_part_simps [simp]:
  "rxState (take_part d t) = rxState t" "rxFrameLen (take_part d t) = rxFrameLen t"
  "rxSeqNum (take_part d t) = (rxSeqNum t + 1) mod 16" "txq (take_part d t) = txq t"
  "rxq (take_part d t) = rxq t" "config (take_part d t) = config t"
  "txState (take_part d t) = txState t" "txDataChan (take_part d t) = txDataChan t"
  "rxDataChan (take_part d t) = rxDataChan t" "rxBlockCounter (take_part d t) = rxBlockCounter t"
  by (simp_all add: take_part_def resetRxTimer_def)

lemma stop_simps [simp]:
  "txState (stopReceiving t) = txState t" "txq (stopReceiving t) = txq t" "rxq (stopReceiving t) = rxq t"
  "txDataChan (stopReceiving t) = txDataChan t" "rxState (stopReceiving t) = stateIdle"
  "txState (stopSending t) = stateIdle" "txq (stopSending t) = txq t" "rxq (stopSending t) = rxq t"
  "txDataChan (stopSending t) = txDataChan t" "rxState (stopSending t) = rxState t"
  "rxDataChan (stopSending t) = rxDataChan t"
  by (simp_all add: stopReceiving_def stopSending_def)

lemma reset_rx_simps [simp]:
  "rxState (resetRxTimer t) = rxState t" "rxFrameLen (resetRxTimer t) = rxFrameLen t"
  "rxSeqNum (resetRxTimer t) = rxSeqNum t" "txq (resetRxTimer t) = txq t"
  "rxq (resetRxTimer t) = rxq t" "rxBuffer (resetRxTimer t) = rxBuffer t"
  "txState (resetRxTimer t) = txState t" "txDataChan (resetRxTimer t) = txDataChan t"
  "rxDataChan (resetRxTimer t) = rxDataChan t" "rxBlockCounter (resetRxTimer t) = rxBlockCounter t"
  by (simp_all add: resetRxTimer_def)

lemma next_sn:
  "((1 + int j) mod 16 + 1) mod 16 = (2 + int j) mod 16"
  "((1 + int j) mod 16 + 1) mod 16 = (int j + 2) mod 16"
  using mod_add_left_eq [of "1 + int j" 16 1] by (simp_all add: add.commute)

lemma receives_cf:
  assumes "core_ok b" "\<not> runDone b" "static b = static b0" "xfer_setup p a0 b0" "cfg_ok a0"
    and side: "rx_side p a0 j b" and q: "rxq b = arrived (cf_msg p a0 j) # q"
    and room: "chan_room (rxDataChan b)"
  shows "\<exists>b'. run_step True EvRx b = Some b' \<and> rx_keeps b b' \<and> rxq b' = q \<and>
    (if length p \<le> off p a0 (Suc j)
     then rxState b' = stateIdle \<and> rxDataChan b' = offered p (rxDataChan b) \<and> txq b' = txq b
     else rx_side p a0 (Suc j) b' \<and> rxDataChan b' = rxDataChan b \<and>
       (if BlockSize (config b0) > 0 \<and> rxBlockCounter b + 1 \<ge> BlockSize (config b0)
        then rxBlockCounter b' = 0 \<and> txq b' = txq b @ [fc_msg b0]
        else rxBlockCounter b' = rxBlockCounter b + 1 \<and> txq b' = txq b))"
proof -
  obtain pad where pad: "ParseFrame (lf_Data (arrived (cf_msg p a0 j))) =
      Some (Inr (ConsecutiveFrame (int (Suc j) mod 16) (take (csz a0) (drop (off p a0 j) p) @ pad)))"
    "off p a0 (Suc j) \<le> length p \<longrightarrow> pad = []"
    using parse_cf [OF assms(5)] by blast
  let ?data = "take (csz a0) (drop (off p a0 j) p) @ pad" and ?b = "b\<lparr>rxq := q\<rparr>"
  have ident: "ArbitrationID (arrived (cf_msg p a0 j)) = RxID (address b)"
    using assms(4) staticD(2) [OF assms(3)]
    by (simp add: cf_msg_def makeTxMsg_def xfer_setup_def tx_addr_def)
  note run = run_rx [OF assms(1) q assms(2) ident pad(1)]
  have sq: "int (Suc j) mod 16 = rxSeqNum ?b" using side by (simp add: rx_side_def)
  have sb: "rx_side p a0 j ?b" using side by (simp add: rx_side_def)
  have op: "\<not> ch_closed (errorChan ?b)" "\<not> ch_closed (rxDataChan ?b)" using core_open [OF assms(1)] by simp_all
  have le: "int (length (rxBuffer ?b)) \<le> rxFrameLen ?b" "rxState ?b = stateWaitCF"
    using side by (simp_all add: rx_side_def)
  have buf: "rxBuffer (take_part ?data ?b) = take (off p a0 (Suc j)) p"
    by (rule take_part_cf [OF sb pad(2)])
  have man: "\<not> ManualFlowControl (config t)" if "config t = config b" for t :: session
    using assms(4) staticD(1) [OF assms(3)] that by (simp add: xfer_setup_def)
  have fc: "makeFlowControlMsg ((take_part ?data ?b)\<lparr>rxBlockCounter := 0\<rparr>) FlowStatusContinueToSend = fc_msg b0"
    unfolding fc_msg_def using assms(3) by (intro makeTxMsg_static) simp
  let ?t2 = "take_part ?data ?b"
  let ?full = "length p \<le> off p a0 (Suc j)"
  let ?blk = "BlockSize (config b) > 0 \<and> rxBlockCounter b + 1 \<ge> BlockSize (config b)"
  let ?t4 = "?t2\<lparr>rxBlockCounter := 0\<rparr>"
  let ?r = "if ?full then stopReceiving (?t2\<lparr>rxDataChan := offered (rxBuffer ?t2) (rxDataChan b)\<rparr>)
     else if ?blk then resetRxTimer (?t4\<lparr>txq := txq b @ [fc_msg b0]\<rparr>)
     else ?t2\<lparr>rxBlockCounter := rxBlockCounter b + 1\<rparr>"
  have full: "(int (length (rxBuffer ?t2)) \<ge> rxFrameLen ?b) = ?full"
    unfolding buf using side by (simp add: rx_side_def min_def)
  have "run_step True EvRx b = handleRxConsecutiveFrame True (rxSeqNum ?b) ?data ?b"
    unfolding run(1) sq by simp
  also have "\<dots> = Some ?r"
    unfolding handleRxConsecutiveFrame_expected [OF le(2,1) op] Let_def full
    using room man fc by (simp add: sendFlowControl_auto)
  finally have eq: "run_step True EvRx b = Some ?r" .
  have bs: "BlockSize (config b) = BlockSize (config b0)" using staticD(1) [OF assms(3)] by simp
  have "rx_keeps b ?r" using run(2) unfolding eq by (auto simp: rx_keeps_def)
  then show ?thesis
    unfolding eq using side buf
    by (auto simp: bs rx_side_def next_sn)
qed

lemma parse_sf:
  assumes "cfg_ok a0" "xfer_setup p a0 b0" "sf_fits (int (length p)) (frameDataLen a0)"
  shows "ParseFrame (lf_Data (arrived (sf_msg p a0))) = Some (Inr (SingleFrame p))"
proof -
  note len = setup_len [OF assms(1)]
  obtain d where d: "createSingleFramePayload p (frameDataLen a0) = Inr d"
      "int (length d) \<le> frameDataLen a0"
    using createSingleFramePayload_ok [OF assms(3) len(2)] by blast
  obtain pad where pad: "lf_Data (arrived (sf_msg p a0)) = d @ pad"
      "PaddingByte (config a0) = None \<and> length d \<le> 8 \<longrightarrow> pad = []"
    using arrived_makeTxMsg [of d a0] d len(1) by (auto simp: sf_msg_def)
  have "p \<noteq> [] \<or> frameDataLen a0 > 8 \<or> pad = []"
  proof (cases "p = [] \<and> \<not> frameDataLen a0 > 8")
    case True
    then have "length d = 1"
      using d(1) by (auto simp: createSingleFramePayload_def split: if_splits)
    moreover have "PaddingByte (config a0) = None"
      using assms(2) True len(1) by (auto simp: xfer_setup_def frameDataLength_def split: if_splits)
    ultimately show ?thesis using pad(2) by simp
  qed auto
  from parse_created_single [OF d(1) len(3) this] pad(1) show ?thesis by simp
qed

lemma receives_sf:
  assumes "core_ok b" "\<not> runDone b" "static b = static b0" "xfer_setup p a0 b0" "cfg_ok a0"
    and "sf_fits (int (length p)) (frameDataLen a0)" and q: "rxq b = arrived (sf_msg p a0) # q"
    and room: "chan_room (rxDataChan b)" and idle: "rxState b = stateIdle"
  shows "\<exists>b'. run_step True EvRx b = Some b' \<and> rx_keeps b b' \<and> rxq b' = q \<and> txq b' = txq b \<and>
    rxState b' = stateIdle \<and> rxDataChan b' = offered p (rxDataChan b)"
proof -
  have ident: "ArbitrationID (arrived (sf_msg p a0)) = RxID (address b)"
    using assms(4) staticD(2) [OF assms(3)]
    by (simp add: sf_msg_def makeTxMsg_def xfer_setup_def tx_addr_def)
  note run = run_rx [OF assms(1) q assms(2) ident parse_sf [OF assms(5,4,6)]]
  let ?r = "(stopReceiving (b\<lparr>rxq := q\<rparr>))\<lparr>rxDataChan := offered p (rxDataChan b)\<rparr>"
  have eq: "run_step True EvRx b = Some ?r"
    unfolding run(1) using room idle core_open [OF assms(1)]
    by (simp add: handleRxSingleFrame_def Let_def try_send_offered)
  have "rx_keeps b ?r" using run(2) unfolding eq by (auto simp: rx_keeps_def)
  then show ?thesis unfolding eq by simp
qed

lemma parse_ff:
  assumes "cfg_ok a0" "xfer_setup p a0 b0" "\<not> sf_fits (int (length p)) (frameDataLen a0)"
  shows "ParseFrame (lf_Data (arrived (ff_msg p a0))) =
      Some (Inr (FirstFrame (int (length p)) (take (off p a0 0) p)))"
    "off p a0 0 < length p"
proof -
  note len = setup_len [OF assms(1)]
  note bounds = first_chunk_size_bounds [OF assms(3) len(1)]
  show lt: "off p a0 0 < length p" using bounds by (simp add: off_def)
  have "int (length (take (off p a0 0) p)) = first_chunk_size (int (length p)) (frameDataLen a0)"
    using bounds by (simp add: off_def)
  from createFirstFramePayload_ok [OF this] obtain d where
    d: "createFirstFramePayload (take (off p a0 0) p) (int (length p)) (frameDataLen a0) = Inr d"
      "int (length d) = frameDataLen a0" by blast
  obtain pad where pad: "lf_Data (arrived (ff_msg p a0)) = d @ pad" "pad = []"
    using arrived_makeTxMsg [of d a0] d len(1) by (auto simp: ff_msg_def)
  have "ParseFrame (d @ []) = Some (Inr (FirstFrame (int (length p)) (take (off p a0 0) p @ [])))"
    using lt assms(2) by (intro parse_created_first [OF d(1)]) (auto simp: xfer_setup_def)
  with pad show "ParseFrame (lf_Data (arrived (ff_msg p a0))) =
      Some (Inr (FirstFrame (int (length p)) (take (off p a0 0) p)))" by simp
qed

lemma receives_ff:
  assumes "core_ok b" "\<not> runDone b" "static b = static b0" "xfer_setup p a0 b0" "cfg_ok a0"
    and "\<not> sf_fits (int (length p)) (frameDataLen a0)" and q: "rxq b = arrived (ff_msg p a0) # q"
    and idle: "rxState b = stateIdle"
  shows "\<exists>b'. run_step True EvRx b = Some b' \<and> rx_keeps b b' \<and> rxq b' = q \<and>
    txq b' = txq b @ [fc_msg b0] \<and> rx_side p a0 0 b' \<and> rxBlockCounter b' = 0 \<and>
    rxDataChan b' = rxDataChan b"
proof -
  have ident: "ArbitrationID (arrived (ff_msg p a0)) = RxID (address b)"
    using assms(4) staticD(2) [OF assms(3)]
    by (simp add: ff_msg_def makeTxMsg_def xfer_setup_def tx_addr_def)
  note parse = parse_ff [OF assms(5,4,6)]
  note run = run_rx [OF assms(1) q assms(2) ident parse(1)]
  let ?t = "(stopReceiving (b\<lparr>rxq := q\<rparr>))\<lparr>rxFrameLen := int (length p),
    rxBuffer := take (off p a0 0) p, rxState := stateWaitCF, rxSeqNum := 1\<rparr>"
  have man: "\<not> ManualFlowControl (config ?t)" and max: "int (length p) \<le> MaxPayloadSize (config b)"
    using assms(4) staticD(1) [OF assms(3)] by (simp_all add: xfer_setup_def)
  have "static ?t = static b0" using assms(3) by (simp add: static_def stopReceiving_def)
  then have fc: "makeFlowControlMsg ?t FlowStatusContinueToSend = fc_msg b0"
    unfolding fc_msg_def by (intro makeTxMsg_static)
  let ?r = "resetRxTimer (?t\<lparr>txq := txq ?t @ [fc_msg b0]\<rparr>)"
  have eq: "run_step True EvRx b = Some ?r"
    unfolding run(1) using idle max parse(2) sendFlowControl_auto [OF man, of FlowStatusContinueToSend] fc
    by (simp add: handleRxFirstFrame_def Let_def)
  have "rx_keeps b ?r" using run(2) unfolding eq
    by (auto simp: rx_keeps_def static_def stopReceiving_def resetRxTimer_def)
  then show ?thesis
    unfolding eq using parse(2) by (simp add: rx_side_def) (simp add: stopReceiving_def)
qed

section \<open>What the sender does\<close>

definition tx_keeps :: "session \<Rightarrow> session \<Rightarrow> bool" where
  "tx_keeps a a' \<longleftrightarrow> static a' = static a \<and> rxState a' = rxState a \<and> rxDataChan a' = rxDataChan a \<and>
     core_ok a' \<and> sessionClosed a' = sessionClosed a"

lemma cf_state_more [simp]:
  "txState (cf_state t) = txState t" "txq (cf_state t) = txq t" "rxq (cf_state t) = rxq t"
  "txDataChan (cf_state t) = txDataChan t" "rxState (cf_state t) = rxState t"
  "rxDataChan (cf_state t) = rxDataChan t"
  by (simp_all add: cf_state_def)

lemma reset_tx_simps [simp]:
  "txState (resetTxFCTimer t) = txState t" "txState (resetTxSTminTimer d t) = txState t"
  "txq (resetTxFCTimer t) = txq t" "txq (resetTxSTminTimer d t) = txq t"
  "rxq (resetTxFCTimer t) = rxq t" "rxq (resetTxSTminTimer d t) = rxq t"
  "txBuffer (resetTxFCTimer t) = txBuffer t" "txBuffer (resetTxSTminTimer d t) = txBuffer t"
  "txSeqNum (resetTxFCTimer t) = txSeqNum t" "txSeqNum (resetTxSTminTimer d t) = txSeqNum t"
  "txDataChan (resetTxFCTimer t) = txDataChan t" "txDataChan (resetTxSTminTimer d t) = txDataChan t"
  "rxState (resetTxFCTimer t) = rxState t" "rxState (resetTxSTminTimer d t) = rxState t"
  "rxDataChan (resetTxFCTimer t) = rxDataChan t" "rxDataChan (resetTxSTminTimer d t) = rxDataChan t"
  "remoteBlockSize (resetTxSTminTimer d t) = remoteBlockSize t"
  "txBlockCounter (resetTxSTminTimer d t) = txBlockCounter t"
  by (simp_all add: resetTxFCTimer_def resetTxSTminTimer_def)

lemma sends_first:
  assumes "core_ok a" "\<not> runDone a" "static a = static a0" "cfg_ok a0"
    and idle: "txState a = stateIdle" and buf: "ch_buf (txDataChan a) = [p]"
  shows "\<exists>a'. run_step True EvTxData a = Some a' \<and> tx_keeps a a' \<and> rxq a' = rxq a \<and>
    ch_buf (txDataChan a') = [] \<and>
    (if sf_fits (int (length p)) (frameDataLen a0)
     then txState a' = stateIdle \<and> txq a' = txq a @ [sf_msg p a0]
     else txState a' = stateWaitFC \<and> tx_side p a0 0 a' \<and> txq a' = txq a @ [ff_msg p a0])"
proof -
  have fdl: "frameDataLen a = frameDataLen a0" by (rule staticD(5) [OF assms(3)])
  note len = setup_len [OF assms(4)]
  let ?ch = "snd (chan_recv (txDataChan a))" and ?a = "a\<lparr>txDataChan := snd (chan_recv (txDataChan a))\<rparr>"
  have ch: "ch_buf ?ch = []" using buf by (simp add: chan_recv_def)
  have ev: "ev_ready EvTxData a" using assms by (simp add: ev_ready_def)
  have safe: "safe a (run_step True EvTxData a)" using safe_run_step [OF assms(1) ev] by simp
  have run: "run_step True EvTxData a = initiateTx True p ?a"
    using buf by (simp add: run_step_def chan_recv_def)
  show ?thesis
  proof (cases "sf_fits (int (length p)) (frameDataLen a0)")
    case True
    then obtain d where d: "createSingleFramePayload p (frameDataLen a0) = Inr d"
      using createSingleFramePayload_ok [OF True len(2)] by blast
    let ?t = "?a\<lparr>txBuffer := p, txFrameLen := int (length p)\<rparr>"
    let ?r = "stopSending (?t\<lparr>txq := txq a @ [sf_msg p a0]\<rparr>)"
    have st: "static ?t = static a0" using assms(3) by (simp add: static_def)
    have eq: "run_step True EvTxData a = Some ?r"
      unfolding run using True d fdl makeTxMsg_static(1) [OF st]
      by (subst initiateTx_single [where p = d]) (simp_all add: sendMessage_def sf_msg_def)
    have "tx_keeps a ?r" using safe unfolding eq by (auto simp: tx_keeps_def static_def stopSending_def)
    then show ?thesis unfolding eq using True ch by simp
  next
    case False
    note bounds = first_chunk_size_bounds [OF False len(1)]
    have "int (length (take (off p a0 0) p)) = first_chunk_size (int (length p)) (frameDataLen a0)"
      using bounds by (simp add: off_def)
    from createFirstFramePayload_ok [OF this] obtain d where
      d: "createFirstFramePayload (take (off p a0 0) p) (int (length p)) (frameDataLen a0) = Inr d" by blast
    let ?t = "ff_state p ?a"
    let ?r = "resetTxFCTimer (?t\<lparr>txq := txq a @ [ff_msg p a0]\<rparr>)"
    have st: "static ?t = static a0" using assms(3) by simp
    have o: "off p a0 0 = nat (first_chunk_size (int (length p)) (frameDataLen ?a))"
      using fdl by (simp add: off_def)
    have q: "txq ?t = txq a" by (simp add: ff_state_def)
    have eq: "run_step True EvTxData a = Some ?r"
      unfolding run using False d fdl len(1) o q makeTxMsg_static(1) [OF st]
      by (subst initiateTx_first [where p = d and b = "fd a0"]) (simp_all add: sendMessage_def ff_msg_def)
    have "tx_side p a0 0 ?r"
      using bounds o fdl by (simp add: tx_side_def off_def) (simp add: ff_state_def)
    moreover have "tx_keeps a ?r"
      using safe unfolding eq by (auto simp: tx_keeps_def static_def ff_state_def resetTxFCTimer_def)
    ultimately show ?thesis unfolding eq using False ch by (simp add: ff_state_def)
  qed
qed

lemma parse_fc:
  assumes "cfg_ok b0"
  shows "\<exists>d. ParseFrame (lf_Data (arrived (fc_msg b0))) =
    Some (Inr (FlowControlFrame FlowStatusContinueToSend (BlockSize (config b0)) d))"
proof -
  let ?bs = "BlockSize (config b0)"
  obtain x where x: "createFlowControlPayload FlowStatusContinueToSend ?bs (STMin (config b0)) =
      createFlowControlPayloadRaw FlowStatusContinueToSend (word_of_int ?bs) x"
    by (simp add: createFlowControlPayload_def Let_def)
  let ?d = "createFlowControlPayloadRaw FlowStatusContinueToSend (word_of_int ?bs) x"
  have "int (length ?d) \<le> frameDataLength (fd b0)"
    by (simp add: createFlowControlPayloadRaw_def frameDataLength_def)
  from arrived_padded [OF this, of "address b0"] obtain pad where
    pad: "lf_Data (arrived (fc_msg b0)) = ?d @ pad"
    by (auto simp: fc_msg_def makeFlowControlMsg_def x)
  have "0 \<le> ?bs" "?bs < 256" using assms by (auto simp: cfg_ok_def TpConfig_Validate_def split: if_splits)
  then have u: "uint (word_of_int ?bs :: u8) = ?bs" by (rule uint_word_of_int_u8)
  have "FlowStatusContinueToSend \<le> FlowStatusOverflow" by (simp add: flow_statuses)
  from parse_created_flow_control [OF this, of "word_of_int ?bs" x pad] show ?thesis
    unfolding pad by (simp only: u) blast
qed

lemma gets_fc:
  assumes "core_ok a" "\<not> runDone a" "static a = static a0" "xfer_setup p a0 b0" "cfg_ok b0"
    and wait: "txState a = stateWaitFC" and side: "tx_side p a0 k a"
    and q: "rxq a = arrived (fc_msg b0) # q"
  shows "\<exists>a'. run_step True EvRx a = Some a' \<and> tx_keeps a a' \<and> rxq a' = q \<and> txq a' = txq a \<and>
    txDataChan a' = txDataChan a \<and> txState a' = stateTransmit \<and> tx_side p a0 k a' \<and>
    remoteBlockSize a' = BlockSize (config b0) \<and> txBlockCounter a' = 0 \<and> txBuffer a' = txBuffer a"
proof -
  obtain d where d: "ParseFrame (lf_Data (arrived (fc_msg b0))) =
    Some (Inr (FlowControlFrame FlowStatusContinueToSend (BlockSize (config b0)) d))"
    using parse_fc [OF assms(5)] by blast
  have ident: "ArbitrationID (arrived (fc_msg b0)) = RxID (address a)"
    using assms(4) staticD(2) [OF assms(3)] by (simp add: fc_msg_def makeFlowControlMsg_def xfer_setup_def)
  note run = run_rx [OF assms(1) q assms(2) ident d]
  let ?r = "resetTxSTminTimer d (a\<lparr>rxq := q, timerRxFC := None, timerTxSTmin := None,
    remoteBlockSize := BlockSize (config b0), remoteSTmin := d, txState := stateTransmit,
    txBlockCounter := 0, txWaitFrames := 0\<rparr>)"
  have eq: "run_step True EvRx a = Some ?r"
    unfolding run(1) using wait by (simp add: handleTxFlowControl_def)
  have "tx_keeps a ?r"
    using run(2) unfolding eq by (auto simp: tx_keeps_def static_def resetTxSTminTimer_def)
  then show ?thesis unfolding eq using side by (simp add: tx_side_def)
qed

lemma sends_cf:
  assumes "core_ok a" "\<not> runDone a" "static a = static a0" "cfg_ok a0"
    and st: "txState a = stateTransmit" and side: "tx_side p a0 k a"
    and timer: "timerTxSTmin a \<noteq> None"
  shows "\<exists>a'. run_step True EvTimerTxSTmin a = Some a' \<and> tx_keeps a a' \<and> rxq a' = rxq a \<and>
    txq a' = txq a @ [cf_msg p a0 k] \<and> txDataChan a' = txDataChan a \<and>
    (if length p \<le> off p a0 (Suc k) then txState a' = stateIdle \<and> txBuffer a' = []
     else tx_side p a0 (Suc k) a' \<and>
       (if remoteBlockSize a > 0 \<and> txBlockCounter a + 1 \<ge> remoteBlockSize a
        then txState a' = stateWaitFC
        else txState a' = stateTransmit \<and> remoteBlockSize a' = remoteBlockSize a \<and>
          txBlockCounter a' = txBlockCounter a + 1))"
proof -
  let ?a = "a\<lparr>timerTxSTmin := None\<rparr>"
  note len = setup_len [OF assms(4)]
  have ev: "ev_ready EvTimerTxSTmin a" using assms by (simp add: ev_ready_def)
  have safe: "safe a (run_step True EvTimerTxSTmin a)" using safe_run_step [OF assms(1) ev] by simp
  have fdl: "nat (frameDataLen a - 1) = csz a0" "1 \<le> frameDataLen a"
    using staticD(5) [OF assms(3)] len by (simp_all add: csz_def)
  have buf: "txBuffer a = drop (off p a0 k) p" "off p a0 k < length p" "txSeqNum a = int (Suc k) mod 16"
    using side by (simp_all add: tx_side_def)
  have sn: "0 \<le> txSeqNum a" "txSeqNum a \<le> 15"
    using buf(3) pos_mod_bound [of 16 "int (Suc k)"] by simp_all
  have m: "makeTxMsg (cf_state ?a) (cf_payload ?a) = cf_msg p a0 k"
    using makeTxMsg_static(1) [of "cf_state ?a" a0] assms(3) buf fdl by (simp add: cf_payload_def cf_msg_def)
  let ?t = "(cf_state ?a)\<lparr>txq := txq a @ [cf_msg p a0 k]\<rparr>"
  let ?r = "if length p \<le> off p a0 (Suc k) then stopSending ?t
     else if remoteBlockSize a > 0 \<and> txBlockCounter a + 1 \<ge> remoteBlockSize a
     then resetTxFCTimer (?t\<lparr>txState := stateWaitFC\<rparr>) else resetTxSTminTimer (remoteSTmin a) ?t"
  have eq: "run_step True EvTimerTxSTmin a = Some ?r"
    using handleTxTransmit_sends [of ?a True] sn buf fdl st
    by (simp add: run_step_def Let_def m sendMessage_def off_Suc add.commute)
  have "tx_keeps a ?r"
    using safe unfolding eq by (auto simp: tx_keeps_def)
  then show ?thesis
    unfolding eq using buf fdl st
    by (auto simp: tx_side_def off_Suc' next_sn stopSending_def)
qed

section \<open>The invariant of a transfer\<close>

lemma flight_pop:
  "rxq b = m # q \<Longrightarrow> rxq b' = q \<Longrightarrow> flight a b = m # flight a b'"
  by (simp add: flight_def)

lemma flight_push: "txq a' = txq a @ [m] \<Longrightarrow> flight a' b = flight a b @ [arrived m]"
  by (simp add: flight_def)

lemma flight_same:
  "txq a' = txq a \<Longrightarrow> flight a' b = flight a b" "rxq b' = rxq b \<Longrightarrow> flight a b' = flight a b"
  by (simp_all add: flight_def)

lemma cfg_static: "static t = static t' \<Longrightarrow> cfg_ok t \<Longrightarrow> cfg_ok t'"
  using staticD [of t t'] by (simp add: cfg_ok_def)

lemma pair_okD:
  assumes "pair_ok p a0 b0 a b" "\<not> runDone a0" "\<not> runDone b0"
  shows "core_ok a" "core_ok b" "\<not> runDone a" "\<not> runDone b" "static a = static a0" "static b = static b0"
    "cfg_ok a0" "cfg_ok b0" "xfer_setup p a0 b0"
  using assms staticD(6) [of a a0] staticD(6) [of b b0] cfg_static [of a a0] cfg_static [of b b0]
  by (auto simp: pair_ok_def core_ok_def)

lemma pair_ok_tx:
  assumes "pair_ok p a0 b0 a b" "tx_keeps a a'"
  shows "pair_ok p a0 b0 a' b"
  using assms by (simp add: pair_ok_def tx_keeps_def)

lemma pair_ok_rx:
  assumes "pair_ok p a0 b0 a b" "rx_keeps b b'"
  shows "pair_ok p a0 b0 a b'"
  using assms by (simp add: pair_ok_def rx_keeps_def)

lemma step_start:
  assumes po: "pair_ok p a0 b0 a b" "\<not> runDone a0" "\<not> runDone b0" and ph: "ph_start p a0 b0 a b"
    and run: "run_step True EvTxData a = Some a'"
  shows "xinv p a0 b0 a' b"
proof -
  note ok = pair_okD [OF po]
  have idle: "txState a = stateIdle" "ch_buf (txDataChan a) = [p]" "flight a b = []" "flight b a = []"
    "rxState b = stateIdle" "rxDataChan b = rxDataChan b0"
    using ph by (simp_all add: ph_start_def quiet_def)
  from sends_first [OF ok(1,3,5,7) idle(1,2)] run have k: "tx_keeps a a'" "rxq a' = rxq a"
    "ch_buf (txDataChan a') = []"
    "if sf_fits (int (length p)) (frameDataLen a0)
     then txState a' = stateIdle \<and> txq a' = txq a @ [sf_msg p a0]
     else txState a' = stateWaitFC \<and> tx_side p a0 0 a' \<and> txq a' = txq a @ [ff_msg p a0]"
    by auto
  have fl: "flight b a' = []" using flight_same(2) [OF k(2), of b] idle(4) by simp
  note pair = pair_ok_tx [OF po(1) k(1)]
  show ?thesis
  proof (cases "sf_fits (int (length p)) (frameDataLen a0)")
    case True
    then have "ph_single p a0 b0 a' b"
      using k(3,4) fl idle flight_push [of a' a "sf_msg p a0" b]
      by (simp add: ph_single_def quiet_def)
    with pair show ?thesis by (simp add: xinv_def)
  next
    case False
    then have "ph_first p a0 b0 a' b"
      using k(3,4) fl idle flight_push [of a' a "ff_msg p a0" b] by (simp add: ph_first_def)
    with pair show ?thesis by (simp add: xinv_def)
  qed
qed

lemma step_fc:
  assumes po: "pair_ok p a0 b0 a b" "\<not> runDone a0" "\<not> runDone b0" and ph: "ph_data p a0 b0 a b"
    and q: "rxq a = m # q" and run: "run_step True EvRx a = Some a'"
  shows "xinv p a0 b0 a' b"
proof -
  note ok = pair_okD [OF po]
  obtain s k j where d: "ch_buf (txDataChan a) = []" "rx_side p a0 j b" "j \<le> k"
    "BlockSize (config b0) > 0 \<longrightarrow> s \<le> j \<and> rxBlockCounter b = int j - int s"
    "flight a b = map (\<lambda>i. arrived (cf_msg p a0 i)) [j..<k]" "sender_at p a0 b0 s k j a b"
    "rxDataChan b = rxDataChan b0"
    using ph by (auto simp: ph_data_def)
  have "flight b a \<noteq> []" using q by (simp add: flight_def)
  then have w: "txState a = stateWaitFC" "tx_side p a0 k a" "j = k" "s = k" "flight b a = [arrived (fc_msg b0)]"
    using d(6) by (auto simp: sender_at_def Let_def)
  then have m: "rxq a = arrived (fc_msg b0) # q" and fl: "q @ map arrived (txq b) = []"
    using q by (simp_all add: flight_def)
  from gets_fc [OF ok(1,3,5,9,8) w(1,2) m] run have g: "tx_keeps a a'" "rxq a' = q" "txq a' = txq a"
    "txDataChan a' = txDataChan a" "txState a' = stateTransmit" "tx_side p a0 k a'"
    "remoteBlockSize a' = BlockSize (config b0)" "txBlockCounter a' = 0" by auto
  have "flight b a' = []" using g(2) fl by (simp add: flight_def)
  moreover have "flight a' b = flight a b" by (rule flight_same(1) [OF g(3)])
  ultimately have "sender_at p a0 b0 s k j a' b"
    using g w by (simp add: sender_at_def Let_def)
  then have "ph_data p a0 b0 a' b"
    using d g \<open>flight a' b = flight a b\<close> unfolding ph_data_def by metis
  then show ?thesis using pair_ok_tx [OF po(1) g(1)] by (simp add: xinv_def)
qed

lemma step_cf_sent:
  assumes po: "pair_ok p a0 b0 a b" "\<not> runDone a0" "\<not> runDone b0" and ph: "ph_data p a0 b0 a b"
    and st: "txState a = stateTransmit" and timer: "timerTxSTmin a \<noteq> None"
    and run: "run_step True EvTimerTxSTmin a = Some a'"
  shows "xinv p a0 b0 a' b"
proof -
  note ok = pair_okD [OF po]
  let ?bs = "BlockSize (config b0)"
  obtain s k j where d: "ch_buf (txDataChan a) = []" "rx_side p a0 j b" "j \<le> k"
    "?bs > 0 \<longrightarrow> s \<le> j \<and> rxBlockCounter b = int j - int s"
    "flight a b = map (\<lambda>i. arrived (cf_msg p a0 i)) [j..<k]" "sender_at p a0 b0 s k j a b"
    "rxDataChan b = rxDataChan b0"
    using ph by (auto simp: ph_data_def)
  have w: "tx_side p a0 k a" "remoteBlockSize a = ?bs" "flight b a = []"
    "?bs > 0 \<longrightarrow> int k < int s + ?bs \<and> txBlockCounter a = int k - int s"
    using d(6) st by (auto simp: sender_at_def Let_def)
  from sends_cf [OF ok(1,3,5,7) st w(1) timer] run have g: "tx_keeps a a'" "rxq a' = rxq a"
    "txq a' = txq a @ [cf_msg p a0 k]" "txDataChan a' = txDataChan a"
    "if length p \<le> off p a0 (Suc k) then txState a' = stateIdle \<and> txBuffer a' = []
     else tx_side p a0 (Suc k) a' \<and>
       (if remoteBlockSize a > 0 \<and> txBlockCounter a + 1 \<ge> remoteBlockSize a
        then txState a' = stateWaitFC
        else txState a' = stateTransmit \<and> remoteBlockSize a' = remoteBlockSize a \<and>
          txBlockCounter a' = txBlockCounter a + 1)" by auto
  have fl: "flight b a' = []" using flight_same(2) [OF g(2), of b] w(3) by simp
  have fl': "flight a' b = map (\<lambda>i. arrived (cf_msg p a0 i)) [j..<Suc k]"
    using flight_push [OF g(3), of b] d(3,5) by simp
  have lt: "off p a0 k < length p" using w(1) by (simp add: tx_side_def)
  have "sender_at p a0 b0 s (Suc k) j a' b"
    using g(5) w fl lt d(3) by (auto simp: sender_at_def Let_def split: if_splits)
  then have "ph_data p a0 b0 a' b"
    using d g(4) fl' unfolding ph_data_def by (metis le_Suc_eq)
  then show ?thesis using pair_ok_tx [OF po(1) g(1)] by (simp add: xinv_def)
qed

lemma setup_room: "pair_ok p a0 b0 a b \<Longrightarrow> chan_room (rxDataChan b0)"
  by (simp add: pair_ok_def xfer_setup_def)

lemma step_sf_received:
  assumes po: "pair_ok p a0 b0 a b" "\<not> runDone a0" "\<not> runDone b0" and ph: "ph_single p a0 b0 a b"
    and q: "rxq b = m # q" and run: "run_step True EvRx b = Some b'"
  shows "xinv p a0 b0 a b'"
proof -
  note ok = pair_okD [OF po]
  have s: "flight a b = [arrived (sf_msg p a0)]" "rxState b = stateIdle" "rxDataChan b = rxDataChan b0"
    "sf_fits (int (length p)) (frameDataLen a0)"
    using ph by (simp_all add: ph_single_def quiet_def)
  have m: "rxq b = arrived (sf_msg p a0) # q" using q s(1) by (simp add: flight_def)
  have room: "chan_room (rxDataChan b)" using setup_room [OF po(1)] s(3) by simp
  from receives_sf [OF ok(2,4,6,9,7) s(4) m room s(2)] run have g: "rx_keeps b b'" "rxq b' = q"
    "txq b' = txq b" "rxState b' = stateIdle" "rxDataChan b' = offered p (rxDataChan b)" by auto
  have "flight a b' = []" using flight_pop [OF m g(2), of a] s(1) by simp
  moreover have "flight b' a = flight b a" by (rule flight_same(1) [OF g(3)])
  ultimately have "ph_done p a0 b0 a b'"
    using ph g s by (simp add: ph_done_def ph_single_def quiet_def)
  then show ?thesis using pair_ok_rx [OF po(1) g(1)] by (simp add: xinv_def)
qed

lemma step_ff_received:
  assumes po: "pair_ok p a0 b0 a b" "\<not> runDone a0" "\<not> runDone b0" and ph: "ph_first p a0 b0 a b"
    and q: "rxq b = m # q" and run: "run_step True EvRx b = Some b'"
  shows "xinv p a0 b0 a b'"
proof -
  note ok = pair_okD [OF po]
  have s: "flight a b = [arrived (ff_msg p a0)]" "rxState b = stateIdle" "rxDataChan b = rxDataChan b0"
    "\<not> sf_fits (int (length p)) (frameDataLen a0)" "flight b a = []" "tx_side p a0 0 a"
    "txState a = stateWaitFC" "ch_buf (txDataChan a) = []"
    using ph by (simp_all add: ph_first_def)
  have m: "rxq b = arrived (ff_msg p a0) # q" using q s(1) by (simp add: flight_def)
  from receives_ff [OF ok(2,4,6,9,7) s(4) m s(2)] run have g: "rx_keeps b b'" "rxq b' = q"
    "txq b' = txq b @ [fc_msg b0]" "rx_side p a0 0 b'" "rxBlockCounter b' = 0"
    "rxDataChan b' = rxDataChan b" by auto
  have "flight a b' = []" using flight_pop [OF m g(2), of a] s(1) by simp
  moreover have "flight b' a = [arrived (fc_msg b0)]" using flight_push [OF g(3), of a] s(5) by simp
  ultimately have "ph_data p a0 b0 a b'"
    unfolding ph_data_def using g s
    by (intro exI [of _ 0]) (simp add: sender_at_def)
  then show ?thesis using pair_ok_rx [OF po(1) g(1)] by (simp add: xinv_def)
qed

lemma step_cf_received:
  assumes po: "pair_ok p a0 b0 a b" "\<not> runDone a0" "\<not> runDone b0" and ph: "ph_data p a0 b0 a b"
    and q: "rxq b = m # q" and run: "run_step True EvRx b = Some b'"
  shows "xinv p a0 b0 a b'"
proof -
  note ok = pair_okD [OF po]
  let ?bs = "BlockSize (config b0)" and ?cf = "\<lambda>i. arrived (cf_msg p a0 i)"
  obtain s k j where d: "ch_buf (txDataChan a) = []" "rx_side p a0 j b" "j \<le> k"
    "?bs > 0 \<longrightarrow> s \<le> j \<and> rxBlockCounter b = int j - int s"
    "flight a b = map ?cf [j..<k]" "sender_at p a0 b0 s k j a b" "rxDataChan b = rxDataChan b0"
    using ph by (auto simp: ph_data_def)
  have "flight a b \<noteq> []" using q by (simp add: flight_def)
  then have jk: "j < k" using d(5) by auto
  then have fl: "flight a b = ?cf j # map ?cf [Suc j..<k]" using d(5) by (simp add: upt_conv_Cons)
  have m: "rxq b = ?cf j # q" using q fl by (simp add: flight_def)
  have room: "chan_room (rxDataChan b)" using setup_room [OF po(1)] d(7) by simp
  let ?full = "length p \<le> off p a0 (Suc j)" and ?blk = "?bs > 0 \<and> rxBlockCounter b + 1 \<ge> ?bs"
  from receives_cf [OF ok(2,4,6,9,7) d(2) m room] run have g: "rx_keeps b b'" "rxq b' = q"
    "if ?full
     then rxState b' = stateIdle \<and> rxDataChan b' = offered p (rxDataChan b) \<and> txq b' = txq b
     else rx_side p a0 (Suc j) b' \<and> rxDataChan b' = rxDataChan b \<and>
       (if ?blk then rxBlockCounter b' = 0 \<and> txq b' = txq b @ [fc_msg b0]
        else rxBlockCounter b' = rxBlockCounter b + 1 \<and> txq b' = txq b)" by auto
  have fl': "flight a b' = map ?cf [Suc j..<k]" using flight_pop [OF m g(2), of a] fl by simp
  have w: "flight b a = []" and st: "txState a = stateWaitFC \<and> tx_side p a0 k a \<and> 0 < ?bs \<and> int k = int s + ?bs \<or>
      txState a = stateTransmit \<and> tx_side p a0 k a \<and> remoteBlockSize a = ?bs \<and>
        (?bs > 0 \<longrightarrow> int k < int s + ?bs \<and> txBlockCounter a = int k - int s) \<or>
      txState a = stateIdle \<and> length p \<le> off p a0 k \<and> off p a0 (k - 1) < length p \<and>
        (?bs > 0 \<longrightarrow> int k \<le> int s + ?bs)"
    using d(6) jk by (auto simp: sender_at_def Let_def)
  note pair = pair_ok_rx [OF po(1) g(1)]
  consider (full) ?full | (blk) "\<not> ?full" ?blk | (more) "\<not> ?full" "\<not> ?blk" by blast
  then show ?thesis
  proof cases
    case full
    have "length p \<le> off p a0 k" using full off_mono [of "Suc j" k p a0] jk by linarith
    then have idle: "txState a = stateIdle" "off p a0 (k - 1) < length p"
      using st by (auto simp: tx_side_def)
    have "k = Suc j"
    proof (rule ccontr)
      assume "k \<noteq> Suc j"
      then have "Suc j \<le> k - 1" using jk by simp
      from off_mono [OF this, of p a0] full idle(2) show False by linarith
    qed
    then have "flight a b' = []" using fl' by simp
    moreover have "flight b' a = []" using flight_same(1) [of b' b a] g(3) full w by simp
    ultimately have "ph_done p a0 b0 a b'"
      using g(3) full d idle by (simp add: ph_done_def quiet_def)
    with pair show ?thesis by (simp add: xinv_def)
  next
    case blk
    have "int (Suc j) \<ge> int s + ?bs" using blk d(4) by simp
    moreover have "int k \<le> int s + ?bs" using st blk by auto
    ultimately have k: "k = Suc j" using jk by linarith
    then have side: "txState a = stateWaitFC" "tx_side p a0 k a"
      using st blk(1) \<open>int (Suc j) \<ge> int s + ?bs\<close> blk(2) by auto
    have "flight b' a = [arrived (fc_msg b0)]" using flight_push [of b' b "fc_msg b0" a] g(3) blk w by simp
    then have "sender_at p a0 b0 k k k a b'" using side by (simp add: sender_at_def)
    then have "ph_data p a0 b0 a b'"
      unfolding ph_data_def using g(3) blk d fl' k
      by (intro exI [of _ k]) simp
    with pair show ?thesis by (simp add: xinv_def)
  next
    case more
    have w': "flight b' a = []" using flight_same(1) [of b' b a] g(3) more w by simp
    have "Suc j < k" if "0 < ?bs" "int k = int s + ?bs" using that more d(4) jk by linarith
    then have "sender_at p a0 b0 s k (Suc j) a b'" using st w' by (auto simp: sender_at_def Let_def)
    then have "ph_data p a0 b0 a b'"
      unfolding ph_data_def using g(3) more d fl' jk
      by (intro exI [of _ s] exI [of _ k] exI [of _ "Suc j"]) auto
    with pair show ?thesis by (simp add: xinv_def)
  qed
qed

lemma xinv_step:
  assumes inv: "xinv p a0 b0 a b" and run: "\<not> runDone a0" "\<not> runDone b0"
    and step: "xfer_step brs (a, b) s"
  shows "\<exists>a' b'. s = (a', b') \<and> xinv p a0 b0 a' b'"
  using step
proof cases
  case (RunA ev a')
  have po: "pair_ok p a0 b0 a b" using inv by (simp add: xinv_def)
  note ok = pair_okD [OF po run]
  from RunA(2) consider "ev = EvTxData" | "ev = EvRx" | "ev = EvTimerTxSTmin" by blast
  then have "xinv p a0 b0 a' b"
  proof cases
    case 1
    have "\<not> ch_closed (txDataChan a)" using ok(1) by (simp add: core_ok_def chans_open_def)
    then have "ch_buf (txDataChan a) \<noteq> []" using RunA(3) 1 by (simp add: ev_ready_def)
    then have "ph_start p a0 b0 a b"
      using inv by (auto simp: xinv_def ph_single_def ph_first_def ph_data_def ph_done_def)
    from step_start [OF po run this] RunA(4) 1 show ?thesis by simp
  next
    case 2
    then obtain m q where q: "rxq a = m # q" using RunA(3) by (cases "rxq a") (auto simp: ev_ready_def)
    then have "flight b a \<noteq> []" by (simp add: flight_def)
    then have "ph_data p a0 b0 a b"
      using inv by (auto simp: xinv_def ph_start_def ph_single_def ph_first_def ph_done_def quiet_def)
    from step_fc [OF po run this q] RunA(4) 2 show ?thesis by simp
  next
    case 3
    then have t: "timerTxSTmin a \<noteq> None" using RunA(3) by (simp add: ev_ready_def)
    then have st: "txState a = stateTransmit" using stmin_fired(4) [OF ok(1)] by auto
    then have "ph_data p a0 b0 a b"
      using inv by (auto simp: xinv_def ph_start_def ph_single_def ph_first_def ph_done_def quiet_def)
    from step_cf_sent [OF po run this st t] RunA(4) 3 show ?thesis by simp
  qed
  with RunA(1) show ?thesis by blast
next
  case (RunB ev b')
  have po: "pair_ok p a0 b0 a b" using inv by (simp add: xinv_def)
  note ok = pair_okD [OF po run]
  have b: "txState b = stateIdle" "ch_buf (txDataChan b) = []" "\<not> ch_closed (txDataChan b)"
    using po ok(2) by (auto simp: pair_ok_def core_ok_def chans_open_def)
  have "ev \<noteq> EvTxData" using RunB(3) b by (auto simp: ev_ready_def)
  moreover have "ev \<noteq> EvTimerTxSTmin"
    using RunB(3) b(1) stmin_fired(4) [OF ok(2)] by (auto simp: ev_ready_def)
  ultimately have ev: "ev = EvRx" using RunB(2) by blast
  then obtain m q where q: "rxq b = m # q" using RunB(3) by (cases "rxq b") (auto simp: ev_ready_def)
  then have "flight a b \<noteq> []" by (simp add: flight_def)
  then consider "ph_single p a0 b0 a b" | "ph_first p a0 b0 a b" | "ph_data p a0 b0 a b"
    using inv by (auto simp: xinv_def ph_start_def ph_done_def)
  then have "xinv p a0 b0 a b'"
    using step_sf_received [OF po run _ q] step_ff_received [OF po run _ q]
      step_cf_received [OF po run _ q] RunB(4) ev by cases auto
  with RunB(1) show ?thesis by blast
next
  case (WireAB m ms f)
  with xinv_wire(1) [OF inv WireAB(2,3)] show ?thesis by blast
next
  case (WireBA m ms f)
  with xinv_wire(2) [OF inv WireBA(2,3)] show ?thesis by blast
qed

section \<open>Progress\<close>

lemma wire_ready:
  assumes "flight a b \<noteq> []" "txq_ok a" "\<not> runDone b" "core_ok b"
  shows "\<exists>s. xfer_step brs (a, b) s"
proof (cases "txq a")
  case Nil
  then have "ev_ready EvRx b" using assms by (simp add: flight_def ev_ready_def)
  moreover from this obtain b' where "run_step True EvRx b = Some b'"
    using safe_run_step [OF assms(4), of EvRx True] by (auto simp: safe_def)
  ultimately show ?thesis using RunB [of EvRx b b' brs a] by blast
next
  case (Cons m ms)
  then have "frame_fits a m" using assms(2) by (simp add: txq_ok_def)
  from WireAB [OF Cons to_can_frame_fits [OF this]] show ?thesis by blast
qed

lemma wire_ready':
  assumes "flight b a \<noteq> []" "txq_ok b" "\<not> runDone a" "core_ok a"
  shows "\<exists>s. xfer_step brs (a, b) s"
proof (cases "txq b")
  case Nil
  then have "ev_ready EvRx a" using assms by (simp add: flight_def ev_ready_def)
  moreover from this obtain a' where "run_step True EvRx a = Some a'"
    using safe_run_step [OF assms(4), of EvRx True] by (auto simp: safe_def)
  ultimately show ?thesis using RunA [of EvRx a a' brs b] by blast
next
  case (Cons m ms)
  then have "frame_fits b m" using assms(2) by (simp add: txq_ok_def)
  from WireBA [OF Cons to_can_frame_fits [OF this]] show ?thesis by blast
qed

lemma run_ready:
  assumes "ev_ready ev a" "ev \<in> {EvTxData, EvTimerTxSTmin}" "core_ok a"
  shows "\<exists>s. xfer_step brs (a, b) s"
proof -
  have "ev \<noteq> EvDone" using assms(2) by auto
  then obtain a' where "run_step True ev a = Some a'"
    using safe_run_step [OF assms(3,1), of True] by (auto simp: safe_def)
  moreover have "ev \<in> {EvTxData, EvRx, EvTimerTxSTmin}" using assms(2) by blast
  ultimately show ?thesis using RunA assms(1) by blast
qed

lemma xinv_progress:
  assumes inv: "xinv p a0 b0 a b" and run: "\<not> runDone a0" "\<not> runDone b0"
  shows "ph_done p a0 b0 a b \<or> (\<exists>s. xfer_step brs (a, b) s)"
proof -
  have po: "pair_ok p a0 b0 a b" using inv by (simp add: xinv_def)
  note ok = pair_okD [OF po run]
  have tq: "txq_ok a" "txq_ok b" using ok(1,2) by (simp_all add: core_ok_def)
  consider (start) "ph_start p a0 b0 a b" | (fl) "flight a b \<noteq> []" | (rear) "flight b a \<noteq> []"
    | (tx) "txState a = stateTransmit" | (fin) "ph_done p a0 b0 a b"
  proof -
    have "flight a b \<noteq> [] \<or> flight b a \<noteq> [] \<or> txState a = stateTransmit" if ph: "ph_data p a0 b0 a b"
    proof -
      obtain s k j where d: "rx_side p a0 j b" "j \<le> k"
        "flight a b = map (\<lambda>i. arrived (cf_msg p a0 i)) [j..<k]" "sender_at p a0 b0 s k j a b"
        using ph by (auto simp: ph_data_def)
      have "j < k" if "length p \<le> off p a0 k"
        using that d(1,2) by (cases "j = k") (auto simp: rx_side_def)
      then show ?thesis using d(3,4) by (auto simp: sender_at_def Let_def)
    qed
    with inv that show thesis by (auto simp: xinv_def ph_single_def ph_first_def)
  qed
  then show ?thesis
  proof cases
    case start
    then have "ev_ready EvTxData a" using ok(3) by (simp add: ph_start_def quiet_def ev_ready_def)
    then show ?thesis using run_ready [of EvTxData a] ok(1) by blast
  next
    case fl
    then show ?thesis using wire_ready [OF fl tq(1) ok(4,2)] by blast
  next
    case rear
    then show ?thesis using wire_ready' [OF rear tq(2) ok(3,1)] by blast
  next
    case tx
    then have "tx_transmit a"
      using ok(1) by (auto simp: core_ok_def tx_ok_def tx_idle_def tx_wait_fc_def)
    then have "ev_ready EvTimerTxSTmin a" using ok(3) by (simp add: tx_transmit_def ev_ready_def)
    then show ?thesis using run_ready [of EvTimerTxSTmin a] ok(1) by blast
  qed simp
qed

section \<open>The number of steps\<close>

definition cfs :: "nat \<Rightarrow> nat \<Rightarrow> nat" where "cfs c n = (n + c - 1) div c"

lemma cfs_step: "0 < c \<Longrightarrow> 0 < n \<Longrightarrow> cfs c (n - c) < cfs c n"
proof -
  assume c: "0 < c" and n: "0 < n"
  show ?thesis
  proof (cases "c \<le> n")
    case True
    have "(n + c - 1) div c = (n - 1 + c) div c" using n by simp
    also have "\<dots> = (n - 1) div c + 1" using c by (intro div_add_self2) simp
    finally show ?thesis using True by (simp add: cfs_def)
  next
    case False
    then have "(n - c + c - 1) div c = 0" using c by simp
    moreover have "0 < (n + c - 1) div c" using c n by (simp add: div_greater_zero_iff)
    ultimately show ?thesis by (simp add: cfs_def)
  qed
qed

lemma cfs_mono: "m \<le> n \<Longrightarrow> cfs c m \<le> cfs c n"
  by (simp add: cfs_def div_le_mono)

text \<open>What is left to do, weighted by the number of steps it still causes.\<close>

definition unsent :: "session \<Rightarrow> nat" where
  "unsent a = cfs (csz a) (length (txBuffer a)) +
     (\<Sum>x \<leftarrow> ch_buf (txDataChan a). Suc (cfs (csz a) (length x)))"

definition work :: "session \<Rightarrow> session \<Rightarrow> nat" where
  "work a b = 7 * unsent a + 6 * length (txq a) + 5 * length (rxq b) + 2 * length (txq b) +
     length (rxq a)"

lemma csz_static: "static a = static a' \<Longrightarrow> csz a = csz a'"
  using staticD(5) [of a a'] by (simp add: csz_def)

lemma core_idle: "core_ok a \<Longrightarrow> txState a = stateIdle \<Longrightarrow> txBuffer a = []"
  by (auto simp: core_ok_def tx_ok_def tx_idle_def tx_wait_fc_def tx_transmit_def)

lemma work_tx:
  assumes po: "pair_ok p a0 b0 a b" "\<not> runDone a0" "\<not> runDone b0"
  shows "ph_start p a0 b0 a b \<Longrightarrow> run_step True EvTxData a = Some a' \<Longrightarrow> work a' b < work a b"
    and "ph_data p a0 b0 a b \<Longrightarrow> rxq a = m # q \<Longrightarrow> run_step True EvRx a = Some a' \<Longrightarrow> work a' b < work a b"
    and "ph_data p a0 b0 a b \<Longrightarrow> txState a = stateTransmit \<Longrightarrow> timerTxSTmin a \<noteq> None \<Longrightarrow>
      run_step True EvTimerTxSTmin a = Some a' \<Longrightarrow> work a' b < work a b"
proof -
  note ok = pair_okD [OF po]
  have c: "csz a = csz a0" "0 < csz a0" using csz_static [OF ok(5)] setup_len [OF ok(7)] by simp_all
  {
    assume ph: "ph_start p a0 b0 a b" and run: "run_step True EvTxData a = Some a'"
    have i: "txState a = stateIdle" "ch_buf (txDataChan a) = [p]" using ph by (simp_all add: ph_start_def quiet_def)
    from sends_first [OF ok(1,3,5,7) i] run have k: "tx_keeps a a'" "rxq a' = rxq a"
      "ch_buf (txDataChan a') = []" "length (txq a') = Suc (length (txq a))"
      "txState a' = stateIdle \<or> tx_side p a0 0 a'"
      by (auto split: if_splits)
    have "length (txBuffer a') \<le> length p"
      using k(1,5) core_idle [of a'] by (auto simp: tx_side_def tx_keeps_def)
    moreover have "csz a' = csz a0" using k(1) csz_static [of a' a] c(1) by (simp add: tx_keeps_def)
    ultimately have "unsent a' < unsent a"
      using k(3) i cfs_mono [of "length (txBuffer a')" "length p" "csz a0"] c(1)
      by (simp add: unsent_def le_imp_less_Suc trans_le_add2)
    then show "work a' b < work a b" using k(2,4) by (simp add: work_def)
  next
    assume ph: "ph_data p a0 b0 a b" and q: "rxq a = m # q" and run: "run_step True EvRx a = Some a'"
    have fl: "flight b a \<noteq> []" using q by (simp add: flight_def)
    then obtain k where w: "txState a = stateWaitFC" "tx_side p a0 k a" "flight b a = [arrived (fc_msg b0)]"
      using ph by (auto simp: ph_data_def sender_at_def Let_def)
    have m: "rxq a = arrived (fc_msg b0) # q" using w(3) q by (simp add: flight_def)
    from gets_fc [OF ok(1,3,5,9,8) w(1,2) m] run have g: "tx_keeps a a'" "rxq a' = q" "txq a' = txq a"
      "txDataChan a' = txDataChan a" "txBuffer a' = txBuffer a" by auto
    have "csz a' = csz a" using g(1) csz_static [of a' a] by (simp add: tx_keeps_def)
    then show "work a' b < work a b" using g q by (simp add: work_def unsent_def)
  next
    assume ph: "ph_data p a0 b0 a b" and st: "txState a = stateTransmit" and t: "timerTxSTmin a \<noteq> None"
      and run: "run_step True EvTimerTxSTmin a = Some a'"
    obtain k where w: "tx_side p a0 k a" using ph st by (auto simp: ph_data_def sender_at_def Let_def)
    from sends_cf [OF ok(1,3,5,7) st w t] run have g: "tx_keeps a a'" "rxq a' = rxq a"
      "length (txq a') = Suc (length (txq a))" "txDataChan a' = txDataChan a"
      "if length p \<le> off p a0 (Suc k) then txBuffer a' = [] else tx_side p a0 (Suc k) a'"
      by (auto split: if_splits)
    have "length (txBuffer a') = length (txBuffer a) - csz a0" "0 < length (txBuffer a)"
      using g(5) w by (auto simp: tx_side_def off_Suc split: if_splits)
    then have "cfs (csz a0) (length (txBuffer a')) < cfs (csz a0) (length (txBuffer a))"
      using cfs_step [OF c(2)] by simp
    moreover have "csz a' = csz a0" using g(1) csz_static [of a' a] c(1) by (simp add: tx_keeps_def)
    ultimately have "unsent a' < unsent a" using g(4) c(1) by (simp add: unsent_def)
    then show "work a' b < work a b" using g(2,3) by (simp add: work_def)
  }
qed


lemma received_queues:
  assumes inv: "xinv p a0 b0 a b" and run: "\<not> runDone a0" "\<not> runDone b0"
    and q: "rxq b = m # q" and step: "run_step True EvRx b = Some b'"
  shows "rxq b' = q \<and> length (txq b') \<le> Suc (length (txq b))"
proof -
  have po: "pair_ok p a0 b0 a b" using inv by (simp add: xinv_def)
  note ok = pair_okD [OF po run]
  have fl: "flight a b = m # map id (q @ map arrived (txq a))" using q by (simp add: flight_def)
  then consider (sf) "ph_single p a0 b0 a b" | (ff) "ph_first p a0 b0 a b" | (cf) "ph_data p a0 b0 a b"
    using inv by (auto simp: xinv_def ph_start_def ph_done_def)
  then show ?thesis
  proof cases
    case sf
    then have s: "m = arrived (sf_msg p a0)" "rxState b = stateIdle" "chan_room (rxDataChan b)"
      "sf_fits (int (length p)) (frameDataLen a0)"
      using fl setup_room [OF po] by (auto simp: ph_single_def quiet_def)
    from receives_sf [OF ok(2,4,6,9,7) s(4) _ s(3,2)] q s(1) step show ?thesis by auto
  next
    case ff
    then have s: "m = arrived (ff_msg p a0)" "rxState b = stateIdle"
      "\<not> sf_fits (int (length p)) (frameDataLen a0)"
      using fl by (auto simp: ph_first_def)
    from receives_ff [OF ok(2,4,6,9,7) s(3) _ s(2)] q s(1) step show ?thesis by auto
  next
    case cf
    then obtain k j where d: "rx_side p a0 j b" "flight a b = map (\<lambda>i. arrived (cf_msg p a0 i)) [j..<k]"
      "rxDataChan b = rxDataChan b0"
      by (auto simp: ph_data_def)
    then have "j < k" using fl by (cases "j < k") auto
    then have m: "m = arrived (cf_msg p a0 j)" using d(2) fl by (simp add: upt_conv_Cons)
    have "chan_room (rxDataChan b)" using setup_room [OF po] d(3) by simp
    from receives_cf [OF ok(2,4,6,9,7) d(1) _ this] q m step show ?thesis
      by (auto split: if_splits)
  qed
qed

lemma work_step:
  assumes inv: "xinv p a0 b0 a b" and run: "\<not> runDone a0" "\<not> runDone b0"
    and step: "xfer_step brs (a, b) (a', b')"
  shows "work a' b' < work a b"
  using step
proof cases
  case (RunA ev)
  have po: "pair_ok p a0 b0 a b" using inv by (simp add: xinv_def)
  note ok = pair_okD [OF po run]
  note w = work_tx [OF po run]
  from RunA(2) consider "ev = EvTxData" | "ev = EvRx" | "ev = EvTimerTxSTmin" by blast
  then show ?thesis
  proof cases
    case 1
    have "\<not> ch_closed (txDataChan a)" using ok(1) by (simp add: core_ok_def chans_open_def)
    then have "ch_buf (txDataChan a) \<noteq> []" using RunA 1 by (simp add: ev_ready_def)
    then have "ph_start p a0 b0 a b"
      using inv by (auto simp: xinv_def ph_single_def ph_first_def ph_data_def ph_done_def)
    with w(1) RunA 1 show ?thesis by simp
  next
    case 2
    then obtain m q where q: "rxq a = m # q" using RunA by (cases "rxq a") (auto simp: ev_ready_def)
    then have "flight b a \<noteq> []" by (simp add: flight_def)
    then have "ph_data p a0 b0 a b"
      using inv by (auto simp: xinv_def ph_start_def ph_single_def ph_first_def ph_done_def quiet_def)
    with w(2) [OF _ q] RunA 2 show ?thesis by simp
  next
    case 3
    then have t: "timerTxSTmin a \<noteq> None" using RunA by (simp add: ev_ready_def)
    then have st: "txState a = stateTransmit" using stmin_fired(4) [OF ok(1)] by auto
    then have "ph_data p a0 b0 a b"
      using inv by (auto simp: xinv_def ph_start_def ph_single_def ph_first_def ph_done_def quiet_def)
    with w(3) [OF _ st t] RunA 3 show ?thesis by simp
  qed
next
  case (RunB ev)
  have po: "pair_ok p a0 b0 a b" using inv by (simp add: xinv_def)
  note ok = pair_okD [OF po run]
  have b: "txState b = stateIdle" "ch_buf (txDataChan b) = []" "\<not> ch_closed (txDataChan b)"
    using po ok(2) by (auto simp: pair_ok_def core_ok_def chans_open_def)
  have "ev = EvRx" using RunB b stmin_fired(4) [OF ok(2)] by (auto simp: ev_ready_def)
  then obtain m q where q: "rxq b = m # q" and r: "run_step True EvRx b = Some b'"
    using RunB by (cases "rxq b") (auto simp: ev_ready_def)
  from received_queues [OF inv run q r] q RunB(1) show ?thesis by (simp add: work_def)
next
  case (WireAB m ms f)
  have "txq_ok a" using inv by (simp add: xinv_def pair_ok_def core_ok_def)
  from wire_moves [OF this WireAB(3,4)] WireAB show ?thesis by (simp add: work_def unsent_def csz_def)
next
  case (WireBA m ms f)
  have "txq_ok b" using inv by (simp add: xinv_def pair_ok_def core_ok_def)
  from wire_moves [OF this WireBA(3,4)] WireBA show ?thesis by (simp add: work_def unsent_def csz_def)
qed

lemma xfer_run:
  assumes "(xfer_step brs ^^ n) (a, b) (a', b')" "xinv p a0 b0 a b" "\<not> runDone a0" "\<not> runDone b0"
  shows "xinv p a0 b0 a' b' \<and> work a' b' + n \<le> work a b"
  using assms(1)
proof (induction n arbitrary: a' b')
  case 0
  then show ?case using assms(2) by simp
next
  case (Suc n)
  then obtain a1 b1 where s: "(xfer_step brs ^^ n) (a, b) (a1, b1)" "xfer_step brs (a1, b1) (a', b')"
    by auto
  note IH = Suc.IH [OF s(1)]
  have "xinv p a0 b0 a' b'" using xinv_step [OF _ assms(3,4) s(2)] IH by blast
  moreover have "work a' b' < work a1 b1" using work_step [OF _ assms(3,4) s(2)] IH by blast
  ultimately show ?case using IH by simp
qed

section \<open>Properties\<close>

text \<open>Two idle sessions that fit together, with \<open>p\<close> queued by the client of the first.\<close>

definition idle_pair :: "session \<Rightarrow> session \<Rightarrow> bool" where
  "idle_pair a b \<longleftrightarrow> \<not> runDone a \<and> \<not> runDone b \<and> txState a = stateIdle \<and> rxState a = stateIdle \<and>
     txState b = stateIdle \<and> rxState b = stateIdle \<and> txq a = [] \<and> rxq a = [] \<and> txq b = [] \<and>
     rxq b = [] \<and> ch_buf (txDataChan b) = []"

text \<open>The payload arrived, nothing else did, no error was reported, and both sessions are idle again.\<close>

definition delivered :: "bytes \<Rightarrow> session \<Rightarrow> session \<Rightarrow> session \<Rightarrow> session \<Rightarrow> bool" where
  "delivered p a b a' b' \<longleftrightarrow> ch_buf (rxDataChan b') = ch_buf (rxDataChan b) @ [p] \<and>
     rxDataChan a' = rxDataChan a \<and> errorChan a' = errorChan a \<and> errorChan b' = errorChan b \<and>
     idle_pair a' b' \<and> ch_buf (txDataChan a') = []"

lemma xinv_start:
  assumes "reachable a" "reachable b" "idle_pair a b" "xfer_setup p a b" "ch_buf (txDataChan a) = [p]"
  shows "xinv p a b a b" "work a b = 7 * Suc (cfs (csz a) (length p))"
proof -
  have c: "core_ok a \<and> \<not> sessionClosed a" "core_ok b \<and> \<not> sessionClosed b"
    using assms(1-3) inv_core reachable_inv by (auto simp: idle_pair_def)
  then show "xinv p a b a b"
    using assms by (simp add: xinv_def pair_ok_def ph_start_def quiet_def idle_pair_def flight_def)
  have "txBuffer a = []" using c core_idle assms(3) by (simp add: idle_pair_def)
  moreover have "0 < csz a" using c setup_len(4,2) [of a] by (simp add: core_ok_def)
  ultimately show "work a b = 7 * Suc (cfs (csz a) (length p))"
    using assms by (simp add: work_def unsent_def idle_pair_def cfs_def)
qed

lemma ph_done_delivered:
  assumes "xinv p a b a' b'" "ph_done p a b a' b'" "\<not> runDone a" "\<not> runDone b"
  shows "delivered p a b a' b'"
proof -
  have po: "pair_ok p a b a' b'" using assms by (simp add: xinv_def)
  have "errorChan a' = errorChan a" "errorChan b' = errorChan b" "runDone a' = runDone a" "runDone b' = runDone b"
    using po staticD [of a' a] staticD [of b' b] by (simp_all add: pair_ok_def)
  moreover have "ch_buf (rxDataChan b') = ch_buf (rxDataChan b) @ [p]"
    using assms(2) setup_room [OF po] by (simp add: ph_done_def offered_buf)
  ultimately show ?thesis
    using assms po by (simp add: delivered_def idle_pair_def ph_done_def quiet_def flight_def pair_ok_def)
qed

lemma xinv_nothing_else:
  assumes "xinv p a b a' b'"
  shows "ch_buf (rxDataChan b') = ch_buf (rxDataChan b) \<or> ch_buf (rxDataChan b') = ch_buf (rxDataChan b) @ [p]"
  using assms setup_room [of p a b a' b']
  by (auto simp: xinv_def ph_start_def ph_single_def ph_first_def ph_data_def ph_done_def offered_buf)

lemma xfer_reaches_end:
  assumes "xinv p a0 b0 a b" "\<not> runDone a0" "\<not> runDone b0"
  shows "\<exists>n a' b'. (xfer_step brs ^^ n) (a, b) (a', b') \<and> xinv p a0 b0 a' b' \<and> ph_done p a0 b0 a' b'"
  using assms
proof (induction "work a b" arbitrary: a b rule: less_induct)
  case less
  from xinv_progress [OF less.prems, of brs] show ?case
  proof
    assume "ph_done p a0 b0 a b"
    with less.prems show ?thesis by (intro exI [of _ 0]) auto
  next
    assume "\<exists>s. xfer_step brs (a, b) s"
    then obtain s where s: "xfer_step brs (a, b) s" ..
    from xinv_step [OF less.prems s] obtain a1 b1 where 1: "s = (a1, b1)" "xinv p a0 b0 a1 b1" by blast
    from less.hyps [OF work_step [OF less.prems s [unfolded 1(1)]] 1(2) less.prems(2,3)]
    obtain n a' b' where "(xfer_step brs ^^ n) (a1, b1) (a', b')" "xinv p a0 b0 a' b'" "ph_done p a0 b0 a' b'"
      by blast
    with s 1(1) show ?thesis using relpowp_Suc_I2 [of "xfer_step brs" "(a, b)" "(a1, b1)" n "(a', b')"] by blast
  qed
qed

text \<open>The pair of the witnesses: 9 bytes from one demonstration session to the session that answers it.\<close>

definition demo_peer :: session where
  "demo_peer = fresh_session \<lparr>TxID = 0x7E8, RxID = 0x7E0\<rparr> Tp_DefaultConfig False"

definition demo_sender :: session where
  "demo_sender = demo\<lparr>txDataChan := (make_chan 10)\<lparr>ch_buf := [[1, 2, 3, 4, 5, 6, 7, 8, 9]]\<rparr>\<rparr>"

lemma demo_pair:
  "reachable demo_sender" "reachable demo_peer" "idle_pair demo_sender demo_peer"
  "xfer_setup [1, 2, 3, 4, 5, 6, 7, 8, 9] demo_sender demo_peer"
  "ch_buf (txDataChan demo_sender) = [[1, 2, 3, 4, 5, 6, 7, 8, 9]]"
proof -
  have "newSession (Some \<lparr>TxID = 0x7E8, RxID = 0x7E0\<rparr>) Tp_DefaultConfig False = Inr demo_peer"
    unfolding demo_peer_def
    by (rule newSession_Some)
       (simp_all add: normalizeTpConfig_def Tp_DefaultConfig_def TpConfig_Validate_def Let_def
          Address_Validate_def validateStandardCANID_def maxStandardCANID_def Millisecond_def
          Microsecond_def defaultMaxPayloadSize_def defaultMaxWaitFrames_def)
  then show "reachable demo_peer" by (rule reachable.Init)
  have "fst (SendContext False ToQueue CtxLive [1, 2, 3, 4, 5, 6, 7, 8, 9] demo) = demo_sender"
    by (simp add: SendContext_def send_ready_def offered_def chan_room_def make_chan_def demo_def
        fresh_session_def Tp_DefaultConfig_def defaultMaxPayloadSize_def demo_sender_def)
  then show "reachable demo_sender"
    using reachable.Step [OF reachable_demo session_step.Send [of demo False ToQueue CtxLive]] by metis
  show "idle_pair demo_sender demo_peer"
    by (simp add: idle_pair_def demo_sender_def demo_peer_def demo_def fresh_session_def make_chan_def)
  show "xfer_setup [1, 2, 3, 4, 5, 6, 7, 8, 9] demo_sender demo_peer"
    by (simp add: xfer_setup_def demo_sender_def demo_peer_def demo_def fresh_session_def tx_addr_def
        Tp_DefaultConfig_def defaultMaxPayloadSize_def chan_room_def make_chan_def)
  show "ch_buf (txDataChan demo_sender) = [[1, 2, 3, 4, 5, 6, 7, 8, 9]]"
    by (simp add: demo_sender_def)
qed



text \<open>Such a transfer can always be completed: a run to the end exists, and it delivers exactly
  the payload.\<close>

theorem transfer_completes:
  assumes "reachable a" "reachable b" "idle_pair a b" "xfer_setup p a b" "ch_buf (txDataChan a) = [p]"
  shows "\<exists>n a' b'. n \<le> 7 * Suc (cfs (csz a) (length p)) \<and> (xfer_step brs ^^ n) (a, b) (a', b') \<and>
    delivered p a b a' b'"
proof -
  have r: "\<not> runDone a" "\<not> runDone b" using assms(3) by (simp_all add: idle_pair_def)
  note start = xinv_start [OF assms]
  from xfer_reaches_end [OF start(1) r, of brs] obtain n a' b' where
    e: "(xfer_step brs ^^ n) (a, b) (a', b')" "xinv p a b a' b'" "ph_done p a b a' b'" by blast
  from xfer_run [OF e(1) start(1) r] start(2) have "n \<le> 7 * Suc (cfs (csz a) (length p))" by simp
  with e ph_done_delivered [OF e(2,3) r] show ?thesis by blast
qed

theorem transfer_completes_witness:
  "\<exists>n a' b'. n \<le> 21 \<and> (xfer_step False ^^ n) (demo_sender, demo_peer) (a', b') \<and>
     delivered [1, 2, 3, 4, 5, 6, 7, 8, 9] demo_sender demo_peer a' b'"
proof -
  have "csz demo_sender = 7"
    by (simp add: csz_def demo_sender_def demo_def fresh_session_def frameDataLength_def)
  then show ?thesis using transfer_completes [OF demo_pair, of False] by (simp add: cfs_def)
qed

end
