(* ===== verification/Uds_Client.thy ===== *)
theory Uds_Client
  imports Isotp_Transfer
begin

text \<open>
  The UDS client (uds/uds_client.go) over an ISO-TP session: options, negative response codes,
  addressing, one request with its response-pending loop, retries, and the client's lifecycle.

  What happens outside the client while it waits is a parameter of the model: the events of the
  \<open>select\<close>s, with their times, in the order in which the client takes them. A request that has
  not returned when the events are used up has the result None. Beside its result, a request has
  a log of what it did to the session, in order.
\<close>

section \<open>Errors and options\<close>

record UDSError =
  ServiceID :: u8
  NRC :: u8
  Message :: string

datatype (plugins only: code size) uds_error =
    NilCanDriver
  | InvalidAddress isotp_error
  | InvalidConfiguration isotp_error
  | CreateSession isotp_error
  | InvalidFunctionalAddress isotp_error
  | FunctionalAddressNotSet
  | UnknownAddressingMode int
  | TransportError isotp_error
  | NilRequestContext
  | ErrEmptyPayload
  | TimeoutNotPositive
  | NegativeMaxRetries
  | NegativeRetryDelay
  | NegativeResponsePendingTimeout
  | NegativeMaxResponsePending
  | ReqCtxErr ctx_error
  | ErrClientClosed
  | ErrRequestTimeout duration
  | ReceiveChannelClosed
  | TooManyResponsePending int
  | NegativeResponse UDSError
  | MaximumRetryCountReached int uds_error
  | RequestFailedWithoutResponse

definition responsePendingTimeout :: duration where
  "responsePendingTimeout = 5000 * Millisecond"

definition defaultMaxPending :: int where "defaultMaxPending = 16"
definition defaultMaxRetries :: int where "defaultMaxRetries = 3"

record RequestOptions =
  Timeout :: duration
  MaxRetries :: int
  RetryDelay :: duration
  ResponsePendingTimeout :: duration
  MaxResponsePending :: int

definition DefaultRequestOptions :: RequestOptions where
  "DefaultRequestOptions = \<lparr>Timeout = 500 * Millisecond, MaxRetries = defaultMaxRetries,
     RetryDelay = 100 * Millisecond, ResponsePendingTimeout = responsePendingTimeout,
     MaxResponsePending = defaultMaxPending\<rparr>"

definition normalizeRequestOptions :: "RequestOptions \<Rightarrow> uds_error + RequestOptions" where
  "normalizeRequestOptions opts0 =
     (if Timeout opts0 \<le> 0 then Inl TimeoutNotPositive
      else if MaxRetries opts0 < 0 then Inl NegativeMaxRetries
      else if RetryDelay opts0 < 0 then Inl NegativeRetryDelay
      else let opts1 = (if ResponsePendingTimeout opts0 = 0
                        then opts0\<lparr>ResponsePendingTimeout := responsePendingTimeout\<rparr> else opts0)
           in if ResponsePendingTimeout opts1 < 0 then Inl NegativeResponsePendingTimeout
              else let opts2 = (if MaxResponsePending opts1 = 0
                                then opts1\<lparr>MaxResponsePending := defaultMaxPending\<rparr> else opts1)
                   in if MaxResponsePending opts2 < 0 then Inl NegativeMaxResponsePending
                      else Inr opts2)"

section \<open>Negative response codes\<close>

definition NRC_constants :: "(string \<times> u8) list" where
  "NRC_constants = [
     (''PositiveResponse'', 0x00), (''GeneralReject'', 0x10), (''ServiceNotSupported'', 0x11),
     (''SubFunctionNotSupported'', 0x12), (''IncorrectMessageLengthOrInvalidFormat'', 0x13),
     (''ResponseTooLong'', 0x14), (''BusyRepeatRequest'', 0x21),
     (''ConditionsNotCorrect'', 0x22), (''RequestSequenceError'', 0x24),
     (''NoResponseFromSubnetComponent'', 0x25),
     (''FailurePreventsExecutionOfRequestedAction'', 0x26), (''RequestOutOfRange'', 0x31),
     (''SecurityAccessDenied'', 0x33), (''AuthenticationRequired'', 0x34),
     (''InvalidKey'', 0x35), (''ExceedNumberOfAttempts'', 0x36),
     (''RequiredTimeDelayNotExpired'', 0x37), (''SecureDataTransmissionRequired'', 0x38),
     (''SecureDataTransmissionNotAllowed'', 0x39), (''SecureDataVerificationFailed'', 0x3A),
     (''CertificateVerificationFailedInvalidTimePeriod'', 0x50),
     (''CertificateVerificationFailedInvalidSignature'', 0x51),
     (''CertificateVerificationFailedInvalidChainOfTrust'', 0x52),
     (''CertificateVerificationFailedInvalidType'', 0x53),
     (''CertificateVerificationFailedInvalidFormat'', 0x54),
     (''CertificateVerificationFailedInvalidContent'', 0x55),
     (''CertificateVerificationFailedInvalidScope'', 0x56),
     (''CertificateVerificationFailedInvalidCertificate'', 0x57),
     (''OwnershipVerificationFailed'', 0x58), (''ChallengeCalculationFailed'', 0x59),
     (''SettingAccessRightsFailed'', 0x5A), (''SessionKeyCreationDerivationFailed'', 0x5B),
     (''ConfigurationDataUsageFailed'', 0x5C), (''DeAuthenticationFailed'', 0x5D),
     (''UploadDownloadNotAccepted'', 0x70), (''TransferDataSuspended'', 0x71),
     (''GeneralProgrammingFailure'', 0x72), (''WrongBlockSequenceCounter'', 0x73),
     (''RequestCorrectlyReceivedResponsePending'', 0x78),
     (''SubFunctionNotSupportedInActiveSession'', 0x7E),
     (''ServiceNotSupportedInActiveSession'', 0x7F), (''RpmTooHigh'', 0x81),
     (''RpmTooLow'', 0x82), (''EngineIsRunning'', 0x83), (''EngineIsNotRunning'', 0x84),
     (''EngineRunTimeTooLow'', 0x85), (''TemperatureTooHigh'', 0x86),
     (''TemperatureTooLow'', 0x87), (''VehicleSpeedTooHigh'', 0x88),
     (''VehicleSpeedTooLow'', 0x89), (''ThrottlePedalTooHigh'', 0x8A),
     (''ThrottlePedalTooLow'', 0x8B), (''TransmissionRangeNotInNeutral'', 0x8C),
     (''TransmissionRangeNotInGear'', 0x8D), (''BrakeSwitchNotClosed'', 0x8F),
     (''ShifterLeverNotInPark'', 0x90), (''TorqueConverterClutchLocked'', 0x91),
     (''VoltageTooHigh'', 0x92), (''VoltageTooLow'', 0x93),
     (''ResourceTemporarilyNotAvailable'', 0x94), (''TerminationWithSignatureRequested'', 0x3B),
     (''AccessDenied'', 0x3C), (''VersionNotSupported'', 0x3D),
     (''SecuredLinkNotSupported'', 0x3E), (''CertificateNotAvailable'', 0x3F),
     (''AuditTrailInformationNotAvailable'', 0x40)]"

definition nrcDescriptions :: "(u8 \<times> string) list" where
  "nrcDescriptions = [
     (0x00, ''PositiveResponse''), (0x10, ''GeneralReject''), (0x11, ''ServiceNotSupported''),
     (0x12, ''SubFunctionNotSupported''), (0x13, ''IncorrectMessageLengthOrInvalidFormat''),
     (0x14, ''ResponseTooLong''), (0x21, ''BusyRepeatRequest''),
     (0x22, ''ConditionsNotCorrect''), (0x24, ''RequestSequenceError''),
     (0x25, ''NoResponseFromSubnetComponent''),
     (0x26, ''FailurePreventsExecutionOfRequestedAction''), (0x31, ''RequestOutOfRange''),
     (0x33, ''SecurityAccessDenied''), (0x34, ''AuthenticationRequired''),
     (0x35, ''InvalidKey''), (0x36, ''ExceedNumberOfAttempts''),
     (0x37, ''RequiredTimeDelayNotExpired''), (0x38, ''SecureDataTransmissionRequired''),
     (0x39, ''SecureDataTransmissionNotAllowed''), (0x3A, ''SecureDataVerificationFailed''),
     (0x50, ''CertificateVerificationFailedInvalidTimePeriod''),
     (0x51, ''CertificateVerificationFailedInvalidSignature''),
     (0x52, ''CertificateVerificationFailedInvalidChainOfTrust''),
     (0x53, ''CertificateVerificationFailedInvalidType''),
     (0x54, ''CertificateVerificationFailedInvalidFormat''),
     (0x55, ''CertificateVerificationFailedInvalidContent''),
     (0x56, ''CertificateVerificationFailedInvalidScope''),
     (0x57, ''CertificateVerificationFailedInvalidCertificate''),
     (0x58, ''OwnershipVerificationFailed''), (0x59, ''ChallengeCalculationFailed''),
     (0x5A, ''SettingAccessRightsFailed''), (0x5B, ''SessionKeyCreationDerivationFailed''),
     (0x5C, ''ConfigurationDataUsageFailed''), (0x5D, ''DeAuthenticationFailed''),
     (0x70, ''UploadDownloadNotAccepted''), (0x71, ''TransferDataSuspended''),
     (0x72, ''GeneralProgrammingFailure''), (0x73, ''WrongBlockSequenceCounter''),
     (0x78, ''RequestCorrectlyReceivedResponsePending''),
     (0x7E, ''SubFunctionNotSupportedInActiveSession''),
     (0x7F, ''ServiceNotSupportedInActiveSession''), (0x81, ''RpmTooHigh''),
     (0x82, ''RpmTooLow''), (0x83, ''EngineIsRunning''), (0x84, ''EngineIsNotRunning''),
     (0x85, ''EngineRunTimeTooLow''), (0x86, ''TemperatureTooHigh''),
     (0x87, ''TemperatureTooLow''), (0x88, ''VehicleSpeedTooHigh''),
     (0x89, ''VehicleSpeedTooLow''), (0x8A, ''ThrottlePedalTooHigh''),
     (0x8B, ''ThrottlePedalTooLow''), (0x8C, ''TransmissionRangeNotInNeutral''),
     (0x8D, ''TransmissionRangeNotInGear''), (0x8F, ''BrakeSwitchNotClosed''),
     (0x90, ''ShifterLeverNotInPark''), (0x91, ''TorqueConverterClutchLocked''),
     (0x92, ''VoltageTooHigh''), (0x93, ''VoltageTooLow''),
     (0x94, ''ResourceTemporarilyNotAvailable''), (0x3B, ''TerminationWithSignatureRequested''),
     (0x3C, ''AccessDenied''), (0x3D, ''VersionNotSupported''),
     (0x3E, ''SecuredLinkNotSupported''), (0x3F, ''CertificateNotAvailable''),
     (0x40, ''AuditTrailInformationNotAvailable'')]"

definition getNRCDescription :: "u8 \<Rightarrow> string" where
  "getNRCDescription nrc =
     (case map_of nrcDescriptions nrc of Some desc \<Rightarrow> desc | None \<Rightarrow> ''UnknownNRC'')"

definition BusyRepeatRequest :: u8 where "BusyRepeatRequest = 0x21"
definition RequestCorrectlyReceivedResponsePending :: u8 where
  "RequestCorrectlyReceivedResponsePending = 0x78"

definition IsRetryable :: "UDSError \<Rightarrow> bool" where
  "IsRetryable e \<longleftrightarrow> NRC e = BusyRepeatRequest \<or> NRC e = RequestCorrectlyReceivedResponsePending"

definition hasSubFunctionSuppressPositive :: "u8 \<Rightarrow> bool" where
  "hasSubFunctionSuppressPositive sid \<longleftrightarrow>
     sid \<in> {0x10, 0x11, 0x19, 0x27, 0x28, 0x2F, 0x31, 0x3E, 0x85, 0x86, 0x87}"

section \<open>The client\<close>

record client =
  c_stack :: session
  c_done :: bool
  c_closeOnce :: bool
  c_funcAddr :: "Address option"

definition newClient :: "session \<Rightarrow> client" where
  "newClient stack = \<lparr>c_stack = stack, c_done = False, c_closeOnce = False, c_funcAddr = None\<rparr>"

definition New_client :: "driver_view option \<Rightarrow> Address option \<Rightarrow> TpConfig \<Rightarrow> uds_error + client" where
  "New_client dev addr cfg =
     (if dev = None then Inl NilCanDriver
      else case Address_Validate addr of
        Inl e \<Rightarrow> Inl (InvalidAddress e)
      | Inr _ \<Rightarrow>
        (case TpConfig_Validate cfg of
           Inl e \<Rightarrow> Inl (InvalidConfiguration e)
         | Inr _ \<Rightarrow>
           (case New_session dev addr cfg of
              Inl e \<Rightarrow> Inl (CreateSession e)
            | Inr stack \<Rightarrow> Inr (newClient stack))))"

definition SetFunctionalAddress :: "Address option \<Rightarrow> client \<Rightarrow> client \<times> uds_error option" where
  "SetFunctionalAddress addr c =
     (case (Address_Validate addr, addr) of
        (Inl e, _) \<Rightarrow> (c, Some (InvalidFunctionalAddress e))
      | (Inr _, None) \<Rightarrow> (c, Some (InvalidFunctionalAddress NilAddress))
      | (Inr _, Some a) \<Rightarrow> (c\<lparr>c_funcAddr := Some \<lparr>TxID = TxID a, RxID = RxID a\<rparr>\<rparr>, None))"

type_synonym AddressingMode = int

definition AddressPhysical :: AddressingMode where "AddressPhysical = 0"
definition AddressFunctional :: AddressingMode where "AddressFunctional = 1"

definition setTxAddressLocked :: "AddressingMode \<Rightarrow> client \<Rightarrow> client \<times> uds_error option" where
  "setTxAddressLocked mode c =
     (if mode = AddressPhysical then
        (case SetTxAddress None (c_stack c) of (s, e) \<Rightarrow> (c\<lparr>c_stack := s\<rparr>, map_option TransportError e))
      else if mode = AddressFunctional then
        (case c_funcAddr c of
           None \<Rightarrow> (c, Some FunctionalAddressNotSet)
         | Some a \<Rightarrow>
           (case SetTxAddress (Some a) (c_stack c) of
              (s, e) \<Rightarrow> (c\<lparr>c_stack := s\<rparr>, map_option TransportError e)))
      else (c, Some (UnknownAddressingMode mode)))"

text \<open>\<open>Close\<close> cancels the client's context and closes the session; a second call does nothing.\<close>

definition Client_Close :: "client \<Rightarrow> client" where
  "Client_Close c =
     (if c_closeOnce c then c
      else c\<lparr>c_closeOnce := True, c_done := True, c_stack := Close_cancel (c_stack c)\<rparr>)"

definition IsClosed :: "client \<Rightarrow> bool" where "IsClosed c = c_done c"

definition Client_Errors :: "client option \<Rightarrow> isotp_error chan" where
  "Client_Errors c =
     (case c of None \<Rightarrow> (make_chan 0)\<lparr>ch_closed := True\<rparr> | Some c \<Rightarrow> errorChan (c_stack c))"

section \<open>One request\<close>

text \<open>What a waiting request can see, with the time at which it does.\<close>

datatype uds_event =
    UCtxDone ctx_error
  | UClientDone
  | UDeadline
  | UData bytes
  | URecvClosed

type_synonym response = "bytes option \<times> uds_error option"

text \<open>
  The loop of \<open>singleRequest\<close>: \<open>pending\<close> counts the response-pending replies, \<open>deadline\<close> is the
  time at which the timer fires. It returns the time and the response.
\<close>

fun wait_response :: "RequestOptions \<Rightarrow> bool \<Rightarrow> u8 \<Rightarrow> int \<Rightarrow> duration \<Rightarrow> duration
    \<Rightarrow> (duration \<times> uds_event) list \<Rightarrow> (duration \<times> response) option" where
  "wait_response opts suppress sid pending currentTimeout deadline [] = None"
| "wait_response opts suppress sid pending currentTimeout deadline ((t, ev) # evs) =
     (case ev of
        UCtxDone e \<Rightarrow> Some (t, None, Some (ReqCtxErr e))
      | UClientDone \<Rightarrow> Some (t, None, Some ErrClientClosed)
      | UDeadline \<Rightarrow>
          Some (t, None, if suppress then None else Some (ErrRequestTimeout currentTimeout))
      | URecvClosed \<Rightarrow> Some (t, None, Some ReceiveChannelClosed)
      | UData data \<Rightarrow>
          if length data \<ge> 3 \<and> data ! 0 = 0x7F then
            let nrc = data ! 2; serviceSID = data ! 1
            in if serviceSID \<noteq> sid
               then wait_response opts suppress sid pending currentTimeout deadline evs
               else if nrc = RequestCorrectlyReceivedResponsePending then
                 (if pending + 1 > MaxResponsePending opts
                  then Some (t, Some data, Some (TooManyResponsePending (pending + 1)))
                  else wait_response opts suppress sid (pending + 1) (ResponsePendingTimeout opts)
                         (t + ResponsePendingTimeout opts) evs)
               else Some (t, Some data, Some (NegativeResponse
                      \<lparr>ServiceID = serviceSID, NRC = nrc, Message = getNRCDescription nrc\<rparr>))
          else if length data = 0 \<or> data ! 0 \<noteq> sid + 0x40
          then wait_response opts suppress sid pending currentTimeout deadline evs
          else Some (t, Some data, None))"

text \<open>What a request does to the session.\<close>

datatype action = ASetAddress AddressingMode | ADrain | ASend bytes | AWait duration

text \<open>
  The environment of one attempt: how the wait before it ends (only used before a retry), what
  \<open>SendContext\<close> returns and whether the client was closed by then, the time at which the
  deadline timer starts, and the events that follow.
\<close>

datatype wait_end = Elapsed | WaitCtxDone ctx_error | WaitClientDone

record attempt_env =
  ae_wait :: wait_end
  ae_send :: "isotp_error option"
  ae_closed :: bool
  ae_start :: duration
  ae_events :: "(duration \<times> uds_event) list"

definition sendPayload :: "attempt_env \<Rightarrow> uds_error option" where
  "sendPayload env =
     (case ae_send env of
        None \<Rightarrow> None
      | Some e \<Rightarrow> if ae_closed env then Some ErrClientClosed else Some (TransportError e))"

definition singleRequest :: "attempt_env \<Rightarrow> bytes \<Rightarrow> RequestOptions \<Rightarrow> bool
    \<Rightarrow> action list \<times> response option" where
  "singleRequest env payload opts suppress =
     ([ADrain, ASend payload],
      (case sendPayload env of
         Some e \<Rightarrow> Some (None, Some e)
       | None \<Rightarrow> map_option snd (wait_response opts suppress (payload ! 0) 0 (Timeout opts)
                   (ae_start env + Timeout opts) (ae_events env))))"

definition waitForRetry :: "attempt_env \<Rightarrow> duration \<Rightarrow> action list \<times> uds_error option" where
  "waitForRetry env delay =
     (if delay = 0 then ([], None)
      else ([AWait delay],
        (case ae_wait env of
           Elapsed \<Rightarrow> None
         | WaitCtxDone e \<Rightarrow> Some (ReqCtxErr e)
         | WaitClientDone \<Rightarrow> Some ErrClientClosed)))"

text \<open>\<open>errors.Is\<close> with \<open>context.Canceled\<close> or \<open>context.DeadlineExceeded\<close>.\<close>

definition is_ctx_error :: "uds_error \<Rightarrow> bool" where
  "is_ctx_error e \<longleftrightarrow>
     (case e of ReqCtxErr _ \<Rightarrow> True | TransportError (SendCtxErr _) \<Rightarrow> True | _ \<Rightarrow> False)"

section \<open>Retries\<close>

text \<open>The loop over the attempts: one environment for each.\<close>

fun request_loop :: "bytes \<Rightarrow> RequestOptions \<Rightarrow> bool \<Rightarrow> int \<Rightarrow> uds_error option \<Rightarrow> bytes option
    \<Rightarrow> attempt_env list \<Rightarrow> action list \<times> response option" where
  "request_loop payload opts suppress attempt lastErr lastResp envs =
     (if attempt > MaxRetries opts then
        ([], Some (case lastErr of
                Some e \<Rightarrow> (lastResp, Some (MaximumRetryCountReached (MaxRetries opts) e))
              | None \<Rightarrow> (None, Some RequestFailedWithoutResponse)))
      else case envs of
        [] \<Rightarrow> ([], None)
      | env # envs' \<Rightarrow>
        (case (if attempt > 0 then waitForRetry env (RetryDelay opts) else ([], None)) of
           (log, Some e) \<Rightarrow> (log, Some (None, Some e))
         | (log, None) \<Rightarrow>
           (case singleRequest env payload opts suppress of
              (log', None) \<Rightarrow> (log @ log', None)
            | (log', Some (resp, None)) \<Rightarrow> (log @ log', Some (resp, None))
            | (log', Some (resp, Some e)) \<Rightarrow>
                if is_ctx_error e then (log @ log', Some (None, Some e))
                else (case e of
                    NegativeResponse u \<Rightarrow>
                      if IsRetryable u \<and> attempt < MaxRetries opts
                      then (case request_loop payload opts suppress (attempt + 1) (Some e) resp envs' of
                              (log'', r) \<Rightarrow> (log @ log' @ log'', r))
                      else (log @ log', Some (resp, Some e))
                  | _ \<Rightarrow> (log @ log', Some (resp, Some e))))))"

text \<open>
  \<open>requestWithContext\<close>; the mode None is a regular request. The client changes only by the
  transmit address of its session; the log is what happens to the session.
\<close>

definition suppresses_positive :: "bytes \<Rightarrow> bool" where
  "suppresses_positive payload \<longleftrightarrow> hasSubFunctionSuppressPositive (payload ! 0) \<and>
     length payload \<ge> 2 \<and> payload ! 1 AND 0x80 \<noteq> 0"

definition requestWithContext :: "ctx \<Rightarrow> bytes \<Rightarrow> RequestOptions \<Rightarrow> AddressingMode option
    \<Rightarrow> attempt_env list \<Rightarrow> client \<Rightarrow> client \<times> action list \<times> response option" where
  "requestWithContext c payload opts mode envs cl =
     (if c = CtxNil then (cl, [], Some (None, Some NilRequestContext))
      else if length payload = 0 then (cl, [], Some (None, Some ErrEmptyPayload))
      else case normalizeRequestOptions opts of
        Inl e \<Rightarrow> (cl, [], Some (None, Some e))
      | Inr opts \<Rightarrow>
        (let requestMode = (case mode of None \<Rightarrow> AddressPhysical | Some m \<Rightarrow> m)
         in case setTxAddressLocked requestMode cl of
              (cl', Some e) \<Rightarrow> (cl', [], Some (None, Some e))
            | (cl', None) \<Rightarrow>
              (case request_loop payload opts (suppresses_positive payload) 0 None None envs of
                 (log, r) \<Rightarrow> (cl', ASetAddress requestMode # log, r))))"

definition RequestWithContext :: "ctx \<Rightarrow> bytes \<Rightarrow> RequestOptions \<Rightarrow> attempt_env list \<Rightarrow> client
    \<Rightarrow> client \<times> action list \<times> response option" where
  "RequestWithContext c payload opts = requestWithContext c payload opts None"

definition RequestWithContextAndAddressingMode :: "ctx \<Rightarrow> bytes \<Rightarrow> RequestOptions \<Rightarrow> AddressingMode
    \<Rightarrow> attempt_env list \<Rightarrow> client \<Rightarrow> client \<times> action list \<times> response option" where
  "RequestWithContextAndAddressingMode c payload opts mode = requestWithContext c payload opts (Some mode)"

definition Request :: "bytes \<Rightarrow> attempt_env list \<Rightarrow> client \<Rightarrow> client \<times> action list \<times> response option" where
  "Request payload = RequestWithContext CtxLive payload DefaultRequestOptions"

definition RequestWithTimeout :: "bytes \<Rightarrow> duration \<Rightarrow> attempt_env list \<Rightarrow> client
    \<Rightarrow> client \<times> action list \<times> response option" where
  "RequestWithTimeout payload timeout =
     RequestWithContext CtxLive payload (DefaultRequestOptions\<lparr>Timeout := timeout\<rparr>)"

text \<open>\<open>drainStackRecv\<close>: receive until the channel has nothing, without waiting.\<close>

fun drain_chan :: "nat \<Rightarrow> 'a chan \<Rightarrow> 'a chan" where
  "drain_chan 0 c = c"
| "drain_chan (Suc n) c = (case ch_buf c of [] \<Rightarrow> c | _ # _ \<Rightarrow> drain_chan n (snd (chan_recv c)))"

definition drainStackRecv :: "session \<Rightarrow> session" where
  "drainStackRecv t = t\<lparr>rxDataChan := drain_chan (length (ch_buf (rxDataChan t))) (rxDataChan t)\<rparr>"

section \<open>The contract of the transmit address\<close>

text \<open>
  What the client relies on when it switches between physical and functional addressing: setting
  the nil address selects the base address of the session, setting a valid one selects it, an
  invalid one is refused, and the base address never changes.
\<close>

locale address_switch =
  fixes set_addr :: "Address option \<Rightarrow> 's \<Rightarrow> 's \<times> isotp_error option"
    and target :: "'s \<Rightarrow> Address"
    and base :: "'s \<Rightarrow> Address"
  assumes set_nil: "snd (set_addr None s) = None \<and> target (fst (set_addr None s)) = base s"
    and set_valid: "Address_Validate (Some a) = Inr () \<Longrightarrow>
      snd (set_addr (Some a) s) = None \<and> target (fst (set_addr (Some a) s)) = a"
    and set_invalid: "Address_Validate (Some a) = Inl e \<Longrightarrow> set_addr (Some a) s = (s, Some e)"
    and base_kept: "base (fst (set_addr x s)) = base s"
begin

lemma set_then_nil: "target (fst (set_addr None (fst (set_addr x s)))) = base s"
  using set_nil base_kept by simp

lemma set_ok_target:
  "snd (set_addr x s) = None \<Longrightarrow> target (fst (set_addr x s)) = (case x of None \<Rightarrow> base s | Some a \<Rightarrow> a)"
proof (cases x)
  case None
  then show ?thesis using set_nil by simp
next
  case (Some a)
  assume "snd (set_addr x s) = None"
  with Some show ?thesis
    using set_valid [of a s] set_invalid [of a _ s] by (cases "Address_Validate (Some a)") auto
qed

end

interpretation sess: address_switch SetTxAddress tx_addr address
  by unfold_locales (auto simp: SetTxAddress_def tx_addr_def split: sum.splits option.splits)

section \<open>Lemmas on one request\<close>

text \<open>The replies that concern a request: negative ones with its service, and its positive one.\<close>

definition negative_for :: "u8 \<Rightarrow> bytes \<Rightarrow> bool" where
  "negative_for sid d \<longleftrightarrow> length d \<ge> 3 \<and> d ! 0 = 0x7F \<and> d ! 1 = sid"

definition pending_for :: "u8 \<Rightarrow> bytes \<Rightarrow> bool" where
  "pending_for sid d \<longleftrightarrow> negative_for sid d \<and> d ! 2 = RequestCorrectlyReceivedResponsePending"

definition positive_for :: "u8 \<Rightarrow> bytes \<Rightarrow> bool" where
  "positive_for sid d \<longleftrightarrow> \<not> (length d \<ge> 3 \<and> d ! 0 = 0x7F) \<and> d \<noteq> [] \<and> d ! 0 = sid + 0x40"

fun concerns :: "u8 \<Rightarrow> uds_event \<Rightarrow> bool" where
  "concerns sid (UData d) = (negative_for sid d \<or> positive_for sid d)"
| "concerns sid _ = True"

lemma wait_response_ignores:
  "\<not> negative_for sid d \<Longrightarrow> \<not> positive_for sid d \<Longrightarrow>
   wait_response opts sp sid n cur dl ((t, UData d) # evs) = wait_response opts sp sid n cur dl evs"
  by (auto simp: negative_for_def positive_for_def Let_def)

lemma wait_response_positive:
  "positive_for sid d \<Longrightarrow> wait_response opts sp sid n cur dl ((t, UData d) # evs) = Some (t, Some d, None)"
  by (auto simp: positive_for_def)

lemma wait_response_negative:
  "negative_for sid d \<Longrightarrow> wait_response opts sp sid n cur dl ((t, UData d) # evs) =
    (if d ! 2 = RequestCorrectlyReceivedResponsePending then
       (if n + 1 > MaxResponsePending opts then Some (t, Some d, Some (TooManyResponsePending (n + 1)))
        else wait_response opts sp sid (n + 1) (ResponsePendingTimeout opts)
               (t + ResponsePendingTimeout opts) evs)
     else Some (t, Some d, Some (NegativeResponse
            \<lparr>ServiceID = sid, NRC = d ! 2, Message = getNRCDescription (d ! 2)\<rparr>)))"
  by (auto simp: negative_for_def Let_def)

lemma positive_not_negative: "positive_for sid d \<Longrightarrow> \<not> negative_for sid d"
  by (auto simp: positive_for_def negative_for_def)

lemmas wait_simps = wait_response_ignores wait_response_positive wait_response_negative

text \<open>Induction on the events, with one case for each kind of reply.\<close>

lemma events_induct [case_names Nil Other Ignored Positive Pending Final]:
  assumes "P []"
    and "\<And>t ev evs. (\<forall>d. ev \<noteq> UData d) \<Longrightarrow> P ((t, ev) # evs)"
    and "\<And>t d evs. P evs \<Longrightarrow> \<not> negative_for sid d \<Longrightarrow> \<not> positive_for sid d \<Longrightarrow> P ((t, UData d) # evs)"
    and "\<And>t d evs. positive_for sid d \<Longrightarrow> P ((t, UData d) # evs)"
    and "\<And>t d evs. P evs \<Longrightarrow> pending_for sid d \<Longrightarrow> P ((t, UData d) # evs)"
    and "\<And>t d evs. negative_for sid d \<Longrightarrow> \<not> pending_for sid d \<Longrightarrow> P ((t, UData d) # evs)"
  shows "P (evs :: (duration \<times> uds_event) list)"
proof (induction evs)
  case Nil
  show ?case by (rule assms(1))
next
  case (Cons x evs)
  obtain t ev where x: "x = (t, ev)" by (cases x)
  show ?case
  proof (cases "\<exists>d. ev = UData d")
    case True
    then obtain d where "ev = UData d" ..
    with Cons x assms(3-6) show ?thesis by (metis pending_for_def)
  next
    case False
    then show ?thesis using x assms(2) by simp
  qed
qed

lemma wait_response_filter:
  "wait_response opts sp sid n cur dl (filter (\<lambda>(t, ev). concerns sid ev) evs) =
   wait_response opts sp sid n cur dl evs"
proof (induction evs arbitrary: n cur dl rule: events_induct [where sid = sid])
  case (Other t ev evs)
  then show ?case by (cases ev) auto
next
  case (Ignored t d evs)
  then show ?case by (simp add: wait_simps del: wait_response.simps)
next
  case (Positive t d evs)
  then show ?case by (simp add: wait_simps del: wait_response.simps)
next
  case (Pending t d evs)
  then show ?case by (simp add: wait_simps pending_for_def del: wait_response.simps)
next
  case (Final t d evs)
  then show ?case by (simp add: wait_simps pending_for_def del: wait_response.simps)
qed simp

text \<open>What a response can be.\<close>

definition answer_ok :: "u8 \<Rightarrow> bool \<Rightarrow> (duration \<times> uds_event) list \<Rightarrow> response \<Rightarrow> bool" where
  "answer_ok sid sp evs r \<longleftrightarrow>
     (case r of
        (None, None) \<Rightarrow> sp \<and> UDeadline \<in> snd ` set evs
      | (Some d, None) \<Rightarrow> positive_for sid d \<and> UData d \<in> snd ` set evs
      | (resp, Some (NegativeResponse u)) \<Rightarrow>
          (\<exists>d. resp = Some d \<and> negative_for sid d \<and> \<not> pending_for sid d \<and> UData d \<in> snd ` set evs \<and>
             u = \<lparr>ServiceID = sid, NRC = d ! 2, Message = getNRCDescription (d ! 2)\<rparr>)
      | (resp, Some (MaximumRetryCountReached _ _)) \<Rightarrow> False
      | (resp, Some RequestFailedWithoutResponse) \<Rightarrow> False
      | (resp, Some (TransportError _)) \<Rightarrow> False
      | (resp, Some (TooManyResponsePending n)) \<Rightarrow> (\<exists>d. resp = Some d \<and> pending_for sid d)
      | (resp, Some e) \<Rightarrow> resp = None)"

lemma answer_ok_Cons: "answer_ok sid sp evs r \<Longrightarrow> answer_ok sid sp (x # evs) r"
  by (auto simp: answer_ok_def split: prod.splits option.splits uds_error.splits)

lemma wait_response_answer:
  "wait_response opts sp sid n cur dl evs = Some (t, r) \<Longrightarrow> answer_ok sid sp evs r"
proof (induction evs arbitrary: n cur dl rule: events_induct [where sid = sid])
  case (Other t ev evs)
  then show ?case by (cases ev) (auto simp: answer_ok_def split: if_splits)
next
  case (Ignored t d evs)
  then show ?case by (simp add: wait_simps answer_ok_Cons del: wait_response.simps)
next
  case (Positive t d evs)
  then show ?case by (auto simp: wait_simps answer_ok_def simp del: wait_response.simps)
next
  case (Pending t d evs)
  then show ?case
    using answer_ok_Cons
    by (auto simp: wait_response_negative pending_for_def answer_ok_def simp del: wait_response.simps
        split: if_splits)
next
  case (Final t d evs)
  then show ?case
    by (auto simp: wait_response_negative pending_for_def answer_ok_def simp del: wait_response.simps)
qed simp

text \<open>
  The timer: no event is handled after the deadline that holds when it is taken, which every
  accepted response-pending reply moves.
\<close>

fun on_time :: "RequestOptions \<Rightarrow> u8 \<Rightarrow> int \<Rightarrow> duration \<Rightarrow> (duration \<times> uds_event) list \<Rightarrow> bool" where
  "on_time opts sid n dl [] = True"
| "on_time opts sid n dl ((t, UData d) # evs) = (t \<le> dl \<and>
     (if pending_for sid d \<and> n + 1 \<le> MaxResponsePending opts
      then on_time opts sid (n + 1) (t + ResponsePendingTimeout opts) evs
      else on_time opts sid n dl evs))"
| "on_time opts sid n dl ((t, ev) # evs) = (t \<le> dl)"

lemma wait_response_time:
  assumes "wait_response opts sp sid n cur dl evs = Some (t, r)" "on_time opts sid n dl evs"
    "dl \<le> T + n * ResponsePendingTimeout opts" "0 \<le> ResponsePendingTimeout opts"
    "n \<le> MaxResponsePending opts"
  shows "t \<le> T + MaxResponsePending opts * ResponsePendingTimeout opts"
  using assms
proof (induction evs arbitrary: n cur dl rule: events_induct [where sid = sid])
  case (Other t' ev evs)
  have "n * ResponsePendingTimeout opts \<le> MaxResponsePending opts * ResponsePendingTimeout opts"
    using Other.prems(4,5) by (intro mult_right_mono)
  with Other show ?case by (cases ev) auto
next
  case (Ignored t' d evs)
  moreover from this have "\<not> pending_for sid d" by (simp add: pending_for_def)
  ultimately show ?case by (simp add: wait_simps del: wait_response.simps)
next
  case (Positive t' d evs)
  have "n * ResponsePendingTimeout opts \<le> MaxResponsePending opts * ResponsePendingTimeout opts"
    using Positive.prems(4,5) by (intro mult_right_mono)
  with Positive show ?case by (auto simp: wait_simps simp del: wait_response.simps)
next
  case (Pending t' d evs)
  have le: "n * ResponsePendingTimeout opts \<le> MaxResponsePending opts * ResponsePendingTimeout opts"
    using Pending.prems(4,5) by (intro mult_right_mono)
  have d: "negative_for sid d" "d ! 2 = RequestCorrectlyReceivedResponsePending"
    using Pending(2) by (simp_all add: pending_for_def)
  show ?case
  proof (cases "n + 1 > MaxResponsePending opts")
    case True
    with Pending d le show ?thesis by (simp add: wait_response_negative del: wait_response.simps)
  next
    case False
    have "t' + ResponsePendingTimeout opts \<le> T + (n + 1) * ResponsePendingTimeout opts"
      using Pending.prems(2,3) by (simp add: distrib_right)
    with Pending False d show ?thesis by (simp add: wait_response_negative del: wait_response.simps)
  qed
next
  case (Final t' d evs)
  have "n * ResponsePendingTimeout opts \<le> MaxResponsePending opts * ResponsePendingTimeout opts"
    using Final.prems(4,5) by (intro mult_right_mono)
  with Final show ?case
    by (auto simp: wait_response_negative pending_for_def simp del: wait_response.simps)
qed simp

lemma wait_response_returns:
  "list_ex (\<lambda>x. \<forall>d. snd x \<noteq> UData d) evs \<Longrightarrow> wait_response opts sp sid n cur dl evs \<noteq> None"
proof (induction evs arbitrary: n cur dl rule: events_induct [where sid = sid])
  case (Other t ev evs)
  then show ?case by (cases ev) auto
next
  case (Ignored t d evs)
  then show ?case by (auto simp: wait_simps simp del: wait_response.simps)
next
  case (Positive t d evs)
  then show ?case by (simp add: wait_simps del: wait_response.simps)
next
  case (Pending t d evs)
  then show ?case by (auto simp: wait_response_negative pending_for_def simp del: wait_response.simps)
next
  case (Final t d evs)
  then show ?case by (auto simp: wait_response_negative pending_for_def simp del: wait_response.simps)
qed simp

section \<open>Lemmas on the retries\<close>

lemma singleRequest_log [simp]: "fst (singleRequest env payload opts sp) = [ADrain, ASend payload]"
  by (simp add: singleRequest_def)

definition request_ok :: "u8 \<Rightarrow> bool \<Rightarrow> attempt_env list \<Rightarrow> response \<Rightarrow> bool" where
  "request_ok sid sp envs r \<longleftrightarrow>
     (\<exists>env \<in> set envs. answer_ok sid sp (ae_events env) r \<or>
        (\<exists>e. ae_send env = Some e \<and> r = (None, Some (TransportError e))) \<or>
        (\<exists>e. r = (None, Some (ReqCtxErr e))) \<or> r = (None, Some ErrClientClosed))"

lemma singleRequest_ok:
  "singleRequest env payload opts sp = (log, Some r) \<Longrightarrow> request_ok (payload ! 0) sp [env] r"
  using wait_response_answer [of opts sp "payload ! 0" 0 "Timeout opts" _ "ae_events env"]
  by (auto simp: singleRequest_def sendPayload_def request_ok_def split: option.splits if_splits)

lemma singleRequest_retryable:
  assumes "singleRequest env payload opts sp = (log, Some (resp, Some (NegativeResponse u)))"
  shows "IsRetryable u \<longleftrightarrow> NRC u = BusyRepeatRequest"
proof -
  have "request_ok (payload ! 0) sp [env] (resp, Some (NegativeResponse u))"
    by (rule singleRequest_ok [OF assms])
  then obtain d where "\<not> pending_for (payload ! 0) d" "negative_for (payload ! 0) d" "NRC u = d ! 2"
    by (auto simp: request_ok_def answer_ok_def split: option.splits)
  then show ?thesis by (auto simp: IsRetryable_def pending_for_def)
qed

lemma request_ok_ctx:
  "request_ok sid sp envs (resp, Some e) \<Longrightarrow> is_ctx_error e \<Longrightarrow> resp = None"
  by (auto simp: request_ok_def is_ctx_error_def answer_ok_def split: uds_error.splits option.splits)

lemma request_ok_mono: "request_ok sid sp envs r \<Longrightarrow> set envs \<subseteq> set envs' \<Longrightarrow> request_ok sid sp envs' r"
  by (auto simp: request_ok_def)

text \<open>One attempt of the loop, with the outcome of the wait and of the request named.\<close>

declare request_loop.simps [simp del]

lemma case_not_negative:
  "\<forall>u. e \<noteq> NegativeResponse u \<Longrightarrow> (case e of NegativeResponse u \<Rightarrow> f u | _ \<Rightarrow> b) = b"
  by (cases e) auto

lemma request_loop_step:
  assumes "attempt \<le> MaxRetries opts"
  shows "request_loop payload opts sp attempt le lr (env # envs) =
    (let w = (if attempt > 0 then waitForRetry env (RetryDelay opts) else ([], None));
         s = singleRequest env payload opts sp
     in case w of
          (log, Some e) \<Rightarrow> (log, Some (None, Some e))
        | (log, None) \<Rightarrow>
          (case s of
             (_, Some (resp, Some (NegativeResponse u))) \<Rightarrow>
               if IsRetryable u \<and> attempt < MaxRetries opts
               then (log @ fst s @ fst (request_loop payload opts sp (attempt + 1)
                       (Some (NegativeResponse u)) resp envs),
                     snd (request_loop payload opts sp (attempt + 1) (Some (NegativeResponse u)) resp envs))
               else (log @ fst s, snd s)
           | _ \<Rightarrow> (log @ fst s, snd s)))"
proof -
  have ctx: "resp = None" if "singleRequest env payload opts sp = (l, Some (resp, Some e))" "is_ctx_error e" for l resp e
    using request_ok_ctx [OF singleRequest_ok [OF that(1)] that(2)] .
  have neg: "\<not> is_ctx_error (NegativeResponse u)" for u by (simp add: is_ctx_error_def)
  obtain r where s: "singleRequest env payload opts sp = ([ADrain, ASend payload], r)"
    using singleRequest_log [of env payload opts sp] by (cases "singleRequest env payload opts sp") simp
  obtain l w where w: "(if attempt > 0 then waitForRetry env (RetryDelay opts) else ([], None)) = (l, w)"
    by (rule prod.exhaust)
  note unfold = request_loop.simps [of payload opts sp attempt le lr "env # envs"]
  consider "w \<noteq> None" | "w = None" "r = None" | resp where "w = None" "r = Some (resp, None)"
    | resp u where "w = None" "r = Some (resp, Some (NegativeResponse u))"
    | resp e where "w = None" "r = Some (resp, Some e)" "\<forall>u. e \<noteq> NegativeResponse u"
    by (cases w; cases r; auto) (metis not_Some_eq)
  then show ?thesis
  proof cases
    case 1
    then show ?thesis by (subst unfold) (use assms in \<open>auto simp: w s Let_def\<close>)
  next
    case 2
    then show ?thesis by (subst unfold) (use assms in \<open>simp add: w s Let_def\<close>)
  next
    case 3
    then show ?thesis by (subst unfold) (use assms in \<open>simp add: w s Let_def\<close>)
  next
    case 4
    then show ?thesis
      by (subst unfold) (use assms neg in \<open>simp add: w s Let_def case_prod_unfold\<close>)
  next
    case 5
    have "is_ctx_error e \<Longrightarrow> resp = None" using ctx [of _ resp e] s 5 by blast
    then show ?thesis
      by (subst unfold) (use assms 5 in \<open>auto simp: w s Let_def case_not_negative\<close>)
  qed
qed

lemma request_loop_Nil: "attempt \<le> MaxRetries opts \<Longrightarrow> request_loop payload opts sp attempt le lr [] = ([], None)"
  by (subst request_loop.simps) simp

text \<open>The four outcomes of an attempt.\<close>

lemma request_loop_cases:
  assumes "attempt \<le> MaxRetries opts"
  obtains (Aborted) d e where "request_loop payload opts sp attempt le lr (env # envs) = ([AWait d], Some (None, Some e))"
      "(\<exists>x. e = ReqCtxErr x) \<or> e = ErrClientClosed" "0 < attempt"
    | (Ended) w where "request_loop payload opts sp attempt le lr (env # envs) =
        (w @ [ADrain, ASend payload], snd (singleRequest env payload opts sp))" "set w \<subseteq> range AWait"
    | (Retried) w resp u where "request_loop payload opts sp attempt le lr (env # envs) =
        (w @ [ADrain, ASend payload] @ fst (request_loop payload opts sp (attempt + 1) (Some (NegativeResponse u)) resp envs),
         snd (request_loop payload opts sp (attempt + 1) (Some (NegativeResponse u)) resp envs))"
      "set w \<subseteq> range AWait" "attempt < MaxRetries opts"
      "snd (singleRequest env payload opts sp) = Some (resp, Some (NegativeResponse u))"
      "NRC u = BusyRepeatRequest"
proof -
  obtain l w where w: "(if attempt > 0 then waitForRetry env (RetryDelay opts) else ([], None)) = (l, w)"
    by (rule prod.exhaust)
  obtain r where s: "singleRequest env payload opts sp = ([ADrain, ASend payload], r)"
    using singleRequest_log [of env payload opts sp] by (cases "singleRequest env payload opts sp") simp
  note step = request_loop_step [OF assms, of payload sp le lr env envs, unfolded Let_def w s]
  show thesis
  proof (cases w)
    case (Some e)
    then have "0 < attempt" "l = [AWait (RetryDelay opts)]" "(\<exists>x. e = ReqCtxErr x) \<or> e = ErrClientClosed"
      using w by (auto simp: waitForRetry_def split: if_splits wait_end.splits)
    then show thesis using Aborted [of "RetryDelay opts" e] step Some by simp
  next
    case None
    then have l: "set l \<subseteq> range AWait" using w by (auto simp: waitForRetry_def split: if_splits)
    show thesis
    proof (cases "\<exists>resp u. r = Some (resp, Some (NegativeResponse u)) \<and> IsRetryable u \<and> attempt < MaxRetries opts")
      case True
      then obtain resp u where r: "r = Some (resp, Some (NegativeResponse u))" "IsRetryable u"
        "attempt < MaxRetries opts" by blast
      then have "NRC u = BusyRepeatRequest"
        using singleRequest_retryable [of env payload opts sp "[ADrain, ASend payload]" resp u] s by simp
      then show thesis using Retried [of l u resp] step None l r s by simp
    next
      case False
      have "request_loop payload opts sp attempt le lr (env # envs) = (l @ [ADrain, ASend payload], r)"
        unfolding step using None False by (auto split: option.split uds_error.split)
      then show thesis using Ended [of l] l s by simp
    qed
  qed
qed

definition not_wait :: "action \<Rightarrow> bool" where "not_wait a \<longleftrightarrow> a \<notin> range AWait"

lemma filter_waits: "set w \<subseteq> range AWait \<Longrightarrow> filter not_wait w = []"
  by (auto simp: not_wait_def filter_empty_conv)

lemma not_wait_simps [simp]: "not_wait ADrain" "not_wait (ASend p)" "not_wait (ASetAddress m)" "\<not> not_wait (AWait d)"
  by (auto simp: not_wait_def)

lemma request_loop_log:
  assumes "attempt \<le> MaxRetries opts"
  shows "\<exists>k. int k \<le> MaxRetries opts - attempt + 1 \<and>
    filter not_wait (fst (request_loop payload opts sp attempt le lr envs)) =
      concat (replicate k [ADrain, ASend payload])"
  using assms
proof (induction envs arbitrary: attempt le lr)
  case Nil
  then show ?case by (intro exI [of _ 0]) (simp add: request_loop_Nil)
next
  case (Cons env envs)
  show ?case
  proof (cases rule: request_loop_cases [OF Cons.prems, of payload sp le lr env envs,
        case_names Aborted Ended Retried])
    case (Aborted d e)
    then show ?thesis using Cons.prems by (intro exI [of _ 0]) simp
  next
    case (Ended w)
    then show ?thesis using Cons.prems by (intro exI [of _ 1]) (simp add: filter_waits)
  next
    case (Retried w resp u)
    then obtain k where "int k \<le> MaxRetries opts - (attempt + 1) + 1"
      "filter not_wait (fst (request_loop payload opts sp (attempt + 1) (Some (NegativeResponse u)) resp envs)) =
        concat (replicate k [ADrain, ASend payload])"
      using Cons.IH [of "attempt + 1" "Some (NegativeResponse u)" resp] by auto
    then show ?thesis using Retried by (intro exI [of _ "Suc k"]) (simp add: filter_waits)
  qed
qed

lemma request_loop_ok:
  assumes "attempt \<le> MaxRetries opts"
    and "snd (request_loop payload opts sp attempt le lr envs) = Some r"
  shows "request_ok (payload ! 0) sp envs r"
  using assms
proof (induction envs arbitrary: attempt le lr)
  case Nil
  then show ?case by (simp add: request_loop_Nil)
next
  case (Cons env envs)
  show ?case
  proof (cases rule: request_loop_cases [OF Cons.prems(1), of payload sp le lr env envs,
        case_names Aborted Ended Retried])
    case (Aborted d e)
    then show ?thesis using Cons.prems(2) by (auto simp: request_ok_def)
  next
    case (Ended w)
    then have "singleRequest env payload opts sp = (fst (singleRequest env payload opts sp), Some r)"
      using Cons.prems(2) by (simp add: prod_eq_iff)
    from singleRequest_ok [OF this] show ?thesis by (rule request_ok_mono) simp
  next
    case (Retried w resp u)
    then have "request_ok (payload ! 0) sp envs r" using Cons.IH [of "attempt + 1"] Cons.prems(2) by simp
    then show ?thesis by (rule request_ok_mono) auto
  qed
qed

lemma normalizeRequestOptions_ok:
  "normalizeRequestOptions opts = Inr opts' \<Longrightarrow> 0 < Timeout opts' \<and> 0 \<le> MaxRetries opts' \<and>
     0 \<le> RetryDelay opts' \<and> 0 < ResponsePendingTimeout opts' \<and> 0 < MaxResponsePending opts' \<and>
     Timeout opts' = Timeout opts \<and> MaxRetries opts' = MaxRetries opts"
  by (auto simp: normalizeRequestOptions_def Let_def responsePendingTimeout_def defaultMaxPending_def
      Millisecond_def Microsecond_def split: if_splits)

lemma setTxAddressLocked_target:
  assumes "setTxAddressLocked mode cl = (cl', None)"
  shows "tx_addr (c_stack cl') = (if mode = AddressPhysical then address (c_stack cl) else the (c_funcAddr cl))"
    and "mode = AddressPhysical \<or> mode = AddressFunctional"
proof -
  show "mode = AddressPhysical \<or> mode = AddressFunctional"
    using assms by (simp add: setTxAddressLocked_def split: if_splits)
  show "tx_addr (c_stack cl') = (if mode = AddressPhysical then address (c_stack cl) else the (c_funcAddr cl))"
    using assms sess.set_ok_target [of None "c_stack cl"]
      sess.set_ok_target [of "c_funcAddr cl" "c_stack cl"]
    by (auto simp: setTxAddressLocked_def split: if_splits option.splits prod.splits)
qed

section \<open>Properties\<close>

text \<open>The environment of the witnesses: one reply, then the deadline.\<close>

definition demo_env :: "bytes \<Rightarrow> attempt_env" where
  "demo_env d = \<lparr>ae_wait = Elapsed, ae_send = None, ae_closed = False, ae_start = 0,
     ae_events = [(10, UData d), (500 * Millisecond, UDeadline)]\<rparr>"

lemma demo_options: "normalizeRequestOptions DefaultRequestOptions = Inr DefaultRequestOptions"
  by (simp add: normalizeRequestOptions_def DefaultRequestOptions_def responsePendingTimeout_def
      defaultMaxPending_def defaultMaxRetries_def Millisecond_def Microsecond_def Let_def)

lemma demo_loop:
  "snd (request_loop [0x10, 0x03] DefaultRequestOptions False 0 None None [demo_env [0x50, 0x03]]) =
     Some (Some [0x50, 0x03], None)"
  by (simp add: request_loop_step DefaultRequestOptions_def defaultMaxRetries_def singleRequest_def
      sendPayload_def demo_env_def Let_def)

lemma demo_no_suppress: "suppresses_positive [0x10, 0x03] = False"
  by (simp add: suppresses_positive_def)

text \<open>C9: whatever the environment does, a request touches the session in one way only: it sets the
  transmit address and then makes at most MaxRetries + 1 attempts, each of which drains the
  receive channel and sends exactly the request's payload.\<close>

theorem request_actions_bounded:
  "case requestWithContext c payload opts mode envs cl of (cl', log, r) \<Rightarrow>
     filter not_wait log = [] \<or>
     (\<exists>k. int k \<le> MaxRetries opts + 1 \<and> filter not_wait log =
        ASetAddress (case mode of None \<Rightarrow> AddressPhysical | Some m \<Rightarrow> m) #
        concat (replicate k [ADrain, ASend payload]))"
proof (cases "normalizeRequestOptions opts")
  case (Inl e)
  then show ?thesis by (simp add: requestWithContext_def)
next
  case (Inr opts')
  note o = normalizeRequestOptions_ok [OF Inr]
  from request_loop_log [of 0 opts' payload "suppresses_positive payload" None None envs] o Inr
  show ?thesis
    by (auto simp: requestWithContext_def Let_def split: prod.splits option.splits)
qed

text \<open>C8: a response returned without an error is a received reply whose first byte is the service
  identifier plus 0x40; no response and no error happens only for a suppressed positive
  response; a negative response carries the service and the code of a received reply with code
  other than 0x78; and the errors after the retry loop are never returned.\<close>

theorem response_answers_request:
  assumes "requestWithContext c payload opts mode envs cl = (cl', log, Some (resp, err))"
  shows "case err of
      None \<Rightarrow> (case resp of
          None \<Rightarrow> suppresses_positive payload
        | Some d \<Rightarrow> d \<noteq> [] \<and> d ! 0 = payload ! 0 + 0x40 \<and>
            (\<exists>env \<in> set envs. UData d \<in> snd ` set (ae_events env)))
    | Some (NegativeResponse u) \<Rightarrow> (\<exists>d. resp = Some d \<and> length d \<ge> 3 \<and> d ! 0 = 0x7F \<and>
        d ! 1 = payload ! 0 \<and> ServiceID u = payload ! 0 \<and> NRC u = d ! 2 \<and> NRC u \<noteq> 0x78 \<and>
        Message u = getNRCDescription (d ! 2) \<and>
        (\<exists>env \<in> set envs. UData d \<in> snd ` set (ae_events env)))
    | Some (MaximumRetryCountReached _ _) \<Rightarrow> False
    | Some RequestFailedWithoutResponse \<Rightarrow> False
    | Some _ \<Rightarrow> True"
proof (cases "\<exists>opts' l. normalizeRequestOptions opts = Inr opts' \<and>
    request_loop payload opts' (suppresses_positive payload) 0 None None envs = (l, Some (resp, err))")
  case True
  then obtain opts' l where o: "normalizeRequestOptions opts = Inr opts'"
    "request_loop payload opts' (suppresses_positive payload) 0 None None envs = (l, Some (resp, err))" by blast
  have ok: "request_ok (payload ! 0) (suppresses_positive payload) envs (resp, err)"
    using request_loop_ok [of 0 opts' payload "suppresses_positive payload" None None envs "(resp, err)"]
      normalizeRequestOptions_ok [OF o(1)] o(2) by simp
  show ?thesis
  proof (cases err)
    case None
    then show ?thesis
      using ok by (cases resp) (auto simp: request_ok_def answer_ok_def positive_for_def)
  next
    case (Some e)
    show ?thesis
    proof (cases "\<exists>u. e = NegativeResponse u")
      case True
      then show ?thesis
        using ok Some by (auto simp: request_ok_def answer_ok_def negative_for_def pending_for_def
            RequestCorrectlyReceivedResponsePending_def split: option.splits intro!: bexI rev_image_eqI)
    next
      case other: False
      have "e \<noteq> RequestFailedWithoutResponse \<and> (\<forall>x y. e \<noteq> MaximumRetryCountReached x y)"
        using ok Some by (auto simp: request_ok_def answer_ok_def split: option.splits)
      with other Some show ?thesis by (cases e) auto
    qed
  qed
next
  case False
  have n: "e \<noteq> MaximumRetryCountReached a b \<and> e \<noteq> RequestFailedWithoutResponse \<and> e \<noteq> NegativeResponse u"
    if "normalizeRequestOptions opts = Inl e" for e a b u
    using that by (auto simp: normalizeRequestOptions_def Let_def split: if_splits)
  have a: "e \<noteq> MaximumRetryCountReached a b \<and> e \<noteq> RequestFailedWithoutResponse \<and> e \<noteq> NegativeResponse u"
    if "setTxAddressLocked m cl = (cl'', Some e)" for m cl'' e a b u
    using that by (auto simp: setTxAddressLocked_def split: if_splits option.splits prod.splits)
  let ?m = "case mode of None \<Rightarrow> AddressPhysical | Some m \<Rightarrow> m"
  obtain cl1 e1 where t: "setTxAddressLocked ?m cl = (cl1, e1)" by (rule prod.exhaust)
  have "\<exists>e. err = Some e \<and> (e = NilRequestContext \<or> e = ErrEmptyPayload \<or>
      normalizeRequestOptions opts = Inl e \<or> e1 = Some e)"
  proof (cases "c = CtxNil \<or> length payload = 0")
    case True
    then show ?thesis using assms by (auto simp: requestWithContext_def split: if_splits)
  next
    case args: False
    show ?thesis
    proof (cases "normalizeRequestOptions opts")
      case (Inl e)
      then show ?thesis using assms args by (auto simp: requestWithContext_def)
    next
      case (Inr opts')
      then show ?thesis
        using assms args t False by (cases e1) (auto simp: requestWithContext_def Let_def split: prod.splits)
    qed
  qed
  then obtain e where e: "err = Some e" "e = NilRequestContext \<or> e = ErrEmptyPayload \<or>
      normalizeRequestOptions opts = Inl e \<or> e1 = Some e" by blast
  then have "e \<noteq> MaximumRetryCountReached x y \<and> e \<noteq> RequestFailedWithoutResponse \<and> e \<noteq> NegativeResponse u" for x y u
    using n [of e x y u] a [of ?m cl1 e x y u] t by auto
  with e(1) show ?thesis by (cases e) auto
qed

theorem response_answers_request_witness:
  "\<exists>cl' log. requestWithContext CtxLive [0x10, 0x03] DefaultRequestOptions None
      [demo_env [0x50, 0x03]] (newClient demo) = (cl', log, Some (Some [0x50, 0x03], None)) \<and>
    [0x50, 0x03] ! 0 = ([0x10, 0x03] ! 0 :: u8) + 0x40"
proof -
  have "\<exists>cl' log. requestWithContext CtxLive [0x10, 0x03] DefaultRequestOptions None
      [demo_env [0x50, 0x03]] (newClient demo) = (cl', log, Some (Some [0x50, 0x03], None))"
    using demo_loop by (simp add: requestWithContext_def Let_def demo_options setTxAddressLocked_def
        SetTxAddress_def demo_no_suppress case_prod_unfold)
  with response_answers_request [of CtxLive "[0x10, 0x03]" DefaultRequestOptions None "[demo_env [0x50, 0x03]]"
      "newClient demo"] show ?thesis by fastforce
qed





text \<open>C12: an attempt ends when the deadline fires, the caller's context or the client is done, or the
  receive channel is closed, whatever replies come before.\<close>

theorem attempt_returns:
  assumes "list_ex (\<lambda>x. \<forall>d. snd x \<noteq> UData d) (ae_events env)"
  shows "snd (singleRequest env payload opts sp) \<noteq> None"
  using wait_response_returns [OF assms, of opts sp "payload ! 0" 0 "Timeout opts" "ae_start env + Timeout opts"]
  by (auto simp: singleRequest_def split: option.split)

theorem attempt_returns_witness:
  "snd (singleRequest (demo_env [0x7F]) [0x10, 0x03] DefaultRequestOptions False) \<noteq> None"
  by (rule attempt_returns) (simp add: demo_env_def)

text \<open>Replies to other services and empty replies change nothing: the outcome and its time are
  those of the events that concern the request.\<close>

theorem unrelated_replies_ignored:
  "wait_response opts sp sid n cur dl (filter (\<lambda>(t, ev). concerns sid ev) evs) =
   wait_response opts sp sid n cur dl evs"
  by (rule wait_response_filter)



lemma drain_chan_empties: "ch_buf (drain_chan (length (ch_buf c)) c) = [] \<and>
    ch_closed (drain_chan n c) = ch_closed c \<and> ch_cap (drain_chan n c) = ch_cap c"
proof -
  have "ch_buf (drain_chan m d) = []" if "length (ch_buf d) \<le> m" for m and d :: "'a chan"
    using that by (induction m arbitrary: d) (auto simp: chan_recv_def split: list.splits)
  moreover have "ch_closed (drain_chan n d) = ch_closed d \<and> ch_cap (drain_chan n d) = ch_cap d" for d :: "'a chan"
    by (induction n arbitrary: d) (auto simp: chan_recv_def split: list.splits)
  ultimately show ?thesis by blast
qed

lemma drain_reachable:
  "reachable t \<Longrightarrow> reachable (t\<lparr>rxDataChan := drain_chan n (rxDataChan t)\<rparr>)"
proof (induction n arbitrary: t)
  case 0
  then show ?case by simp
next
  case (Suc n)
  let ?t = "snd (recv_data t)"
  have "reachable ?t" by (rule reachable.Step [OF Suc.prems session_step.RecvData])
  from Suc.IH [OF this] Suc.prems show ?case
    by (auto simp: recv_data_def case_prod_unfold split: list.splits)
qed

text \<open>Draining before a request leaves no old payload in the receive channel, so that a reply
  taken afterwards arrived after the drain; it is a sequence of receives of the session's client
  and keeps the session reachable, hence free of panics.\<close>

theorem drain_leaves_nothing:
  assumes "reachable t"
  shows "ch_buf (rxDataChan (drainStackRecv t)) = [] \<and> reachable (drainStackRecv t) \<and>
    ch_closed (rxDataChan (drainStackRecv t)) = ch_closed (rxDataChan t)"
  using drain_chan_empties [of "rxDataChan t"] drain_reachable [OF assms]
  by (simp add: drainStackRecv_def)

theorem drain_leaves_nothing_witness:
  "ch_buf (rxDataChan (drainStackRecv demo)) = [] \<and> reachable (drainStackRecv demo)"
  using drain_leaves_nothing [OF reachable_demo] by simp

text \<open>The description of every negative response code is the name of its constant, the codes are
  distinct, and every other code is described as unknown.\<close>

theorem NRC_descriptions:
  "map getNRCDescription (map snd NRC_constants) = map fst NRC_constants \<and>
   distinct (map snd NRC_constants) \<and>
   (\<forall>nrc. nrc \<in> snd ` set NRC_constants \<or> getNRCDescription nrc = ''UnknownNRC'')"
proof -
  have d: "nrcDescriptions = map (\<lambda>(n, v). (v, n)) NRC_constants"
    by (simp add: nrcDescriptions_def NRC_constants_def)
  have "map_of nrcDescriptions nrc = None" if "nrc \<notin> snd ` set NRC_constants" for nrc
    using that unfolding d by (force simp: map_of_eq_None_iff)
  then have "getNRCDescription nrc = ''UnknownNRC''" if "nrc \<notin> snd ` set NRC_constants" for nrc
    using that by (simp add: getNRCDescription_def)
  then have "\<forall>nrc. nrc \<in> snd ` set NRC_constants \<or> getNRCDescription nrc = ''UnknownNRC''" by blast
  moreover have dist: "distinct (map snd NRC_constants)" by code_simp
  moreover have "getNRCDescription v = n" if "(n, v) \<in> set NRC_constants" for n v
  proof -
    have "distinct (map fst nrcDescriptions)" using dist unfolding d by (simp add: comp_def case_prod_unfold)
    moreover have "(v, n) \<in> set nrcDescriptions" unfolding d using that by force
    ultimately show ?thesis by (simp add: getNRCDescription_def)
  qed
  ultimately show ?thesis by auto
qed

text \<open>Close is final. The client reports itself closed, a second Close changes nothing, and a
  request's payload is refused by the session from then on.\<close>

theorem Close_refuses_requests:
  assumes "reachable (c_stack c)" "int (length p) \<le> MaxPayloadSize (config (c_stack c))" "cx \<noteq> CtxNil"
    and "\<not> c_closeOnce c"
  shows "IsClosed (Client_Close c) \<and> Client_Close (Client_Close c) = Client_Close c \<and>
    reachable (c_stack (Client_Close c)) \<and>
    SendContext late pick cx p (c_stack (Client_Close c)) = (c_stack (Client_Close c), SendFailed ErrSessionClosed)"
proof -
  have "ctxDone (Close_cancel (c_stack c))"
    using reachable_inv [OF assms(1)] by (auto simp: Close_cancel_def session_inv_def)
  moreover have "config (Close_cancel t) = config t" for t by (simp add: Close_cancel_def)
  moreover have "reachable (Close_cancel (c_stack c))"
    by (rule reachable.Step [OF assms(1) session_step.Cancel])
  ultimately show ?thesis using assms by (simp add: Client_Close_def IsClosed_def SendContext_def)
qed

theorem Close_refuses_requests_witness:
  "SendContext False ToQueue CtxLive [0x3E, 0x00] (c_stack (Client_Close (newClient demo))) =
     (c_stack (Client_Close (newClient demo)), SendFailed ErrSessionClosed)"
proof -
  have "int (length [0x3E, 0x00 :: u8]) \<le> MaxPayloadSize (config (c_stack (newClient demo)))"
    by (simp add: newClient_def demo_def fresh_session_def Tp_DefaultConfig_def defaultMaxPayloadSize_def)
  moreover have "reachable (c_stack (newClient demo))" by (simp add: newClient_def reachable_demo)
  moreover have "\<not> c_closeOnce (newClient demo)" by (simp add: newClient_def)
  ultimately show ?thesis using Close_refuses_requests [of "newClient demo" "[0x3E, 0x00]" CtxLive] by blast
qed

end
