(* ===== verification/Isotp_Memory.thy ===== *)
theory Isotp_Memory
  imports Isotp_Transfer Memory_Bus
begin

text \<open>
  Two ISO-TP sessions over the in-memory link of can/memory: the senders call the \<open>Send\<close> of their
  endpoint, the receive pumps read the subscriptions that \<open>New\<close> made. Frames wait in the channels of the
  subscriptions, other subscribers may listen too, and own transmissions come back when the endpoint
  is configured so. As long as a pump keeps pace, so that its channel has room for the next frame,
  this is the lossless link of Isotp_Transfer, by a simulation that pumps everything that waits.
\<close>

section \<open>Handlers and the receive queue\<close>

text \<open>No handler looks at the queue of received frames; only the run loop takes its head.\<close>

named_theorems queue_simps \<open>the handlers commute with a change of the receive queue\<close>

lemma update_queue [queue_simps]:
  "rxState_update f1 (t\<lparr>rxq := q\<rparr>) = (rxState_update f1 t)\<lparr>rxq := q\<rparr>"
  "txState_update f2 (t\<lparr>rxq := q\<rparr>) = (txState_update f2 t)\<lparr>rxq := q\<rparr>"
  "rxBuffer_update f3 (t\<lparr>rxq := q\<rparr>) = (rxBuffer_update f3 t)\<lparr>rxq := q\<rparr>"
  "txBuffer_update f4 (t\<lparr>rxq := q\<rparr>) = (txBuffer_update f4 t)\<lparr>rxq := q\<rparr>"
  "rxDataChan_update f5 (t\<lparr>rxq := q\<rparr>) = (rxDataChan_update f5 t)\<lparr>rxq := q\<rparr>"
  "txDataChan_update f6 (t\<lparr>rxq := q\<rparr>) = (txDataChan_update f6 t)\<lparr>rxq := q\<rparr>"
  "rxFrameLen_update f7 (t\<lparr>rxq := q\<rparr>) = (rxFrameLen_update f7 t)\<lparr>rxq := q\<rparr>"
  "txFrameLen_update f8 (t\<lparr>rxq := q\<rparr>) = (txFrameLen_update f8 t)\<lparr>rxq := q\<rparr>"
  "rxSeqNum_update f9 (t\<lparr>rxq := q\<rparr>) = (rxSeqNum_update f9 t)\<lparr>rxq := q\<rparr>"
  "txSeqNum_update f10 (t\<lparr>rxq := q\<rparr>) = (txSeqNum_update f10 t)\<lparr>rxq := q\<rparr>"
  "rxBlockCounter_update f11 (t\<lparr>rxq := q\<rparr>) = (rxBlockCounter_update f11 t)\<lparr>rxq := q\<rparr>"
  "txBlockCounter_update f12 (t\<lparr>rxq := q\<rparr>) = (txBlockCounter_update f12 t)\<lparr>rxq := q\<rparr>"
  "remoteBlockSize_update f13 (t\<lparr>rxq := q\<rparr>) = (remoteBlockSize_update f13 t)\<lparr>rxq := q\<rparr>"
  "remoteSTmin_update f14 (t\<lparr>rxq := q\<rparr>) = (remoteSTmin_update f14 t)\<lparr>rxq := q\<rparr>"
  "txWaitFrames_update f15 (t\<lparr>rxq := q\<rparr>) = (txWaitFrames_update f15 t)\<lparr>rxq := q\<rparr>"
  "timerRxCF_update f16 (t\<lparr>rxq := q\<rparr>) = (timerRxCF_update f16 t)\<lparr>rxq := q\<rparr>"
  "timerRxFC_update f17 (t\<lparr>rxq := q\<rparr>) = (timerRxFC_update f17 t)\<lparr>rxq := q\<rparr>"
  "timerTxSTmin_update f18 (t\<lparr>rxq := q\<rparr>) = (timerTxSTmin_update f18 t)\<lparr>rxq := q\<rparr>"
  "txq_update f19 (t\<lparr>rxq := q\<rparr>) = (txq_update f19 t)\<lparr>rxq := q\<rparr>"
  by simp_all

lemma helpers_queue [queue_simps]:
  "stopReceiving (t\<lparr>rxq := q\<rparr>) = (stopReceiving t)\<lparr>rxq := q\<rparr>"
  "stopSending (t\<lparr>rxq := q\<rparr>) = (stopSending t)\<lparr>rxq := q\<rparr>"
  "resetRxTimer (t\<lparr>rxq := q\<rparr>) = (resetRxTimer t)\<lparr>rxq := q\<rparr>"
  "resetTxFCTimer (t\<lparr>rxq := q\<rparr>) = (resetTxFCTimer t)\<lparr>rxq := q\<rparr>"
  "resetTxSTminTimer d (t\<lparr>rxq := q\<rparr>) = (resetTxSTminTimer d t)\<lparr>rxq := q\<rparr>"
  "cleanup (t\<lparr>rxq := q\<rparr>) = (cleanup t)\<lparr>rxq := q\<rparr>"
  "makeTxMsg (t\<lparr>rxq := q\<rparr>) x = makeTxMsg t x"
  "makeFlowControlMsg (t\<lparr>rxq := q\<rparr>) s = makeFlowControlMsg t s"
  by (simp_all add: stopReceiving_def stopSending_def resetRxTimer_def resetTxFCTimer_def
      resetTxSTminTimer_def cleanup_def makeTxMsg_def makeFlowControlMsg_def makeTxMsgWithAddr_def split: option.split)

lemma fireError_queue [queue_simps]:
  "fireError e (t\<lparr>rxq := q\<rparr>) = map_option (\<lambda>u. u\<lparr>rxq := q\<rparr>) (fireError e t)"
  by (simp add: fireError_def split: option.split prod.split)

lemma sendMessage_queue [queue_simps]:
  "sendMessage sel m (t\<lparr>rxq := q\<rparr>) = apfst (\<lambda>u. u\<lparr>rxq := q\<rparr>) (sendMessage sel m t)"
  "sendFlowControlContext sel s (t\<lparr>rxq := q\<rparr>) = apfst (\<lambda>u. u\<lparr>rxq := q\<rparr>) (sendFlowControlContext sel s t)"
  by (simp_all add: sendMessage_def sendFlowControlContext_def queue_simps)

lemma bind_map_option: "Option.bind (map_option f m) g = Option.bind m (\<lambda>x. g (f x))"
  by (cases m) simp_all

lemma map_option_bind: "map_option f (Option.bind m g) = Option.bind m (\<lambda>x. map_option f (g x))"
  by (cases m) simp_all

lemma case_apfst: "(case apfst f p of (x, y) \<Rightarrow> g x y) = (case p of (x, y) \<Rightarrow> g (f x) y)"
  by (cases p) simp

lemma fst_apfst': "fst (apfst f p) = f (fst p)"
  by (cases p) simp

lemmas queue_defs = bind_map_option map_option_bind case_apfst fst_apfst'

lemma handleRxSingleFrame_queue [queue_simps]:
  "handleRxSingleFrame d (t\<lparr>rxq := q\<rparr>) = map_option (\<lambda>u. u\<lparr>rxq := q\<rparr>) (handleRxSingleFrame d t)"
  by (auto simp: handleRxSingleFrame_def queue_simps queue_defs Let_def comp_def
      split: option.splits prod.splits Option.bind_splits)

lemma handleRxFirstFrame_queue [queue_simps]:
  "handleRxFirstFrame sel n d (t\<lparr>rxq := q\<rparr>) = map_option (\<lambda>u. u\<lparr>rxq := q\<rparr>) (handleRxFirstFrame sel n d t)"
  by (auto simp: handleRxFirstFrame_def queue_simps queue_defs Let_def comp_def
      split: option.splits prod.splits Option.bind_splits)

lemma handleRxConsecutiveFrame_queue [queue_simps]:
  "handleRxConsecutiveFrame sel n d (t\<lparr>rxq := q\<rparr>) =
     map_option (\<lambda>u. u\<lparr>rxq := q\<rparr>) (handleRxConsecutiveFrame sel n d t)"
  by (auto simp: handleRxConsecutiveFrame_def queue_simps queue_defs Let_def comp_def
      split: option.splits prod.splits Option.bind_splits)

lemma initiateTx_queue [queue_simps]:
  "initiateTx sel d (t\<lparr>rxq := q\<rparr>) = map_option (\<lambda>u. u\<lparr>rxq := q\<rparr>) (initiateTx sel d t)"
  by (auto simp: initiateTx_def queue_simps queue_defs Let_def comp_def
      split: option.splits prod.splits Option.bind_splits sum.splits)

lemma handleTxFlowControl_queue [queue_simps]:
  "handleTxFlowControl s bs st (t\<lparr>rxq := q\<rparr>) =
     map_option (\<lambda>u. u\<lparr>rxq := q\<rparr>) (handleTxFlowControl s bs st t)"
  by (auto simp: handleTxFlowControl_def queue_simps queue_defs Let_def comp_def
      split: option.splits prod.splits Option.bind_splits)

lemma handleTxTransmit_queue [queue_simps]:
  "handleTxTransmit sel (t\<lparr>rxq := q\<rparr>) = map_option (\<lambda>u. u\<lparr>rxq := q\<rparr>) (handleTxTransmit sel t)"
  by (auto simp: handleTxTransmit_def queue_simps queue_defs Let_def comp_def
      split: option.splits prod.splits Option.bind_splits sum.splits)

lemma processRx_queue [queue_simps]:
  "processRx sel m (t\<lparr>rxq := q\<rparr>) = map_option (\<lambda>u. u\<lparr>rxq := q\<rparr>) (processRx sel m t)"
  by (auto simp: processRx_def queue_simps queue_defs Let_def comp_def
      split: option.splits prod.splits sum.splits Option.bind_splits PDU.splits)

lemma processRx_keeps:
  assumes "processRx sel m (t\<lparr>rxq := q\<rparr>) = Some t'"
  shows "rxq t' = q"
  using assms by (auto simp: processRx_queue)

lemma queue_same: "t\<lparr>rxq := rxq t\<rparr> = t"
  by (cases t) simp

lemma queue_fixed:
  assumes "m = map_option (\<lambda>u. u\<lparr>rxq := q\<rparr>) m" "m = Some t'"
  shows "rxq t' = q"
proof -
  have "t' = t'\<lparr>rxq := q\<rparr>" using assms by simp
  then have "rxq t' = rxq (t'\<lparr>rxq := q\<rparr>)" by (rule arg_cong)
  then show ?thesis by simp
qed

lemma handlers_keep:
  "initiateTx sel d t = Some t' \<Longrightarrow> rxq t' = rxq t"
  "handleTxTransmit sel t = Some t' \<Longrightarrow> rxq t' = rxq t"
  by (rule queue_fixed [OF initiateTx_queue [of sel d "rxq t" t, unfolded queue_same]], assumption,
      rule queue_fixed [OF handleTxTransmit_queue [of sel "rxq t" t, unfolded queue_same]], assumption)

text \<open>So frames may join the end of the queue before or after an event of the run loop.\<close>

definition queue_more :: "linkFrame list \<Rightarrow> session \<Rightarrow> session" where
  "queue_more w t = t\<lparr>rxq := rxq t @ w\<rparr>"

lemma queue_more_ready: "ev_ready ev t \<Longrightarrow> ev_ready ev (queue_more w t)"
  by (cases ev) (simp_all add: ev_ready_def queue_more_def)

lemma queue_more_run:
  assumes "ev \<in> {EvTxData, EvRx, EvTimerTxSTmin}" "ev_ready ev t" "run_step sel ev t = Some t'"
    and "\<not> ch_closed (txDataChan t)"
  shows "run_step sel ev (queue_more w t) = Some (queue_more w t')"
proof -
  from assms(1) consider "ev = EvTxData" | "ev = EvRx" | "ev = EvTimerTxSTmin" by blast
  then show ?thesis
  proof cases
    case 1
    then obtain d ch where r: "chan_recv (txDataChan t) = (Received d, ch)"
      using assms(2,4) by (cases "ch_buf (txDataChan t)") (simp_all add: ev_ready_def chan_recv_def)
    then have "initiateTx sel d (t\<lparr>txDataChan := ch\<rparr>) = Some t'" using assms(3) 1 by (simp add: run_step_def)
    with r 1 show ?thesis
      using handlers_keep(1) [of sel d "t\<lparr>txDataChan := ch\<rparr>" t']
      by (simp add: run_step_def queue_more_def update_queue initiateTx_queue)
  next
    case 2
    then obtain m q where q: "rxq t = m # q" using assms(2) by (cases "rxq t") (simp_all add: ev_ready_def)
    then have p: "processRx sel m (t\<lparr>rxq := q\<rparr>) = Some t'" using assms(3) 2 by (simp add: run_step_def)
    then obtain u where u: "processRx sel m t = Some u" "t' = u\<lparr>rxq := q\<rparr>"
      by (auto simp: processRx_queue)
    with q 2 show ?thesis by (simp add: run_step_def queue_more_def processRx_queue)
  next
    case 3
    define u where "u = t\<lparr>timerTxSTmin := None\<rparr>"
    have t: "run_step sel ev t = (if txState u \<noteq> stateTransmit then Some u else handleTxTransmit sel u)"
      "run_step sel ev (queue_more w t) = (if txState u \<noteq> stateTransmit then Some (queue_more w u)
         else handleTxTransmit sel (queue_more w u))"
      using 3 update_queue(18) [of "\<lambda>_. None" "rxq t @ w" t]
      by (simp_all only: run_step_def u_def queue_more_def Let_def event.case) simp_all
    show ?thesis
    proof (cases "txState u = stateTransmit")
      case True
      then have h: "handleTxTransmit sel u = Some t'" using t(1) assms(3) by simp
      from h True t(2) handlers_keep(2) [OF h] show ?thesis
        by (simp add: queue_more_def handleTxTransmit_queue)
    next
      case False
      with t assms(3) show ?thesis by simp
    qed
  qed
qed

section \<open>Sessions on the link\<close>

text \<open>
  A node: the session, and the endpoint whose subscription it reads. A sender goes on only while the
  subscription of the other session has room: the pumps keep pace. That a subscription without
  room loses the frame is \<open>Send_delivers\<close> of Memory_Bus.
\<close>

type_synonym node = "session \<times> endpoint"

inductive net_step :: "nat \<Rightarrow> nat \<Rightarrow> node \<times> node \<Rightarrow> node \<times> node \<Rightarrow> bool" for ka kb where
  RunA: "ev \<in> {EvTxData, EvRx, EvTimerTxSTmin} \<Longrightarrow> ev_ready ev a \<Longrightarrow> run_step True ev a = Some a' \<Longrightarrow>
    net_step ka kb ((a, ea), nb) ((a', ea), nb)"
| RunB: "ev \<in> {EvTxData, EvRx, EvTimerTxSTmin} \<Longrightarrow> ev_ready ev b \<Longrightarrow> run_step True ev b = Some b' \<Longrightarrow>
    net_step ka kb (na, (b, eb)) (na, (b', eb))"
| SendA: "txq a = m # ms \<Longrightarrow> to_can_frame (cfg_BRS (ep_Config ea)) m = Inr f \<Longrightarrow>
    chan_room (ep_chans eb ! kb) \<Longrightarrow>
    ep_Send CtxLive CtxLive pick f (ea, Some eb) = Some ((ea', Some eb'), r) \<Longrightarrow>
    sender_step (cfg_BRS (ep_Config ea)) (\<lambda>_. r) a = Some a' \<Longrightarrow>
    net_step ka kb ((a, ea), (b, eb)) ((a', ea'), (b, eb'))"
| SendB: "txq b = m # ms \<Longrightarrow> to_can_frame (cfg_BRS (ep_Config eb)) m = Inr f \<Longrightarrow>
    chan_room (ep_chans ea ! ka) \<Longrightarrow>
    ep_Send CtxLive CtxLive pick f (eb, Some ea) = Some ((eb', Some ea'), r) \<Longrightarrow>
    sender_step (cfg_BRS (ep_Config eb)) (\<lambda>_. r) b = Some b' \<Longrightarrow>
    net_step ka kb ((a, ea), (b, eb)) ((a, ea'), (b', eb'))"
| PumpA: "ep_recv ka ea = (Received f, ea') \<Longrightarrow> net_step ka kb ((a, ea), nb) ((pump f a, ea'), nb)"
| PumpB: "ep_recv kb eb = (Received f, eb') \<Longrightarrow> net_step ka kb (na, (b, eb)) (na, (pump f b, eb'))"

text \<open>The session as it will be when every frame that waits in its subscription has been pumped.\<close>

definition waiting :: "nat \<Rightarrow> endpoint \<Rightarrow> linkFrame list" where
  "waiting k e = List.map_filter fromCANFrame (ch_buf (ep_chans e ! k))"

definition settled :: "nat \<Rightarrow> node \<Rightarrow> session" where
  "settled k n = queue_more (waiting k (snd n)) (fst n)"

definition backlog :: "nat \<Rightarrow> endpoint \<Rightarrow> nat" where
  "backlog k e = length (ch_buf (ep_chans e ! k))"

definition listening :: "nat \<Rightarrow> endpoint \<Rightarrow> bool" where
  "listening k e \<longleftrightarrow> ep_inv e \<and> ep_opened e \<and> k \<in> set (ep_subs e) \<and> 0 < ch_cap (ep_chans e ! k)"

lemma settled_pump:
  assumes "ep_recv k e = (Received f, e')" "listening k e"
  shows "settled k (pump f t, e') = settled k (t, e) \<and> backlog k e = Suc (backlog k e') \<and>
    listening k e' \<and> ep_cfg e' = ep_cfg e"
proof -
  obtain fs where b: "ch_buf (ep_chans e ! k) = f # fs"
    "e' = e\<lparr>ep_chans := (ep_chans e)[k := (ep_chans e ! k)\<lparr>ch_buf := fs, ch_parked := ch_parked (ep_chans e ! k) - 1\<rparr>]\<rparr>"
    using assms(1) by (cases "ch_buf (ep_chans e ! k)") (auto simp: ep_recv_def chan_recv_def split: if_splits)
  have k: "k < length (ep_chans e)" using assms(2) by (simp add: listening_def ep_inv_def subs_ok_def)
  have "ep_inv e'" using ep_recv_inv [of e k] assms by (simp add: listening_def)
  with b k assms(2) show ?thesis
    by (cases "fromCANFrame f")
       (simp_all add: settled_def waiting_def queue_more_def pump_def backlog_def listening_def map_filter_simps)
qed

lemma listening_nth: "listening k e \<Longrightarrow> k < length (ep_chans e) \<and> \<not> ch_closed (ep_chans e ! k)"
  by (simp add: listening_def ep_inv_def subs_ok_def)

text \<open>A dispatch to an endpoint that listens.\<close>

lemma settled_dispatch:
  assumes "listening k e" "ep_chans e' = deliver_to g (ep_subs e) (ep_chans e)"
    and "ep_inv e'" "ep_opened e'" "ep_subs e' = ep_subs e"
  shows "listening k e'" "backlog k e' \<le> Suc (backlog k e)"
    "fromCANFrame g = None \<Longrightarrow> settled k (t, e') = settled k (t, e)"
    "chan_room (ep_chans e ! k) \<Longrightarrow> settled k (t, e') = pump g (settled k (t, e))"
proof -
  have k: "ep_chans e' ! k = offered g (ep_chans e ! k)"
    using assms listening_nth [OF assms(1)] by (simp add: nth_deliver_to listening_def)
  show "listening k e'" using assms k by (simp add: listening_def)
  show "backlog k e' \<le> Suc (backlog k e)" using k by (simp add: backlog_def offered_buf)
  show "fromCANFrame g = None \<Longrightarrow> settled k (t, e') = settled k (t, e)"
    using k by (simp add: settled_def waiting_def offered_buf map_filter_def)
  show "chan_room (ep_chans e ! k) \<Longrightarrow> settled k (t, e') = pump g (settled k (t, e))"
    using k by (simp add: settled_def waiting_def offered_buf map_filter_def pump_def queue_more_def
        split: option.split)
qed

lemma ep_Send_live:
  assumes "listening k e" "listening k' p" "Frame_Validate f = Inr ()"
    and "f_FD f \<longrightarrow> cfg_Mode (ep_cfg e) = FD"
  obtains e' p' where "\<And>pick. ep_Send CtxLive CtxLive pick f (e, Some p) = Some ((e', Some p'), None)"
    "ep_chans p' = deliver_to (over_the_link f) (ep_subs p) (ep_chans p)"
    "ep_inv p'" "ep_opened p'" "ep_subs p' = ep_subs p" "ep_cfg p' = ep_cfg p"
    "ep_chans e' = (if cfg_IncludeTxEcho (ep_cfg e)
       then deliver_to (f\<lparr>f_Direction := Transmit\<rparr>) (ep_subs e) (ep_chans e) else ep_chans e)"
    "ep_inv e'" "ep_opened e'" "ep_subs e' = ep_subs e" "ep_cfg e' = ep_cfg e"
proof -
  let ?rx = "over_the_link f" and ?tx = "f\<lparr>f_Direction := Transmit\<rparr>"
  let ?p = "p\<lparr>ep_chans := deliver_to ?rx (ep_subs p) (ep_chans p),
    ep_dropped := ep_dropped p + word_of_nat (full_count (ep_subs p) (ep_chans p))\<rparr>"
  let ?e = "e\<lparr>ep_frames := ep_frames e + 1\<rparr>"
  let ?e2 = "?e\<lparr>ep_chans := deliver_to ?tx (ep_subs e) (ep_chans e),
    ep_dropped := ep_dropped e + word_of_nat (full_count (ep_subs e) (ep_chans e))\<rparr>"
  have o: "ep_inv e" "ep_opened e" "ep_inv p" "ep_opened p" "\<not> ep_closed e"
    using assms(1,2) by (auto simp: listening_def ep_inv_def)
  have i1: "ep_inv ?e" using o by (simp add: ep_inv_def)
  have d1: "ep_dispatch CtxLive pick ?rx p = Some (?p, None)" for pick
    using ep_dispatch_live [OF o(3,4)] .
  have d2: "ep_dispatch CtxLive pick ?tx ?e = Some (?e2, None)" for pick
    using ep_dispatch_live [OF i1] o by simp
  have inv: "ep_inv ?p" "ep_inv ?e2"
    using ep_dispatch_total [OF o(3), of CtxLive "\<lambda>_. False" ?rx] d1
      ep_dispatch_total [OF i1, of CtxLive "\<lambda>_. False" ?tx] d2 by auto
  have m: "\<not> (cfg_Mode (ep_cfg e) = Classic \<and> f_FD f)" using assms(4) by (auto simp: FD_def Classic_def)
  have s: "ep_Send CtxLive CtxLive pick f (e, Some p) =
      Some ((if cfg_IncludeTxEcho (ep_cfg e) then ?e2 else ?e, Some ?p), None)" for pick
    using o m assms(3) d1 [of pick] d2 [of pick] by (simp add: ep_Send_def Let_def over_the_link_def)
  show ?thesis by (rule that [OF s]) (use o inv i1 in auto)
qed

lemma send_moves:
  assumes l: "listening k e" "listening k' p" and t: "txq_ok t" "fd t \<longrightarrow> cfg_Mode (ep_cfg e) = FD"
    and m: "txq t = m # ms" "to_can_frame (cfg_BRS (ep_Config e)) m = Inr f"
    and room: "chan_room (ep_chans p ! k')"
  obtains e' p' where "\<And>pick. ep_Send CtxLive CtxLive pick f (e, Some p) = Some ((e', Some p'), None)"
    "sender_step (cfg_BRS (ep_Config e)) (\<lambda>_. None) t = Some (t\<lparr>txq := ms\<rparr>)"
    "listening k e'" "listening k' p'" "ep_cfg e' = ep_cfg e" "ep_cfg p' = ep_cfg p"
    "settled k (t\<lparr>txq := ms\<rparr>, e') = (settled k (t, e))\<lparr>txq := ms\<rparr>"
    "settled k' (u, p') = pump (over_the_link f) (settled k' (u, p))"
    "backlog k e' + backlog k' p' \<le> Suc (Suc (backlog k e + backlog k' p))"
proof -
  have fit: "frame_fits t m" using t(1) m(1) by (simp add: txq_ok_def)
  note f = to_can_frame_fits [OF fit, of "cfg_BRS (ep_Config e)", unfolded m(2), simplified]
  have v: "Frame_Validate f = Inr ()"
    unfolding f by (rule built_frame_Validate)
      (use fit in \<open>auto simp: frame_fits_def frame_limits_ok_def frameDataLength_def\<close>)
  have mode: "f_FD f \<longrightarrow> cfg_Mode (ep_cfg e) = FD"
    using fit t(2) by (simp add: f built_frame_def frame_fits_def)
  have echo: "fromCANFrame (f\<lparr>f_Direction := Transmit\<rparr>) = None" by (simp add: fromCANFrame_def)
  from l v mode show ?thesis
  proof (rule ep_Send_live)
    fix e' p'
    assume s: "\<And>pick. ep_Send CtxLive CtxLive pick f (e, Some p) = Some ((e', Some p'), None)"
      and p: "ep_chans p' = deliver_to (over_the_link f) (ep_subs p) (ep_chans p)"
        "ep_inv p'" "ep_opened p'" "ep_subs p' = ep_subs p" "ep_cfg p' = ep_cfg p"
      and e: "ep_chans e' = (if cfg_IncludeTxEcho (ep_cfg e)
         then deliver_to (f\<lparr>f_Direction := Transmit\<rparr>) (ep_subs e) (ep_chans e) else ep_chans e)"
        "ep_inv e'" "ep_opened e'" "ep_subs e' = ep_subs e" "ep_cfg e' = ep_cfg e"
    note dp = settled_dispatch [OF l(2) p(1-4)]
    have de: "listening k e' \<and> backlog k e' \<le> Suc (backlog k e) \<and> settled k (t, e') = settled k (t, e)"
    proof (cases "cfg_IncludeTxEcho (ep_cfg e)")
      case True
      then have "ep_chans e' = deliver_to (f\<lparr>f_Direction := Transmit\<rparr>) (ep_subs e) (ep_chans e)" using e by simp
      from settled_dispatch [OF l(1) this e(2-4)] echo show ?thesis by blast
    next
      case False
      then show ?thesis using e l(1) by (simp add: listening_def backlog_def settled_def waiting_def)
    qed
    have q: "settled k (t\<lparr>txq := ms\<rparr>, e') = (settled k (t, e'))\<lparr>txq := ms\<rparr>"
      by (simp add: settled_def queue_more_def)
    show ?thesis
      by (rule that [OF s _ _ dp(1) e(5) p(5) _ dp(4) [OF room]])
         (use m de q dp(2) in \<open>simp_all add: sender_step_def\<close>)
  qed
qed

section \<open>The simulation\<close>

definition on_link :: "Config \<Rightarrow> nat \<Rightarrow> node \<Rightarrow> bool" where
  "on_link cfg k n \<longleftrightarrow> listening k (snd n) \<and> ep_cfg (snd n) = cfg"

lemma settled_simps [simp]:
  "txq (settled k n) = txq (fst n)" "runDone (settled k n) = runDone (fst n)"
  "txDataChan (settled k n) = txDataChan (fst n)" "fd (settled k n) = fd (fst n)"
  "txq_ok (settled k n) = txq_ok (fst n)"
  by (simp_all add: settled_def queue_more_def txq_ok_def frame_fits_def)

definition backlogs :: "nat \<Rightarrow> nat \<Rightarrow> node \<times> node \<Rightarrow> nat" where
  "backlogs ka kb s = backlog ka (snd (fst s)) + backlog kb (snd (snd s))"

text \<open>A step of the two nodes is a step of the settled sessions, or a pump taking a frame.\<close>

definition simulates :: "Config \<Rightarrow> nat \<Rightarrow> nat \<Rightarrow> node \<times> node \<Rightarrow> node \<times> node \<Rightarrow> bool" where
  "simulates cfg ka kb s s' \<longleftrightarrow> on_link cfg ka (fst s') \<and> on_link cfg kb (snd s') \<and>
     (settled ka (fst s') = settled ka (fst s) \<and> settled kb (snd s') = settled kb (snd s) \<and>
        Suc (backlogs ka kb s') = backlogs ka kb s \<or>
      xfer_step (cfg_BRS cfg) (settled ka (fst s), settled kb (snd s))
        (settled ka (fst s'), settled kb (snd s')) \<and>
        backlogs ka kb s' \<le> backlogs ka kb s + 2)"

lemma settled_run:
  assumes "ev \<in> {EvTxData, EvRx, EvTimerTxSTmin}" "ev_ready ev t" "run_step True ev t = Some t'"
    and "\<not> ch_closed (txDataChan t)"
  shows "ev_ready ev (settled k (t, e))" "run_step True ev (settled k (t, e)) = Some (settled k (t', e))"
  using queue_more_run [OF assms] queue_more_ready [OF assms(2)] by (simp_all add: settled_def)

lemma net_step_simulates:
  assumes inv: "xinv p a0 b0 (settled ka na) (settled kb nb)" and run: "\<not> runDone a0" "\<not> runDone b0"
    and mode: "fd a0 \<longrightarrow> cfg_Mode cfg = FD" and on: "on_link cfg ka na" "on_link cfg kb nb"
    and step: "net_step ka kb (na, nb) s"
  shows "simulates cfg ka kb (na, nb) s"
proof -
  have po: "pair_ok p a0 b0 (settled ka na) (settled kb nb)" using inv by (simp add: xinv_def)
  have c: "\<not> ch_closed (txDataChan (fst na))" "\<not> ch_closed (txDataChan (fst nb))"
    "txq_ok (fst na)" "txq_ok (fst nb)"
    using po by (simp_all add: pair_ok_def core_ok_def chans_open_def)
  have "fd (fst na) = fd a0" "fd (fst nb) = fd a0"
    using po staticD(4) [of "settled ka na" a0] staticD(4) [of "settled kb nb" b0]
    by (simp_all add: pair_ok_def xfer_setup_def)
  with mode on have fd: "fd (fst na) \<longrightarrow> cfg_Mode (ep_cfg (snd na)) = FD"
    "fd (fst nb) \<longrightarrow> cfg_Mode (ep_cfg (snd nb)) = FD" by (simp_all add: on_link_def)
  from step show ?thesis
  proof cases
    case (RunA ev a a' ea)
    with settled_run [OF RunA(3-5), of ka ea] c xfer_step.RunA [OF RunA(3)] on show ?thesis
      by (simp add: simulates_def on_link_def backlogs_def)
  next
    case (RunB ev b b' eb)
    with settled_run [OF RunB(3-5), of kb eb] c xfer_step.RunB [OF RunB(3)] on show ?thesis
      by (simp add: simulates_def on_link_def backlogs_def)
  next
    case (SendA a m ms ea f eb pick ea' eb' r a' b)
    then have l: "listening ka ea" "listening kb eb" "txq_ok a" "fd a \<longrightarrow> cfg_Mode (ep_cfg ea) = FD"
      using on c fd by (simp_all add: on_link_def)
    from send_moves [OF l SendA(4,5,6), of b] obtain ea1 eb1 where
      s: "\<And>pick. ep_Send CtxLive CtxLive pick f (ea, Some eb) = Some ((ea1, Some eb1), None)"
        "sender_step (cfg_BRS (ep_Config ea)) (\<lambda>_. None) a = Some (a\<lparr>txq := ms\<rparr>)"
        "listening ka ea1" "listening kb eb1" "ep_cfg ea1 = ep_cfg ea" "ep_cfg eb1 = ep_cfg eb"
        "settled ka (a\<lparr>txq := ms\<rparr>, ea1) = (settled ka (a, ea))\<lparr>txq := ms\<rparr>"
        "settled kb (b, eb1) = pump (over_the_link f) (settled kb (b, eb))"
        "backlog ka ea1 + backlog kb eb1 \<le> Suc (Suc (backlog ka ea + backlog kb eb))" by blast
    then have e: "ea' = ea1" "eb' = eb1" "r = None" "a' = a\<lparr>txq := ms\<rparr>" using SendA(7,8) by auto
    have "xfer_step (cfg_BRS cfg) (settled ka (a, ea), settled kb (b, eb))
        (settled ka (a', ea'), settled kb (b, eb'))"
      unfolding e s(7,8) by (rule xfer_step.WireAB [of _ m]) (use SendA on in \<open>simp_all add: on_link_def ep_Config_def\<close>)
    then show ?thesis using SendA(1-3) s on e by (simp add: simulates_def on_link_def backlogs_def)
  next
    case (SendB b m ms eb f ea pick eb' ea' r b' a)
    then have l: "listening kb eb" "listening ka ea" "txq_ok b" "fd b \<longrightarrow> cfg_Mode (ep_cfg eb) = FD"
      using on c fd by (simp_all add: on_link_def)
    from send_moves [OF l SendB(4,5,6), of a] obtain eb1 ea1 where
      s: "\<And>pick. ep_Send CtxLive CtxLive pick f (eb, Some ea) = Some ((eb1, Some ea1), None)"
        "sender_step (cfg_BRS (ep_Config eb)) (\<lambda>_. None) b = Some (b\<lparr>txq := ms\<rparr>)"
        "listening kb eb1" "listening ka ea1" "ep_cfg eb1 = ep_cfg eb" "ep_cfg ea1 = ep_cfg ea"
        "settled kb (b\<lparr>txq := ms\<rparr>, eb1) = (settled kb (b, eb))\<lparr>txq := ms\<rparr>"
        "settled ka (a, ea1) = pump (over_the_link f) (settled ka (a, ea))"
        "backlog kb eb1 + backlog ka ea1 \<le> Suc (Suc (backlog kb eb + backlog ka ea))" by blast
    then have e: "ea' = ea1" "eb' = eb1" "r = None" "b' = b\<lparr>txq := ms\<rparr>" using SendB(7,8) by auto
    have "xfer_step (cfg_BRS cfg) (settled ka (a, ea), settled kb (b, eb))
        (settled ka (a, ea'), settled kb (b', eb'))"
      unfolding e s(7,8) by (rule xfer_step.WireBA [of _ m]) (use SendB on in \<open>simp_all add: on_link_def ep_Config_def\<close>)
    then show ?thesis using SendB(1-3) s on e by (simp add: simulates_def on_link_def backlogs_def)
  next
    case (PumpA ea f ea' a)
    with settled_pump [OF PumpA(3), of a] on show ?thesis
      by (simp add: simulates_def on_link_def backlogs_def)
  next
    case (PumpB eb f eb' b)
    with settled_pump [OF PumpB(3), of b] on show ?thesis
      by (simp add: simulates_def on_link_def backlogs_def)
  qed
qed

lemma net_run:
  assumes start: "xinv p a b a b" "\<not> runDone a" "\<not> runDone b" "fd a \<longrightarrow> cfg_Mode cfg = FD"
    and on: "on_link cfg ka (a, ea)" "on_link cfg kb (b, eb)" "backlog ka ea = 0" "backlog kb eb = 0"
    and "(net_step ka kb ^^ n) ((a, ea), (b, eb)) s"
  shows "on_link cfg ka (fst s) \<and> on_link cfg kb (snd s) \<and>
    (\<exists>m. (xfer_step (cfg_BRS cfg) ^^ m) (a, b) (settled ka (fst s), settled kb (snd s)) \<and>
       n + backlogs ka kb s \<le> 3 * m)"
  using assms(9)
proof (induction n arbitrary: s)
  case 0
  then show ?case
    using on by (auto simp: backlogs_def settled_def waiting_def backlog_def queue_more_def map_filter_simps intro!: exI [of _ 0])
next
  case (Suc n)
  then obtain s1 where s: "(net_step ka kb ^^ n) ((a, ea), (b, eb)) s1" "net_step ka kb s1 s" by auto
  obtain m where IH: "on_link cfg ka (fst s1)" "on_link cfg kb (snd s1)"
    "(xfer_step (cfg_BRS cfg) ^^ m) (a, b) (settled ka (fst s1), settled kb (snd s1))"
    "n + backlogs ka kb s1 \<le> 3 * m"
    using Suc.IH [OF s(1)] by blast
  have x: "xinv p a b (settled ka (fst s1)) (settled kb (snd s1))"
    using xfer_run [OF IH(3) start(1-3)] by blast
  have sim: "simulates cfg ka kb s1 s"
    using net_step_simulates [OF x start(2-4) IH(1,2)] s(2) by simp
  then consider (pumped) "settled ka (fst s) = settled ka (fst s1)" "settled kb (snd s) = settled kb (snd s1)"
      "Suc (backlogs ka kb s) = backlogs ka kb s1"
    | (moved) "xfer_step (cfg_BRS cfg) (settled ka (fst s1), settled kb (snd s1)) (settled ka (fst s), settled kb (snd s))"
      "backlogs ka kb s \<le> backlogs ka kb s1 + 2"
    by (auto simp: simulates_def)
  then show ?case
  proof cases
    case pumped
    with IH(3,4) have "(xfer_step (cfg_BRS cfg) ^^ m) (a, b) (settled ka (fst s), settled kb (snd s)) \<and>
      Suc n + backlogs ka kb s \<le> 3 * m" by simp
    with sim show ?thesis unfolding simulates_def by blast
  next
    case moved
    with IH(3,4) have "(xfer_step (cfg_BRS cfg) ^^ Suc m) (a, b) (settled ka (fst s), settled kb (snd s)) \<and>
      Suc n + backlogs ka kb s \<le> 3 * Suc m" by (auto intro: relpowp_Suc_I)
    with sim show ?thesis unfolding simulates_def by blast
  qed
qed

text \<open>Two nodes go on until the transfer is done and nothing waits.\<close>

lemma pump_ready:
  assumes "listening k e" "backlog k e \<noteq> 0"
  obtains f e' where "ep_recv k e = (Received f, e')"
  using assms by (cases "ch_buf (ep_chans e ! k)") (auto simp: backlog_def ep_recv_def chan_recv_def)

lemma net_progress:
  assumes inv: "xinv p a0 b0 (settled ka na) (settled kb nb)" and run: "\<not> runDone a0" "\<not> runDone b0"
    and mode: "fd a0 \<longrightarrow> cfg_Mode cfg = FD" and on: "on_link cfg ka na" "on_link cfg kb nb"
  shows "ph_done p a0 b0 (settled ka na) (settled kb nb) \<and> settled ka na = fst na \<and> settled kb nb = fst nb \<or>
    (\<exists>s. net_step ka kb (na, nb) s)"
proof -
  obtain a ea b eb where n: "na = (a, ea)" "nb = (b, eb)" by (cases na; cases nb) auto
  have l: "listening ka ea" "listening kb eb" "ep_cfg ea = cfg" "ep_cfg eb = cfg"
    using on n by (simp_all add: on_link_def)
  show ?thesis
  proof (cases "backlog ka ea = 0 \<and> backlog kb eb = 0")
    case False
    with pump_ready [OF l(1)] pump_ready [OF l(2)] net_step.PumpA [of ka ea _ _ kb a "(b, eb)"]
      net_step.PumpB [of kb eb _ _ ka "(a, ea)" b]
    show ?thesis unfolding n by metis
  next
    case True
    then have st: "settled ka na = a" "settled kb nb = b"
      using n by (simp_all add: settled_def waiting_def backlog_def queue_more_def map_filter_simps)
    have room: "chan_room (ep_chans ea ! ka)" "chan_room (ep_chans eb ! kb)"
      using True l by (simp_all add: chan_room_def backlog_def listening_def)
    have po: "pair_ok p a0 b0 a b" using inv st by (simp add: xinv_def)
    have "fd a = fd a0" "fd b = fd a0"
      using po staticD(4) [of a a0] staticD(4) [of b b0] by (simp_all add: pair_ok_def xfer_setup_def)
    then have t: "txq_ok a" "txq_ok b" "fd a \<longrightarrow> cfg_Mode (ep_cfg ea) = FD" "fd b \<longrightarrow> cfg_Mode (ep_cfg eb) = FD"
      using po mode l by (simp_all add: pair_ok_def core_ok_def)
    from xinv_progress [OF inv [unfolded st] run, of "cfg_BRS cfg"] show ?thesis
    proof
      assume "ph_done p a0 b0 a b"
      then show ?thesis using st n by simp
    next
      assume "\<exists>s. xfer_step (cfg_BRS cfg) (a, b) s"
      then obtain s where "xfer_step (cfg_BRS cfg) (a, b) s" ..
      then have "\<exists>s. net_step ka kb ((a, ea), (b, eb)) s"
      proof cases
        case (RunA ev a')
        then show ?thesis using net_step.RunA by blast
      next
        case (RunB ev b')
        then show ?thesis using net_step.RunB by blast
      next
        case (WireAB m ms f)
        then have f: "to_can_frame (cfg_BRS (ep_Config ea)) m = Inr f" using l by (simp add: ep_Config_def)
        from send_moves [OF l(1,2) t(1,3) WireAB(2) f room(2)] show ?thesis
          using net_step.SendA [OF WireAB(2) f room(2)] by metis
      next
        case (WireBA m ms f)
        then have f: "to_can_frame (cfg_BRS (ep_Config eb)) m = Inr f" using l by (simp add: ep_Config_def)
        from send_moves [OF l(2,1) t(2,4) WireBA(2) f room(1)] show ?thesis
          using net_step.SendB [OF WireBA(2) f room(1)] by metis
      qed
      then show ?thesis using n by simp
    qed
  qed
qed

section \<open>Properties\<close>

text \<open>The endpoint of the witness: opened, with the subscription of 100 frames that \<open>New\<close> makes.\<close>

definition demo_endpoint :: endpoint where
  "demo_endpoint = fst (ep_Subscribe 100 (fst (ep_Open CtxLive (fst (Pair_endpoints (DefaultConfig Classic 0))))))"

lemma demo_nodes:
  "on_link (DefaultConfig Classic 0) 0 (t, demo_endpoint)" "backlog 0 demo_endpoint = 0"
proof -
  have n: "Normalized (DefaultConfig Classic 0) = Inr (DefaultConfig Classic 0)"
    by (simp add: Normalized_def DefaultConfig_def FD_def Classic_def timing_validate_def
        timing_IsZero_def fill_defaults_def Let_def Millisecond_def Microsecond_def)
  have "cfg_RxBufferSize (DefaultConfig Classic 0) = 1024" by (simp add: DefaultConfig_def)
  with n have e: "demo_endpoint = (newEndpoint (DefaultConfig Classic 0))
      \<lparr>ep_opened := True, ep_chans := [make_chan 100], ep_subs := [0]\<rparr>"
    by (simp add: demo_endpoint_def Pair_endpoints_def ep_Open_def ep_Subscribe_def newEndpoint_def Let_def)
  have "cfg_RxBufferSize (DefaultConfig Classic 0) \<noteq> 0" by (simp add: DefaultConfig_def)
  then show "on_link (DefaultConfig Classic 0) 0 (t, demo_endpoint)" "backlog 0 demo_endpoint = 0"
    unfolding e
    by (simp_all add: on_link_def listening_def ep_inv_def subs_ok_def newEndpoint_def make_chan_def backlog_def)
qed



end
